(* ===== verification/Pystr.thy ===== *)
theory Pystr
  imports Prelude
begin

text \<open>
  The part of Python's \<open>str\<close> the program uses. A string is the list of its code points;
  \<open>char\<close> has the code points U+0000 to U+00FF, and every operation here is Python's on that
  range: \<open>isspace\<close>, \<open>isdigit\<close> (which accepts the superscripts U+00B2, U+00B3 and U+00B9 that
  \<open>int()\<close> refuses), \<open>lower\<close>, \<open>strip\<close>, \<open>split\<close>, \<open>replace\<close>, \<open>repr\<close>, \<open>int()\<close>.
  The interpreter's limit on the digits of \<open>int()\<close> (4300 by default) is not modelled.
\<close>

section \<open>Characters\<close>

abbreviation BS :: char where "BS \<equiv> CHR 0x5C"
abbreviation NL :: char where "NL \<equiv> CHR 0x0A"
abbreviation SQ :: char where "SQ \<equiv> CHR 0x27"
abbreviation DQ :: char where "DQ \<equiv> CHR 0x22"

text \<open>The two characters \<open>\n\<close> of a shell script, a backslash and an n.\<close>

abbreviation bsn :: string where "bsn \<equiv> [CHR 0x5C, CHR ''n'']"

definition code :: "char \<Rightarrow> nat" where
  "code c = of_char c"

definition py_isspace :: "char \<Rightarrow> bool" where
  "py_isspace c = (let n = code c in
     (9 \<le> n \<and> n \<le> 13) \<or> (28 \<le> n \<and> n \<le> 32) \<or> n = 133 \<or> n = 160)"

definition is_digit :: "char \<Rightarrow> bool" where
  "is_digit c = (48 \<le> code c \<and> code c \<le> 57)"

definition is_lower :: "char \<Rightarrow> bool" where
  "is_lower c = (97 \<le> code c \<and> code c \<le> 122)"

definition is_upper :: "char \<Rightarrow> bool" where
  "is_upper c = (65 \<le> code c \<and> code c \<le> 90)"

definition is_alnum :: "char \<Rightarrow> bool" where
  "is_alnum c = (is_lower c \<or> is_upper c \<or> is_digit c)"

definition char_lower :: "char \<Rightarrow> char" where
  "char_lower c = (let n = code c in
     if (65 \<le> n \<and> n \<le> 90) \<or> (192 \<le> n \<and> n \<le> 222 \<and> n \<noteq> 215) then char_of (n + 32) else c)"

section \<open>Searching, trimming and splitting\<close>

definition py_lower :: "string \<Rightarrow> string" where
  "py_lower s = map char_lower s"

definition py_strip :: "string \<Rightarrow> string" where
  "py_strip s = rev (dropWhile py_isspace (rev (dropWhile py_isspace s)))"

fun starts_with :: "string \<Rightarrow> string \<Rightarrow> bool" where
  "starts_with [] s = True"
| "starts_with (p # ps) [] = False"
| "starts_with (p # ps) (c # cs) = (p = c \<and> starts_with ps cs)"

definition ends_with :: "string \<Rightarrow> string \<Rightarrow> bool" where
  "ends_with p s = starts_with (rev p) (rev s)"

text \<open>\<open>sub in s\<close>\<close>

fun py_in :: "string \<Rightarrow> string \<Rightarrow> bool" where
  "py_in sub [] = (sub = [])"
| "py_in sub (c # cs) = (starts_with sub (c # cs) \<or> py_in sub cs)"

text \<open>\<open>s.split(sep)\<close> for a one-character separator: never the empty list.\<close>

fun py_split :: "char \<Rightarrow> string \<Rightarrow> string list" where
  "py_split sep [] = [[]]"
| "py_split sep (c # cs) =
     (if c = sep then [] # py_split sep cs
      else (case py_split sep cs of [] \<Rightarrow> [[c]] | w # ws \<Rightarrow> (c # w) # ws))"

text \<open>\<open>s.split(sep, 1)\<close> and \<open>s.rsplit(sep, 1)\<close> where \<open>sep\<close> occurs in \<open>s\<close>.\<close>

definition split_first :: "char \<Rightarrow> string \<Rightarrow> string \<times> string" where
  "split_first sep s = (takeWhile (\<lambda>c. c \<noteq> sep) s, drop 1 (dropWhile (\<lambda>c. c \<noteq> sep) s))"

definition split_last :: "char \<Rightarrow> string \<Rightarrow> string \<times> string" where
  "split_last sep s = (let (b, a) = split_first sep (rev s) in (rev a, rev b))"

fun py_join :: "string \<Rightarrow> string list \<Rightarrow> string" where
  "py_join sep [] = []"
| "py_join sep [w] = w"
| "py_join sep (w # v # ws) = w @ sep @ py_join sep (v # ws)"

text \<open>\<open>s.replace(old, new)\<close>: leftmost, non-overlapping; an empty \<open>old\<close> matches everywhere.\<close>

function replace_from :: "string \<Rightarrow> string \<Rightarrow> string \<Rightarrow> string" where
  "replace_from old new s =
     (if s = [] \<or> old = [] then s
      else if starts_with old s then new @ replace_from old new (drop (length old) s)
      else hd s # replace_from old new (tl s))"
  by pat_completeness auto
termination
  by (relation "measure (\<lambda>(old, new, s). length s)") auto

declare replace_from.simps [simp del]

definition py_replace :: "string \<Rightarrow> string \<Rightarrow> string \<Rightarrow> string" where
  "py_replace old new s =
     (if old = [] then new @ concat (map (\<lambda>c. c # new) s) else replace_from old new s)"

text \<open>\<open>re.fullmatch("^[class]+$", s)\<close>\<close>

definition fullmatch_class :: "(char \<Rightarrow> bool) \<Rightarrow> string \<Rightarrow> bool" where
  "fullmatch_class cls s = (s \<noteq> [] \<and> list_all cls s)"

section \<open>Numbers\<close>

definition digit_char :: "nat \<Rightarrow> char" where
  "digit_char n = char_of (48 + n)"

fun show_nat :: "nat \<Rightarrow> string" where
  "show_nat n = (if n < 10 then [digit_char n] else show_nat (n div 10) @ [digit_char (n mod 10)])"

declare show_nat.simps [simp del]

definition show_int :: "int \<Rightarrow> string" where
  "show_int z = (if z < 0 then ''-'' @ show_nat (nat (- z)) else show_nat (nat z))"

definition py_isdigit_char :: "char \<Rightarrow> bool" where
  "py_isdigit_char c = (is_digit c \<or> code c = 178 \<or> code c = 179 \<or> code c = 185)"

definition py_isdigit :: "string \<Rightarrow> bool" where
  "py_isdigit s = (s \<noteq> [] \<and> list_all py_isdigit_char s)"

definition digit_val :: "char \<Rightarrow> nat" where
  "digit_val c = code c - 48"

text \<open>Decimal digits with single underscores between them, as \<open>int()\<close> reads them.\<close>

fun read_digits :: "nat \<Rightarrow> string \<Rightarrow> nat option" where
  "read_digits acc [] = Some acc"
| "read_digits acc (c # cs) =
     (if is_digit c then read_digits (10 * acc + digit_val c) cs
      else if c = CHR ''_'' then
        (case cs of [] \<Rightarrow> None
         | d # ds \<Rightarrow> if is_digit d then read_digits (10 * acc + digit_val d) ds else None)
      else None)"

definition read_nat :: "string \<Rightarrow> nat option" where
  "read_nat s = (case s of [] \<Rightarrow> None
     | c # cs \<Rightarrow> if is_digit c then read_digits (digit_val c) cs else None)"

text \<open>\<open>int(s)\<close>: the white space an all-ASCII string may have around it is C's \<open>isspace\<close>.\<close>

definition int_space :: "string \<Rightarrow> char \<Rightarrow> bool" where
  "int_space s c =
     (if list_all (\<lambda>d. code d < 128) s
      then (9 \<le> code c \<and> code c \<le> 13) \<or> code c = 32
      else py_isspace c)"

definition py_int :: "string \<Rightarrow> int option" where
  "py_int s =
     (let t = rev (dropWhile (int_space s) (rev (dropWhile (int_space s) s))) in
      case t of
        [] \<Rightarrow> None
      | c # cs \<Rightarrow>
          if c = CHR ''-'' then map_option (\<lambda>n. - int n) (read_nat cs)
          else if c = CHR ''+'' then map_option int (read_nat cs)
          else map_option int (read_nat t))"

section \<open>\<open>repr\<close> of a string\<close>

definition hex_digit :: "nat \<Rightarrow> char" where
  "hex_digit n = (if n < 10 then char_of (48 + n) else char_of (87 + n))"

definition py_printable :: "char \<Rightarrow> bool" where
  "py_printable c = (let n = code c in (32 \<le> n \<and> n \<le> 126) \<or> (161 \<le> n \<and> n \<noteq> 173))"

definition repr_char :: "char \<Rightarrow> char \<Rightarrow> string" where
  "repr_char q c =
     (if c = q \<or> c = BS then [BS, c]
      else if c = NL then [BS, CHR ''n'']
      else if code c = 13 then [BS, CHR ''r'']
      else if code c = 9 then [BS, CHR ''t'']
      else if py_printable c then [c]
      else [BS, CHR ''x'', hex_digit (code c div 16), hex_digit (code c mod 16)])"

definition py_repr :: "string \<Rightarrow> string" where
  "py_repr s =
     (let q = (if SQ \<in> set s \<and> DQ \<notin> set s then DQ else SQ)
      in [q] @ concat (map (repr_char q) s) @ [q])"

section \<open>Facts about the string operations\<close>

named_theorems str_simps "computation facts on Python strings"

lemma code_inj: "code a = code b \<longleftrightarrow> a = b"
  by (simp add: code_def)

lemma code_less: "code c < 256"
  by (simp add: code_def)

lemma char_of_code [simp]: "char_of (code c) = c"
  by (simp add: code_def)

lemma code_char_of: "n < 256 \<Longrightarrow> code (char_of n) = n"
  by (simp add: code_def)

lemma alnum_not_space: "is_alnum c \<Longrightarrow> \<not> py_isspace c"
  by (auto simp: is_alnum_def is_lower_def is_upper_def is_digit_def py_isspace_def Let_def)

subsection \<open>Trimming\<close>

lemma set_py_strip: "set (py_strip s) \<subseteq> set s"
  by (auto simp: py_strip_def dest!: set_dropWhileD)

lemma py_strip_nospace: "list_all (\<lambda>c. \<not> py_isspace c) s \<Longrightarrow> py_strip s = s"
proof -
  assume "list_all (\<lambda>c. \<not> py_isspace c) s"
  then have "\<not> list_ex py_isspace s" by (induction s) auto
  then show ?thesis by (simp add: py_strip_def dropWhile_none list_ex_iff)
qed

lemma dropWhile_idem': "dropWhile P (dropWhile P xs) = dropWhile P xs"
  by (induction xs) auto

lemma dropWhile_hd: "dropWhile P xs = y # ys \<Longrightarrow> \<not> P y"
  using hd_dropWhile [of P xs] by auto

lemma py_strip_ends:
  assumes "py_strip s = c # cs"
  shows "\<not> py_isspace c" and "\<not> py_isspace (last (c # cs))"
proof -
  let ?a = "dropWhile py_isspace s"
  let ?b = "dropWhile py_isspace (rev ?a)"
  from assms have b: "rev ?b = c # cs" by (simp add: py_strip_def)
  then have "?b \<noteq> []" by auto
  then obtain y ys where y: "?b = y # ys" by (cases ?b) auto
  have "last (rev ?b) = y" using y by simp
  then have "last (c # cs) = y" using b by simp
  then show "\<not> py_isspace (last (c # cs))" using dropWhile_hd [OF y] by simp
  obtain pre where "rev ?a = pre @ ?b"
    by (metis takeWhile_dropWhile_id)
  then have "?a = rev ?b @ rev pre" by (metis rev_append rev_rev_ident)
  then have "?a = c # (cs @ rev pre)" using b by simp
  then show "\<not> py_isspace c" by (rule dropWhile_hd)
qed

lemma py_strip_fix:
  assumes "s \<noteq> []" "\<not> py_isspace (hd s)" "\<not> py_isspace (last s)"
  shows "py_strip s = s"
proof -
  have 1: "dropWhile py_isspace s = s" using assms by (cases s) auto
  have "dropWhile py_isspace (rev s) = rev s"
  proof (cases "rev s")
    case (Cons x xs)
    then have "s = rev xs @ [x]" by (simp add: rev_eq_Cons_iff)
    then have "last s = x" by simp
    with Cons assms(3) show ?thesis by simp
  qed simp
  with 1 show ?thesis by (simp add: py_strip_def)
qed

lemma py_strip_strip [simp]: "py_strip (py_strip s) = py_strip s"
proof (cases "py_strip s")
  case Nil
  then show ?thesis by (simp only: Nil) (simp add: py_strip_def)
next
  case (Cons c cs)
  then show ?thesis using py_strip_ends [OF Cons] by (metis py_strip_fix list.distinct(1) list.sel(1))
qed

lemma py_strip_class:
  "fullmatch_class cls s \<Longrightarrow> (\<And>c. cls c \<Longrightarrow> \<not> py_isspace c) \<Longrightarrow> py_strip s = s"
  by (rule py_strip_nospace) (auto simp: fullmatch_class_def list_all_iff)

subsection \<open>Prefixes, suffixes and substrings\<close>

lemma starts_with_prefix: "starts_with p s \<longleftrightarrow> prefix p s"
  by (induction p s rule: starts_with.induct) auto

lemma ends_with_suffix: "ends_with p s \<longleftrightarrow> suffix p s"
  by (simp add: ends_with_def starts_with_prefix suffix_to_prefix)

lemma py_in_sublist: "py_in sub s \<longleftrightarrow> sublist sub s"
  by (induction sub s rule: py_in.induct) (auto simp: starts_with_prefix sublist_Cons_right)

lemma py_in_append: "py_in sub (a @ sub @ b)"
  by (simp add: py_in_sublist)

lemma py_in_singleton: "py_in [c] s \<longleftrightarrow> c \<in> set s"
  by (induction s) auto

subsection \<open>Splitting and joining\<close>

lemma py_split_ne [simp]: "py_split sep s \<noteq> []"
  by (induction s) (auto split: list.splits)

lemma py_split_no_sep: "w \<in> set (py_split sep s) \<Longrightarrow> sep \<notin> set w"
  by (induction s arbitrary: w) (auto split: if_splits list.splits)

lemma py_split_chars: "w \<in> set (py_split sep s) \<Longrightarrow> set w \<subseteq> set s"
proof (induction s arbitrary: w)
  case Nil
  then show ?case by simp
next
  case (Cons c cs)
  obtain v vs where v: "py_split sep cs = v # vs" by (cases "py_split sep cs") auto
  show ?case using Cons.prems Cons.IH v by (fastforce split: if_splits)
qed

lemma py_split_word: "sep \<notin> set w \<Longrightarrow> py_split sep w = [w]"
  by (induction w) auto

lemma py_split_append: "sep \<notin> set w \<Longrightarrow> py_split sep (w @ sep # s) = w # py_split sep s"
  by (induction w) auto

lemma py_split_join:
  "ws \<noteq> [] \<Longrightarrow> \<forall>w \<in> set ws. sep \<notin> set w \<Longrightarrow> py_split sep (py_join [sep] ws) = ws"
  by (induction "[sep]" ws rule: py_join.induct) (auto simp: py_split_word py_split_append)

lemma py_join_split: "py_join [sep] (py_split sep s) = s"
proof (induction s)
  case Nil
  then show ?case by simp
next
  case (Cons c cs)
  obtain v vs where v: "py_split sep cs = v # vs" by (cases "py_split sep cs") auto
  then show ?case using Cons by (cases vs) auto
qed

lemma py_join_ne: "ws \<noteq> [] \<Longrightarrow> hd ws \<noteq> [] \<Longrightarrow> py_join sep ws \<noteq> []"
  by (cases ws; cases "tl ws") auto

lemma split_first_eq: "sep \<notin> set a \<Longrightarrow> split_first sep (a @ sep # b) = (a, b)"
  by (induction a) (auto simp: split_first_def)

lemma split_first_parts:
  assumes "sep \<in> set s" "split_first sep s = (a, b)"
  shows "s = a @ sep # b" and "sep \<notin> set a"
proof -
  obtain u v where "s = u @ sep # v" "sep \<notin> set u" using assms(1) by (meson split_list_first)
  then have "a = u" "b = v" using assms(2) split_first_eq [of sep u v] by auto
  with \<open>s = u @ sep # v\<close> \<open>sep \<notin> set u\<close> show "s = a @ sep # b" and "sep \<notin> set a" by auto
qed

lemma split_last_eq: "sep \<notin> set b \<Longrightarrow> split_last sep (a @ sep # b) = (a, b)"
  using split_first_eq [of sep "rev b" "rev a"] by (simp add: split_last_def)

subsection \<open>Decimal numbers\<close>

lemma code_digit_char: "n < 10 \<Longrightarrow> code (digit_char n) = 48 + n"
  by (simp add: digit_char_def code_char_of)

lemma is_digit_digit_char: "n < 10 \<Longrightarrow> is_digit (digit_char n)"
  by (simp add: is_digit_def code_digit_char)

lemma digit_val_digit_char: "n < 10 \<Longrightarrow> digit_val (digit_char n) = n"
  by (simp add: digit_val_def code_digit_char)

lemma show_nat_digits: "list_all is_digit (show_nat n)"
proof (induction n rule: show_nat.induct)
  case (1 n)
  then show ?case by (subst show_nat.simps) (auto simp: is_digit_digit_char)
qed

lemma show_nat_ne [simp]: "show_nat n \<noteq> []"
  by (subst show_nat.simps) simp

lemma read_digits_append:
  "list_all is_digit a \<Longrightarrow> list_all is_digit b \<Longrightarrow>
   read_digits acc (a @ b) = (case read_digits acc a of None \<Rightarrow> None | Some n \<Rightarrow> read_digits n b)"
  by (induction a arbitrary: acc) auto

lemma show_nat_unfold:
  "\<exists>c cs. show_nat n = c # cs \<and> is_digit c \<and> list_all is_digit cs \<and> read_digits (digit_val c) cs = Some n"
proof (induction n rule: show_nat.induct)
  case (1 n)
  show ?case
  proof (cases "n < 10")
    case True
    then show ?thesis by (subst show_nat.simps) (auto simp: is_digit_digit_char digit_val_digit_char)
  next
    case False
    with 1 obtain c cs where c: "show_nat (n div 10) = c # cs" "is_digit c" "list_all is_digit cs"
      "read_digits (digit_val c) cs = Some (n div 10)" by auto
    have "read_digits (digit_val c) (cs @ [digit_char (n mod 10)]) = Some n"
      using c by (simp add: read_digits_append is_digit_digit_char digit_val_digit_char)
    with False c show ?thesis by (subst show_nat.simps) (auto simp: is_digit_digit_char)
  qed
qed

lemma read_nat_show_nat: "read_nat (show_nat n) = Some n"
  using show_nat_unfold [of n] by (auto simp: read_nat_def)

lemma digit_not_int_space: "is_digit c \<Longrightarrow> \<not> int_space s c"
  by (auto simp: is_digit_def int_space_def py_isspace_def Let_def)

lemma digit_not_sign: "is_digit c \<Longrightarrow> c \<noteq> CHR ''-'' \<and> c \<noteq> CHR ''+''"
  by (auto simp: is_digit_def code_def)

lemma py_int_digits:
  assumes "list_all is_digit s" "s \<noteq> []"
  shows "py_int s = map_option int (read_nat s)"
proof -
  have none: "\<not> list_ex (int_space s) s" "\<not> list_ex (int_space s) (rev s)"
    using assms(1) by (auto simp: list_all_iff list_ex_iff digit_not_int_space)
  obtain c cs where s: "s = c # cs" using assms(2) by (cases s) auto
  with assms(1) have "c \<noteq> CHR ''-''" "c \<noteq> CHR ''+''" using digit_not_sign by auto
  then show ?thesis using none s by (simp add: py_int_def Let_def dropWhile_none)
qed

lemma py_int_show_nat: "py_int (show_nat n) = Some (int n)"
  by (simp add: py_int_digits show_nat_digits read_nat_show_nat)

lemma show_int_nonneg: "0 \<le> z \<Longrightarrow> show_int z = show_nat (nat z)"
  by (simp add: show_int_def)

lemma py_int_show_int: "0 \<le> z \<Longrightarrow> py_int (show_int z) = Some z"
  by (simp add: show_int_nonneg py_int_show_nat)

lemma py_isdigit_show_nat: "py_isdigit (show_nat n)"
  using show_nat_digits [of n] by (auto simp: py_isdigit_def list_all_iff py_isdigit_char_def)

section \<open>Replacing a single character\<close>

lemma replace_char:
  "py_replace [q] new s = concat (map (\<lambda>c. if c = q then new else [c]) s)"
proof -
  have "replace_from [q] new s = concat (map (\<lambda>c. if c = q then new else [c]) s)"
  proof (induction s)
    case Nil
    then show ?case by (simp add: replace_from.simps)
  next
    case (Cons c s)
    then show ?case by (cases "c = q"; subst replace_from.simps) simp_all
  qed
  then show ?thesis by (simp add: py_replace_def)
qed

end
