(* ===== verification/Py_Net.thy ===== *)
theory Py_Net
  imports Pystr
begin

text \<open>
  Two pieces of Python's standard library that the policy code calls: \<open>ipaddress.ip_address\<close>
  (only whether it raises) and \<open>shlex.quote\<close>. Also the specification the quoting is proved
  against: how a POSIX shell splits a command line into words and operators (single quotes,
  double quotes without expansions, blanks, \<open>;\<close> and \<open>|\<close>), with every other special
  character refused. The shell itself is not part of the repository; \<open>sh_lex\<close> is a
  specification, no definition of the model uses it.
\<close>

section \<open>\<open>ipaddress.ip_address\<close>\<close>

definition octet_ok :: "string \<Rightarrow> bool" where
  "octet_ok s = (s \<noteq> [] \<and> list_all is_digit s \<and> length s \<le> 3 \<and>
     (s = ''0'' \<or> hd s \<noteq> CHR ''0'') \<and>
     (case read_nat s of None \<Rightarrow> False | Some n \<Rightarrow> n \<le> 255))"

definition ipv4_ok :: "string \<Rightarrow> bool" where
  "ipv4_ok s = (CHR ''/'' \<notin> set s \<and> s \<noteq> [] \<and>
     (let octets = py_split CHR ''.'' s in length octets = 4 \<and> list_all octet_ok octets))"

definition is_hex :: "char \<Rightarrow> bool" where
  "is_hex c = (is_digit c \<or> (97 \<le> code c \<and> code c \<le> 102) \<or> (65 \<le> code c \<and> code c \<le> 70))"

definition hextet_ok :: "string \<Rightarrow> bool" where
  "hextet_ok h = (h \<noteq> [] \<and> list_all is_hex h \<and> length h \<le> 4)"

text \<open>\<open>IPv6Address._ip_int_from_string\<close> after the split at the colons.\<close>

definition ipv6_parts_ok :: "string list \<Rightarrow> bool" where
  "ipv6_parts_ok parts =
     (let n = length parts; skips = filter (\<lambda>i. parts ! i = []) [1..<n - 1] in
      n \<le> 9 \<and>
      (case skips of
         [] \<Rightarrow> n = 8 \<and> list_all hextet_ok parts
       | [k] \<Rightarrow>
           (let hi = (if parts ! 0 = [] then k - 1 else k);
                lo = (if last parts = [] then n - k - 2 else n - k - 1) in
            (parts ! 0 = [] \<longrightarrow> hi = 0) \<and> (last parts = [] \<longrightarrow> lo = 0) \<and> hi + lo < 8 \<and>
            list_all hextet_ok (take hi parts) \<and> list_all hextet_ok (drop (n - lo) parts))
       | _ \<Rightarrow> False))"

definition ipv6_body_ok :: "string \<Rightarrow> bool" where
  "ipv6_body_ok s =
     (s \<noteq> [] \<and>
      (let parts = py_split CHR '':'' s in
       3 \<le> length parts \<and>
       (if CHR ''.'' \<in> set (last parts)
        then ipv4_ok (last parts) \<and> ipv6_parts_ok (butlast parts @ [''0'', ''0''])
        else ipv6_parts_ok parts)))"

definition ipv6_ok :: "string \<Rightarrow> bool" where
  "ipv6_ok s = (CHR ''/'' \<notin> set s \<and>
     (if CHR ''%'' \<in> set s
      then (let (addr, scope) = split_first CHR ''%'' s in
            scope \<noteq> [] \<and> CHR ''%'' \<notin> set scope \<and> ipv6_body_ok addr)
      else ipv6_body_ok s))"

definition ip_address_ok :: "string \<Rightarrow> bool" where
  "ip_address_ok s = (ipv4_ok s \<or> ipv6_ok s)"

section \<open>\<open>shlex.quote\<close>\<close>

definition shlex_safe :: "char \<Rightarrow> bool" where
  "shlex_safe c = (is_alnum c \<or> c \<in> set ''_@%+=:,./-'')"

definition shlex_quote :: "string \<Rightarrow> string" where
  "shlex_quote s =
     (if s = [] then [SQ, SQ]
      else if list_all shlex_safe s then s
      else [SQ] @ py_replace [SQ] [SQ, DQ, SQ, DQ, SQ] s @ [SQ])"

section \<open>Specification: splitting a shell command line\<close>

datatype sh_token = Word string | Op char

datatype sh_mode = Unquoted | InSingle | InDouble

definition sh_blank :: "char \<Rightarrow> bool" where
  "sh_blank c = (c = CHR '' '' \<or> code c = 9)"

definition sh_op :: "char \<Rightarrow> bool" where
  "sh_op c = (c = CHR '';'' \<or> c = CHR ''|'')"

definition sh_special :: "char \<Rightarrow> bool" where
  "sh_special c = (c \<in> {NL, BS, CHR ''&'', CHR ''<'', CHR ''>'', CHR ''('', CHR '')'', CHR ''$'',
     CHR 0x60, CHR ''*'', CHR ''?'', CHR ''#'', CHR ''~'', CHR ''!'', CHR 0x7B, CHR 0x7D, CHR ''^''})"

definition sh_plain :: "char \<Rightarrow> bool" where
  "sh_plain c = (\<not> sh_blank c \<and> \<not> sh_op c \<and> c \<noteq> SQ \<and> c \<noteq> DQ \<and> \<not> sh_special c)"

definition cur_word :: "string option \<Rightarrow> string" where
  "cur_word w = (case w of None \<Rightarrow> [] | Some u \<Rightarrow> u)"

definition end_word :: "string option \<Rightarrow> sh_token list" where
  "end_word w = (case w of None \<Rightarrow> [] | Some u \<Rightarrow> [Word u])"

text \<open>The word under construction, the quoting mode, the rest of the line; \<open>None\<close>: refused.\<close>

fun sh_lex :: "string option \<Rightarrow> sh_mode \<Rightarrow> string \<Rightarrow> sh_token list option" where
  "sh_lex w Unquoted [] = Some (end_word w)"
| "sh_lex w Unquoted (c # cs) =
     (if sh_blank c then map_option (\<lambda>ts. end_word w @ ts) (sh_lex None Unquoted cs)
      else if sh_op c then map_option (\<lambda>ts. end_word w @ Op c # ts) (sh_lex None Unquoted cs)
      else if c = SQ then sh_lex (Some (cur_word w)) InSingle cs
      else if c = DQ then sh_lex (Some (cur_word w)) InDouble cs
      else if sh_special c then None
      else sh_lex (Some (cur_word w @ [c])) Unquoted cs)"
| "sh_lex w InSingle [] = None"
| "sh_lex w InSingle (c # cs) =
     (if c = SQ then sh_lex w Unquoted cs else sh_lex (Some (cur_word w @ [c])) InSingle cs)"
| "sh_lex w InDouble [] = None"
| "sh_lex w InDouble (c # cs) =
     (if c = DQ then sh_lex w Unquoted cs
      else if c \<in> {CHR ''$'', CHR 0x60, BS, CHR ''!''} then None
      else sh_lex (Some (cur_word w @ [c])) InDouble cs)"

definition shell_tokens :: "string \<Rightarrow> sh_token list option" where
  "shell_tokens s = sh_lex None Unquoted s"

section \<open>What an accepted address looks like\<close>

definition ip_char :: "char \<Rightarrow> bool" where
  "ip_char c = (is_hex c \<or> c = CHR '':'' \<or> c = CHR ''.'')"

definition dotdot :: string where "dotdot = ''..''"

lemma octet_chars: "octet_ok s \<Longrightarrow> s \<noteq> [] \<and> list_all is_digit s"
  by (simp add: octet_ok_def)

lemma join_chars:
  "c \<in> set (py_join [d] ws) \<Longrightarrow> c = d \<or> (\<exists>w \<in> set ws. c \<in> set w)"
  by (induction "[d]" ws rule: py_join.induct) auto

lemma split_chars: "c \<in> set s \<Longrightarrow> c = d \<or> (\<exists>w \<in> set (py_split d s). c \<in> set w)"
  using join_chars [of c d "py_split d s"] by (simp add: py_join_split)

text \<open>Two adjacent separators leave an empty piece between them.\<close>

lemma double_sep_split:
  assumes "sublist [d, d] s"
  shows "[] \<in> set (py_split d s)"
proof -
  obtain a b where s: "s = a @ d # d # b" using assms by (auto simp: sublist_def)
  have "[] \<in> set (tl (py_split d (a @ d # d # b)))"
  proof (induction a)
    case (Cons c a)
    then show ?case by (cases "py_split d (a @ d # d # b)") (auto dest: list.set_sel(2) [rotated])
  qed simp
  then show ?thesis by (cases "py_split d s") (auto simp: s)
qed

text \<open>A stretch without separators stays inside one piece.\<close>

lemma py_split_prefix:
  "sep \<notin> set m \<Longrightarrow> py_split sep (m @ v) = (m @ hd (py_split sep v)) # tl (py_split sep v)"
  by (induction m) auto

lemma py_split_stretch:
  "sep \<notin> set m \<Longrightarrow> \<exists>h \<in> set (py_split sep (u @ m @ v)). sublist m h"
proof (induction u)
  case Nil
  then show ?case by (simp add: py_split_prefix)
next
  case (Cons c u)
  then obtain h where h: "h \<in> set (py_split sep (u @ m @ v))" "sublist m h" by auto
  obtain w ws where w: "py_split sep (u @ m @ v) = w # ws" by (cases "py_split sep (u @ m @ v)") auto
  show ?case
  proof (cases "c = sep")
    case True
    then show ?thesis using h by auto
  next
    case False
    then have "py_split sep ((c # u) @ m @ v) = (c # w) # ws" using w by simp
    moreover have "sublist m w \<or> (\<exists>h \<in> set ws. sublist m h)" using h w by auto
    ultimately show ?thesis by (auto simp: sublist_Cons_right)
  qed
qed

lemma ipv4_chars: "ipv4_ok s \<Longrightarrow> list_all ip_char s \<and> \<not> py_in dotdot s"
proof -
  assume a: "ipv4_ok s"
  then have o: "\<forall>w \<in> set (py_split CHR ''.'' s). octet_ok w"
    by (simp add: ipv4_ok_def Let_def list_all_iff)
  then have "[] \<notin> set (py_split CHR ''.'' s)" using octet_chars by auto
  then have "\<not> py_in dotdot s" using double_sep_split by (auto simp: py_in_sublist dotdot_def)
  moreover have "ip_char c" if "c \<in> set s" for c
  proof -
    from split_chars [OF that, of "CHR ''.''"] o
    have "c = CHR ''.'' \<or> is_digit c" by (auto simp: octet_ok_def list_all_iff)
    then show ?thesis by (auto simp: ip_char_def is_hex_def)
  qed
  ultimately show ?thesis by (simp add: list_all_iff)
qed

lemma hextet_chars: "hextet_ok h \<Longrightarrow> list_all is_hex h"
  by (simp add: hextet_ok_def)

lemma hex_no_dot: "is_hex c \<Longrightarrow> c \<noteq> CHR ''.''"
  by (auto simp: is_hex_def is_digit_def code_def)

lemma hex_piece: "list_all is_hex h \<Longrightarrow> list_all ip_char h \<and> \<not> py_in dotdot h"
proof
  assume h: "list_all is_hex h"
  then show "list_all ip_char h" by (simp add: list_all_iff ip_char_def)
  show "\<not> py_in dotdot h"
  proof
    assume "py_in dotdot h"
    then have "set dotdot \<subseteq> set h" by (simp add: py_in_sublist set_mono_sublist)
    then have "CHR ''.'' \<in> set h" by (simp add: dotdot_def)
    with h show False using hex_no_dot by (auto simp: list_all_iff)
  qed
qed

text \<open>Every accepted piece of an IPv6 address is hexadecimal, the skipped ones being empty.\<close>

lemma ipv6_parts_chars:
  assumes "ipv6_parts_ok parts" "h \<in> set parts"
  shows "list_all is_hex h"
proof -
  let ?n = "length parts"
  obtain i where i: "i < ?n" "h = parts ! i" using assms(2) by (auto simp: in_set_conv_nth)
  define skips where "skips = filter (\<lambda>i. parts ! i = []) [1..<?n - 1]"
  from assms(1) consider
      (none) "skips = []" "list_all hextet_ok parts"
    | (one) k hi lo where "skips = [k]"
        "hi = (if parts ! 0 = [] then k - 1 else k)"
        "lo = (if last parts = [] then ?n - k - 2 else ?n - k - 1)"
        "parts ! 0 = [] \<longrightarrow> hi = 0" "last parts = [] \<longrightarrow> lo = 0"
        "list_all hextet_ok (take hi parts)" "list_all hextet_ok (drop (?n - lo) parts)"
    by (auto simp: ipv6_parts_ok_def Let_def skips_def split: list.splits)
  then show ?thesis
  proof cases
    case none
    then show ?thesis using assms(2) hextet_chars by (auto simp: list_all_iff)
  next
    case one
    have "k \<in> set (filter (\<lambda>i. parts ! i = []) [1..<?n - 1])"
      using one(1) unfolding skips_def by simp
    then have k: "1 \<le> k" "k < ?n - 1" "parts ! k = []" by auto
    have ne: "parts \<noteq> []" using i by auto
    consider (low) "i < hi" | (skip) "i = k" | (high) "?n - lo \<le> i"
      | (first) "i = 0" "parts ! 0 = []" | (last) "i = ?n - 1" "last parts = []"
      using i(1) k one(2,3,4,5) by (fastforce split: if_splits)
    then show ?thesis
    proof cases
      case low
      then have "h \<in> set (take hi parts)" using i by (auto simp: in_set_conv_nth intro: exI [of _ i])
      then show ?thesis using one(6) hextet_chars by (auto simp: list_all_iff)
    next
      case skip
      then show ?thesis using i k by simp
    next
      case high
      then have "parts ! i = drop (?n - lo) parts ! (i - (?n - lo))" using i(1) by simp
      then have "h \<in> set (drop (?n - lo) parts)"
        using i high by (metis diff_less_mono length_drop nth_mem)
      then show ?thesis using one(7) hextet_chars by (auto simp: list_all_iff)
    next
      case first
      then show ?thesis using i by simp
    next
      case last
      then show ?thesis using i ne by (simp add: last_conv_nth)
    qed
  qed
qed

lemma ipv6_body_chars: "ipv6_body_ok s \<Longrightarrow> list_all ip_char s \<and> \<not> py_in dotdot s"
proof -
  assume a: "ipv6_body_ok s"
  define parts where "parts = py_split CHR '':'' s"
  have ne: "parts \<noteq> []" by (simp add: parts_def)
  have pieces: "list_all ip_char h \<and> \<not> py_in dotdot h" if h: "h \<in> set parts" for h
  proof (cases "CHR ''.'' \<in> set (last parts)")
    case True
    then have l: "ipv4_ok (last parts)" and b: "ipv6_parts_ok (butlast parts @ [''0'', ''0''])"
      using a by (auto simp: ipv6_body_ok_def parts_def Let_def)
    from h ne have "h = last parts \<or> h \<in> set (butlast parts)"
      by (metis Un_iff append_butlast_last_id empty_iff empty_set list.set(2) set_append insertE)
    then show ?thesis
    proof
      assume "h \<in> set (butlast parts)"
      then have "list_all is_hex h" by (intro ipv6_parts_chars [OF b]) simp
      then show ?thesis by (rule hex_piece)
    qed (use l ipv4_chars in auto)
  next
    case False
    then have "ipv6_parts_ok parts" using a by (auto simp: ipv6_body_ok_def parts_def Let_def)
    then have "list_all is_hex h" using h by (rule ipv6_parts_chars)
    then show ?thesis by (rule hex_piece)
  qed
  have "ip_char c" if "c \<in> set s" for c
    using split_chars [OF that, of "CHR '':''"] pieces
    by (auto simp: parts_def list_all_iff ip_char_def)
  moreover have "\<not> py_in dotdot s"
  proof
    assume "py_in dotdot s"
    then have "sublist dotdot s" by (simp add: py_in_sublist)
    then obtain u v where s: "s = u @ dotdot @ v" by (auto simp: sublist_def)
    have "\<exists>h \<in> set (py_split CHR '':'' (u @ dotdot @ v)). sublist dotdot h"
      by (rule py_split_stretch) (simp add: dotdot_def)
    then obtain h where "h \<in> set parts" "sublist dotdot h" by (auto simp: parts_def s)
    then show False using pieces by (simp add: py_in_sublist)
  qed
  ultimately show ?thesis by (simp add: list_all_iff)
qed

lemma ip_address_chars:
  assumes "ip_address_ok s" "CHR ''%'' \<notin> set s"
  shows "list_all ip_char s" and "\<not> py_in dotdot s"
  using assms ipv4_chars [of s] ipv6_body_chars [of s] by (auto simp: ip_address_ok_def ipv6_ok_def)

lemma ip_char_not_dash: "ip_char c \<Longrightarrow> c \<noteq> CHR ''-''"
  by (auto simp: ip_char_def is_hex_def is_digit_def code_def)

end
