(* ===== verification/Quoting.thy ===== *)
theory Quoting
  imports Py_Net
begin

text \<open>
  What \<open>shlex.quote\<close> promises its callers, as a locale: quoted text is read back as exactly
  itself, whatever surrounds it. The command builders of the policy rely on these laws only;
  the interpretation at the end discharges them for the model of \<open>shlex.quote\<close> and the shell
  word reader of \<open>Py_Net\<close>.
\<close>

section \<open>How the reader consumes its input\<close>

lemma sh_plain_step:
  "sh_plain c \<Longrightarrow> sh_lex w Unquoted (c # cs) = sh_lex (Some (cur_word w @ [c])) Unquoted cs"
  by (simp add: sh_plain_def)

declare sh_lex.simps(2) [simp del]

lemma sh_lex_plain:
  "list_all sh_plain p \<Longrightarrow> p \<noteq> [] \<Longrightarrow>
   sh_lex w Unquoted (p @ r) = sh_lex (Some (cur_word w @ p)) Unquoted r"
proof (induction p arbitrary: w)
  case Nil
  then show ?case by simp
next
  case (Cons c p)
  then show ?case by (cases "p = []") (auto simp: sh_plain_step cur_word_def)
qed

lemma sh_lex_single:
  "SQ \<notin> set p \<Longrightarrow> sh_lex (Some u) InSingle (p @ SQ # r) = sh_lex (Some (u @ p)) Unquoted r"
  by (induction p arbitrary: u) (auto simp: cur_word_def)

lemma SQ_unquoted: "sh_lex w Unquoted (SQ # cs) = sh_lex (Some (cur_word w)) InSingle cs"
  by (simp add: sh_lex.simps(2) sh_blank_def sh_op_def code_def)

lemma SQ_in_double:
  "sh_lex (Some u) InSingle ([SQ, DQ, SQ, DQ, SQ] @ r) = sh_lex (Some (u @ [SQ])) InSingle r"
  by (simp add: sh_lex.simps(2) sh_blank_def sh_op_def code_def cur_word_def)

lemma sh_lex_quoted:
  "sh_lex (Some u) InSingle (concat (map (\<lambda>c. if c = SQ then [SQ, DQ, SQ, DQ, SQ] else [c]) s) @ SQ # r)
   = sh_lex (Some (u @ s)) Unquoted r"
proof (induction s arbitrary: u)
  case Nil
  then show ?case by simp
next
  case (Cons c s)
  show ?case
  proof (cases "c = SQ")
    case True
    then show ?thesis using Cons [of "u @ [SQ]"] SQ_in_double [of u] by simp
  next
    case False
    then show ?thesis using Cons [of "u @ [c]"] by (simp add: cur_word_def)
  qed
qed

lemma safe_plain: "shlex_safe c \<Longrightarrow> sh_plain c"
  by (auto simp: shlex_safe_def sh_plain_def sh_blank_def sh_op_def sh_special_def
      is_alnum_def is_lower_def is_upper_def is_digit_def code_def)

lemma sh_lex_quote:
  "sh_lex w Unquoted (shlex_quote s @ r) = sh_lex (Some (cur_word w @ s)) Unquoted r"
proof -
  consider "s = []" | "s \<noteq> []" "list_all shlex_safe s" | "s \<noteq> []" "\<not> list_all shlex_safe s"
    by blast
  then show ?thesis
  proof cases
    case 1
    then show ?thesis by (simp add: shlex_quote_def SQ_unquoted)
  next
    case 2
    then have "list_all sh_plain s" by (auto simp: list_all_iff safe_plain)
    with 2 show ?thesis by (simp add: shlex_quote_def sh_lex_plain)
  next
    case 3
    then show ?thesis
      using sh_lex_quoted [of "cur_word w" s r]
      by (simp add: shlex_quote_def SQ_unquoted replace_char)
  qed
qed

section \<open>The interface\<close>

locale word_quoting =
  fixes quote :: "string \<Rightarrow> string"
    and plain :: "char \<Rightarrow> bool"
    and read :: "string option \<Rightarrow> string \<Rightarrow> sh_token list option"
  assumes read_end: "read w [] = Some (end_word w)"
    and read_quote: "read w (quote s @ r) = read (Some (cur_word w @ s)) r"
    and read_plain: "plain c \<Longrightarrow> read w (c # r) = read (Some (cur_word w @ [c])) r"
    and read_blank: "read w (CHR '' '' # r) = map_option (\<lambda>ts. end_word w @ ts) (read None r)"
    and read_op: "read w (CHR '';'' # r) = map_option (\<lambda>ts. end_word w @ Op CHR '';'' # ts) (read None r)"
begin

lemma read_plains:
  "list_all plain p \<Longrightarrow> p \<noteq> [] \<Longrightarrow> read w (p @ r) = read (Some (cur_word w @ p)) r"
proof (induction p arbitrary: w)
  case (Cons c p)
  then show ?case by (cases "p = []") (auto simp: read_plain cur_word_def)
qed simp

text \<open>A word made of plain text directly followed by quoted text, e.g. \<open>NAME=<quoted>\<close>.\<close>

lemma read_prefixed:
  "list_all plain p \<Longrightarrow> read None (p @ quote s @ r) = read (Some (p @ s)) r"
  by (cases "p = []") (simp_all add: read_plains read_quote cur_word_def)

lemma read_word_end: "read (Some u) [] = Some [Word u]"
  by (simp add: read_end end_word_def)

lemma read_word_blank: "read (Some u) (CHR '' '' # r) = map_option (\<lambda>ts. Word u # ts) (read None r)"
  by (simp add: read_blank end_word_def)

lemma read_word_op:
  "read (Some u) (CHR '';'' # r) = map_option (\<lambda>ts. Word u # Op CHR '';'' # ts) (read None r)"
  by (simp add: read_op end_word_def)

lemma read_skip_blank: "read None (CHR '' '' # r) = read None r"
  by (cases "read None r") (simp_all add: read_blank end_word_def)

text \<open>Any argument list, quoted word by word and joined with blanks, is read back unchanged.\<close>

lemma read_quoted_args: "read None (py_join '' '' (map quote ws)) = Some (map Word ws)"
proof (induction ws)
  case (Cons w ws)
  have q: "read None (quote w @ r) = read (Some w) r" for r
    using read_prefixed [of "[]" w r] by simp
  show ?case
  proof (cases ws)
    case Nil
    then show ?thesis using q [of "[]"] by (simp add: read_word_end)
  next
    case (Cons v vs)
    then show ?thesis
      using Cons.IH q [of "'' '' @ py_join '' '' (map quote ws)"] by (simp add: read_word_blank)
  qed
qed (simp add: read_end end_word_def)

lemmas read_rules = read_prefixed read_word_end read_word_blank read_word_op read_skip_blank

end

interpretation sh: word_quoting shlex_quote sh_plain "\<lambda>w s. sh_lex w Unquoted s"
proof unfold_locales
  show "sh_lex w Unquoted (shlex_quote s @ r) = sh_lex (Some (cur_word w @ s)) Unquoted r" for w s r
    by (rule sh_lex_quote)
  show "sh_lex w Unquoted (CHR '' '' # r) = map_option (\<lambda>ts. end_word w @ ts) (sh_lex None Unquoted r)" for w r
    by (simp add: sh_lex.simps(2) sh_blank_def)
  show "sh_lex w Unquoted (CHR '';'' # r)
      = map_option (\<lambda>ts. end_word w @ Op CHR '';'' # ts) (sh_lex None Unquoted r)" for w r
    by (simp add: sh_lex.simps(2) sh_blank_def sh_op_def code_def)
qed (simp_all add: sh_plain_step)

text \<open>
  A decision procedure for the fixed text of a command: a stretch of plain characters up to
  the next blank, separator or quoted argument.
\<close>

lemma sh_plain_word:
  "list_all sh_plain p \<Longrightarrow> p \<noteq> [] \<Longrightarrow> sh_lex None Unquoted (p @ CHR '' '' # r)
   = map_option (\<lambda>ts. Word p # ts) (sh_lex None Unquoted r)"
  using sh.read_plains [of p None "CHR '' '' # r"] sh.read_word_blank [of p r]
  by (simp add: cur_word_def)

end
