(* ===== verification/Mcp_Core.thy ===== *)
theory Mcp_Core
  imports Quoting
begin

text \<open>
  \<open>mcp_server/core.py\<close>: the policy of the OpenWrt SSH MCP server. Every constant, record and
  function of the file, in its order: the host-key policy, the router inventory, the command
  builders, the validators, \<open>require_confirm\<close>, \<open>truncate_output\<close> and \<open>redact\<close>. A Python
  dictionary is the list of its items in insertion order, a set a list used for membership.
  The regular expressions \<open>^[...]+$\<close> are only used with \<open>fullmatch\<close>, so they are predicates on
  the characters.
\<close>

section \<open>Constants\<close>

definition label_char :: "char \<Rightarrow> bool" where
  "label_char c = (is_alnum c \<or> c \<in> set ''_.-'')"

definition host_char :: "char \<Rightarrow> bool" where
  "host_char c = (is_alnum c \<or> c \<in> set ''_.:-'')"

definition profile_char :: "char \<Rightarrow> bool" where
  "profile_char c = (is_alnum c \<or> c \<in> set ''_,.-'')"

definition LABEL_RE :: "string \<Rightarrow> bool" where
  "LABEL_RE s = fullmatch_class label_char s"

definition HOST_RE :: "string \<Rightarrow> bool" where
  "HOST_RE s = fullmatch_class host_char s"

definition PROFILE_RE :: "string \<Rightarrow> bool" where
  "PROFILE_RE s = fullmatch_class profile_char s"

definition TAG_RE :: "string \<Rightarrow> bool" where
  "TAG_RE s = fullmatch_class label_char s"

definition ALLOWED_PROFILES :: "string list" where
  \<open>ALLOWED_PROFILES = [''core'', ''clients'', ''traffic'', ''wifi_mesh'', ''dpi'', ''full'']\<close>

definition ALLOWED_SYSLOG_PROTOCOLS :: "string list" where
  \<open>ALLOWED_SYSLOG_PROTOCOLS = [''udp'', ''tcp'']\<close>

definition DEFAULT_KNOWN_HOSTS_PATH :: string where
  \<open>DEFAULT_KNOWN_HOSTS_PATH = ''/app/known_hosts''\<close>

definition DEFAULT_SETUP_TIMEOUT_SECONDS :: int where
  "DEFAULT_SETUP_TIMEOUT_SECONDS = 600"

definition HOST_KEY_POLICY_REJECT :: string where
  \<open>HOST_KEY_POLICY_REJECT = ''RejectPolicy''\<close>

definition HOST_KEY_POLICY_AUTO_ADD :: string where
  \<open>HOST_KEY_POLICY_AUTO_ADD = ''AutoAddPolicy''\<close>

definition SETUP_TIMEOUT_MESSAGE :: string where
  \<open>SETUP_TIMEOUT_MESSAGE =
     ''openwrt_run_repo_setup timed out while running setup.sh; the router may be partially configured. '' @
     ''Run openwrt_monitoring_status as the next read-only check before rerunning setup or making '' @
     ''additional router changes.''\<close>

definition METRICS_URL_COMMAND :: string where
  \<open>METRICS_URL_COMMAND =
     ''LAN_IP=$(uci -q get network.lan.ipaddr 2>/dev/null); LAN_IP=${LAN_IP%%/*}; LAN_IP=${LAN_IP:-127.0.0.1};'' @
     '' METRICS_URL=http://$LAN_IP:9100/metrics''\<close>

definition SAFE_WIFI_STATUS_COMMAND :: string where
  \<open>SAFE_WIFI_STATUS_COMMAND =
     ''wifi status 2>/dev/null | awk '/"(key|password|passwd|psk|sae_password|wps_pin)"[[:space:]]*:/ '' @
     ''{ sub(/:.*/, ": '' @ [BS] @ ''"[redacted]'' @ [BS] @
     ''","); print; next } { print }' | head -c 12000''\<close>

definition CONNTRACK_SOURCES_COMMAND :: string where
  \<open>CONNTRACK_SOURCES_COMMAND =
     ''printf 'conntrack_cli='; if command -v conntrack >/dev/null 2>&1; then printf 'present'' @ bsn @
     '''; else printf 'missing'' @ bsn @
     '''; fi; printf 'conntrack_cli_rows='; if command -v conntrack >/dev/null 2>&1; then conntrack '' @
     ''-L 2>/dev/null | wc -l; else printf '0'' @ bsn @
     '''; fi; for f in /proc/net/nf_conntrack /proc/net/ip_conntrack; do printf '%s=' "$f"; if [ '' @
     ''-r "$f" ]; then wc -l < "$f" 2>/dev/null; else printf 'unreadable'' @ bsn @
     '''; fi; done; printf 'getHostHints_bytes='; ubus call luci-rpc getHostHints 2>/dev/null | wc '' @
     ''-c; printf 'wireless_status_bytes='; ubus call network.wireless status 2>/dev/null | wc -c''\<close>

definition INODE_SOURCES_COMMAND :: string where
  \<open>INODE_SOURCES_COMMAND =
     ''printf 'df_iP='; if df -iP / >/dev/null 2>&1; then printf 'present'' @ bsn @
     '''; else printf 'unavailable'' @ bsn @
     '''; fi; printf 'stat_bin='; if command -v stat >/dev/null 2>&1; then printf 'present'' @ bsn @
     '''; else printf 'missing'' @ bsn @
     '''; fi; printf 'stat_f_tmp='; if command -v stat >/dev/null 2>&1; then stat -f -c '%c %d' /tmp '' @
     ''2>/dev/null || printf 'unavailable'' @ bsn @ '''; else printf 'unavailable'' @ bsn @
     '''; fi; printf 'mount_overlay='; [ -e /overlay ] && printf 'present'' @ bsn @
     ''' || printf 'missing'' @ bsn @ '''; printf 'mount_tmp='; [ -e /tmp ] && printf 'present'' @
     bsn @ ''' || printf 'missing'' @ bsn @ [SQ]\<close>

definition DIAGNOSTIC_COMMANDS :: "(string \<times> string) list" where
  \<open>DIAGNOSTIC_COMMANDS =
  [(''routes'',
     ''ip route; ip -6 route 2>/dev/null | head -80''),
   (''interfaces'',
     ''ip -brief addr 2>/dev/null || ip addr; printf '' @ [SQ] @ bsn @ ''/proc/net/dev'' @ bsn @
     '''; cat /proc/net/dev''),
   (''wifi'',
     SAFE_WIFI_STATUS_COMMAND @
     ''; printf '' @ [SQ] @ bsn @ '''; iw dev 2>/dev/null''),
   (''dhcp'',
     ''uci -q show dhcp; printf '' @ [SQ] @ bsn @ ''Recent DHCP logs'' @ bsn @
     '''; logread 2>/dev/null | grep -E 'dnsmasq|odhcpd|DHCP' | tail -80''),
   (''firewall_counters'',
     ''nft list counters 2>/dev/null | head -200; printf '' @ [SQ] @ bsn @ ''Ruleset counters'' @ bsn @
     '''; nft list ruleset 2>/dev/null | grep -E 'counter|chain|table' | head -200''),
   (''collector_success'',
     METRICS_URL_COMMAND @
     ''; wget -qO- "$METRICS_URL" 2>/dev/null | grep '^node_scrape_collector_success' | head -120''),
   (''conntrack_sources'',
     CONNTRACK_SOURCES_COMMAND),
   (''disk'',
     ''df -h; printf '' @ [SQ] @ bsn @ ''Inodes'' @ bsn @ '''; df -i 2>/dev/null; printf '' @ [SQ] @
     bsn @ ''Mounts'' @ bsn @ '''; mount''),
   (''inode_sources'',
     INODE_SOURCES_COMMAND),
   (''processes'',
     ''ps; printf '' @ [SQ] @ bsn @ ''Listening sockets'' @ bsn @
     '''; netstat -lntup 2>/dev/null || ss -lntup 2>/dev/null'')]\<close>

definition MONITORING_SERVICE_COMMANDS :: "(string \<times> string) list" where
  \<open>MONITORING_SERVICE_COMMANDS =
  [(''exporter'',
     ''/etc/init.d/prometheus-node-exporter-lua restart''),
   (''log'',
     ''/etc/init.d/log restart''),
   (''cron'',
     ''/etc/init.d/cron restart''),
   (''all'',
     ''/etc/init.d/prometheus-node-exporter-lua restart; /etc/init.d/log restart; /etc/init.d/cron '' @
     ''restart'')]\<close>

section \<open>Data\<close>

record router =
  r_name :: string
  r_host :: string
  r_port :: int

record command_spec =
  command :: string
  timeout_seconds :: int
  mutating :: bool
  description :: string
  timeout_message :: string

text \<open>\<open>CommandSpec(command=c)\<close>, the other fields at their defaults.\<close>

definition CommandSpec :: "string \<Rightarrow> command_spec" where
  "CommandSpec c = \<lparr>command = c, timeout_seconds = 15, mutating = False, description = [],
     timeout_message = []\<rparr>"

record host_key_policy =
  policy :: string
  known_hosts_path :: string
  insecure :: bool

text \<open>An argument that reaches \<open>int(value)\<close>: an integer, a boolean, a string or \<open>None\<close>.\<close>

datatype py_value = PyInt int | PyBool bool | PyStr string | PyNone

fun py_int_of :: "py_value \<Rightarrow> int option" where
  "py_int_of (PyInt n) = Some n"
| "py_int_of (PyBool b) = Some (if b then 1 else 0)"
| "py_int_of (PyStr s) = py_int s"
| "py_int_of PyNone = None"

section \<open>Host keys and the setup timeout\<close>

definition str_or :: "string option \<Rightarrow> string \<Rightarrow> string" where
  "str_or raw d = (case raw of None \<Rightarrow> d | Some s \<Rightarrow> if s = [] then d else s)"

definition env_flag :: "string option \<Rightarrow> bool" where
  "env_flag raw = (py_lower (py_strip (str_or raw [])) \<in> set [''1'', ''true'', ''yes'', ''on''])"

definition resolve_host_key_policy :: "string option \<Rightarrow> string option \<Rightarrow> host_key_policy" where
  "resolve_host_key_policy known insecure_raw =
     (let path = (let p = py_strip (str_or known []) in
                  if p = [] then DEFAULT_KNOWN_HOSTS_PATH else p) in
      if env_flag insecure_raw
      then \<lparr>policy = HOST_KEY_POLICY_AUTO_ADD, known_hosts_path = path, insecure = True\<rparr>
      else \<lparr>policy = HOST_KEY_POLICY_REJECT, known_hosts_path = path, insecure = False\<rparr>)"

definition resolve_setup_timeout_seconds :: "string option \<Rightarrow> int res" where
  "resolve_setup_timeout_seconds raw =
     (let value = py_strip (str_or raw []) in
      if value = [] then Inr DEFAULT_SETUP_TIMEOUT_SECONDS
      else (case py_int value of
              None \<Rightarrow> Inl (PolicyError ''OPENWRT_MCP_SETUP_TIMEOUT must be an integer'')
            | Some n \<Rightarrow>
                if n < 1 then Inl (PolicyError ''OPENWRT_MCP_SETUP_TIMEOUT must be positive'')
                else Inr n))"

definition host_key_failure_message :: "string \<Rightarrow> int \<Rightarrow> string \<Rightarrow> string" where
  "host_key_failure_message host port known =
     ''SSH host key verification failed for '' @ host @ '':'' @ show_int port @
     ''. Add the router key to the operator-managed known_hosts file ('' @ known @
     ''), for example: ssh-keyscan -H '' @ host @
     '' >> known_hosts and mount that file read-only at '' @ known @
     ''. Only on a trusted network, set OPENWRT_MCP_INSECURE_HOST_KEYS=1 to '' @
     ''disable host-key verification (not recommended).''"

section \<open>Validators\<close>

definition validate_interface :: "string \<Rightarrow> string res" where
  "validate_interface value =
     (let v = py_strip value in
      if v = [] \<or> \<not> fullmatch_class host_char v
      then Inl (PolicyError ''interface contains invalid characters'') else Inr v)"

definition validate_host :: "string \<Rightarrow> string res" where
  "validate_host value =
     (let v = py_strip value in
      if v = [] \<or> \<not> HOST_RE v then Inl (PolicyError ''host contains invalid characters'')
      else if CHR ''/'' \<in> set v \<or> CHR ''@'' \<in> set v
      then Inl (PolicyError ''host must be a hostname or IP address, not a network or login string'')
      else if ip_address_ok v then Inr v
      else if py_in ''..'' v \<or> starts_with ''-'' v \<or> ends_with ''-'' v
      then Inl (PolicyError ''invalid hostname'')
      else Inr v)"

definition validate_port :: "py_value \<Rightarrow> int res" where
  "validate_port value =
     (case py_int_of value of
        None \<Rightarrow> Inl (PolicyError ''port must be an integer'')
      | Some port \<Rightarrow>
          if port < 1 \<or> port > 65535
          then Inl (PolicyError ''port must be between 1 and 65535'') else Inr port)"

definition require_confirm :: "bool \<Rightarrow> command_spec \<Rightarrow> unit res" where
  "require_confirm confirm spec =
     (if mutating spec \<and> confirm \<noteq> True
      then Inl (PolicyError ''confirm=true is required for this mutating operation'') else Inr ())"

definition normalize_profile :: "string \<Rightarrow> string res" where
  "normalize_profile prof =
     (let profile = py_strip (if prof = [] then ''core'' else prof) in
      if \<not> PROFILE_RE profile then Inl (PolicyError ''profile contains invalid characters'')
      else
        let parts = filter (\<lambda>p. p \<noteq> []) (map py_strip (py_split CHR '','' profile)) in
        if parts = [] then Inl (PolicyError ''profile must not be empty'')
        else
          let invalid = filter (\<lambda>p. p \<notin> set ALLOWED_PROFILES) parts in
          if invalid \<noteq> [] then Inl (PolicyError (''invalid profile(s): '' @ py_join '', '' invalid))
          else if ''full'' \<in> set parts \<and> length parts > 1
          then Inl (PolicyError ''profile 'full' cannot be combined with other profile names'')
          else Inr (py_join '','' parts))"

section \<open>The router inventory\<close>

definition parse_host_port :: "string \<Rightarrow> (string \<times> int) res" where
  "parse_host_port address =
     (if address = [] then Inl (PolicyError ''router address must not be empty'')
      else
        bindR
          (if count_list address CHR '':'' = 1 then
             (let (maybe_host, maybe_port) = split_last CHR '':'' address in
              if py_isdigit maybe_port then
                (case py_int maybe_port of
                   None \<Rightarrow> Inl (ValueError
                     (''invalid literal for int() with base 10: '' @ py_repr maybe_port))
                 | Some n \<Rightarrow> bindR (validate_port (PyInt n)) (\<lambda>port. Inr (maybe_host, port)))
              else Inr (address, 22))
           else Inr (address, 22))
          (\<lambda>(host, port). bindR (validate_host host) (\<lambda>h. Inr (h, port))))"

definition parse_entry :: "(string \<times> router) list \<Rightarrow> string \<Rightarrow> (string \<times> router) list res" where
  "parse_entry routers raw =
     (let entry = py_strip raw in
      if entry = [] then Inl (PolicyError ''router inventory contains an empty entry'')
      else if CHR ''='' \<notin> set entry
      then Inl (PolicyError (''invalid router entry '' @ py_repr entry @ ''; expected name=host[:port]''))
      else
        let (n, a) = split_first CHR ''='' entry; name = py_strip n; address = py_strip a in
        if \<not> LABEL_RE name then Inl (PolicyError (''invalid router name '' @ py_repr name))
        else
          bindR (parse_host_port address) (\<lambda>(host, port).
            if name \<in> set (map fst routers)
            then Inl (PolicyError (''duplicate router name '' @ py_repr name))
            else Inr (routers @ [(name, \<lparr>r_name = name, r_host = host, r_port = port\<rparr>)])))"

definition parse_router_inventory :: "string \<Rightarrow> (string \<times> router) list res" where
  "parse_router_inventory raw0 =
     (let raw = py_strip raw0 in
      if raw = [] then Inl (PolicyError ''OPENWRT_MCP_ROUTERS must not be empty'')
      else foldR parse_entry [] (py_split CHR '','' raw))"

definition resolve_router :: "(string \<times> router) list \<Rightarrow> string \<Rightarrow> router res" where
  "resolve_router routers name =
     (case map_of routers name of
        Some r \<Rightarrow> Inr r
      | None \<Rightarrow> Inl (PolicyError (''unknown router '' @ py_repr name @ ''; allowed routers: '' @
                 py_join '', '' (sort (map fst routers)))))"

section \<open>Command builders\<close>

definition build_system_facts_command :: command_spec where
  \<open>build_system_facts_command =
     (CommandSpec
       (''printf 'OpenWrt release'' @ bsn @ '''; cat /etc/openwrt_release 2>/dev/null; printf '' @ [SQ] @
        bsn @ ''Kernel'' @ bsn @ '''; uname -a; printf '' @ [SQ] @ bsn @ ''Uptime'' @ bsn @
        '''; uptime; printf '' @ [SQ] @ bsn @ ''Board'' @ bsn @
        '''; cat /tmp/sysinfo/model 2>/dev/null; cat /tmp/sysinfo/board_name 2>/dev/null; ubus call '' @
        ''system board 2>/dev/null | head -c 4096''))
     \<lparr>description := ''Read OpenWrt release, kernel, uptime, and board facts.''\<rparr>\<close>

definition build_monitoring_status_command :: command_spec where
  \<open>build_monitoring_status_command =
     (CommandSpec
       (''printf 'Exporter service'' @ bsn @
        '''; /etc/init.d/prometheus-node-exporter-lua status 2>&1; printf '' @ [SQ] @ bsn @
        ''Exporter UCI'' @ bsn @ '''; uci -q show prometheus-node-exporter-lua; printf '' @ [SQ] @ bsn @
        ''Syslog UCI'' @ bsn @ '''; uci -q show system | grep 'log_'; printf '' @ [SQ] @ bsn @
        ''Cron service'' @ bsn @ '''; /etc/init.d/cron status 2>&1; printf '' @ [SQ] @ bsn @
        ''Metrics health sample'' @ bsn @ '''; '' @
        METRICS_URL_COMMAND @
        ''; wget -qO- "$METRICS_URL" 2>/dev/null | grep -E '^(node_openwrt_info|node_scrape_collector_success|openwrt_.*collector_available)' '' @
        ''| head -80''))
     \<lparr>description := ''Read monitoring service, UCI, cron, and metrics status.''\<rparr>\<close>

definition build_metrics_sample_command :: "int \<Rightarrow> command_spec res" where
  \<open>build_metrics_sample_command limit_lines =
     (if limit_lines < 1 \<or> limit_lines > 500
      then Inl (PolicyError ''limit_lines must be between 1 and 500'')
      else Inr ((CommandSpec
        (METRICS_URL_COMMAND @ ''; wget -qO- "$METRICS_URL" 2>/dev/null | sed -n '1,'' @
         show_int limit_lines @ ''p'' @ [SQ]))
        \<lparr>description := ''Read a bounded local exporter metrics sample.''\<rparr>))\<close>

definition build_diagnostic_command :: "string \<Rightarrow> command_spec res" where
  "build_diagnostic_command kind =
     (case map_of DIAGNOSTIC_COMMANDS kind of
        None \<Rightarrow> Inl (PolicyError (''invalid diagnostic '' @ py_repr kind @ ''; allowed diagnostics: '' @
                 py_join '', '' (sort (map fst DIAGNOSTIC_COMMANDS))))
      | Some cmd \<Rightarrow> Inr ((CommandSpec cmd)
          \<lparr>description := ''Run read-only diagnostic '' @ kind @ ''.''\<rparr>))"

definition build_test_log_command :: "string \<Rightarrow> string \<Rightarrow> command_spec res" where
  "build_test_log_command msg tg =
     (let message = py_strip (if msg = [] then ''test message from OpenWrt SSH MCP'' else msg);
          tag = py_strip (if tg = [] then ''openwrt-ssh-mcp'' else tg) in
      if length message > 240
      then Inl (PolicyError ''log message must be 240 characters or shorter'')
      else if \<not> TAG_RE tag
      then Inl (PolicyError
        ''log tag may contain only letters, digits, underscore, dot, and hyphen'')
      else Inr ((CommandSpec
        (''logger -t '' @ shlex_quote tag @ '' '' @ shlex_quote message))
        \<lparr>mutating := True,
         description := ''Send a bounded test log message through OpenWrt logd.''\<rparr>))"

definition build_restart_monitoring_command :: "string \<Rightarrow> command_spec res" where
  "build_restart_monitoring_command target =
     (case map_of MONITORING_SERVICE_COMMANDS target of
        None \<Rightarrow> Inl (PolicyError (''invalid restart target '' @ py_repr target @ ''; allowed targets: '' @
                 py_join '', '' (sort (map fst MONITORING_SERVICE_COMMANDS))))
      | Some cmd \<Rightarrow> Inr ((CommandSpec cmd)
          \<lparr>timeout_seconds := 30, mutating := True,
           description := ''Restart monitoring service target '' @ target @ ''.''\<rparr>))"

definition build_configure_syslog_command :: "string \<Rightarrow> py_value \<Rightarrow> string \<Rightarrow> command_spec res" where
  "build_configure_syslog_command host0 port0 proto0 =
     bindR (validate_host host0) (\<lambda>host.
     bindR (validate_port port0) (\<lambda>port.
     let proto = py_strip (py_lower proto0) in
     if proto \<notin> set ALLOWED_SYSLOG_PROTOCOLS
     then Inl (PolicyError ''syslog proto must be udp or tcp'')
     else Inr ((CommandSpec
       (''uci set system.@system[0].log_ip='' @ shlex_quote host @
        ''; uci set system.@system[0].log_port='' @ shlex_quote (show_int port) @
        ''; uci set system.@system[0].log_proto='' @ shlex_quote proto @
        ''; uci commit system; /etc/init.d/log restart; uci -q show system | grep 'log_'' @ [SQ]))
       \<lparr>timeout_seconds := 30, mutating := True,
        description := ''Configure OpenWrt remote syslog and restart logd.''\<rparr>)))"

definition build_setup_command ::
  "string \<Rightarrow> string \<Rightarrow> string \<Rightarrow> py_value \<Rightarrow> string \<Rightarrow> int \<Rightarrow> command_spec res" where
  "build_setup_command monitoring_host0 profile0 traffic_lan_interface port0 proto0 timeout =
     bindR (validate_host monitoring_host0) (\<lambda>monitoring_host.
     bindR (validate_port port0) (\<lambda>syslog_port.
     if timeout < 1 then Inl (PolicyError ''setup timeout must be positive'')
     else
     let syslog_proto = py_strip (py_lower proto0) in
     if syslog_proto \<notin> set ALLOWED_SYSLOG_PROTOCOLS
     then Inl (PolicyError ''syslog proto must be udp or tcp'')
     else
     bindR (normalize_profile profile0) (\<lambda>profile.
     let env_parts =
       [''OPENWRT_MONITOR_PROFILE='' @ shlex_quote profile,
        ''SYSLOG_PORT='' @ shlex_quote (show_int syslog_port),
        ''SYSLOG_PROTO='' @ shlex_quote syslog_proto] in
     bindR (if traffic_lan_interface \<noteq> []
            then bindR (validate_interface traffic_lan_interface)
                   (\<lambda>i. Inr (env_parts @ [''TRAFFIC_LAN_INTERFACE='' @ shlex_quote i]))
            else Inr env_parts) (\<lambda>env.
     Inr ((CommandSpec
       (py_join '' '' env @ '' sh /tmp/openwrt/setup.sh '' @ shlex_quote monitoring_host))
       \<lparr>timeout_seconds := timeout, mutating := True,
        description := ''Run this repo's OpenWrt setup script with validated environment.'',
        timeout_message := SETUP_TIMEOUT_MESSAGE\<rparr>)))))"

section \<open>Output\<close>

definition truncate_output :: "string \<Rightarrow> int \<Rightarrow> (string \<times> bool) res" where
  "truncate_output value limit =
     (if limit < 1 then Inl (PolicyError ''output limit must be positive'')
      else if int (length value) \<le> limit then Inr (value, False)
      else Inr (take (nat limit) value @ NL # ''[truncated]'', True))"

definition redact_one :: "string \<Rightarrow> string \<Rightarrow> string" where
  "redact_one secret redacted =
     (if length secret \<ge> 4 then py_replace secret ''[redacted]'' redacted else redacted)"

fun redact :: "string \<Rightarrow> string list \<Rightarrow> string" where
  "redact value [] = value"
| "redact value (secret # secrets) = redact (redact_one secret value) secrets"

end
