(* ===== verification/Redaction.thy ===== *)
theory Redaction
  imports Mcp_Core
begin

text \<open>
  What \<open>redact\<close> guarantees: after it ran over a list of secrets, no secret of at least four
  characters is a substring of the text, provided the secret cannot be spelled across or inside
  the marker \<open>[redacted]\<close> itself. The argument goes through one decomposition lemma of
  \<open>str.replace\<close>: the text is cut at the leftmost match.
\<close>

section \<open>Substrings across a separating character\<close>

lemma sublist_barrier:
  assumes "b \<notin> set q"
  shows "sublist q (x @ b # y) \<longleftrightarrow> sublist q x \<or> sublist q y"
proof
  assume "sublist q (x @ b # y)"
  then consider "sublist q x" | "sublist q (b # y)"
    | u v where "q = u @ v" "suffix u x" "prefix v (b # y)"
    by (auto simp: sublist_append)
  then show "sublist q x \<or> sublist q y"
  proof cases
    case 2
    then show ?thesis using assms by (auto simp: sublist_Cons_right prefix_Cons)
  next
    case 3
    then have "v = []" using assms by (auto simp: prefix_Cons)
    then show ?thesis using 3 by (simp add: suffix_imp_sublist)
  qed simp
next
  assume "sublist q x \<or> sublist q y"
  then show "sublist q (x @ b # y)"
    by (metis append_Cons append_Nil sublist_appendI sublist_append_leftI sublist_append_rightI
        sublist_order.order_trans)
qed

section \<open>Cutting the text at the leftmost match\<close>

lemma replace_from_cut:
  assumes "old \<noteq> []"
  shows "(\<not> sublist old s \<and> replace_from old new s = s) \<or>
    (\<exists>a b. s = a @ old @ b \<and> \<not> sublist old a \<and>
           replace_from old new s = a @ new @ replace_from old new b)"
proof (induction s)
  case Nil
  show ?case using assms by (subst replace_from.simps) simp
next
  case (Cons c s)
  show ?case
  proof (cases "starts_with old (c # s)")
    case True
    then obtain b where b: "c # s = old @ b" by (auto simp: starts_with_prefix prefix_def)
    then have "replace_from old new (c # s) = new @ replace_from old new b"
      using True assms by (subst replace_from.simps) (simp add: b)
    then have "\<exists>a b. c # s = a @ old @ b \<and> \<not> sublist old a \<and>
        replace_from old new (c # s) = a @ new @ replace_from old new b"
      using assms b by (intro exI [of _ "[]"] exI [of _ b]) simp
    then show ?thesis ..
  next
    case False
    then have step: "replace_from old new (c # s) = c # replace_from old new s"
      using assms by (subst replace_from.simps) simp
    from False have np: "\<not> prefix old (c # s)" by (simp add: starts_with_prefix)
    from Cons.IH show ?thesis
    proof
      assume "\<not> sublist old s \<and> replace_from old new s = s"
      then show ?thesis using np step by (simp add: sublist_Cons_right)
    next
      assume "\<exists>a b. s = a @ old @ b \<and> \<not> sublist old a \<and>
        replace_from old new s = a @ new @ replace_from old new b"
      then obtain a b where ab: "s = a @ old @ b" "\<not> sublist old a"
        "replace_from old new s = a @ new @ replace_from old new b" by blast
      have "\<not> prefix old (c # a)"
      proof
        assume "prefix old (c # a)"
        then have "prefix old ((c # a) @ old @ b)" by (rule prefix_prefix)
        then have "prefix old (c # s)" using ab(1) by simp
        with np show False ..
      qed
      then have "\<not> sublist old (c # a)" using ab(2) by (simp add: sublist_Cons_right)
      then show ?thesis using ab step by (metis append_Cons)
    qed
  qed
qed

text \<open>A replacement fenced by two characters the text \<open>q\<close> does not have cannot create \<open>q\<close>.\<close>

lemma replace_from_fenced:
  assumes old: "old \<noteq> []"
    and fence: "new = l # mid @ [r]" "l \<notin> set q" "r \<notin> set q" "\<not> sublist q mid"
    and q: "\<not> sublist q s \<or> q = old"
  shows "\<not> sublist q (replace_from old new s)"
  using q
proof (induction s rule: measure_induct_rule [of length])
  case (less s)
  from replace_from_cut [OF old, of s new] show ?case
  proof
    assume "\<not> sublist old s \<and> replace_from old new s = s"
    then show ?thesis using less.prems by auto
  next
    assume "\<exists>a b. s = a @ old @ b \<and> \<not> sublist old a \<and>
        replace_from old new s = a @ new @ replace_from old new b"
    then obtain a b where ab: "s = a @ old @ b" "\<not> sublist old a"
      "replace_from old new s = a @ new @ replace_from old new b" by blast
    have "length b < length s" using ab(1) old by simp
    moreover have "sublist b s" unfolding ab(1) using sublist_appendI [of b "a @ old" "[]"] by simp
    then have "\<not> sublist q b \<or> q = old" using less.prems sublist_order.order_trans by blast
    ultimately have "\<not> sublist q (replace_from old new b)" by (rule less.IH)
    moreover have "sublist a s" unfolding ab(1) using sublist_appendI [of a "[]" "old @ b"] by simp
    then have "\<not> sublist q a" using less.prems ab(2) sublist_order.order_trans by blast
    ultimately show ?thesis
      using fence(4) sublist_barrier [OF fence(2)] sublist_barrier [OF fence(3)]
      by (simp only: ab(3)) (simp add: fence(1))
  qed
qed

section \<open>Redaction\<close>

text \<open>
  A secret that the marker cannot spell: no bracket in it and not part of the word "redacted".
\<close>

definition markable :: "string \<Rightarrow> bool" where
  "markable s = (4 \<le> length s \<and> CHR ''['' \<notin> set s \<and> CHR '']'' \<notin> set s \<and> \<not> py_in s ''redacted'')"

lemma redact_one_free:
  assumes q: "markable q" and "\<not> py_in q s \<or> q = secret"
  shows "\<not> py_in q (redact_one secret s)"
proof (cases "length secret \<ge> 4")
  case True
  then have "secret \<noteq> []" by auto
  have "\<not> sublist q (replace_from secret ''[redacted]'' s)"
  proof (rule replace_from_fenced [OF \<open>secret \<noteq> []\<close>])
    show "''[redacted]'' = CHR ''['' # ''redacted'' @ [CHR '']'']" by simp
  qed (use assms in \<open>auto simp: markable_def py_in_sublist\<close>)
  with True \<open>secret \<noteq> []\<close> show ?thesis by (simp add: redact_one_def py_replace_def py_in_sublist)
next
  case False
  then have "q \<noteq> secret" using q by (auto simp: markable_def)
  with False assms show ?thesis by (simp add: redact_one_def)
qed

lemma redact_keeps_free: "markable q \<Longrightarrow> \<not> py_in q s \<Longrightarrow> \<not> py_in q (redact s secrets)"
  by (induction secrets arbitrary: s) (auto simp: redact_one_free)

lemma redact_free: "markable q \<Longrightarrow> q \<in> set secrets \<Longrightarrow> \<not> py_in q (redact s secrets)"
proof (induction secrets arbitrary: s)
  case (Cons p secrets)
  show ?case
  proof (cases "q = p")
    case True
    then show ?thesis using Cons.prems by (simp add: redact_keeps_free redact_one_free)
  next
    case False
    then show ?thesis using Cons by simp
  qed
qed simp

text \<open>Text without any secret in it passes unchanged.\<close>

lemma replace_from_absent: "old \<noteq> [] \<Longrightarrow> \<not> sublist old s \<Longrightarrow> replace_from old new s = s"
  using replace_from_cut [of old s new] sublist_appendI by blast

lemma redact_id:
  "\<forall>p \<in> set secrets. length p < 4 \<or> \<not> py_in p s \<Longrightarrow> redact s secrets = s"
proof (induction secrets)
  case (Cons p secrets)
  then have "redact_one p s = s"
    by (auto simp: redact_one_def py_replace_def py_in_sublist replace_from_absent)
  with Cons show ?case by simp
qed simp

text \<open>Truncation keeps a text free of a secret the truncation marker cannot spell.\<close>

lemma truncate_free:
  assumes "truncate_output s n = Inr (t, trunc)" "\<not> py_in q s"
    and "NL \<notin> set q" "\<not> py_in q ''[truncated]''"
  shows "\<not> py_in q t"
proof -
  from assms(1) have "t = s \<or> t = take (nat n) s @ NL # ''[truncated]''"
    by (auto simp: truncate_output_def split: if_splits)
  moreover have "\<not> sublist q (take (nat n) s @ NL # ''[truncated]'')"
  proof -
    have "\<not> sublist q (take (nat n) s)"
      using assms(2) sublist_order.order_trans [OF _ sublist_take] by (auto simp: py_in_sublist)
    then show ?thesis using assms(4) sublist_barrier [OF assms(3)] by (simp add: py_in_sublist)
  qed
  ultimately show ?thesis using assms(2) by (auto simp: py_in_sublist)
qed

end
