(* ===== verification/Mcp_Policy.thy ===== *)
theory Mcp_Policy
  imports Redaction
begin

text \<open>
  What the policy of \<open>mcp_server/core.py\<close> lets through: the accepted hosts, ports, profiles and
  inventories, and the shell words of the commands it builds. The command theorems use the
  quoting contract of \<open>Quoting\<close> through its interpretation \<open>sh\<close>.
\<close>

section \<open>Character classes\<close>

lemma host_char_facts:
  assumes "host_char c"
  shows "\<not> py_isspace c" and "c \<noteq> CHR ''%''" and "c \<noteq> CHR ''/''" and "c \<noteq> CHR ''@''"
    and "c \<noteq> CHR '',''" and "c \<noteq> CHR ''=''" and "shlex_safe c"
  using assms
  by (auto simp: host_char_def shlex_safe_def is_alnum_def is_lower_def is_upper_def is_digit_def
      py_isspace_def code_def Let_def)

lemma label_char_facts:
  assumes "label_char c"
  shows "\<not> py_isspace c" and "c \<noteq> CHR '',''" and "c \<noteq> CHR ''=''" and "host_char c"
  using assms
  by (auto simp: label_char_def host_char_def is_alnum_def is_lower_def is_upper_def is_digit_def
      py_isspace_def code_def Let_def)

lemma profile_char_nospace: "profile_char c \<Longrightarrow> \<not> py_isspace c"
  by (auto simp: profile_char_def is_alnum_def is_lower_def is_upper_def is_digit_def
      py_isspace_def code_def Let_def)

lemma digit_host_char: "is_digit c \<Longrightarrow> host_char c"
  by (simp add: host_char_def is_alnum_def)

section \<open>Hosts and ports\<close>

text \<open>The host names and addresses the policy accepts, without the detour over \<open>ip_address\<close>.\<close>

definition host_ok :: "string \<Rightarrow> bool" where
  "host_ok h = (h \<noteq> [] \<and> list_all host_char h \<and> \<not> py_in ''..'' h \<and>
     hd h \<noteq> CHR ''-'' \<and> last h \<noteq> CHR ''-'')"

lemma host_ok_strip: "host_ok h \<Longrightarrow> py_strip h = h"
  by (rule py_strip_nospace) (auto simp: host_ok_def list_all_iff host_char_facts)

lemma starts_dash: "starts_with ''-'' h \<longleftrightarrow> h \<noteq> [] \<and> hd h = CHR ''-''"
  by (cases h) auto

lemma ends_dash: "ends_with ''-'' h \<longleftrightarrow> h \<noteq> [] \<and> last h = CHR ''-''"
  by (cases h rule: rev_cases) (auto simp: ends_with_def)

lemma ip_host_ok:
  assumes "ip_address_ok h" "list_all host_char h" "h \<noteq> []"
  shows "host_ok h"
proof -
  have "CHR ''%'' \<notin> set h" using assms(2) host_char_facts(2) by (auto simp: list_all_iff)
  note ip = ip_address_chars [OF assms(1) this]
  have "hd h \<noteq> CHR ''-''" "last h \<noteq> CHR ''-''"
    using ip(1) assms(3) ip_char_not_dash by (auto simp: list_all_iff)
  with ip(2) assms show ?thesis by (simp add: host_ok_def dotdot_def)
qed

lemma validate_host_iff: "validate_host v = Inr h \<longleftrightarrow> h = py_strip v \<and> host_ok h"
proof
  assume "validate_host v = Inr h"
  then have h: "h = py_strip v" and ne: "h \<noteq> []" and re: "list_all host_char h"
    and or: "ip_address_ok h \<or> \<not> (py_in ''..'' h \<or> starts_with ''-'' h \<or> ends_with ''-'' h)"
    by (auto simp: validate_host_def Let_def HOST_RE_def fullmatch_class_def split: if_splits)
  from or have "host_ok h"
    using ne re ip_host_ok by (auto simp: host_ok_def starts_dash ends_dash)
  with h show "h = py_strip v \<and> host_ok h" ..
next
  assume a: "h = py_strip v \<and> host_ok h"
  then have "CHR ''/'' \<notin> set h" "CHR ''@'' \<notin> set h"
    using host_char_facts(3,4) by (auto simp: host_ok_def list_all_iff)
  with a show "validate_host v = Inr h"
    by (auto simp: validate_host_def Let_def HOST_RE_def fullmatch_class_def host_ok_def
        starts_dash ends_dash)
qed

lemma validate_host_fix: "host_ok h \<Longrightarrow> validate_host h = Inr h"
  by (simp add: validate_host_iff host_ok_strip)

lemma validate_port_iff:
  "validate_port v = Inr p \<longleftrightarrow> py_int_of v = Some p \<and> 1 \<le> p \<and> p \<le> 65535"
  by (auto simp: validate_port_def split: option.splits)

section \<open>Profiles\<close>

lemma allowed_chars:
  "p \<in> set ALLOWED_PROFILES \<Longrightarrow> p \<noteq> [] \<and> list_all (\<lambda>c. profile_char c \<and> c \<noteq> CHR '','') p"
  by (auto simp: ALLOWED_PROFILES_def profile_char_def is_alnum_def is_lower_def is_upper_def
      is_digit_def code_def)

definition profile_list_ok :: "string list \<Rightarrow> bool" where
  "profile_list_ok ps = (ps \<noteq> [] \<and> set ps \<subseteq> set ALLOWED_PROFILES \<and>
     (''full'' \<in> set ps \<longrightarrow> length ps = 1))"

lemma normalize_profile_sound:
  assumes "normalize_profile s = Inr r"
  shows "\<exists>ps. profile_list_ok ps \<and> r = py_join '','' ps"
proof -
  define ps where "ps = filter (\<lambda>p. p \<noteq> []) (map py_strip (py_split CHR '',''
    (py_strip (if s = [] then ''core'' else s))))"
  from assms have "ps \<noteq> []" "filter (\<lambda>p. p \<notin> set ALLOWED_PROFILES) ps = []"
    "\<not> (''full'' \<in> set ps \<and> length ps > 1)" "r = py_join '','' ps"
    by (simp_all add: normalize_profile_def Let_def ps_def split: if_splits)
  then have "profile_list_ok ps \<and> r = py_join '','' ps"
    by (cases ps) (auto simp: profile_list_ok_def filter_empty_conv split: if_splits)
  then show ?thesis ..
qed

lemma profile_list_chars:
  assumes "profile_list_ok ps"
  shows "list_all profile_char (py_join '','' ps)" and "py_join '','' ps \<noteq> []"
proof -
  have "profile_char c" if "c \<in> set (py_join [CHR '','' ] ps)" for c
    using join_chars [OF that] assms allowed_chars
    by (fastforce simp: profile_list_ok_def list_all_iff profile_char_def)
  then show "list_all profile_char (py_join '','' ps)" by (simp add: list_all_iff)
  have "ps \<noteq> []" "hd ps \<noteq> []"
    using assms allowed_chars by (auto simp: profile_list_ok_def dest!: subsetD intro: hd_in_set)
  then show "py_join '','' ps \<noteq> []" by (rule py_join_ne)
qed

lemma normalize_profile_fix:
  assumes "profile_list_ok ps"
  shows "normalize_profile (py_join '','' ps) = Inr (py_join '','' ps)"
proof -
  let ?r = "py_join '','' ps"
  note chars = profile_list_chars [OF assms]
  have strip: "py_strip ?r = ?r"
    using chars(1) by (intro py_strip_nospace) (auto simp: list_all_iff profile_char_nospace)
  have each: "p \<noteq> [] \<and> CHR '','' \<notin> set p \<and> py_strip p = p" if "p \<in> set ps" for p
  proof -
    have "p \<noteq> []" "list_all (\<lambda>c. profile_char c \<and> c \<noteq> CHR '','') p"
      using that assms allowed_chars [of p] by (auto simp: profile_list_ok_def)
    moreover from this have "list_all (\<lambda>c. \<not> py_isspace c) p"
      by (auto simp: list_all_iff profile_char_nospace)
    then have "py_strip p = p" by (rule py_strip_nospace)
    ultimately show ?thesis by (auto simp: list_all_iff)
  qed
  have "py_split CHR '','' ?r = ps"
    using each assms by (intro py_split_join) (auto simp: profile_list_ok_def)
  moreover have "map py_strip ps = ps" using each by (simp add: map_idI)
  moreover have "filter (\<lambda>p. p \<noteq> []) ps = ps" using each by (simp add: filter_id_conv)
  ultimately show ?thesis
    using assms chars strip
    by (auto simp: normalize_profile_def Let_def PROFILE_RE_def fullmatch_class_def
        profile_list_ok_def filter_empty_conv)
qed

end
