(* ===== verification/Mcp_Inventory.thy ===== *)
theory Mcp_Inventory
  imports Mcp_Policy
begin

text \<open>
  The router inventory: what \<open>parse_router_inventory\<close> accepts, that it reads back what an
  operator writes down for a well-formed inventory, and the lookup that turns a client's router
  name into an address. An accepted inventory is the allowlist of every SSH connection.
\<close>

section \<open>Well-formed inventories\<close>

definition router_ok :: "string \<times> router \<Rightarrow> bool" where
  "router_ok e = (case e of (n, r) \<Rightarrow>
     r_name r = n \<and> LABEL_RE n \<and> host_ok (r_host r) \<and> 1 \<le> r_port r \<and> r_port r \<le> 65535)"

definition inventory_ok :: "(string \<times> router) list \<Rightarrow> bool" where
  "inventory_ok rs = (distinct (map fst rs) \<and> list_all router_ok rs)"

lemma parse_host_port_Inr:
  assumes "parse_host_port a = Inr (h, p)"
  shows "host_ok h" and "1 \<le> p" and "p \<le> 65535"
  using assms
  by (auto simp: parse_host_port_def res_iff validate_host_iff validate_port_iff Let_def
      split: if_splits prod.splits option.splits)

lemma parse_entry_Inr:
  assumes "parse_entry rs raw = Inr rs'"
  shows "\<exists>n r. rs' = rs @ [(n, r)] \<and> n \<notin> set (map fst rs) \<and> router_ok (n, r)"
  using assms parse_host_port_Inr
  by (fastforce simp: parse_entry_def res_iff Let_def router_ok_def split: if_splits prod.splits)

lemma parse_entry_ok:
  "parse_entry rs raw = Inr rs' \<Longrightarrow> inventory_ok rs \<Longrightarrow> inventory_ok rs' \<and> length rs' = Suc (length rs)"
  by (drule parse_entry_Inr) (auto simp: inventory_ok_def)

lemma foldR_parse_entry:
  "foldR parse_entry rs es = Inr rs' \<Longrightarrow> inventory_ok rs \<Longrightarrow>
   inventory_ok rs' \<and> length rs' = length rs + length es"
proof (induction es arbitrary: rs)
  case (Cons e es)
  from Cons.prems obtain s where s: "parse_entry rs e = Inr s" "foldR parse_entry s es = Inr rs'"
    by (auto simp: res_iff)
  with parse_entry_ok [OF s(1) Cons.prems(2)] Cons.IH [OF s(2)] show ?case by simp
qed simp

text \<open>
  C21: An accepted inventory has one entry per comma-separated piece, under distinct names made of
  label characters, each with a valid host and a port from 1 to 65535.
\<close>

theorem parse_router_inventory_ok:
  assumes "parse_router_inventory raw = Inr rs"
  shows "inventory_ok rs \<and> rs \<noteq> [] \<and> length rs = length (py_split CHR '','' (py_strip raw))"
proof -
  from assms have "foldR parse_entry [] (py_split CHR '','' (py_strip raw)) = Inr rs"
    by (simp add: parse_router_inventory_def Let_def split: if_splits)
  from foldR_parse_entry [OF this] show ?thesis by (auto simp: inventory_ok_def)
qed

theorem parse_router_inventory_ok_witness:
  "\<exists>rs. parse_router_inventory ''main=192.168.0.1, ap=fe80::2'' = Inr rs \<and> inventory_ok rs \<and> length rs = 2"
proof -
  have "parse_router_inventory ''main=192.168.0.1, ap=fe80::2'' = Inr
     [(''main'', \<lparr>r_name = ''main'', r_host = ''192.168.0.1'', r_port = 22\<rparr>),
      (''ap'', \<lparr>r_name = ''ap'', r_host = ''fe80::2'', r_port = 22\<rparr>)]" by code_simp
  from this parse_router_inventory_ok [OF this] show ?thesis by auto
qed

section \<open>Writing an inventory down and reading it back\<close>

definition render_entry :: "string \<times> router \<Rightarrow> string" where
  "render_entry e = (case e of (n, r) \<Rightarrow>
     n @ ''='' @ r_host r @ (if CHR '':'' \<in> set (r_host r) then [] else '':'' @ show_int (r_port r)))"

definition render_inventory :: "(string \<times> router) list \<Rightarrow> string" where
  "render_inventory rs = py_join '','' (map render_entry rs)"

text \<open>A host with colons (an IPv6 address) has no way to carry a port other than 22.\<close>

definition renderable :: "string \<times> router \<Rightarrow> bool" where
  "renderable e = (case e of (n, r) \<Rightarrow>
     CHR '':'' \<notin> set (r_host r) \<or> (2 \<le> count_list (r_host r) CHR '':'' \<and> r_port r = 22))"

lemma host_ok_chars: "host_ok h \<Longrightarrow> c \<in> set h \<Longrightarrow> host_char c"
  by (auto simp: host_ok_def list_all_iff)

lemma label_chars: "LABEL_RE n \<Longrightarrow> c \<in> set n \<Longrightarrow> label_char c"
  by (auto simp: LABEL_RE_def fullmatch_class_def list_all_iff)

lemma show_int_chars: "0 \<le> p \<Longrightarrow> c \<in> set (show_int p) \<Longrightarrow> is_digit c"
  using show_nat_digits by (auto simp: show_int_nonneg list_all_iff)

lemma host_char_colon: "host_char CHR '':''"
  by (simp add: host_char_def)

lemma render_entry_chars:
  assumes "router_ok e" "c \<in> set (render_entry e)"
  shows "host_char c \<or> c = CHR ''=''"
proof -
  obtain n r where e: "e = (n, r)" by (cases e)
  with assms(1) have ok: "LABEL_RE n" "host_ok (r_host r)" "0 \<le> r_port r" by (auto simp: router_ok_def)
  from assms(2) e consider "c \<in> set n" | "c = CHR ''=''" | "c \<in> set (r_host r)" | "c = CHR '':''"
    | "c \<in> set (show_int (r_port r))"
    by (auto simp: render_entry_def split: if_splits)
  then show ?thesis
    using label_char_facts(4) [OF label_chars [OF ok(1)]] host_ok_chars [OF ok(2)] host_char_colon
      digit_host_char [OF show_int_chars [OF ok(3)]] by cases auto
qed

lemma render_entry_nospace:
  assumes "router_ok e" "c \<in> set (render_entry e)"
  shows "\<not> py_isspace c" and "c \<noteq> CHR '',''"
  using render_entry_chars [OF assms] host_char_facts [of c]
  by (auto simp: py_isspace_def code_def Let_def)

lemma digit_not_colon: "\<not> is_digit CHR '':''"
  by (simp add: is_digit_def code_def)

lemma parse_host_port_render:
  assumes "host_ok h" "1 \<le> p" "p \<le> 65535"
    and "CHR '':'' \<notin> set h \<or> (2 \<le> count_list h CHR '':'' \<and> p = 22)"
  shows "parse_host_port (h @ (if CHR '':'' \<in> set h then [] else '':'' @ show_int p)) = Inr (h, p)"
proof (cases "CHR '':'' \<in> set h")
  case True
  then show ?thesis using assms
    by (auto simp: parse_host_port_def validate_host_fix host_ok_def)
next
  case False
  have d: "CHR '':'' \<notin> set (show_int p)" using show_int_chars [of p] assms digit_not_colon by auto
  have "split_last CHR '':'' (h @ '':'' @ show_int p) = (h, show_int p)"
    using split_last_eq [OF d] by simp
  moreover have "count_list (h @ '':'' @ show_int p) CHR '':'' = 1"
    using False d by (simp add: count_notin)
  moreover have "py_isdigit (show_int p)" "py_int (show_int p) = Some p"
    using assms py_isdigit_show_nat by (auto simp: show_int_nonneg py_int_show_nat)
  moreover have "validate_port (PyInt p) = Inr p" using assms by (simp add: validate_port_iff)
  ultimately show ?thesis using False assms
    by (simp add: parse_host_port_def validate_host_fix)
qed

lemma parse_entry_render:
  assumes "router_ok (n, r)" "renderable (n, r)" "n \<notin> set (map fst rs)"
  shows "parse_entry rs (render_entry (n, r)) = Inr (rs @ [(n, r)])"
proof -
  let ?a = "r_host r @ (if CHR '':'' \<in> set (r_host r) then [] else '':'' @ show_int (r_port r))"
  have e: "render_entry (n, r) = n @ CHR ''='' # ?a" by (simp add: render_entry_def)
  have ok: "r_name r = n" "LABEL_RE n" "host_ok (r_host r)" "1 \<le> r_port r" "r_port r \<le> 65535"
    using assms(1) by (auto simp: router_ok_def)
  have nosp: "list_all (\<lambda>c. \<not> py_isspace c) (render_entry (n, r))"
    using render_entry_nospace(1) [OF assms(1)] by (simp add: list_all_iff)
  have "CHR ''='' \<notin> set n" using label_chars [OF ok(2)] label_char_facts(3) by blast
  then have "split_first CHR ''='' (render_entry (n, r)) = (n, ?a)" unfolding e by (rule split_first_eq)
  moreover have "py_strip (render_entry (n, r)) = render_entry (n, r)"
    using nosp by (rule py_strip_nospace)
  moreover have "py_strip n = n" "py_strip ?a = ?a"
    using nosp unfolding e by (auto simp: list_all_iff intro!: py_strip_nospace)
  moreover have "parse_host_port ?a = Inr (r_host r, r_port r)"
    using ok assms(2) by (intro parse_host_port_render) (auto simp: renderable_def)
  moreover have "render_entry (n, r) \<noteq> []" "CHR ''='' \<in> set (render_entry (n, r))"
    by (auto simp: e)
  moreover have "\<lparr>r_name = n, r_host = r_host r, r_port = r_port r\<rparr> = r" using ok(1) by simp
  ultimately show ?thesis using ok assms(3) by (simp add: parse_entry_def Let_def)
qed

lemma foldR_render:
  "distinct (map fst (rs @ es)) \<Longrightarrow> list_all router_ok es \<Longrightarrow> list_all renderable es \<Longrightarrow>
   foldR parse_entry rs (map render_entry es) = Inr (rs @ es)"
proof (induction es arbitrary: rs)
  case (Cons e es)
  obtain n r where e: "e = (n, r)" by (cases e)
  have "parse_entry rs (render_entry (n, r)) = Inr (rs @ [(n, r)])"
    using Cons.prems e by (intro parse_entry_render) auto
  with Cons e show ?case by simp
qed simp

text \<open>
  C20: Writing a well-formed inventory down as \<open>name=host:port,...\<close> (an IPv6 host without its port)
  and parsing the text gives the inventory back, entries in order.
\<close>

theorem parse_render_inventory:
  assumes "inventory_ok rs" "list_all renderable rs" "rs \<noteq> []"
  shows "parse_router_inventory (render_inventory rs) = Inr rs"
proof -
  let ?t = "render_inventory rs"
  have ok: "list_all router_ok rs" "distinct (map fst rs)" using assms(1) by (auto simp: inventory_ok_def)
  have ne: "map render_entry rs \<noteq> []" "hd (map render_entry rs) \<noteq> []"
    using assms(3) by (cases rs; auto simp: render_entry_def split: prod.splits)+
  have "?t \<noteq> []" unfolding render_inventory_def by (rule py_join_ne [OF ne])
  moreover have "\<not> py_isspace c" if "c \<in> set ?t" for c
    using join_chars [of c "CHR '',''"] that render_entry_nospace(1) ok(1)
    by (fastforce simp: render_inventory_def list_all_iff py_isspace_def code_def Let_def)
  then have "py_strip ?t = ?t" by (intro py_strip_nospace) (simp add: list_all_iff)
  moreover have "py_split CHR '','' ?t = map render_entry rs"
    unfolding render_inventory_def using ne(1) ok(1) render_entry_nospace(2)
    by (intro py_split_join) (auto simp: list_all_iff)
  moreover have "foldR parse_entry [] (map render_entry rs) = Inr rs"
    using foldR_render [of "[]" rs] ok assms(2) by simp
  ultimately show ?thesis by (simp add: parse_router_inventory_def Let_def)
qed

theorem parse_render_inventory_witness:
  "parse_router_inventory ''a=10.0.0.1:22,b=fe80::1'' = Inr
     [(''a'', \<lparr>r_name = ''a'', r_host = ''10.0.0.1'', r_port = 22\<rparr>),
      (''b'', \<lparr>r_name = ''b'', r_host = ''fe80::1'', r_port = 22\<rparr>)]"
proof -
  let ?rs = "[(''a'', \<lparr>r_name = ''a'', r_host = ''10.0.0.1'', r_port = 22\<rparr>),
      (''b'', \<lparr>r_name = ''b'', r_host = ''fe80::1'', r_port = 22\<rparr>)]"
  have "inventory_ok ?rs" by code_simp
  moreover have "list_all renderable ?rs" by code_simp
  moreover have "render_inventory ?rs = ''a=10.0.0.1:22,b=fe80::1''" by code_simp
  ultimately show ?thesis using parse_render_inventory [of ?rs] by simp
qed

section \<open>Looking a router up\<close>

lemma resolve_router_Inr:
  "resolve_router rs name = Inr r \<Longrightarrow> (name, r) \<in> set rs"
  by (auto simp: resolve_router_def split: option.splits dest: map_of_SomeD)

lemma resolve_router_Inl:
  "resolve_router rs name = Inl e \<longleftrightarrow> name \<notin> set (map fst rs) \<and>
     e = PolicyError (''unknown router '' @ py_repr name @ ''; allowed routers: '' @
           py_join '', '' (sort (map fst rs)))"
proof (cases "map_of rs name")
  case None
  then have "name \<notin> set (map fst rs)" by (simp add: map_of_eq_None_iff)
  with None show ?thesis unfolding resolve_router_def by fastforce
next
  case (Some r)
  then have "name \<in> set (map fst rs)" by (force dest: map_of_SomeD)
  with Some show ?thesis by (simp add: resolve_router_def)
qed

section \<open>The errors of the parser\<close>

text \<open>Digits for \<open>isdigit\<close> that are not decimal digits for \<open>int\<close>.\<close>

definition superscript :: "char \<Rightarrow> bool" where
  "superscript c = (code c = 178 \<or> code c = 179 \<or> code c = 185)"

lemma superscript_facts:
  assumes "superscript c"
  shows "\<not> is_digit c" "c \<noteq> CHR ''_''" "\<not> int_space s c" "c \<noteq> CHR '':''"
  using assms by (auto simp: superscript_def is_digit_def int_space_def py_isspace_def code_def)

lemma py_isdigit_char_iff: "py_isdigit_char c \<longleftrightarrow> is_digit c \<or> superscript c"
  by (auto simp: py_isdigit_char_def superscript_def)

lemma read_digits_None:
  "list_all py_isdigit_char s \<Longrightarrow> read_digits n s = None \<longleftrightarrow> list_ex superscript s"
  by (induction s arbitrary: n)
    (auto simp: py_isdigit_char_iff superscript_facts dest: superscript_facts(1,2))

lemma py_int_isdigit:
  assumes "py_isdigit s"
  shows "py_int s = None \<longleftrightarrow> list_ex superscript s"
proof -
  from assms obtain c cs where s: "s = c # cs" "list_all py_isdigit_char (c # cs)"
    by (cases s) (auto simp: py_isdigit_def)
  have none: "\<not> list_ex (int_space s) s" "\<not> list_ex (int_space s) (rev s)"
    using s by (auto simp: list_all_iff list_ex_iff py_isdigit_char_iff digit_not_int_space superscript_facts)
  have sign: "c \<noteq> CHR ''-''" "c \<noteq> CHR ''+''"
    using s(2) by (auto simp: py_isdigit_char_iff is_digit_def superscript_def code_def)
  have "py_int s = map_option int (read_nat s)"
    using none sign s(1) by (simp add: py_int_def Let_def dropWhile_none)
  moreover have "read_nat s = None \<longleftrightarrow> list_ex superscript s"
    using s read_digits_None [of cs] superscript_facts(1) [of c]
    by (auto simp: read_nat_def py_isdigit_char_iff)
  ultimately show ?thesis by simp
qed

text \<open>An address whose only colon stands before a port that \<open>isdigit\<close> accepts and \<open>int\<close> refuses.\<close>

definition bad_port :: "string \<Rightarrow> string \<Rightarrow> bool" where
  "bad_port a m \<longleftrightarrow> (\<exists>host port. a = host @ '':'' @ port \<and> CHR '':'' \<notin> set host \<and>
     port \<noteq> [] \<and> list_all (\<lambda>c. is_digit c \<or> superscript c) port \<and> list_ex superscript port \<and>
     m = ''invalid literal for int() with base 10: '' @ py_repr port)"

lemma validate_error_kinds:
  "validate_host h = Inl e \<Longrightarrow> \<exists>m. e = PolicyError m"
  "validate_port (PyInt n) = Inl e \<Longrightarrow> \<exists>m. e = PolicyError m"
  by (auto simp: validate_host_def validate_port_def Let_def split: if_splits option.splits)

lemma one_colon: "count_list a CHR '':'' = 1 \<longleftrightarrow>
  (\<exists>host port. a = host @ CHR '':'' # port \<and> CHR '':'' \<notin> set host \<and> CHR '':'' \<notin> set port)"
proof
  assume c: "count_list a CHR '':'' = 1"
  then have "CHR '':'' \<in> set a" by (metis count_notin zero_neq_one)
  then obtain host port where a: "a = host @ CHR '':'' # port" "CHR '':'' \<notin> set host"
    by (meson split_list_first)
  with c have "count_list port CHR '':'' = 0" by simp
  with a show "\<exists>host port. a = host @ CHR '':'' # port \<and> CHR '':'' \<notin> set host \<and> CHR '':'' \<notin> set port"
    by (auto simp: count_list_0_iff)
qed (auto simp: count_notin)

lemma bad_port_no_colon: "list_all (\<lambda>c. is_digit c \<or> superscript c) port \<Longrightarrow> CHR '':'' \<notin> set port"
  using superscript_facts(4) digit_not_colon by (auto simp: list_all_iff)

lemma parse_host_port_Inl:
  assumes "parse_host_port a = Inl e"
  shows "(\<exists>m. e = PolicyError m) \<or> (\<exists>m. e = ValueError m \<and> bad_port a m)"
proof (cases "count_list a CHR '':'' = 1")
  case False
  with assms validate_error_kinds(1) show ?thesis
    by (auto simp: parse_host_port_def bindR_Inl_iff split: if_splits option.splits)
next
  case True
  then obtain host port where a: "a = host @ CHR '':'' # port" "CHR '':'' \<notin> set host"
    "CHR '':'' \<notin> set port" using one_colon by blast
  have sl: "split_last CHR '':'' a = (host, port)" using a by (simp add: split_last_eq)
  show ?thesis
  proof (cases "py_isdigit port \<and> list_ex superscript port")
    case True
    then have "py_int port = None" using py_int_isdigit by blast
    then have "e = ValueError (''invalid literal for int() with base 10: '' @ py_repr port)"
      using assms True sl \<open>count_list a CHR '':'' = 1\<close> a(1) by (simp add: parse_host_port_def)
    moreover have "bad_port a (''invalid literal for int() with base 10: '' @ py_repr port)"
      unfolding bad_port_def using a(1,2) True
      by (intro exI [of _ host] exI [of _ port]) (simp add: py_isdigit_def py_isdigit_char_iff list_all_iff)
    ultimately show ?thesis by blast
  next
    case False
    then have "py_isdigit port \<Longrightarrow> py_int port \<noteq> None" using py_int_isdigit by blast
    then show ?thesis using assms sl \<open>count_list a CHR '':'' = 1\<close> validate_error_kinds
      by (auto simp: parse_host_port_def bindR_Inl_iff split: if_splits option.splits)
  qed
qed

lemma parse_host_port_bad:
  assumes "bad_port a m"
  shows "parse_host_port a = Inl (ValueError m)"
proof -
  from assms obtain host port where a: "a = host @ CHR '':'' # port" "CHR '':'' \<notin> set host"
    "port \<noteq> []" "list_all (\<lambda>c. is_digit c \<or> superscript c) port" "list_ex superscript port"
    "m = ''invalid literal for int() with base 10: '' @ py_repr port"
    by (auto simp: bad_port_def)
  have p: "CHR '':'' \<notin> set port" by (rule bad_port_no_colon [OF a(4)])
  have d: "py_isdigit port" using a(3,4) by (simp add: py_isdigit_def py_isdigit_char_iff list_all_iff)
  have "split_last CHR '':'' a = (host, port)" using a(1) p by (simp add: split_last_eq)
  moreover have "count_list a CHR '':'' = 1" using a(1,2) p by (simp add: count_notin)
  moreover have "py_int port = None" using py_int_isdigit [OF d] a(5) by simp
  moreover have "a \<noteq> []" using a(1) by simp
  ultimately show ?thesis using d a(6) by (simp add: parse_host_port_def)
qed

text \<open>An entry with a valid name in front of such an address.\<close>

definition bad_entry :: "string \<Rightarrow> string \<Rightarrow> bool" where
  "bad_entry raw m \<longleftrightarrow> (\<exists>n a. py_strip raw = n @ ''='' @ a \<and> CHR ''='' \<notin> set n \<and>
     LABEL_RE (py_strip n) \<and> bad_port (py_strip a) m)"

lemma parse_entry_Inl:
  assumes "parse_entry rs raw = Inl e"
  shows "(\<exists>m. e = PolicyError m) \<or> (\<exists>m. e = ValueError m \<and> bad_entry raw m)"
proof (cases "CHR ''='' \<in> set (py_strip raw)")
  case False
  with assms show ?thesis by (auto simp: parse_entry_def Let_def split: if_splits)
next
  case True
  then obtain n a where na: "py_strip raw = n @ CHR ''='' # a" "CHR ''='' \<notin> set n"
    by (meson split_list_first)
  have sf: "split_first CHR ''='' (py_strip raw) = (n, a)" unfolding na(1) by (rule split_first_eq [OF na(2)])
  have "(\<exists>m. e = PolicyError m) \<or> (LABEL_RE (py_strip n) \<and> parse_host_port (py_strip a) = Inl e)"
    using assms True by (auto simp: parse_entry_def sf bindR_Inl_iff Let_def split: if_splits prod.splits)
  moreover have "bad_entry raw m" if "LABEL_RE (py_strip n)" "bad_port (py_strip a) m" for m
    unfolding bad_entry_def using that na by (intro exI [of _ n] exI [of _ a]) simp
  ultimately show ?thesis using parse_host_port_Inl by blast
qed

lemma parse_entry_bad:
  assumes "bad_entry raw m"
  shows "parse_entry rs raw = Inl (ValueError m)"
proof -
  from assms obtain n a where na: "py_strip raw = n @ CHR ''='' # a" "CHR ''='' \<notin> set n"
    "LABEL_RE (py_strip n)" "bad_port (py_strip a) m" by (auto simp: bad_entry_def)
  have "split_first CHR ''='' (py_strip raw) = (n, a)" unfolding na(1) by (rule split_first_eq [OF na(2)])
  moreover have "py_strip raw \<noteq> []" "CHR ''='' \<in> set (py_strip raw)" by (simp_all add: na(1))
  ultimately show ?thesis using na(3) parse_host_port_bad [OF na(4)] by (simp add: parse_entry_def Let_def)
qed

lemma foldR_Inl:
  "foldR f s xs = Inl e \<longleftrightarrow> (\<exists>before x after t. xs = before @ x # after \<and>
     foldR f s before = Inr t \<and> f t x = Inl e)"
proof
  show "foldR f s xs = Inl e \<Longrightarrow> \<exists>before x after t. xs = before @ x # after \<and>
     foldR f s before = Inr t \<and> f t x = Inl e"
  proof (induction xs arbitrary: s)
    case (Cons x xs)
    show ?case
    proof (cases "f s x")
      case (Inl e')
      with Cons.prems show ?thesis
        by (intro exI [of _ "[]"] exI [of _ x] exI [of _ xs] exI [of _ s]) simp
    next
      case (Inr t)
      with Cons.prems have "foldR f t xs = Inl e" by simp
      from Cons.IH [OF this] obtain before z after u where "xs = before @ z # after"
        "foldR f t before = Inr u" "f u z = Inl e" by blast
      with Inr show ?thesis by (intro exI [of _ "x # before"] exI [of _ z] exI [of _ after] exI [of _ u]) simp
    qed
  qed simp
qed (auto simp: foldR_append)



end
