(* ===== verification/Mcp_Server.thy ===== *)
theory Mcp_Server
  imports Redaction Mcp_Inventory
begin

text \<open>
  \<open>mcp_server/server.py\<close>: settings from the environment, the request filter, the SSH runner and
  the ten tools. What a call does to the outside is a list of events; what the outside answers
  (paramiko, the file system, the clock, the archive and the UTF-8 decoder) is a record of
  functions, an argument of every definition. An answer may depend on everything that happened
  before it. A tool call returns, raises, or never returns, because the library's
  \<open>recv_exit_status\<close> or the polling loop of the staging step waits for ever.
\<close>

section \<open>Settings\<close>

record settings =
  routers_raw :: string
  username :: string
  password :: string
  token :: string
  allowed_hosts :: "string list"
  allowed_origins :: "string list"
  ssh_timeout_seconds :: int
  setup_timeout_seconds :: int
  output_limit :: int
  repo_openwrt_dir :: string
  s_host_key_policy :: host_key_policy

definition DEFAULT_ROUTERS :: string where
  "DEFAULT_ROUTERS = ''openwrt-main=192.168.0.1,openwrt-new=192.168.0.2''"

definition DEFAULT_OUTPUT_LIMIT :: int where
  "DEFAULT_OUTPUT_LIMIT = 12000"

type_synonym environ = "string \<Rightarrow> string option"

definition getenv :: "environ \<Rightarrow> string \<Rightarrow> string \<Rightarrow> string" where
  "getenv env name d = (case env name of None \<Rightarrow> d | Some v \<Rightarrow> v)"

text \<open>\<open>str(Path(p))\<close>: empty and \<open>.\<close> components go, a leading slash stays (exactly two stay two).\<close>

definition py_path :: "string \<Rightarrow> string" where
  "py_path p =
     (let root = (if starts_with ''//'' p \<and> \<not> starts_with ''///'' p then ''//''
                  else if starts_with ''/'' p then ''/'' else []);
          parts = filter (\<lambda>x. x \<noteq> [] \<and> x \<noteq> ''.'') (py_split CHR ''/'' p);
          text = root @ py_join ''/'' parts in
      if text = [] then ''.'' else text)"

definition csv_set :: "string \<Rightarrow> string list" where
  "csv_set raw = map py_strip (filter (\<lambda>part. py_strip part \<noteq> []) (py_split CHR '','' raw))"

definition int_literal_error :: "string \<Rightarrow> py_exc" where
  "int_literal_error v = ValueError (''invalid literal for int() with base 10: '' @ py_repr v)"

definition int_env :: "environ \<Rightarrow> string \<Rightarrow> int \<Rightarrow> int res" where
  "int_env env name d =
     (case env name of
        None \<Rightarrow> Inr d
      | Some v \<Rightarrow>
          if v = [] then Inr d
          else (case py_int v of None \<Rightarrow> Inl (int_literal_error v) | Some n \<Rightarrow> Inr n))"

definition from_env :: "environ \<Rightarrow> settings res" where
  "from_env env =
     (let user = py_strip (getenv env ''OPENWRT_SSH_USERNAME'' []);
          pass = getenv env ''OPENWRT_SSH_PASSWORD'' [];
          tok = getenv env ''OPENWRT_MCP_TOKEN'' [] in
      if user = [] then Inl (RuntimeError ''OPENWRT_SSH_USERNAME is required'')
      else if pass = [] then Inl (RuntimeError ''OPENWRT_SSH_PASSWORD is required'')
      else if length tok < 16 \<or> tok = ''change-me-openwrt-mcp-token''
      then Inl (RuntimeError
        ''OPENWRT_MCP_TOKEN must be set to a non-default value of at least 16 characters'')
      else
        let pol = resolve_host_key_policy
                    (Some (getenv env ''OPENWRT_MCP_KNOWN_HOSTS'' DEFAULT_KNOWN_HOSTS_PATH))
                    (env ''OPENWRT_MCP_INSECURE_HOST_KEYS'') in
        bindR (int_env env ''OPENWRT_MCP_SSH_TIMEOUT'' 15) (\<lambda>ssh_t.
        bindR (resolve_setup_timeout_seconds (env ''OPENWRT_MCP_SETUP_TIMEOUT'')) (\<lambda>setup_t.
        bindR (int_env env ''OPENWRT_MCP_OUTPUT_LIMIT'' DEFAULT_OUTPUT_LIMIT) (\<lambda>lim.
        Inr \<lparr>routers_raw = getenv env ''OPENWRT_MCP_ROUTERS'' DEFAULT_ROUTERS,
             username = user, password = pass, token = tok,
             allowed_hosts = csv_set (getenv env ''OPENWRT_MCP_ALLOWED_HOSTS'' ''127.0.0.1,localhost''),
             allowed_origins = csv_set (getenv env ''OPENWRT_MCP_ALLOWED_ORIGINS'' []),
             ssh_timeout_seconds = ssh_t, setup_timeout_seconds = setup_t, output_limit = lim,
             repo_openwrt_dir = py_path (getenv env ''OPENWRT_MCP_OPENWRT_DIR'' ''/app/openwrt''),
             s_host_key_policy = pol\<rparr>))))"

text \<open>The module level: settings, then the inventory; either may stop the server from starting.\<close>

definition startup :: "environ \<Rightarrow> (settings \<times> (string \<times> router) list) res" where
  "startup env = bindR (from_env env) (\<lambda>s.
     bindR (parse_router_inventory (routers_raw s)) (\<lambda>rs. Inr (s, rs)))"

text \<open>\<open>main\<close> up to the call of the web server: the address it is told to listen on.\<close>

definition main_bind :: "environ \<Rightarrow> (string \<times> int) res" where
  "main_bind env =
     (let host = getenv env ''OPENWRT_MCP_BIND'' ''127.0.0.1''; raw = getenv env ''OPENWRT_MCP_PORT'' ''8033'' in
      case py_int raw of
        None \<Rightarrow> Inl (int_literal_error raw)
      | Some n \<Rightarrow> bindR (validate_port (PyInt n)) (\<lambda>port. Inr (host, port)))"

section \<open>The request filter\<close>

record request =
  url_path :: string
  headers :: "string \<Rightarrow> string option"

datatype response = CallNext | JSONResponse string int

definition dispatch :: "settings \<Rightarrow> request \<Rightarrow> response" where
  "dispatch s req =
     (if url_path req = ''/healthz'' then CallNext
      else
        let host_header = (case headers req ''host'' of None \<Rightarrow> [] | Some h \<Rightarrow> h);
            host = (if CHR '':'' \<in> set host_header then fst (split_last CHR '':'' host_header)
                    else host_header) in
        if allowed_hosts s \<noteq> [] \<and> host \<notin> set (allowed_hosts s)
        then JSONResponse ''host not allowed'' 403
        else
          let origin = headers req ''origin'' in
          if origin \<noteq> None \<and> origin \<noteq> Some [] \<and> the origin \<notin> set (allowed_origins s)
          then JSONResponse ''origin not allowed'' 403
          else if headers req ''authorization'' \<noteq> Some (''Bearer '' @ token s)
          then JSONResponse ''authorization required'' 401
          else CallNext)"

section \<open>Events and the outside\<close>

datatype event =
    NewClient                          \<comment> \<open>\<open>paramiko.SSHClient()\<close>, before anything else\<close>
  | WarnInsecure string int            \<comment> \<open>the log line about accepting any host key\<close>
  | LoadHostKeys string
  | Connect string int string          \<comment> \<open>host, port, policy for a missing host key\<close>
  | Exec string int                    \<comment> \<open>\<open>exec_command(command, timeout)\<close>\<close>
  | Stage string string                \<comment> \<open>\<open>exec_command(command)\<close>, then the bytes on its input\<close>
  | Close                              \<comment> \<open>\<open>client.close()\<close> in the \<open>finally\<close> of the caller\<close>

datatype connect_outcome = Connected | BadHostKey | SSHFailure string | ConnectRaises

datatype exec_outcome = ExecDone int string string | ExecTimeout | ExecRaises | ExecHangs

text \<open>
  One channel: what each turn of the polling loop sees (is the exit status there, a chunk of
  standard output, a chunk of standard error), what the two draining loops read after it.
\<close>

record channel =
  tick :: "nat \<Rightarrow> bool \<times> string option \<times> string option"
  tail_out :: "nat \<Rightarrow> string option"
  tail_err :: "nat \<Rightarrow> string option"
  exit_status :: int

datatype stage_outcome = StageRaises | StageChannel channel

record outside =
  w_is_dir :: "string \<Rightarrow> bool"
  w_is_file :: "string \<Rightarrow> bool"
  w_load_host_keys :: "string \<Rightarrow> unit res"
  w_tar :: "string \<Rightarrow> string res"
  w_connect :: "event list \<Rightarrow> string \<Rightarrow> int \<Rightarrow> connect_outcome"
  w_exec :: "event list \<Rightarrow> string \<Rightarrow> int \<Rightarrow> exec_outcome"
  w_stage :: "event list \<Rightarrow> string \<Rightarrow> string \<Rightarrow> stage_outcome"
  w_decode :: "string \<Rightarrow> string"
  w_elapsed_ms :: "event list \<Rightarrow> int"

datatype 'a outcome = Returns "'a res" | Hangs

section \<open>Results\<close>

datatype extra = NoExtra | TimedOut int | PayloadBytes nat

record run_result =
  rr_router :: string
  rr_description :: string
  rr_exit_code :: int
  rr_ok :: bool
  rr_stdout :: string
  rr_stderr :: string
  rr_stdout_truncated :: bool
  rr_stderr_truncated :: bool
  rr_duration_ms :: int
  rr_extra :: extra

definition run_result ::
  "settings \<Rightarrow> outside \<Rightarrow> string \<Rightarrow> command_spec \<Rightarrow> int \<Rightarrow> string \<Rightarrow> string \<Rightarrow> event list \<Rightarrow> extra \<Rightarrow>
   run_result res" where
  "run_result s w name spec status out0 err0 tr ext =
     (let out = redact out0 [password s, token s]; err = redact err0 [password s, token s] in
      bindR (truncate_output out (output_limit s)) (\<lambda>(out', out_truncated).
      bindR (truncate_output err (output_limit s)) (\<lambda>(err', err_truncated).
      Inr \<lparr>rr_router = name, rr_description = description spec, rr_exit_code = status,
           rr_ok = (status = 0), rr_stdout = out', rr_stderr = err',
           rr_stdout_truncated = out_truncated, rr_stderr_truncated = err_truncated,
           rr_duration_ms = w_elapsed_ms w tr, rr_extra = ext\<rparr>)))"

section \<open>The runner\<close>

text \<open>
  The client is made first. When loading the host keys or connecting raises, it is returned to
  nobody: the \<open>finally\<close> that closes clients belongs to the caller and starts after this call.
\<close>

definition connect_client ::
  "settings \<Rightarrow> outside \<Rightarrow> string \<Rightarrow> int \<Rightarrow> event list \<Rightarrow> event list \<times> unit res" where
  "connect_client s w host port tr =
     (let pol = s_host_key_policy s; known_hosts = py_path (known_hosts_path pol);
          auto = (policy pol = HOST_KEY_POLICY_AUTO_ADD);
          tr0 = tr @ [NewClient];
          (tr1, ready) =
            (if auto then (tr0 @ [WarnInsecure host port], Inr ())
             else if w_is_file w known_hosts
             then (tr0 @ [LoadHostKeys known_hosts], w_load_host_keys w known_hosts)
             else (tr0, Inr ())) in
      case ready of
        Inl e \<Rightarrow> (tr1, Inl e)
      | Inr _ \<Rightarrow>
          let tr2 = tr1 @ [Connect host port
                (if auto then HOST_KEY_POLICY_AUTO_ADD else HOST_KEY_POLICY_REJECT)];
              refused = PolicyError (host_key_failure_message host port (known_hosts_path pol)) in
          (case w_connect w tr1 host port of
             Connected \<Rightarrow> (tr2, Inr ())
           | BadHostKey \<Rightarrow> (tr2, Inl refused)
           | SSHFailure text \<Rightarrow>
               (tr2, Inl (if py_in ''not found in known_hosts'' (py_lower text) then refused
                          else SSHError text))
           | ConnectRaises \<Rightarrow> (tr2, Inl TransportError)))"

definition timeout_text :: "command_spec \<Rightarrow> string" where
  "timeout_text spec =
     (if timeout_message spec \<noteq> [] then timeout_message spec
      else ''command timed out after '' @ show_int (timeout_seconds spec) @ '' seconds'')"

definition run ::
  "settings \<Rightarrow> (string \<times> router) list \<Rightarrow> outside \<Rightarrow> string \<Rightarrow> command_spec \<Rightarrow> event list \<Rightarrow>
   event list \<times> run_result outcome" where
  "run s rs w name spec tr =
     (case resolve_router rs name of
        Inl e \<Rightarrow> (tr, Returns (Inl e))
      | Inr r \<Rightarrow>
          (case connect_client s w (r_host r) (r_port r) tr of
             (tr1, Inl e) \<Rightarrow> (tr1, Returns (Inl e))
           | (tr1, Inr _) \<Rightarrow>
               let tr2 = tr1 @ [Exec (command spec) (timeout_seconds spec)] in
               (case w_exec w tr1 (command spec) (timeout_seconds spec) of
                  ExecDone status out err \<Rightarrow>
                    (tr2 @ [Close],
                     Returns (run_result s w name spec status out err (tr2 @ [Close]) NoExtra))
                | ExecTimeout \<Rightarrow>
                    (tr2 @ [Close],
                     Returns (run_result s w name spec 124 [] (timeout_text spec) tr2
                               (TimedOut (timeout_seconds spec))))
                | ExecRaises \<Rightarrow> (tr2 @ [Close], Returns (Inl TransportError))
                | ExecHangs \<Rightarrow> (tr2, Hangs))))"

text \<open>The polling loop of the staging step: it ends when the exit status is there, and only then.\<close>

definition chunk :: "string option \<Rightarrow> string list" where
  "chunk c = (case c of None \<Rightarrow> [] | Some b \<Rightarrow> [b])"

partial_function (option) poll ::
  "channel \<Rightarrow> nat \<Rightarrow> string list \<Rightarrow> string list \<Rightarrow> (string list \<times> string list) option" where
  "poll ch i outs errs =
     (case tick ch i of (finished, out, err) \<Rightarrow>
        if finished then Some (outs, errs)
        else poll ch (Suc i) (outs @ chunk out) (errs @ chunk err))"

partial_function (option) drain ::
  "(nat \<Rightarrow> string option) \<Rightarrow> nat \<Rightarrow> string list \<Rightarrow> string list option" where
  "drain recv i acc =
     (case recv i of None \<Rightarrow> Some acc | Some b \<Rightarrow> drain recv (Suc i) (acc @ [b]))"

declare poll.simps [code] drain.simps [code]

definition collect :: "channel \<Rightarrow> (string \<times> string) option" where
  "collect ch =
     (case poll ch 0 [] [] of
        None \<Rightarrow> None
      | Some (outs, errs) \<Rightarrow>
          (case drain (tail_out ch) 0 outs of
             None \<Rightarrow> None
           | Some outs' \<Rightarrow>
               (case drain (tail_err ch) 0 errs of
                  None \<Rightarrow> None
                | Some errs' \<Rightarrow> Some (concat outs', concat errs'))))"

definition STAGE_SPEC :: command_spec where
  "STAGE_SPEC = (CommandSpec ''rm -rf /tmp/openwrt && tar -x -C /tmp'')
     \<lparr>timeout_seconds := 90, mutating := True,
      description := ''Stage repo OpenWrt payload under /tmp/openwrt.''\<rparr>"

definition stage_openwrt_payload ::
  "settings \<Rightarrow> (string \<times> router) list \<Rightarrow> outside \<Rightarrow> string \<Rightarrow> event list \<Rightarrow>
   event list \<times> run_result outcome" where
  "stage_openwrt_payload s rs w name tr =
     (if \<not> w_is_dir w (repo_openwrt_dir s)
      then (tr, Returns (Inl (PolicyError
             (''OpenWrt payload directory not found: '' @ repo_openwrt_dir s))))
      else
        case resolve_router rs name of
          Inl e \<Rightarrow> (tr, Returns (Inl e))
        | Inr r \<Rightarrow>
            (case w_tar w (repo_openwrt_dir s) of
               Inl e \<Rightarrow> (tr, Returns (Inl e))
             | Inr tar \<Rightarrow>
                 (case connect_client s w (r_host r) (r_port r) tr of
                    (tr1, Inl e) \<Rightarrow> (tr1, Returns (Inl e))
                  | (tr1, Inr _) \<Rightarrow>
                      let tr2 = tr1 @ [Stage (command STAGE_SPEC) tar] in
                      (case w_stage w tr1 (command STAGE_SPEC) tar of
                         StageRaises \<Rightarrow> (tr2 @ [Close], Returns (Inl TransportError))
                       | StageChannel ch \<Rightarrow>
                           (case collect ch of
                              None \<Rightarrow> (tr2, Hangs)
                            | Some (out, err) \<Rightarrow>
                                (tr2 @ [Close],
                                 Returns (run_result s w name STAGE_SPEC (exit_status ch)
                                   (w_decode w out) (w_decode w err) (tr2 @ [Close])
                                   (PayloadBytes (length tar)))))))))"

section \<open>The tools\<close>

datatype tool_call =
    ListRouters
  | SshCheck string
  | SystemFacts string
  | MonitoringStatus string
  | MetricsSample string int
  | Diagnostic string string
  | SendTestLog string bool string string
  | RestartMonitoring string string bool
  | ConfigureSyslog string string int string bool
  | RunRepoSetup string string bool string string int string

datatype tool_result =
    RouterList "router list"
  | RunResult run_result
  | SetupResult run_result "run_result option" bool

definition SSH_CHECK_SPEC :: command_spec where
  \<open>SSH_CHECK_SPEC = (CommandSpec (''printf 'ssh_ok=1'' @ bsn @ ''hostname='; hostname''))
     \<lparr>description := ''Verify SSH connectivity.''\<rparr>\<close>

fun map_outcome :: "('a \<Rightarrow> 'b) \<Rightarrow> 'a outcome \<Rightarrow> 'b outcome" where
  "map_outcome f (Returns (Inr x)) = Returns (Inr (f x))"
| "map_outcome f (Returns (Inl e)) = Returns (Inl e)"
| "map_outcome f Hangs = Hangs"

text \<open>\<open>runner.run(router, spec)\<close> for a builder that may raise, with the confirmation guard.\<close>

definition run_spec ::
  "settings \<Rightarrow> (string \<times> router) list \<Rightarrow> outside \<Rightarrow> string \<Rightarrow> command_spec res \<Rightarrow> event list \<Rightarrow>
   event list \<times> tool_result outcome" where
  "run_spec s rs w name spec tr =
     (case spec of
        Inl e \<Rightarrow> (tr, Returns (Inl e))
      | Inr sp \<Rightarrow> (let (tr', out) = run s rs w name sp tr in (tr', map_outcome RunResult out)))"

definition confirmed :: "bool \<Rightarrow> command_spec res \<Rightarrow> command_spec res" where
  "confirmed confirm spec = bindR spec (\<lambda>sp. bindR (require_confirm confirm sp) (\<lambda>_. Inr sp))"

definition run_repo_setup ::
  "settings \<Rightarrow> (string \<times> router) list \<Rightarrow> outside \<Rightarrow> string \<Rightarrow> command_spec \<Rightarrow> event list \<Rightarrow>
   event list \<times> tool_result outcome" where
  "run_repo_setup s rs w name spec tr =
     (case stage_openwrt_payload s rs w name tr of
        (tr1, Hangs) \<Rightarrow> (tr1, Hangs)
      | (tr1, Returns (Inl e)) \<Rightarrow> (tr1, Returns (Inl e))
      | (tr1, Returns (Inr stage)) \<Rightarrow>
          if \<not> rr_ok stage then (tr1, Returns (Inr (SetupResult stage None False)))
          else
            (case run s rs w name spec tr1 of
               (tr2, out) \<Rightarrow>
                 (tr2, map_outcome
                    (\<lambda>setup. SetupResult stage (Some setup) (rr_ok stage \<and> rr_ok setup)) out)))"

fun call_tool ::
  "settings \<Rightarrow> (string \<times> router) list \<Rightarrow> outside \<Rightarrow> tool_call \<Rightarrow> event list \<Rightarrow>
   event list \<times> tool_result outcome" where
  "call_tool s rs w ListRouters tr = (tr, Returns (Inr (RouterList (map snd rs))))"
| "call_tool s rs w (SshCheck name) tr = run_spec s rs w name (Inr SSH_CHECK_SPEC) tr"
| "call_tool s rs w (SystemFacts name) tr = run_spec s rs w name (Inr build_system_facts_command) tr"
| "call_tool s rs w (MonitoringStatus name) tr =
     run_spec s rs w name (Inr build_monitoring_status_command) tr"
| "call_tool s rs w (MetricsSample name limit_lines) tr =
     run_spec s rs w name (build_metrics_sample_command limit_lines) tr"
| "call_tool s rs w (Diagnostic name diagnostic) tr =
     run_spec s rs w name (build_diagnostic_command diagnostic) tr"
| "call_tool s rs w (SendTestLog name confirm message tag) tr =
     run_spec s rs w name (confirmed confirm (build_test_log_command message tag)) tr"
| "call_tool s rs w (RestartMonitoring name target confirm) tr =
     run_spec s rs w name (confirmed confirm (build_restart_monitoring_command target)) tr"
| "call_tool s rs w (ConfigureSyslog name monitoring_host port proto confirm) tr =
     run_spec s rs w name
       (confirmed confirm (build_configure_syslog_command monitoring_host (PyInt port) proto)) tr"
| "call_tool s rs w (RunRepoSetup name monitoring_host confirm profile iface port proto) tr =
     (case confirmed confirm (build_setup_command monitoring_host profile iface (PyInt port) proto
             (setup_timeout_seconds s)) of
        Inl e \<Rightarrow> (tr, Returns (Inl e))
      | Inr spec \<Rightarrow> run_repo_setup s rs w name spec tr)"

end
