(* ===== verification/Mcp_Commands.thy ===== *)
theory Mcp_Commands
  imports Mcp_Policy
begin

text \<open>
  The commands the policy builds, read by a shell: every argument that comes from the client is
  one word of the command line, whatever characters it holds, and no operator can be smuggled
  in. Also the flags of the built specifications, which the server's confirmation check uses.
\<close>

named_theorems sh_read "reading a command line with the shell word reader"

lemmas [sh_read] = sh_lex_quote sh.read_blank sh.read_op sh.read_end sh_plain_step

lemmas [sh_read] = sh_plain_def sh_blank_def sh_op_def sh_special_def code_def cur_word_def end_word_def

section \<open>What the builders return\<close>

lemma CommandSpec_sel [simp]:
  "command (CommandSpec c) = c" "timeout_seconds (CommandSpec c) = 15"
  "mutating (CommandSpec c) = False" "timeout_message (CommandSpec c) = []"
  by (simp_all add: CommandSpec_def)

lemma build_metrics_sample_Inr:
  "build_metrics_sample_command n = Inr spec \<Longrightarrow> 1 \<le> n \<and> n \<le> 500 \<and> \<not> mutating spec"
  by (auto simp: build_metrics_sample_command_def CommandSpec_def split: if_splits)

lemma build_diagnostic_Inr:
  "build_diagnostic_command kind = Inr spec \<Longrightarrow>
   (kind, command spec) \<in> set DIAGNOSTIC_COMMANDS \<and> \<not> mutating spec \<and> timeout_seconds spec = 15"
  by (auto simp: build_diagnostic_command_def CommandSpec_def split: option.splits dest: map_of_SomeD)

lemma build_restart_Inr:
  "build_restart_monitoring_command target = Inr spec \<Longrightarrow>
   (target, command spec) \<in> set MONITORING_SERVICE_COMMANDS \<and> mutating spec"
  by (auto simp: build_restart_monitoring_command_def CommandSpec_def split: option.splits
      dest: map_of_SomeD)

lemma build_test_log_Inr:
  "build_test_log_command msg tg = Inr spec \<Longrightarrow> mutating spec"
  by (auto simp: build_test_log_command_def Let_def split: if_splits)

lemma build_configure_syslog_Inr:
  "build_configure_syslog_command h p pr = Inr spec \<Longrightarrow> mutating spec"
  by (auto simp: build_configure_syslog_command_def Let_def res_iff)

lemma build_setup_Inr:
  "build_setup_command h prof t p pr tmo = Inr spec \<Longrightarrow>
   mutating spec \<and> timeout_seconds spec = tmo \<and> 1 \<le> tmo \<and> timeout_message spec = SETUP_TIMEOUT_MESSAGE"
  by (auto simp: build_setup_command_def Let_def res_iff)

section \<open>No injection\<close>

definition setup_words :: "string \<Rightarrow> string \<Rightarrow> int \<Rightarrow> string \<Rightarrow> string option \<Rightarrow> string list" where
  "setup_words host profile port proto iface =
     [''OPENWRT_MONITOR_PROFILE='' @ profile, ''SYSLOG_PORT='' @ show_int port,
      ''SYSLOG_PROTO='' @ proto] @
     (case iface of None \<Rightarrow> [] | Some i \<Rightarrow> [''TRAFFIC_LAN_INTERFACE='' @ i]) @
     [''sh'', ''/tmp/openwrt/setup.sh'', host]"

lemma sh_lex_quote_end [sh_read]:
  "sh_lex w Unquoted (shlex_quote s) = Some [Word (cur_word w @ s)]"
  using sh_lex_quote [of w s "[]"] by (simp add: end_word_def)

text \<open>
  C2: Whatever the client passes, an accepted \<open>openwrt_run_repo_setup\<close> request becomes a command
  line whose shell words are exactly the three or four environment assignments, \<open>sh\<close>, the path
  of \<open>setup.sh\<close> and the validated host: no argument can add a word or an operator.
\<close>

theorem build_setup_command_words:
  assumes "build_setup_command h prof t p pr tmo = Inr spec"
  shows "\<exists>host profile port iface.
    validate_host h = Inr host \<and> normalize_profile prof = Inr profile \<and> validate_port p = Inr port \<and>
    py_strip (py_lower pr) \<in> {''udp'', ''tcp''} \<and>
    (if t = [] then iface = None else iface = Some (py_strip t) \<and> validate_interface t = Inr (py_strip t)) \<and>
    shell_tokens (command spec) =
      Some (map Word (setup_words host profile port (py_strip (py_lower pr)) iface))"
proof -
  let ?pr = "py_strip (py_lower pr)"
  from assms obtain host port profile where
    v: "validate_host h = Inr host" "validate_port p = Inr port" "normalize_profile prof = Inr profile"
    and pr: "?pr \<in> {''udp'', ''tcp''}"
    by (auto simp: build_setup_command_def Let_def res_iff ALLOWED_SYSLOG_PROTOCOLS_def)
  define iface where "iface = (if t = [] then None else Some (py_strip t))"
  have vi: "validate_interface t = Inr (py_strip t)" if "t \<noteq> []"
    using assms that
    by (auto simp: build_setup_command_def Let_def res_iff validate_interface_def split: if_splits)
  have "shell_tokens (command spec) = Some (map Word (setup_words host profile port ?pr iface))"
    using assms v vi pr
    by (cases "t = []") (auto simp: build_setup_command_def Let_def res_iff iface_def
        shell_tokens_def setup_words_def sh_read)
  then show ?thesis using v pr vi by (intro exI [of _ host] exI [of _ profile] exI [of _ port]
      exI [of _ iface]) (simp add: iface_def)
qed

theorem build_setup_command_words_witness:
  "\<exists>spec. build_setup_command ''192.168.0.221'' ''core,dpi'' ''br-lan'' (PyInt 514) ''UDP'' 600 = Inr spec \<and>
     shell_tokens (command spec) = Some (map Word
       [''OPENWRT_MONITOR_PROFILE=core,dpi'', ''SYSLOG_PORT=514'', ''SYSLOG_PROTO=udp'',
        ''TRAFFIC_LAN_INTERFACE=br-lan'', ''sh'', ''/tmp/openwrt/setup.sh'', ''192.168.0.221''])"
proof -
  have v: "validate_host ''192.168.0.221'' = Inr ''192.168.0.221''" by code_simp
  have n: "normalize_profile ''core,dpi'' = Inr ''core,dpi''" by code_simp
  have p: "validate_port (PyInt 514) = Inr 514" by code_simp
  have i: "validate_interface ''br-lan'' = Inr ''br-lan''" by code_simp
  have pr: "py_strip (py_lower ''UDP'') = ''udp''" by code_simp
  have t: "py_strip ''br-lan'' = ''br-lan''" by code_simp
  have s: "show_int 514 = ''514''" by code_simp
  have "\<exists>spec. build_setup_command ''192.168.0.221'' ''core,dpi'' ''br-lan'' (PyInt 514) ''UDP'' 600 = Inr spec"
    by (simp add: build_setup_command_def v n p i pr ALLOWED_SYSLOG_PROTOCOLS_def)
  then obtain spec where
    spec: "build_setup_command ''192.168.0.221'' ''core,dpi'' ''br-lan'' (PyInt 514) ''UDP'' 600 = Inr spec" ..
  from build_setup_command_words [OF spec] show ?thesis
    by (auto simp: spec v n p pr t s setup_words_def)
qed

text \<open>
  C23: A test log message and its tag reach \<open>logger\<close> as one word each, unaltered after trimming,
  and the accepted message has at most 240 characters.
\<close>

theorem build_test_log_command_words:
  assumes "build_test_log_command msg tg = Inr spec"
  shows "\<exists>message tag.
    message = py_strip (if msg = [] then ''test message from OpenWrt SSH MCP'' else msg) \<and>
    tag = py_strip (if tg = [] then ''openwrt-ssh-mcp'' else tg) \<and>
    length message \<le> 240 \<and> TAG_RE tag \<and>
    shell_tokens (command spec) = Some [Word ''logger'', Word ''-t'', Word tag, Word message]"
  using assms
  by (auto simp: build_test_log_command_def Let_def res_iff shell_tokens_def sh_read)

theorem build_test_log_command_words_witness:
  "\<exists>spec. build_test_log_command ''it's; reboot'' [] = Inr spec \<and>
     shell_tokens (command spec) =
       Some [Word ''logger'', Word ''-t'', Word ''openwrt-ssh-mcp'', Word ''it's; reboot'']"
proof -
  have m: "py_strip ''it's; reboot'' = ''it's; reboot''" by code_simp
  have t: "py_strip ''openwrt-ssh-mcp'' = ''openwrt-ssh-mcp''" by code_simp
  have g: "TAG_RE ''openwrt-ssh-mcp''" by code_simp
  have "\<exists>spec. build_test_log_command ''it's; reboot'' [] = Inr spec"
    by (simp add: build_test_log_command_def Let_def m t g)
  then obtain spec where spec: "build_test_log_command ''it's; reboot'' [] = Inr spec" ..
  from build_test_log_command_words [OF spec] show ?thesis by (auto simp: spec m t)
qed

text \<open>
  C22: The syslog configuration command is the fixed sequence of five \<open>uci\<close>, \<open>init.d\<close> and \<open>grep\<close>
  commands: the validated host, the port in range and the protocol each end up inside one
  assignment word of their own \<open>uci set\<close>.
\<close>

theorem build_configure_syslog_command_words:
  assumes "build_configure_syslog_command h p pr = Inr spec"
  shows "\<exists>host port proto.
    validate_host h = Inr host \<and> validate_port p = Inr port \<and> proto = py_strip (py_lower pr) \<and>
    proto \<in> {''udp'', ''tcp''} \<and>
    shell_tokens (command spec) = Some
      [Word ''uci'', Word ''set'', Word (''system.@system[0].log_ip='' @ host), Op CHR '';'',
       Word ''uci'', Word ''set'', Word (''system.@system[0].log_port='' @ show_int port), Op CHR '';'',
       Word ''uci'', Word ''set'', Word (''system.@system[0].log_proto='' @ proto), Op CHR '';'',
       Word ''uci'', Word ''commit'', Word ''system'', Op CHR '';'',
       Word ''/etc/init.d/log'', Word ''restart'', Op CHR '';'',
       Word ''uci'', Word ''-q'', Word ''show'', Word ''system'', Op CHR ''|'',
       Word ''grep'', Word ''log_'']"
proof -
  have pipe: "sh_lex w Unquoted (CHR ''|'' # cs)
      = map_option (\<lambda>ts. end_word w @ Op CHR ''|'' # ts) (sh_lex None Unquoted cs)" for w cs
    by (simp add: sh_lex.simps(2) sh_blank_def sh_op_def code_def)
  show ?thesis
    using assms
    by (auto simp: build_configure_syslog_command_def Let_def res_iff ALLOWED_SYSLOG_PROTOCOLS_def
        shell_tokens_def pipe SQ_unquoted sh_read)
qed

theorem build_configure_syslog_command_words_witness:
  "\<exists>spec ts. build_configure_syslog_command ''fe80::1'' (PyStr ''514'') '' TCP'' = Inr spec \<and>
     shell_tokens (command spec) =
       Some (Word ''uci'' # Word ''set'' # Word ''system.@system[0].log_ip=fe80::1'' # ts)"
proof -
  have v: "validate_host ''fe80::1'' = Inr ''fe80::1''" by code_simp
  have p: "validate_port (PyStr ''514'') = Inr 514" by code_simp
  have pr: "py_strip (py_lower '' TCP'') = ''tcp''" by code_simp
  have "\<exists>spec. build_configure_syslog_command ''fe80::1'' (PyStr ''514'') '' TCP'' = Inr spec"
    by (simp add: build_configure_syslog_command_def v p pr Let_def ALLOWED_SYSLOG_PROTOCOLS_def)
  then obtain spec where
    spec: "build_configure_syslog_command ''fe80::1'' (PyStr ''514'') '' TCP'' = Inr spec" ..
  from build_configure_syslog_command_words [OF spec] show ?thesis by (auto simp: spec v)
qed

end
