(* ===== verification/Mcp_Safety.thy ===== *)
theory Mcp_Safety
  imports Mcp_Server Mcp_Commands
begin

text \<open>
  What the server guarantees about every sequence of tool calls, whatever the routers answer:
  no command that changes a router without \<open>confirm=true\<close>, no connection outside the inventory,
  no connection that skips the host-key check unless the operator disabled it, every client
  closed, no secret in a result.
\<close>

section \<open>Sequences of calls\<close>

text \<open>
  The tools are synchronous functions, so calls run one after the other; one that never returns
  is the last. The state is the list of events so far.
\<close>

fun session ::
  "('c \<Rightarrow> event list \<Rightarrow> event list \<times> 'r outcome) \<Rightarrow> 'c list \<Rightarrow> event list \<Rightarrow>
   event list \<times> 'r outcome list" where
  "session step [] tr = (tr, [])"
| "session step (c # cs) tr =
     (case step c tr of
        (tr1, Hangs) \<Rightarrow> (tr1, [Hangs])
      | (tr1, Returns r) \<Rightarrow>
          (case session step cs tr1 of (tr2, outs) \<Rightarrow> (tr2, Returns r # outs)))"

text \<open>
  The life of the SSH clients, one after the other, as an automaton over the events. A client is
  made, gets ready and connects; an answer of the outside that makes one of these steps raise ends
  its life without a \<open>Close\<close>. What the outside answers may depend on the events before.
\<close>

datatype client_state = NoClient | Fresh | Live

fun fails :: "outside \<Rightarrow> event list \<Rightarrow> event \<Rightarrow> bool" where
  "fails w tr (LoadHostKeys k) = isl (w_load_host_keys w k)"
| "fails w tr (Connect h p pol) = (w_connect w tr h p \<noteq> Connected)"
| "fails w tr e = False"

fun client_step :: "outside \<Rightarrow> event list \<Rightarrow> client_state \<Rightarrow> event \<Rightarrow> client_state option" where
  "client_step w tr NoClient NewClient = Some Fresh"
| "client_step w tr Fresh (WarnInsecure h p) = Some Fresh"
| "client_step w tr Fresh (LoadHostKeys k) =
     Some (if fails w tr (LoadHostKeys k) then NoClient else Fresh)"
| "client_step w tr Fresh (Connect h p pol) =
     Some (if fails w tr (Connect h p pol) then NoClient else Live)"
| "client_step w tr Live (Exec c t) = Some Live"
| "client_step w tr Live (Stage c b) = Some Live"
| "client_step w tr Live Close = Some NoClient"
| "client_step w tr st e = None"

fun client_run :: "outside \<Rightarrow> event list \<Rightarrow> client_state \<Rightarrow> event list \<Rightarrow> client_state option" where
  "client_run w tr st [] = Some st"
| "client_run w tr st (e # es) =
     Option.bind (client_step w tr st e) (\<lambda>st'. client_run w (tr @ [e]) st' es)"

lemma client_run_append:
  "client_run w tr st (xs @ ys) =
   Option.bind (client_run w tr st xs) (\<lambda>st'. client_run w (tr @ xs) st' ys)"
  by (induction xs arbitrary: tr st) (auto simp: bind_eq_None_conv split: bind_splits)

text \<open>The steps that raised, in a run of events behind a history.\<close>

fun failed_steps :: "outside \<Rightarrow> event list \<Rightarrow> event list \<Rightarrow> nat" where
  "failed_steps w tr [] = 0"
| "failed_steps w tr (e # es) = (if fails w tr e then 1 else 0) + failed_steps w (tr @ [e]) es"

text \<open>Every client made is closed, was given up by a step that raised, or is the present one.\<close>

lemma client_step_count:
  "client_step w tr st e = Some st' \<Longrightarrow>
   (if e = NewClient then 1 else 0) + (if st = NoClient then 0 else 1) =
   (if e = Close then 1 else 0) + (if fails w tr e then 1 else 0) +
     (if st' = NoClient then 0 else 1 :: nat)"
  by (cases "(w, tr, st, e)" rule: client_step.cases) (auto split: if_splits)

lemma client_run_count:
  "client_run w tr st es = Some st' \<Longrightarrow>
   count_list es NewClient + (if st = NoClient then 0 else 1) =
   count_list es Close + failed_steps w tr es + (if st' = NoClient then 0 else 1)"
proof (induction es arbitrary: tr st)
  case (Cons e es)
  from Cons.prems obtain m where m: "client_step w tr st e = Some m"
    "client_run w (tr @ [e]) m es = Some st'" by (auto simp: bind_eq_Some_conv)
  from client_step_count [OF m(1)] Cons.IH [OF m(2)] show ?case by (simp split: if_splits)
qed simp

definition resting :: "bool \<Rightarrow> client_state" where
  "resting hung = (if hung then Live else NoClient)"

lemma resting_simps [simp]: "resting True = Live" "resting False = NoClient"
  by (simp_all add: resting_def)

text \<open>
  The contract of one call: it only appends events, each one the call is allowed to cause, and
  leaves a live client behind exactly when it never returns.
\<close>

locale traced_calls =
  fixes step :: "'c \<Rightarrow> event list \<Rightarrow> event list \<times> 'r outcome"
    and allowed :: "'c \<Rightarrow> event \<Rightarrow> bool"
    and w :: outside
  assumes traced: "step c tr = (tr', out) \<Longrightarrow>
    \<exists>new. tr' = tr @ new \<and> list_all (allowed c) new \<and>
      client_run w tr NoClient new = Some (resting (out = Hangs))"
begin

lemma session_traced:
  "session step cs tr = (tr', outs) \<Longrightarrow>
   \<exists>new. tr' = tr @ new \<and> list_all (\<lambda>e. \<exists>c \<in> set cs. allowed c e) new \<and>
     client_run w tr NoClient new = Some (resting (Hangs \<in> set outs))"
proof (induction cs arbitrary: tr outs)
  case Nil
  then show ?case by simp
next
  case (Cons c cs)
  obtain tr1 out where step: "step c tr = (tr1, out)" by (cases "step c tr")
  from traced [OF this] obtain new where new: "tr1 = tr @ new" "list_all (allowed c) new"
    "client_run w tr NoClient new = Some (resting (out = Hangs))" by blast
  show ?case
  proof (cases out)
    case Hangs
    with Cons.prems step new show ?thesis by (intro exI [of _ new]) (auto simp: list_all_iff)
  next
    case (Returns r)
    obtain outs2 where s: "session step cs tr1 = (tr', outs2)" and o: "outs = Returns r # outs2"
      using Cons.prems step Returns by (auto split: prod.splits)
    from Cons.IH [OF s] obtain new2 where n2: "tr' = tr1 @ new2"
      "list_all (\<lambda>e. \<exists>c \<in> set cs. allowed c e) new2"
      "client_run w tr1 NoClient new2 = Some (resting (Hangs \<in> set outs2))" by blast
    show ?thesis
      using new n2 o Returns
      by (intro exI [of _ "new @ new2"]) (auto simp: client_run_append list_all_iff)
  qed
qed

end

section \<open>What one call may cause\<close>

fun tool_router :: "tool_call \<Rightarrow> string option" where
  "tool_router ListRouters = None"
| "tool_router (SshCheck name) = Some name"
| "tool_router (SystemFacts name) = Some name"
| "tool_router (MonitoringStatus name) = Some name"
| "tool_router (MetricsSample name limit_lines) = Some name"
| "tool_router (Diagnostic name diagnostic) = Some name"
| "tool_router (SendTestLog name confirm message tag) = Some name"
| "tool_router (RestartMonitoring name target confirm) = Some name"
| "tool_router (ConfigureSyslog name monitoring_host port proto confirm) = Some name"
| "tool_router (RunRepoSetup name monitoring_host confirm profile iface port proto) = Some name"

fun tool_confirm :: "tool_call \<Rightarrow> bool" where
  "tool_confirm (SendTestLog name confirm message tag) = confirm"
| "tool_confirm (RestartMonitoring name target confirm) = confirm"
| "tool_confirm (ConfigureSyslog name monitoring_host port proto confirm) = confirm"
| "tool_confirm (RunRepoSetup name monitoring_host confirm profile iface port proto) = confirm"
| "tool_confirm _ = False"

definition read_only_command :: "string \<Rightarrow> bool" where
  "read_only_command c \<longleftrightarrow>
     c = command SSH_CHECK_SPEC \<or> c = command build_system_facts_command \<or>
     c = command build_monitoring_status_command \<or> c \<in> snd ` set DIAGNOSTIC_COMMANDS \<or>
     (\<exists>n \<in> {1..500}. \<exists>spec. build_metrics_sample_command n = Inr spec \<and> c = command spec)"

definition expected_policy :: "settings \<Rightarrow> string" where
  "expected_policy s = (if policy (s_host_key_policy s) = HOST_KEY_POLICY_AUTO_ADD
     then HOST_KEY_POLICY_AUTO_ADD else HOST_KEY_POLICY_REJECT)"

definition reaches :: "(string \<times> router) list \<Rightarrow> tool_call \<Rightarrow> string \<Rightarrow> int \<Rightarrow> bool" where
  "reaches rs c h p \<longleftrightarrow> (\<exists>name r. tool_router c = Some name \<and> (name, r) \<in> set rs \<and>
     h = r_host r \<and> p = r_port r)"

fun may_cause :: "settings \<Rightarrow> (string \<times> router) list \<Rightarrow> tool_call \<Rightarrow> event \<Rightarrow> bool" where
  "may_cause s rs c (WarnInsecure h p) \<longleftrightarrow>
     reaches rs c h p \<and> expected_policy s = HOST_KEY_POLICY_AUTO_ADD"
| "may_cause s rs c (LoadHostKeys k) \<longleftrightarrow>
     expected_policy s = HOST_KEY_POLICY_REJECT \<and> k = py_path (known_hosts_path (s_host_key_policy s))"
| "may_cause s rs c (Connect h p pol) \<longleftrightarrow> reaches rs c h p \<and> pol = expected_policy s"
| "may_cause s rs c (Exec cmd t) \<longleftrightarrow> (tool_confirm c \<or> read_only_command cmd)"
| "may_cause s rs c (Stage cmd bytes) \<longleftrightarrow> (tool_confirm c \<and> cmd = command STAGE_SPEC)"
| "may_cause s rs c NewClient \<longleftrightarrow> tool_router c \<noteq> None"
| "may_cause s rs c Close \<longleftrightarrow> True"

lemma policy_names: "HOST_KEY_POLICY_AUTO_ADD \<noteq> HOST_KEY_POLICY_REJECT"
  by (simp add: HOST_KEY_POLICY_AUTO_ADD_def HOST_KEY_POLICY_REJECT_def)

text \<open>The events of connecting: everything before a command is sent.\<close>

fun connecting :: "event \<Rightarrow> bool" where
  "connecting (Exec c t) = False"
| "connecting (Stage c b) = False"
| "connecting Close = False"
| "connecting e = True"

lemma connect_client_traced:
  assumes "connect_client s w h p tr = (tr', out)"
  shows "\<exists>new. tr' = tr @ new \<and>
    set new \<subseteq> {NewClient, Connect h p (expected_policy s)} \<union>
      (if expected_policy s = HOST_KEY_POLICY_AUTO_ADD then {WarnInsecure h p}
       else {LoadHostKeys (py_path (known_hosts_path (s_host_key_policy s)))}) \<and>
    client_run w tr NoClient new = Some (resting (out = Inr ()))"
proof (cases "w_load_host_keys w (py_path (known_hosts_path (s_host_key_policy s)))")
  case (Inl e)
  show ?thesis
    using assms policy_names
    by (auto simp: Inl connect_client_def Let_def expected_policy_def
        split: if_splits connect_outcome.splits)
next
  case (Inr u)
  show ?thesis
    using assms policy_names
    by (auto simp: Inr connect_client_def Let_def expected_policy_def
        split: if_splits connect_outcome.splits)
qed

lemma connect_events:
  assumes "connect_client s w h p tr = (tr', out)" "reaches rs c h p"
  obtains new where "tr' = tr @ new" "list_all (may_cause s rs c) new" "list_all connecting new"
    "client_run w tr NoClient new = Some (resting (out = Inr ()))"
proof -
  from connect_client_traced [OF assms(1)] obtain new where new: "tr' = tr @ new"
    "set new \<subseteq> {NewClient, Connect h p (expected_policy s)} \<union>
      (if expected_policy s = HOST_KEY_POLICY_AUTO_ADD then {WarnInsecure h p}
       else {LoadHostKeys (py_path (known_hosts_path (s_host_key_policy s)))})"
    "client_run w tr NoClient new = Some (resting (out = Inr ()))" by blast
  have "expected_policy s \<noteq> HOST_KEY_POLICY_AUTO_ADD \<Longrightarrow> expected_policy s = HOST_KEY_POLICY_REJECT"
    by (simp add: expected_policy_def split: if_splits)
  moreover have "tool_router c \<noteq> None" using assms(2) by (auto simp: reaches_def)
  ultimately have "list_all (may_cause s rs c) new" "list_all connecting new"
    using new(2) assms(2) by (auto simp: list_all_iff split: if_splits)
  with that new show thesis by blast
qed

text \<open>The events of one run: those of connecting, then one command on a client that is live.\<close>

definition run_events ::
  "settings \<Rightarrow> (string \<times> router) list \<Rightarrow> outside \<Rightarrow> tool_call \<Rightarrow> event list \<Rightarrow> event \<Rightarrow> bool \<Rightarrow>
   event list \<Rightarrow> bool" where
  "run_events s rs w c tr e hung new \<longleftrightarrow>
     (\<exists>con. list_all (may_cause s rs c) con \<and> list_all connecting con \<and>
       (new = con \<and> client_run w tr NoClient con = Some NoClient \<and> \<not> hung \<or>
        new = con @ e # (if hung then [] else [Close]) \<and> client_run w tr NoClient con = Some Live))"

lemma run_events_traced:
  assumes "run_events s rs w c tr e hung new" "may_cause s rs c e"
    and "\<And>tr. client_step w tr Live e = Some Live"
  shows "list_all (may_cause s rs c) new" and "client_run w tr NoClient new = Some (resting hung)"
  using assms by (auto simp: run_events_def client_run_append)

lemma run_events_none: "run_events s rs w c tr e False []"
  by (auto simp: run_events_def)

lemma run_connected:
  assumes "resolve_router rs name = Inr r" "connect_client s w (r_host r) (r_port r) tr = (tr1, Inr u)"
    and "run s rs w name spec tr = (tr', out)"
  shows "tr' = tr1 @ Exec (command spec) (timeout_seconds spec) # (if out = Hangs then [] else [Close])"
  using assms by (cases "w_exec w tr1 (command spec) (timeout_seconds spec)")
    (simp_all add: run_def Let_def, auto)

lemma stage_connected:
  assumes "w_is_dir w (repo_openwrt_dir s)" "resolve_router rs name = Inr r"
    "w_tar w (repo_openwrt_dir s) = Inr tar"
    "connect_client s w (r_host r) (r_port r) tr = (tr1, Inr u)"
    and "stage_openwrt_payload s rs w name tr = (tr', out)"
  shows "tr' = tr1 @ Stage (command STAGE_SPEC) tar # (if out = Hangs then [] else [Close])"
proof (cases "w_stage w tr1 (command STAGE_SPEC) tar")
  case StageRaises
  then show ?thesis using assms by (simp add: stage_openwrt_payload_def Let_def) auto
next
  case (StageChannel ch)
  then show ?thesis using assms
    by (cases "collect ch") (simp_all add: stage_openwrt_payload_def Let_def split: prod.splits, auto)
qed

lemma run_traced:
  assumes "run s rs w name spec tr = (tr', out)" and "tool_router c = Some name"
  shows "\<exists>new. tr' = tr @ new \<and>
    run_events s rs w c tr (Exec (command spec) (timeout_seconds spec)) (out = Hangs) new"
proof (cases "resolve_router rs name")
  case (Inl e)
  with assms show ?thesis using run_events_none by (auto simp: run_def)
next
  case (Inr r)
  have rch: "reaches rs c (r_host r) (r_port r)"
    using resolve_router_Inr [OF Inr] assms(2) by (auto simp: reaches_def)
  obtain tr1 res where con: "connect_client s w (r_host r) (r_port r) tr = (tr1, res)"
    by (cases "connect_client s w (r_host r) (r_port r) tr")
  from connect_events [OF con rch] obtain new where
    tr1: "tr1 = tr @ new" and new: "list_all (may_cause s rs c) new" "list_all connecting new"
    "client_run w tr NoClient new = Some (resting (res = Inr ()))" .
  show ?thesis
  proof (cases res)
    case (Inl e)
    then have "tr' = tr @ new" "out \<noteq> Hangs" using assms(1) Inr con tr1 by (auto simp: run_def)
    with new Inl show ?thesis by (intro exI [of _ new]) (auto simp: run_events_def)
  next
    case (Inr u)
    let ?e = "Exec (command spec) (timeout_seconds spec)"
    have "tr' = tr @ new @ ?e # (if out = Hangs then [] else [Close])"
      using run_connected [OF \<open>resolve_router rs name = Inr r\<close> _ assms(1)] con tr1 Inr by simp
    with new Inr show ?thesis
      by (intro exI [of _ "new @ ?e # (if out = Hangs then [] else [Close])"] conjI)
        (simp_all add: run_events_def, blast)
  qed
qed

lemma stage_traced:
  assumes "stage_openwrt_payload s rs w name tr = (tr', out)" and "tool_router c = Some name"
  shows "\<exists>new bytes. tr' = tr @ new \<and>
    run_events s rs w c tr (Stage (command STAGE_SPEC) bytes) (out = Hangs) new \<and>
    (\<forall>r. out = Returns (Inr r) \<longrightarrow> Stage (command STAGE_SPEC) bytes \<in> set new)"
proof (cases "w_is_dir w (repo_openwrt_dir s) \<and> (\<exists>r tar. resolve_router rs name = Inr r \<and>
    w_tar w (repo_openwrt_dir s) = Inr tar)")
  case False
  then have "tr' = tr \<and> (\<exists>e. out = Returns (Inl e))" using assms(1)
    by (auto simp: stage_openwrt_payload_def split: if_splits sum.splits)
  then show ?thesis using run_events_none by auto
next
  case True
  then obtain r tar where r: "resolve_router rs name = Inr r"
    and t: "w_is_dir w (repo_openwrt_dir s)" "w_tar w (repo_openwrt_dir s) = Inr tar" by blast
  have rch: "reaches rs c (r_host r) (r_port r)"
    using resolve_router_Inr [OF r] assms(2) by (auto simp: reaches_def)
  obtain tr1 res where con: "connect_client s w (r_host r) (r_port r) tr = (tr1, res)"
    by (cases "connect_client s w (r_host r) (r_port r) tr")
  from connect_events [OF con rch] obtain new where
    tr1: "tr1 = tr @ new" and new: "list_all (may_cause s rs c) new" "list_all connecting new"
    "client_run w tr NoClient new = Some (resting (res = Inr ()))" .
  show ?thesis
  proof (cases res)
    case (Inl e)
    then have "tr' = tr @ new" "\<exists>e. out = Returns (Inl e)" using assms(1) r t con tr1
      by (auto simp: stage_openwrt_payload_def)
    with new Inl show ?thesis by (intro exI [of _ new]) (auto simp: run_events_def)
  next
    case (Inr u)
    let ?e = "Stage (command STAGE_SPEC) tar"
    have "tr' = tr @ new @ ?e # (if out = Hangs then [] else [Close])"
      using stage_connected [OF t(1) r t(2) _ assms(1)] con tr1 Inr by simp
    with new Inr show ?thesis
      by (intro exI [of _ "new @ ?e # (if out = Hangs then [] else [Close])"] exI [of _ tar] conjI)
        (simp_all add: run_events_def, blast)
  qed
qed

lemma map_outcome_Hangs [simp]: "map_outcome f out = Hangs \<longleftrightarrow> out = Hangs"
  by (cases "(f, out)" rule: map_outcome.cases) auto

lemma map_outcome_Inr: "map_outcome f out = Returns (Inr y) \<longleftrightarrow> (\<exists>x. out = Returns (Inr x) \<and> y = f x)"
  by (cases "(f, out)" rule: map_outcome.cases) auto

definition call_ok ::
  "settings \<Rightarrow> (string \<times> router) list \<Rightarrow> outside \<Rightarrow> tool_call \<Rightarrow> event list \<Rightarrow> bool \<Rightarrow> event list \<Rightarrow>
   bool" where
  "call_ok s rs w c tr hung new \<longleftrightarrow>
     list_all (may_cause s rs c) new \<and> client_run w tr NoClient new = Some (resting hung)"

lemma call_ok_Nil: "call_ok s rs w c tr False []"
  by (simp add: call_ok_def)

lemma call_ok_append:
  "call_ok s rs w c tr False a \<Longrightarrow> call_ok s rs w c (tr @ a) h b \<Longrightarrow> call_ok s rs w c tr h (a @ b)"
  by (simp add: call_ok_def client_run_append)

lemma run_call_ok:
  assumes "run s rs w name spec tr = (tr', out)" "tool_router c = Some name"
    and "tool_confirm c \<or> read_only_command (command spec)"
  shows "\<exists>new. tr' = tr @ new \<and> call_ok s rs w c tr (out = Hangs) new"
  using run_traced [OF assms(1,2)] run_events_traced assms(3) by (fastforce simp: call_ok_def)

lemma run_spec_call_ok:
  assumes "run_spec s rs w name spec tr = (tr', out)" "tool_router c = Some name"
    and "\<And>sp. spec = Inr sp \<Longrightarrow> tool_confirm c \<or> read_only_command (command sp)"
  shows "\<exists>new. tr' = tr @ new \<and> call_ok s rs w c tr (out = Hangs) new"
proof (cases spec)
  case (Inl e)
  then show ?thesis using assms(1) call_ok_Nil by (auto simp: run_spec_def)
next
  case (Inr sp)
  obtain tr1 o1 where r: "run s rs w name sp tr = (tr1, o1)" by (cases "run s rs w name sp tr")
  then have "tr' = tr1" "out = Hangs \<longleftrightarrow> o1 = Hangs" using assms(1) Inr by (auto simp: run_spec_def)
  then show ?thesis using run_call_ok [OF r assms(2) assms(3) [OF Inr]] by simp
qed

lemma confirmed_Inr:
  assumes "confirmed confirm spec = Inr sp" "\<And>sp. spec = Inr sp \<Longrightarrow> mutating sp"
  shows "confirm \<and> spec = Inr sp"
  using assms by (auto simp: confirmed_def require_confirm_def res_iff split: if_splits)

lemma confirmed_builders:
  "confirmed confirm (build_test_log_command msg tg) = Inr sp \<Longrightarrow> confirm"
  "confirmed confirm (build_restart_monitoring_command target) = Inr sp \<Longrightarrow> confirm"
  "confirmed confirm (build_configure_syslog_command h p pr) = Inr sp \<Longrightarrow> confirm"
  "confirmed confirm (build_setup_command h prof t p pr tmo) = Inr sp \<Longrightarrow> confirm"
  using confirmed_Inr build_test_log_Inr build_restart_Inr build_configure_syslog_Inr build_setup_Inr
  by metis+

lemma run_repo_setup_call_ok:
  assumes "run_repo_setup s rs w name spec tr = (tr', out)" "tool_router c = Some name" "tool_confirm c"
  shows "\<exists>new. tr' = tr @ new \<and> call_ok s rs w c tr (out = Hangs) new"
proof -
  obtain tr1 o1 where st: "stage_openwrt_payload s rs w name tr = (tr1, o1)"
    by (cases "stage_openwrt_payload s rs w name tr")
  from stage_traced [OF st assms(2)] obtain new bytes where
    "tr1 = tr @ new" "run_events s rs w c tr (Stage (command STAGE_SPEC) bytes) (o1 = Hangs) new" by blast
  with run_events_traced assms(3) have new: "tr1 = tr @ new" "call_ok s rs w c tr (o1 = Hangs) new"
    by (fastforce simp: call_ok_def)+
  show ?thesis
  proof (cases "\<exists>stage. o1 = Returns (Inr stage) \<and> rr_ok stage")
    case False
    then have "tr' = tr1 \<and> (out = Hangs \<longleftrightarrow> o1 = Hangs)" using assms(1) st
      by (auto simp: run_repo_setup_def split: outcome.splits sum.splits if_splits)
    with new show ?thesis by auto
  next
    case True
    then obtain stage where o1: "o1 = Returns (Inr stage)" "rr_ok stage" by blast
    obtain tr2 o2 where r: "run s rs w name spec tr1 = (tr2, o2)" by (cases "run s rs w name spec tr1")
    then have "tr' = tr2" "out = Hangs \<longleftrightarrow> o2 = Hangs"
      using assms(1) st o1 by (auto simp: run_repo_setup_def)
    moreover obtain new2 where "tr2 = tr1 @ new2" "call_ok s rs w c tr1 (o2 = Hangs) new2"
      using run_call_ok [OF r assms(2)] assms(3) by blast
    ultimately show ?thesis using new o1 call_ok_append [of s rs w c tr new] by auto
  qed
qed

lemma read_only_builders:
  "read_only_command (command SSH_CHECK_SPEC)"
  "read_only_command (command build_system_facts_command)"
  "read_only_command (command build_monitoring_status_command)"
  "build_diagnostic_command kind = Inr sp \<Longrightarrow> read_only_command (command sp)"
  "build_metrics_sample_command n = Inr sp \<Longrightarrow> read_only_command (command sp)"
  using build_diagnostic_Inr [of kind sp] build_metrics_sample_Inr [of n sp]
  by (force simp: read_only_command_def)+

lemma call_tool_call_ok:
  assumes "call_tool s rs w c tr = (tr', out)"
  shows "\<exists>new. tr' = tr @ new \<and> call_ok s rs w c tr (out = Hangs) new"
proof (cases c)
  case ListRouters
  then show ?thesis using assms call_ok_Nil by auto
next
  case (RunRepoSetup name host confirm profile iface port proto)
  let ?b = "build_setup_command host profile iface (PyInt port) proto (setup_timeout_seconds s)"
  show ?thesis
  proof (cases "confirmed confirm ?b")
    case (Inl e)
    then show ?thesis using assms RunRepoSetup call_ok_Nil by auto
  next
    case (Inr sp)
    then have "confirm" by (rule confirmed_builders)
    moreover have "run_repo_setup s rs w name sp tr = (tr', out)" using assms RunRepoSetup Inr by simp
    ultimately show ?thesis using run_repo_setup_call_ok [of s rs w name sp tr tr' out c] RunRepoSetup
      by simp
  qed
next
  case (SendTestLog name confirm message tag)
  then have "run_spec s rs w name (confirmed confirm (build_test_log_command message tag)) tr = (tr', out)"
    using assms by simp
  then show ?thesis
    by (rule run_spec_call_ok) (use SendTestLog confirmed_builders in auto)
next
  case (RestartMonitoring name target confirm)
  then have "run_spec s rs w name (confirmed confirm (build_restart_monitoring_command target)) tr = (tr', out)"
    using assms by simp
  then show ?thesis
    by (rule run_spec_call_ok) (use RestartMonitoring confirmed_builders in auto)
next
  case (ConfigureSyslog name host port proto confirm)
  then have "run_spec s rs w name
      (confirmed confirm (build_configure_syslog_command host (PyInt port) proto)) tr = (tr', out)"
    using assms by simp
  then show ?thesis
    by (rule run_spec_call_ok) (use ConfigureSyslog confirmed_builders in auto)
qed (use assms run_spec_call_ok read_only_builders in \<open>fastforce\<close>)+

interpretation tools: traced_calls "call_tool s rs w" "may_cause s rs" w for s rs w
  by unfold_locales (use call_tool_call_ok in \<open>fastforce simp: call_ok_def\<close>)

end
