(* ===== verification/Mcp_Properties.thy ===== *)
theory Mcp_Properties
  imports Mcp_Safety
begin

text \<open>
  The server's properties, over every sequence of tool calls, every environment it starts in and
  every answer of the outside; and the small deployment their examples run on.
\<close>

section \<open>A deployment\<close>

definition demo_env :: environ where
  "demo_env = [''OPENWRT_SSH_USERNAME'' \<mapsto> ''root'', ''OPENWRT_SSH_PASSWORD'' \<mapsto> ''hunter22'',
     ''OPENWRT_MCP_TOKEN'' \<mapsto> ''0123456789abcdefgh'', ''OPENWRT_MCP_ROUTERS'' \<mapsto> ''main=192.168.0.1'']"

definition demo_settings :: settings where
  "demo_settings = \<lparr>routers_raw = ''main=192.168.0.1'', username = ''root'', password = ''hunter22'',
     token = ''0123456789abcdefgh'', allowed_hosts = [''127.0.0.1'', ''localhost''],
     allowed_origins = [], ssh_timeout_seconds = 15, setup_timeout_seconds = 600,
     output_limit = 12000, repo_openwrt_dir = ''/app/openwrt'',
     s_host_key_policy = \<lparr>policy = ''RejectPolicy'', known_hosts_path = ''/app/known_hosts'',
       insecure = False\<rparr>\<rparr>"

definition demo_routers :: "(string \<times> router) list" where
  "demo_routers = [(''main'', \<lparr>r_name = ''main'', r_host = ''192.168.0.1'', r_port = 22\<rparr>)]"

text \<open>Everything answers at once; the commands echo the password.\<close>

definition demo_outside :: outside where
  "demo_outside = \<lparr>w_is_dir = (\<lambda>_. True), w_is_file = (\<lambda>_. True),
     w_load_host_keys = (\<lambda>_. Inr ()), w_tar = (\<lambda>_. Inr ''tar''),
     w_connect = (\<lambda>_ _ _. Connected), w_exec = (\<lambda>_ _ _. ExecDone 0 ''pw=hunter22'' []),
     w_stage = (\<lambda>_ _ _. StageChannel \<lparr>tick = (\<lambda>n. (0 < n, Some ''x'', None)),
       tail_out = (\<lambda>_. None), tail_err = (\<lambda>_. None), exit_status = 0\<rparr>),
     w_decode = (\<lambda>b. b), w_elapsed_ms = (\<lambda>_. 5)\<rparr>"

text \<open>The same, but every router shows a host key that is not the known one.\<close>

definition refusing_outside :: outside where
  "refusing_outside = demo_outside\<lparr>w_connect := (\<lambda>_ _ _. BadHostKey)\<rparr>"

lemma demo_startup: "startup demo_env = Inr (demo_settings, demo_routers)"
  by code_simp

lemmas demo_defs = demo_settings_def demo_routers_def demo_outside_def

lemma demo_session:
  "session (call_tool demo_settings demo_routers demo_outside) [SshCheck ''main'', SshCheck ''lab''] [] =
     ([NewClient, LoadHostKeys ''/app/known_hosts'', Connect ''192.168.0.1'' 22 ''RejectPolicy'',
       Exec (command SSH_CHECK_SPEC) 15, Close],
      [Returns (Inr (RunResult \<lparr>rr_router = ''main'', rr_description = ''Verify SSH connectivity.'',
         rr_exit_code = 0, rr_ok = True, rr_stdout = ''pw=[redacted]'', rr_stderr = [],
         rr_stdout_truncated = False, rr_stderr_truncated = False, rr_duration_ms = 5,
         rr_extra = NoExtra\<rparr>)),
       Returns (Inl (PolicyError ''unknown router 'lab'; allowed routers: main''))])"
  by code_simp

section \<open>Confirmation\<close>

text \<open>
  C1: In a sequence of tool calls of which none carries \<open>confirm=true\<close>, every command any router
  is given is one of the fixed read-only commands, and no payload is staged, whatever the
  arguments and whatever the routers answer.
\<close>

theorem session_needs_confirm:
  assumes "session (call_tool s rs w) cs [] = (tr, outs)" and "\<forall>c \<in> set cs. \<not> tool_confirm c"
  shows "(\<forall>cmd t. Exec cmd t \<in> set tr \<longrightarrow> read_only_command cmd) \<and> (\<forall>cmd b. Stage cmd b \<notin> set tr)"
proof -
  from tools.session_traced [OF assms(1)] have "\<forall>e \<in> set tr. \<exists>c \<in> set cs. may_cause s rs c e"
    by (auto simp: list_all_iff)
  with assms(2) show ?thesis by fastforce
qed

theorem session_needs_confirm_witness:
  "Exec (command SSH_CHECK_SPEC) 15 \<in> set (fst (session
     (call_tool demo_settings demo_routers demo_outside) [SshCheck ''main'', SshCheck ''lab''] [])) \<and>
   read_only_command (command SSH_CHECK_SPEC)"
  using session_needs_confirm [OF demo_session] unfolding demo_session by simp

section \<open>The allowlist and host keys\<close>

lemma from_env_Inr:
  assumes "from_env env = Inr s"
  shows "username s \<noteq> []" "password s \<noteq> []" "16 \<le> length (token s)"
    "token s \<noteq> ''change-me-openwrt-mcp-token''" "1 \<le> setup_timeout_seconds s"
    "s_host_key_policy s = resolve_host_key_policy
       (Some (getenv env ''OPENWRT_MCP_KNOWN_HOSTS'' DEFAULT_KNOWN_HOSTS_PATH))
       (env ''OPENWRT_MCP_INSECURE_HOST_KEYS'')"
  using assms
  by (auto simp: from_env_def Let_def res_iff resolve_setup_timeout_seconds_def
      DEFAULT_SETUP_TIMEOUT_SECONDS_def split: if_splits option.splits)

lemma startup_Inr:
  assumes "startup env = Inr (s, rs)"
  shows "from_env env = Inr s" and "inventory_ok rs"
proof -
  from assms have p: "from_env env = Inr s" "parse_router_inventory (routers_raw s) = Inr rs"
    by (auto simp: startup_def res_iff)
  then show "from_env env = Inr s" by simp
  from p(2) have "foldR parse_entry [] (py_split CHR '','' (py_strip (routers_raw s))) = Inr rs"
    by (simp add: parse_router_inventory_def Let_def split: if_splits)
  from foldR_parse_entry [OF this] show "inventory_ok rs" by (simp add: inventory_ok_def)
qed

lemma expected_policy_env:
  assumes "from_env env = Inr s"
  shows "expected_policy s = (if env_flag (env ''OPENWRT_MCP_INSECURE_HOST_KEYS'')
    then HOST_KEY_POLICY_AUTO_ADD else HOST_KEY_POLICY_REJECT)"
  using policy_names
  by (simp add: expected_policy_def from_env_Inr(6) [OF assms] resolve_host_key_policy_def Let_def)

text \<open>
  C4: Every connection a started server attempts goes to the address of a router of its inventory
  that a client asked for by name, an address with a valid host and port, and refuses unknown
  host keys unless the operator set \<open>OPENWRT_MCP_INSECURE_HOST_KEYS\<close>.
\<close>

theorem session_allowlist:
  assumes "startup env = Inr (s, rs)" and "session (call_tool s rs w) cs [] = (tr, outs)"
    and "Connect h p pol \<in> set tr"
  shows "\<exists>c \<in> set cs. \<exists>name r. tool_router c = Some name \<and> (name, r) \<in> set rs \<and>
    h = r_host r \<and> p = r_port r \<and> host_ok h \<and> 1 \<le> p \<and> p \<le> 65535 \<and>
    pol = (if env_flag (env ''OPENWRT_MCP_INSECURE_HOST_KEYS'')
           then ''AutoAddPolicy'' else ''RejectPolicy'')"
proof -
  from tools.session_traced [OF assms(2)] assms(3) obtain c where
    c: "c \<in> set cs" "may_cause s rs c (Connect h p pol)"
    by (auto simp: list_all_iff)
  moreover have "router_ok (name, r)" if "(name, r) \<in> set rs" for name r
    using startup_Inr(2) [OF assms(1)] that by (auto simp: inventory_ok_def list_all_iff)
  ultimately show ?thesis
    using expected_policy_env [OF startup_Inr(1) [OF assms(1)]]
    by (fastforce simp: reaches_def router_ok_def HOST_KEY_POLICY_AUTO_ADD_def
        HOST_KEY_POLICY_REJECT_def)
qed

theorem session_allowlist_witness:
  "\<exists>c \<in> set [SshCheck ''main'', SshCheck ''lab'']. \<exists>name r. tool_router c = Some name \<and>
     (name, r) \<in> set demo_routers \<and> ''192.168.0.1'' = r_host r \<and> host_ok ''192.168.0.1''"
  using session_allowlist [OF demo_startup demo_session, of "''192.168.0.1''" 22 "''RejectPolicy''"]
  by fastforce

section \<open>The lives of the clients\<close>

text \<open>
  C17: Over a sequence of tool calls the SSH clients live one after the other: a command or a
  payload is only sent on a client whose connect succeeded, and at most the client of a call that
  never returned is left live. But not every client is closed: the number of clients made is the
  number of \<open>close()\<close> calls, plus one for each \<open>load_host_keys\<close> or \<open>connect\<close> that raised, plus one
  when the last call never returned.
\<close>

theorem session_clients:
  assumes "session (call_tool s rs w) cs [] = (tr, outs)"
  shows "client_run w [] NoClient tr = Some (if Hangs \<in> set outs then Live else NoClient) \<and>
    count_list tr NewClient =
      count_list tr Close + failed_steps w [] tr + (if Hangs \<in> set outs then 1 else 0)"
proof -
  have "client_run w [] NoClient tr = Some (resting (Hangs \<in> set outs))"
    using tools.session_traced [OF assms] by auto
  from this client_run_count [OF this] show ?thesis by (auto simp: resting_def)
qed

theorem session_clients_witness:
  "client_run demo_outside [] NoClient (fst (session (call_tool demo_settings demo_routers demo_outside)
     [SshCheck ''main'', SshCheck ''lab''] [])) = Some NoClient"
proof -
  let ?s = "session (call_tool demo_settings demo_routers demo_outside) [SshCheck ''main'', SshCheck ''lab''] []"
  have "client_run demo_outside [] NoClient (fst ?s) = Some (if Hangs \<in> set (snd ?s) then Live else NoClient)"
    by (rule session_clients [OF surjective_pairing, THEN conjunct1])
  moreover have "Hangs \<notin> set (snd ?s)" unfolding demo_session by simp
  ultimately show ?thesis by (simp only: if_False)
qed

text \<open>The calls that need nothing but a router of the inventory.\<close>

fun plain_call :: "(string \<times> router) list \<Rightarrow> tool_call \<Rightarrow> bool" where
  "plain_call rs (SshCheck name) = (name \<in> fst ` set rs)"
| "plain_call rs (SystemFacts name) = (name \<in> fst ` set rs)"
| "plain_call rs (MonitoringStatus name) = (name \<in> fst ` set rs)"
| "plain_call rs _ = False"

lemma connect_refused:
  assumes "\<And>tr h p. w_connect w tr h p \<noteq> Connected" "connect_client s w h p tr = (tr', out)"
  shows "\<exists>e new. out = Inl e \<and> tr' = tr @ NewClient # new \<and> NewClient \<notin> set new \<and> Close \<notin> set new"
  using assms
  by (auto simp: connect_client_def Let_def split: if_splits sum.splits connect_outcome.splits) metis

lemma run_refused:
  assumes "\<And>tr h p. w_connect w tr h p \<noteq> Connected" "name \<in> fst ` set rs"
    and "run s rs w name spec tr = (tr', out)"
  shows "\<exists>e new. out = Returns (Inl e) \<and> tr' = tr @ NewClient # new \<and> NewClient \<notin> set new \<and>
    Close \<notin> set new"
proof -
  obtain rt where rt: "resolve_router rs name = Inr rt"
    using assms(2) resolve_router_Inl [of rs name] by (cases "resolve_router rs name") auto
  obtain tr1 res where c: "connect_client s w (r_host rt) (r_port rt) tr = (tr1, res)"
    by (cases "connect_client s w (r_host rt) (r_port rt) tr")
  from connect_refused [OF assms(1) c] obtain e new where
    n: "res = Inl e" "tr1 = tr @ NewClient # new" "NewClient \<notin> set new" "Close \<notin> set new" by blast
  then have "out = Returns (Inl e)" "tr' = tr1" using assms(3) rt c by (auto simp: run_def)
  with n show ?thesis by auto
qed

lemma plain_refused:
  assumes "\<And>tr h p. w_connect w tr h p \<noteq> Connected" "plain_call rs c"
    and "call_tool s rs w c tr = (tr', out)"
  shows "\<exists>e new. out = Returns (Inl e) \<and> tr' = tr @ NewClient # new \<and> NewClient \<notin> set new \<and>
    Close \<notin> set new"
proof -
  from assms(2) obtain name spec where
    "call_tool s rs w c tr = run_spec s rs w name (Inr spec) tr" "name \<in> fst ` set rs"
    by (cases c) auto
  with assms(3) obtain o1 where "run s rs w name spec tr = (tr', o1)" "out = map_outcome RunResult o1"
    by (auto simp: run_spec_def split: prod.splits)
  with run_refused [OF assms(1) \<open>name \<in> fst ` set rs\<close>] show ?thesis by fastforce
qed

lemma session_refused:
  assumes "\<And>tr h p. w_connect w tr h p \<noteq> Connected"
  shows "list_all (plain_call rs) cs \<Longrightarrow> session (call_tool s rs w) cs tr = (tr', outs) \<Longrightarrow>
    \<exists>new. tr' = tr @ new \<and> count_list new NewClient = length cs \<and> Close \<notin> set new \<and>
      list_all (\<lambda>x. \<exists>e. x = Returns (Inl e)) outs \<and> length outs = length cs"
proof (induction cs arbitrary: tr outs)
  case (Cons c cs)
  obtain tr1 o1 where c: "call_tool s rs w c tr = (tr1, o1)" by (cases "call_tool s rs w c tr")
  from Cons.prems(1) have pc: "plain_call rs c" and pcs: "list_all (plain_call rs) cs" by simp_all
  from plain_refused [OF assms pc c] obtain e new where
    n: "o1 = Returns (Inl e)" "tr1 = tr @ NewClient # new" "NewClient \<notin> set new" "Close \<notin> set new"
    by blast
  obtain outs2 where s: "session (call_tool s rs w) cs tr1 = (tr', outs2)" "outs = o1 # outs2"
    using Cons.prems(2) c n by (auto split: prod.splits)
  from Cons.IH [OF pcs s(1)] obtain new2 where "tr' = tr1 @ new2"
    "count_list new2 NewClient = length cs" "Close \<notin> set new2"
    "list_all (\<lambda>x. \<exists>e. x = Returns (Inl e)) outs2" "length outs2 = length cs" by blast
  with n s(2) show ?case by (intro exI [of _ "NewClient # new @ new2"]) (auto simp: count_notin)
qed simp



section \<open>Secrets stay inside\<close>

text \<open>The captured texts of a result: what the router printed, or the server in its place.\<close>

fun captured_texts :: "tool_result \<Rightarrow> string list" where
  "captured_texts (RouterList l) = []"
| "captured_texts (RunResult r) = [rr_stdout r, rr_stderr r]"
| "captured_texts (SetupResult a None ok) = [rr_stdout a, rr_stderr a]"
| "captured_texts (SetupResult a (Some b) ok) =
     [rr_stdout a, rr_stderr a, rr_stdout b, rr_stderr b]"

text \<open>Everything else of a result: the captured texts and their flags are blanked out.\<close>

definition blank :: "run_result \<Rightarrow> run_result" where
  "blank r = r\<lparr>rr_stdout := [], rr_stderr := [], rr_stdout_truncated := False,
     rr_stderr_truncated := False\<rparr>"

fun blank_result :: "tool_result \<Rightarrow> tool_result" where
  "blank_result (RouterList l) = RouterList l"
| "blank_result (RunResult r) = RunResult (blank r)"
| "blank_result (SetupResult a b ok) = SetupResult (blank a) (map_option blank b) ok"

text \<open>What a client sees of a call besides the captured texts: the events, the error, the rest.\<close>

definition public :: "event list \<times> tool_result outcome \<Rightarrow> event list \<times> tool_result outcome" where
  "public x = (fst x, map_outcome blank_result (snd x))"

definition with_secrets :: "settings \<Rightarrow> string \<Rightarrow> string \<Rightarrow> settings" where
  "with_secrets s p t = s\<lparr>password := p, token := t\<rparr>"

definition blank_run :: "event list \<times> run_result outcome \<Rightarrow> event list \<times> run_result outcome" where
  "blank_run x = (fst x, map_outcome blank (snd x))"

lemma run_result_blank:
  "map_outcome blank (Returns (run_result s w name spec st out err tr ext)) =
   Returns (if output_limit s < 1 then Inl (PolicyError ''output limit must be positive'')
     else Inr \<lparr>rr_router = name, rr_description = description spec, rr_exit_code = st,
       rr_ok = (st = 0), rr_stdout = [], rr_stderr = [], rr_stdout_truncated = False,
       rr_stderr_truncated = False, rr_duration_ms = w_elapsed_ms w tr, rr_extra = ext\<rparr>)"
  by (simp add: run_result_def truncate_output_def Let_def blank_def)

lemma connect_secrets: "connect_client (with_secrets s p t) = connect_client s"
  by (intro ext) (simp add: connect_client_def with_secrets_def)

lemma run_secrets:
  "blank_run (run (with_secrets s p t) rs w name spec tr) = blank_run (run s rs w name spec tr)"
proof -
  have lim: "output_limit (with_secrets s p t) = output_limit s" by (simp add: with_secrets_def)
  show ?thesis
    by (simp add: run_def connect_secrets blank_run_def Let_def run_result_blank lim
        del: map_outcome.simps(1,2) split: sum.split prod.split exec_outcome.split)
qed

lemma stage_secrets:
  "blank_run (stage_openwrt_payload (with_secrets s p t) rs w name tr) =
   blank_run (stage_openwrt_payload s rs w name tr)"
proof -
  have eq: "output_limit (with_secrets s p t) = output_limit s"
    "repo_openwrt_dir (with_secrets s p t) = repo_openwrt_dir s" by (simp_all add: with_secrets_def)
  show ?thesis
    by (simp add: stage_openwrt_payload_def connect_secrets blank_run_def Let_def run_result_blank eq
        del: map_outcome.simps(1,2)
        split: sum.split prod.split stage_outcome.split option.split)
qed

text \<open>A blanked outcome fixes everything the setup tool looks at.\<close>

lemma blank_run_cases:
  assumes "blank_run x = blank_run y"
  obtains tr where "x = (tr, Hangs)" "y = (tr, Hangs)"
  | tr e where "x = (tr, Returns (Inl e))" "y = (tr, Returns (Inl e))"
  | tr a b where "x = (tr, Returns (Inr a))" "y = (tr, Returns (Inr b))" "blank a = blank b"
proof -
  obtain tr ox where x: "x = (tr, ox)" by (cases x)
  obtain tr' oy where y: "y = (tr', oy)" by (cases y)
  have "tr' = tr" "map_outcome blank ox = map_outcome blank oy"
    using assms x y by (auto simp: blank_run_def)
  with that x y show thesis
    by (cases "(blank, ox)" rule: map_outcome.cases; cases "(blank, oy)" rule: map_outcome.cases) auto
qed

lemma blank_ok: "blank a = blank b \<Longrightarrow> rr_ok a = rr_ok b"
  by (metis blank_def run_result.select_convs(4) run_result.surjective run_result.update_convs(5-8))

lemma blank_run_pair:
  assumes "blank_run x = blank_run y"
  shows "public (fst x, map_outcome RunResult (snd x)) = public (fst y, map_outcome RunResult (snd y))"
  using assms by (rule blank_run_cases) (simp_all add: public_def)

lemma run_spec_secrets:
  "public (run_spec (with_secrets s p t) rs w name spec tr) = public (run_spec s rs w name spec tr)"
  using blank_run_pair [OF run_secrets]
  by (cases spec) (simp_all add: run_spec_def case_prod_beta Let_def)

lemma run_repo_setup_secrets:
  "public (run_repo_setup (with_secrets s p t) rs w name spec tr) =
   public (run_repo_setup s rs w name spec tr)"
  using stage_secrets [of s p t rs w name tr]
proof (rule blank_run_cases)
  fix tr1 a b
  assume st: "stage_openwrt_payload (with_secrets s p t) rs w name tr = (tr1, Returns (Inr a))"
    "stage_openwrt_payload s rs w name tr = (tr1, Returns (Inr b))" "blank a = blank b"
  from run_secrets [of s p t rs w name spec tr1] show ?thesis
    by (rule blank_run_cases) (auto simp: run_repo_setup_def st public_def blank_ok [OF st(3)] dest: blank_ok)
qed (simp_all add: run_repo_setup_def)

lemma call_tool_secrets:
  "public (call_tool (with_secrets s p t) rs w c tr) = public (call_tool s rs w c tr)"
proof -
  have "setup_timeout_seconds (with_secrets s p t) = setup_timeout_seconds s"
    by (simp add: with_secrets_def)
  then show ?thesis
    by (cases c) (simp_all add: run_spec_secrets run_repo_setup_secrets split: sum.split)
qed

text \<open>A secret the two markers cannot spell and that has no newline.\<close>

definition secret_ok :: "string \<Rightarrow> bool" where
  "secret_ok q = (markable q \<and> NL \<notin> set q \<and> \<not> py_in q ''[truncated]'')"

definition clean :: "settings \<Rightarrow> int \<Rightarrow> run_result \<Rightarrow> bool" where
  "clean s lim r = ((\<forall>q \<in> {password s, token s}. secret_ok q \<longrightarrow>
      \<not> py_in q (rr_stdout r) \<and> \<not> py_in q (rr_stderr r)) \<and>
     int (length (rr_stdout r)) \<le> lim + 12 \<and> int (length (rr_stderr r)) \<le> lim + 12 \<and>
     (rr_ok r \<longleftrightarrow> rr_exit_code r = 0))"

lemma truncate_length:
  "truncate_output t n = Inr (u, b) \<Longrightarrow> int (length u) \<le> n + 12"
  by (auto simp: truncate_output_def split: if_splits)

lemma run_result_clean:
  assumes "run_result s w name spec st out err tr ext = Inr r"
  shows "clean s (output_limit s) r"
proof -
  let ?out = "redact out [password s, token s]" and ?err = "redact err [password s, token s]"
  from assms obtain b b' where t:
    "truncate_output ?out (output_limit s) = Inr (rr_stdout r, b)"
    "truncate_output ?err (output_limit s) = Inr (rr_stderr r, b')"
    and ok: "rr_ok r \<longleftrightarrow> rr_exit_code r = 0"
    by (auto simp: run_result_def Let_def res_iff split: prod.splits)
  have "\<not> py_in q (rr_stdout r) \<and> \<not> py_in q (rr_stderr r)"
    if "q \<in> {password s, token s}" "secret_ok q" for q
    using that redact_free [of q "[password s, token s]"] truncate_free [OF t(1)]
      truncate_free [OF t(2)] unfolding secret_ok_def by simp
  with truncate_length [OF t(1)] truncate_length [OF t(2)] ok show ?thesis
    by (auto simp: clean_def)
qed

lemma run_clean:
  assumes "run s rs w name spec tr = (tr', Returns (Inr r))"
  shows "clean s (output_limit s) r"
  using assms run_result_clean
  by (auto simp: run_def Let_def split: sum.splits prod.splits exec_outcome.splits)

lemma stage_clean:
  assumes "stage_openwrt_payload s rs w name tr = (tr', Returns (Inr r))"
  shows "clean s (output_limit s) r"
  using assms run_result_clean
  by (auto simp: stage_openwrt_payload_def Let_def
      split: if_splits sum.splits prod.splits stage_outcome.splits option.splits)

lemma run_spec_clean:
  assumes "run_spec s rs w name sp tr = (tr', Returns (Inr res))"
  shows "\<exists>r. res = RunResult r \<and> clean s (output_limit s) r"
  using assms run_clean by (auto simp: run_spec_def map_outcome_Inr split: sum.splits prod.splits)

lemma run_repo_setup_clean:
  assumes "run_repo_setup s rs w name sp tr = (tr', Returns (Inr res))"
  shows "\<exists>a b ok. res = SetupResult a b ok \<and> clean s (output_limit s) a \<and>
    (\<forall>r. b = Some r \<longrightarrow> clean s (output_limit s) r)"
  using assms stage_clean run_clean
  by (auto simp: run_repo_setup_def map_outcome_Inr
      split: prod.splits outcome.splits sum.splits if_splits)

lemma call_tool_clean:
  assumes "call_tool s rs w c tr = (tr', Returns (Inr res))"
    and "q \<in> {password s, token s}" "secret_ok q" "t \<in> set (captured_texts res)"
  shows "\<not> py_in q t"
proof -
  have single: "\<not> py_in q t" if "run_spec s rs w name sp tr = (tr', Returns (Inr res))" for name sp
    using run_spec_clean [OF that] assms(2-4) by (auto simp: clean_def)
  show ?thesis
  proof (cases c)
    case ListRouters
    then show ?thesis using assms by auto
  next
    case (RunRepoSetup name host confirm profile iface port proto)
    then obtain sp where "run_repo_setup s rs w name sp tr = (tr', Returns (Inr res))"
      using assms(1) by (auto split: sum.splits)
    from run_repo_setup_clean [OF this] obtain a b ok where "res = SetupResult a b ok"
      "clean s (output_limit s) a" "\<And>r. b = Some r \<Longrightarrow> clean s (output_limit s) r" by blast
    then show ?thesis using assms(2-4) by (cases b) (auto simp: clean_def)
  qed (use assms(1) single in auto)
qed


lemma demo_check:
  "call_tool demo_settings demo_routers demo_outside (SshCheck ''main'') [] =
    ([NewClient, LoadHostKeys ''/app/known_hosts'', Connect ''192.168.0.1'' 22 ''RejectPolicy'',
      Exec (command SSH_CHECK_SPEC) 15, Close],
     Returns (Inr (RunResult \<lparr>rr_router = ''main'', rr_description = ''Verify SSH connectivity.'',
       rr_exit_code = 0, rr_ok = True, rr_stdout = ''pw=[redacted]'', rr_stderr = [],
       rr_stdout_truncated = False, rr_stderr_truncated = False, rr_duration_ms = 5,
       rr_extra = NoExtra\<rparr>)))"
  by code_simp

lemma demo_secret: "secret_ok ''hunter22'' \<and> password demo_settings = ''hunter22''"
  by code_simp


text \<open>
  The bound of four characters is real: a shorter password is accepted when the server starts, and
  a router that echoes it has it returned to the client.
\<close>

lemma short_password_shown:
  "startup (demo_env(''OPENWRT_SSH_PASSWORD'' \<mapsto> ''abc'')) =
     Inr (demo_settings\<lparr>password := ''abc''\<rparr>, demo_routers) \<and>
   run_result (demo_settings\<lparr>password := ''abc''\<rparr>) demo_outside ''main'' SSH_CHECK_SPEC 0 ''pw=abc'' [] []
     NoExtra =
     Inr \<lparr>rr_router = ''main'', rr_description = ''Verify SSH connectivity.'', rr_exit_code = 0,
       rr_ok = True, rr_stdout = ''pw=abc'', rr_stderr = [], rr_stdout_truncated = False,
       rr_stderr_truncated = False, rr_duration_ms = 5, rr_extra = NoExtra\<rparr>"
  by code_simp

section \<open>Staging before setup\<close>

lemma run_events_cases:
  "run_events s rs w c tr e hung new \<Longrightarrow> x \<in> set new \<Longrightarrow> connecting x \<or> x = e \<or> x = Close"
  by (auto simp: run_events_def list_all_iff split: if_splits)

text \<open>
  C11: In a call of the setup tool, the only command line that ever reaches the router is the one
  the request was validated into, with the configured timeout, and only after the payload was
  staged in the same call and the staging command had exited with status 0.
\<close>

theorem setup_after_stage:
  assumes "call_tool s rs w (RunRepoSetup name host confirm profile iface port proto) [] = (tr, out)"
    and "Exec cmd t \<in> set tr"
  shows "confirm \<and> (\<exists>spec tr1 stage bytes.
     build_setup_command host profile iface (PyInt port) proto (setup_timeout_seconds s) = Inr spec \<and>
     cmd = command spec \<and> t = setup_timeout_seconds s \<and>
     stage_openwrt_payload s rs w name [] = (tr1, Returns (Inr stage)) \<and> rr_exit_code stage = 0 \<and>
     Stage (command STAGE_SPEC) bytes \<in> set tr1 \<and> (\<exists>later. tr = tr1 @ later \<and> Exec cmd t \<in> set later))"
proof -
  let ?c = "RunRepoSetup name host confirm profile iface port proto"
  let ?b = "build_setup_command host profile iface (PyInt port) proto (setup_timeout_seconds s)"
  from assms obtain spec where conf: "confirmed confirm ?b = Inr spec"
    and rest: "run_repo_setup s rs w name spec [] = (tr, out)" by (auto split: sum.splits)
  have b: "?b = Inr spec" using confirmed_Inr [OF conf] build_setup_Inr by blast
  obtain tr1 o1 where st: "stage_openwrt_payload s rs w name [] = (tr1, o1)"
    by (cases "stage_openwrt_payload s rs w name []")
  obtain bytes where ev: "run_events s rs w ?c [] (Stage (command STAGE_SPEC) bytes) (o1 = Hangs) tr1"
    and sent: "\<forall>r. o1 = Returns (Inr r) \<longrightarrow> Stage (command STAGE_SPEC) bytes \<in> set tr1"
    using stage_traced [OF st, of ?c] by auto
  have no_exec: "Exec cmd t \<notin> set tr1" using run_events_cases [OF ev, of "Exec cmd t"] by auto
  then obtain stage where o1: "o1 = Returns (Inr stage)" "rr_ok stage"
    using rest st assms(2)
    by (auto simp: run_repo_setup_def split: outcome.splits sum.splits if_splits)
  obtain tr2 o2 where r: "run s rs w name spec tr1 = (tr2, o2)" by (cases "run s rs w name spec tr1")
  then have "tr2 = tr" using rest st o1 by (auto simp: run_repo_setup_def)
  from run_traced [OF r, of ?c] obtain new where new: "tr = tr1 @ new"
    "run_events s rs w ?c tr1 (Exec (command spec) (timeout_seconds spec)) (o2 = Hangs) new"
    using \<open>tr2 = tr\<close> by auto
  have "Exec cmd t \<in> set new" using assms(2) no_exec new(1) by simp
  moreover from run_events_cases [OF new(2) this] have "cmd = command spec \<and> t = timeout_seconds spec"
    by auto
  moreover have "rr_exit_code stage = 0" using stage_clean o1 st by (auto simp: clean_def)
  ultimately show ?thesis
    using confirmed_builders(4) [OF conf] b build_setup_Inr [OF b] st o1(1) sent new(1) by blast
qed

theorem setup_after_stage_witness:
  "\<exists>spec. build_setup_command ''10.0.0.5'' ''core'' [] (PyInt 514) ''udp'' 600 = Inr spec \<and>
     Exec (command spec) 600 \<in> set (fst (call_tool demo_settings demo_routers demo_outside
       (RunRepoSetup ''main'' ''10.0.0.5'' True ''core'' [] 514 ''udp'') []))"
proof -
  let ?cmd = "''OPENWRT_MONITOR_PROFILE=core SYSLOG_PORT=514 SYSLOG_PROTO=udp sh /tmp/openwrt/setup.sh 10.0.0.5''"
  let ?r = "call_tool demo_settings demo_routers demo_outside
     (RunRepoSetup ''main'' ''10.0.0.5'' True ''core'' [] 514 ''udp'') []"
  have e: "Exec ?cmd 600 \<in> set (fst ?r)" by code_simp
  have t: "setup_timeout_seconds demo_settings = 600" by (simp add: demo_settings_def)
  from setup_after_stage [OF surjective_pairing e] t e show ?thesis by auto
qed

end
