(* ===== verification/Mcp_Checks.thy ===== *)
theory Mcp_Checks
  imports Mcp_Properties
begin

text \<open>
  Further properties of the server: the request filter of a started server, the polling loop of
  the staging step, what the fields of a result say, and the validators and \<open>redact\<close> on their own.
\<close>

section \<open>The polling loop\<close>

definition first_at :: "(nat \<Rightarrow> bool) \<Rightarrow> nat \<Rightarrow> bool" where
  "first_at P n \<longleftrightarrow> P n \<and> (\<forall>i < n. \<not> P i)"

definition ready_at :: "channel \<Rightarrow> nat \<Rightarrow> bool" where
  "ready_at ch i = fst (tick ch i)"

definition outs :: "channel \<Rightarrow> nat list \<Rightarrow> string list" where
  "outs ch is = concat (map (\<lambda>i. chunk (fst (snd (tick ch i)))) is)"

definition errs :: "channel \<Rightarrow> nat list \<Rightarrow> string list" where
  "errs ch is = concat (map (\<lambda>i. chunk (snd (snd (tick ch i)))) is)"

lemma first_at_unique: "first_at P n \<Longrightarrow> first_at P m \<Longrightarrow> n = m"
  unfolding first_at_def by (meson linorder_neqE_nat)

lemma poll_finish:
  assumes "i \<le> n" "ready_at ch n" "\<forall>j. i \<le> j \<and> j < n \<longrightarrow> \<not> ready_at ch j"
  shows "poll ch i ob eb = Some (ob @ outs ch [i..<n], eb @ errs ch [i..<n])"
  using assms
proof (induction i arbitrary: ob eb rule: inc_induct)
  case base
  then show ?case by (subst poll.simps) (auto simp: ready_at_def outs_def errs_def split: prod.splits)
next
  case (step i)
  then have "\<not> ready_at ch i" by simp
  with step show ?case
    by (subst poll.simps)
      (auto simp: ready_at_def outs_def errs_def upt_conv_Cons split: prod.splits)
qed

lemma poll_ready:
  assumes "poll ch i ob eb = Some r"
  shows "\<exists>n \<ge> i. ready_at ch n \<and> (\<forall>j. i \<le> j \<and> j < n \<longrightarrow> \<not> ready_at ch j)"
proof (induction rule: poll.raw_induct [OF _ assms])
  case (1 p ch i ob eb r)
  show ?case
  proof (cases "ready_at ch i")
    case True
    then show ?thesis by (intro exI [of _ i]) auto
  next
    case False
    then have "p ch (Suc i) (ob @ chunk (fst (snd (tick ch i)))) (eb @ chunk (snd (snd (tick ch i)))) = Some r"
      using 1(2) by (auto simp: ready_at_def split: prod.splits)
    from 1(1) [OF this] obtain n where n: "n \<ge> Suc i" "ready_at ch n"
      "\<forall>j. Suc i \<le> j \<and> j < n \<longrightarrow> \<not> ready_at ch j" by blast
    moreover have "\<forall>j. i \<le> j \<and> j < n \<longrightarrow> \<not> ready_at ch j"
      using n(3) False by (metis Suc_leI le_neq_implies_less)
    ultimately show ?thesis by (intro exI [of _ n]) simp
  qed
qed

lemma poll_iff:
  "poll ch 0 [] [] = Some (ob, eb) \<longleftrightarrow>
   (\<exists>n. first_at (ready_at ch) n \<and> ob = outs ch [0..<n] \<and> eb = errs ch [0..<n])"
proof
  assume a: "poll ch 0 [] [] = Some (ob, eb)"
  from poll_ready [OF a] obtain n where n: "first_at (ready_at ch) n" by (auto simp: first_at_def)
  with poll_finish [of 0 n ch "[]" "[]"] a
  show "\<exists>n. first_at (ready_at ch) n \<and> ob = outs ch [0..<n] \<and> eb = errs ch [0..<n]"
    by (intro exI [of _ n]) (simp add: first_at_def)
next
  assume "\<exists>n. first_at (ready_at ch) n \<and> ob = outs ch [0..<n] \<and> eb = errs ch [0..<n]"
  then show "poll ch 0 [] [] = Some (ob, eb)"
    using poll_finish [of 0 _ ch "[]" "[]"] by (auto simp: first_at_def)
qed

definition received :: "(nat \<Rightarrow> string option) \<Rightarrow> nat list \<Rightarrow> string list" where
  "received recv is = map (\<lambda>i. the (recv i)) is"

lemma drain_finish:
  assumes "i \<le> n" "recv n = None" "\<forall>j. i \<le> j \<and> j < n \<longrightarrow> recv j \<noteq> None"
  shows "drain recv i acc = Some (acc @ received recv [i..<n])"
  using assms
proof (induction i arbitrary: acc rule: inc_induct)
  case base
  then show ?case by (subst drain.simps) (simp add: received_def)
next
  case (step i)
  then have "recv i \<noteq> None" by simp
  with step show ?case
    by (subst drain.simps) (auto simp: received_def upt_conv_Cons)
qed

lemma drain_ends:
  assumes "drain recv i acc = Some r"
  shows "\<exists>n \<ge> i. recv n = None \<and> (\<forall>j. i \<le> j \<and> j < n \<longrightarrow> recv j \<noteq> None)"
proof (induction rule: drain.raw_induct [OF _ assms])
  case (1 d recv i acc r)
  show ?case
  proof (cases "recv i")
    case None
    then show ?thesis by (intro exI [of _ i]) auto
  next
    case (Some b)
    then have "d recv (Suc i) (acc @ [b]) = Some r" using 1(2) by simp
    from 1(1) [OF this] obtain n where n: "n \<ge> Suc i" "recv n = None"
      "\<forall>j. Suc i \<le> j \<and> j < n \<longrightarrow> recv j \<noteq> None" by blast
    moreover have "\<forall>j. i \<le> j \<and> j < n \<longrightarrow> recv j \<noteq> None"
      using n(3) Some by (metis Suc_leI le_neq_implies_less option.distinct(1))
    ultimately show ?thesis by (intro exI [of _ n]) simp
  qed
qed

lemma drain_iff:
  "drain recv 0 acc = Some r \<longleftrightarrow>
   (\<exists>n. first_at (\<lambda>i. recv i = None) n \<and> r = acc @ received recv [0..<n])"
proof
  assume a: "drain recv 0 acc = Some r"
  from drain_ends [OF a] obtain n where "first_at (\<lambda>i. recv i = None) n" by (auto simp: first_at_def)
  with drain_finish [of 0 n recv acc] a
  show "\<exists>n. first_at (\<lambda>i. recv i = None) n \<and> r = acc @ received recv [0..<n]"
    by (intro exI [of _ n]) (simp add: first_at_def)
next
  assume "\<exists>n. first_at (\<lambda>i. recv i = None) n \<and> r = acc @ received recv [0..<n]"
  then show "drain recv 0 acc = Some r"
    using drain_finish [of 0 _ recv acc] by (auto simp: first_at_def)
qed

text \<open>
  C24: The staging loop returns exactly when the exit status becomes ready in some turn and both
  draining loops reach an empty read; then it has lost nothing: the output is every chunk read
  before the status was ready, in order, followed by every chunk drained after it. There is no
  bound on the number of turns, so a router that never reports a status keeps the call for ever.
\<close>

theorem collect_iff:
  "collect ch = Some (ob, eb) \<longleftrightarrow>
     (\<exists>n m k. first_at (ready_at ch) n \<and>
        first_at (\<lambda>i. tail_out ch i = None) m \<and> first_at (\<lambda>i. tail_err ch i = None) k \<and>
        ob = concat (outs ch [0..<n] @ received (tail_out ch) [0..<m]) \<and>
        eb = concat (errs ch [0..<n] @ received (tail_err ch) [0..<k]))"
proof -
  have "collect ch = Some (ob, eb) \<longleftrightarrow>
    (\<exists>o1 e1 o2 e2. poll ch 0 [] [] = Some (o1, e1) \<and> drain (tail_out ch) 0 o1 = Some o2 \<and>
       drain (tail_err ch) 0 e1 = Some e2 \<and> ob = concat o2 \<and> eb = concat e2)"
    by (auto simp: collect_def split: option.splits)
  then show ?thesis unfolding poll_iff drain_iff by blast
qed

section \<open>What a result says\<close>

text \<open>
  What the server shows of a captured text: the redacted text when it fits the limit, else its first
  characters up to the limit, the marker behind them, and the flag.
\<close>

definition shown :: "settings \<Rightarrow> string \<Rightarrow> string \<Rightarrow> bool \<Rightarrow> bool" where
  "shown s raw t flag = (let u = redact raw [password s, token s] in
     if int (length u) \<le> output_limit s then t = u \<and> \<not> flag
     else t = take (nat (output_limit s)) u @ NL # ''[truncated]'' \<and> flag)"

lemma run_result_shown:
  assumes "run_result s w name spec st out err tr ext = Inr r"
  shows "rr_exit_code r = st" "rr_ok r = (st = 0)" "rr_extra r = ext"
    "shown s out (rr_stdout r) (rr_stdout_truncated r)"
    "shown s err (rr_stderr r) (rr_stderr_truncated r)"
  using assms
  by (auto simp: run_result_def truncate_output_def shown_def Let_def split: if_splits)

text \<open>
  C16: A result is only returned for a router of the inventory on whose connection the command was
  really sent and whose client was closed. It reports the exit code the router gave, or 124 and the
  timeout when the library timed out; \<open>ok\<close> holds exactly for exit code 0, so never after a timeout.
  Each text is the redacted output in full when it is within the output limit; else it is its first
  \<open>output_limit\<close> characters, a newline and \<open>[truncated]\<close>, twelve characters more than the limit,
  and its flag is set.
\<close>

theorem run_reports:
  assumes "run s rs w name spec tr = (tr', Returns (Inr r))"
  shows "\<exists>rt tr1. (name, rt) \<in> set rs \<and>
    connect_client s w (r_host rt) (r_port rt) tr = (tr1, Inr ()) \<and>
    tr' = tr1 @ [Exec (command spec) (timeout_seconds spec), Close] \<and>
    (case w_exec w tr1 (command spec) (timeout_seconds spec) of
       ExecDone st out err \<Rightarrow> rr_exit_code r = st \<and> rr_ok r = (st = 0) \<and> rr_extra r = NoExtra \<and>
         shown s out (rr_stdout r) (rr_stdout_truncated r) \<and>
         shown s err (rr_stderr r) (rr_stderr_truncated r)
     | ExecTimeout \<Rightarrow> rr_exit_code r = 124 \<and> \<not> rr_ok r \<and> rr_extra r = TimedOut (timeout_seconds spec) \<and>
         shown s [] (rr_stdout r) (rr_stdout_truncated r) \<and>
         shown s (timeout_text spec) (rr_stderr r) (rr_stderr_truncated r)
     | ExecRaises \<Rightarrow> False | ExecHangs \<Rightarrow> False) \<and>
    int (length (rr_stdout r)) \<le> output_limit s + 12 \<and> int (length (rr_stderr r)) \<le> output_limit s + 12"
proof -
  from assms obtain rt tr1 where c: "resolve_router rs name = Inr rt"
    "connect_client s w (r_host rt) (r_port rt) tr = (tr1, Inr ())"
    by (auto simp: run_def split: sum.splits prod.splits)
  from run_connected [OF c assms] have "tr' = tr1 @ [Exec (command spec) (timeout_seconds spec), Close]"
    by simp
  moreover have "case w_exec w tr1 (command spec) (timeout_seconds spec) of
       ExecDone st out err \<Rightarrow> rr_exit_code r = st \<and> rr_ok r = (st = 0) \<and> rr_extra r = NoExtra \<and>
         shown s out (rr_stdout r) (rr_stdout_truncated r) \<and>
         shown s err (rr_stderr r) (rr_stderr_truncated r)
     | ExecTimeout \<Rightarrow> rr_exit_code r = 124 \<and> \<not> rr_ok r \<and> rr_extra r = TimedOut (timeout_seconds spec) \<and>
         shown s [] (rr_stdout r) (rr_stdout_truncated r) \<and>
         shown s (timeout_text spec) (rr_stderr r) (rr_stderr_truncated r)
     | ExecRaises \<Rightarrow> False | ExecHangs \<Rightarrow> False"
    using assms c run_result_shown
    by (cases "w_exec w tr1 (command spec) (timeout_seconds spec)") (auto simp: run_def Let_def)
  ultimately show ?thesis
    using c resolve_router_Inr [OF c(1)] run_clean [OF assms] by (auto simp: clean_def)
qed

theorem run_reports_witness:
  "\<exists>r. snd (run demo_settings demo_routers demo_outside ''main'' SSH_CHECK_SPEC []) = Returns (Inr r) \<and>
     rr_exit_code r = 0 \<and> int (length (rr_stdout r)) \<le> 12012"
proof -
  let ?r = "\<lparr>rr_router = ''main'', rr_description = ''Verify SSH connectivity.'',
       rr_exit_code = 0, rr_ok = True, rr_stdout = ''pw=[redacted]'', rr_stderr = [],
       rr_stdout_truncated = False, rr_stderr_truncated = False, rr_duration_ms = 5,
       rr_extra = NoExtra\<rparr>"
  have e: "run demo_settings demo_routers demo_outside ''main'' SSH_CHECK_SPEC [] =
    ([NewClient, LoadHostKeys ''/app/known_hosts'', Connect ''192.168.0.1'' 22 ''RejectPolicy'',
      Exec (command SSH_CHECK_SPEC) 15, Close], Returns (Inr ?r))" by code_simp
  have "int (length (rr_stdout ?r)) \<le> output_limit demo_settings + 12"
    using run_reports [OF e] by blast
  with e show ?thesis by (simp add: demo_settings_def)
qed

text \<open>
  C28: The environment variable \<open>OPENWRT_MCP_OUTPUT_LIMIT\<close> is not checked when the server starts:
  with the value 0 it starts, and from then on no run ever returns a result, although the command
  is still sent: a confirmed change is made and then reported as an error.
\<close>

theorem output_limit_unchecked:
  "\<exists>s. startup (demo_env(''OPENWRT_MCP_OUTPUT_LIMIT'' \<mapsto> ''0'')) = Inr (s, demo_routers) \<and>
     (\<forall>w name spec tr r. snd (run s demo_routers w name spec tr) \<noteq> Returns (Inr r)) \<and>
     call_tool s demo_routers demo_outside (RestartMonitoring ''main'' ''cron'' True) [] =
       ([NewClient, LoadHostKeys ''/app/known_hosts'', Connect ''192.168.0.1'' 22 ''RejectPolicy'',
         Exec ''/etc/init.d/cron restart'' 30, Close],
        Returns (Inl (PolicyError ''output limit must be positive'')))"
proof -
  let ?s = "demo_settings \<lparr>output_limit := 0\<rparr>"
  have "startup (demo_env(''OPENWRT_MCP_OUTPUT_LIMIT'' \<mapsto> ''0'')) = Inr (?s, demo_routers)" by code_simp
  moreover have "call_tool ?s demo_routers demo_outside (RestartMonitoring ''main'' ''cron'' True) [] =
       ([NewClient, LoadHostKeys ''/app/known_hosts'', Connect ''192.168.0.1'' 22 ''RejectPolicy'',
         Exec ''/etc/init.d/cron restart'' 30, Close],
        Returns (Inl (PolicyError ''output limit must be positive'')))" by code_simp
  moreover have "snd (run ?s demo_routers w name spec tr) \<noteq> Returns (Inr r)" for w name spec tr r
    by (auto simp: run_def Let_def run_result_def truncate_output_def
        split: sum.splits prod.splits exec_outcome.splits)
  ultimately show ?thesis by blast
qed

section \<open>The request filter\<close>

lemma csv_set_ne: "[] \<notin> set (csv_set raw)"
  by (auto simp: csv_set_def)

text \<open>The host of a \<open>Host\<close> header, without the port behind the last colon.\<close>

lemma host_of_header:
  "(if CHR '':'' \<in> set h then fst (split_last CHR '':'' h) else h) \<in> A \<longleftrightarrow>
   CHR '':'' \<notin> set h \<and> h \<in> A \<or>
   (\<exists>host port. h = host @ '':'' @ port \<and> CHR '':'' \<notin> set port \<and> host \<in> A)"
proof (cases "CHR '':'' \<in> set h")
  case True
  then obtain host port where h: "h = host @ CHR '':'' # port" "CHR '':'' \<notin> set port"
    by (meson split_list_last)
  have only: "host' = host" if "h = host' @ CHR '':'' # port'" "CHR '':'' \<notin> set port'" for host' port'
    using split_last_eq [OF that(2), of host'] split_last_eq [OF h(2), of host] that(1) h(1) by simp
  have "fst (split_last CHR '':'' h) = host" unfolding h(1) by (simp add: split_last_eq [OF h(2)])
  then have l: "(if CHR '':'' \<in> set h then fst (split_last CHR '':'' h) else h) = host"
    using True by simp
  have "(\<exists>host port. h = host @ '':'' @ port \<and> CHR '':'' \<notin> set port \<and> host \<in> A) \<longleftrightarrow> host \<in> A"
    using h only by fastforce
  with True show ?thesis unfolding l by blast
qed auto

lemma from_env_fields:
  assumes "from_env env = Inr s"
  shows "env ''OPENWRT_MCP_TOKEN'' = Some (token s)"
    "allowed_hosts s = csv_set (getenv env ''OPENWRT_MCP_ALLOWED_HOSTS'' ''127.0.0.1,localhost'')"
    "allowed_origins s = csv_set (getenv env ''OPENWRT_MCP_ALLOWED_ORIGINS'' [])"
proof -
  have "token s = getenv env ''OPENWRT_MCP_TOKEN'' []"
    and hosts: "allowed_hosts s = csv_set (getenv env ''OPENWRT_MCP_ALLOWED_HOSTS'' ''127.0.0.1,localhost'')"
      "allowed_origins s = csv_set (getenv env ''OPENWRT_MCP_ALLOWED_ORIGINS'' [])"
    using assms by (auto simp: from_env_def Let_def res_iff split: if_splits)
  with from_env_Inr(3) [OF assms] show "env ''OPENWRT_MCP_TOKEN'' = Some (token s)"
    by (auto simp: getenv_def split: option.splits)
qed (use assms in \<open>auto simp: from_env_def Let_def res_iff split: if_splits\<close>)

text \<open>
  C12: In a started server a request reaches a tool exactly when it asks for the health check, or
  when all of this holds: it carries the configured bearer token (which has at least sixteen
  characters and is not the shipped placeholder); its origin, if it names a non-empty one, is listed
  in \<open>OPENWRT_MCP_ALLOWED_ORIGINS\<close>; and, unless \<open>OPENWRT_MCP_ALLOWED_HOSTS\<close> lists nothing, it has a
  host header and the part of it before the last colon, or all of it when it has no colon, is
  listed. So a request without a host header is refused.
\<close>

theorem dispatch_guard:
  assumes "startup env = Inr (s, rs)"
  shows "dispatch s req = CallNext \<longleftrightarrow>
    url_path req = ''/healthz'' \<or>
    ((\<exists>tok. env ''OPENWRT_MCP_TOKEN'' = Some tok \<and> 16 \<le> length tok \<and>
        tok \<noteq> ''change-me-openwrt-mcp-token'' \<and>
        headers req ''authorization'' = Some (''Bearer '' @ tok)) \<and>
     (\<forall>orig. headers req ''origin'' = Some orig \<and> orig \<noteq> [] \<longrightarrow>
        orig \<in> set (csv_set (getenv env ''OPENWRT_MCP_ALLOWED_ORIGINS'' []))) \<and>
     (csv_set (getenv env ''OPENWRT_MCP_ALLOWED_HOSTS'' ''127.0.0.1,localhost'') = [] \<or>
      (\<exists>h. headers req ''host'' = Some h \<and>
        (CHR '':'' \<notin> set h \<and>
           h \<in> set (csv_set (getenv env ''OPENWRT_MCP_ALLOWED_HOSTS'' ''127.0.0.1,localhost'')) \<or>
         (\<exists>host port. h = host @ '':'' @ port \<and> CHR '':'' \<notin> set port \<and>
           host \<in> set (csv_set (getenv env ''OPENWRT_MCP_ALLOWED_HOSTS'' ''127.0.0.1,localhost'')))))))"
proof -
  note env = startup_Inr(1) [OF assms]
  note fields = from_env_fields [OF env]
  have tok: "(\<exists>tok. env ''OPENWRT_MCP_TOKEN'' = Some tok \<and> 16 \<le> length tok \<and>
        tok \<noteq> ''change-me-openwrt-mcp-token'' \<and>
        headers req ''authorization'' = Some (''Bearer '' @ tok)) \<longleftrightarrow>
      headers req ''authorization'' = Some (''Bearer '' @ token s)"
    using fields(1) from_env_Inr(3,4) [OF env] by auto
  have "[] \<notin> set (allowed_hosts s)" using fields(2) csv_set_ne by simp
  then show ?thesis
    unfolding tok fields(2,3) [symmetric] host_of_header [symmetric]
    by (cases "headers req ''host''"; cases "headers req ''origin''")
      (auto simp: dispatch_def Let_def)
qed

theorem dispatch_guard_witness:
  "dispatch demo_settings \<lparr>url_path = ''/mcp'', headers = [''host'' \<mapsto> ''localhost:8033'',
      ''authorization'' \<mapsto> ''Bearer 0123456789abcdefgh'']\<rparr> = CallNext \<and>
   dispatch demo_settings \<lparr>url_path = ''/mcp'',
      headers = [''authorization'' \<mapsto> ''Bearer 0123456789abcdefgh'']\<rparr> \<noteq> CallNext"
proof -
  have hosts: "csv_set (getenv demo_env ''OPENWRT_MCP_ALLOWED_HOSTS'' ''127.0.0.1,localhost'') =
      [''127.0.0.1'', ''localhost'']" by code_simp
  have tok: "demo_env ''OPENWRT_MCP_TOKEN'' = Some ''0123456789abcdefgh''"
    by (simp add: demo_env_def)
  have "''localhost:8033'' = ''localhost'' @ '':'' @ ''8033''" by simp
  then have "\<exists>host port. ''localhost:8033'' = host @ '':'' @ port \<and> CHR '':'' \<notin> set port \<and>
      host \<in> {''127.0.0.1'', ''localhost''}"
    by (intro exI [of _ "''localhost''"] exI [of _ "''8033''"]) simp
  then show ?thesis unfolding dispatch_guard [OF demo_startup] hosts tok by simp
qed

section \<open>The policy on its own\<close>

text \<open>
  C19: After \<open>redact\<close> ran over a list of secrets, none of them that has four characters or more and
  that the marker cannot spell occurs in the text, in particular not one that another secret's
  replacement could have assembled; a text without secrets is returned as it is.
\<close>

theorem redact_sound:
  "list_all (\<lambda>q. markable q \<longrightarrow> \<not> py_in q (redact t secrets)) secrets \<and>
   (list_all (\<lambda>q. length q < 4 \<or> \<not> py_in q t) secrets \<longrightarrow> redact t secrets = t)"
  using redact_free redact_id by (auto simp: list_all_iff)

theorem redact_sound_witness:
  "redact ''token=abcd1234 ok'' [''abcd1234'', ''xyz''] = ''token=[redacted] ok'' \<and>
   \<not> py_in ''abcd1234'' (redact ''token=abcd1234 ok'' [''abcd1234'', ''xyz'']) \<and>
   redact ''plain'' [''abcd1234''] = ''plain''"
proof -
  have "markable ''abcd1234''" "redact ''token=abcd1234 ok'' [''abcd1234'', ''xyz''] = ''token=[redacted] ok''"
    "\<not> py_in ''abcd1234'' ''plain''" by code_simp+
  with redact_sound [of "''token=abcd1234 ok''" "[''abcd1234'', ''xyz'']"]
    redact_sound [of "''plain''" "[''abcd1234'']"] show ?thesis by simp
qed

text \<open>
  C25: A normalised profile is a comma-separated, non-empty list of allowed profile names in which
  \<open>full\<close> stands alone, and normalising it again changes nothing.
\<close>

theorem normalize_profile_ok:
  assumes "normalize_profile p = Inr r"
  shows "(\<exists>ps. profile_list_ok ps \<and> r = py_join '','' ps) \<and> normalize_profile r = Inr r"
  using normalize_profile_sound [OF assms] normalize_profile_fix by auto

theorem normalize_profile_ok_witness:
  "normalize_profile '' core,,dpi '' = Inr ''core,dpi'' \<and> normalize_profile ''core,dpi'' = Inr ''core,dpi''"
proof -
  have "normalize_profile '' core,,dpi '' = Inr ''core,dpi''" by code_simp
  with normalize_profile_ok [OF this] show ?thesis by simp
qed

text \<open>
  C26: A host is accepted exactly when its stripped text is an IP address or a host name of letters,
  digits, \<open>_\<close>, \<open>.\<close>, \<open>:\<close> and \<open>-\<close> without an empty label in the middle and without a dash at either
  end; the stripped text is what is returned, and it is accepted again unchanged. So no accepted
  host can be an option of a command it is passed to.
\<close>

theorem validate_host_exact:
  "(validate_host h = Inr v \<longleftrightarrow> v = py_strip h \<and> host_ok v) \<and>
   (host_ok v \<longleftrightarrow> validate_host v = Inr v)"
  using validate_host_iff [of h v] validate_host_iff [of v v] host_ok_strip [of v] by auto

end
