(* ===== verification/Oui_Table.thy ===== *)
theory Oui_Table
  imports Pystr "HOL-Library.AList"
begin

text \<open>
  \<open>scripts/build_oui_table.py\<close>, the generator of the vendor table, and \<open>openwrt/lua/oui.lua\<close>,
  the module on the router that reads it. The table is one string of fixed-width records, six hex
  digits of an address prefix and two base-36 digits that number a vendor, sorted so that the Lua
  side can search it by halves. The registry arrives as the dictionaries \<open>csv.DictReader\<close> yields;
  a Python dictionary is the list of its items in insertion order.
\<close>

definition PREFIX_LEN :: nat where "PREFIX_LEN = 6"

definition INDEX_LEN :: nat where "INDEX_LEN = 2"

definition RECORD_LEN :: nat where "RECORD_LEN = PREFIX_LEN + INDEX_LEN"

definition MAX_VENDORS :: nat where "MAX_VENDORS = 36 ^ INDEX_LEN"

section \<open>The rules\<close>

definition RULES_computers_network :: "(string \<times> string \<times> string) list" where
  "RULES_computers_network =
    [(''raspberry pi'', ''Raspberry Pi'', ''processor''), (''proxmox'', ''Proxmox'', ''server''),
     (''vmware'', ''VMware'', ''server''), (''parallels'', ''Parallels'', ''server''),
     (''oracle'', ''Oracle'', ''server''), (''pcs systemtechnik'', ''VirtualBox'', ''server''),
     (''synology'', ''Synology'', ''database''), (''qnap'', ''QNAP'', ''database''),
     (''western digital'', ''Western Digital'', ''hdd''), (''seagate'', ''Seagate'', ''hdd''),
     (''sandisk'', ''SanDisk'', ''hdd''), (''kingston'', ''Kingston'', ''hdd''),
     (''apple'', ''Apple'', ''apple''), (''samsung'', ''Samsung'', ''mobile-android''),
     (''guangdong oppo'', ''OPPO'', ''mobile-android''),
     (''oneplus'', ''OnePlus'', ''mobile-android''),
     (''vivo mobile'', ''vivo'', ''mobile-android''),
     (''xiaomi'', ''Xiaomi'', ''mobile-android''),
     (''honor device'', ''HONOR'', ''mobile-android''),
     (''huawei device'', ''Huawei'', ''mobile-android''),
     (''huawei'', ''Huawei'', ''mobile-android''),
     (''motorola'', ''Motorola'', ''mobile-android''), (''htc'', ''HTC'', ''mobile-android''),
     (''google'', ''Google'', ''android''), (''microsoft'', ''Microsoft'', ''desktop''),
     (''dell'', ''Dell'', ''desktop''), (''hewlett packard enterprise'', ''HPE'', ''server''),
     (''hewlett packard'', ''HP'', ''desktop''), (''lenovo'', ''Lenovo'', ''laptop''),
     (''hp inc'', ''HP'', ''desktop''), (''asustek'', ''ASUS'', ''desktop''),
     (''asrock'', ''ASRock'', ''desktop''), (''giga-byte'', ''GIGABYTE'', ''desktop''),
     (''gigabyte'', ''GIGABYTE'', ''desktop''), (''micro-star'', ''MSI'', ''desktop''),
     (''intel'', ''Intel'', ''processor''), (''nvidia'', ''NVIDIA'', ''processor''),
     (''bitland'', ''Bitland'', ''desktop''), (''wistron'', ''Wistron'', ''laptop''),
     (''quanta'', ''Quanta'', ''laptop''), (''compal'', ''Compal'', ''laptop''),
     (''pegatron'', ''Pegatron'', ''desktop''), (''hon hai'', ''Foxconn'', ''desktop''),
     (''foxconn'', ''Foxconn'', ''desktop''), (''azurewave'', ''AzureWave'', ''wifi''),
     (''liteon'', ''Lite-On'', ''laptop''),
     (''universal global'', ''Universal Global'', ''wifi''),
     (''tp-link'', ''TP-Link'', ''sitemap''), (''tplink'', ''TP-Link'', ''sitemap''),
     (''ubiquiti'', ''Ubiquiti'', ''sitemap''), (''ubnt'', ''Ubiquiti'', ''sitemap''),
     (''mikrotik'', ''MikroTik'', ''sitemap''), (''netgear'', ''NETGEAR'', ''sitemap''),
     (''d-link'', ''D-Link'', ''sitemap''), (''linksys'', ''Linksys'', ''sitemap''),
     (''zyxel'', ''Zyxel'', ''sitemap''), (''draytek'', ''DrayTek'', ''sitemap''),
     (''avm gmbh'', ''AVM FRITZ!'', ''sitemap''), (''sagemcom'', ''Sagemcom'', ''cloud''),
     (''technicolor'', ''Technicolor'', ''cloud''), (''arris'', ''ARRIS'', ''cloud''),
     (''netcomm'', ''NetComm'', ''cloud''), (''vodafone'', ''Vodafone'', ''cloud''),
     (''juniper'', ''Juniper'', ''sitemap''), (''aruba'', ''Aruba'', ''sitemap''),
     (''meraki'', ''Meraki'', ''sitemap''), (''aerohive'', ''Aerohive'', ''sitemap''),
     (''extreme networks'', ''Extreme'', ''sitemap''), (''fortinet'', ''Fortinet'', ''shield''),
     (''sophos'', ''Sophos'', ''shield''), (''cambium'', ''Cambium'', ''sitemap''),
     (''engenius'', ''EnGenius'', ''sitemap''), (''edimax'', ''Edimax'', ''sitemap''),
     (''buffalo'', ''Buffalo'', ''sitemap''), (''belkin'', ''Belkin'', ''sitemap''),
     (''eero'', ''eero'', ''sitemap''), (''ruckus'', ''Ruckus'', ''sitemap''),
     (''cisco'', ''Cisco'', ''sitemap''), (''new h3c'', ''H3C'', ''sitemap''),
     (''arista'', ''Arista'', ''sitemap''), (''palo alto'', ''Palo Alto'', ''shield''),
     (''avaya'', ''Avaya'', ''microphone''), (''nortel'', ''Nortel'', ''sitemap''),
     (''mellanox'', ''Mellanox'', ''server''), (''commscope'', ''CommScope'', ''cloud''),
     (''vantiva'', ''Vantiva'', ''cloud''), (''arcadyan'', ''Arcadyan'', ''cloud''),
     (''askey'', ''Askey'', ''cloud''), (''fiberhome'', ''FiberHome'', ''cloud''),
     (''sky uk'', ''Sky'', ''cloud''), (''nokia'', ''Nokia'', ''cloud''),
     (''zte'', ''ZTE'', ''cloud''), (''tct mobile'', ''Alcatel'', ''mobile-android''),
     (''tcl'', ''TCL'', ''monitor'')]"

definition RULES_home_media :: "(string \<times> string \<times> string) list" where
  "RULES_home_media =
    [(''espressif'', ''Espressif'', ''lamp''), (''tuya'', ''Tuya'', ''lamp''),
     (''itead'', ''Sonoff'', ''lamp''), (''shelly'', ''Shelly'', ''lamp''),
     (''allterco'', ''Shelly'', ''lamp''), (''lumi'', ''Aqara'', ''lamp''),
     (''aqara'', ''Aqara'', ''lamp''), (''signify'', ''Philips Hue'', ''lamp''),
     (''philips'', ''Philips'', ''lamp''), (''ikea'', ''IKEA'', ''lamp''),
     (''nest labs'', ''Nest'', ''home''), (''ring llc'', ''Ring'', ''camera''),
     (''wyze'', ''Wyze'', ''camera''), (''reolink'', ''Reolink'', ''camera''),
     (''hikvision'', ''Hikvision'', ''camera''), (''dahua'', ''Dahua'', ''camera''),
     (''roborock'', ''Roborock'', ''home''), (''ecovacs'', ''Ecovacs'', ''home''),
     (''dyson'', ''Dyson'', ''home''), (''miele'', ''Miele'', ''home''),
     (''electrolux'', ''Electrolux'', ''home''), (''bosch'', ''Bosch'', ''home''),
     (''siemens'', ''Siemens'', ''home''), (''tesla'', ''Tesla'', ''bolt''),
     (''nordic semiconductor'', ''Nordic'', ''lamp''),
     (''silicon lab'', ''Silicon Labs'', ''lamp''),
     (''texas instrument'', ''Texas Instruments'', ''processor''),
     (''murata'', ''Murata'', ''wifi''), (''realtek'', ''Realtek'', ''processor''),
     (''mediatek'', ''MediaTek'', ''processor''), (''qualcomm'', ''Qualcomm'', ''processor''),
     (''broadcom'', ''Broadcom'', ''processor''), (''amazon'', ''Amazon'', ''volume''),
     (''sonos'', ''Sonos'', ''volume''), (''bose'', ''Bose'', ''volume''),
     (''harman'', ''Harman'', ''volume''), (''denon'', ''Denon'', ''volume''),
     (''marantz'', ''Marantz'', ''volume''), (''yamaha'', ''Yamaha'', ''volume''),
     (''pioneer'', ''Pioneer'', ''volume''), (''onkyo'', ''Onkyo'', ''volume''),
     (''roku'', ''Roku'', ''monitor''), (''nintendo'', ''Nintendo'', ''game-structure''),
     (''sony'', ''Sony'', ''game-structure''), (''lg innotek'', ''LG'', ''monitor''),
     (''lg electron'', ''LG'', ''monitor''), (''skyworth'', ''Skyworth'', ''monitor''),
     (''realme'', ''realme'', ''mobile-android''),
     (''tecno mobile'', ''TECNO'', ''mobile-android''),
     (''itel mobile'', ''itel'', ''mobile-android''),
     (''infinix'', ''Infinix'', ''mobile-android''), (''quectel'', ''Quectel'', ''sim-card''),
     (''midea'', ''Midea'', ''home''), (''cloud network technology'', ''Foxconn'', ''desktop''),
     (''panasonic'', ''Panasonic'', ''monitor''), (''sharp'', ''Sharp'', ''monitor''),
     (''toshiba'', ''Toshiba'', ''monitor''), (''vestel'', ''Vestel'', ''monitor''),
     (''tp-vision'', ''TP Vision'', ''monitor''), (''garmin'', ''Garmin'', ''clock''),
     (''fitbit'', ''Fitbit'', ''clock''), (''withings'', ''Withings'', ''clock''),
     (''logitech'', ''Logitech'', ''headphones''), (''razer'', ''Razer'', ''headphones''),
     (''steelseries'', ''SteelSeries'', ''headphones''),
     (''corsair'', ''Corsair'', ''headphones''), (''brother'', ''Brother'', ''print''),
     (''canon'', ''Canon'', ''print''), (''epson'', ''Epson'', ''print''),
     (''ricoh'', ''Ricoh'', ''print''), (''xerox'', ''Xerox'', ''print''),
     (''yealink'', ''Yealink'', ''microphone''),
     (''grandstream'', ''Grandstream'', ''microphone''),
     (''qingdao intelligent'', ''Qingdao Intelligent'', ''cube'')]"

definition RULES :: "(string \<times> string \<times> string) list" where
  "RULES = RULES_computers_network @ RULES_home_media"

definition LOCAL_RULES :: "(string \<times> string \<times> string) list" where
  "LOCAL_RULES = [(''5254'', ''QEMU/KVM'', ''server''), (''0242'', ''Docker'', ''server''),
     (''0a0027'', ''VirtualBox'', ''server'')]"

section \<open>The generator\<close>

definition DIGITS36 :: string where
  "DIGITS36 = ''0123456789abcdefghijklmnopqrstuvwxyz''"

fun base36_loop :: "nat \<Rightarrow> int \<Rightarrow> string \<Rightarrow> int \<times> string" where
  "base36_loop 0 v out = (v, out)"
| "base36_loop (Suc k) v out = base36_loop k (v div 36) (DIGITS36 ! nat (v mod 36) # out)"

definition base36 :: "int \<Rightarrow> string res" where
  "base36 v =
     (let (rest, out) = base36_loop INDEX_LEN v [] in
      if rest \<noteq> 0 then Inl (ValueError ''vendor index overflows the fixed-width encoding'')
      else Inr out)"

fun first_rule :: "(string \<times> string \<times> string) list \<Rightarrow> string \<Rightarrow> (string \<times> string) option" where
  "first_rule [] lowered = None"
| "first_rule ((pattern, display, icon) # rules) lowered =
     (if py_in pattern lowered then Some (display, icon) else first_rule rules lowered)"

definition classify :: "string \<Rightarrow> (string \<times> string) option" where
  "classify org = first_rule RULES (py_lower org)"

type_synonym csv_row = "string \<Rightarrow> string option"

definition row_text :: "csv_row \<Rightarrow> string \<Rightarrow> string" where
  "row_text row key = py_strip (case row key of None \<Rightarrow> [] | Some v \<Rightarrow> v)"

definition hex_char :: "char \<Rightarrow> bool" where
  "hex_char c = (is_digit c \<or> c \<in> set ''abcdef'')"

fun load_rows :: "csv_row list \<Rightarrow> (string \<times> string) list" where
  "load_rows [] = []"
| "load_rows (row # rows) =
     (if row ''Registry'' \<noteq> Some ''MA-L'' then load_rows rows
      else
        let assignment = py_lower (row_text row ''Assignment'');
            organization = row_text row ''Organization Name'' in
        if length assignment \<noteq> PREFIX_LEN \<or> \<not> fullmatch_class hex_char assignment then load_rows rows
        else if organization \<noteq> [] then (assignment, organization) # load_rows rows
        else load_rows rows)"

fun match_rows ::
  "(string \<times> string \<times> string) list \<Rightarrow> (string \<times> string) list \<Rightarrow> (string \<times> string \<times> string) list" where
  "match_rows matched [] = matched"
| "match_rows matched ((pre, organization) # rows) =
     (case classify organization of
        None \<Rightarrow> match_rows matched rows
      | Some hit \<Rightarrow> match_rows (AList.update pre hit matched) rows)"

record vendor_table =
  vendors :: "string list"
  icons :: "string list"
  seen :: "(string \<times> nat) list"

fun number_vendors :: "vendor_table \<Rightarrow> (string \<times> string) list \<Rightarrow> vendor_table" where
  "number_vendors t [] = t"
| "number_vendors t ((display, icon) # pairs) =
     (if display \<in> set (map fst (seen t)) then number_vendors t pairs
      else number_vendors
        \<lparr>vendors = vendors t @ [display], icons = icons t @ [icon],
         seen = seen t @ [(display, length (vendors t) + 1)]\<rparr> pairs)"

definition make_record :: "(string \<times> nat) list \<Rightarrow> string \<times> string \<times> string \<Rightarrow> string res" where
  "make_record sn item =
     (case item of (pre, display, icon) \<Rightarrow>
        (case map_of sn display of
           None \<Rightarrow> Inl (KeyError display)
         | Some n \<Rightarrow> bindR (base36 (int n)) (\<lambda>digits. Inr (pre @ digits))))"

definition build :: "(string \<times> string) list \<Rightarrow> (string \<times> string list \<times> string list \<times> nat) res" where
  "build rows =
     (let matched = match_rows [] rows;
          t = number_vendors \<lparr>vendors = [], icons = [], seen = []\<rparr> (sort (remdups (map snd matched))) in
      if length (vendors t) \<ge> MAX_VENDORS
      then Inl (SystemExit (''too many vendors for a 2-char index: '' @ show_nat (length (vendors t))))
      else bindR (mapR (make_record (seen t)) (sort matched)) (\<lambda>records.
        Inr (concat records, vendors t, icons t, length matched)))"

definition lua_string :: "string \<Rightarrow> string" where
  "lua_string v = [DQ] @ py_replace [DQ] [BS, DQ] (py_replace [BS] [BS, BS] v) @ [DQ]"

fun pieces :: "nat \<Rightarrow> string \<Rightarrow> string list" where
  "pieces k s = (if s = [] \<or> k = 0 then [] else take k s # pieces k (drop k s))"

declare pieces.simps [simp del]

text \<open>The template of the file, cut where its three tables begin.\<close>

definition render_head :: "string \<Rightarrow> string list \<Rightarrow> string" where
  \<open>render_head index vs =
     ''-- GENERATED by scripts/build_oui_table.py from the IEEE MA-L registry. DO NOT EDIT.\<newline>--\<newline>-- '' @
     ''Regenerate with:  python3 -m scripts.build_oui_table\<newline>--\<newline>-- `index` '' @
     ''is a sorted, fixed-width record table: '' @
     show_nat PREFIX_LEN @
     '' hex characters of\<newline>-- 24-bit OUI prefix followed by a '' @
     show_nat INDEX_LEN @
     ''-character base-36 index into\<newline>-- `vendors`. oui.lua binary-searches it. '' @
     ''See scripts/build_oui_table.py for why this\<newline>-- shape rather than a hash '' @
     ''table.\<newline>--\<newline>-- records: '' @
     show_nat (length index div RECORD_LEN) @
     ''\<newline>-- vendors: '' @
     show_nat (length vs) @
     ''\<newline>\<newline>return {\<newline>  record_len = '' @
     show_nat RECORD_LEN @
     '',\<newline>  prefix_len = '' @
     show_nat PREFIX_LEN @
     '',\<newline>\<newline>  -- flat {display, icon} pairs, 1-based vendor index = (n '' @
     ''+ 1) / 2\<newline>  ''\<close>

definition render_close :: string where
  \<open>render_close = ''\<newline>  }''\<close>

definition render_local :: string where
  \<open>render_local = '',\<newline>\<newline>  -- flat {prefix, display, icon} triples for '' @
     ''locally-administered ranges\<newline>  ''\<close>

definition render ::
  "string \<Rightarrow> string list \<Rightarrow> string list \<Rightarrow> (string \<times> string \<times> string) list \<Rightarrow> string" where
  \<open>render index vs is local_rules =
    (let body = py_join [NL] (map (\<lambda>p. ''  '' @ lua_string p @ '','') (pieces 240 index));
         vendor_lines = py_join [NL]
           (map (\<lambda>(v, i). ''  '' @ lua_string v @ '', '' @ lua_string i @ '','') (zip vs is));
         local_lines = py_join [NL]
           (map (\<lambda>(p, d, i). ''  '' @ lua_string p @ '', '' @ lua_string d @ '', '' @ lua_string i @ '','')
             local_rules) in
     render_head index vs @
     ''vendors = {'' @ [NL] @ vendor_lines @ render_close @ render_local @
     ''local_ranges = {'' @ [NL] @ local_lines @ render_close @ '',\<newline>\<newline>  '' @
     ''index = table.concat({'' @ [NL] @ body @ render_close @ ''),\<newline>}\<newline>'')\<close>

section \<open>The reader on the router\<close>

text \<open>
  \<open>tonumber(s, 36)\<close>, by the codes of the characters: the decimal digits count from 0, the letters of
  either case from 10. Texts with white space or a sign around the digits are not modelled; the
  slices of the index have none.
\<close>

definition digit36 :: "char \<Rightarrow> nat option" where
  "digit36 c =
     (if 48 \<le> code c \<and> code c \<le> 57 then Some (code c - 48)
      else if 97 \<le> code c \<and> code c \<le> 122 then Some (code c - 97 + 10)
      else if 65 \<le> code c \<and> code c \<le> 90 then Some (code c - 65 + 10)
      else None)"

fun lua_digits36 :: "nat \<Rightarrow> string \<Rightarrow> nat option" where
  "lua_digits36 acc [] = Some acc"
| "lua_digits36 acc (c # cs) =
     (case digit36 c of None \<Rightarrow> None | Some d \<Rightarrow> lua_digits36 (36 * acc + d) cs)"

definition lua_tonumber36 :: "string \<Rightarrow> nat option" where
  "lua_tonumber36 s = (if s = [] then None else lua_digits36 0 s)"

definition lua_sub :: "string \<Rightarrow> nat \<Rightarrow> nat \<Rightarrow> string" where
  "lua_sub s i j = take (j - i) (drop i s)"

function lua_search ::
  "(string \<Rightarrow> 'v option) \<Rightarrow> string \<Rightarrow> nat \<Rightarrow> nat \<Rightarrow> string \<Rightarrow> int \<Rightarrow> int \<Rightarrow> 'v option" where
  "lua_search decode index rec plen pre low high =
     (if low \<le> high then
        let mid = (low + high) div 2; offset = nat mid * rec;
            key = lua_sub index offset (offset + plen) in
        if key = pre then decode (lua_sub index (offset + plen) (offset + rec))
        else if key < pre then lua_search decode index rec plen pre (mid + 1) high
        else lua_search decode index rec plen pre low (mid - 1)
      else None)"
  by pat_completeness auto

termination
  by (relation "measure (\<lambda>(_, _, _, _, _, low, high). nat (high + 1 - low))") auto

declare lua_search.simps [simp del]

record oui_data =
  oui_record_len :: nat
  oui_prefix_len :: nat
  oui_vendors :: "string list"
  oui_local_ranges :: "string list"
  oui_index :: string

text \<open>A flat Lua array read at a 1-based position; outside of it the value is \<open>nil\<close>.\<close>

definition lua_at :: "'a list \<Rightarrow> int \<Rightarrow> 'a option" where
  "lua_at xs i = (if 1 \<le> i \<and> i \<le> int (length xs) then Some (xs ! nat (i - 1)) else None)"

definition vendor_at :: "oui_data \<Rightarrow> nat \<Rightarrow> string option \<times> string option" where
  "vendor_at d slot = (lua_at (oui_vendors d) ((int slot - 1) * 2 + 1),
                       lua_at (oui_vendors d) ((int slot - 1) * 2 + 2))"

definition oui_search :: "oui_data \<Rightarrow> string \<Rightarrow> nat option" where
  "oui_search d pre =
     lua_search lua_tonumber36 (oui_index d) (oui_record_len d) (oui_prefix_len d) pre 0
       (int (length (oui_index d) div oui_record_len d) - 1)"

definition hex_only :: "string \<Rightarrow> string option" where
  "hex_only mac =
     (let hex = filter hex_char (py_lower mac) in
      if length hex \<noteq> 12 then None
      else if hex = ''000000000000'' then None
      else Some hex)"

definition hex_value :: "char \<Rightarrow> nat" where
  "hex_value c = the (digit36 c)"

definition is_local :: "string \<Rightarrow> bool" where
  "is_local hex = ((16 * hex_value (hex ! 0) + hex_value (hex ! 1)) mod 4 \<ge> 2)"

fun local_range :: "string list \<Rightarrow> string \<Rightarrow> string option \<times> string option" where
  "local_range (pre # display # icon # ranges) hex =
     (if starts_with pre hex then (Some display, Some icon) else local_range ranges hex)"
| "local_range _ hex = (None, None)"

definition oui_lookup :: "oui_data option \<Rightarrow> string \<Rightarrow> string option \<times> string option \<times> bool" where
  "oui_lookup data mac =
     (case hex_only mac of
        None \<Rightarrow> (None, None, False)
      | Some hex \<Rightarrow>
          let local_bit = is_local hex in
          (case data of
             None \<Rightarrow> (None, None, local_bit)
           | Some d \<Rightarrow>
               if local_bit
               then (let (name, icon) = local_range (oui_local_ranges d) hex in (name, icon, True))
               else
                 (case oui_search d (take (oui_prefix_len d) hex) of
                    None \<Rightarrow> (None, None, False)
                  | Some slot \<Rightarrow> (let (name, icon) = vendor_at d slot in (name, icon, False)))))"

text \<open>The table the generated file returns, as the module on the router sees it.\<close>

fun flat_pairs :: "string list \<Rightarrow> string list \<Rightarrow> string list" where
  "flat_pairs (v # vs) (i # is) = v # i # flat_pairs vs is"
| "flat_pairs _ _ = []"

fun flat_triples :: "(string \<times> string \<times> string) list \<Rightarrow> string list" where
  "flat_triples [] = []"
| "flat_triples ((p, d, i) # rs) = p # d # i # flat_triples rs"

definition oui_table ::
  "string \<Rightarrow> string list \<Rightarrow> string list \<Rightarrow> (string \<times> string \<times> string) list \<Rightarrow> oui_data" where
  "oui_table index vs is local_rules =
     \<lparr>oui_record_len = RECORD_LEN, oui_prefix_len = PREFIX_LEN, oui_vendors = flat_pairs vs is,
      oui_local_ranges = flat_triples local_rules, oui_index = index\<rparr>"

end
