(* ===== verification/Oui_Search.thy ===== *)
theory Oui_Search
  imports Oui_Table
begin

text \<open>
  Searching a string of fixed-width records: the slices of the concatenation are the records, the
  search by halves finds a key exactly when a record has it, and, for any numbering of slots that
  reads back (the locale \<open>slot_code\<close>), the slot that was written. Base 36 is such a numbering.
\<close>

section \<open>Slices and halving\<close>

lemma slice_concat:
  assumes "\<forall>r \<in> set recs. length r = k" "i < length recs"
  shows "take k (drop (i * k) (concat recs)) = recs ! i"
  using assms
proof (induction recs arbitrary: i)
  case (Cons r recs)
  then show ?case by (cases i) auto
qed simp

lemma length_concat_fixed:
  "\<forall>r \<in> set recs. length r = k \<Longrightarrow> length (concat recs) = length recs * k"
  by (induction recs) auto

lemma lua_sub_record:
  assumes "\<forall>r \<in> set recs. length r = k" "i < length recs" "p \<le> k"
  shows "lua_sub (concat recs) (i * k) (i * k + p) = take p (recs ! i)"
    and "lua_sub (concat recs) (i * k + p) (i * k + k) = drop p (recs ! i)"
proof -
  note slice_concat [OF assms(1,2)]
  then show "lua_sub (concat recs) (i * k) (i * k + p) = take p (recs ! i)"
    using assms(3) by (metis lua_sub_def add_diff_cancel_left' min_def take_take)
  show "lua_sub (concat recs) (i * k + p) (i * k + k) = drop p (recs ! i)"
    using slice_concat [OF assms(1,2)]
    by (metis lua_sub_def add_diff_cancel_left drop_drop drop_take add.commute)
qed

lemma sorted_key_less:
  fixes recs :: "string list"
  assumes "sorted_wrt (<) (map (take p) recs)" "i < length recs" "j < length recs"
    and "take p (recs ! i) < take p (recs ! j)"
  shows "i < j"
proof (rule ccontr)
  assume "\<not> i < j"
  then consider "i = j" | "j < i" by linarith
  then show False
  proof cases
    case 2
    then have "take p (recs ! j) < take p (recs ! i)"
      using sorted_wrt_nth_less [OF assms(1), of j i] assms(2,3) by simp
    with assms(4) show False by simp
  qed (use assms(4) in simp)
qed

definition search_ok :: "string list \<Rightarrow> nat \<Rightarrow> (string \<Rightarrow> 'v option) \<Rightarrow> string \<Rightarrow> int \<Rightarrow> int \<Rightarrow> 'v option \<Rightarrow> bool" where
  "search_ok recs p dec key low high res \<longleftrightarrow>
     (\<forall>i. low \<le> int i \<and> int i \<le> high \<and> take p (recs ! i) = key \<longrightarrow> res = dec (drop p (recs ! i))) \<and>
     ((\<forall>i. low \<le> int i \<and> int i \<le> high \<longrightarrow> take p (recs ! i) \<noteq> key) \<longrightarrow> res = None)"

lemma search_ok_narrow:
  assumes "search_ok recs p dec key low' high' res"
    and "\<And>i. low \<le> int i \<Longrightarrow> int i \<le> high \<Longrightarrow> take p (recs ! i) = key \<Longrightarrow> low' \<le> int i \<and> int i \<le> high'"
    and "low \<le> low'" "high' \<le> high"
  shows "search_ok recs p dec key low high res"
  using assms unfolding search_ok_def by (metis order_trans)

lemma lua_search_ok:
  assumes len: "\<forall>r \<in> set recs. length r = k" and "p \<le> k"
    and srt: "sorted_wrt (<) (map (take p) recs)"
    and "0 \<le> low" "high < int (length recs)"
  shows "search_ok recs p dec key low high (lua_search dec (concat recs) k p key low high)"
  using assms(4,5)
proof (induction "nat (high + 1 - low)" arbitrary: low high rule: less_induct)
  case less
  let ?m = "(low + high) div 2"
  show ?case
  proof (cases "low \<le> high")
    case False
    then show ?thesis by (auto simp: lua_search.simps [of dec _ k p key low] search_ok_def)
  next
    case True
    then have m: "nat ?m < length recs" "low \<le> ?m" "?m \<le> high" "int (nat ?m) = ?m"
      using less.prems by auto
    note rec = lua_sub_record [OF len m(1) \<open>p \<le> k\<close>]
    let ?k = "take p (recs ! nat ?m)"
    have order: "i < j" if "take p (recs ! i) < take p (recs ! j)" "int i \<le> high" "int j \<le> high" for i j
      using sorted_key_less [OF srt, of i j] that less.prems by linarith
    consider "?k = key" | "?k < key" | "key < ?k" by (rule linorder_cases)
    then show ?thesis
    proof cases
      case 1
      then have r: "lua_search dec (concat recs) k p key low high = dec (drop p (recs ! nat ?m))"
        using True rec by (subst lua_search.simps) (simp add: Let_def)
      have "i = nat ?m" if "low \<le> int i" "int i \<le> high" "take p (recs ! i) = key" for i
      proof (rule ccontr)
        assume "i \<noteq> nat ?m"
        then have "i < nat ?m \<or> nat ?m < i" by linarith
        moreover have "i < length recs" using that(2) less.prems by simp
        ultimately have "?k < take p (recs ! i) \<or> take p (recs ! i) < ?k"
          using sorted_wrt_nth_less [OF srt, of i "nat ?m"] sorted_wrt_nth_less [OF srt, of "nat ?m" i] m(1)
          by auto
        with that(3) 1 show False by simp
      qed
      with r m 1 show ?thesis unfolding search_ok_def by (metis)
    next
      case 2
      then have r: "lua_search dec (concat recs) k p key low high =
          lua_search dec (concat recs) k p key (?m + 1) high"
        using True rec less_imp_neq [OF 2] by (subst lua_search.simps) (simp add: Let_def)
      have "search_ok recs p dec key (?m + 1) high (lua_search dec (concat recs) k p key (?m + 1) high)"
        by (rule less.hyps) (use True less.prems m in auto)
      then show ?thesis unfolding r
      proof (rule search_ok_narrow)
        fix i assume "low \<le> int i" "int i \<le> high" "take p (recs ! i) = key"
        with order [of "nat ?m" i] 2 m(3,4) have "nat ?m < i" by argo
        then have "int (nat ?m) < int i" by (simp only: of_nat_less_iff)
        with m(4) \<open>int i \<le> high\<close> show "?m + 1 \<le> int i \<and> int i \<le> high" by linarith
      qed (use m in auto)
    next
      case 3
      then have r: "lua_search dec (concat recs) k p key low high =
          lua_search dec (concat recs) k p key low (?m - 1)"
        using True rec less_imp_neq [OF 3] less_not_sym [OF 3]
        by (subst lua_search.simps) (simp add: Let_def)
      have "search_ok recs p dec key low (?m - 1) (lua_search dec (concat recs) k p key low (?m - 1))"
        by (rule less.hyps) (use True less.prems m in auto)
      then show ?thesis unfolding r
      proof (rule search_ok_narrow)
        fix i assume "low \<le> int i" "int i \<le> high" "take p (recs ! i) = key"
        with order [of i "nat ?m"] 3 m(3,4) have "i < nat ?m" by argo
        then have "int i < int (nat ?m)" by (simp only: of_nat_less_iff)
        with m(4) \<open>low \<le> int i\<close> show "low \<le> int i \<and> int i \<le> ?m - 1" by linarith
      qed (use m in auto)
    qed
  qed
qed

section \<open>Slot numberings\<close>

text \<open>
  A code for slot numbers: below the bound every number is written in the same width and read
  back. A table that uses such a code finds the slot it wrote for a key.
\<close>

locale slot_code =
  fixes encode :: "int \<Rightarrow> string res" and decode :: "string \<Rightarrow> nat option"
    and width :: nat and bound :: nat
  assumes width_pos: "0 < width"
    and encode_ok: "n < bound \<Longrightarrow>
    \<exists>s. encode (int n) = Inr s \<and> length s = width \<and> decode s = Some n"
begin

lemma search_slots:
  assumes keys: "\<forall>(key, n) \<in> set items. length key = p \<and> n < bound"
    and srt: "sorted_wrt (<) (map fst items)"
    and recs: "list_all2 (\<lambda>(key, n) r. \<exists>s. encode (int n) = Inr s \<and> r = key @ s) items recs"
  shows "lua_search decode (concat recs) (p + width) p key 0
      (int (length (concat recs) div (p + width)) - 1) = map_of items key"
    (is "?res = _")
proof -
  have n: "length recs = length items" using recs by (simp add: list_all2_lengthD)
  have nth: "take p (recs ! i) = fst (items ! i) \<and> decode (drop p (recs ! i)) = Some (snd (items ! i)) \<and>
      length (recs ! i) = p + width" if "i < length items" for i
  proof -
    obtain key n where it: "items ! i = (key, n)" by (cases "items ! i")
    from list_all2_nthD [OF recs that] it obtain s where s: "encode (int n) = Inr s" "recs ! i = key @ s"
      by auto
    moreover from keys it that nth_mem [OF that] have "length key = p" "n < bound" by auto
    ultimately show ?thesis using encode_ok [of n] it by auto
  qed
  have len: "\<forall>r \<in> set recs. length r = p + width"
    using nth n by (auto simp: in_set_conv_nth)
  have "map (take p) recs = map fst items" using nth n by (auto intro: nth_equalityI)
  with srt have srt': "sorted_wrt (<) (map (take p) recs)" by simp
    have "length (concat recs) div (p + width) = length items"
      using length_concat_fixed [OF len] n width_pos by simp
    with lua_search_ok [OF len _ srt', of 0 "int (length items) - 1" decode key] n
    have ok: "search_ok recs p decode key 0 (int (length items) - 1) ?res" by simp
    show ?thesis
    proof (cases "map_of items key")
      case None
      then have "\<forall>i < length items. fst (items ! i) \<noteq> key"
        by (auto simp: map_of_eq_None_iff)
      with ok nth None show ?thesis unfolding search_ok_def by (metis zle_diff1_eq of_nat_less_iff)
    next
      case (Some v)
      then obtain i where i: "i < length items" "items ! i = (key, v)"
        by (metis map_of_SomeD in_set_conv_nth)
      with ok nth [OF i(1)] Some show ?thesis unfolding search_ok_def by auto
    qed
qed

end

end
