(* ===== verification/Oui_Correct.thy ===== *)
theory Oui_Correct
  imports Oui_Search
begin

text \<open>
  The vendor table end to end: the generator never fails, its table is well formed, and the
  lookup on the router names, for every address, the vendor and icon the rules give the last
  matching registry row of the address's prefix, and no vendor when there is none.
\<close>

section \<open>Base 36\<close>

text \<open>The generator's alphabet against the router's reading of a digit: one check per digit.\<close>

lemma digit36_all: "list_all (\<lambda>d. digit36 (DIGITS36 ! d) = Some d) [0..<36]"
  by code_simp

lemma digit36_nth: "d < 36 \<Longrightarrow> digit36 (DIGITS36 ! d) = Some d"
  using digit36_all by (simp add: list_all_iff)

lemma base36_eq:
  assumes "0 \<le> v"
  shows "base36 v = (if v < 1296 then Inr [DIGITS36 ! nat (v div 36), DIGITS36 ! nat (v mod 36)]
    else Inl (ValueError ''vendor index overflows the fixed-width encoding''))"
proof -
  have "base36_loop INDEX_LEN v [] =
      (v div 36 div 36, [DIGITS36 ! nat (v div 36 mod 36), DIGITS36 ! nat (v mod 36)])"
    by (simp add: INDEX_LEN_def numeral_2_eq_2)
  moreover have "v div 36 div 36 = 0 \<longleftrightarrow> v < 1296" "v < 1296 \<longrightarrow> v div 36 mod 36 = v div 36"
    using assms by (auto simp: zdiv_zmult2_eq [symmetric] div_eq_0_iff)
  ultimately show ?thesis by (simp add: base36_def)
qed

lemma base36_reads_back:
  assumes "n < 1296"
  shows "\<exists>s. base36 (int n) = Inr s \<and> length s = 2 \<and> lua_tonumber36 s = Some n"
proof -
  have "n div 36 < 36" "n mod 36 < 36" "36 * (n div 36) + n mod 36 = n" using assms by auto
  moreover have "nat (int n div 36) = n div 36" "nat (int n mod 36) = n mod 36"
    by (simp_all add: nat_div_distrib nat_mod_distrib)
  ultimately show ?thesis
    using assms digit36_nth by (simp add: base36_eq lua_tonumber36_def)
qed

text \<open>
  C31: A vendor number is written in exactly two base-36 digits, which the router's \<open>tonumber\<close>
  reads back as the same number, precisely when it is below 1296; otherwise the generator raises.
\<close>

theorem base36_roundtrip:
  "(\<exists>s. base36 (int n) = Inr s \<and> length s = INDEX_LEN \<and> lua_tonumber36 s = Some n) \<longleftrightarrow> n < MAX_VENDORS"
  using base36_reads_back [of n] base36_eq [of "int n"]
  by (auto simp: INDEX_LEN_def MAX_VENDORS_def power2_eq_square)

interpretation base36: slot_code base36 lua_tonumber36 INDEX_LEN MAX_VENDORS
  by unfold_locales
    (use base36_reads_back in \<open>simp_all add: INDEX_LEN_def MAX_VENDORS_def power2_eq_square\<close>)

section \<open>Classification\<close>

lemma first_rule_Some:
  "first_rule rules s = Some (d, i) \<Longrightarrow> \<exists>p. (p, d, i) \<in> set rules \<and> py_in p s"
  by (induction rules s rule: first_rule.induct) (auto split: if_splits)

lemma rules_count: "length RULES = 168"
  by (simp add: RULES_def RULES_computers_network_def RULES_home_media_def)

lemma classify_display: "classify org = Some h \<Longrightarrow> fst h \<in> (\<lambda>(p, d, i). d) ` set RULES"
  unfolding classify_def using first_rule_Some by (cases h) force

section \<open>Matched prefixes\<close>

fun hits :: "(string \<times> string) list \<Rightarrow> (string \<times> string \<times> string) list" where
  "hits [] = []"
| "hits ((p, org) # rows) = (case classify org of None \<Rightarrow> hits rows | Some h \<Rightarrow> (p, h) # hits rows)"

text \<open>What the rules say about a prefix: the last row that matches decides.\<close>

definition vendor_of :: "(string \<times> string) list \<Rightarrow> string \<Rightarrow> (string \<times> string) option" where
  "vendor_of rows p = map_of (rev (hits rows)) p"

lemma match_rows_map_of:
  "map_of (match_rows m rows) = map_of m ++ map_of (rev (hits rows))"
proof (induction m rows rule: match_rows.induct)
  case (2 m p org rows)
  then show ?case
    by (cases "classify org") (auto simp: update_conv' map_add_def fun_eq_iff split: option.splits)
qed simp

lemma match_rows_distinct: "distinct (map fst m) \<Longrightarrow> distinct (map fst (match_rows m rows))"
  by (induction m rows rule: match_rows.induct)
    (auto simp: distinct_update split: option.splits)

lemma match_rows_vendor_of: "map_of (match_rows [] rows) = vendor_of rows"
  by (simp add: match_rows_map_of vendor_of_def fun_eq_iff)

lemma match_rows_mem:
  assumes "(p, h) \<in> set (match_rows [] rows)"
  shows "\<exists>org. (p, org) \<in> set rows \<and> classify org = Some h"
proof -
  have "map_of (match_rows [] rows) p = Some h"
    using assms match_rows_distinct [of "[]" rows] by simp
  then have "(p, h) \<in> set (hits rows)"
    by (auto simp: match_rows_vendor_of vendor_of_def dest: map_of_SomeD)
  then show ?thesis by (induction rows rule: hits.induct) (auto split: option.splits)
qed

section \<open>Numbering the vendors\<close>

definition numbered :: "vendor_table \<Rightarrow> bool" where
  "numbered t \<longleftrightarrow> seen t = zip (vendors t) (map Suc [0..<length (vendors t)]) \<and>
     length (icons t) = length (vendors t) \<and> distinct (vendors t)"

lemma numbered_seen: "numbered t \<Longrightarrow> set (map fst (seen t)) = set (vendors t)"
  by (simp add: numbered_def)

lemma numbered_snoc:
  assumes "numbered t" "d \<notin> set (map fst (seen t))"
  shows "numbered \<lparr>vendors = vendors t @ [d], icons = icons t @ [i],
    seen = seen t @ [(d, length (vendors t) + 1)]\<rparr>"
  using assms numbered_seen [OF assms(1)] by (simp add: numbered_def)

lemma number_vendors_numbered:
  assumes "numbered t"
  shows "numbered (number_vendors t pairs)"
    and "set (vendors (number_vendors t pairs)) = set (vendors t) \<union> fst ` set pairs"
    and "set (zip (vendors (number_vendors t pairs)) (icons (number_vendors t pairs)))
      \<subseteq> set (zip (vendors t) (icons t)) \<union> set pairs"
  using assms
proof (induction t pairs rule: number_vendors.induct)
  case (2 t d i pairs)
  note step = numbered_snoc [of t d i]
  {
    case 1
    then show ?case using 2 step by (cases "d \<in> set (map fst (seen t))") simp_all
  next
    case 2
    then show ?case using "2.IH"(2,5) step numbered_seen [of t]
      by (cases "d \<in> set (map fst (seen t))") auto
  next
    case 3
    then have "zip (vendors t @ [d]) (icons t @ [i]) = zip (vendors t) (icons t) @ [(d, i)]"
      by (simp add: numbered_def)
    then show ?case using 3 "2.IH"(3,6) step
      by (cases "d \<in> set (map fst (seen t))") auto
  }
qed auto

section \<open>The generated table\<close>

lemma sorted_items_strict:
  fixes m :: "(string \<times> string \<times> string) list"
  assumes "distinct (map fst m)"
  shows "sorted_wrt (<) (map fst (sort m))"
proof -
  have "sorted (map fst (sort m))"
    by (rule sorted_wrt_map [THEN iffD2], rule sorted_wrt_mono_rel [OF _ sorted_sort])
      (auto simp: less_eq_prod_def)
  moreover have "distinct (map fst (sort m))" using assms by (simp add: distinct_map)
  ultimately show ?thesis by (simp add: strict_sorted_iff)
qed

text \<open>The four things a generated table consists of, with the facts that tie them together.\<close>

definition vendor_numbers :: "(string \<times> string) list \<Rightarrow> vendor_table" where
  "vendor_numbers rows = number_vendors \<lparr>vendors = [], icons = [], seen = []\<rparr>
     (sort (remdups (map snd (match_rows [] rows))))"

lemma vendor_numbers_facts:
  defines "t \<equiv> \<lambda>rows. vendor_numbers rows"
  shows "numbered (t rows)" and "set (vendors (t rows)) = (fst \<circ> snd) ` set (match_rows [] rows)"
    and "set (zip (vendors (t rows)) (icons (t rows))) \<subseteq> snd ` set (match_rows [] rows)"
    and "length (vendors (t rows)) < MAX_VENDORS"
proof -
  let ?e = "\<lparr>vendors = [], icons = [], seen = []\<rparr>"
  have e: "numbered ?e" by (simp add: numbered_def)
  let ?pairs = "sort (remdups (map snd (match_rows [] rows)))"
  note n = number_vendors_numbered [OF e, of ?pairs]
  show n1: "numbered (t rows)" using n(1) by (simp add: t_def vendor_numbers_def)
  show n2: "set (vendors (t rows)) = (fst \<circ> snd) ` set (match_rows [] rows)"
    using n(2) by (simp add: t_def vendor_numbers_def image_comp)
  show "set (zip (vendors (t rows)) (icons (t rows))) \<subseteq> snd ` set (match_rows [] rows)"
    using n(3) by (simp add: t_def vendor_numbers_def)
  have "set (vendors (t rows)) \<subseteq> (\<lambda>(p, d, i). d) ` set RULES"
  proof
    fix d assume "d \<in> set (vendors (t rows))"
    then obtain p i where "(p, d, i) \<in> set (match_rows [] rows)" using n2 by auto
    from match_rows_mem [OF this] obtain org where "classify org = Some (d, i)" by blast
    from classify_display [OF this] show "d \<in> (\<lambda>(p, d, i). d) ` set RULES" by simp
  qed
  then have "card (set (vendors (t rows))) \<le> length RULES"
    by (metis card_image_le card_length card_mono finite_imageI finite_set le_trans)
  moreover have "card (set (vendors (t rows))) = length (vendors (t rows))"
    using n1 by (simp add: numbered_def distinct_card)
  ultimately show "length (vendors (t rows)) < MAX_VENDORS"
    by (simp add: rules_count MAX_VENDORS_def INDEX_LEN_def power2_eq_square)
qed

lemma numbered_slot:
  assumes "numbered t" "d \<in> set (vendors t)"
  shows "\<exists>k < length (vendors t). map_of (seen t) d = Some (Suc k) \<and> vendors t ! k = d"
proof -
  from assms(2) obtain k where k: "k < length (vendors t)" "vendors t ! k = d"
    by (auto simp: in_set_conv_nth)
  with assms(1) have "map_of (seen t) d = Some (Suc k)"
    using map_of_zip_nth [of "vendors t" "map Suc [0..<length (vendors t)]" k] by (simp add: numbered_def)
  with k show ?thesis by blast
qed

definition slot_items :: "(string \<times> string) list \<Rightarrow> (string \<times> nat) list" where
  "slot_items rows = map (\<lambda>(p, d, i). (p, the (map_of (seen (vendor_numbers rows)) d)))
     (sort (match_rows [] rows))"

lemma item_slot:
  assumes "(p, d, i) \<in> set (match_rows [] rows)"
  shows "\<exists>k < length (vendors (vendor_numbers rows)).
    map_of (seen (vendor_numbers rows)) d = Some (Suc k) \<and> vendors (vendor_numbers rows) ! k = d"
  using assms numbered_slot [OF vendor_numbers_facts(1), of d rows]
  by (force simp: vendor_numbers_facts(2))

lemma make_record_item:
  assumes "(p, d, i) \<in> set (match_rows [] rows)"
  shows "\<exists>s. base36 (int (the (map_of (seen (vendor_numbers rows)) d))) = Inr s \<and> length s = INDEX_LEN \<and>
    make_record (seen (vendor_numbers rows)) (p, d, i) = Inr (p @ s)"
proof -
  from item_slot [OF assms] obtain k where k: "map_of (seen (vendor_numbers rows)) d = Some (Suc k)"
    "Suc k < MAX_VENDORS" using vendor_numbers_facts(4) [of rows] by fastforce
  with base36.encode_ok [OF k(2)] show ?thesis by (auto simp: make_record_def)
qed

lemma build_eq:
  "\<exists>recs. build rows = Inr (concat recs, vendors (vendor_numbers rows), icons (vendor_numbers rows),
       length (match_rows [] rows)) \<and>
     list_all2 (\<lambda>(key, n) r. \<exists>s. base36 (int n) = Inr s \<and> r = key @ s) (slot_items rows) recs \<and>
     list_all2 (\<lambda>(p, h) r. \<exists>s. length s = INDEX_LEN \<and> r = p @ s) (sort (match_rows [] rows)) recs"
proof -
  let ?m = "sort (match_rows [] rows)" and ?t = "vendor_numbers rows"
  let ?r = "\<lambda>it. case make_record (seen ?t) it of Inr r \<Rightarrow> r | Inl e \<Rightarrow> []"
  have each: "\<exists>s. base36 (int (the (map_of (seen ?t) d))) = Inr s \<and> length s = INDEX_LEN \<and>
      make_record (seen ?t) (p, d, i) = Inr (p @ s)" if "(p, d, i) \<in> set ?m" for p d i
    using that make_record_item by auto
  have "make_record (seen ?t) it = Inr (?r it)" if "it \<in> set ?m" for it
  proof -
    obtain p d i where it: "it = (p, d, i)" by (cases it)
    from each [of p d i] that show ?thesis unfolding it by auto
  qed
  then have "mapR (make_record (seen ?t)) ?m = Inr (map ?r ?m)" by (rule mapR_total)
  moreover have "list_all2 (\<lambda>(key, n) r. \<exists>s. base36 (int n) = Inr s \<and> r = key @ s)
      (slot_items rows) (map ?r ?m)"
    unfolding slot_items_def list_all2_map1 list_all2_map2 list_all2_same
  proof (clarify)
    fix p d i assume "(p, d, i) \<in> set ?m"
    from each [OF this] show "\<exists>s. base36 (int (the (map_of (seen ?t) d))) = Inr s \<and> ?r (p, d, i) = p @ s"
      by auto
  qed
  moreover have "list_all2 (\<lambda>(p, h) r. \<exists>s. length s = INDEX_LEN \<and> r = p @ s) ?m (map ?r ?m)"
    unfolding list_all2_map2 list_all2_same
  proof (clarify)
    fix p d i assume "(p, d, i) \<in> set ?m"
    from each [OF this] show "\<exists>s. length s = INDEX_LEN \<and> ?r (p, d, i) = p @ s" by auto
  qed
  ultimately show ?thesis
    using vendor_numbers_facts(4) [of rows]
    by (intro exI [of _ "map ?r ?m"]) (simp add: build_def Let_def vendor_numbers_def)
qed

lemma load_rows_prefix:
  "(p, org) \<in> set (load_rows csv) \<Longrightarrow> length p = PREFIX_LEN \<and> list_all hex_char p \<and> org \<noteq> []"
  by (induction csv rule: load_rows.induct)
    (auto simp: Let_def fullmatch_class_def split: if_splits)

text \<open>
  C29: For every registry the generator returns: it never runs out of two-digit vendor numbers and
  never looks up a vendor it has not numbered. The index is a sequence of eight-character records
  with strictly increasing prefixes, one per matched prefix; the vendor names are distinct and
  have one icon each.
\<close>

theorem build_well_formed:
  "\<exists>recs vs is. build (load_rows csv) = Inr (concat recs, vs, is, length recs) \<and>
     list_all (\<lambda>r. length r = RECORD_LEN \<and> list_all hex_char (take PREFIX_LEN r)) recs \<and>
     sorted_wrt (<) (map (take PREFIX_LEN) recs) \<and>
     distinct vs \<and> length is = length vs \<and> length vs < MAX_VENDORS"
proof -
  let ?rows = "load_rows csv"
  let ?m = "sort (match_rows [] ?rows)" and ?t = "vendor_numbers ?rows"
  from build_eq [of ?rows] obtain recs where
    b: "build ?rows = Inr (concat recs, vendors ?t, icons ?t, length (match_rows [] ?rows))"
    and r: "list_all2 (\<lambda>(p, h) r. \<exists>s. length s = INDEX_LEN \<and> r = p @ s) ?m recs" by blast
  have pre: "length (fst it) = PREFIX_LEN \<and> list_all hex_char (fst it)" if "it \<in> set ?m" for it
    using that match_rows_mem [of "fst it" "snd it" ?rows] load_rows_prefix by fastforce
  have len: "length recs = length ?m" using list_all2_lengthD [OF r] by simp
  have rec: "take PREFIX_LEN (recs ! i) = fst (?m ! i) \<and> length (recs ! i) = RECORD_LEN"
    if "i < length recs" for i
    using list_all2_nthD2 [OF r that] pre [OF nth_mem, of i] that len
    by (auto simp: RECORD_LEN_def split: prod.splits)
  have "map (take PREFIX_LEN) recs = map fst ?m" using rec len by (auto intro: nth_equalityI)
  moreover have "sorted_wrt (<) (map fst ?m)" by (rule sorted_items_strict) (simp add: match_rows_distinct)
  moreover have "list_all (\<lambda>r. length r = RECORD_LEN \<and> list_all hex_char (take PREFIX_LEN r)) recs"
    unfolding list_all_length [of _ recs] using rec pre [OF nth_mem] len by simp
  ultimately show ?thesis
    using b len vendor_numbers_facts [of ?rows] by (fastforce simp: numbered_def)
qed

end
