(* ===== verification/Oui_Lookup.thy ===== *)
theory Oui_Lookup
  imports Oui_Correct
begin

text \<open>
  From the registry to the label: what the router's \<open>lookup\<close> answers on a generated table, and the
  rule that can never fire.
\<close>

section \<open>The search on a generated table\<close>

lemma map_of_sort:
  fixes m :: "(string \<times> string \<times> string) list"
  assumes "distinct (map fst m)"
  shows "map_of (sort m) = map_of m"
proof
  fix k
  have d: "distinct (map fst (sort m))" using assms by (simp add: distinct_map)
  have "map_of (sort m) k = Some y \<longleftrightarrow> map_of m k = Some y" for y
    using map_of_eq_Some_iff [OF d] map_of_eq_Some_iff [OF assms] by simp
  then show "map_of (sort m) k = map_of m k" by (metis not_None_eq)
qed

lemma slot_items_map_of:
  "map_of (slot_items rows) p =
     map_option (\<lambda>h. the (map_of (seen (vendor_numbers rows)) (fst h))) (vendor_of rows p)"
proof -
  let ?f = "\<lambda>h. the (map_of (seen (vendor_numbers rows)) (fst h))"
  have "slot_items rows = map (\<lambda>(p, h). (p, ?f h)) (sort (match_rows [] rows))"
    by (auto simp: slot_items_def)
  then have "map_of (slot_items rows) = map_option ?f \<circ> map_of (sort (match_rows [] rows))"
    by (simp add: map_of_map)
  then show ?thesis
    by (simp add: map_of_sort match_rows_distinct match_rows_vendor_of)
qed

lemma slot_items_fst: "map fst (slot_items rows) = map fst (sort (match_rows [] rows))"
  by (auto simp: slot_items_def)

lemma slot_items_ok:
  "\<forall>(key, n) \<in> set (slot_items (load_rows csv)). length key = PREFIX_LEN \<and> n < MAX_VENDORS"
proof -
  have "length p = PREFIX_LEN \<and> the (map_of (seen (vendor_numbers (load_rows csv))) d) < MAX_VENDORS"
    if it: "(p, d, i) \<in> set (match_rows [] (load_rows csv))" for p d i
    using item_slot [OF it] match_rows_mem [OF it] load_rows_prefix vendor_numbers_facts(4) [of "load_rows csv"]
    by fastforce
  then show ?thesis by (auto simp: slot_items_def)
qed

lemma search_generated:
  assumes "build (load_rows csv) = Inr (index, vs, is, n)"
  shows "oui_search (oui_table index vs is lr) p =
    map_option (\<lambda>h. the (map_of (seen (vendor_numbers (load_rows csv))) (fst h))) (vendor_of (load_rows csv) p)"
proof -
  let ?rows = "load_rows csv"
  from build_eq [of ?rows] assms obtain recs where r: "index = concat recs"
    "list_all2 (\<lambda>(key, n) r. \<exists>s. base36 (int n) = Inr s \<and> r = key @ s) (slot_items ?rows) recs"
    by auto
  have "sorted_wrt (<) (map fst (slot_items ?rows))"
    unfolding slot_items_fst by (rule sorted_items_strict) (simp add: match_rows_distinct)
  from base36.search_slots [OF slot_items_ok this r(2)]
  show ?thesis unfolding slot_items_map_of [symmetric]
    by (simp add: oui_search_def oui_table_def RECORD_LEN_def r(1))
qed

lemma flat_pairs_nth:
  "length is = length vs \<Longrightarrow> k < length vs \<Longrightarrow>
   flat_pairs vs is ! (2 * k) = vs ! k \<and> flat_pairs vs is ! (2 * k + 1) = is ! k \<and>
   2 * k + 1 < length (flat_pairs vs is)"
proof (induction vs "is" arbitrary: k rule: flat_pairs.induct)
  case (1 v vs i "is")
  then show ?case by (cases k) auto
qed auto

lemma vendor_at_generated:
  assumes "length is = length vs" "k < length vs"
  shows "vendor_at (oui_table index vs is lr) (Suc k) = (Some (vs ! k), Some (is ! k))"
proof -
  have "nat (int k * 2) = 2 * k" "nat (1 + int k * 2) = 2 * k + 1" by simp_all
  with flat_pairs_nth [OF assms] show ?thesis
    by (simp add: vendor_at_def lua_at_def oui_table_def)
qed

text \<open>
  C6: On the table the generator writes, the router's lookup of an address with twelve hex digits,
  not all zero, whose local bit is not set, names exactly the vendor the rules give the last
  registry row of its prefix that any rule matches, with an icon a rule gives that vendor; where no
  row of the prefix matches it names nothing. No other vendor can appear.
\<close>

theorem oui_lookup_correct:
  assumes "build (load_rows csv) = Inr (index, vs, is, n)"
    and "hex_only mac = Some hex" and "\<not> is_local hex"
  shows "case vendor_of (load_rows csv) (take 6 hex) of
      None \<Rightarrow> oui_lookup (Some (oui_table index vs is lr)) mac = (None, None, False)
    | Some (d, i) \<Rightarrow> \<exists>i' p org. oui_lookup (Some (oui_table index vs is lr)) mac = (Some d, Some i', False) \<and>
        (p, org) \<in> set (load_rows csv) \<and> classify org = Some (d, i')"
proof -
  let ?rows = "load_rows csv" and ?p = "take 6 hex"
  let ?t = "vendor_numbers ?rows"
  have t: "vs = vendors ?t" "is = icons ?t" using build_eq [of ?rows] assms(1) by auto
  have pl: "oui_prefix_len (oui_table index vs is lr) = 6" by (simp add: oui_table_def PREFIX_LEN_def)
  note s = search_generated [OF assms(1), of lr ?p]
  show ?thesis
  proof (cases "vendor_of ?rows ?p")
    case None
    with s assms(2,3) pl show ?thesis by (simp add: oui_lookup_def Let_def)
  next
    case (Some h)
    obtain d i where h: "h = (d, i)" by (cases h)
    have "(?p, d, i) \<in> set (match_rows [] ?rows)"
      using Some h by (auto simp: match_rows_vendor_of [symmetric] dest: map_of_SomeD)
    from item_slot [OF this] obtain k where k: "k < length vs" "map_of (seen ?t) d = Some (Suc k)" "vs ! k = d"
      using t(1) by auto
    have len: "length is = length vs" using vendor_numbers_facts(1) [of ?rows] t by (simp add: numbered_def)
    have "(d, is ! k) \<in> set (zip vs is)" using k len by (auto simp: set_zip)
    then obtain p where "(p, d, is ! k) \<in> set (match_rows [] ?rows)"
      using vendor_numbers_facts(3) [of ?rows] t by auto
    from match_rows_mem [OF this] obtain org where "(p, org) \<in> set ?rows" "classify org = Some (d, is ! k)"
      by blast
    moreover have "oui_lookup (Some (oui_table index vs is lr)) mac = (Some d, Some (is ! k), False)"
      using s Some h k assms(2,3) pl vendor_at_generated [OF len k(1), of index lr]
      by (simp add: oui_lookup_def Let_def)
    ultimately show ?thesis using Some h by auto
  qed
qed

definition demo_csv :: "csv_row list" where
  "demo_csv =
     [[''Registry'' \<mapsto> ''MA-L'', ''Assignment'' \<mapsto> ''2CCF67'', ''Organization Name'' \<mapsto> ''Raspberry Pi (Trading) Ltd''],
      [''Registry'' \<mapsto> ''MA-M'', ''Assignment'' \<mapsto> ''2CCF67'', ''Organization Name'' \<mapsto> ''Proxmox''],
      [''Registry'' \<mapsto> ''MA-L'', ''Assignment'' \<mapsto> ''00163E'', ''Organization Name'' \<mapsto> ''VMware Inc'']]"

lemma demo_rows: "load_rows demo_csv = [(''2ccf67'', ''Raspberry Pi (Trading) Ltd''), (''00163e'', ''VMware Inc'')]"
  by code_simp

lemma demo_build: "build (load_rows demo_csv) = Inr (''00163e022ccf6701'', [''Raspberry Pi'', ''VMware''],
    [''processor'', ''server''], 2)"
  unfolding demo_rows by code_simp

theorem oui_lookup_correct_witness:
  "fst (oui_lookup (Some (oui_table ''00163e022ccf6701'' [''Raspberry Pi'', ''VMware''] [''processor'', ''server''] []))
     ''2C:CF:67:00:00:01'') = Some ''Raspberry Pi''"
proof -
  have h: "hex_only ''2C:CF:67:00:00:01'' = Some ''2ccf67000001''" by code_simp
  have l: "\<not> is_local ''2ccf67000001''" by code_simp
  have v: "vendor_of (load_rows demo_csv) (take 6 ''2ccf67000001'') = Some (''Raspberry Pi'', ''processor'')"
    unfolding demo_rows by code_simp
  from oui_lookup_correct [OF demo_build h l, of "[]"] show ?thesis unfolding v by auto
qed

section \<open>A rule that cannot fire\<close>

lemma first_rule_early:
  "(p, d, i) \<in> set xs \<Longrightarrow> py_in p s \<Longrightarrow> \<exists>h \<in> snd ` set xs. first_rule (xs @ ys) s = Some h"
proof (induction xs)
  case (Cons r xs)
  obtain a b c where "r = (a, b, c)" by (cases r)
  with Cons show ?case by (cases "py_in a s") auto
qed simp

lemma rules_facts:
  "(''intel'', ''Intel'', ''processor'') \<in> set RULES_computers_network"
  "(''Qingdao Intelligent'', ''cube'') \<notin> snd ` set RULES_computers_network"
  "(p, ''Qingdao Intelligent'', ''cube'') \<in> set RULES_home_media \<Longrightarrow> p = ''qingdao intelligent''"
  by (simp_all add: RULES_computers_network_def RULES_home_media_def)

text \<open>
  C33: No organisation is ever labelled by the rule for "qingdao intelligent": the pattern "intel"
  stands before it and is contained in it, so such a company is reported as Intel or as another
  earlier vendor, although the comment on the rules asks for specific patterns first.
\<close>

theorem qingdao_rule_dead: "classify org \<noteq> Some (''Qingdao Intelligent'', ''cube'')"
proof
  assume a: "classify org = Some (''Qingdao Intelligent'', ''cube'')"
  let ?s = "py_lower org"
  from a first_rule_Some [of RULES ?s] obtain p where
    p: "(p, ''Qingdao Intelligent'', ''cube'') \<in> set RULES" "py_in p ?s"
    by (auto simp: classify_def)
  from p(1) rules_facts(2) have "(p, ''Qingdao Intelligent'', ''cube'') \<in> set RULES_home_media"
    by (force simp: RULES_def)
  then have "p = ''qingdao intelligent''" by (rule rules_facts(3))
  moreover have "sublist ''intel'' ''qingdao intelligent''"
    using sublist_appendI [of "''intel''" "''qingdao ''" "''ligent''"] by simp
  ultimately have "py_in ''intel'' ?s"
    using p(2) unfolding py_in_sublist by (metis sublist_order.order_trans)
  from first_rule_early [OF rules_facts(1) this, of RULES_home_media] a rules_facts(2)
  show False by (auto simp: classify_def RULES_def)
qed

end
