(* ===== verification/Oui_File.thy ===== *)
theory Oui_File
  imports Oui_Correct
begin

text \<open>
  The generated file as the router reads it: a lexer for the part of Lua the file is written in
  (comments, names, decimal numbers, quoted strings, punctuation), a reader for a file that returns
  one table, and the proof that reading the generated file gives the table it was made from, every
  field of it. Whatever Lua has beyond this part makes the reader fail.
\<close>

section \<open>Quoted strings\<close>

text \<open>
  How Lua reads a quoted string: a backslash makes the next backslash or quote literal, a bare
  quote ends the string, a line break, be it a newline or a carriage return, is an error.
\<close>

abbreviation CR :: char where "CR \<equiv> CHR 0x0D"

definition line_break :: "char \<Rightarrow> bool" where
  "line_break c = (c = NL \<or> c = CR)"

fun lua_body :: "string \<Rightarrow> (string \<times> string) option" where
  "lua_body [] = None"
| "lua_body (c # s) =
     (if c = DQ then Some ([], s)
      else if line_break c then None
      else if c = BS then
        (case s of
           [] \<Rightarrow> None
         | e # s' \<Rightarrow> if e = BS \<or> e = DQ then map_option (\<lambda>(v, r). (e # v, r)) (lua_body s') else None)
      else map_option (\<lambda>(v, r). (c # v, r)) (lua_body s))"

definition lua_read :: "string \<Rightarrow> (string \<times> string) option" where
  "lua_read s = (case s of [] \<Rightarrow> None | c # s' \<Rightarrow> if c = DQ then lua_body s' else None)"

fun lua_escape :: "string \<Rightarrow> string" where
  "lua_escape [] = []"
| "lua_escape (c # s) = (if c = BS \<or> c = DQ then [BS, c] else [c]) @ lua_escape s"

definition one_line :: "string \<Rightarrow> bool" where
  "one_line v = list_all (\<lambda>c. \<not> line_break c) v"

lemma one_line_simps [simp]:
  "one_line []" "one_line (c # v) \<longleftrightarrow> \<not> line_break c \<and> one_line v"
  "one_line (u @ v) \<longleftrightarrow> one_line u \<and> one_line v"
  by (simp_all add: one_line_def)

lemma line_break_simps [simp]: "line_break NL" "line_break CR" "\<not> line_break DQ" "\<not> line_break BS"
  by (simp_all add: line_break_def)

lemma lua_string_escape: "lua_string v = DQ # lua_escape v @ [DQ]"
proof -
  have "py_replace [DQ] [BS, DQ] (py_replace [BS] [BS, BS] v) = lua_escape v"
    by (simp add: replace_char) (induction v, auto)
  then show ?thesis by (simp add: lua_string_def)
qed

lemma lua_body_escape: "one_line v \<Longrightarrow> lua_body (lua_escape v @ DQ # rest) = Some (v, rest)"
  by (induction v) auto

lemma lua_body_length: "lua_body s = Some (v, r) \<Longrightarrow> length r < length s"
  by (induction s arbitrary: v rule: lua_body.induct) (fastforce split: if_splits list.splits)+

text \<open>
  C32: A quoted string of the generated file, whatever text without a newline or carriage return it
  was made from, is read by Lua as exactly that text, and reading ends at its closing quote; a text
  with a line break is refused, so the condition is needed.
\<close>

theorem lua_string_reads_back:
  "lua_read (lua_string v @ rest) = (if one_line v then Some (v, rest) else None)"
proof -
  have "lua_body (lua_escape v @ DQ # rest) = None" if "\<not> one_line v"
    using that by (induction v) (auto simp: line_break_def)
  then show ?thesis using lua_body_escape [of v rest] by (simp add: lua_string_escape lua_read_def)
qed

section \<open>The lexer\<close>

datatype lua_token = TName string | TNumber nat | TString string | TSym char

definition lua_space :: "char \<Rightarrow> bool" where
  "lua_space c = (9 \<le> code c \<and> code c \<le> 13 \<or> code c = 32)"

definition name_start :: "char \<Rightarrow> bool" where
  "name_start c = (is_lower c \<or> is_upper c \<or> c = CHR ''_'')"

definition name_char :: "char \<Rightarrow> bool" where
  "name_char c = (is_alnum c \<or> c = CHR ''_'')"

text \<open>A number takes dots with it; only the decimal integers among the numbers are modelled.\<close>

definition number_char :: "char \<Rightarrow> bool" where
  "number_char c = (name_char c \<or> c = CHR ''.'')"

definition lua_sym :: "char \<Rightarrow> bool" where
  "lua_sym c = (c \<in> set ''{}(),.='')"

text \<open>A comment goes to the end of its line; the long ones, \<open>--[\<close>, are not modelled.\<close>

function lua_lex :: "string \<Rightarrow> lua_token list option" where
  "lua_lex [] = Some []"
| "lua_lex (c # s) =
     (if lua_space c then lua_lex s
      else if c = CHR ''-'' then
        (case s of
           [] \<Rightarrow> None
         | d # s' \<Rightarrow>
             if d = CHR ''-'' \<and> \<not> starts_with ''['' s'
             then lua_lex (dropWhile (\<lambda>x. \<not> line_break x) s') else None)
      else if c = DQ then
        (case lua_body s of
           None \<Rightarrow> None
         | Some (v, r) \<Rightarrow> map_option ((#) (TString v)) (lua_lex r))
      else if is_digit c then
        (if list_all is_digit (takeWhile number_char s)
         then map_option ((#) (TNumber (the (read_nat (c # takeWhile number_char s)))))
                (lua_lex (dropWhile number_char s))
         else None)
      else if name_start c then
        map_option ((#) (TName (c # takeWhile name_char s))) (lua_lex (dropWhile name_char s))
      else if lua_sym c then map_option ((#) (TSym c)) (lua_lex s)
      else None)"
  by pat_completeness auto

termination
  by (relation "measure length")
    (auto simp: length_dropWhile_le le_imp_less_Suc less_Suc_eq_le le_SucI dest: lua_body_length)

declare lua_lex.simps(2) [simp del]

text \<open>One step of the lexer for each kind of text.\<close>

lemma lex_space: "lua_space c \<Longrightarrow> lua_lex (c # s) = lua_lex s"
  by (simp add: lua_lex.simps)

lemma lex_spaces: "list_all lua_space b \<Longrightarrow> lua_lex (b @ s) = lua_lex s"
  by (induction b) (simp_all add: lex_space)

lemma lex_comment:
  assumes "one_line line" "\<not> starts_with ''['' line"
  shows "lua_lex (''--'' @ line @ NL # s) = lua_lex s"
proof -
  have d: "dropWhile (\<lambda>x. \<not> line_break x) (line @ NL # s) = NL # s"
    using assms(1) by (simp add: one_line_def dropWhile_append3 list_all_iff)
  have b: "\<not> starts_with ''['' (line @ NL # s)" using assms(2) by (cases line) simp_all
  have "lua_lex (''--'' @ line @ NL # s) = lua_lex (NL # s)"
    using d b by (simp add: lua_lex.simps(2) [of "CHR ''-''"] lua_space_def code_def)
  then show ?thesis by (simp add: lex_space lua_space_def code_def)
qed

lemma lex_string: "one_line v \<Longrightarrow> lua_lex (lua_string v @ s) = map_option ((#) (TString v)) (lua_lex s)"
  using lua_body_escape [of v s]
  by (simp add: lua_string_escape lua_lex.simps(2) [of DQ] lua_space_def code_def)

lemma takeWhile_end: "list_all P w \<Longrightarrow> \<not> P d \<Longrightarrow> takeWhile P (w @ d # s) = w"
  by (induction w) auto

lemma dropWhile_end: "list_all P w \<Longrightarrow> \<not> P d \<Longrightarrow> dropWhile P (w @ d # s) = d # s"
  by (induction w) auto

lemma lex_name:
  assumes "name_start c" "list_all name_char w" "\<not> name_char d"
  shows "lua_lex (c # w @ d # s) = map_option ((#) (TName (c # w))) (lua_lex (d # s))"
proof -
  have "\<not> lua_space c" "c \<noteq> CHR ''-''" "c \<noteq> DQ" "\<not> is_digit c"
    using assms(1) by (auto simp: name_start_def lua_space_def is_lower_def is_upper_def is_digit_def code_def)
  then show ?thesis using assms
    by (simp add: lua_lex.simps(2) [of c] takeWhile_end dropWhile_end)
qed

lemma sym_facts:
  assumes "lua_sym c"
  shows "\<not> lua_space c" "c \<noteq> CHR ''-''" "c \<noteq> DQ" "\<not> is_digit c" "\<not> name_start c"
proof -
  have "c \<in> set ''{}(),.=''" using assms by (simp add: lua_sym_def)
  then show "\<not> lua_space c" "c \<noteq> CHR ''-''" "c \<noteq> DQ" "\<not> is_digit c" "\<not> name_start c"
    by (auto simp: lua_space_def name_start_def is_lower_def is_upper_def is_digit_def code_def)
qed

lemma lex_sym: "lua_sym c \<Longrightarrow> lua_lex (c # s) = map_option ((#) (TSym c)) (lua_lex s)"
  using sym_facts [of c] by (simp add: lua_lex.simps(2) [of c])

lemma lex_number:
  assumes "\<not> number_char d"
  shows "lua_lex (show_nat n @ d # s) = map_option ((#) (TNumber n)) (lua_lex (d # s))"
proof -
  obtain c w where w: "show_nat n = c # w" by (cases "show_nat n") auto
  have dig: "is_digit c" "list_all is_digit w" using show_nat_digits [of n] w by simp_all
  then have num: "list_all number_char w"
    by (auto simp: list_all_iff number_char_def name_char_def is_alnum_def)
  have c: "\<not> lua_space c" "c \<noteq> CHR ''-''" "c \<noteq> DQ"
    using dig(1) by (auto simp: is_digit_def lua_space_def code_def)
  have "read_nat (c # w) = Some n" using read_nat_show_nat [of n] w by simp
  then show ?thesis using dig c assms num
    by (simp add: w lua_lex.simps(2) [of c] takeWhile_end dropWhile_end)
qed

section \<open>The reader of a file that returns one table\<close>

datatype lua_value = LNumber nat | LStrings "string list" | LText string

text \<open>The strings of a table constructor, its opening brace read; a last comma may stand or not.\<close>

fun lua_strings :: "lua_token list \<Rightarrow> (string list \<times> lua_token list) option" where
  "lua_strings (TSym c # r) = (if c = CHR ''}'' then Some ([], r) else None)"
| "lua_strings (TString v # TSym c # r) =
     (if c = CHR '','' then map_option (\<lambda>(vs, q). (v # vs, q)) (lua_strings r)
      else if c = CHR ''}'' then Some ([v], r) else None)"
| "lua_strings _ = None"

text \<open>A value: a number, a table of strings, or \<open>table.concat\<close> of one.\<close>

definition lua_value :: "lua_token list \<Rightarrow> (lua_value \<times> lua_token list) option" where
  "lua_value ts =
     (case ts of
        TNumber n # r \<Rightarrow> Some (LNumber n, r)
      | TSym c # r \<Rightarrow>
          if c = CHR ''{'' then map_option (\<lambda>(vs, q). (LStrings vs, q)) (lua_strings r) else None
      | TName t # TSym dot # TName f # TSym opn # TSym brace # r \<Rightarrow>
          if t = ''table'' \<and> dot = CHR ''.'' \<and> f = ''concat'' \<and> opn = CHR ''('' \<and> brace = CHR ''{'' then
            (case lua_strings r of
               Some (vs, TSym cls # q) \<Rightarrow> if cls = CHR '')'' then Some (LText (concat vs), q) else None
             | _ \<Rightarrow> None)
          else None
      | _ \<Rightarrow> None)"

lemma lua_strings_length: "lua_strings ts = Some (vs, r) \<Longrightarrow> length r < length ts"
  by (induction ts arbitrary: vs rule: lua_strings.induct) (fastforce split: if_splits)+

lemma lua_value_length: "lua_value ts = Some (x, r) \<Longrightarrow> length r < length ts"
  by (auto simp: lua_value_def dest!: lua_strings_length
      split: list.splits lua_token.splits if_splits option.splits prod.splits)

text \<open>The named fields of the table, its opening brace read.\<close>

function lua_fields :: "lua_token list \<Rightarrow> ((string \<times> lua_value) list \<times> lua_token list) option" where
  "lua_fields ts =
     (case ts of
        TSym c # r \<Rightarrow> if c = CHR ''}'' then Some ([], r) else None
      | TName k # TSym e # r \<Rightarrow>
          if e = CHR ''='' then
            (case lua_value r of
               Some (x, TSym c # q) \<Rightarrow>
                 if c = CHR '','' then map_option (\<lambda>(fs, p). ((k, x) # fs, p)) (lua_fields q)
                 else if c = CHR ''}'' then Some ([(k, x)], q) else None
             | _ \<Rightarrow> None)
          else None
      | _ \<Rightarrow> None)"
  by pat_completeness auto

termination
  by (relation "measure length") (auto dest!: lua_value_length)

declare lua_fields.simps [simp del]

definition lua_file :: "string \<Rightarrow> (string \<times> lua_value) list option" where
  "lua_file text =
     (case lua_lex text of
        Some (TName w # TSym c # r) \<Rightarrow>
          if w = ''return'' \<and> c = CHR ''{'' then
            (case lua_fields r of Some (fs, []) \<Rightarrow> Some fs | _ \<Rightarrow> None)
          else None
      | _ \<Rightarrow> None)"

text \<open>
  The data of the module: the fields \<open>oui.lua\<close> takes from the table \<open>require\<close> gives it, each of
  the type it uses it at. A field written twice has its last value.
\<close>

definition lua_oui_data :: "string \<Rightarrow> oui_data option" where
  "lua_oui_data text =
     (case lua_file text of
        None \<Rightarrow> None
      | Some fs \<Rightarrow>
          let get = map_of (rev fs) in
          (case (get ''record_len'', get ''prefix_len'', get ''vendors'', get ''local_ranges'', get ''index'') of
             (Some (LNumber rec), Some (LNumber plen), Some (LStrings vs), Some (LStrings lr), Some (LText ix)) \<Rightarrow>
               Some \<lparr>oui_record_len = rec, oui_prefix_len = plen, oui_vendors = vs,
                     oui_local_ranges = lr, oui_index = ix\<rparr>
           | _ \<Rightarrow> None))"

section \<open>Reading the generated file\<close>

definition string_tokens :: "string list \<Rightarrow> lua_token list" where
  "string_tokens xs = concat (map (\<lambda>v. [TString v, TSym CHR '','']) xs)"

lemma string_tokens_simps [simp]:
  "string_tokens [] = []" "string_tokens (v # vs) = TString v # TSym CHR '','' # string_tokens vs"
  "string_tokens (us @ vs) = string_tokens us @ string_tokens vs"
  by (simp_all add: string_tokens_def)

lemma append_fun: "(@) (x # xs) = (\<lambda>t. x # xs @ t)"
  by (simp add: fun_eq_iff)

lemma lua_strings_tokens: "lua_strings (string_tokens xs @ TSym CHR ''}'' # r) = Some (xs, r)"
  by (induction xs) simp_all

lemma lua_sym_simps [simp]:
  "lua_sym CHR ''{''" "lua_sym CHR ''}''" "lua_sym CHR ''(''" "lua_sym CHR '')''" "lua_sym CHR '',''"
  "lua_sym CHR ''.''" "lua_sym CHR ''=''"
  by (simp_all add: lua_sym_def)

lemma lua_space_simps [simp]: "lua_space CHR '' ''" "lua_space NL"
  by (simp_all add: lua_space_def code_def)

lemma join_Cons: "py_join sep (x # xs) = x @ (if xs = [] then [] else sep @ py_join sep xs)"
  by (cases xs) auto

text \<open>Lines that each read as some strings and commas, joined and closed, read as all of them.\<close>

lemma lex_lines:
  assumes "\<And>x s. x \<in> set xs \<Longrightarrow> lua_lex (f x @ s) = map_option ((@) (string_tokens (g x))) (lua_lex s)"
  shows "lua_lex (py_join [NL] (map f xs) @ render_close @ r) =
    map_option (\<lambda>t. string_tokens (concat (map g xs)) @ TSym CHR ''}'' # t) (lua_lex r)"
  using assms
proof (induction xs)
  case Nil
  then show ?case by (simp add: render_close_def lex_space lex_sym)
next
  case (Cons x xs)
  then have IH: "lua_lex (py_join [NL] (map f xs) @ render_close @ r) =
    map_option (\<lambda>t. string_tokens (concat (map g xs)) @ TSym CHR ''}'' # t) (lua_lex r)" by simp
  have "lua_lex (f x @ py_join [NL] [] @ render_close @ r) =
      map_option (\<lambda>t. string_tokens (g x) @ TSym CHR ''}'' # t) (lua_lex r)"
    using Cons.prems [of x] by (simp add: render_close_def lex_space lex_sym option.map_comp comp_def)
  moreover have "lua_lex (f x @ NL # py_join [NL] (map f xs) @ render_close @ r) =
    map_option (\<lambda>t. string_tokens (concat (map g (x # xs))) @ TSym CHR ''}'' # t) (lua_lex r)"
    using Cons.prems [of x] IH by (simp add: lex_space option.map_comp comp_def)
  ultimately show ?case by (simp add: join_Cons)
qed

text \<open>The head of the file is comment lines, the opening of the table and its two numbers.\<close>

definition comment_lines :: "string list \<Rightarrow> string" where
  "comment_lines ls = concat (map (\<lambda>l. ''--'' @ l @ [NL]) ls)"

lemma lex_comments:
  "list_all (\<lambda>l. one_line l \<and> \<not> starts_with ''['' l) ls \<Longrightarrow> lua_lex (comment_lines ls @ s) = lua_lex s"
proof (induction ls)
  case (Cons l ls)
  then show ?case
    using lex_comment [of l "comment_lines ls @ s"] by (simp add: comment_lines_def)
qed (simp add: comment_lines_def)

definition head_comments :: "string \<Rightarrow> string list \<Rightarrow> string list" where
  "head_comments index vs =
     ['' GENERATED by scripts/build_oui_table.py from the IEEE MA-L registry. DO NOT EDIT.'', [],
      '' Regenerate with:  python3 -m scripts.build_oui_table'', [],
      '' `index` is a sorted, fixed-width record table: 6 hex characters of'',
      '' 24-bit OUI prefix followed by a 2-character base-36 index into'',
      '' `vendors`. oui.lua binary-searches it. See scripts/build_oui_table.py for why this'',
      '' shape rather than a hash table.'', [],
      '' records: '' @ show_nat (length index div RECORD_LEN), '' vendors: '' @ show_nat (length vs)]"

lemma widths: "show_nat PREFIX_LEN = ''6''" "show_nat INDEX_LEN = ''2''" "show_nat RECORD_LEN = ''8''"
  by code_simp+

lemma render_head_eq:
  "render_head index vs = comment_lines (head_comments index vs) @ [NL] @ ''return {'' @ [NL] @
     ''  record_len = '' @ show_nat RECORD_LEN @ '','' @ [NL] @
     ''  prefix_len = '' @ show_nat PREFIX_LEN @ '','' @ [NL, NL] @
     ''  '' @ comment_lines ['' flat {display, icon} pairs, 1-based vendor index = (n + 1) / 2''] @ ''  ''"
  by (simp add: render_head_def comment_lines_def head_comments_def widths)

lemma one_line_show_nat [simp]: "one_line (show_nat n)"
  using show_nat_digits [of n]
  by (auto simp: one_line_def list_all_iff line_break_def is_digit_def code_def)

lemma head_comments_ok: "list_all (\<lambda>l. one_line l \<and> \<not> starts_with ''['' l) (head_comments index vs)"
  by (simp add: head_comments_def line_break_def)

lemma lex_word:
  assumes "w = c # v" "name_start c" "list_all name_char v" "\<not> name_char d"
  shows "lua_lex (w @ d # s) = map_option ((#) (TName w)) (lua_lex (d # s))"
  using lex_name [of c v d s] assms by simp

lemma name_char_simps [simp]:
  "\<not> name_char CHR '' ''" "\<not> name_char CHR ''.''" "\<not> name_char CHR ''(''" "\<not> number_char CHR '',''"
  by (simp_all add: number_char_def name_char_def is_alnum_def is_lower_def is_upper_def is_digit_def
      code_def)

lemma lex_key:
  assumes "w = c # v" "name_start c" "list_all name_char v"
  shows "lua_lex (w @ '' = '' @ s) = map_option (\<lambda>t. TName w # TSym CHR ''='' # t) (lua_lex s)"
  using lex_word [OF assms, of "CHR '' ''" "''= '' @ s"]
  by (simp add: lex_space lex_sym option.map_comp comp_def)

text \<open>The words of the template.\<close>

lemma words:
  "name_start CHR ''r''" "list_all name_char ''eturn''" "list_all name_char ''ecord_len''"
  "name_start CHR ''p''" "list_all name_char ''refix_len''"
  "name_start CHR ''v''" "list_all name_char ''endors''"
  "name_start CHR ''l''" "list_all name_char ''ocal_ranges''"
  "name_start CHR ''i''" "list_all name_char ''ndex''"
  "name_start CHR ''t''" "list_all name_char ''able''"
  "name_start CHR ''c''" "list_all name_char ''oncat''"
  by code_simp+

lemma lex_return: "lua_lex (''return {'' @ s) = map_option (\<lambda>t. TName ''return'' # TSym CHR ''{'' # t) (lua_lex s)"
  using lex_word [of "''return''" "CHR ''r''" "''eturn''" "CHR '' ''" "CHR ''{'' # s"] words
  by (simp add: lex_space lex_sym option.map_comp comp_def)

lemma lex_concat:
  "lua_lex (''table.concat({'' @ s) = map_option (\<lambda>t. TName ''table'' # TSym CHR ''.'' # TName ''concat'' #
     TSym CHR ''('' # TSym CHR ''{'' # t) (lua_lex s)"
  using lex_word [of "''table''" "CHR ''t''" "''able''" "CHR ''.''" "''concat({'' @ s"]
    lex_word [of "''concat''" "CHR ''c''" "''oncat''" "CHR ''(''" "CHR ''{'' # s"] words
  by (simp add: lex_space lex_sym option.map_comp comp_def)

lemma lex_number_comma:
  "lua_lex (show_nat n @ '','' @ s) = map_option (\<lambda>t. TNumber n # TSym CHR '','' # t) (lua_lex s)"
  using lex_number [of "CHR '',''" n s] by (simp add: lex_sym option.map_comp comp_def)

definition head_tokens :: "lua_token list" where
  "head_tokens = [TName ''return'', TSym CHR ''{'',
     TName ''record_len'', TSym CHR ''='', TNumber RECORD_LEN, TSym CHR '','',
     TName ''prefix_len'', TSym CHR ''='', TNumber PREFIX_LEN, TSym CHR '','']"

lemma lex_indent: "lua_lex (''  '' @ s) = lua_lex s" "lua_lex ([NL] @ s) = lua_lex s"
  by (simp_all add: lex_space)

lemma lex_head: "lua_lex (render_head index vs @ s) = map_option ((@) head_tokens) (lua_lex s)"
proof -
  let ?c = "comment_lines ['' flat {display, icon} pairs, 1-based vendor index = (n + 1) / 2''] @ ''  '' @ s"
  have c: "lua_lex ?c = lua_lex s"
    by (subst lex_comments) (simp_all add: line_break_def lex_space)
  let ?p = "''prefix_len = '' @ show_nat PREFIX_LEN @ '','' @ [NL, NL] @ ''  '' @ ?c"
  have p: "lua_lex ?p = map_option (\<lambda>t. TName ''prefix_len'' # TSym CHR ''='' # TNumber PREFIX_LEN #
      TSym CHR '','' # t) (lua_lex s)"
    using lex_key [of "''prefix_len''" "CHR ''p''" "''refix_len''" "show_nat PREFIX_LEN @ '','' @ [NL, NL] @ ''  '' @ ?c"]
      lex_number_comma [of PREFIX_LEN "[NL, NL] @ ''  '' @ ?c"] words c
    by (simp add: lex_space option.map_comp comp_def)
  let ?r = "''record_len = '' @ show_nat RECORD_LEN @ '','' @ [NL] @ ''  '' @ ?p"
  have r: "lua_lex ?r = map_option (\<lambda>t. TName ''record_len'' # TSym CHR ''='' # TNumber RECORD_LEN #
      TSym CHR '','' # t) (lua_lex ?p)"
    using lex_key [of "''record_len''" "CHR ''r''" "''ecord_len''" "show_nat RECORD_LEN @ '','' @ [NL] @ ''  '' @ ?p"]
      lex_number_comma [of RECORD_LEN "[NL] @ ''  '' @ ?p"] words
    by (simp add: lex_space option.map_comp comp_def)
  have "render_head index vs @ s = comment_lines (head_comments index vs) @ [NL] @ ''return {'' @ [NL] @ ''  '' @ ?r"
    unfolding render_head_eq by simp
  then have "lua_lex (render_head index vs @ s) = lua_lex ([NL] @ ''return {'' @ [NL] @ ''  '' @ ?r)"
    by (simp only: lex_comments [OF head_comments_ok])
  also have "\<dots> = map_option (\<lambda>t. TName ''return'' # TSym CHR ''{'' # t) (lua_lex ?r)"
    by (simp only: lex_indent lex_return)
  finally show ?thesis unfolding r p by (simp add: head_tokens_def option.map_comp comp_def append_fun)
qed

lemma lex_local: "lua_lex (render_local @ s) = map_option ((#) (TSym CHR '','')) (lua_lex s)"
proof -
  let ?c = "comment_lines ['' flat {prefix, display, icon} triples for locally-administered ranges''] @ ''  '' @ s"
  have e: "render_local @ s = CHR '','' # NL # NL # CHR '' '' # CHR '' '' # ?c"
    by (simp add: render_local_def comment_lines_def)
  have "lua_lex ?c = lua_lex s"
    by (subst lex_comments) (simp_all add: line_break_def lex_space)
  then show ?thesis unfolding e by (simp only: lex_space lex_sym lua_sym_simps lua_space_simps)
qed

lemma concat_single: "concat (map (\<lambda>p. [p]) xs) = xs"
  by (induction xs) auto

lemma concat_pairs: "concat (map (\<lambda>(v, i). [v, i]) (zip vs is)) = flat_pairs vs is"
  by (induction vs "is" rule: flat_pairs.induct) auto

lemma concat_triples: "concat (map (\<lambda>(p, d, i). [p, d, i]) rs) = flat_triples rs"
  by (induction rs rule: flat_triples.induct) auto

lemma pieces_concat: "0 < k \<Longrightarrow> concat (pieces k s) = s"
proof (induction k s rule: pieces.induct)
  case (1 k s)
  then show ?case by (cases "s = []") (simp_all add: pieces.simps [of k s] pieces.simps [of k "[]"])
qed

lemma pieces_chars: "0 < k \<Longrightarrow> x \<in> set (pieces k s) \<Longrightarrow> set x \<subseteq> set s"
  using pieces_concat [of k s] by (metis UN_upper set_concat)

text \<open>The lines of the three tables.\<close>

lemma lex_item: "one_line v \<Longrightarrow>
  lua_lex (lua_string v @ '','' @ s) = map_option (\<lambda>t. TString v # TSym CHR '','' # t) (lua_lex s)"
  using lex_string [of v "'','' @ s"] by (simp add: lex_sym option.map_comp comp_def)

lemma lex_line1: "one_line p \<Longrightarrow>
  lua_lex ((''  '' @ lua_string p @ '','') @ s) = map_option ((@) (string_tokens [p])) (lua_lex s)"
  using lex_item [of p s] by (simp add: lex_space comp_def append_fun)

lemma lex_line2: "one_line v \<Longrightarrow> one_line i \<Longrightarrow>
  lua_lex ((''  '' @ lua_string v @ '', '' @ lua_string i @ '','') @ s) =
    map_option ((@) (string_tokens [v, i])) (lua_lex s)"
  using lex_item [of v "'' '' @ lua_string i @ '','' @ s"] lex_item [of i s]
  by (simp add: lex_space option.map_comp comp_def append_fun)

lemma lex_line3: "one_line p \<Longrightarrow> one_line d \<Longrightarrow> one_line i \<Longrightarrow>
  lua_lex ((''  '' @ lua_string p @ '', '' @ lua_string d @ '', '' @ lua_string i @ '','') @ s) =
    map_option ((@) (string_tokens [p, d, i])) (lua_lex s)"
  using lex_item [of p "'' '' @ lua_string d @ '', '' @ lua_string i @ '','' @ s"]
    lex_item [of d "'' '' @ lua_string i @ '','' @ s"] lex_item [of i s]
  by (simp add: lex_space option.map_comp comp_def append_fun)

section \<open>The file reads as the table\<close>

lemma lex_tables:
  assumes "one_line index" and "list_all one_line vs" and "list_all one_line is"
    and "list_all (\<lambda>(p, d, i). one_line p \<and> one_line d \<and> one_line i) lr"
  shows "lua_lex (py_join [NL] (map (\<lambda>(v, i). ''  '' @ lua_string v @ '', '' @ lua_string i @ '','') (zip vs is)) @
      render_close @ r) = map_option (\<lambda>t. string_tokens (flat_pairs vs is) @ TSym CHR ''}'' # t) (lua_lex r)"
    and "lua_lex (py_join [NL] (map (\<lambda>(p, d, i). ''  '' @ lua_string p @ '', '' @ lua_string d @ '', '' @
      lua_string i @ '','') lr) @ render_close @ r) =
      map_option (\<lambda>t. string_tokens (flat_triples lr) @ TSym CHR ''}'' # t) (lua_lex r)"
    and "lua_lex (py_join [NL] (map (\<lambda>p. ''  '' @ lua_string p @ '','') (pieces 240 index)) @ render_close @ r) =
      map_option (\<lambda>t. string_tokens (pieces 240 index) @ TSym CHR ''}'' # t) (lua_lex r)"
proof -
  have z: "one_line a \<and> one_line b" if "(a, b) \<in> set (zip vs is)" for a b
    using assms(2,3) set_zip_leftD [OF that] set_zip_rightD [OF that] by (simp add: list_all_iff)
  have p: "one_line x" if "x \<in> set (pieces 240 index)" for x
    using assms(1) pieces_chars [OF _ that] by (auto simp: one_line_def list_all_iff)
  show "lua_lex (py_join [NL] (map (\<lambda>(v, i). ''  '' @ lua_string v @ '', '' @ lua_string i @ '','') (zip vs is)) @
      render_close @ r) = map_option (\<lambda>t. string_tokens (flat_pairs vs is) @ TSym CHR ''}'' # t) (lua_lex r)"
    unfolding concat_pairs [symmetric]
    by (rule lex_lines) (use z lex_line2 in \<open>auto simp del: append_assoc string_tokens_simps\<close>)
  show "lua_lex (py_join [NL] (map (\<lambda>(p, d, i). ''  '' @ lua_string p @ '', '' @ lua_string d @ '', '' @
      lua_string i @ '','') lr) @ render_close @ r) =
      map_option (\<lambda>t. string_tokens (flat_triples lr) @ TSym CHR ''}'' # t) (lua_lex r)"
    unfolding concat_triples [symmetric]
    by (rule lex_lines)
      (use assms(4) lex_line3 in \<open>auto simp: list_all_iff simp del: append_assoc string_tokens_simps\<close>)
  show "lua_lex (py_join [NL] (map (\<lambda>p. ''  '' @ lua_string p @ '','') (pieces 240 index)) @ render_close @ r) =
      map_option (\<lambda>t. string_tokens (pieces 240 index) @ TSym CHR ''}'' # t) (lua_lex r)"
    using lex_lines [of "pieces 240 index" "\<lambda>p. ''  '' @ lua_string p @ '',''" "\<lambda>p. [p]" r]
      p lex_line1 by (simp only: concat_single)
qed

lemma lex_table_key:
  "lua_lex (''vendors = {'' @ s) = map_option (\<lambda>t. TName ''vendors'' # TSym CHR ''='' # TSym CHR ''{'' # t) (lua_lex s)"
  "lua_lex (''local_ranges = {'' @ s) =
     map_option (\<lambda>t. TName ''local_ranges'' # TSym CHR ''='' # TSym CHR ''{'' # t) (lua_lex s)"
  "lua_lex (''index = '' @ s) = map_option (\<lambda>t. TName ''index'' # TSym CHR ''='' # t) (lua_lex s)"
  using lex_key [of "''vendors''" "CHR ''v''" "''endors''" "CHR ''{'' # s"]
    lex_key [of "''local_ranges''" "CHR ''l''" "''ocal_ranges''" "CHR ''{'' # s"]
    lex_key [of "''index''" "CHR ''i''" "''ndex''" s] words
  by (simp_all add: lex_sym option.map_comp comp_def)

definition file_tokens ::
  "string \<Rightarrow> string list \<Rightarrow> string list \<Rightarrow> (string \<times> string \<times> string) list \<Rightarrow> lua_token list" where
  "file_tokens index vs is lr = head_tokens @
     TName ''vendors'' # TSym CHR ''='' # TSym CHR ''{'' # string_tokens (flat_pairs vs is) @
       TSym CHR ''}'' # TSym CHR '','' #
     TName ''local_ranges'' # TSym CHR ''='' # TSym CHR ''{'' # string_tokens (flat_triples lr) @
       TSym CHR ''}'' # TSym CHR '','' #
     TName ''index'' # TSym CHR ''='' # TName ''table'' # TSym CHR ''.'' # TName ''concat'' #
       TSym CHR ''('' # TSym CHR ''{'' # string_tokens (pieces 240 index) @
       TSym CHR ''}'' # TSym CHR '')'' # TSym CHR '','' # [TSym CHR ''}'']"

lemma lex_render:
  assumes "one_line index" and "list_all one_line vs" and "list_all one_line is"
    and "list_all (\<lambda>(p, d, i). one_line p \<and> one_line d \<and> one_line i) lr"
  shows "lua_lex (render index vs is lr) = Some (file_tokens index vs is lr)"
proof -
  let ?v = "py_join [NL] (map (\<lambda>(v, i). ''  '' @ lua_string v @ '', '' @ lua_string i @ '','') (zip vs is))"
  let ?l = "py_join [NL] (map (\<lambda>(p, d, i). ''  '' @ lua_string p @ '', '' @ lua_string d @ '', '' @
    lua_string i @ '','') lr)"
  let ?b = "py_join [NL] (map (\<lambda>p. ''  '' @ lua_string p @ '','') (pieces 240 index))"
  note tables = lex_tables [OF assms]
  let ?tail = "'')'' @ '','' @ [NL] @ ''}'' @ [NL]"
  let ?i = "''index = '' @ ''table.concat({'' @ [NL] @ ?b @ render_close @ ?tail"
  let ?r = "''local_ranges = {'' @ [NL] @ ?l @ render_close @ '','' @ [NL] @ [NL] @ ''  '' @ ?i"
  have e: "lua_lex ?tail = Some [TSym CHR '')'', TSym CHR '','', TSym CHR ''}'']"
    by (simp add: lex_space lex_sym)
  have i: "lua_lex ?i = Some (TName ''index'' # TSym CHR ''='' # TName ''table'' # TSym CHR ''.'' #
      TName ''concat'' # TSym CHR ''('' # TSym CHR ''{'' # string_tokens (pieces 240 index) @
      [TSym CHR ''}'', TSym CHR '')'', TSym CHR '','', TSym CHR ''}''])"
    by (simp only: lex_table_key lex_concat lex_indent tables e option.map)
  have c: "lua_lex ('','' @ s) = map_option ((#) (TSym CHR '','')) (lua_lex s)" for s
    by (simp add: lex_sym)
  have r: "lua_lex ?r = Some (TName ''local_ranges'' # TSym CHR ''='' # TSym CHR ''{'' #
      string_tokens (flat_triples lr) @ TSym CHR ''}'' # TSym CHR '','' # the (lua_lex ?i))"
    by (simp only: lex_table_key(2) lex_indent tables(2) c i option.map option.sel)
  have "render index vs is lr = render_head index vs @ ''vendors = {'' @ [NL] @ ?v @ render_close @ render_local @ ?r"
    by (simp add: render_def Let_def)
  then show ?thesis
    by (simp only: lex_head lex_table_key(1) lex_indent tables(1) lex_local r i option.map option.sel
        file_tokens_def)
qed

lemma fields_end: "lua_fields (TSym CHR ''}'' # r) = Some ([], r)"
  by (simp add: lua_fields.simps)

lemma fields_number:
  "lua_fields (TName k # TSym CHR ''='' # TNumber n # TSym CHR '','' # q) =
     map_option (\<lambda>(fs, p). ((k, LNumber n) # fs, p)) (lua_fields q)"
  by (subst lua_fields.simps) (simp add: lua_value_def)

lemma fields_strings:
  "lua_fields (TName k # TSym CHR ''='' # TSym CHR ''{'' # string_tokens vs @ TSym CHR ''}'' # TSym CHR '','' # q) =
     map_option (\<lambda>(fs, p). ((k, LStrings vs) # fs, p)) (lua_fields q)"
  by (subst lua_fields.simps) (simp add: lua_value_def lua_strings_tokens)

lemma fields_concat:
  "lua_fields (TName k # TSym CHR ''='' # TName ''table'' # TSym CHR ''.'' # TName ''concat'' # TSym CHR ''('' #
       TSym CHR ''{'' # string_tokens vs @ TSym CHR ''}'' # TSym CHR '')'' # TSym CHR '','' # q) =
     map_option (\<lambda>(fs, p). ((k, LText (concat vs)) # fs, p)) (lua_fields q)"
  by (subst lua_fields.simps) (simp add: lua_value_def lua_strings_tokens)

lemma render_file_data:
  assumes "one_line index" and "list_all one_line vs" and "list_all one_line is"
    and "list_all (\<lambda>(p, d, i). one_line p \<and> one_line d \<and> one_line i) lr"
  shows "lua_oui_data (render index vs is lr) = Some (oui_table index vs is lr)"
proof -
  have "lua_file (render index vs is lr) = Some [(''record_len'', LNumber RECORD_LEN),
      (''prefix_len'', LNumber PREFIX_LEN), (''vendors'', LStrings (flat_pairs vs is)),
      (''local_ranges'', LStrings (flat_triples lr)), (''index'', LText index)]"
    by (simp add: lua_file_def lex_render [OF assms] file_tokens_def head_tokens_def fields_number
        fields_strings fields_concat fields_end pieces_concat)
  then show ?thesis by (simp add: lua_oui_data_def oui_table_def)
qed

text \<open>A table the generator makes has no line break in it.\<close>

lemma base36_one_line: "base36 v = Inr s \<Longrightarrow> one_line s"
proof -
  have d: "list_all (\<lambda>c. \<not> line_break c) DIGITS36" "length DIGITS36 = 36" by code_simp+
  have digit: "\<not> line_break (DIGITS36 ! nat (u mod 36))" for u :: int
    using d by (simp add: list_all_length nat_less_iff)
  have "one_line (snd (base36_loop k u out))" if "one_line out" for k u out
    using that digit by (induction k u out rule: base36_loop.induct) simp_all
  from this [of "[]" INDEX_LEN v] show "base36 v = Inr s \<Longrightarrow> one_line s"
    by (auto simp: base36_def split: prod.splits if_splits)
qed

lemma hex_one_line: "list_all hex_char p \<Longrightarrow> one_line p"
  by (auto simp: one_line_def list_all_iff hex_char_def line_break_def is_digit_def code_def)

lemma rules_one_line:
  "list_all (\<lambda>(p, d, i). one_line d \<and> one_line i) RULES"
  "list_all (\<lambda>(p, d, i). one_line p \<and> one_line d \<and> one_line i) LOCAL_RULES"
  by code_simp+

lemma match_one_line:
  assumes "(p, d, i) \<in> set (match_rows [] rows)"
  shows "one_line d" "one_line i"
proof -
  from match_rows_mem [OF assms] obtain org where "classify org = Some (d, i)" by blast
  then obtain q where "(q, d, i) \<in> set RULES" using first_rule_Some unfolding classify_def by blast
  with rules_one_line(1) show "one_line d" "one_line i" by (auto simp: list_all_iff)
qed

lemma build_one_line:
  assumes "build (load_rows csv) = Inr (index, vs, is, n)"
  shows "one_line index" "list_all one_line vs" "list_all one_line is"
proof -
  let ?rows = "load_rows csv"
  from build_eq [of ?rows] assms obtain recs where r: "index = concat recs"
    "vs = vendors (vendor_numbers ?rows)" "is = icons (vendor_numbers ?rows)"
    "list_all2 (\<lambda>(key, n) r. \<exists>s. base36 (int n) = Inr s \<and> r = key @ s) (slot_items ?rows) recs" by auto
  have key: "one_line key" if "(key, m) \<in> set (slot_items ?rows)" for key m
    using that match_rows_mem load_rows_prefix hex_one_line by (fastforce simp: slot_items_def)
  have "one_line x" if "x \<in> set recs" for x
  proof -
    from that obtain j where j: "j < length recs" "x = recs ! j" by (auto simp: in_set_conv_nth)
    obtain key m where it: "slot_items ?rows ! j = (key, m)" by (cases "slot_items ?rows ! j")
    with list_all2_nthD2 [OF r(4) j(1)] obtain s where "base36 (int m) = Inr s" "x = key @ s"
      by (auto simp: j(2))
    moreover have "(key, m) \<in> set (slot_items ?rows)"
      using it nth_mem [of j "slot_items ?rows"] j(1) list_all2_lengthD [OF r(4)] by simp
    ultimately show ?thesis using key base36_one_line by simp
  qed
  then show "one_line index" unfolding r(1) by (auto simp: one_line_def list_all_iff)
  note f = vendor_numbers_facts [of ?rows]
  have "one_line d" if "d \<in> set vs" for d
  proof -
    from that obtain p i where "(p, d, i) \<in> set (match_rows [] ?rows)" using f(2) r(2) by auto
    then show ?thesis by (rule match_one_line)
  qed
  then show "list_all one_line vs" by (simp add: list_all_iff)
  have "set is = snd ` set (zip vs is)"
    using f(1) r(2,3) by (metis numbered_def list.set_map map_snd_zip)
  have "one_line i" if i: "i \<in> set is" for i
  proof -
    have "i \<in> snd ` set (zip vs is)" using i \<open>set is = snd ` set (zip vs is)\<close> by simp
    then obtain p d where "(p, d, i) \<in> set (match_rows [] ?rows)" using f(3) r(2,3) by fastforce
    then show ?thesis by (rule match_one_line)
  qed
  then show "list_all one_line is" by (simp add: list_all_iff)
qed

text \<open>
  C30: Read as Lua, the whole generated file returns the table it was made from: the record and
  prefix lengths, the vendors and icons in turn, the prefix, name and icon of every local rule, and
  the index joined from its pieces. This holds for every table of texts without line breaks, and so
  for the file made from any registry with the shipped local rules.
\<close>

theorem render_reads_back:
  "(one_line index \<and> list_all one_line vs \<and> list_all one_line is \<and>
      list_all (\<lambda>(p, d, i). one_line p \<and> one_line d \<and> one_line i) lr \<longrightarrow>
      lua_oui_data (render index vs is lr) = Some (oui_table index vs is lr)) \<and>
   (build (load_rows csv) = Inr (index, vs, is, n) \<longrightarrow>
      lua_oui_data (render index vs is LOCAL_RULES) = Some (oui_table index vs is LOCAL_RULES))"
  using render_file_data [of index vs "is"] build_one_line [of csv index vs "is" n] rules_one_line(2)
  by blast

definition demo_rules :: "(string \<times> string \<times> string) list" where
  "demo_rules = [(''5254'', ''QEMU/KVM'', ''server'')]"

theorem render_reads_back_witness:
  "lua_oui_data (render ''00163e01'' [''VMware''] [''server''] demo_rules) =
     Some \<lparr>oui_record_len = 8, oui_prefix_len = 6, oui_vendors = [''VMware'', ''server''],
       oui_local_ranges = [''5254'', ''QEMU/KVM'', ''server''], oui_index = ''00163e01''\<rparr>"
proof -
  have "one_line ''00163e01'' \<and> list_all one_line [''VMware''] \<and> list_all one_line [''server''] \<and>
    list_all (\<lambda>(p, d, i). one_line p \<and> one_line d \<and> one_line i) demo_rules" by code_simp
  with render_reads_back [of "''00163e01''" "[''VMware'']" "[''server'']" demo_rules "[]" 0]
  show ?thesis by (simp add: oui_table_def demo_rules_def RECORD_LEN_def PREFIX_LEN_def INDEX_LEN_def)
qed

end
