(* ===== verification/Json.thy ===== *)
theory Json
  imports Pystr "HOL-Library.AList"
begin

text \<open>
  The values the dashboard generators build: Python dictionaries, lists, strings, numbers, booleans
  and \<open>None\<close>. A dictionary is the list of its items in insertion order. A float is kept as the
  text Python prints for it; the generators never compute with one. Text beyond ASCII is its UTF-8
  bytes. Reading a key that is missing, or a key of something that is no dictionary, raises.
\<close>

datatype json =
    JNull
  | JBool bool
  | JInt int
  | JFloat string
  | JStr string
  | JList "json list"
  | JDict "(string \<times> json) list"

type_synonym item = "string \<times> json"

fun jget :: "json \<Rightarrow> string \<Rightarrow> json res" where
  "jget (JDict kvs) k = (case map_of kvs k of None \<Rightarrow> Inl (KeyError k) | Some v \<Rightarrow> Inr v)"
| "jget _ k = Inl (TypeError k)"

text \<open>\<open>value[k1][k2]...\<close>\<close>

fun jpath :: "json \<Rightarrow> string list \<Rightarrow> json res" where
  "jpath v [] = Inr v"
| "jpath v (k # ks) = bindR (jget v k) (\<lambda>w. jpath w ks)"

fun jkeys :: "json \<Rightarrow> string list" where
  "jkeys (JDict kvs) = map fst kvs"
| "jkeys _ = []"

fun jitems :: "json \<Rightarrow> (string \<times> json) list res" where
  "jitems (JDict kvs) = Inr kvs"
| "jitems _ = Inl (TypeError ''items'')"

text \<open>\<open>value.get(key)\<close>\<close>

definition jlookup :: "json \<Rightarrow> string \<Rightarrow> json option res" where
  "jlookup v k = bindR (jitems v) (\<lambda>kvs. Inr (map_of kvs k))"

fun jlist :: "json \<Rightarrow> json list res" where
  "jlist (JList xs) = Inr xs"
| "jlist _ = Inl (TypeError ''iter'')"

fun jstr :: "json \<Rightarrow> string res" where
  "jstr (JStr s) = Inr s"
| "jstr _ = Inl (TypeError ''str'')"

fun jint :: "json \<Rightarrow> int res" where
  "jint (JInt n) = Inr n"
| "jint _ = Inl (TypeError ''int'')"

text \<open>\<open>d.update(e)\<close> on the items of two dictionaries.\<close>

definition dict_update :: "item list \<Rightarrow> item list \<Rightarrow> item list" where
  "dict_update d e = fold (\<lambda>(k, v) acc. AList.update k v acc) e d"

section \<open>Walking a value\<close>

fun iter_strings :: "json \<Rightarrow> string list" where
  "iter_strings (JStr s) = [s]"
| "iter_strings (JDict kvs) = concat (map (\<lambda>p. iter_strings (snd p)) kvs)"
| "iter_strings (JList xs) = concat (map iter_strings xs)"
| "iter_strings _ = []"

text \<open>
  The names of the element references of a layout, in the order of the walk. A name that is not
  a text is kept as the empty text; the generators only write texts.
\<close>

definition own_ref :: "item list \<Rightarrow> string list" where
  "own_ref kvs =
     (if map_of kvs ''kind'' = Some (JStr ''ElementReference'')
      then (case map_of kvs ''name'' of None \<Rightarrow> [] | Some (JStr s) \<Rightarrow> [s] | Some _ \<Rightarrow> [[]])
      else [])"

fun layout_refs :: "json \<Rightarrow> string list" where
  "layout_refs (JDict kvs) = own_ref kvs @ concat (map (\<lambda>p. layout_refs (snd p)) kvs)"
| "layout_refs (JList xs) = concat (map layout_refs xs)"
| "layout_refs _ = []"

section \<open>\<open>json.dumps\<close>\<close>

definition json_escape_char :: "char \<Rightarrow> string" where
  "json_escape_char c =
     (if c = DQ then [BS, DQ] else if c = BS then [BS, BS] else if c = NL then [BS, CHR ''n''] else [c])"

definition json_quote :: "string \<Rightarrow> string" where
  "json_quote s = [DQ] @ concat (map json_escape_char s) @ [DQ]"

fun json_text :: "bool \<Rightarrow> json \<Rightarrow> string" where
  "json_text sort_keys JNull = ''null''"
| "json_text sort_keys (JBool b) = (if b then ''true'' else ''false'')"
| "json_text sort_keys (JInt n) = show_int n"
| "json_text sort_keys (JFloat f) = f"
| "json_text sort_keys (JStr s) = json_quote s"
| "json_text sort_keys (JList xs) = ''['' @ py_join '', '' (map (json_text sort_keys) xs) @ '']''"
| "json_text sort_keys (JDict kvs) =
     (let texts = map (\<lambda>p. (fst p, json_text sort_keys (snd p))) kvs;
          ordered = (if sort_keys then sort_key fst texts else texts) in
      ''{'' @ py_join '', '' (map (\<lambda>p. json_quote (fst p) @ '': '' @ snd p) ordered) @ ''}'')"

section \<open>Facts\<close>

lemma jget_Inr [res_iff]: "jget v k = Inr w \<longleftrightarrow> (\<exists>kvs. v = JDict kvs \<and> map_of kvs k = Some w)"
  by (cases v) (auto split: option.splits)

lemma jitems_Inr [res_iff]: "jitems v = Inr kvs \<longleftrightarrow> v = JDict kvs"
  by (cases v) auto

lemma jlist_Inr [res_iff]: "jlist v = Inr xs \<longleftrightarrow> v = JList xs"
  by (cases v) auto

lemma jstr_Inr [res_iff]: "jstr v = Inr s \<longleftrightarrow> v = JStr s"
  by (cases v) auto

lemma jint_Inr [res_iff]: "jint v = Inr n \<longleftrightarrow> v = JInt n"
  by (cases v) auto

lemma dict_update_map_of: "map_of (dict_update d e) = map_of d ++ map_of (rev e)"
  by (induction e arbitrary: d) (auto simp: dict_update_def update_conv' map_add_def fun_eq_iff
      split: option.splits)

lemma dict_update_keys: "fst ` set (dict_update d e) = fst ` set d \<union> fst ` set e"
proof -
  have "dom (map_of (dict_update d e)) = dom (map_of d) \<union> dom (map_of (rev e))"
    by (simp add: dict_update_map_of Un_commute)
  then show ?thesis by (simp add: dom_map_of_conv_image_fst)
qed

end
