(* ===== verification/Widgets.thy ===== *)
theory Widgets
  imports Json
begin

text \<open>
  The panel constructors of \<open>scripts/build_openwrt_operations_dashboard.py\<close>, which every dashboard
  generator shares: thresholds, value mappings, queries, transformations and the panels
  themselves, as values of type \<open>json\<close>. A panel is its key, \<open>panel-\<close> and its number, with its
  dictionary. Keyword arguments are the fields of one record \<open>kwargs\<close>; an argument that is not
  passed is \<open>None\<close> there and takes the default of the function that reads it. The names of the
  threshold palettes are a datatype, so asking for one that does not exist cannot be written.
\<close>

section \<open>Keyword arguments\<close>

datatype threshold_key =
  OkBad | Capacity | CapacitySoft | LossPercent | CapacityPercent | LatencySeconds | Freshness
  | Neutral | Unavailable

record kwargs =
  o_legend :: "string option"
  o_thresholds_key :: "threshold_key option"
  o_mappings :: "json list option"
  o_graph :: "bool option"
  o_decimals :: "int option"
  o_color_mode :: "string option"
  o_no_value :: "string option"
  o_stacked :: "bool option"
  o_fill :: "int option"
  o_line_interpolation :: "string option"
  o_overrides :: "json list option"
  o_thresholds_value :: "json option"
  o_legend_calcs :: "string list option"
  o_stack_mode :: "string option"
  o_transformations :: "json list option"
  o_max_value :: "json option"
  o_values :: "bool option"
  o_sort_col :: "string option"
  o_sort_desc :: "bool option"
  o_pie_type :: "string option"
  o_show_value :: "string option"
  o_row_height :: "json option"
  o_scheme :: "string option"
  o_calculate :: "bool option"
  o_y_axis_unit :: "string option"
  o_show_legend :: "bool option"
  o_options :: "item list option"
  o_field_defaults :: "item list option"
  o_links :: "json list option"

definition kw :: kwargs where
  "kw = \<lparr>o_legend = None, o_thresholds_key = None, o_mappings = None, o_graph = None, o_decimals = None,
     o_color_mode = None, o_no_value = None, o_stacked = None, o_fill = None,
     o_line_interpolation = None, o_overrides = None, o_thresholds_value = None,
     o_legend_calcs = None, o_stack_mode = None, o_transformations = None, o_max_value = None,
     o_values = None, o_sort_col = None, o_sort_desc = None, o_pie_type = None,
     o_show_value = None, o_row_height = None, o_scheme = None, o_calculate = None,
     o_y_axis_unit = None, o_show_legend = None, o_options = None, o_field_defaults = None,
     o_links = None\<rparr>"

definition arg :: "'a \<Rightarrow> 'a option \<Rightarrow> 'a" where
  "arg d v = (case v of None \<Rightarrow> d | Some x \<Rightarrow> x)"

section \<open>Constants\<close>

definition thresholds :: "(string \<times> json) list \<Rightarrow> json" where
  \<open>thresholds steps = JDict [(''mode'', JStr ''absolute''), (''steps'', JList
     (map (\<lambda>(color, value). JDict [(''color'', JStr color), (''value'', value)]) steps))]\<close>

fun THRESHOLDS :: "threshold_key \<Rightarrow> json" where
  "THRESHOLDS OkBad = thresholds [(''green'', JInt 0), (''red'', JInt 1)]"
| "THRESHOLDS Capacity = thresholds [(''green'', JInt 0), (''yellow'', JFloat ''0.7''), (''red'', JFloat ''0.9'')]"
| "THRESHOLDS CapacitySoft = thresholds [(''green'', JInt 0), (''yellow'', JFloat ''0.6''), (''red'', JFloat ''0.85'')]"
| "THRESHOLDS LossPercent = thresholds [(''green'', JInt 0), (''yellow'', JInt 1), (''red'', JInt 5)]"
| "THRESHOLDS CapacityPercent = thresholds [(''green'', JInt 0), (''yellow'', JInt 70), (''red'', JInt 90)]"
| "THRESHOLDS LatencySeconds = thresholds [(''green'', JInt 0), (''yellow'', JInt 1), (''red'', JInt 5)]"
| "THRESHOLDS Freshness = thresholds [(''green'', JInt 0), (''yellow'', JInt 660), (''red'', JInt 900)]"
| "THRESHOLDS Neutral = thresholds [(''blue'', JNull)]"
| "THRESHOLDS Unavailable = thresholds [(''gray'', JInt 0), (''blue'', JInt 1)]"

definition PROM_DS :: string where
  \<open>PROM_DS = ''${DS_PROMETHEUS}''\<close>

definition LOKI_DS :: string where
  \<open>LOKI_DS = ''${DS_LOKI}''\<close>

definition PROM_FILTER :: string where
  \<open>PROM_FILTER = ''job="openwrt", router=~"$router"''\<close>

definition LOKI_FILTER :: string where
  \<open>LOKI_FILTER =
     ''job="openwrt-syslog", router=~"$router"''\<close>

definition GREEN :: string where
  \<open>GREEN = ''#1A9E3A''\<close>

definition YELLOW :: string where
  \<open>YELLOW = ''#E0B400''\<close>

definition RED :: string where
  \<open>RED = ''#F2495C''\<close>

definition ORANGE :: string where
  \<open>ORANGE = ''#FF9830''\<close>

definition BLUE :: string where
  \<open>BLUE = ''#5794F2''\<close>

definition GRAY :: string where
  \<open>GRAY = ''#808080''\<close>

definition PURPLE :: string where
  \<open>PURPLE = ''#B877D9''\<close>

definition STATUS_MAPPINGS :: "json list" where
  \<open>STATUS_MAPPINGS =
     [JDict [(''type'', JStr ''value''), (''options'', JDict [(''1'',
     JDict [(''text'', JStr ''Healthy''), (''color'', JStr ''green''), (''index'', JInt 0)])])],
     JDict [(''type'', JStr ''value''), (''options'', JDict [(''0'',
     JDict [(''text'', JStr ''Down''), (''color'', JStr ''red''), (''index'', JInt 1)])])],
     JDict [(''type'', JStr ''special''), (''options'', JDict [(''match'', JStr ''null''),
     (''result'', JDict [(''text'', JStr ''No data''), (''color'', JStr ''gray''),
     (''index'', JInt 2)])])], JDict [(''type'', JStr ''special''), (''options'',
     JDict [(''match'', JStr ''nan''), (''result'', JDict [(''text'', JStr ''n/a''),
     (''color'', JStr ''gray''), (''index'', JInt 3)])])]]\<close>

definition BOOLEAN_OK_MAPPINGS :: "json list" where
  \<open>BOOLEAN_OK_MAPPINGS =
     [JDict [(''type'', JStr ''value''), (''options'', JDict [(''1'',
     JDict [(''text'', JStr ''OK''), (''color'', JStr ''green''), (''index'', JInt 0)])])],
     JDict [(''type'', JStr ''value''), (''options'', JDict [(''0'',
     JDict [(''text'', JStr ''Problem''), (''color'', JStr ''red''), (''index'', JInt 1)])])],
     JDict [(''type'', JStr ''special''), (''options'', JDict [(''match'', JStr ''null''),
     (''result'', JDict [(''text'', JStr ''Unavailable''), (''color'', JStr ''gray''),
     (''index'', JInt 2)])])], JDict [(''type'', JStr ''special''), (''options'',
     JDict [(''match'', JStr ''nan''), (''result'', JDict [(''text'', JStr ''n/a''),
     (''color'', JStr ''gray''), (''index'', JInt 3)])])]]\<close>

definition CHANGE_MAPPINGS :: "json list" where
  \<open>CHANGE_MAPPINGS =
     [JDict [(''type'', JStr ''value''), (''options'', JDict [(''0'',
     JDict [(''text'', JStr ''No change''), (''color'', JStr ''green''), (''index'', JInt 0)])])],
     JDict [(''type'', JStr ''value''), (''options'', JDict [(''1'',
     JDict [(''text'', JStr ''Changed''), (''color'', JStr ''yellow''), (''index'', JInt 1)])])],
     JDict [(''type'', JStr ''special''), (''options'', JDict [(''match'', JStr ''null''),
     (''result'', JDict [(''text'', JStr ''Unavailable''), (''color'', JStr ''gray''),
     (''index'', JInt 2)])])]]\<close>

definition AVAILABILITY_MAPPINGS :: "json list" where
  \<open>AVAILABILITY_MAPPINGS =
     [JDict [(''type'', JStr ''value''), (''options'', JDict [(''0'',
     JDict [(''text'', JStr ''Not collected''), (''color'', JStr ''gray''),
     (''index'', JInt 0)])])], JDict [(''type'', JStr ''value''), (''options'', JDict [(''1'',
     JDict [(''text'', JStr ''Collected''), (''color'', JStr ''blue''), (''index'', JInt 1)])])],
     JDict [(''type'', JStr ''special''), (''options'', JDict [(''match'', JStr ''null''),
     (''result'', JDict [(''text'', JStr ''Not collected''), (''color'', JStr ''gray''),
     (''index'', JInt 2)])])]]\<close>

definition DEVICE_STATE_MAPPINGS :: "json list" where
  \<open>DEVICE_STATE_MAPPINGS =
     [JDict [(''type'', JStr ''value''), (''options'', JDict [(''1'',
     JDict [(''text'', JStr ''Online''), (''color'', JStr ''green''), (''index'', JInt 0)])])],
     JDict [(''type'', JStr ''value''), (''options'', JDict [(''0'',
     JDict [(''text'', JStr ''Offline''), (''color'', JStr ''gray''), (''index'', JInt 1)])])]]\<close>

section \<open>Overrides\<close>

definition color_override ::
  "string \<Rightarrow> string \<Rightarrow> json" where
  \<open>color_override name color =
     JDict [(''matcher'', JDict [(''id'', JStr ''byName''), (''options'', JStr name)]),
     (''properties'', JList [JDict [(''id'', JStr ''color''), (''value'',
     JDict [(''mode'', JStr ''fixed''), (''fixedColor'', JStr color)])]])]\<close>

definition regexp_color_override ::
  "string \<Rightarrow> string \<Rightarrow> json" where
  \<open>regexp_color_override pattern color =
     JDict [(''matcher'', JDict [(''id'', JStr ''byRegexp''), (''options'', JStr pattern)]),
     (''properties'', JList [JDict [(''id'', JStr ''color''), (''value'',
     JDict [(''mode'', JStr ''fixed''), (''fixedColor'', JStr color)])]])]\<close>

definition COMMON_OVERRIDES :: "json list" where
  \<open>COMMON_OVERRIDES =
     [regexp_color_override ''/RX|Download|Received|Online|Healthy|Success|OK/i'' GREEN,
     regexp_color_override ''/TX|Upload|Transmit/i'' BLUE, regexp_color_override (''/error|'' @
     [BS] @ ''bdrop|fail|'' @ [BS] @ ''bdown'' @ [BS] @ ''b|offline|critical|problem/i'') RED,
     regexp_color_override ''/warn|changed|loss/i'' ORANGE, regexp_color_override
     ''/limit|maximum/i'' YELLOW]\<close>

section \<open>Queries and transformations\<close>

definition prom_query ::
  "string \<Rightarrow> string \<Rightarrow> string \<Rightarrow> string \<Rightarrow> bool \<Rightarrow> json" where
  \<open>prom_query expr legend ref fmt instant =
    (let spec = [(''expr'', JStr expr), (''legendFormat'', JStr legend)] in
     let spec = spec @ (if fmt \<noteq> ''time_series'' then [(''format'', JStr fmt)] else []) in
     let spec = spec @ (if instant then [(''instant'', JBool True)] else []) in
     JDict [(''kind'', JStr ''PanelQuery''), (''spec'', JDict [(''refId'', JStr ref),
       (''hidden'', JBool False), (''query'', JDict [(''kind'', JStr ''DataQuery''),
       (''group'', JStr ''prometheus''), (''version'', JStr ''v0''),
       (''datasource'', JDict [(''name'', JStr PROM_DS)]), (''spec'', JDict spec)])])])\<close>

definition loki_query ::
  "string \<Rightarrow> string \<Rightarrow> string \<Rightarrow> json" where
  \<open>loki_query expr ref query_type =
     JDict [(''kind'', JStr ''PanelQuery''), (''spec'', JDict [(''refId'', JStr ref),
     (''hidden'', JBool False), (''query'', JDict [(''kind'', JStr ''DataQuery''),
     (''group'', JStr ''loki''), (''version'', JStr ''v0''),
     (''datasource'', JDict [(''name'', JStr LOKI_DS)]), (''spec'', JDict [(''expr'', JStr expr),
     (''queryType'', JStr query_type)])])])]\<close>

definition tf ::
  "string \<Rightarrow> item list \<Rightarrow> json" where
  \<open>tf kind options =
     JDict [(''kind'', JStr kind), (''spec'', JDict [(''id'', JStr kind),
     (''options'', JDict options)])]\<close>

definition organize ::
  "string list \<Rightarrow> (string \<times> string) list \<Rightarrow> (string \<times> int) list \<Rightarrow> json" where
  \<open>organize exclude rename index =
     tf ''organize''
     [(''excludeByName'', JDict (map (\<lambda>name. (name, JBool True)) exclude)),
     (''renameByName'', JDict (map (\<lambda>(k, v). (k, JStr v)) rename)),
     (''indexByName'', JDict (map (\<lambda>(k, v). (k, JInt v)) index))]\<close>

definition sort_by ::
  "string \<Rightarrow> bool \<Rightarrow> json" where
  \<open>sort_by field desc =
     tf ''sortBy'' [(''fields'', JList [JDict [(''displayName'', JStr field),
     (''desc'', JBool desc)]])]\<close>

definition limit ::
  "int \<Rightarrow> json" where
  \<open>limit n =
     tf ''limit'' [(''limitField'', JInt n)]\<close>

definition convert_time ::
  "string \<Rightarrow> json" where
  \<open>convert_time field =
     tf ''convertFieldType'' [(''conversions'', JList [JDict [(''fieldName'', JStr field),
     (''destinationType'', JStr ''time'')]])]\<close>

definition calculate ::
  "string \<Rightarrow> string \<Rightarrow> string \<Rightarrow> string \<Rightarrow> bool \<Rightarrow> json" where
  \<open>calculate alias left right operator replace =
     tf ''calculateField'' [(''mode'', JStr ''binary''), (''alias'', JStr alias), (''binary'',
     JDict [(''left'', JStr left), (''right'', JStr right), (''operator'', JStr operator)]),
     (''replace'', JBool replace)]\<close>

definition data_group ::
  "json list \<Rightarrow> json list \<Rightarrow> json" where
  \<open>data_group queries transformations =
     JDict [(''kind'', JStr ''QueryGroup''), (''spec'', JDict [(''queries'', JList queries),
     (''transformations'', JList transformations), (''queryOptions'', JDict [])])]\<close>

section \<open>Panels\<close>

definition panel ::
  "int \<Rightarrow> string \<Rightarrow> string \<Rightarrow> json list \<Rightarrow> string \<Rightarrow> string \<Rightarrow> kwargs \<Rightarrow> item" where
  \<open>panel pid title viz queries unit desc a =
    (let defaults = [(''unit'', JStr unit), (''mappings'', JList []),
       (''thresholds'', THRESHOLDS Neutral), (''color'', JDict [(''mode'',
       (if viz \<in> {''stat'', ''gauge'', ''bargauge''} then JStr ''thresholds''
       else JStr ''palette-classic-by-name''))])] in
     let defaults = dict_update defaults (arg [] (o_field_defaults a)) in
     let key = (''panel-'' @ show_int pid) in
     let element = [(''kind'', JStr ''Panel''), (''spec'', JDict [(''id'', JInt pid),
       (''title'', JStr title), (''description'', JStr desc),
       (''links'', JList (arg [] (o_links a))), (''data'', data_group queries
       (arg [] (o_transformations a))), (''vizConfig'', JDict [(''kind'', JStr ''VizConfig''),
       (''group'', JStr viz), (''version'', JStr ''''), (''spec'',
       JDict [(''options'', JDict (arg [] (o_options a))), (''fieldConfig'',
       JDict [(''defaults'', JDict defaults),
       (''overrides'', JList (arg [] (o_overrides a)))])])])])] in
     (key, JDict element))\<close>

definition stat ::
  "int \<Rightarrow> string \<Rightarrow> string \<Rightarrow> string \<Rightarrow> string \<Rightarrow> kwargs \<Rightarrow> item" where
  \<open>stat pid title expr unit desc a =
    (let defaults = [(''thresholds'', THRESHOLDS (arg Neutral (o_thresholds_key a))),
       (''mappings'', JList (arg [] (o_mappings a))),
       (''color'', JDict [(''mode'', JStr ''thresholds'')]),
       (''noValue'', JStr (arg ''Unavailable'' (o_no_value a)))] in
     let defaults = defaults @ (if o_decimals a \<noteq> None then [(''decimals'', JInt (arg 0 (o_decimals a)))] else []) in
     panel pid title ''stat'' [prom_query expr (arg '''' (o_legend a)) ''A'' ''time_series''
       False] unit desc
       (kw\<lparr>o_options := Some [(''colorMode'', JStr (arg ''background_solid'' (o_color_mode a))),
       (''graphMode'', (if arg False (o_graph a) then JStr ''area'' else JStr ''none'')),
       (''justifyMode'', JStr ''center''), (''orientation'', JStr ''auto''), (''reduceOptions'',
       JDict [(''calcs'', JList [JStr ''lastNotNull'']), (''fields'', JStr ''''),
       (''values'', JBool False)]), (''textMode'', JStr ''auto''), (''wideLayout'', JBool True)],
       o_field_defaults := Some defaults\<rparr>))\<close>

definition loki_stat ::
  "int \<Rightarrow> string \<Rightarrow> string \<Rightarrow> string \<Rightarrow> kwargs \<Rightarrow> item" where
  \<open>loki_stat pid title expr desc a =
     panel pid title ''stat'' [loki_query expr ''A'' ''range''] ''none'' desc
     (kw\<lparr>o_options := Some [(''colorMode'', JStr ''background_solid''),
     (''graphMode'', JStr ''none''), (''justifyMode'', JStr ''center''),
     (''orientation'', JStr ''auto''), (''reduceOptions'',
     JDict [(''calcs'', JList [JStr ''lastNotNull'']), (''fields'', JStr ''''),
     (''values'', JBool False)]), (''textMode'', JStr ''auto''), (''wideLayout'', JBool True)],
     o_field_defaults := Some [(''thresholds'', THRESHOLDS (arg Neutral (o_thresholds_key a))),
     (''mappings'', JList (arg [] (o_mappings a))), (''noValue'', JStr ''0'')]\<rparr>)\<close>

definition timeseries ::
  "int \<Rightarrow> string \<Rightarrow> json list \<Rightarrow> string \<Rightarrow> string \<Rightarrow> kwargs \<Rightarrow> item" where
  \<open>timeseries pid title queries unit desc a =
    (let defaults = [(''color'', JDict [(''mode'', JStr ''palette-classic-by-name'')]),
       (''custom'', JDict [(''drawStyle'', JStr ''line''),
       (''lineInterpolation'', JStr (arg ''linear'' (o_line_interpolation a))),
       (''lineWidth'', JInt 2), (''fillOpacity'', JInt (arg 15 (o_fill a))),
       (''gradientMode'', JStr ''opacity''), (''showPoints'', JStr ''never''),
       (''spanNulls'', JBool False), (''axisSoftMin'', JInt 0), (''stacking'',
       JDict [(''group'', JStr ''A''), (''mode'',
       (if arg False (o_stacked a) then JStr (arg ''normal'' (o_stack_mode a))
       else JStr ''none''))]), (''thresholdsStyle'', JDict [(''mode'',
       (if o_thresholds_value a \<noteq> None then JStr ''dashed+area'' else JStr ''off''))]),
       (''scaleDistribution'', JDict [(''type'', JStr ''linear'')]), (''hideFrom'',
       JDict [(''legend'', JBool False), (''tooltip'', JBool False), (''viz'', JBool False)])]),
       (''thresholds'', arg (THRESHOLDS Neutral) (o_thresholds_value a))] in
     panel pid title ''timeseries'' queries unit desc (kw\<lparr>o_options := Some [(''legend'',
       JDict [(''calcs'', JList (map JStr (arg [''lastNotNull'', ''max''] (o_legend_calcs a)))),
       (''displayMode'', JStr ''table''), (''placement'', JStr ''bottom''),
       (''showLegend'', JBool True)]), (''tooltip'', JDict [(''hideZeros'', JBool False),
       (''mode'', JStr ''multi''), (''sort'', JStr ''desc'')])],
       o_field_defaults := Some defaults, o_overrides := Some (arg [] (o_overrides a) @
       COMMON_OVERRIDES), o_transformations := Some (arg [] (o_transformations a))\<rparr>))\<close>

definition bargauge ::
  "int \<Rightarrow> string \<Rightarrow> json list \<Rightarrow> string \<Rightarrow> string \<Rightarrow> kwargs \<Rightarrow> item" where
  \<open>bargauge pid title queries unit desc a =
    (let defaults = [(''color'', JDict [(''mode'', JStr (arg ''thresholds'' (o_color_mode a)))]),
       (''mappings'', JList (arg [] (o_mappings a))),
       (''thresholds'', THRESHOLDS (arg Neutral (o_thresholds_key a))), (''min'', JInt 0)] in
     let defaults = defaults @ (if o_max_value a \<noteq> None then [(''max'', arg JNull (o_max_value a))] else []) in
     panel pid title ''bargauge'' queries unit desc
       (kw\<lparr>o_options := Some [(''displayMode'', JStr ''gradient''),
       (''orientation'', JStr ''horizontal''), (''namePlacement'', JStr ''auto''),
       (''valueMode'', JStr ''color''), (''showUnfilled'', JBool True),
       (''sizing'', JStr ''auto''), (''minVizHeight'', JInt 16), (''maxVizHeight'', JInt 300),
       (''minVizWidth'', JInt 8), (''reduceOptions'',
       JDict [(''calcs'', JList [JStr ''lastNotNull'']), (''fields'', JStr ''''),
       (''values'', JBool (arg False (o_values a)))]), (''legend'', JDict [(''calcs'', JList []),
       (''displayMode'', JStr ''list''), (''placement'', JStr ''bottom''),
       (''showLegend'', JBool False)])], o_field_defaults := Some defaults,
       o_overrides := Some (arg [] (o_overrides a)),
       o_transformations := Some (arg [] (o_transformations a))\<rparr>))\<close>

definition gauge ::
  "int \<Rightarrow> string \<Rightarrow> string \<Rightarrow> string \<Rightarrow> kwargs \<Rightarrow> item" where
  \<open>gauge pid title expr desc a =
     panel pid title ''gauge'' [prom_query expr '''' ''A'' ''time_series'' False] ''percentunit''
     desc (kw\<lparr>o_options := Some [(''minVizHeight'', JInt 75), (''minVizWidth'', JInt 75),
     (''orientation'', JStr ''auto''), (''reduceOptions'',
     JDict [(''calcs'', JList [JStr ''lastNotNull'']), (''fields'', JStr ''''),
     (''values'', JBool False)]), (''showThresholdLabels'', JBool False),
     (''showThresholdMarkers'', JBool True), (''sizing'', JStr ''auto'')],
     o_field_defaults := Some [(''min'', JInt 0), (''max'', JInt 1),
     (''thresholds'', THRESHOLDS (arg Capacity (o_thresholds_key a)))]\<rparr>)\<close>

definition table ::
  "int \<Rightarrow> string \<Rightarrow> json list \<Rightarrow> string \<Rightarrow> kwargs \<Rightarrow> item" where
  \<open>table pid title queries desc a =
     panel pid title ''table'' queries ''none'' desc
     (kw\<lparr>o_options := Some [(''cellHeight'', JStr ''sm''), (''showHeader'', JBool True),
     (''footer'', JDict [(''show'', JBool False), (''reducer'', JList [JStr ''sum'']),
     (''fields'', JStr '''')]), (''sortBy'',
     (if arg '''' (o_sort_col a) \<noteq> [] then JList [JDict [(''desc'', JBool (arg True (o_sort_desc a))),
     (''displayName'', JStr (arg '''' (o_sort_col a)))]] else JList []))],
     o_field_defaults := Some [(''custom'', JDict [(''align'', JStr ''auto''),
     (''cellOptions'', JDict [(''type'', JStr ''auto'')]), (''filterable'', JBool True),
     (''inspect'', JBool False)]), (''thresholds'', THRESHOLDS Neutral)],
     o_overrides := Some (arg [] (o_overrides a)),
     o_transformations := Some (arg [] (o_transformations a))\<rparr>)\<close>

definition piechart ::
  "int \<Rightarrow> string \<Rightarrow> json list \<Rightarrow> string \<Rightarrow> string \<Rightarrow> kwargs \<Rightarrow> item" where
  \<open>piechart pid title queries unit desc a =
     panel pid title ''piechart'' queries unit desc
     (kw\<lparr>o_options := Some [(''pieType'', JStr (arg ''donut'' (o_pie_type a))),
     (''displayLabels'', JList [JStr ''percent'']), (''legend'',
     JDict [(''displayMode'', JStr ''table''), (''placement'', JStr ''right''),
     (''showLegend'', JBool True), (''values'', JList [JStr ''value'', JStr ''percent''])]),
     (''reduceOptions'', JDict [(''calcs'', JList [JStr ''lastNotNull'']),
     (''fields'', JStr ''''), (''values'', JBool (arg False (o_values a)))]), (''tooltip'',
     JDict [(''mode'', JStr ''single''), (''sort'', JStr ''desc''),
     (''hideZeros'', JBool True)])],
     o_field_defaults := Some [(''color'', JDict [(''mode'', JStr ''palette-classic'')])],
     o_overrides := Some (arg [] (o_overrides a)),
     o_transformations := Some (arg [] (o_transformations a))\<rparr>)\<close>

definition state_timeline ::
  "int \<Rightarrow> string \<Rightarrow> json list \<Rightarrow> string \<Rightarrow> string \<Rightarrow> kwargs \<Rightarrow> item" where
  \<open>state_timeline pid title queries unit desc a =
     panel pid title ''state-timeline'' queries unit desc
     (kw\<lparr>o_options := Some [(''alignValue'', JStr ''left''), (''mergeValues'', JBool True),
     (''rowHeight'', arg (JFloat ''0.8'') (o_row_height a)),
     (''showValue'', JStr (arg ''auto'' (o_show_value a))), (''perPage'', JInt 20), (''legend'',
     JDict [(''displayMode'', JStr ''list''), (''placement'', JStr ''bottom''),
     (''showLegend'', JBool True)]), (''tooltip'', JDict [(''hideZeros'', JBool False),
     (''mode'', JStr ''single''), (''sort'', JStr ''none'')])],
     o_field_defaults := Some [(''color'', JDict [(''mode'', JStr (arg ''thresholds'' (o_color_mode a)))]),
     (''custom'', JDict [(''fillOpacity'', JInt 70), (''lineWidth'', JInt 0),
     (''spanNulls'', JBool False), (''hideFrom'', JDict [(''legend'', JBool False),
     (''tooltip'', JBool False), (''viz'', JBool False)])]),
     (''mappings'', JList (arg [] (o_mappings a))),
     (''thresholds'', THRESHOLDS (arg Neutral (o_thresholds_key a)))],
     o_overrides := Some (arg [] (o_overrides a)),
     o_transformations := Some (arg [] (o_transformations a))\<rparr>)\<close>

definition heatmap ::
  "int \<Rightarrow> string \<Rightarrow> json list \<Rightarrow> string \<Rightarrow> string \<Rightarrow> kwargs \<Rightarrow> item" where
  \<open>heatmap pid title queries unit desc a =
     panel pid title ''heatmap'' queries unit desc
     (kw\<lparr>o_options := Some [(''calculate'', JBool (arg False (o_calculate a))),
     (''cellGap'', JInt 1), (''cellValues'', JDict [(''unit'', JStr unit)]), (''color'',
     JDict [(''mode'', JStr ''scheme''), (''scheme'', JStr (arg ''Turbo'' (o_scheme a))),
     (''fill'', JStr BLUE), (''exponent'', JFloat ''0.5''), (''steps'', JInt 64),
     (''reverse'', JBool False)]),
     (''exemplars'', JDict [(''color'', JStr ''rgba(255,0,255,0.7)'')]),
     (''filterValues'', JDict [(''le'', JFloat ''1e-09'')]),
     (''legend'', JDict [(''show'', JBool (arg True (o_show_legend a)))]),
     (''rowsFrame'', JDict [(''layout'', JStr ''auto'')]), (''showValue'', JStr ''never''),
     (''tooltip'', JDict [(''mode'', JStr ''single''), (''showColorScale'', JBool False),
     (''yHistogram'', JBool False)]), (''yAxis'', JDict [(''axisPlacement'', JStr ''left''),
     (''reverse'', JBool False), (''unit'', JStr (arg ''none'' (o_y_axis_unit a)))])],
     o_field_defaults := Some [(''custom'', JDict [(''hideFrom'',
     JDict [(''legend'', JBool False), (''tooltip'', JBool False), (''viz'', JBool False)]),
     (''scaleDistribution'', JDict [(''type'', JStr ''linear'')])])],
     o_transformations := Some (arg [] (o_transformations a))\<rparr>)\<close>

definition logs_panel ::
  "int \<Rightarrow> string \<Rightarrow> string \<Rightarrow> string \<Rightarrow> item" where
  \<open>logs_panel pid title expr desc =
     panel pid title ''logs'' [loki_query expr ''A'' ''range''] ''none'' desc
     (kw\<lparr>o_options := Some [(''dedupStrategy'', JStr ''none''),
     (''enableLogDetails'', JBool True), (''prettifyLogMessage'', JBool False),
     (''showCommonLabels'', JBool False), (''showLabels'', JBool False),
     (''showTime'', JBool True), (''sortOrder'', JStr ''Descending''),
     (''wrapLogMessage'', JBool True)],
     o_field_defaults := Some [(''thresholds'', THRESHOLDS Neutral)]\<rparr>)\<close>

definition text_panel ::
  "int \<Rightarrow> string \<Rightarrow> string \<Rightarrow> item" where
  \<open>text_panel pid title content =
    (let key = (''panel-'' @ show_int pid) in
     (key, JDict [(''kind'', JStr ''Panel''), (''spec'', JDict [(''id'', JInt pid),
       (''title'', JStr title), (''description'', JStr ''''), (''links'', JList []), (''data'',
       data_group [] []), (''vizConfig'', JDict [(''kind'', JStr ''VizConfig''),
       (''group'', JStr ''text''), (''version'', JStr ''''), (''spec'', JDict [(''options'',
       JDict [(''mode'', JStr ''markdown''), (''content'', JStr content), (''code'',
       JDict [(''language'', JStr ''plaintext''), (''showLineNumbers'', JBool False),
       (''showMiniMap'', JBool False)])]), (''fieldConfig'', JDict [(''defaults'', JDict []),
       (''overrides'', JList [])])])])])]))\<close>

section \<open>Wi-Fi expressions\<close>

definition clean_table_transforms ::
  "(string \<times> string) list \<Rightarrow> string list \<Rightarrow> json list" where
  \<open>clean_table_transforms rename keep =
    (let noise = [''Time'', ''__name__'', ''Value'', ''cluster'', ''job'', ''router'',
       ''endpoint'', ''instance'', ''namespace'', ''prometheus'', ''prometheus_replica'',
       ''service''] in
     [organize noise rename (zip keep (map int [0..<length keep]))])\<close>

definition wifi_station_label_expr ::
  "string \<Rightarrow> string" where
  \<open>wifi_station_label_expr expr =
     (''label_replace(label_replace('' @ expr @
     '', "station", "$1", "mac", "(.+)"), "vif", "$1", "ifname", "(.+)")'')\<close>

definition wifi_station_fallback_expr ::
  "string \<Rightarrow> string \<Rightarrow> string" where
  \<open>wifi_station_fallback_expr hostapd_metric wifi_metric =
    (let hostapd = (hostapd_metric @ ''{'' @ PROM_FILTER @ ''}'') in
     let wifi = wifi_station_label_expr (wifi_metric @ ''{'' @ PROM_FILTER @ ''}'') in
     (hostapd @ '' or ('' @ wifi @ '' unless on(job, router) '' @ hostapd @ '')''))\<close>

definition wifi_station_rate_bps_expr ::
  "string \<Rightarrow> string \<Rightarrow> string \<Rightarrow> string" where
  \<open>wifi_station_rate_bps_expr hostapd_metric wifi_bytes_metric wifi_kbits_metric =
    (let hostapd = (''rate('' @ hostapd_metric @ ''{'' @ PROM_FILTER @
       ''}[$__rate_interval]) * 8'') in
     let wifi_bytes = wifi_station_label_expr (''rate('' @ wifi_bytes_metric @ ''{'' @
       PROM_FILTER @ ''}[$__rate_interval]) * 8'') in
     let wifi_kbits = wifi_station_label_expr (wifi_kbits_metric @ ''{'' @ PROM_FILTER @
       ''} * 1000'') in
     let byte_sources = (''('' @ hostapd @ '' or '' @ wifi_bytes @ '')'') in
     (hostapd @ '' or ('' @ wifi_bytes @ '' unless on(job, router) '' @ hostapd @ '') or ('' @
       wifi_kbits @ '' unless on(job, router) '' @ byte_sources @ '')''))\<close>

definition WIFI_SIGNAL_RAW :: string where
  \<open>WIFI_SIGNAL_RAW =
     wifi_station_fallback_expr ''hostapd_station_signal_dbm'' ''wifi_station_signal_dbm''\<close>

definition WIFI_SIGNAL :: string where
  \<open>WIFI_SIGNAL =
     (''max by(station, vif) ('' @ WIFI_SIGNAL_RAW @ '')'')\<close>

definition WIFI_RX_BPS_RAW :: string where
  \<open>WIFI_RX_BPS_RAW =
     wifi_station_rate_bps_expr ''hostapd_station_receive_bytes_total''
     ''wifi_station_receive_bytes_total'' ''wifi_station_receive_kilobits_per_second''\<close>

definition WIFI_RX_BPS :: string where
  \<open>WIFI_RX_BPS =
     (''sum by(station, vif) ('' @ WIFI_RX_BPS_RAW @ '')'')\<close>

definition WIFI_TX_BPS_RAW :: string where
  \<open>WIFI_TX_BPS_RAW =
     wifi_station_rate_bps_expr ''hostapd_station_transmit_bytes_total''
     ''wifi_station_transmit_bytes_total'' ''wifi_station_transmit_kilobits_per_second''\<close>

definition WIFI_TX_BPS :: string where
  \<open>WIFI_TX_BPS =
     (''sum by(station, vif) ('' @ WIFI_TX_BPS_RAW @ '')'')\<close>

definition WIFI_INACTIVE_RAW :: string where
  \<open>WIFI_INACTIVE_RAW =
     (''hostapd_station_inactive_seconds{'' @ PROM_FILTER @ ''} or ('' @ (wifi_station_label_expr
     (''wifi_station_inactive_milliseconds{'' @ PROM_FILTER @ ''} / 1000'')) @
     '' unless on(job, router) hostapd_station_inactive_seconds{'' @ PROM_FILTER @ ''})'')\<close>

definition WIFI_INACTIVE :: string where
  \<open>WIFI_INACTIVE =
     (''max by(station, vif) ('' @ WIFI_INACTIVE_RAW @ '')'')\<close>

definition WIFI_CONNECTED_RAW :: string where
  \<open>WIFI_CONNECTED_RAW =
     (''hostapd_station_connected_seconds_total{'' @ PROM_FILTER @
     ''} or (openwrt_wifi_station_connected_seconds{'' @ PROM_FILTER @
     ''} unless on(job, router) hostapd_station_connected_seconds_total{'' @ PROM_FILTER @ ''})'')\<close>

definition WIFI_CONNECTED :: string where
  \<open>WIFI_CONNECTED =
     (''max by(station, vif) ('' @ WIFI_CONNECTED_RAW @ '')'')\<close>

definition WIFI_CLIENT_COUNT :: string where
  \<open>WIFI_CLIENT_COUNT =
     (''sum by(vif) (count by(job, router, vif) (hostapd_station_signal_dbm{'' @ PROM_FILTER @
     ''}) or (label_replace(wifi_stations{'' @ PROM_FILTER @
     ''}, "vif", "$1", "ifname", "(.+)") unless on(job, router) hostapd_station_signal_dbm{'' @
     PROM_FILTER @ ''}))'')\<close>

definition CRON_CMD_FILTER :: string where
  \<open>CRON_CMD_FILTER =
     ''!~ "^USER [^ ]+ pid [0-9]+ cmd "''\<close>

section \<open>Variables\<close>

definition datasource_var ::
  "string \<Rightarrow> string \<Rightarrow> string \<Rightarrow> string \<Rightarrow> json" where
  \<open>datasource_var name label plugin_id current =
     JDict [(''kind'', JStr ''DatasourceVariable''), (''spec'', JDict [(''name'', JStr name),
     (''label'', JStr label), (''pluginId'', JStr plugin_id),
     (''refresh'', JStr ''onDashboardLoad''), (''regex'', JStr ''''), (''current'',
     JDict [(''text'', JStr current), (''value'', JStr current)]), (''options'', JList []),
     (''multi'', JBool False), (''includeAll'', JBool False), (''hide'', JStr ''dontHide''),
     (''skipUrlSync'', JBool False), (''allowCustomValue'', JBool True)])]\<close>

definition query_var ::
  "string \<Rightarrow> string \<Rightarrow> string \<Rightarrow> string \<Rightarrow> bool \<Rightarrow> bool \<Rightarrow> string \<Rightarrow> json" where
  \<open>query_var name label query current include_all multi all_value =
     JDict [(''kind'', JStr ''QueryVariable''), (''spec'', JDict [(''name'', JStr name),
     (''label'', JStr label), (''current'',
     (if include_all \<and> current = ''All'' then JDict [(''text'', JList [JStr ''All'']),
     (''value'', JList [JStr ''$__all''])] else JDict [(''text'', JStr current),
     (''value'', JStr current)])), (''hide'', JStr ''dontHide''),
     (''refresh'', JStr ''onDashboardLoad''), (''skipUrlSync'', JBool False), (''query'',
     JDict [(''kind'', JStr ''DataQuery''), (''group'', JStr ''prometheus''),
     (''version'', JStr ''v0''), (''datasource'', JDict [(''name'', JStr PROM_DS)]), (''spec'',
     JDict [(''query'', JStr query), (''refId'', JStr ''Q'')])]), (''regex'', JStr ''''),
     (''sort'', JStr ''naturalAsc''), (''definition'', JStr query), (''options'', JList []),
     (''multi'', JBool multi), (''includeAll'', JBool include_all), (''allValue'',
     (if include_all then JStr all_value else JStr '''')), (''allowCustomValue'', JBool True)])]\<close>

end
