(* ===== verification/Builder.thy ===== *)
theory Builder
  imports Widgets
begin

text \<open>
  \<open>DashboardBuilder\<close> and the checks every \<open>validate_dashboard\<close> of the generators makes: references
  against elements, panel numbers against keys, rectangles on the 24-column grid, template
  variables. A generator lists, for each tab, panels with their rectangle; \<open>add\<close> appends the panel
  to the shared dictionary of elements and a grid item to the tab, and raises on a key that is
  already there. The checks are the code's loops, assertion by assertion, with its messages.
\<close>

section \<open>The builder\<close>

text \<open>A panel and its \<open>x\<close>, \<open>y\<close>, width and height: the arguments of one \<open>add\<close>.\<close>

type_synonym placement = "item \<times> int \<times> int \<times> int \<times> int"

definition grid_item :: "string \<Rightarrow> int \<Rightarrow> int \<Rightarrow> int \<Rightarrow> int \<Rightarrow> json" where
  "grid_item key x y w h =
     JDict [(''kind'', JStr ''GridLayoutItem''),
            (''spec'', JDict [(''x'', JInt x), (''y'', JInt y), (''width'', JInt w), (''height'', JInt h),
               (''element'', JDict [(''kind'', JStr ''ElementReference''), (''name'', JStr key)])])]"

fun add_panel :: "item list \<times> json list \<Rightarrow> placement \<Rightarrow> (item list \<times> json list) res" where
  "add_panel (elements, tab) ((key, element), x, y, w, h) =
     (if key \<in> fst ` set elements then Inl (AssertionError (''duplicate element key: '' @ key))
      else Inr (elements @ [(key, element)], tab @ [grid_item key x y w h]))"

definition tab_json :: "string \<Rightarrow> json list \<Rightarrow> json" where
  "tab_json title items =
     JDict [(''kind'', JStr ''TabsLayoutTab''),
            (''spec'', JDict [(''title'', JStr title),
               (''layout'', JDict [(''kind'', JStr ''RowsLayout''),
                  (''spec'', JDict [(''rows'', JList [JDict [(''kind'', JStr ''RowsLayoutRow''),
                     (''spec'', JDict [(''title'', JStr title), (''collapse'', JBool False),
                        (''hideHeader'', JBool True),
                        (''layout'', JDict [(''kind'', JStr ''GridLayout''),
                           (''spec'', JDict [(''items'', JList items)])])])]])])])])]"

text \<open>One tab: every \<open>add\<close> of its panels, then \<open>tabs.append(b.tab(title, items))\<close>.\<close>

fun build_tab ::
  "item list \<times> json list \<Rightarrow> string \<times> placement list \<Rightarrow> (item list \<times> json list) res" where
  "build_tab (elements, tabs) (title, ps) =
     bindR (foldR add_panel (elements, []) ps) (\<lambda>(elements', items).
       Inr (elements', tabs @ [tab_json title items]))"

definition build_tabs :: "(string \<times> placement list) list \<Rightarrow> (item list \<times> json list) res" where
  "build_tabs tabs = foldR build_tab ([], []) tabs"

definition layout_json :: "json list \<Rightarrow> json" where
  "layout_json tabs = JDict [(''kind'', JStr ''TabsLayout''), (''spec'', JDict [(''tabs'', JList tabs)])]"

section \<open>Checking references\<close>

definition py_repr_list :: "string list \<Rightarrow> string" where
  "py_repr_list xs = ''['' @ py_join '', '' (map py_repr xs) @ '']''"

definition check_refs :: "json \<Rightarrow> json \<Rightarrow> unit res" where
  "check_refs layout elements =
     (let refs = layout_refs layout in
      bindR (ensure (set refs = set (jkeys elements))
        (AssertionError (''orphan/missing refs: refs='' @ show_nat (length refs) @ '' elements='' @
           show_nat (length (jkeys elements))))) (\<lambda>_.
      let duplicate_refs = sort (remdups (filter (\<lambda>r. 1 < count_list refs r) refs)) in
      ensure (duplicate_refs = [])
        (AssertionError (''duplicate layout refs: '' @ py_repr_list duplicate_refs))))"

section \<open>Checking the grid\<close>

text \<open>The rectangle of an item: left, top, right, bottom and the name of its panel.\<close>

type_synonym rect = "int \<times> int \<times> int \<times> int \<times> string"

fun overlaps :: "rect \<Rightarrow> rect \<Rightarrow> bool" where
  "overlaps (a0, a1, a2, a3, _) (b0, b1, b2, b3, _) = (a0 < b2 \<and> b0 < a2 \<and> a1 < b3 \<and> b1 < a3)"

definition rect_name :: "rect \<Rightarrow> string" where
  "rect_name r = snd (snd (snd (snd r)))"

definition read_item :: "json \<Rightarrow> (int \<times> int \<times> int \<times> int \<times> string) res" where
  "read_item it =
     bindR (jget it ''spec'') (\<lambda>spec.
     bindR (bindR (jget spec ''x'') jint) (\<lambda>x. bindR (bindR (jget spec ''y'') jint) (\<lambda>y.
     bindR (bindR (jget spec ''width'') jint) (\<lambda>w. bindR (bindR (jget spec ''height'') jint) (\<lambda>h.
     bindR (bindR (jpath spec [''element'', ''name'']) jstr) (\<lambda>name. Inr (x, y, w, h, name)))))))"

definition check_item :: "string \<Rightarrow> rect list \<Rightarrow> json \<Rightarrow> rect list res" where
  "check_item tab_title rects it =
     bindR (read_item it) (\<lambda>(x, y, w, h, name).
     bindR (ensure (0 \<le> x \<and> x \<le> 23)
       (AssertionError (tab_title @ '' '' @ name @ '' invalid x='' @ show_int x))) (\<lambda>_.
     bindR (ensure (y \<ge> 0)
       (AssertionError (tab_title @ '' '' @ name @ '' invalid y='' @ show_int y))) (\<lambda>_.
     bindR (ensure (1 \<le> w \<and> w \<le> 24 \<and> h > 0)
       (AssertionError (tab_title @ '' '' @ name @ '' invalid size '' @ show_int w @ ''x'' @ show_int h))) (\<lambda>_.
     bindR (ensure (x + w \<le> 24)
       (AssertionError (tab_title @ '' '' @ name @ '' overflows 24-col grid''))) (\<lambda>_.
     let rect = (x, y, x + w, y + h, name) in
     (case find (overlaps rect) rects of
        Some other \<Rightarrow> Inl (AssertionError
          (tab_title @ '' overlap: '' @ name @ '' with '' @ rect_name other))
      | None \<Rightarrow> Inr (rects @ [rect])))))))"

fun rows_items :: "json list \<Rightarrow> json list res" where
  "rows_items [] = Inr []"
| "rows_items (row # rows) =
     bindR (bindR (jpath row [''spec'', ''layout'', ''spec'', ''items'']) jlist) (\<lambda>items.
     bindR (rows_items rows) (\<lambda>rest. Inr (items @ rest)))"

definition tab_items :: "json \<Rightarrow> (string \<times> json list) res" where
  "tab_items tab =
     bindR (bindR (jpath tab [''spec'', ''title'']) jstr) (\<lambda>title.
     bindR (bindR (jpath tab [''spec'', ''layout'', ''spec'', ''rows'']) jlist) (\<lambda>rows.
     bindR (rows_items rows) (\<lambda>items. Inr (title, items))))"

text \<open>A dictionary by tab title: a later tab of the same title replaces the earlier one.\<close>

definition grid_items_by_tab :: "json \<Rightarrow> (string \<times> json list) list res" where
  "grid_items_by_tab layout =
     bindR (bindR (jpath layout [''spec'', ''tabs'']) jlist) (\<lambda>tabs.
       foldR (\<lambda>acc tab. bindR (tab_items tab) (\<lambda>(title, items). Inr (AList.update title items acc)))
         [] tabs)"

definition check_grid :: "json \<Rightarrow> unit res" where
  "check_grid layout =
     bindR (grid_items_by_tab layout) (\<lambda>by_tab.
       allR (\<lambda>(title, items). bindR (foldR (check_item title) [] items) (\<lambda>_. Inr ())) by_tab)"

section \<open>Checking panels\<close>

text \<open>
  The loop over the elements, up to the end of the body all generators share. The kinds of panel
  that need no unit are an argument; the numbers seen are collected for the test after the loop.
\<close>

definition check_panel :: "string list \<Rightarrow> int list \<Rightarrow> item \<Rightarrow> int list res" where
  "check_panel unitless ids it =
     (let (key, element) = it in
      bindR (ensure (starts_with ''panel-'' key) (AssertionError [])) (\<lambda>_.
      bindR (jget element ''spec'') (\<lambda>spec.
      bindR (bindR (jget spec ''id'') jint) (\<lambda>pid.
      bindR (ensure (key = ''panel-'' @ show_int pid) (AssertionError [])) (\<lambda>_.
      bindR (bindR (jpath spec [''vizConfig'', ''group'']) jstr) (\<lambda>viz.
      let title = bindR (jget spec ''title'') jstr in
      bindR
        (if viz \<notin> set unitless then
           bindR (bindR (jpath spec [''vizConfig'', ''spec'', ''fieldConfig'', ''defaults'']) jitems)
             (\<lambda>defaults.
             if map_of defaults ''unit'' = None
             then bindR title (\<lambda>t. Inl (AssertionError (''missing unit: '' @ key @ '' '' @ t)))
             else if map_of defaults ''unit'' = Some (JStr ''short'')
             then bindR title (\<lambda>t. Inl (AssertionError (''generic short unit: '' @ key @ '' '' @ t)))
             else Inr ())
         else Inr ()) (\<lambda>_.
      bindR (jpath spec [''vizConfig'', ''spec'', ''options'']) (\<lambda>options.
      bindR (ensure (''noValue'' \<notin> set (jkeys options))
        (AssertionError (''noValue in panel options: '' @ key))) (\<lambda>_.
      bindR (ensure (\<not> py_in ''pluginVersion'' (json_text False element)) (AssertionError [])) (\<lambda>_.
      Inr (ids @ [pid])))))))))))"

definition check_panels :: "string list \<Rightarrow> json \<Rightarrow> unit res" where
  "check_panels unitless elements =
     bindR (jitems elements) (\<lambda>items.
     bindR (foldR (check_panel unitless) [] items) (\<lambda>ids.
       ensure (distinct ids) (AssertionError ''duplicate panel ids'')))"

section \<open>Checking variables\<close>

definition ident_start :: "char \<Rightarrow> bool" where
  "ident_start c = (is_upper c \<or> is_lower c \<or> c = CHR ''_'')"

definition ident_char :: "char \<Rightarrow> bool" where
  "ident_char c = (ident_start c \<or> is_digit c)"

text \<open>The names the pattern \<open>\$\{?([A-Za-z_][A-Za-z0-9_]*)\}?\<close> finds, left to right.\<close>

function var_names :: "string \<Rightarrow> string list" where
  "var_names [] = []"
| "var_names (c # s) =
     (let s' = (if s \<noteq> [] \<and> hd s = CHR ''{'' then tl s else s) in
      if c = CHR ''$'' \<and> s' \<noteq> [] \<and> ident_start (hd s')
      then takeWhile ident_char s' # var_names (dropWhile ident_char s')
      else var_names s)"
  by pat_completeness auto

termination
  by (relation "measure length")
    (auto intro!: le_imp_less_Suc order.trans [OF length_dropWhile_le])

declare var_names.simps(2) [simp del]

definition referenced_vars :: "json \<Rightarrow> string list" where
  "referenced_vars spec = concat (map var_names (iter_strings spec))"

definition variable_names :: "json \<Rightarrow> string list res" where
  "variable_names spec =
     bindR (bindR (jget spec ''variables'') jlist) (\<lambda>vs.
       mapR (\<lambda>v. bindR (jpath v [''spec'', ''name'']) jstr) vs)"

definition check_vars :: "string list \<Rightarrow> string list \<Rightarrow> json \<Rightarrow> unit res" where
  "check_vars globals_allowed exempt_unused spec =
     bindR (variable_names spec) (\<lambda>defined_vars.
     let referenced = referenced_vars spec;
         undef = sort (remdups (filter (\<lambda>v. v \<notin> set defined_vars \<and> v \<notin> set globals_allowed) referenced));
         unused = sort (remdups (filter (\<lambda>v. v \<notin> set referenced \<and> v \<notin> set exempt_unused) defined_vars)) in
     bindR (ensure (undef = []) (AssertionError (''undefined variables: '' @ py_repr_list undef))) (\<lambda>_.
       ensure (unused = []) (AssertionError (''unused variables: '' @ py_repr_list unused))))"

definition GLOBALS_ALLOWED :: "string list" where
  "GLOBALS_ALLOWED = [''__rate_interval'', ''__range'', ''__from'', ''__to'', ''__all'', ''__value'',
     ''__interval'', ''__auto'']"

section \<open>Checking the header\<close>

definition tab_titles :: "json \<Rightarrow> string list res" where
  "tab_titles spec =
     bindR (bindR (jpath spec [''layout'', ''spec'', ''tabs'']) jlist) (\<lambda>tabs.
       mapR (\<lambda>t. bindR (jpath t [''spec'', ''title'']) jstr) tabs)"

definition check_field :: "json \<Rightarrow> string list \<Rightarrow> string \<Rightarrow> unit res" where
  "check_field v path expected =
     bindR (jpath v path) (\<lambda>w. ensure (w = JStr expected) (AssertionError []))"

end
