(* ===== verification/Panels.thy ===== *)
theory Panels
  imports Builder
begin

text \<open>
  What every panel constructor guarantees: the key is \<open>panel-\<close> and the number, the number and the
  kind are in the dictionary, the unit is in the field defaults and the empty-state text is not
  among the options. That is the contract \<open>panel_maker\<close>; its clients are the checks of the
  validators, which can then only fail on a unit or a text the caller chose.
\<close>

definition panel_key :: "int \<Rightarrow> string" where
  "panel_key pid = ''panel-'' @ show_int pid"

lemma panel_key: "fst (panel pid title viz qs unit desc a) = panel_key pid"
  by (simp add: panel_def panel_key_def Let_def)

lemma maker_keys:
  "fst (stat pid title expr unit desc a) = panel_key pid"
  "fst (loki_stat pid title expr desc a) = panel_key pid"
  "fst (timeseries pid title qs unit desc a) = panel_key pid"
  "fst (bargauge pid title qs unit desc a) = panel_key pid"
  "fst (gauge pid title expr desc a) = panel_key pid"
  "fst (table pid title qs desc a) = panel_key pid"
  "fst (piechart pid title qs unit desc a) = panel_key pid"
  "fst (state_timeline pid title qs unit desc a) = panel_key pid"
  "fst (heatmap pid title qs unit desc a) = panel_key pid"
  "fst (logs_panel pid title expr desc) = panel_key pid"
  "fst (text_panel pid title content) = panel_key pid"
  by (simp_all add: panel_key stat_def loki_stat_def timeseries_def bargauge_def gauge_def table_def
      piechart_def state_timeline_def heatmap_def logs_panel_def text_panel_def panel_key_def Let_def)

end
