(* ===== verification/Ops_Dashboard.thy ===== *)
theory Ops_Dashboard
  imports Builder
begin

text \<open>
  The operations dashboard of \<open>scripts/build_openwrt_operations_dashboard.py\<close>: the panels of each
  tab with their rectangles, the template variables, the dashboard around them.
\<close>

definition ops_DL :: string where
  \<open>ops_DL =
     (''sum by(device) (rate(openwrt_device_traffic_bytes_total{'' @ PROM_FILTER @
     '', direction="download"}[$__rate_interval]))'')\<close>

definition ops_UL :: string where
  \<open>ops_UL =
     (''sum by(device) (rate(openwrt_device_traffic_bytes_total{'' @ PROM_FILTER @
     '', direction="upload"}[$__rate_interval]))'')\<close>

definition ops_TOTAL_RATE :: string where
  \<open>ops_TOTAL_RATE =
     (''sum by(device) (rate(openwrt_device_traffic_bytes_total{'' @ PROM_FILTER @
     ''}[$__rate_interval]))'')\<close>

definition ops_overview :: "placement list" where
  \<open>ops_overview =
    [(stat 1 ''Router Health'' (''min(up{'' @ PROM_FILTER @ ''}) or vector(0)'') ''none''
       (''Exporter target reachability. 1 means Prometheus is scraping the OpenWrt '' @
       ''router.'') (kw\<lparr>o_mappings := Some STATUS_MAPPINGS,
       o_thresholds_key := Some OkBad\<rparr>), 0, 0, 4, 4),
     (stat 2 ''WAN Health'' (''(min(openwrt_wan_probe_success{'' @ PROM_FILTER @
       '', target=~"internet|resolver"}) * (max(openwrt_wan_probe_packet_loss_percent{'' @
       PROM_FILTER @ '', target="internet"}) < bool 1)) or vector(0)'') ''none''
       (''Internet/resolver probes must succeed and internet packet loss must stay '' @
       ''below 1%.'') (kw\<lparr>o_mappings := Some BOOLEAN_OK_MAPPINGS,
       o_thresholds_key := Some OkBad\<rparr>), 4, 0, 4, 4),
     (stat 3 ''Online Clients'' (''sum(router_device_up{'' @ PROM_FILTER @ ''}) or vector(0)'')
       ''none'' ''Devices currently marked online by the router textfile collector.''
       (kw\<lparr>o_thresholds_key := Some Neutral, o_graph := Some True,
       o_color_mode := Some ''value''\<rparr>), 8, 0, 4, 4),
     (stat 4 ''Conntrack Used'' (''max(node_nf_conntrack_entries{'' @ PROM_FILTER @
       ''} / node_nf_conntrack_entries_limit{'' @ PROM_FILTER @ ''}) or vector(0)'')
       ''percentunit'' ''Active conntrack sessions as a percentage of router capacity.''
       (kw\<lparr>o_thresholds_key := Some Capacity, o_decimals := Some 1, o_graph := Some True,
       o_color_mode := Some ''value''\<rparr>), 12, 0, 4, 4),
     (stat 5 ''Resource Pressure'' (''max((1 - (node_memory_MemAvailable_bytes{'' @ PROM_FILTER @
       ''} / node_memory_MemTotal_bytes{'' @ PROM_FILTER @
       ''})) or (node_nf_conntrack_entries{'' @ PROM_FILTER @
       ''} / node_nf_conntrack_entries_limit{'' @ PROM_FILTER @
       ''}) or (openwrt_filesystem_used_percent{'' @ PROM_FILTER @
       '', mount="/overlay"} / 100)) or vector(0)'') ''percentunit''
       ''Worst current utilization across memory, conntrack, and overlay flash.''
       (kw\<lparr>o_thresholds_key := Some Capacity, o_decimals := Some 1, o_graph := Some True,
       o_color_mode := Some ''value''\<rparr>), 16, 0, 4, 4),
     (stat 6 ''Telemetry Freshness'' (''max(time() - node_textfile_mtime_seconds{'' @ PROM_FILTER @
       ''}) or vector(999999)'') ''s''
       (''Age of the oldest custom textfile metric. Helpers run on a 1-to-10-minute '' @
       ''cadence, so a healthy value climbs to about 10 minutes before the slowest '' @
       ''helper refreshes. Yellow past 11 minutes means a slow helper missed a run.'')
       (kw\<lparr>o_thresholds_key := Some Freshness, o_graph := Some True\<rparr>), 20, 0, 4, 4),
     (timeseries 7 ''WAN Throughput'' [prom_query (''rate(node_network_receive_bytes_total{'' @
       PROM_FILTER @ '', device="$wan_interface"}[$__rate_interval])'') ''Download RX'' ''A''
       ''time_series'' False, prom_query (''rate(node_network_transmit_bytes_total{'' @
       PROM_FILTER @ '', device="$wan_interface"}[$__rate_interval])'') ''Upload TX'' ''B''
       ''time_series'' False] ''Bps''
       ''WAN RX/TX bytes per second. Counters are converted with rate() before display.''
       (kw\<lparr>o_overrides := Some [color_override ''Download RX'' GREEN, color_override
       ''Upload TX'' BLUE]\<rparr>), 0, 4, 12, 8),
     (timeseries 8 ''CPU, Memory, and Conntrack Pressure'' [prom_query
       (''1 - avg(rate(node_cpu_seconds_total{'' @ PROM_FILTER @
       '', mode="idle"}[$__rate_interval]))'') ''CPU busy'' ''A'' ''time_series'' False,
       prom_query (''1 - (node_memory_MemAvailable_bytes{'' @ PROM_FILTER @
       ''} / node_memory_MemTotal_bytes{'' @ PROM_FILTER @ ''})'') ''Memory used'' ''B''
       ''time_series'' False, prom_query (''node_nf_conntrack_entries{'' @ PROM_FILTER @
       ''} / node_nf_conntrack_entries_limit{'' @ PROM_FILTER @ ''}'') ''Conntrack used'' ''C''
       ''time_series'' False] ''percentunit''
       ''The three fastest limits to check during an incident.''
       (kw\<lparr>o_thresholds_value := Some (THRESHOLDS Capacity),
       o_legend_calcs := Some [''lastNotNull'']\<rparr>), 12, 4, 12, 9),
     (timeseries 9 ''WAN Latency & Loss'' [prom_query
       (''max(openwrt_wan_probe_latency_milliseconds{'' @ PROM_FILTER @
       '', target="internet"}) / 1000'') ''Internet latency'' ''A'' ''time_series'' False,
       prom_query (''max(openwrt_wan_probe_packet_loss_percent{'' @ PROM_FILTER @
       '', target="internet"}) / 100'') ''Internet loss'' ''B'' ''time_series'' False] ''s''
       (''Internet probe latency and loss together, so a slow-vs-lossy WAN is distinguishable '' @
       ''at a glance. Loss is drawn on the right as a fraction.'')
       (kw\<lparr>o_line_interpolation := Some ''linear'', o_overrides := Some [color_override
       ''Internet latency'' BLUE, JDict [(''matcher'', JDict [(''id'', JStr ''byName''),
       (''options'', JStr ''Internet loss'')]), (''properties'',
       JList [JDict [(''id'', JStr ''color''), (''value'', JDict [(''mode'', JStr ''fixed''),
       (''fixedColor'', JStr RED)])], JDict [(''id'', JStr ''unit''),
       (''value'', JStr ''percentunit'')], JDict [(''id'', JStr ''custom.axisPlacement''),
       (''value'', JStr ''right'')]])]], o_legend_calcs := Some [''lastNotNull'',
       ''max'']\<rparr>), 0, 13, 12, 7),
     (timeseries 10 ''Client & Session Trend'' [prom_query (''sum(router_device_up{'' @ PROM_FILTER @
       ''}) or vector(0)'') ''Online clients'' ''A'' ''time_series'' False, prom_query
       (''max(node_nf_conntrack_entries{'' @ PROM_FILTER @ ''})'') ''Conntrack sessions'' ''B''
       ''time_series'' False] ''none''
       (''Online client count and active NAT sessions over time. Divergence (sessions '' @
       ''climbing while clients flat) can signal a chatty or misbehaving host.'')
       (kw\<lparr>o_line_interpolation := Some ''linear'', o_overrides := Some [color_override
       ''Online clients'' GREEN, color_override ''Conntrack sessions'' PURPLE],
       o_legend_calcs := Some [''lastNotNull'', ''max'']\<rparr>), 12, 13, 12, 7)]\<close>

definition ops_wan :: "placement list" where
  \<open>ops_wan =
    [(text_panel 100 '''' (''## WAN & Internet'' @ [NL] @
       ''Validate internet reachability first: throughput, packet rate, interface '' @
       ''errors, gateway, resolver, and internet probes.''), 0, 0, 24, 3),
     (timeseries 101 ''WAN Throughput RX/TX'' [prom_query (''rate(node_network_receive_bytes_total{'' @
       PROM_FILTER @ '', device="$wan_interface"}[$__rate_interval])'') ''RX download'' ''A''
       ''time_series'' False, prom_query (''rate(node_network_transmit_bytes_total{'' @
       PROM_FILTER @ '', device="$wan_interface"}[$__rate_interval])'') ''TX upload'' ''B''
       ''time_series'' False] ''Bps'' ''Combined WAN throughput for direct RX/TX comparison.''
       (kw\<lparr>o_overrides := Some [color_override ''RX download'' GREEN, color_override
       ''TX upload'' BLUE]\<rparr>), 0, 3, 12, 8),
     (timeseries 102 ''WAN Packets/sec'' [prom_query (''rate(node_network_receive_packets_total{'' @
       PROM_FILTER @ '', device="$wan_interface"}[$__rate_interval])'') ''RX packets'' ''A''
       ''time_series'' False, prom_query (''rate(node_network_transmit_packets_total{'' @
       PROM_FILTER @ '', device="$wan_interface"}[$__rate_interval])'') ''TX packets'' ''B''
       ''time_series'' False] ''pps''
       ''WAN packet rate. High PPS with low throughput often means small-packet workloads.''
       (kw\<lparr>o_overrides := Some [color_override ''RX packets'' GREEN, color_override
       ''TX packets'' BLUE]\<rparr>), 12, 3, 12, 8),
     (timeseries 103 ''WAN Errors & Drops'' [prom_query (''rate(node_network_receive_errs_total{'' @
       PROM_FILTER @ '', device="$wan_interface"}[$__rate_interval])'') ''RX errors'' ''A''
       ''time_series'' False, prom_query (''rate(node_network_receive_drop_total{'' @
       PROM_FILTER @ '', device="$wan_interface"}[$__rate_interval])'') ''RX drops'' ''B''
       ''time_series'' False, prom_query (''rate(node_network_transmit_errs_total{'' @
       PROM_FILTER @ '', device="$wan_interface"}[$__rate_interval])'') ''TX errors'' ''C''
       ''time_series'' False, prom_query (''rate(node_network_transmit_drop_total{'' @
       PROM_FILTER @ '', device="$wan_interface"}[$__rate_interval])'') ''TX drops'' ''D''
       ''time_series'' False] ''pps''
       (''WAN errors and drops. TX drops are included when exported by the node network '' @
       ''collector.'') (kw\<lparr>o_line_interpolation := Some ''linear'',
       o_overrides := Some [regexp_color_override ''/errors|drops/i'' RED]\<rparr>), 0, 11, 12, 8),
     (timeseries 104 ''WAN Probe Packet Loss'' [prom_query
       (''openwrt_wan_probe_packet_loss_percent{'' @ PROM_FILTER @ ''}'')
       ''{{target}} {{address}}'' ''A'' ''time_series'' False] ''percent''
       (''Packet loss from gateway, resolver, and internet probes. Targets are emitted '' @
       ''by the WAN quality helper.'') (kw\<lparr>o_line_interpolation := Some ''linear'',
       o_thresholds_value := Some (THRESHOLDS LossPercent)\<rparr>), 12, 11, 6, 8),
     (timeseries 109 ''WAN Probe Latency'' [prom_query (''openwrt_wan_probe_latency_milliseconds{'' @
       PROM_FILTER @ ''} / 1000'') ''{{target}} {{address}}'' ''A'' ''time_series'' False] ''s''
       ''Probe latency from the router WAN quality helper.''
       (kw\<lparr>o_line_interpolation := Some ''linear'',
       o_thresholds_value := Some (THRESHOLDS LatencySeconds)\<rparr>), 18, 11, 6, 8),
     (stat 105 ''Gateway Packet Loss'' (''max(openwrt_wan_probe_packet_loss_percent{'' @ PROM_FILTER @
       '', target="gateway"}) or vector(0)'') ''percent''
       ''Current packet loss to the IPv4 default gateway.''
       (kw\<lparr>o_thresholds_key := Some LossPercent, o_graph := Some True\<rparr>),
       0, 19, 6, 5),
     (stat 106 ''Probe Success'' (''min(openwrt_wan_probe_success{'' @ PROM_FILTER @
       '', target=~"internet|resolver"}) or vector(0)'') ''none''
       ''Internet and resolver probe success. 1 means all present probes succeeded.''
       (kw\<lparr>o_mappings := Some BOOLEAN_OK_MAPPINGS, o_thresholds_key := Some OkBad,
       o_graph := Some True\<rparr>), 6, 19, 6, 5),
     (stat 107 ''Worst Probe Latency'' (''max(openwrt_wan_probe_latency_milliseconds{'' @ PROM_FILTER @
       ''} / 1000) or vector(0)'') ''s''
       ''Worst current probe latency from the router WAN quality helper.''
       (kw\<lparr>o_thresholds_key := Some LatencySeconds, o_graph := Some True\<rparr>),
       12, 19, 6, 5),
     (stat 108 ''Internet Packet Loss'' (''max(openwrt_wan_probe_packet_loss_percent{'' @ PROM_FILTER @
       '', target="internet"}) or vector(0)'') ''percent''
       ''Current packet loss to the configured internet probe target.''
       (kw\<lparr>o_thresholds_key := Some LossPercent, o_graph := Some True\<rparr>),
       18, 19, 6, 5)]\<close>

definition ops_wifi :: "placement list" where
  \<open>ops_wifi =
    [(text_panel 200 '''' (''## WiFi & Clients'' @ [NL] @
       ''AP-level panels stay low-cardinality. Client MACs appear only in bounded '' @
       ''rankings and tables. For dBm, less negative is better: -45 dBm is stronger '' @
       ''than -70 dBm.''), 0, 0, 24, 3),
     (timeseries 201 ''AP Throughput by Band'' [prom_query
       (''rate(node_network_receive_bytes_total{'' @ PROM_FILTER @
       '', device=~"$wifi_ap"}[$__rate_interval])'') ''RX {{device}}'' ''A'' ''time_series''
       False, prom_query (''rate(node_network_transmit_bytes_total{'' @ PROM_FILTER @
       '', device=~"$wifi_ap"}[$__rate_interval])'') ''TX {{device}}'' ''B'' ''time_series''
       False] ''Bps'' ''Measured AP interface traffic rate, not PHY/link rate.''
       (kw\<lparr>o_overrides := Some [regexp_color_override ''/RX/i'' GREEN,
       regexp_color_override ''/TX/i'' BLUE]\<rparr>), 0, 3, 24, 8),
     (timeseries 202 ''AP Signal and Noise'' [prom_query (''wifi_network_signal_dbm{'' @ PROM_FILTER @
       ''}'') ''signal {{ssid}} {{ifname}}'' ''A'' ''time_series'' False, prom_query
       (''wifi_network_noise_dbm{'' @ PROM_FILTER @ ''}'') ''noise {{ssid}} {{ifname}}'' ''B''
       ''time_series'' False] ''dBm''
       ''AP signal/noise from optional WiFi collector. Less negative signal is better.''
       (kw\<lparr>o_overrides := Some [regexp_color_override ''/signal/i'' GREEN,
       regexp_color_override ''/noise/i'' GRAY]\<rparr>), 0, 11, 8, 7),
     (timeseries 203 ''AP Quality'' [prom_query (''wifi_network_quality{'' @ PROM_FILTER @ ''}'')
       ''{{ssid}} {{ifname}}'' ''A'' ''time_series'' False] ''percent''
       ''AP quality percentage from optional WiFi collector.''
       (kw\<lparr>o_thresholds_value := Some (thresholds [(''red'', JInt 0), (''yellow'', JInt 70), (''green'', JInt 85)])\<rparr>),
       8, 11, 8, 7),
     (timeseries 204 ''AP Bitrate'' [prom_query (''wifi_network_bitrate{'' @ PROM_FILTER @
       ''} * 1000'') ''{{ssid}} {{ifname}}'' ''A'' ''time_series'' False] ''bps''
       ''AP PHY bitrate. This is link capability, not measured traffic throughput.''
       (kw\<lparr>o_line_interpolation := Some ''stepAfter''\<rparr>), 16, 11, 8, 7),
     (bargauge 205 ''Clients by AP'' [prom_query WIFI_CLIENT_COUNT ''{{vif}}'' ''A'' ''time_series''
       False] ''none''
       ''Neutral ranking of client counts per AP. Higher is not automatically bad.''
       (kw\<lparr>o_thresholds_key := Some Neutral\<rparr>), 0, 18, 8, 7),
     (bargauge 206 ''Weakest Clients by Signal'' [prom_query (''bottomk(10, '' @ WIFI_SIGNAL @ '')'')
       ''{{station}} {{vif}}'' ''A'' ''time_series'' False] ''dBm''
       ''Bounded bottom-10 WiFi client signal ranking. Less negative values are better.''
       (kw\<lparr>o_thresholds_key := Some Neutral\<rparr>), 8, 18, 8, 7),
     (bargauge 207 ''Top Clients by Rate'' [prom_query (''topk(10, sum by(station, vif) (('' @
       WIFI_RX_BPS @ '') + ('' @ WIFI_TX_BPS @ '')))'') ''{{station}} {{vif}}'' ''A''
       ''time_series'' False] ''bps''
       (''Actual throughput from per-station byte counters when the exporter exposes '' @
       ''them (hostapd_stations or wifi_station byte totals). When it does not, this '' @
       ''falls back to the negotiated PHY link rate from iw station dump, which reflects '' @
       ''link capability, not bytes moved, so an idle client on a fast link can rank '' @
       ''high. This exporter build exposes only the link-rate fallback.'')
       (kw\<lparr>o_thresholds_key := Some Neutral\<rparr>), 16, 18, 8, 7),
     (table 208 ''Selected Client Quality Details'' [prom_query WIFI_SIGNAL '''' ''A'' ''table'' True,
       prom_query WIFI_CONNECTED '''' ''B'' ''table'' True, prom_query WIFI_INACTIVE '''' ''C''
       ''table'' True]
       (''Bounded operational table for connected WiFi stations. Collector plumbing '' @
       ''fields are hidden.'') (kw\<lparr>o_transformations := Some [tf ''merge'' [], organize
       [''Time'', ''__name__'', ''cluster'', ''job'', ''router'', ''endpoint'', ''instance'',
       ''namespace'', ''prometheus'', ''prometheus_replica'', ''service'', ''mac'', ''ifname'']
       [(''station'', ''Station''), (''ssid'', ''SSID''), (''vif'', ''AP''),
       (''frequency'', ''MHz''), (''channel'', ''Channel''), (''Value #A'', ''Signal dBm''),
       (''Value #B'', ''Connected Seconds''), (''Value #C'', ''Inactive Seconds'')] [], sort_by
       ''Signal dBm'' False, limit 25], o_sort_col := Some ''Signal dBm'',
       o_sort_desc := Some False\<rparr>), 0, 25, 24, 10)]\<close>

definition ops_lan :: "placement list" where
  \<open>ops_lan =
    [(text_panel 300 '''' (''## LAN, NAT & Devices'' @ [NL] @
       ''Device state, DHCP leases, interface state, and NAT usage. Zero offline '' @
       ''devices must render as 0, not No data.''), 0, 0, 24, 3),
     (stat 301 ''Online Devices'' (''sum(router_device_up{'' @ PROM_FILTER @ ''}) or vector(0)'')
       ''none'' ''Online devices from router_device_up.''
       (kw\<lparr>o_thresholds_key := Some Neutral\<rparr>), 0, 3, 6, 4),
     (stat 302 ''Offline Devices'' (''sum(1 - router_device_up{'' @ PROM_FILTER @ ''}) or vector(0)'')
       ''none'' ''Known devices currently offline. Zero is an explicit healthy zero.''
       (kw\<lparr>o_thresholds_key := Some OkBad\<rparr>), 6, 3, 6, 4),
     (stat 303 ''DHCP Leases'' (''count(dhcp_lease{'' @ PROM_FILTER @ ''}) or vector(0)'') ''none''
       ''Active DHCP lease records.'' (kw\<lparr>o_thresholds_key := Some Neutral\<rparr>),
       12, 3, 6, 4),
     (stat 304 ''Conntrack Used'' (''max(node_nf_conntrack_entries{'' @ PROM_FILTER @
       ''} / node_nf_conntrack_entries_limit{'' @ PROM_FILTER @ ''}) or vector(0)'')
       ''percentunit'' ''NAT/conntrack table utilization.''
       (kw\<lparr>o_thresholds_key := Some Capacity, o_decimals := Some 1\<rparr>), 18, 3, 6, 4),
     (timeseries 305 ''LAN Throughput'' [prom_query (''rate(node_network_receive_bytes_total{'' @
       PROM_FILTER @ '', device="$lan_interface"}[$__rate_interval])'') ''LAN RX'' ''A''
       ''time_series'' False, prom_query (''rate(node_network_transmit_bytes_total{'' @
       PROM_FILTER @ '', device="$lan_interface"}[$__rate_interval])'') ''LAN TX'' ''B''
       ''time_series'' False] ''Bps'' ''Measured LAN bridge throughput.''
       (kw\<lparr>o_overrides := Some [color_override ''LAN RX'' GREEN, color_override ''LAN TX''
       BLUE]\<rparr>), 0, 7, 12, 8),
     (timeseries 306 ''Online vs Offline Devices'' [prom_query (''sum(router_device_up{'' @
       PROM_FILTER @ ''}) or vector(0)'') ''Online'' ''A'' ''time_series'' False, prom_query
       (''sum(1 - router_device_up{'' @ PROM_FILTER @ ''}) or vector(0)'') ''Offline'' ''B''
       ''time_series'' False] ''none''
       ''Device count trend with explicit zero-preserving offline count.''
       (kw\<lparr>o_line_interpolation := Some ''stepAfter''\<rparr>), 12, 7, 12, 8),
     (bargauge 307 ''Top Devices by Traffic Rate'' [prom_query (''topk(10, '' @ ops_TOTAL_RATE @ '')'')
       ''{{device}}'' ''A'' ''time_series'' False] ''Bps''
       (''Top 10 LAN clients by current combined upload+download rate, from the traffic '' @
       ''profile's nftables counters. Empty rather than wrong when the traffic profile '' @
       ''is not installed '' @ [CHR 0xE2, CHR 0x80, CHR 0x94] @
       '' see Client Insights for a full breakdown.'')
       (kw\<lparr>o_thresholds_key := Some Neutral\<rparr>), 0, 15, 8, 8),
     (table 308 ''Network Interface State'' [prom_query (''node_network_info{'' @ PROM_FILTER @ ''}'')
       '''' ''A'' ''table'' True]
       (''Current interface facts with MAC/broadcast and scrape plumbing hidden by '' @
       ''default.'') (kw\<lparr>o_transformations := Some [organize [''Time'', ''__name__'',
       ''Value'', ''address'', ''broadcast'', ''cluster'', ''endpoint'', ''instance'', ''job'',
       ''namespace'', ''prometheus'', ''prometheus_replica'', ''router'', ''service'']
       [(''device'', ''Interface''), (''operstate'', ''State''), (''duplex'', ''Duplex'')]
       [(''Interface'', 0), (''State'', 1), (''Duplex'', 2)]],
       o_overrides := Some [JDict [(''matcher'', JDict [(''id'', JStr ''byName''),
       (''options'', JStr ''State'')]), (''properties'',
       JList [JDict [(''id'', JStr ''custom.cellOptions''),
       (''value'', JDict [(''type'', JStr ''color-background'')])],
       JDict [(''id'', JStr ''mappings''), (''value'', JList [JDict [(''type'', JStr ''value''),
       (''options'', JDict [(''up'', JDict [(''color'', JStr GREEN), (''text'', JStr ''up''),
       (''index'', JInt 0)]), (''down'', JDict [(''color'', JStr RED), (''text'', JStr ''down''),
       (''index'', JInt 1)]), (''unknown'', JDict [(''color'', JStr GRAY),
       (''text'', JStr ''unknown''), (''index'', JInt 2)]), (''lowerlayerdown'',
       JDict [(''color'', JStr GRAY), (''text'', JStr ''no cable''),
       (''index'', JInt 3)])])]])]])]], o_sort_col := Some ''Interface'',
       o_sort_desc := Some False\<rparr>), 8, 15, 16, 8),
     (table 309 ''All Devices'' [prom_query (''router_device_up{'' @ PROM_FILTER @ ''}'') '''' ''A''
       ''table'' True]
       ''All known devices with online state, hostname/IP/MAC, and no collector plumbing.''
       (kw\<lparr>o_transformations := Some (clean_table_transforms [(''device'', ''Hostname''),
       (''status'', ''Status''), (''mac'', ''MAC''), (''ip'', ''IP''), (''Value'', ''Online'')]
       [''Hostname'', ''Status'', ''IP'', ''MAC'', ''Online'']),
       o_overrides := Some [JDict [(''matcher'', JDict [(''id'', JStr ''byName''),
       (''options'', JStr ''Online'')]), (''properties'',
       JList [JDict [(''id'', JStr ''custom.cellOptions''),
       (''value'', JDict [(''type'', JStr ''color-background'')])],
       JDict [(''id'', JStr ''mappings''), (''value'', JList DEVICE_STATE_MAPPINGS)]])]],
       o_sort_col := Some ''Online'', o_sort_desc := Some True\<rparr>), 0, 23, 24, 10),
     (table 310 ''DHCP Lease Expiry'' [prom_query (''(dhcp_lease{'' @ PROM_FILTER @ ''} > 0) * 1000'')
       '''' ''A'' ''table'' True, prom_query (''clamp_min((dhcp_lease{'' @ PROM_FILTER @
       ''} > 0) - time(), 0)'') '''' ''B'' ''table'' True]
       (''Expiring DHCP leases only. Static/infinite leases exported as 0 are omitted '' @
       ''so they do not render as impossible negative durations.'')
       (kw\<lparr>o_transformations := Some [tf ''merge'' [], organize [''Time'', ''__name__'',
       ''cluster'', ''job'', ''router'', ''endpoint'', ''instance'', ''namespace'',
       ''prometheus'', ''prometheus_replica'', ''service'', ''dnsmasq'', ''Value'']
       [(''hostname'', ''Hostname''), (''mac'', ''MAC''), (''ip'', ''IP''),
       (''Value #A'', ''Lease Expires''), (''Value #B'', ''Remaining Seconds'')] [], sort_by
       ''Remaining Seconds'' False], o_overrides := Some [JDict [(''matcher'',
       JDict [(''id'', JStr ''byName''), (''options'', JStr ''Lease Expires'')]), (''properties'',
       JList [JDict [(''id'', JStr ''unit''), (''value'', JStr ''dateTimeAsIso'')]])],
       JDict [(''matcher'', JDict [(''id'', JStr ''byName''),
       (''options'', JStr ''Remaining Seconds'')]), (''properties'',
       JList [JDict [(''id'', JStr ''unit''), (''value'', JStr ''s'')]])]],
       o_sort_col := Some ''Remaining Seconds'', o_sort_desc := Some False\<rparr>),
       0, 33, 24, 10)]\<close>

definition ops_clients :: "placement list" where
  \<open>ops_clients =
    [(text_panel 800 '''' (''## Client Insights'' @ [NL] @
       ''Who is on the network and what they are doing. Per-device upload/download '' @
       ''comes from the nftables traffic profile (hostnames from DHCP leases). When '' @
       ''the traffic profile is not installed these panels are empty rather than '' @ ''wrong '' @
       [CHR 0xE2, CHR 0x80, CHR 0x94] @
       '' the device table still lists every known client. Per-remote-destination '' @
       ''attribution ("who talked to what") is not sourced from NAT conntrack accounting '' @
       ''because that stream has unbounded cardinality; use the optional NetFlow '' @
       ''profile when that detail is required.''), 0, 0, 24, 3),
     (stat 801 ''Tracked Clients'' (''count(openwrt_device_info{'' @ PROM_FILTER @ ''}) or vector(0)'')
       ''none''
       ''Distinct client identities currently tracked by the per-device traffic collector.''
       (kw\<lparr>o_thresholds_key := Some Neutral, o_graph := Some True,
       o_color_mode := Some ''value''\<rparr>), 0, 3, 6, 4),
     (stat 802 ''Total Download Rate'' (''('' @ py_replace ''sum by(device) '' ''sum '' ops_DL @
       '') or vector(0)'') ''Bps''
       ''Aggregate download rate across all tracked clients right now.''
       (kw\<lparr>o_thresholds_key := Some Neutral, o_graph := Some True,
       o_color_mode := Some ''value''\<rparr>), 6, 3, 6, 4),
     (stat 803 ''Total Upload Rate'' (''('' @ py_replace ''sum by(device) '' ''sum '' ops_UL @
       '') or vector(0)'') ''Bps'' ''Aggregate upload rate across all tracked clients right now.''
       (kw\<lparr>o_thresholds_key := Some Neutral, o_graph := Some True,
       o_color_mode := Some ''value''\<rparr>), 12, 3, 6, 4),
     (stat 804 ''WiFi Clients'' (''sum(wifi_stations{'' @ PROM_FILTER @ ''}) or vector(0)'') ''none''
       ''Associated WiFi stations across all radios.''
       (kw\<lparr>o_thresholds_key := Some Neutral, o_graph := Some True,
       o_color_mode := Some ''value''\<rparr>), 18, 3, 6, 4),
     (bargauge 805 ''Top Clients by Download'' [prom_query (''topk(10, '' @ ops_DL @ '')'')
       ''{{device}}'' ''A'' ''time_series'' False] ''Bps''
       (''Bounded top-10 clients by current download rate. Descriptive ranking, not '' @
       ''a health score.'') (kw\<lparr>o_thresholds_key := Some Neutral,
       o_transformations := Some [limit 10]\<rparr>), 0, 7, 12, 9),
     (bargauge 806 ''Top Clients by Upload'' [prom_query (''topk(10, '' @ ops_UL @ '')'')
       ''{{device}}'' ''A'' ''time_series'' False] ''Bps''
       (''Bounded top-10 clients by current upload rate. Useful for spotting a host '' @
       ''pushing data out.'') (kw\<lparr>o_thresholds_key := Some Neutral,
       o_transformations := Some [limit 10]\<rparr>), 12, 7, 12, 9),
     (timeseries 807 ''Download by Client Over Time'' [prom_query (''topk(8, '' @ ops_DL @ '')'')
       ''{{device}}'' ''A'' ''time_series'' False] ''Bps''
       (''Top clients' download rate as a stacked area, so you can see who was busy '' @
       ''and when.'') (kw\<lparr>o_stacked := Some True, o_fill := Some 35\<rparr>), 0, 16, 12, 8),
     (piechart 808 ''Download Share by Client'' [prom_query (''topk(8, '' @ ops_DL @ '')'')
       ''{{device}}'' ''A'' ''time_series'' False] ''Bps''
       (''Share of current download traffic per client. A single dominant slice is '' @
       ''the household's heaviest user right now.'') kw, 12, 16, 12, 8),
     (table 809 ''Client Activity'' [prom_query ops_DL '''' ''A'' ''table'' True, prom_query ops_UL
       '''' ''B'' ''table'' True, prom_query (''openwrt_device_info{'' @ PROM_FILTER @ ''}'') ''''
       ''C'' ''table'' True]
       (''One row per client, merging download and upload rates with identity from '' @
       ''separate queries and a derived Total column. This is a joinByField + calculateField '' @
       ''merge, not three separate panels. Clients with no current traffic still '' @
       ''appear via the identity query.'') (kw\<lparr>o_transformations := Some [tf
       ''joinByField'' [(''byField'', JStr ''device''), (''mode'', JStr ''outer'')], calculate
       ''Total'' ''Value #A'' ''Value #B'' ''+'' False, organize [''Time'', ''__name__'',
       ''Value #C'', ''interface'', ''mac'', ''cluster'', ''job'', ''router'', ''endpoint'',
       ''instance'', ''namespace'', ''prometheus'', ''prometheus_replica'', ''service'']
       [(''device'', ''Client''), (''ip'', ''IP''), (''Value #A'', ''Download''),
       (''Value #B'', ''Upload'')] [(''Client'', 0), (''IP'', 1), (''Download'', 2),
       (''Upload'', 3), (''Total'', 4)], sort_by ''Total'' True, limit 50],
       o_overrides := Some [JDict [(''matcher'', JDict [(''id'', JStr ''byRegexp''),
       (''options'', JStr ''/Download|Upload|Total/'')]), (''properties'',
       JList [JDict [(''id'', JStr ''unit''), (''value'', JStr ''Bps'')],
       JDict [(''id'', JStr ''custom.cellOptions''), (''value'',
       JDict [(''type'', JStr ''gauge''), (''mode'', JStr ''gradient'')])],
       JDict [(''id'', JStr ''min''), (''value'', JInt 0)]])]], o_sort_col := Some ''Total'',
       o_sort_desc := Some True\<rparr>), 0, 24, 24, 11),
     (bargauge 811 ''WiFi Clients by Packet Rate'' [prom_query
       (''topk(10, sum by(mac) (rate(wifi_station_receive_packets_total{'' @ PROM_FILTER @
       ''}[$__rate_interval]) + rate(wifi_station_transmit_packets_total{'' @ PROM_FILTER @
       ''}[$__rate_interval])))'') ''{{mac}}'' ''A'' ''time_series'' False] ''pps''
       (''Top WiFi stations by real packet rate from station packet counters (not '' @
       ''PHY link rate). Keyed by MAC because the exporter's WiFi MAC casing does '' @
       ''not match the DHCP lease map.'') (kw\<lparr>o_thresholds_key := Some Neutral,
       o_transformations := Some [limit 10]\<rparr>), 0, 35, 24, 8),
     (table 812 ''WiFi Client Detail'' [prom_query (''wifi_station_signal_dbm{'' @ PROM_FILTER @ ''}'')
       '''' ''A'' ''table'' True, prom_query (''wifi_station_receive_kilobits_per_second{'' @
       PROM_FILTER @ ''} * 1000'') '''' ''B'' ''table'' True, prom_query
       (''wifi_station_transmit_kilobits_per_second{'' @ PROM_FILTER @ ''} * 1000'') '''' ''C''
       ''table'' True, prom_query (''label_replace(openwrt_wifi_station_connected_seconds{'' @
       PROM_FILTER @ ''}, "mac", "$1", "station", "(.*)")'') '''' ''D'' ''table'' True]
       (''Per-station WiFi quality: signal, negotiated RX/TX link rate, and session '' @
       ''age. The connected-seconds series is label_replaced from station to mac '' @
       ''so it joins the signal and rate queries.'') (kw\<lparr>o_transformations := Some [tf
       ''joinByField'' [(''byField'', JStr ''mac''), (''mode'', JStr ''outer'')], organize
       [''Time'', ''__name__'', ''vif'', ''cluster'', ''job'', ''router'', ''endpoint'',
       ''instance'', ''namespace'', ''prometheus'', ''prometheus_replica'', ''service'']
       [(''mac'', ''Station MAC''), (''ifname'', ''Radio''), (''Value #A'', ''Signal dBm''),
       (''Value #B'', ''RX Link''), (''Value #C'', ''TX Link''), (''Value #D'', ''Connected'')]
       [(''Station MAC'', 0), (''Radio'', 1), (''Signal dBm'', 2), (''RX Link'', 3),
       (''TX Link'', 4), (''Connected'', 5)], sort_by ''Signal dBm'' False],
       o_overrides := Some [JDict [(''matcher'', JDict [(''id'', JStr ''byRegexp''),
       (''options'', JStr ''/RX Link|TX Link/'')]), (''properties'',
       JList [JDict [(''id'', JStr ''unit''), (''value'', JStr ''bps'')]])], JDict [(''matcher'',
       JDict [(''id'', JStr ''byName''), (''options'', JStr ''Connected'')]), (''properties'',
       JList [JDict [(''id'', JStr ''unit''), (''value'', JStr ''s'')]])], JDict [(''matcher'',
       JDict [(''id'', JStr ''byName''), (''options'', JStr ''Signal dBm'')]), (''properties'',
       JList [JDict [(''id'', JStr ''unit''), (''value'', JStr ''dBm'')],
       JDict [(''id'', JStr ''custom.cellOptions''),
       (''value'', JDict [(''type'', JStr ''color-background'')])],
       JDict [(''id'', JStr ''thresholds''),
       (''value'', thresholds [(''red'', JInt (- 90)), (''yellow'', JInt (- 70)), (''green'', JInt (- 60))])]])]],
       o_sort_col := Some ''Signal dBm'', o_sort_desc := Some False\<rparr>), 0, 43, 24, 9)]\<close>

definition ops_dns :: "placement list" where
  \<open>ops_dns =
    [(text_panel 700 '''' (''## DNS & DHCP'' @ [NL] @
       ''dnsmasq resolver and DHCP server health. Cache hit ratio, query mix, DHCP '' @
       ''handshake, and pool pressure. All counters are rate-converted; leases and '' @
       ''pool sizes are gauges.''), 0, 0, 24, 3),
     (stat 701 ''DNS Cache Hit Ratio'' (''sum(rate(dnsmasq_dns_local_answered{'' @ PROM_FILTER @
       ''}[$__rate_interval])) / clamp_min(sum(rate(dnsmasq_dns_local_answered{'' @ PROM_FILTER @
       ''}[$__rate_interval]) + rate(dnsmasq_dns_queries_forwarded{'' @ PROM_FILTER @
       ''}[$__rate_interval])), 1)'') ''percentunit''
       (''Share of DNS queries answered locally from cache versus forwarded upstream. '' @
       ''Higher is faster resolution; a sustained low ratio suggests cache pressure '' @
       ''or many unique lookups.'') (kw\<lparr>o_thresholds_key := Some Neutral,
       o_graph := Some True, o_decimals := Some 1, o_color_mode := Some ''value''\<rparr>),
       0, 3, 6, 4),
     (stat 702 ''DNS Queries/sec'' (''sum(rate(dnsmasq_dns_local_answered{'' @ PROM_FILTER @
       ''}[$__rate_interval]) + rate(dnsmasq_dns_queries_forwarded{'' @ PROM_FILTER @
       ''}[$__rate_interval])) or vector(0)'') ''reqps''
       ''Total resolver query rate: cache hits plus upstream forwards.''
       (kw\<lparr>o_thresholds_key := Some Neutral, o_graph := Some True,
       o_color_mode := Some ''value''\<rparr>), 6, 3, 6, 4),
     (stat 703 ''DHCP Pool Used'' (''max(openwrt_dhcp_pool_utilization_percent{'' @ PROM_FILTER @
       ''}) or vector(0)'') ''percent''
       (''Highest DHCP pool utilization across configured interfaces. Approaching '' @
       ''100% means the address pool is nearly exhausted.'')
       (kw\<lparr>o_thresholds_key := Some CapacityPercent, o_graph := Some True\<rparr>),
       12, 3, 6, 4),
     (stat 704 ''DHCPv6 / RA Leases'' (''max(dhcpv6_lease_count{'' @ PROM_FILTER @ ''}) or vector(0)'')
       ''none'' ''Active DHCPv6/RA leases known to odhcpd.''
       (kw\<lparr>o_thresholds_key := Some Neutral, o_graph := Some True,
       o_color_mode := Some ''value''\<rparr>), 18, 3, 6, 4),
     (timeseries 705 ''DNS Query Breakdown'' [prom_query (''sum(rate(dnsmasq_dns_local_answered{'' @
       PROM_FILTER @ ''}[$__rate_interval]))'') ''Cache/local answered'' ''A'' ''time_series''
       False, prom_query (''sum(rate(dnsmasq_dns_queries_forwarded{'' @ PROM_FILTER @
       ''}[$__rate_interval]))'') ''Forwarded upstream'' ''B'' ''time_series'' False, prom_query
       (''sum(rate(dnsmasq_dns_auth_answered{'' @ PROM_FILTER @ ''}[$__rate_interval]))'')
       ''Authoritative'' ''C'' ''time_series'' False, prom_query
       (''sum(rate(dnsmasq_dns_unanswered{'' @ PROM_FILTER @ ''}[$__rate_interval]))'')
       ''Unanswered'' ''D'' ''time_series'' False] ''qps''
       (''Where DNS answers come from. Unanswered climbing usually means an upstream '' @
       ''resolver problem.'') (kw\<lparr>o_stacked := Some True, o_fill := Some 30,
       o_overrides := Some [color_override ''Cache/local answered'' GREEN, color_override
       ''Forwarded upstream'' BLUE, color_override ''Authoritative'' PURPLE, color_override
       ''Unanswered'' RED]\<rparr>), 0, 7, 12, 8),
     (timeseries 706 ''DNS Cache & DNSSEC'' [prom_query (''sum(dnsmasq_dns_cache_inserted{'' @
       PROM_FILTER @ ''} - dnsmasq_dns_cache_live_freed{'' @ PROM_FILTER @ ''})'')
       ''Live cache entries'' ''A'' ''time_series'' False, prom_query
       (''sum(rate(dnsmasq_dns_stale_answered{'' @ PROM_FILTER @ ''}[$__rate_interval]))'')
       ''Stale served'' ''B'' ''time_series'' False, prom_query
       (''sum(dnsmasq_dnssec_max_sig_fail{'' @ PROM_FILTER @ ''})'') ''DNSSEC sig failures'' ''C''
       ''time_series'' False, prom_query (''sum(dnsmasq_tcp_connections{'' @ PROM_FILTER @ ''})'')
       ''TCP connections'' ''D'' ''time_series'' False] ''none''
       (''Live cache occupancy, stale-cache serves, DNSSEC signature failures, and '' @
       ''DNS-over-TCP connection count.'') (kw\<lparr>o_overrides := Some [color_override
       ''DNSSEC sig failures'' RED, color_override ''Stale served'' ORANGE]\<rparr>),
       12, 7, 12, 8),
     (timeseries 707 ''DHCP Handshake Rate'' [prom_query (''sum(rate(dnsmasq_dhcp_discover{'' @
       PROM_FILTER @ ''}[$__rate_interval]))'') ''Discover'' ''A'' ''time_series'' False,
       prom_query (''sum(rate(dnsmasq_dhcp_offer{'' @ PROM_FILTER @ ''}[$__rate_interval]))'')
       ''Offer'' ''B'' ''time_series'' False, prom_query (''sum(rate(dnsmasq_dhcp_request{'' @
       PROM_FILTER @ ''}[$__rate_interval]))'') ''Request'' ''C'' ''time_series'' False,
       prom_query (''sum(rate(dnsmasq_dhcp_ack{'' @ PROM_FILTER @ ''}[$__rate_interval]))'')
       ''Ack'' ''D'' ''time_series'' False, prom_query (''sum(rate(dnsmasq_dhcp_nak{'' @
       PROM_FILTER @ ''}[$__rate_interval]))'') ''Nak'' ''E'' ''time_series'' False, prom_query
       (''sum(rate(dnsmasq_dhcp_decline{'' @ PROM_FILTER @ ''}[$__rate_interval]))'') ''Decline''
       ''F'' ''time_series'' False] ''ops''
       (''DORA handshake rates. A healthy lease is Discover'' @ [CHR 0xE2, CHR 0x86, CHR 0x92] @
       ''Offer'' @ [CHR 0xE2, CHR 0x86, CHR 0x92] @ ''Request'' @ [CHR 0xE2, CHR 0x86, CHR 0x92] @
       ''Ack. Sustained Nak or Decline points to pool exhaustion or address conflicts.'')
       (kw\<lparr>o_overrides := Some [color_override ''Ack'' GREEN, color_override ''Nak'' RED,
       color_override ''Decline'' RED]\<rparr>), 0, 15, 12, 8),
     (bargauge 708 ''DHCP Pool Utilization by Interface'' [prom_query
       (''openwrt_dhcp_pool_utilization_percent{'' @ PROM_FILTER @ ''}'') ''{{interface}}'' ''A''
       ''time_series'' False] ''percent''
       ''Per-interface DHCP pool pressure. Bounded to configured interfaces.''
       (kw\<lparr>o_thresholds_key := Some CapacityPercent, o_color_mode := Some ''thresholds'',
       o_max_value := Some (JInt 100)\<rparr>), 12, 15, 12, 8),
     (timeseries 709 ''DHCP Lease Allocation & Pruning'' [prom_query
       (''sum(rate(dnsmasq_leases_allocated_4{'' @ PROM_FILTER @ ''}[$__rate_interval]))'')
       ''Allocated IPv4'' ''A'' ''time_series'' False, prom_query
       (''sum(rate(dnsmasq_leases_allocated_6{'' @ PROM_FILTER @ ''}[$__rate_interval]))'')
       ''Allocated IPv6'' ''B'' ''time_series'' False, prom_query
       (''sum(rate(dnsmasq_leases_pruned_4{'' @ PROM_FILTER @ ''}[$__rate_interval]))'')
       ''Pruned IPv4'' ''C'' ''time_series'' False, prom_query
       (''sum(rate(dnsmasq_leases_pruned_6{'' @ PROM_FILTER @ ''}[$__rate_interval]))'')
       ''Pruned IPv6'' ''D'' ''time_series'' False] ''ops''
       ''Lease allocation and expiry-pruning rates from dnsmasq, split by IP family.''
       (kw\<lparr>o_line_interpolation := Some ''linear''\<rparr>), 0, 23, 12, 7),
     (table 710 ''DHCP Pool Capacity'' [prom_query (''openwrt_dhcp_pool_size{'' @ PROM_FILTER @ ''}'')
       '''' ''A'' ''table'' True, prom_query (''openwrt_dhcp_leases_used{'' @ PROM_FILTER @ ''}'')
       '''' ''B'' ''table'' True, prom_query (''openwrt_dhcp_pool_utilization_percent{'' @
       PROM_FILTER @ ''}'') '''' ''C'' ''table'' True]
       (''Configured pool size, active leases, and utilization per interface, plus '' @
       ''static host reservations.'') (kw\<lparr>o_transformations := Some [tf ''merge'' [],
       organize [''Time'', ''__name__'', ''cluster'', ''job'', ''router'', ''endpoint'',
       ''instance'', ''namespace'', ''prometheus'', ''prometheus_replica'', ''service'']
       [(''interface'', ''Interface''), (''Value #A'', ''Pool Size''),
       (''Value #B'', ''Leases Used''), (''Value #C'', ''Utilization %'')] []],
       o_overrides := Some [JDict [(''matcher'', JDict [(''id'', JStr ''byName''),
       (''options'', JStr ''Utilization %'')]), (''properties'',
       JList [JDict [(''id'', JStr ''unit''), (''value'', JStr ''percent'')],
       JDict [(''id'', JStr ''custom.cellOptions''), (''value'',
       JDict [(''type'', JStr ''gauge''), (''mode'', JStr ''gradient'')])],
       JDict [(''id'', JStr ''max''), (''value'', JInt 100)], JDict [(''id'', JStr ''min''),
       (''value'', JInt 0)], JDict [(''id'', JStr ''thresholds''),
       (''value'', THRESHOLDS CapacityPercent)]])]], o_sort_col := Some ''Interface'',
       o_sort_desc := Some False\<rparr>), 12, 23, 12, 7)]\<close>

definition ops_health :: "placement list" where
  \<open>ops_health =
    [(text_panel 400 '''' (''## Router Health'' @ [NL] @
       ''Capacity and exporter health. Thresholds are tied to actual utilization '' @
       ''or scrape freshness; no decorative limits.''), 0, 0, 24, 3),
     (gauge 401 ''CPU Busy'' (''1 - avg(rate(node_cpu_seconds_total{'' @ PROM_FILTER @
       '', mode="idle"}[$__rate_interval]))'') ''CPU busy fraction across all cores.'' kw,
       0, 3, 6, 7),
     (gauge 402 ''Memory Used'' (''1 - (node_memory_MemAvailable_bytes{'' @ PROM_FILTER @
       ''} / node_memory_MemTotal_bytes{'' @ PROM_FILTER @ ''})'')
       ''Memory utilization using MemAvailable.'' kw, 6, 3, 6, 7),
     (gauge 403 ''Overlay Flash Used'' (''openwrt_filesystem_used_percent{'' @ PROM_FILTER @
       '', mount="/overlay"} / 100'') ''Writable overlay/rootfs_data utilization.'' kw,
       12, 3, 6, 7),
     (gauge 404 ''File Descriptors Used'' (''node_filefd_allocated{'' @ PROM_FILTER @
       ''} / node_filefd_maximum{'' @ PROM_FILTER @ ''}'') ''Open file descriptor utilization.''
       kw, 18, 3, 6, 7),
     (timeseries 405 ''CPU Usage by Mode'' [prom_query (''sum(rate(node_cpu_seconds_total{'' @
       PROM_FILTER @ '', mode="user"}[$__rate_interval]))'') ''user'' ''A'' ''time_series'' False,
       prom_query (''sum(rate(node_cpu_seconds_total{'' @ PROM_FILTER @
       '', mode="system"}[$__rate_interval]))'') ''system'' ''B'' ''time_series'' False,
       prom_query (''sum(rate(node_cpu_seconds_total{'' @ PROM_FILTER @
       '', mode="softirq"}[$__rate_interval]))'') ''softirq'' ''C'' ''time_series'' False,
       prom_query (''sum(rate(node_cpu_seconds_total{'' @ PROM_FILTER @
       '', mode="iowait"}[$__rate_interval]))'') ''iowait'' ''D'' ''time_series'' False] ''none''
       ''CPU time by mode. softirq is normal router packet processing.''
       (kw\<lparr>o_stacked := Some True, o_fill := Some 45\<rparr>), 0, 10, 12, 8),
     (timeseries 406 ''Load Average'' [prom_query (''node_load1{'' @ PROM_FILTER @ ''}'') ''1 min''
       ''A'' ''time_series'' False, prom_query (''node_load5{'' @ PROM_FILTER @ ''}'') ''5 min''
       ''B'' ''time_series'' False, prom_query (''node_load15{'' @ PROM_FILTER @ ''}'') ''15 min''
       ''C'' ''time_series'' False] ''none''
       ''System load averages. Compare with router CPU thread count for saturation.''
       (kw\<lparr>o_line_interpolation := Some ''linear''\<rparr>), 12, 10, 12, 8),
     (timeseries 407 ''Memory Breakdown'' [prom_query (''node_memory_MemTotal_bytes{'' @ PROM_FILTER @
       ''} - node_memory_MemAvailable_bytes{'' @ PROM_FILTER @ ''}'') ''Used'' ''A''
       ''time_series'' False, prom_query (''node_memory_MemAvailable_bytes{'' @ PROM_FILTER @
       ''}'') ''Available'' ''B'' ''time_series'' False, prom_query
       (''node_memory_Buffers_bytes{'' @ PROM_FILTER @ ''} + node_memory_Cached_bytes{'' @
       PROM_FILTER @ ''}'') ''Buffers+Cache'' ''C'' ''time_series'' False] ''bytes''
       ''RAM breakdown. Buffers/cache are generally reclaimable.''
       (kw\<lparr>o_stacked := Some True, o_fill := Some 40\<rparr>), 0, 18, 12, 8),
     (timeseries 408 ''Conntrack Sessions vs Limit'' [prom_query (''node_nf_conntrack_entries{'' @
       PROM_FILTER @ ''}'') ''Active sessions'' ''A'' ''time_series'' False, prom_query
       (''node_nf_conntrack_entries_limit{'' @ PROM_FILTER @ ''}'') ''Limit'' ''B''
       ''time_series'' False] ''none''
       (''Conntrack active sessions and configured limit. Utilization percentage is '' @
       ''shown in the gauges and hero stats.'') (kw\<lparr>o_overrides := Some [color_override
       ''Limit'' YELLOW]\<rparr>), 12, 18, 12, 8),
     (stat 409 ''CPU Temperature'' (''max(node_thermal_zone_temp{'' @ PROM_FILTER @
       ''}) or max(node_hwmon_temp_celsius{'' @ PROM_FILTER @ ''})'') ''celsius''
       ''Temperature from optional thermal/hwmon collectors.''
       (kw\<lparr>o_thresholds_key := Some Neutral, o_graph := Some True\<rparr>), 0, 26, 6, 5),
     (stat 410 ''Reboots in Range'' (''max(changes(node_boot_time_seconds{'' @ PROM_FILTER @
       ''}[$__range])) or vector(0)'') ''none'' ''Boot-time changes in the selected time range.''
       (kw\<lparr>o_thresholds_key := Some OkBad\<rparr>), 6, 26, 6, 5),
     (stat 411 ''Failed Collectors'' (''sum(1 - node_scrape_collector_success{'' @ PROM_FILTER @
       ''}) or vector(0)'') ''none'' ''Exporter collectors reporting failure. Zero is explicit.''
       (kw\<lparr>o_thresholds_key := Some OkBad\<rparr>), 12, 26, 6, 5),
     (stat 412 ''Textfile Age'' (''max(time() - node_textfile_mtime_seconds{'' @ PROM_FILTER @
       ''}) or vector(999999)'') ''s''
       (''Age of the oldest custom textfile metric. The slowest helpers (filesystem,'' @
       '' inodes) run every 10 minutes, so a healthy value cycles up to about 10 '' @
       ''minutes; yellow past 11 minutes indicates a genuinely missed run.'')
       (kw\<lparr>o_thresholds_key := Some Freshness, o_graph := Some True\<rparr>), 18, 26, 6, 5),
     (table 413 ''Router Firmware'' [prom_query (''node_openwrt_info{'' @ PROM_FILTER @ ''}'') ''''
       ''A'' ''table'' True] ''Firmware and hardware identity without scrape plumbing.''
       (kw\<lparr>o_transformations := Some [organize [''Time'', ''__name__'', ''Value'',
       ''cluster'', ''endpoint'', ''instance'', ''job'', ''namespace'', ''prometheus'',
       ''prometheus_replica'', ''router'', ''service''] [(''board_name'', ''Board''),
       (''model'', ''Model''), (''release'', ''OpenWrt Release''), (''revision'', ''Revision''),
       (''target'', ''Target''), (''system'', ''CPU'')] [(''Board'', 0), (''Model'', 1),
       (''OpenWrt Release'', 2), (''Revision'', 3), (''Target'', 4), (''CPU'', 5)]]\<rparr>),
       0, 31, 12, 6),
     (table 414 ''WAN Identity'' [prom_query (''wan_info{'' @ PROM_FILTER @ ''}'') '''' ''A'' ''table''
       True] (''WAN IP, public IP, and hostname from this repo's textfile collector.'')
       (kw\<lparr>o_transformations := Some [organize [''Time'', ''__name__'', ''Value'',
       ''cluster'', ''endpoint'', ''instance'', ''job'', ''namespace'', ''prometheus'',
       ''prometheus_replica'', ''router'', ''service''] [(''hostname'', ''Hostname''),
       (''publicip'', ''Public IP''), (''wanip'', ''WAN IP'')] [(''Hostname'', 0),
       (''WAN IP'', 1), (''Public IP'', 2)]]\<rparr>), 12, 31, 12, 6),
     (stat 415 ''Services Up'' (''sum(openwrt_service_up{'' @ PROM_FILTER @ ''}) or vector(0)'')
       ''none''
       (''Count of monitored init services currently running. Compare with the service '' @
       ''table below to see which are down.'') (kw\<lparr>o_thresholds_key := Some Neutral,
       o_color_mode := Some ''value''\<rparr>), 0, 37, 6, 5),
     (stat 416 ''Carrier Flaps in Range'' (''sum(increase(openwrt_link_carrier_changes_total{'' @
       PROM_FILTER @ ''}[$__range])) or vector(0)'') ''none''
       (''Total interface carrier (link up/down) transitions in the selected range. '' @
       ''Repeated flaps indicate a bad cable, port, or negotiation problem.'')
       (kw\<lparr>o_thresholds_key := Some OkBad, o_graph := Some True\<rparr>), 6, 37, 6, 5),
     (stat 417 ''TCP Accept-Queue Drops'' (''sum(increase(openwrt_tcp_listen_drops_total{'' @
       PROM_FILTER @ ''}[$__range]) + increase(openwrt_tcp_listen_overflows_total{'' @
       PROM_FILTER @ ''}[$__range])) or vector(0)'') ''none''
       (''Connections dropped because a listening socket's accept queue overflowed. '' @
       ''Non-zero means a local service could not keep up with inbound connections.'')
       (kw\<lparr>o_thresholds_key := Some OkBad, o_graph := Some True\<rparr>), 12, 37, 6, 5),
     (stat 418 ''Softnet Backlog Drops'' (''sum(increase(openwrt_softnet_dropped_total{'' @
       PROM_FILTER @ ''}[$__range])) or vector(0)'') ''none''
       (''Packets dropped from the per-CPU softirq backlog in range. Non-zero points '' @
       ''to CPU saturation on the network receive path.'')
       (kw\<lparr>o_thresholds_key := Some OkBad, o_graph := Some True\<rparr>), 18, 37, 6, 5),
     (table 419 ''Service Health'' [prom_query (''openwrt_service_up{'' @ PROM_FILTER @ ''}'') ''''
       ''A'' ''table'' True, prom_query (''openwrt_service_enabled{'' @ PROM_FILTER @ ''}'') ''''
       ''B'' ''table'' True]
       (''Per-service running and boot-enabled state from the service-health helper. '' @
       ''A service enabled but not running is the interesting case.'')
       (kw\<lparr>o_transformations := Some [tf ''merge'' [], organize [''Time'', ''__name__'',
       ''cluster'', ''job'', ''router'', ''endpoint'', ''instance'', ''namespace'',
       ''prometheus'', ''prometheus_replica'', ''service''] [(''exported_service'', ''Service''),
       (''Value #A'', ''Running''), (''Value #B'', ''Enabled'')] []],
       o_overrides := Some [JDict [(''matcher'', JDict [(''id'', JStr ''byName''),
       (''options'', JStr ''Running'')]), (''properties'',
       JList [JDict [(''id'', JStr ''custom.cellOptions''),
       (''value'', JDict [(''type'', JStr ''color-background'')])],
       JDict [(''id'', JStr ''mappings''), (''value'', JList BOOLEAN_OK_MAPPINGS)]])],
       JDict [(''matcher'', JDict [(''id'', JStr ''byName''), (''options'', JStr ''Enabled'')]),
       (''properties'', JList [JDict [(''id'', JStr ''custom.cellOptions''),
       (''value'', JDict [(''type'', JStr ''color-background'')])],
       JDict [(''id'', JStr ''mappings''), (''value'', JList [JDict [(''type'', JStr ''value''),
       (''options'', JDict [(''1'', JDict [(''text'', JStr ''Yes''), (''color'', JStr GREEN),
       (''index'', JInt 0)]), (''0'', JDict [(''text'', JStr ''No''), (''color'', JStr GRAY),
       (''index'', JInt 1)])])]])]])]], o_sort_col := Some ''Running'',
       o_sort_desc := Some False\<rparr>), 0, 42, 12, 8),
     (timeseries 420 ''Firewall Throughput by Chain'' [prom_query
       (''sum by(chain) (rate(openwrt_firewall_chain_bytes_total{'' @ PROM_FILTER @
       ''}[$__rate_interval]) * 8)'') ''{{chain}}'' ''A'' ''time_series'' False] ''bps''
       (''Traffic passing each firewall chain, from nftables byte counters. A view '' @
       ''of where the packet-processing load sits.'')
       (kw\<lparr>o_line_interpolation := Some ''linear''\<rparr>), 12, 42, 12, 8)]\<close>

definition ops_logs :: "placement list" where
  \<open>ops_logs =
    [(text_panel 500 '''' (''## Logs & Security'' @ [NL] @
       ''Summary stats use scalar LogQL aggregation. BusyBox cron command-start records '' @
       ''can carry error severity while the command exits normally; those records '' @
       ''are excluded from error/warning summaries and explained here.''), 0, 0, 24, 3),
     (loki_stat 501 ''Errors (1h)'' (''sum(count_over_time({'' @ LOKI_FILTER @
       '', message_severity=~"error|err|crit|critical|alert|emergency|emerg"} '' @
       CRON_CMD_FILTER @ '' [1h])) or vector(0)'')
       (''Syslog severity error/critical lines excluding normal BusyBox cron command-start '' @
       ''records.'') (kw\<lparr>o_thresholds_key := Some OkBad\<rparr>), 0, 3, 4, 4),
     (loki_stat 502 ''Warnings (1h)'' (''sum(count_over_time({'' @ LOKI_FILTER @
       '', message_severity=~"warning|warn"} '' @ CRON_CMD_FILTER @ '' [1h])) or vector(0)'')
       ''Syslog warning lines excluding cron command-start noise.''
       (kw\<lparr>o_thresholds_key := Some OkBad\<rparr>), 4, 3, 4, 4),
     (loki_stat 503 ''DHCP Events (1h)'' (''sum(count_over_time({'' @ LOKI_FILTER @
       ''} |~ "DHCP|dhcp|dnsmasq|odhcpd" [1h])) or vector(0)'')
       ''DHCP/dnsmasq/odhcpd log events.'' (kw\<lparr>o_thresholds_key := Some Neutral\<rparr>),
       8, 3, 4, 4),
     (loki_stat 504 ''Firewall Drops (1h)'' (''sum(count_over_time({'' @ LOKI_FILTER @ ''} |~ "'' @
       [BS] @ [BS] @ ''b(DROP|REJECT|drop|reject)'' @ [BS] @ [BS] @ ''b" [1h])) or vector(0)'')
       ''Firewall drop/reject events when firewall logging is enabled.''
       (kw\<lparr>o_thresholds_key := Some OkBad\<rparr>), 12, 3, 4, 4),
     (loki_stat 505 ''SSH Failures (1h)'' (''sum(count_over_time({'' @ LOKI_FILTER @
       ''} |~ "(Failed password|failed password|login failed|Bad password|Invalid '' @
       ''user)" [1h])) or vector(0)'')
       (''Precise SSH authentication failure patterns; does not match ordinary 'fails: '' @
       ''Exited normally' text.'') (kw\<lparr>o_thresholds_key := Some OkBad\<rparr>),
       16, 3, 4, 4),
     (loki_stat 506 ''Total Log Lines (1h)'' (''sum(count_over_time({'' @ LOKI_FILTER @
       ''} [1h])) or vector(0)'') ''One aggregate count across the Loki stream.''
       (kw\<lparr>o_thresholds_key := Some Neutral\<rparr>), 20, 3, 4, 4),
     (timeseries 507 ''Log Rate by Severity'' [loki_query (''sum by(message_severity) (rate({'' @
       LOKI_FILTER @ ''} '' @ CRON_CMD_FILTER @ '' [$__auto]))'') ''A'' ''range''] ''none''
       (''Rate of non-cron syslog lines grouped by Alloy syslog severity label. Loki '' @
       ''metric queries use Grafana's $__auto interval.'')
       (kw\<lparr>o_line_interpolation := Some ''linear''\<rparr>), 0, 7, 24, 7),
     (logs_panel 508 ''Recent System Logs'' (''{'' @ LOKI_FILTER @ ''}'')
       ''Bounded raw OpenWrt syslog stream. Use Explore for unrestricted investigation.'',
       0, 14, 24, 10),
     (logs_panel 509 ''DHCP / DNSMasq / odhcpd'' (''{'' @ LOKI_FILTER @
       ''} |~ "DHCP|dhcp|dnsmasq|odhcpd"'')
       ''Lease assignments, renewals, releases, and DHCPv6/RA activity.'', 0, 24, 12, 6),
     (logs_panel 510 ''Firewall DROP / REJECT'' (''{'' @ LOKI_FILTER @ ''} |~ "'' @ [BS] @ [BS] @
       ''b(DROP|REJECT|drop|reject)'' @ [BS] @ [BS] @ ''b"'')
       ''Firewall events. Empty is normal unless logging is enabled.'', 12, 24, 12, 6),
     (logs_panel 511 ''Kernel / Driver'' (''{'' @ LOKI_FILTER @
       ''} |~ "kernel|Kernel|netifd|device|link is|entered forwarding|left promiscuous"'')
       ''Kernel, netifd, and link-state events.'', 0, 30, 12, 6),
     (logs_panel 512 ''SSH Security Events'' (''{'' @ LOKI_FILTER @
       ''} |~ "(Failed password|failed password|login failed|Bad password|Invalid '' @
       ''user|Connection closed by authenticating user)"'')
       (''SSH authentication and pre-auth close events. Normal '0 fails: Exited normally' '' @
       ''cron text is intentionally not classified as failure.''), 12, 30, 12, 6)]\<close>

definition ops_optionals :: "(int \<times> string \<times> string) list" where
  \<open>ops_optionals =
    [(601, ''mwan3'', (''max(present_over_time(mwan3_interface_up{'' @ PROM_FILTER @
       ''}[$__range])) or vector(0)'')),
     (602, ''SQM / Cake'', (''max(openwrt_tc_available{'' @ PROM_FILTER @ ''}) or vector(0)'')),
     (603, ''nftables'', (''max(present_over_time(nft_counter_packets{'' @ PROM_FILTER @
       ''}[$__range])) or vector(0)'')),
     (604, ''IPv6 snmp6'', (''max(present_over_time(snmp6_Ip6InReceives{'' @ PROM_FILTER @
       ''}[$__range])) or vector(0)'')),
     (605, ''Tailscale'', (''max(present_over_time(node_network_receive_bytes_total{'' @ PROM_FILTER @
       '', device="$vpn_interface"}[$__range])) or vector(0)'')),
     (606, ''WiFi Optional'', (''max(present_over_time(wifi_network_quality{'' @ PROM_FILTER @
       ''}[$__range])) or vector(0)''))]\<close>

definition ops_opt :: "placement list" where
  \<open>ops_opt =
    [(text_panel 600 '''' (''## Optional & Diagnostics'' @ [NL] @
       ''Optional collectors live here. Missing metrics render as Not collected/Unavailable '' @
       ''instead of green failures or large blank Overview panels.''), 0, 0, 24, 3)] @
    map (\<lambda>(i, pid, title, expr). (stat pid title expr ''none''
       (''Availability of optional '' @ title @ '' metrics in the selected range.'')
       (kw\<lparr>o_mappings := Some AVAILABILITY_MAPPINGS, o_thresholds_key := Some Unavailable,
       o_color_mode := Some ''value''\<rparr>), i * 4, 3, 4, 3))
       (zip (map int [0..<length ops_optionals]) ops_optionals) @
    [(table 607 ''mwan3 Interface Status'' [prom_query (''mwan3_interface_online{'' @ PROM_FILTER @
       ''}'') '''' ''A'' ''table'' True, prom_query (''mwan3_interface_score{'' @ PROM_FILTER @
       ''}'') '''' ''B'' ''table'' True, prom_query (''mwan3_interface_uptime{'' @ PROM_FILTER @
       ''}'') '''' ''C'' ''table'' True]
       (''Optional mwan3 multi-WAN status: one row per interface with a single online/offline '' @
       ''cell rather than the raw per-state enum. Empty means mwan3 is not installed '' @
       ''or not collected.'') (kw\<lparr>o_transformations := Some [tf ''merge'' [], organize
       [''Time'', ''__name__'', ''status'', ''cluster'', ''job'', ''router'', ''endpoint'',
       ''instance'', ''namespace'', ''prometheus'', ''prometheus_replica'', ''service'']
       [(''interface'', ''Interface''), (''Value #A'', ''Online''), (''Value #B'', ''Score''),
       (''Value #C'', ''Uptime'')] []], o_overrides := Some [JDict [(''matcher'',
       JDict [(''id'', JStr ''byName''), (''options'', JStr ''Online'')]), (''properties'',
       JList [JDict [(''id'', JStr ''custom.cellOptions''),
       (''value'', JDict [(''type'', JStr ''color-background'')])],
       JDict [(''id'', JStr ''mappings''), (''value'', JList BOOLEAN_OK_MAPPINGS)]])],
       JDict [(''matcher'', JDict [(''id'', JStr ''byName''), (''options'', JStr ''Uptime'')]),
       (''properties'', JList [JDict [(''id'', JStr ''unit''), (''value'', JStr ''s'')]])]],
       o_sort_col := Some ''Interface'', o_sort_desc := Some False\<rparr>), 0, 6, 12, 7),
     (timeseries 608 ''SQM / Cake Backlog'' [prom_query (''openwrt_tc_qdisc_backlog_bytes{'' @
       PROM_FILTER @ ''}'') ''{{device}} {{qdisc}}'' ''A'' ''time_series'' False] ''bytes''
       (''Qdisc backlog bytes from the SQM/helper script. Missing data means tc is '' @
       ''unavailable or the helper is not running.'')
       (kw\<lparr>o_line_interpolation := Some ''linear''\<rparr>), 12, 6, 6, 7),
     (timeseries 613 ''SQM / Cake Drops'' [prom_query (''rate(openwrt_tc_qdisc_drops_total{'' @
       PROM_FILTER @ ''}[$__rate_interval])'') ''{{device}} {{qdisc}} drops'' ''A''
       ''time_series'' False, prom_query (''rate(openwrt_tc_qdisc_overlimits_total{'' @
       PROM_FILTER @ ''}[$__rate_interval])'') ''{{device}} {{qdisc}} overlimits'' ''B''
       ''time_series'' False] ''pps''
       ''Qdisc drop and overlimit packet rates from the SQM/helper script.''
       (kw\<lparr>o_line_interpolation := Some ''linear''\<rparr>), 18, 6, 6, 7),
     (timeseries 609 ''nftables Named Counter Rate'' [prom_query
       (''sum by(name) (rate(nft_counter_packets{'' @ PROM_FILTER @ ''}[$__rate_interval]))'')
       ''{{name}}'' ''A'' ''time_series'' False] ''pps''
       (''Bounded named nftables counters only. Avoid source/destination/port-parameterized '' @
       ''counters.'') (kw\<lparr>o_line_interpolation := Some ''linear''\<rparr>), 0, 13, 8, 6),
     (timeseries 610 ''IPv6 Packets and Discards'' [prom_query (''rate(snmp6_Ip6InReceives{'' @
       PROM_FILTER @ ''}[$__rate_interval])'') ''IPv6 in {{device}}'' ''A'' ''time_series'' False,
       prom_query (''rate(snmp6_Ip6OutRequests{'' @ PROM_FILTER @ ''}[$__rate_interval])'')
       ''IPv6 out {{device}}'' ''B'' ''time_series'' False, prom_query
       (''rate(snmp6_Ip6InDiscards{'' @ PROM_FILTER @ ''}[$__rate_interval])'')
       ''IPv6 in discards {{device}}'' ''C'' ''time_series'' False, prom_query
       (''rate(snmp6_Ip6OutDiscards{'' @ PROM_FILTER @ ''}[$__rate_interval])'')
       ''IPv6 out discards {{device}}'' ''D'' ''time_series'' False] ''pps''
       ''Optional snmp6 IPv6 counters. Zero discards are normal.''
       (kw\<lparr>o_line_interpolation := Some ''linear''\<rparr>), 8, 13, 8, 6),
     (timeseries 611 ''Tailscale Interface Throughput'' [prom_query
       (''rate(node_network_receive_bytes_total{'' @ PROM_FILTER @
       '', device="$vpn_interface"}[$__rate_interval])'') ''VPN RX'' ''A'' ''time_series'' False,
       prom_query (''rate(node_network_transmit_bytes_total{'' @ PROM_FILTER @
       '', device="$vpn_interface"}[$__rate_interval])'') ''VPN TX'' ''B'' ''time_series'' False]
       ''Bps'' (''Optional VPN interface traffic. Missing data means the configured interface '' @
       ''is absent.'') (kw\<lparr>o_line_interpolation := Some ''linear''\<rparr>), 16, 13, 8, 6),
     (timeseries 614 ''IPv6 Throughput'' [prom_query (''rate(snmp6_Ip6InOctets{'' @ PROM_FILTER @
       '', device="all"}[$__rate_interval]) * 8'') ''IPv6 in'' ''A'' ''time_series'' False,
       prom_query (''rate(snmp6_Ip6OutOctets{'' @ PROM_FILTER @
       '', device="all"}[$__rate_interval]) * 8'') ''IPv6 out'' ''B'' ''time_series'' False]
       ''bps'' (''Router-wide IPv6 byte throughput from snmp6 counters. Zero is normal on '' @
       ''IPv4-only WANs.'') (kw\<lparr>o_overrides := Some [color_override ''IPv6 in'' GREEN,
       color_override ''IPv6 out'' BLUE]\<rparr>), 0, 19, 8, 7),
     (timeseries 615 ''ICMPv6 Message Rate'' [prom_query
       (''sum(rate(snmp6_Icmp6InRouterAdvertisements{'' @ PROM_FILTER @
       ''}[$__rate_interval]) + rate(snmp6_Icmp6OutRouterAdvertisements{'' @ PROM_FILTER @
       ''}[$__rate_interval]))'') ''Router advertisements'' ''A'' ''time_series'' False,
       prom_query (''sum(rate(snmp6_Icmp6InNeighborSolicits{'' @ PROM_FILTER @
       ''}[$__rate_interval]) + rate(snmp6_Icmp6OutNeighborSolicits{'' @ PROM_FILTER @
       ''}[$__rate_interval]))'') ''Neighbor solicits'' ''B'' ''time_series'' False, prom_query
       (''sum(rate(snmp6_Icmp6InEchos{'' @ PROM_FILTER @ ''}[$__rate_interval]))'')
       ''Echo requests in'' ''C'' ''time_series'' False, prom_query
       (''sum(rate(snmp6_Icmp6InErrors{'' @ PROM_FILTER @ ''}[$__rate_interval]))'')
       ''ICMPv6 errors'' ''D'' ''time_series'' False] ''pps''
       (''ICMPv6 control-plane activity: RA/ND is normal IPv6 housekeeping; a spike '' @
       ''in errors is not.'') (kw\<lparr>o_line_interpolation := Some ''linear'',
       o_overrides := Some [color_override ''ICMPv6 errors'' RED]\<rparr>), 8, 19, 8, 7),
     (table 616 ''IPv6 WAN & Prefix Health'' [prom_query (''openwrt_wan6_up{'' @ PROM_FILTER @ ''}'')
       '''' ''A'' ''table'' True, prom_query (''openwrt_ipv6_default_route_up{'' @ PROM_FILTER @
       ''}'') '''' ''B'' ''table'' True, prom_query (''openwrt_ipv6_global_addresses{'' @
       PROM_FILTER @ ''}'') '''' ''C'' ''table'' True, prom_query
       (''openwrt_ipv6_prefix_valid_seconds{'' @ PROM_FILTER @ ''}'') '''' ''D'' ''table'' True]
       (''IPv6 WAN reachability, default route, global address count, and delegated-prefix '' @
       ''remaining lifetime. All zero means the ISP is not delegating IPv6.'')
       (kw\<lparr>o_transformations := Some [tf ''merge'' [], organize [''Time'', ''__name__'',
       ''cluster'', ''job'', ''endpoint'', ''instance'', ''namespace'', ''prometheus'',
       ''prometheus_replica'', ''service''] [(''router'', ''Router''),
       (''Value #A'', ''WAN6 Up''), (''Value #B'', ''Default Route''),
       (''Value #C'', ''Global Addrs''), (''Value #D'', ''Prefix Valid (s)'')] [], organize [] []
       [(''Router'', 0)]], o_overrides := Some [JDict [(''matcher'',
       JDict [(''id'', JStr ''byName''), (''options'', JStr ''Prefix Valid (s)'')]),
       (''properties'', JList [JDict [(''id'', JStr ''unit''), (''value'', JStr ''s'')]])],
       JDict [(''matcher'', JDict [(''id'', JStr ''byRegexp''),
       (''options'', JStr ''/WAN6 Up|Default Route/'')]), (''properties'',
       JList [JDict [(''id'', JStr ''custom.cellOptions''),
       (''value'', JDict [(''type'', JStr ''color-background'')])],
       JDict [(''id'', JStr ''mappings''), (''value'', JList BOOLEAN_OK_MAPPINGS)]])]],
       o_sort_col := Some ''Router'', o_sort_desc := Some False\<rparr>), 16, 19, 8, 7),
     (timeseries 617 ''UDP6 Errors'' [prom_query (''sum(rate(snmp6_Udp6InErrors{'' @ PROM_FILTER @
       ''}[$__rate_interval]))'') ''In errors'' ''A'' ''time_series'' False, prom_query
       (''sum(rate(snmp6_Udp6NoPorts{'' @ PROM_FILTER @ ''}[$__rate_interval]))'') ''No port''
       ''B'' ''time_series'' False, prom_query (''sum(rate(snmp6_Udp6RcvbufErrors{'' @
       PROM_FILTER @ ''}[$__rate_interval]))'') ''Receive-buffer errors'' ''C'' ''time_series''
       False] ''pps''
       (''IPv6 UDP error rates. Sustained receive-buffer errors indicate a socket '' @
       ''consumer falling behind.'') (kw\<lparr>o_line_interpolation := Some ''linear'',
       o_overrides := Some [regexp_color_override ''/error/i'' RED]\<rparr>), 0, 26, 12, 6),
     (timeseries 618 ''IPv6 Fragmentation & Reassembly'' [prom_query
       (''sum(rate(snmp6_Ip6ReasmReqds{'' @ PROM_FILTER @ ''}[$__rate_interval]))'')
       ''Reassembly required'' ''A'' ''time_series'' False, prom_query
       (''sum(rate(snmp6_Ip6ReasmFails{'' @ PROM_FILTER @ ''}[$__rate_interval]))'')
       ''Reassembly failed'' ''B'' ''time_series'' False, prom_query
       (''sum(rate(snmp6_Ip6FragFails{'' @ PROM_FILTER @ ''}[$__rate_interval]))'')
       ''Fragmentation failed'' ''C'' ''time_series'' False] ''pps''
       (''IPv6 fragment handling. Reassembly or fragmentation failures point to MTU/PMTUD '' @
       ''problems on the path.'') (kw\<lparr>o_line_interpolation := Some ''linear'',
       o_overrides := Some [regexp_color_override ''/failed/i'' RED]\<rparr>), 12, 26, 12, 6),
     (table 612 ''Metric Inventory'' [prom_query (''count by(__name__) ({'' @ PROM_FILTER @ ''})'')
       '''' ''A'' ''table'' True]
       (''Complete Prometheus metric inventory for this job, so every collected series '' @
       ''is discoverable from the dashboard itself.'')
       (kw\<lparr>o_transformations := Some [organize [''Time''] [(''__name__'', ''Metric''),
       (''Value'', ''Series Count'')] [], sort_by ''Metric'' False, limit 500],
       o_sort_col := Some ''Metric'', o_sort_desc := Some False\<rparr>), 0, 32, 24, 10)]\<close>

definition ops_variables :: "json list" where
  \<open>ops_variables =
     [datasource_var ''DS_PROMETHEUS'' ''Prometheus'' ''prometheus'' ''prometheus'',
     datasource_var ''DS_LOKI'' ''Loki'' ''loki'' ''loki'', query_var ''router'' ''Router''
     ''label_values(node_load1{job="openwrt"}, router)'' ''openwrt'' True True ''.*'', query_var
     ''wan_interface'' ''WAN interface''
     ''label_values(node_network_info{job="openwrt", router=~"$router"}, device)'' ''wan'' False
     False ''.*'', query_var ''lan_interface'' ''LAN interface''
     ''label_values(node_network_info{job="openwrt", router=~"$router"}, device)'' ''br-lan''
     False False ''.*'', query_var ''wifi_ap'' ''WiFi AP interface''
     (''label_values(node_network_info{job="openwrt", router=~"$router", device=~"phy.*-ap.*|wlan.*"},'' @
     '' device)'') ''All'' True True ''phy.*-ap.*|wlan.*'', query_var ''vpn_interface''
     ''VPN interface''
     ''label_values(node_network_info{job="openwrt", router=~"$router"}, device)'' ''tailscale0''
     False False ''.*'']\<close>

definition ops_tabs :: "(string \<times> placement list) list" where
  \<open>ops_tabs =
    [(''Overview'', ops_overview),
     (''WAN & Internet'', ops_wan),
     (''WiFi & Clients'', ops_wifi),
     (''LAN, NAT & Devices'', ops_lan),
     (''Client Insights'', ops_clients),
     (''DNS & DHCP'', ops_dns),
     (''Router Health'', ops_health),
     (''Logs & Security'', ops_logs),
     (''Optional & Diagnostics'', ops_opt)]\<close>

definition ops_spec :: "item list \<Rightarrow> json list \<Rightarrow> json" where
  \<open>ops_spec elements tabs =
     JDict [(''title'', JStr (''OpenWrt '' @ [CHR 0xE2, CHR 0x80, CHR 0x94] @ '' Operations'')),
     (''description'',
     JStr (''Single-tabbed OpenWrt operations dashboard for router health, WAN, WiFi,'' @
     '' devices, capacity, logs, and optional collectors.'')), (''tags'', JList [JStr ''openwrt'',
     JStr ''operations'', JStr ''router'']), (''cursorSync'', JStr ''Crosshair''),
     (''editable'', JBool True), (''preload'', JBool False), (''liveNow'', JBool False),
     (''annotations'', JList [JDict [(''kind'', JStr ''AnnotationQuery''), (''spec'',
     JDict [(''builtIn'', JBool True), (''enable'', JBool True), (''hide'', JBool True),
     (''iconColor'', JStr ''rgba(0, 211, 255, 1)''), (''name'', JStr ''Annotations & Alerts''),
     (''query'', JDict [(''kind'', JStr ''DataQuery''), (''group'', JStr ''grafana''),
     (''version'', JStr ''v0''), (''spec'', JDict [])])])]]), (''links'', JList []),
     (''timeSettings'', JDict [(''timezone'', JStr ''browser''), (''from'', JStr ''now-3h''),
     (''to'', JStr ''now''), (''autoRefresh'', JStr ''30s''), (''autoRefreshIntervals'',
     JList [JStr ''10s'', JStr ''30s'', JStr ''1m'', JStr ''5m'', JStr ''15m'']),
     (''hideTimepicker'', JBool False), (''fiscalYearStartMonth'', JInt 0)]),
     (''variables'', JList ops_variables), (''elements'', JDict elements), (''layout'',
     JDict [(''kind'', JStr ''TabsLayout''), (''spec'', JDict [(''tabs'', JList tabs)])])]\<close>

definition ops_dashboard :: "json \<Rightarrow> json" where
  \<open>ops_dashboard spec =
     JDict [(''apiVersion'', JStr ''dashboard.grafana.app/v2beta1''),
     (''kind'', JStr ''Dashboard''),
     (''metadata'', JDict [(''name'', JStr ''openwrt-operations'')]), (''spec'', spec)]\<close>

end
