(* ===== verification/Topology_Dashboard.thy ===== *)
theory Topology_Dashboard
  imports Builder
begin

text \<open>
  The topology dashboard of \<open>scripts/build_openwrt_topology_dashboard.py\<close>: the queries that
  reconcile several routers into one graph, the node graph panel, the tabs and the dashboard.
\<close>

definition CLIENTS_DASHBOARD :: string where
  \<open>CLIENTS_DASHBOARD = ''openwrt-clients''\<close>

definition MISSION_CONTROL_DASHBOARD :: string where
  \<open>MISSION_CONTROL_DASHBOARD = ''openwrt-mission-control''\<close>

definition NODE_METRIC :: string where
  \<open>NODE_METRIC = ''openwrt_topology_node''\<close>

definition EDGE_METRIC :: string where
  \<open>EDGE_METRIC = ''openwrt_topology_edge''\<close>

definition INFRA_METRIC :: string where
  \<open>INFRA_METRIC = ''openwrt_topology_infra_mac''\<close>

definition NOISE_COLUMNS :: "string list" where
  \<open>NOISE_COLUMNS =
     [''Time'', ''__name__'', ''authority'', ''job'', ''instance'', ''router'', ''cluster'',
     ''endpoint'', ''namespace'', ''prometheus'', ''prometheus_replica'', ''service'']\<close>

definition topo_field_override :: "string \<Rightarrow> json list \<Rightarrow> json" where
  \<open>topo_field_override name properties =
     JDict [(''matcher'', JDict [(''id'', JStr ''byName''), (''options'', JStr name)]),
     (''properties'', JList properties)]\<close>

definition selector :: "string \<Rightarrow> string \<Rightarrow> string" where
  \<open>selector metric extra =
     (metric @ ''{'' @ PROM_FILTER @ (if extra \<noteq> [] then ('', '' @ extra) else '''') @
     ''}'')\<close>

definition prefer_authority :: "string \<Rightarrow> string" where
  \<open>prefer_authority metric =
    (let first = selector metric ''authority="1"'' in
     let fallback = selector metric ''authority="0"'' in
     (''('' @ first @ '' or ('' @ fallback @ '' unless on(id) '' @ first @ ''))''))\<close>

definition infra_as :: "string \<Rightarrow> string" where
  \<open>infra_as label =
     (''label_replace('' @ selector INFRA_METRIC '''' @ '', "'' @ label @
     ''", "client:$1", "mac", "(.+)")'')\<close>

definition TRAFFIC_BY_MAC :: string where
  \<open>TRAFFIC_BY_MAC =
     (''sum by (mac) (rate('' @ selector ''openwrt_device_traffic_bytes_total'' '''' @
     ''[$__rate_interval]) * on(device) group_left(mac) '' @ selector ''openwrt_device_info''
     '''' @ '')'')\<close>

definition traffic_as :: "string \<Rightarrow> string" where
  \<open>traffic_as kind =
     (''sum by (id) (label_replace('' @ TRAFFIC_BY_MAC @ '', "id", "'' @ kind @
     '':$1", "mac", "(.+)"))'')\<close>

definition overlay_traffic :: "string \<Rightarrow> string \<Rightarrow> string" where
  \<open>overlay_traffic base traffic =
    (let zeroed = (''(('' @ base @ '') * 0)'') in
     (''(('' @ zeroed @ '' + on(id) group_left() ('' @ traffic @ '')) or '' @ zeroed @ '')''))\<close>

definition nodes_expr :: "string" where
  \<open>nodes_expr =
    (let reconciled = (''('' @ prefer_authority NODE_METRIC @ '' unless on(id) '' @ infra_as
       ''id'' @ '')'') in
     overlay_traffic reconciled (traffic_as ''client''))\<close>

definition edges_expr :: "string" where
  \<open>edges_expr =
    (let reconciled = prefer_authority EDGE_METRIC in
     let assoc_as_lan = (''label_replace('' @ selector EDGE_METRIC ''id=~"assoc:.+"'' @
       '', "id", "lan:$1", "id", "assoc:(.+)")'') in
     let reconciled = (''('' @ reconciled @ '' unless on(id) '' @ assoc_as_lan @ '')'') in
     let reconciled = (''('' @ reconciled @ '' unless on(target) '' @ infra_as ''target'' @
       '')'') in
     overlay_traffic reconciled (''('' @ traffic_as ''lan'' @ '' or '' @ traffic_as ''assoc'' @
       '')''))\<close>

definition NODES_EXPR :: string where
  \<open>NODES_EXPR = nodes_expr\<close>

definition EDGES_EXPR :: string where
  \<open>EDGES_EXPR = edges_expr\<close>

definition NODES_RAW :: string where
  \<open>NODES_RAW =
     selector NODE_METRIC ''''\<close>

definition EDGES_RAW :: string where
  \<open>EDGES_RAW =
     selector EDGE_METRIC ''''\<close>

definition topo_availability_expr :: "string \<Rightarrow> string \<Rightarrow> string" where
  \<open>topo_availability_expr metric_name collector =
    (if collector \<noteq> [] then (''(max('' @ selector metric_name '''' @
       '') * max(node_scrape_collector_success{'' @ PROM_FILTER @ '', collector="'' @ collector @
       ''"})) or vector(0)'')
     else (''max('' @ selector metric_name '''' @ '') or vector(0)''))\<close>

definition count_nodes :: "string \<Rightarrow> string" where
  \<open>count_nodes extra =
     ((''count('' @ selector NODE_METRIC (extra @ '', authority="1"'')) @ '') or vector(0)'')\<close>

definition NODE_LINKS :: "json list" where
  \<open>NODE_LINKS =
     [JDict [(''title'', JStr ''Client detail for this device''), (''url'', JStr (''/d/'' @
     CLIENTS_DASHBOARD @ ''/'' @ CLIENTS_DASHBOARD @
     ''?var-router=$router&var-mac=${__data.fields.detail__mac}&${__url_time_range}'')),
     (''targetBlank'', JBool False)],
     JDict [(''title'', JStr ''Mission Control for this router''), (''url'', JStr (''/d/'' @
     MISSION_CONTROL_DASHBOARD @ ''/'' @ MISSION_CONTROL_DASHBOARD @
     ''?var-router=$router&${__url_time_range}'')), (''targetBlank'', JBool False)]]\<close>

definition NODE_ARCS :: "json list" where
  \<open>NODE_ARCS =
     [JDict [(''field'', JStr ''arc__online''), (''color'', JStr GREEN)],
     JDict [(''field'', JStr ''arc__offline''), (''color'', JStr GRAY)],
     JDict [(''field'', JStr ''arc__ok''), (''color'', JStr GREEN)],
     JDict [(''field'', JStr ''arc__warn''), (''color'', JStr YELLOW)]]\<close>

definition nodegraph :: "int \<Rightarrow> string \<Rightarrow> string \<Rightarrow> item" where
  \<open>nodegraph pid title desc =
     panel pid title ''nodeGraph'' [prom_query EDGES_EXPR '''' ''edges'' ''table'' True,
     prom_query NODES_EXPR '''' ''nodes'' ''table'' True] ''Bps'' desc
     (kw\<lparr>o_options := Some [(''zoomMode'', JStr ''cooperative''),
     (''layoutAlgorithm'', JStr ''layered''), (''nodes'', JDict [(''mainStatUnit'', JStr ''Bps''),
     (''arcs'', JList NODE_ARCS)]), (''edges'', JDict [(''mainStatUnit'', JStr ''Bps'')])],
     o_field_defaults := Some [(''thresholds'', THRESHOLDS Neutral)],
     o_overrides := Some [topo_field_override ''id'' [JDict [(''id'', JStr ''links''),
     (''value'', JList NODE_LINKS)]]], o_transformations := Some [organize NOISE_COLUMNS
     [(''Value'', ''mainstat'')] []]\<rparr>)\<close>

definition topo_variables :: "json list" where
  \<open>topo_variables =
     [datasource_var ''DS_PROMETHEUS'' ''Prometheus'' ''prometheus'' ''prometheus'', query_var
     ''router'' ''Router'' ''label_values(node_load1{job="openwrt"}, router)'' ''openwrt'' True
     True ''.*'']\<close>

definition topo_weak_links :: string where
  \<open>topo_weak_links =
     ((''count('' @ selector EDGE_METRIC ''id=~"assoc:.+", color="red"'') @ '') or vector(0)'')\<close>

definition topo_overview :: "placement list" where
  \<open>topo_overview =
    [(text_panel 1 '''' (''## Network topology'' @ [NL] @
       ''internet -> modem -> gateway -> switch port / AP -> BSSID -> client, built '' @
       ''from the same identity data as the clients dashboard. Node and edge frames '' @
       ''come from the same scrape (topology.lua), so a client that disappears never '' @
       ''leaves a dangling edge. Every exporter contributes only what it can see '' @
       ''first-hand: a downstream AP never invents an uplink, and only the gateway '' @
       ''names clients, because only the gateway runs DHCP.''), 0, 0, 24, 3),
     (stat 2 ''Topology Collector'' (topo_availability_expr ''openwrt_topology_collector_available''
       ''topology'') ''none''
       (''Collector availability gated by both the topology flag and the Lua exporter's '' @
       ''per-collector scrape success.'') (kw\<lparr>o_mappings := Some AVAILABILITY_MAPPINGS,
       o_thresholds_key := Some Unavailable, o_color_mode := Some ''value''\<rparr>), 0, 3, 6, 4),
     (stat 3 ''Nodes'' (''count('' @ NODES_EXPR @ '') or vector(0)'') ''none''
       (''Nodes actually rendered, after cross-router reconciliation: placeholder '' @
       ''duplicates and routers appearing as each other's clients are already removed.'')
       (kw\<lparr>o_graph := Some True, o_color_mode := Some ''value''\<rparr>), 6, 3, 6, 4),
     (stat 4 ''Edges'' (''count('' @ EDGES_EXPR @ '') or vector(0)'') ''none''
       (''Edges actually rendered (wan/nat/ap/uplink/link/radio/assoc/lan), after '' @
       ''the wired-vs-wifi conflict is resolved.'') (kw\<lparr>o_graph := Some True,
       o_color_mode := Some ''value''\<rparr>), 12, 3, 6, 4),
     (stat 5 ''Online Clients'' (''count('' @ selector NODE_METRIC
       ''id=~"client:.+", arc__online="1", authority="1"'' @ '') or vector(0)'') ''none''
       (''Client nodes currently reporting arc__online=1, counted from first-hand '' @
       ''series only so a placeholder never double-counts.'') (kw\<lparr>o_graph := Some True,
       o_color_mode := Some ''value''\<rparr>), 18, 3, 6, 4),
     (stat 6 ''Access Points'' (count_nodes ''id=~"ap:.+"'') ''none''
       (''Boxes broadcasting at least one BSS, including the gateway when it also '' @
       ''serves wifi.'') (kw\<lparr>o_graph := Some True, o_color_mode := Some ''value''\<rparr>),
       0, 7, 6, 4),
     (stat 7 ''Broadcast BSSIDs'' (count_nodes ''id=~"bss:.+"'') ''none''
       (''Distinct basic service sets. Two APs broadcasting one SSID are two BSSIDs '' @
       ''on two channels, which is why they are separate nodes.'')
       (kw\<lparr>o_graph := Some True, o_color_mode := Some ''value''\<rparr>), 6, 7, 6, 4),
     (stat 8 ''Weak Wi-Fi Links'' topo_weak_links ''none''
       (''Associations below -72 dBm. The collector colours each association edge '' @
       ''from the signal it reads in the same scrape, so this counts exactly what '' @
       ''the graph draws red.'') (kw\<lparr>o_graph := Some True, o_color_mode := Some ''value'',
       o_thresholds_key := Some OkBad\<rparr>), 12, 7, 6, 4),
     (stat 9 ''Offline Clients'' (''count('' @ selector NODE_METRIC
       ''id=~"client:.+", arc__offline="1", authority="1"'' @ '') or vector(0)'') ''none''
       (''Known clients not currently reachable. Grey rather than red on the graph: '' @
       ''a device that has gone home is not a fault.'') (kw\<lparr>o_graph := Some True,
       o_color_mode := Some ''value''\<rparr>), 18, 7, 6, 4)]\<close>

definition topo_topology :: "placement list" where
  \<open>topo_topology =
    [(nodegraph 100 ''Network Topology''
       (''The live network graph. Node and edge values are current throughput in bytes/sec,'' @
       '' joined from the per-device traffic counters onto the topology frames; anything '' @
       ''with no traffic reads a truthful 0 B/s rather than disappearing, and routers '' @
       ''without the traffic profile contribute a real 0 rather than a gap. The ring '' @
       ''around each node is its health arc: green online/ok, grey offline, yellow '' @
       ''warning. Association edges are coloured by signal - green above -60 dBm,'' @
       '' orange to -72, red below - and a wired client sits under the switch port '' @
       ''its MAC was learned on. Click any node for its client or router dashboard.''),
       0, 0, 24, 20),
     (text_panel 101 ''''
       (''**Reading the graph.** `internet` -> `modem:` (only when the WAN nexthop '' @
       ''is a private address, i.e. double NAT) -> `router:<lan-ip>` -> `port:` switch '' @
       ''ports and `ap:` access points -> `bss:<bssid>` -> `client:<mac>`. Nodes '' @
       ''are keyed so that every router names the same thing identically: the gateway '' @
       ''by its LAN IP, each radio by its BSSID. An isolated client node means its '' @
       ''connection state is genuinely unknown (no association list available) - '' @
       ''the collector never guesses a wired link.''), 0, 20, 24, 4)]\<close>

definition topo_quality :: "placement list" where
  \<open>topo_quality =
    [(text_panel 200 '''' (''## Data quality'' @ [NL] @
       ''Raw, un-reconciled node and edge series -- what the exporters actually emitted,'' @
       '' including anything the Topology tab is hiding. The three checks below are '' @
       ''the invariants that decide whether the panel renders at all: a dangling '' @
       ''edge endpoint crashes Grafana's node graph rather than degrading, and two '' @
       ''boxes claiming the same id first-hand means one of them silently overwrites '' @
       ''the other.''), 0, 0, 24, 4),
     (stat 201 ''Colliding Node IDs'' (''count(count by (id) ('' @ selector NODE_METRIC
       ''authority="1"'' @ '') > 1) or vector(0)'') ''none''
       (''Node ids claimed first-hand by more than one router. Must be zero: Grafana '' @
       ''keys nodes by id and silently keeps whichever row arrives last. Two gateways '' @
       ''on one LAN is the realistic way to trip this.'')
       (kw\<lparr>o_thresholds_key := Some OkBad, o_color_mode := Some ''value''\<rparr>),
       0, 4, 8, 4),
     (stat 202 ''Dangling Edge Sources'' (''count('' @ EDGES_EXPR @
       '' unless on(source) label_replace('' @ NODES_EXPR @
       '', "source", "$1", "id", "(.+)")) or vector(0)'') ''none''
       ''Rendered edges whose source resolves to no rendered node. Must be zero.''
       (kw\<lparr>o_thresholds_key := Some OkBad, o_color_mode := Some ''value''\<rparr>),
       8, 4, 8, 4),
     (stat 203 ''Dangling Edge Targets'' (''count('' @ EDGES_EXPR @
       '' unless on(target) label_replace('' @ NODES_EXPR @
       '', "target", "$1", "id", "(.+)")) or vector(0)'') ''none''
       ''Rendered edges whose target resolves to no rendered node. Must be zero.''
       (kw\<lparr>o_thresholds_key := Some OkBad, o_color_mode := Some ''value''\<rparr>),
       16, 4, 8, 4),
     (table 204 ''Topology Nodes'' [prom_query NODES_RAW '''' ''A'' ''table'' True]
       (''One row per emitted openwrt_topology_node series, before reconciliation. '' @
       ''`authority` shows which box observed the node first-hand; duplicate ids '' @
       ''across routers are expected here and resolved on the Topology tab.'')
       (kw\<lparr>o_transformations := Some [organize [''Time'', ''__name__'', ''cluster'',
       ''endpoint'', ''namespace'', ''prometheus'', ''prometheus_replica'', ''service''] [] [],
       sort_by ''id'' False], o_sort_col := Some ''id'', o_sort_desc := Some False\<rparr>),
       0, 8, 24, 9),
     (table 205 ''Topology Edges'' [prom_query EDGES_RAW '''' ''A'' ''table'' True]
       (''One row per emitted openwrt_topology_edge series, before reconciliation. '' @
       ''Every source/target must match an id in the nodes table above.'')
       (kw\<lparr>o_transformations := Some [organize [''Time'', ''__name__'', ''cluster'',
       ''endpoint'', ''namespace'', ''prometheus'', ''prometheus_replica'', ''service''] [] [],
       sort_by ''id'' False], o_sort_col := Some ''id'', o_sort_desc := Some False\<rparr>),
       0, 17, 24, 9),
     (table 206 ''Infrastructure MACs'' [prom_query (selector INFRA_METRIC '''') '''' ''A'' ''table''
       True] (''Each exporter's own interface MACs. These are why an access point no longer '' @
       ''renders as a laptop hanging off the gateway: the matching client node and '' @
       ''every edge pointing at it are suppressed on the Topology tab.'')
       (kw\<lparr>o_transformations := Some [organize [''Time'', ''__name__'', ''cluster'',
       ''endpoint'', ''namespace'', ''prometheus'', ''prometheus_replica'', ''service''] [] [],
       sort_by ''mac'' False], o_sort_col := Some ''mac'', o_sort_desc := Some False\<rparr>),
       0, 26, 24, 8)]\<close>

definition topo_tabs :: "(string \<times> placement list) list" where
  \<open>topo_tabs =
    [(''Overview'', topo_overview),
     (''Topology'', topo_topology),
     (''Data Quality'', topo_quality)]\<close>

definition topo_spec :: "item list \<Rightarrow> json list \<Rightarrow> json" where
  \<open>topo_spec elements tabs =
     JDict [(''title'', JStr ''OpenWrt - Topology''), (''description'',
     JStr (''Network topology node graph for OpenWrt: internet, modem, gateway, switch '' @
     ''ports, access points, BSSIDs, and client identity, driven by the Prometheus '' @
     ''datasource with no plugin install.'')), (''tags'', JList [JStr ''openwrt'',
     JStr ''topology'', JStr ''router'']), (''cursorSync'', JStr ''Crosshair''),
     (''editable'', JBool True), (''preload'', JBool False), (''liveNow'', JBool False),
     (''annotations'', JList [JDict [(''kind'', JStr ''AnnotationQuery''), (''spec'',
     JDict [(''builtIn'', JBool True), (''enable'', JBool True), (''hide'', JBool True),
     (''iconColor'', JStr ''rgba(0, 211, 255, 1)''), (''name'', JStr ''Annotations & Alerts''),
     (''query'', JDict [(''kind'', JStr ''DataQuery''), (''group'', JStr ''grafana''),
     (''version'', JStr ''v0''), (''spec'', JDict [])])])]]), (''links'', JList []),
     (''timeSettings'', JDict [(''timezone'', JStr ''browser''), (''from'', JStr ''now-3h''),
     (''to'', JStr ''now''), (''autoRefresh'', JStr ''30s''), (''autoRefreshIntervals'',
     JList [JStr ''10s'', JStr ''30s'', JStr ''1m'', JStr ''5m'', JStr ''15m'']),
     (''hideTimepicker'', JBool False), (''fiscalYearStartMonth'', JInt 0)]),
     (''variables'', JList topo_variables), (''elements'', JDict elements), (''layout'',
     JDict [(''kind'', JStr ''TabsLayout''), (''spec'', JDict [(''tabs'', JList tabs)])])]\<close>

definition topo_dashboard :: "json \<Rightarrow> json" where
  \<open>topo_dashboard spec =
     JDict [(''apiVersion'', JStr ''dashboard.grafana.app/v2beta1''),
     (''kind'', JStr ''Dashboard''),
     (''metadata'', JDict [(''name'', JStr ''openwrt-topology'')]), (''spec'', spec)]\<close>

end
