(* ===== verification/Advanced_Dashboard.thy ===== *)
theory Advanced_Dashboard
  imports Builder
begin

text \<open>
  The optional-profile dashboard of \<open>scripts/build_openwrt_advanced_dashboard.py\<close>.
\<close>

definition DEVICE_FILTER :: string where
  \<open>DEVICE_FILTER =
     (PROM_FILTER @ '', device=~"$device"'')\<close>

definition adv_variables :: "json list" where
  \<open>adv_variables =
     [datasource_var ''DS_PROMETHEUS'' ''Prometheus'' ''prometheus'' ''prometheus'', query_var
     ''router'' ''Router'' ''label_values(node_load1{job="openwrt"}, router)'' ''openwrt'' True
     True ''.*'', query_var ''device'' ''Device'' (''label_values(openwrt_device_info{'' @
     PROM_FILTER @ ''}, device)'') ''All'' True True ''.*'']\<close>

definition availability :: "int \<Rightarrow> string \<Rightarrow> string \<Rightarrow> string \<Rightarrow> string \<Rightarrow> item" where
  \<open>availability pid title metric_name description collector =
    (let expr = (if collector \<noteq> [] then (''(max('' @ metric_name @ ''{'' @ PROM_FILTER @
       ''}) * max(node_scrape_collector_success{'' @ PROM_FILTER @ '', collector="'' @ collector @
       ''"})) or vector(0)'') else (''max('' @ metric_name @ ''{'' @ PROM_FILTER @
       ''}) or vector(0)'')) in
     stat pid title expr ''none'' description (kw\<lparr>o_mappings := Some AVAILABILITY_MAPPINGS,
       o_thresholds_key := Some Unavailable, o_color_mode := Some ''value''\<rparr>))\<close>

definition adv_overview :: "placement list" where
  \<open>adv_overview =
    [(text_panel 1 '''' (''## Advanced OpenWrt monitoring'' @ [NL] @
       ''Profile-aware views for per-device nftables traffic, WiFi mesh signals, '' @
       ''and optional Netifyd DPI. Missing profiles are shown as unavailable.''), 0, 0, 24, 3),
     (availability 2 ''Traffic Profile'' ''openwrt_device_traffic_collector_available''
       (''Read-only nftables per-device counters. Green requires both the collector '' @
       ''flag and a successful exporter scrape of that collector. Enable the traffic '' @
       ''or full router profile.'') ''device_traffic'', 0, 3, 6, 4),
     (availability 3 ''WiFi Mesh Profile'' ''openwrt_wifi_mesh_collector_available''
       (''Optional radio and usteer mesh metrics. Green requires both the collector '' @
       ''flag and a successful exporter scrape. Enable the wifi_mesh or full router '' @
       ''profile.'') ''wifi_dethrash'', 6, 3, 6, 4),
     (availability 4 ''DPI Profile'' ''openwrt_dpi_collector_available''
       (''Optional Netifyd status snapshot metrics. Reads 0 when the snapshot is missing '' @
       ''or older than 5 minutes, so a wedged Netifyd is not shown as healthy.'') ''dpi_netifyd'',
       12, 3, 6, 4),
     (stat 5 ''Tracked Devices'' (''count(openwrt_device_info{'' @ PROM_FILTER @ ''}) or vector(0)'')
       ''none'' (''Current device identities discovered from the DHCP lease map and nftables '' @
       ''sets.'') kw, 18, 3, 6, 4),
     (timeseries 6 ''Tracked Device Traffic'' [prom_query
       (''sum by(direction) (rate(openwrt_device_traffic_bytes_total{'' @ DEVICE_FILTER @
       ''}[$__rate_interval]))'') ''{{direction}}'' ''A'' ''time_series'' False] ''Bps''
       (''Traffic rate from nftables counters. Hostnames are bounded and selected '' @
       ''from DHCP leases.'') (kw\<lparr>o_overrides := Some [JDict [(''matcher'',
       JDict [(''id'', JStr ''byName''), (''options'', JStr ''upload'')]), (''properties'',
       JList [JDict [(''id'', JStr ''color''), (''value'', JDict [(''mode'', JStr ''fixed''),
       (''fixedColor'', JStr BLUE)])]])], JDict [(''matcher'', JDict [(''id'', JStr ''byName''),
       (''options'', JStr ''download'')]), (''properties'',
       JList [JDict [(''id'', JStr ''color''), (''value'', JDict [(''mode'', JStr ''fixed''),
       (''fixedColor'', JStr GREEN)])]])]]\<rparr>), 0, 7, 12, 8),
     (timeseries 7 ''WiFi Radio Signal'' [prom_query
       (''avg by(device, ifname) (wifi_radio_txpower_dbm{'' @ PROM_FILTER @ ''})'')
       ''{{device}} {{ifname}}'' ''A'' ''time_series'' False] ''dBm''
       ''Radio transmit power. This is an RF configuration signal, not client RSSI.'' kw,
       12, 7, 12, 8),
     (bargauge 8 ''Top Tracked Devices'' [prom_query
       (''topk(10, sum by(device) (rate(openwrt_device_traffic_bytes_total{'' @ DEVICE_FILTER @
       ''}[$__rate_interval])))'') ''{{device}}'' ''A'' ''time_series'' False] ''Bps''
       ''Bounded top-10 device traffic ranking. It is descriptive, not a health score.''
       (kw\<lparr>o_transformations := Some [limit 10]\<rparr>), 0, 15, 12, 8),
     (timeseries 9 ''DPI Active Flows'' [prom_query (''openwrt_dpi_active_flows{'' @ PROM_FILTER @
       ''} or vector(0)'') ''Active flows'' ''A'' ''time_series'' False, prom_query
       (''openwrt_dpi_devices{'' @ PROM_FILTER @ ''} or vector(0)'') ''DPI devices'' ''B''
       ''time_series'' False] ''none''
       (''Netifyd status snapshot values. No data means the DPI profile is not installed '' @
       ''or has no readable status snapshot.'') kw, 12, 15, 12, 8)]\<close>

definition adv_traffic :: "placement list" where
  \<open>adv_traffic =
    [(text_panel 100 '''' (''## Per-device traffic'' @ [NL] @
       ''The router installs accept-policy nftables counters before the normal forwarding '' @
       ''path. Broadcast and multicast are excluded. Counters are read through `nft '' @
       ''-j` on the router; no privileged exporter binary is required.''), 0, 0, 24, 4),
     (timeseries 101 ''Upload and Download by Device'' [prom_query
       (''sum by(device, direction) (rate(openwrt_device_traffic_bytes_total{'' @ DEVICE_FILTER @
       ''}[$__rate_interval]))'') ''{{device}} {{direction}}'' ''A'' ''time_series'' False]
       ''Bps'' (''Per-device byte rate. Use the Device variable to focus the chart when the '' @
       ''router has many leases.'') kw, 0, 4, 24, 9),
     (table 102 ''Device Identity'' [prom_query (''openwrt_device_info{'' @ DEVICE_FILTER @ ''}'') ''''
       ''A'' ''table'' True] ''Hostname-first identity labels with bounded IP and MAC metadata.''
       (kw\<lparr>o_transformations := Some [organize [''Time'', ''__name__'', ''Value'',
       ''cluster'', ''endpoint'', ''instance'', ''job'', ''namespace'', ''prometheus'',
       ''prometheus_replica'', ''router'', ''service''] [(''device'', ''Device''),
       (''ip'', ''IP''), (''mac'', ''MAC''), (''interface'', ''Interface'')] [(''Device'', 0),
       (''IP'', 1), (''MAC'', 2), (''Interface'', 3)]], o_sort_col := Some ''Device'',
       o_sort_desc := Some False\<rparr>), 0, 13, 12, 9),
     (timeseries 103 ''Packets by Direction'' [prom_query
       (''sum by(direction) (rate(openwrt_device_traffic_packets_total{'' @ DEVICE_FILTER @
       ''}[$__rate_interval]))'') ''{{direction}}'' ''A'' ''time_series'' False] ''pps''
       (''Packet rate from the same nftables counters. Large gaps can indicate a counter-set '' @
       ''reload or lease churn.'') kw, 12, 13, 12, 9),
     (stat 104 ''Traffic Counter Series'' (''count(openwrt_device_traffic_bytes_total{'' @
       DEVICE_FILTER @ ''}) or vector(0)'') ''none''
       ''Current byte-counter series for the selected router and device filter.'' kw, 0, 22, 6, 4),
     (stat 105 ''Traffic Collector'' (''max(openwrt_device_traffic_collector_available{'' @
       PROM_FILTER @ ''}) or vector(0)'') ''none''
       (''Explicit collector state. A value of 0 means the profile, JSON dependency,'' @
       '' or nftables set is unavailable.'') (kw\<lparr>o_mappings := Some AVAILABILITY_MAPPINGS,
       o_thresholds_key := Some Unavailable, o_color_mode := Some ''value''\<rparr>), 6, 22, 6, 4),
     (stat 106 ''Traffic Packets'' (''sum(rate(openwrt_device_traffic_packets_total{'' @
       DEVICE_FILTER @ ''}[$__rate_interval])) or vector(0)'') ''pps''
       ''Aggregate packet rate for the selected device filter.'' kw, 12, 22, 6, 4),
     (stat 107 ''Traffic Bytes'' (''sum(rate(openwrt_device_traffic_bytes_total{'' @ DEVICE_FILTER @
       ''}[$__rate_interval])) or vector(0)'') ''Bps''
       ''Aggregate byte rate for the selected device filter.'' kw, 18, 22, 6, 4)]\<close>

definition adv_wifi :: "placement list" where
  \<open>adv_wifi =
    [(text_panel 200 '''' (''## WiFi mesh'' @ [NL] @
       ''Radio settings use low-cardinality labels. usteer metrics are emitted only '' @
       ''when usteer is present and exposes local_info. Client hearing maps remain '' @
       ''intentionally outside the default profile to bound MAC cardinality.''), 0, 0, 24, 4),
     (availability 201 ''Mesh Collector'' ''openwrt_wifi_mesh_collector_available''
       (''Whether the optional Lua mesh collector loaded its ubus and iwinfo dependencies '' @
       ''and completed its scrape.'') ''wifi_dethrash'', 0, 4, 6, 4),
     (stat 202 ''Associated Clients'' (''sum(wifi_usteer_associated_clients{'' @ PROM_FILTER @
       ''}) or vector(0)'') ''none''
       (''Associated clients reported by usteer local_info. Zero can be a valid empty '' @
       ''mesh state.'') kw, 6, 4, 6, 4),
     (stat 203 ''Mesh Load'' (''max(wifi_usteer_load{'' @ PROM_FILTER @ ''}) or vector(0)'') ''none''
       ''Local usteer load value when available.'' kw, 12, 4, 6, 4),
     (stat 204 ''Radios'' (''count(wifi_radio_channel{'' @ PROM_FILTER @ ''}) or vector(0)'') ''none''
       ''Radios with channel data from iwinfo.'' kw, 18, 4, 6, 4),
     (timeseries 205 ''Radio Channel and Frequency'' [prom_query (''wifi_radio_channel{'' @
       PROM_FILTER @ ''}'') ''{{device}} {{ifname}} channel'' ''A'' ''time_series'' False,
       prom_query (''wifi_radio_frequency_mhz{'' @ PROM_FILTER @ ''}'')
       ''{{device}} {{ifname}} MHz'' ''B'' ''time_series'' False] ''none''
       ''Current channel and center frequency per radio interface.'' kw, 0, 8, 12, 8),
     (timeseries 206 ''Radio TX Power'' [prom_query (''wifi_radio_txpower_dbm{'' @ PROM_FILTER @ ''}'')
       ''{{device}} {{ifname}}'' ''A'' ''time_series'' False, prom_query
       (''wifi_radio_txpower_offset_dbm{'' @ PROM_FILTER @ ''}'') ''{{device}} {{ifname}} offset''
       ''B'' ''time_series'' False] ''dBm''
       ''Configured radio transmit power and calibration offset.'' kw, 12, 8, 12, 8),
     (table 207 ''WiFi Security and Roaming Features'' [prom_query
       (''wifi_iface_ieee80211r_enabled{'' @ PROM_FILTER @ ''}'') '''' ''A'' ''table'' True,
       prom_query (''wifi_iface_ieee80211k_enabled{'' @ PROM_FILTER @ ''}'') '''' ''B'' ''table''
       True, prom_query (''wifi_iface_ieee80211v_enabled{'' @ PROM_FILTER @ ''}'') '''' ''C''
       ''table'' True] ''802.11r/k/v settings per configured wireless interface.''
       (kw\<lparr>o_transformations := Some [tf ''merge'' [], organize [''Time'', ''__name__'',
       ''cluster'', ''endpoint'', ''instance'', ''job'', ''namespace'', ''prometheus'',
       ''prometheus_replica'', ''router'', ''service''] [(''device'', ''Radio''),
       (''ifname'', ''Interface''), (''ssid'', ''SSID''), (''Value #A'', ''11r''),
       (''Value #B'', ''11k''), (''Value #C'', ''11v'')] [], limit 25],
       o_sort_col := Some ''Interface'', o_sort_desc := Some False\<rparr>), 0, 16, 24, 9),
     (timeseries 208 ''usteer Roam Events'' [prom_query (''wifi_usteer_roam_events_source{'' @
       PROM_FILTER @ ''}'') ''{{ap}} source'' ''A'' ''time_series'' False, prom_query
       (''wifi_usteer_roam_events_target{'' @ PROM_FILTER @ ''}'') ''{{ap}} target'' ''B''
       ''time_series'' False] ''none''
       ''Cumulative roam event values reported by usteer local_info.'' kw, 0, 25, 12, 8),
     (bargauge 209 ''Associated Clients by AP'' [prom_query (''wifi_usteer_associated_clients{'' @
       PROM_FILTER @ ''}'') ''{{ap}}'' ''A'' ''time_series'' False] ''none''
       ''Current associated client count by usteer AP label.''
       (kw\<lparr>o_transformations := Some [limit 25]\<rparr>), 12, 25, 12, 8)]\<close>

definition adv_dpi :: "placement list" where
  \<open>adv_dpi =
    [(text_panel 300 '''' (''## DPI and data quality'' @ [NL] @
       ''The DPI collector reads `/var/run/netifyd/status.json` and exports only '' @
       ''top bounded application/protocol entries. Netifyd does not replace Prometheus '' @
       ''traffic counters; it adds application context when installed.''), 0, 0, 24, 4),
     (availability 301 ''DPI Collector'' ''openwrt_dpi_collector_available''
       (''1 means the router read a fresh Netifyd snapshot and completed the scrape. '' @
       ''0 means missing, stale, or failed - all explicit unavailable states.'') ''dpi_netifyd'',
       0, 4, 6, 4),
     (stat 302 ''Active DPI Flows'' (''openwrt_dpi_active_flows{'' @ PROM_FILTER @ ''} or vector(0)'')
       ''none'' ''Current active flows from the Netifyd snapshot.'' kw, 6, 4, 6, 4),
     (stat 303 ''DPI Devices'' (''openwrt_dpi_devices{'' @ PROM_FILTER @ ''} or vector(0)'') ''none''
       ''Current devices reported in the Netifyd snapshot.'' kw, 12, 4, 6, 4),
     (stat 304 ''Application Series'' (''count(openwrt_dpi_application_bytes{'' @ PROM_FILTER @
       ''}) or vector(0)'') ''none''
       ''Bounded application series currently exported by the router.'' kw, 18, 4, 6, 4),
     (bargauge 305 ''Top Applications by Bytes'' [prom_query
       (''topk(15, openwrt_dpi_application_bytes{'' @ PROM_FILTER @ ''})'') ''{{application}}''
       ''A'' ''time_series'' False] ''bytes''
       (''Top bounded application byte values from Netifyd. Snapshot values may move '' @
       ''down when flows expire.'') (kw\<lparr>o_transformations := Some [limit 15]\<rparr>),
       0, 8, 12, 9),
     (bargauge 306 ''Top Protocols by Flows'' [prom_query (''topk(15, openwrt_dpi_protocol_flows{'' @
       PROM_FILTER @ ''})'') ''{{protocol}}'' ''A'' ''time_series'' False] ''none''
       ''Top bounded protocol flow counts from Netifyd.''
       (kw\<lparr>o_transformations := Some [limit 15]\<rparr>), 12, 8, 12, 9),
     (timeseries 307 ''Collector Availability'' [prom_query
       (''openwrt_device_traffic_collector_available{'' @ PROM_FILTER @ ''} or vector(0)'')
       ''nftables traffic'' ''A'' ''time_series'' False, prom_query
       (''openwrt_wifi_mesh_collector_available{'' @ PROM_FILTER @ ''} or vector(0)'')
       ''WiFi mesh'' ''B'' ''time_series'' False, prom_query
       (''openwrt_dpi_collector_available{'' @ PROM_FILTER @ ''} or vector(0)'') ''DPI'' ''C''
       ''time_series'' False, prom_query (''openwrt_wifi_radio_collector_available{'' @
       PROM_FILTER @ ''} or vector(0)'') ''WiFi radio helper'' ''D'' ''time_series'' False]
       ''none'' (''Profile availability over time. This distinguishes a disabled profile from '' @
       ''a broken primary scrape.'') kw, 0, 17, 12, 8),
     (table 308 ''Exporter Collector Health'' [prom_query (''node_scrape_collector_success{'' @
       PROM_FILTER @ ''}'') '''' ''A'' ''table'' True]
       (''Official Lua exporter collector success state. Investigate this before treating '' @
       ''a missing optional metric as a dashboard defect.'')
       (kw\<lparr>o_transformations := Some [organize [''Time'', ''__name__'', ''Value'',
       ''cluster'', ''endpoint'', ''instance'', ''job'', ''namespace'', ''prometheus'',
       ''prometheus_replica'', ''router'', ''service''] [(''collector'', ''Collector''),
       (''Value'', ''Success'')] [], limit 50], o_sort_col := Some ''Collector'',
       o_sort_desc := Some False\<rparr>), 12, 17, 12, 8),
     (stat 309 ''Textfile Freshness'' (''max(time() - node_textfile_mtime_seconds{'' @ PROM_FILTER @
       ''}) or vector(999999)'') ''s''
       (''Age of helper-generated textfile metrics. This is separate from Lua profile '' @
       ''availability.'') (kw\<lparr>o_thresholds_key := Some Freshness,
       o_graph := Some True\<rparr>), 0, 25, 6, 5),
     (stat 310 ''Prometheus Scrape'' (''min(up{'' @ PROM_FILTER @ ''}) or vector(0)'') ''none''
       ''Primary router scrape reachability.''
       (kw\<lparr>o_mappings := Some [JDict [(''type'', JStr ''value''), (''options'',
       JDict [(''1'', JDict [(''text'', JStr ''Healthy''), (''color'', JStr ''green''),
       (''index'', JInt 0)]), (''0'', JDict [(''text'', JStr ''Down''), (''color'', JStr ''red''),
       (''index'', JInt 1)])])]], o_thresholds_key := Some OkBad\<rparr>), 6, 25, 6, 5),
     (stat 311 ''DPI Application Flow Series'' (''count(openwrt_dpi_application_flows{'' @
       PROM_FILTER @ ''}) or vector(0)'') ''none''
       ''Application flow series currently available from the snapshot.'' kw, 12, 25, 6, 5),
     (stat 312 ''Profile Metrics''
       (''count({__name__=~"openwrt_(device_traffic|wifi_mesh|dpi|wifi_radio)_.*",'' @ '' '' @
       PROM_FILTER @ ''}) or vector(0)'') ''none''
       (''Current count of optional profile metric series. Use the panels above to '' @
       ''identify which profile is absent.'') kw, 18, 25, 6, 5)]\<close>

definition adv_tabs :: "(string \<times> placement list) list" where
  \<open>adv_tabs =
    [(''Advanced Overview'', adv_overview),
     (''Device Traffic'', adv_traffic),
     (''WiFi Mesh'', adv_wifi),
     (''DPI and Data Quality'', adv_dpi)]\<close>

definition adv_spec :: "item list \<Rightarrow> json list \<Rightarrow> json" where
  \<open>adv_spec elements tabs =
     JDict [(''title'', JStr ''OpenWrt - Advanced Monitoring''), (''description'',
     JStr (''Optional profile dashboard for OpenWrt nftables traffic, WiFi mesh, Netifyd '' @
     ''DPI, and data quality.'')), (''tags'', JList [JStr ''openwrt'', JStr ''advanced'',
     JStr ''router'']), (''cursorSync'', JStr ''Crosshair''), (''editable'', JBool True),
     (''preload'', JBool False), (''liveNow'', JBool False), (''variables'', JList adv_variables),
     (''elements'', JDict elements), (''layout'', JDict [(''kind'', JStr ''TabsLayout''),
     (''spec'', JDict [(''tabs'', JList tabs)])]), (''annotations'',
     JList [JDict [(''kind'', JStr ''AnnotationQuery''), (''spec'',
     JDict [(''builtIn'', JBool True), (''enable'', JBool True), (''hide'', JBool True),
     (''iconColor'', JStr ''rgba(0, 211, 255, 1)''), (''name'', JStr ''Annotations & Alerts''),
     (''query'', JDict [(''kind'', JStr ''DataQuery''), (''group'', JStr ''grafana''),
     (''version'', JStr ''v0''), (''spec'', JDict [])])])]]), (''links'', JList []),
     (''timeSettings'', JDict [(''timezone'', JStr ''browser''), (''from'', JStr ''now-3h''),
     (''to'', JStr ''now''), (''autoRefresh'', JStr ''30s''), (''autoRefreshIntervals'',
     JList [JStr ''10s'', JStr ''30s'', JStr ''1m'', JStr ''5m'', JStr ''15m'']),
     (''hideTimepicker'', JBool False), (''fiscalYearStartMonth'', JInt 0)])]\<close>

definition adv_dashboard :: "json \<Rightarrow> json" where
  \<open>adv_dashboard spec =
     JDict [(''apiVersion'', JStr ''dashboard.grafana.app/v2beta1''),
     (''kind'', JStr ''Dashboard''),
     (''metadata'', JDict [(''name'', JStr ''openwrt-advanced'')]), (''spec'', spec)]\<close>

end
