(* ===== verification/Clients_Dashboard.thy ===== *)
theory Clients_Dashboard
  imports Builder
begin

text \<open>
  The client dashboard of \<open>scripts/build_openwrt_clients_dashboard.py\<close>: its filters and mappings,
  the guarded traffic and signal queries, the tabs and the dashboard.
\<close>

definition CLIENT_FILTER :: string where
  \<open>CLIENT_FILTER =
     (PROM_FILTER @ '', connection=~"$connection", network=~"$network", mac=~"$mac"'')\<close>

definition WIFI_CLIENT_FILTER :: string where
  \<open>WIFI_CLIENT_FILTER =
     (PROM_FILTER @ '', connection="wifi", network=~"$network", mac=~"$mac"'')\<close>

definition CLIENT_STATUS_MAPPINGS :: "json list" where
  \<open>CLIENT_STATUS_MAPPINGS =
     [JDict [(''type'', JStr ''value''), (''options'', JDict [(''1'',
     JDict [(''text'', JStr ''Online''), (''color'', JStr ''green''), (''index'', JInt 0)])])],
     JDict [(''type'', JStr ''value''), (''options'', JDict [(''0'',
     JDict [(''text'', JStr ''Offline''), (''color'', JStr ''gray''), (''index'', JInt 1)])])],
     JDict [(''type'', JStr ''special''), (''options'', JDict [(''match'', JStr ''null''),
     (''result'', JDict [(''text'', JStr ''Unavailable''), (''color'', JStr ''gray''),
     (''index'', JInt 2)])])]]\<close>

definition TRUNCATION_MAPPINGS :: "json list" where
  \<open>TRUNCATION_MAPPINGS =
     [JDict [(''type'', JStr ''value''), (''options'', JDict [(''0'',
     JDict [(''text'', JStr ''Complete''), (''color'', JStr ''green''), (''index'', JInt 0)])])],
     JDict [(''type'', JStr ''value''), (''options'', JDict [(''1'',
     JDict [(''text'', JStr ''Truncated''), (''color'', JStr ''red''), (''index'', JInt 1)])])],
     JDict [(''type'', JStr ''special''), (''options'', JDict [(''match'', JStr ''null''),
     (''result'', JDict [(''text'', JStr ''Not collected''), (''color'', JStr ''gray''),
     (''index'', JInt 2)])])]]\<close>

definition OFFLOAD_MAPPINGS :: "json list" where
  \<open>OFFLOAD_MAPPINGS =
     [JDict [(''type'', JStr ''value''), (''options'', JDict [(''0'',
     JDict [(''text'', JStr ''Accounting OK''), (''color'', JStr ''green''),
     (''index'', JInt 0)])])], JDict [(''type'', JStr ''value''), (''options'', JDict [(''1'',
     JDict [(''text'', JStr ''Accounting unreliable''), (''color'', JStr ''red''),
     (''index'', JInt 1)])])], JDict [(''type'', JStr ''special''), (''options'',
     JDict [(''match'', JStr ''null''), (''result'', JDict [(''text'', JStr ''Unavailable''),
     (''color'', JStr ''gray''), (''index'', JInt 2)])])]]\<close>

definition TRAFFIC_STATE_MAPPINGS :: "json list" where
  \<open>TRAFFIC_STATE_MAPPINGS =
     [JDict [(''type'', JStr ''value''), (''options'', JDict [(''0'',
     JDict [(''text'', JStr ''Not collected''), (''color'', JStr ''gray''),
     (''index'', JInt 0)])])], JDict [(''type'', JStr ''value''), (''options'', JDict [(''1'',
     JDict [(''text'', JStr ''Accounting active''), (''color'', JStr ''green''),
     (''index'', JInt 1)])])], JDict [(''type'', JStr ''value''), (''options'', JDict [(''2'',
     JDict [(''text'', JStr ''Accounting unreliable - flow offload enabled''),
     (''color'', JStr ''red''), (''index'', JInt 2)])])], JDict [(''type'', JStr ''special''),
     (''options'', JDict [(''match'', JStr ''null''), (''result'',
     JDict [(''text'', JStr ''Not collected''), (''color'', JStr ''gray''),
     (''index'', JInt 3)])])]]\<close>

definition CONNTRACK_STATE_MAPPINGS :: "json list" where
  \<open>CONNTRACK_STATE_MAPPINGS =
     [JDict [(''type'', JStr ''value''), (''options'', JDict [(''0'',
     JDict [(''text'', JStr ''Not collected''), (''color'', JStr ''gray''),
     (''index'', JInt 0)])])], JDict [(''type'', JStr ''value''), (''options'', JDict [(''1'',
     JDict [(''text'', JStr ''Current table measured''), (''color'', JStr ''green''),
     (''index'', JInt 1)])])], JDict [(''type'', JStr ''value''), (''options'', JDict [(''2'',
     JDict [(''text'', JStr ''Unavailable - flow offload semantics unverified''),
     (''color'', JStr ''red''), (''index'', JInt 2)])])]]\<close>

definition IPV6_MAPPINGS :: "json list" where
  \<open>IPV6_MAPPINGS =
     [JDict [(''type'', JStr ''value''), (''options'', JDict [(''0'',
     JDict [(''text'', JStr ''No''), (''color'', JStr ''gray''), (''index'', JInt 0)])])],
     JDict [(''type'', JStr ''value''), (''options'', JDict [(''1'',
     JDict [(''text'', JStr ''Yes''), (''color'', JStr ''blue''), (''index'', JInt 1)])])]]\<close>

definition LOCAL_MAC_MAPPINGS :: "json list" where
  \<open>LOCAL_MAC_MAPPINGS =
     [JDict [(''type'', JStr ''value''), (''options'', JDict [(''0'',
     JDict [(''text'', JStr ''Global''), (''color'', JStr ''green''), (''index'', JInt 0)])])],
     JDict [(''type'', JStr ''value''), (''options'', JDict [(''1'',
     JDict [(''text'', JStr ''Randomized/local''), (''color'', JStr ''orange''),
     (''index'', JInt 1)])])]]\<close>

definition cli_variables :: "json list" where
  \<open>cli_variables =
     [datasource_var ''DS_PROMETHEUS'' ''Prometheus'' ''prometheus'' ''prometheus'',
     datasource_var ''DS_LOKI'' ''Loki'' ''loki'' ''loki'', query_var ''router'' ''Router''
     ''label_values(node_load1{job="openwrt"}, router)'' ''openwrt'' True True ''.*'', query_var
     ''connection'' ''Connection'' (''label_values(openwrt_client_info{'' @ PROM_FILTER @
     ''}, connection)'') ''All'' True True ''.*'', query_var ''network'' ''Network''
     (''label_values(openwrt_client_info{'' @ PROM_FILTER @ ''}, network)'') ''All'' True True
     ''.*'', query_var ''mac'' ''Client MAC'' (''label_values(openwrt_client_info{'' @
     PROM_FILTER @ ''}, mac)'') ''All'' True True ''.*'']\<close>

definition lowercase_once :: "string \<Rightarrow> string \<times> string \<Rightarrow> string \<Rightarrow> string" where
  \<open>lowercase_once label p lowered =
     ''label_replace('' @ lowered @ '', "'' @ label @ ''", "${1}'' @ snd p @ ''${2}", "'' @ label @
     ''", "([^'' @ fst p @ '']*)'' @ fst p @ ''(.*)")''\<close>

definition lowercase_mac_label :: "string \<Rightarrow> string \<Rightarrow> string" where
  \<open>lowercase_mac_label expr label =
     fold (\<lambda>p lowered. ((lowercase_once label p) ^^ 12) lowered)
       [(''A'', ''a''), (''B'', ''b''), (''C'', ''c''), (''D'', ''d''), (''E'', ''e''), (''F'', ''f'')] expr\<close>

definition HOSTAPD_SIGNAL :: string where
  \<open>HOSTAPD_SIGNAL =
     lowercase_mac_label (''label_replace(hostapd_station_signal_dbm{'' @ PROM_FILTER @
     ''}, "mac", "$1", "station", "(.+)")'') ''mac''\<close>

definition CLIENT_WIFI_SIGNAL :: string where
  \<open>CLIENT_WIFI_SIGNAL =
     lowercase_mac_label (''wifi_station_signal_dbm{'' @ PROM_FILTER @ ''}'') ''mac''\<close>

definition CLIENT_WIFI_SIGNAL_RAW :: string where
  \<open>CLIENT_WIFI_SIGNAL_RAW =
     (HOSTAPD_SIGNAL @ '' or ('' @ CLIENT_WIFI_SIGNAL @ '' unless on(job, router) '' @
     HOSTAPD_SIGNAL @ '')'')\<close>

definition WIFI_SIGNAL_BY_MAC :: string where
  \<open>WIFI_SIGNAL_BY_MAC =
     (''max by(mac) ('' @ CLIENT_WIFI_SIGNAL_RAW @ '')'')\<close>

definition FLOW_OFFLOAD_ENABLED :: string where
  \<open>FLOW_OFFLOAD_ENABLED =
     (''(max(openwrt_flow_offload_enabled{'' @ PROM_FILTER @ ''}) == 1)'')\<close>

definition TRAFFIC_AVAILABLE :: string where
  \<open>TRAFFIC_AVAILABLE =
     (''(max(openwrt_client_traffic_collector_available{'' @ PROM_FILTER @ ''}) or vector(0))'')\<close>

definition TRAFFIC_ACCOUNTING_STATE :: string where
  \<open>TRAFFIC_ACCOUNTING_STATE =
     (''((('' @ TRAFFIC_AVAILABLE @ '' == 1) unless on() '' @ FLOW_OFFLOAD_ENABLED @
     '') * 0 + 1) or ('' @ FLOW_OFFLOAD_ENABLED @ '' * 0 + 2) or vector(0)'')\<close>

definition CONNTRACK_AVAILABLE :: string where
  \<open>CONNTRACK_AVAILABLE =
     (''(max(openwrt_client_conntrack_collector_available{'' @ PROM_FILTER @ ''}) or vector(0))'')\<close>

definition CONNTRACK_STATE :: string where
  \<open>CONNTRACK_STATE =
     (''((('' @ CONNTRACK_AVAILABLE @ '' == 1) unless on() '' @ FLOW_OFFLOAD_ENABLED @
     '') * 0 + 1) or ('' @ FLOW_OFFLOAD_ENABLED @ '' * 0 + 2) or vector(0)'')\<close>

definition ASSOC_EVENTS_AVAILABLE :: string where
  \<open>ASSOC_EVENTS_AVAILABLE =
     (''(max(openwrt_wifi_assoc_events_collector_available{'' @ PROM_FILTER @
     ''}) or vector(0))'')\<close>

definition trusted_traffic :: "string \<Rightarrow> string" where
  \<open>trusted_traffic expr =
     (''('' @ expr @ '') unless on() '' @ FLOW_OFFLOAD_ENABLED)\<close>

definition trusted_conntrack :: "string \<Rightarrow> string" where
  \<open>trusted_conntrack expr =
     (''('' @ expr @ '') unless on() '' @ FLOW_OFFLOAD_ENABLED)\<close>

definition TRAFFIC_IN :: string where
  \<open>TRAFFIC_IN =
     trusted_traffic (''sum by(mac) (rate(openwrt_client_bytes_total{'' @ PROM_FILTER @
     '', direction="in"}[$__rate_interval]))'')\<close>

definition TRAFFIC_OUT :: string where
  \<open>TRAFFIC_OUT =
     trusted_traffic (''sum by(mac) (rate(openwrt_client_bytes_total{'' @ PROM_FILTER @
     '', direction="out"}[$__rate_interval]))'')\<close>

definition TRAFFIC_SERVICE :: string where
  \<open>TRAFFIC_SERVICE =
     trusted_traffic (''sum by(service, direction) (rate(openwrt_client_bytes_total{'' @
     PROM_FILTER @ ''}[$__rate_interval]))'')\<close>

definition cli_field_override :: "string \<Rightarrow> json list \<Rightarrow> json" where
  \<open>cli_field_override name properties =
     JDict [(''matcher'', JDict [(''id'', JStr ''byName''), (''options'', JStr name)]),
     (''properties'', JList properties)]\<close>

definition regexp_override :: "string \<Rightarrow> json list \<Rightarrow> json" where
  \<open>regexp_override pattern properties =
     JDict [(''matcher'', JDict [(''id'', JStr ''byRegexp''), (''options'', JStr pattern)]),
     (''properties'', JList properties)]\<close>

definition cli_availability_expr :: "string \<Rightarrow> string \<Rightarrow> string" where
  \<open>cli_availability_expr metric_name collector =
    (if collector \<noteq> [] then (''(max('' @ metric_name @ ''{'' @ PROM_FILTER @
       ''}) * max(node_scrape_collector_success{'' @ PROM_FILTER @ '', collector="'' @ collector @
       ''"})) or vector(0)'')
     else (''max('' @ metric_name @ ''{'' @ PROM_FILTER @ ''}) or vector(0)''))\<close>

definition cli_overview :: "placement list" where
  \<open>cli_overview =
    [(text_panel 1 '''' (''## Client inventory'' @ [NL] @
       ''Unified client identity from the OpenWrt clients profile. Missing collectors '' @
       ''and unavailable joins are rendered explicitly instead of as zeros.''), 0, 0, 24, 3),
     (stat 2 ''Inventory Collector'' (cli_availability_expr
       ''openwrt_client_inventory_collector_available'' ''client_inventory'') ''none''
       (''Collector availability gated by both the client inventory flag and the Lua '' @
       ''exporter's per-collector scrape success.'')
       (kw\<lparr>o_mappings := Some AVAILABILITY_MAPPINGS, o_thresholds_key := Some Unavailable,
       o_color_mode := Some ''value''\<rparr>), 0, 3, 5, 4),
     (stat 3 ''Clients'' (''count(openwrt_client_info{'' @ CLIENT_FILTER @ ''}) or vector(0)'')
       ''none'' ''One current identity series per discovered client.''
       (kw\<lparr>o_graph := Some True, o_color_mode := Some ''value''\<rparr>), 5, 3, 5, 4),
     (stat 4 ''WiFi Clients'' (''count(openwrt_client_info{'' @ WIFI_CLIENT_FILTER @
       ''}) or vector(0)'') ''none''
       (''Clients currently associated to a WiFi interface according to the clients '' @
       ''profile.'') (kw\<lparr>o_graph := Some True, o_color_mode := Some ''value''\<rparr>),
       10, 3, 5, 4),
     (stat 5 ''Inventory Truncation'' (''max(openwrt_client_inventory_truncated{'' @ PROM_FILTER @
       ''}) or vector(0)'') ''none''
       (''If this is truncated, the router hit CLIENT_INVENTORY_MAX and client rows '' @
       ''are incomplete.'') (kw\<lparr>o_mappings := Some TRUNCATION_MAPPINGS,
       o_thresholds_key := Some OkBad, o_color_mode := Some ''value''\<rparr>), 15, 3, 4, 4),
     (stat 6 ''Flow Offload'' (''max(openwrt_flow_offload_enabled{'' @ PROM_FILTER @
       ''}) or vector(0)'') ''none''
       (''When software or hardware flow offload is enabled, nftables and conntrack '' @
       ''traffic accounting can under-report or read near zero.'')
       (kw\<lparr>o_mappings := Some OFFLOAD_MAPPINGS, o_thresholds_key := Some OkBad,
       o_color_mode := Some ''value''\<rparr>), 19, 3, 5, 4),
     (stat 11 ''Conntrack Entries'' CONNTRACK_STATE ''none''
       (''Current per-client conntrack-table occupancy is suppressed while flow-offload '' @
       ''entry semantics remain unverified on this router. This is a state count,'' @
       '' not conntrack byte accounting.'')
       (kw\<lparr>o_mappings := Some CONNTRACK_STATE_MAPPINGS,
       o_thresholds_key := Some Unavailable, o_color_mode := Some ''value''\<rparr>), 0, 14, 6, 4),
     (bargauge 7 ''Connection Split'' [prom_query (''count by(connection) (openwrt_client_info{'' @
       CLIENT_FILTER @ ''}) or vector(0)'') ''{{connection}}'' ''A'' ''time_series'' False]
       ''none''
       (''Client count by connection type. Unknown is an explicit state from the collector,'' @
       '' not a dashboard error.'') (kw\<lparr>o_transformations := Some [tf ''labelsToFields''
       []]\<rparr>), 0, 7, 8, 7),
     (bargauge 8 ''Clients by Network'' [prom_query (''count by(network) (openwrt_client_info{'' @
       CLIENT_FILTER @ ''}) or vector(0)'') ''{{network}}'' ''A'' ''time_series'' False] ''none''
       ''Client count by logical OpenWrt network label from the clients profile.''
       (kw\<lparr>o_transformations := Some [tf ''labelsToFields'' []]\<rparr>), 8, 7, 8, 7),
     (bargauge 9 ''Clients by SSID'' [prom_query
       (''topk(10, count by(ssid, band) (openwrt_client_info{'' @ CLIENT_FILTER @
       '', ssid!=""}))'') ''{{ssid}} {{band}}'' ''A'' ''time_series'' False] ''none''
       (''Associated WiFi clients by SSID and band. Wired clients intentionally do '' @
       ''not appear here.'') (kw\<lparr>o_transformations := Some [tf ''labelsToFields'' [], tf
       ''limit'' [(''limitField'', JInt 10)]]\<rparr>), 16, 7, 8, 7),
     (text_panel 10 '''' (''## Traffic accounting'' @ [NL] @
       ''Per-client traffic is keyed directly by MAC from nlbwmon. When software '' @
       ''or hardware flow offload is enabled, every nlbwmon traffic panel suppresses '' @
       ''its values and the accounting state reports unreliable rather than displaying '' @
       ''plausible zeros.''), 6, 14, 18, 4)]\<close>

definition cli_clients :: "placement list" where
  \<open>cli_clients =
    [(table 100 ''Client Inventory'' [prom_query (''openwrt_client_info{'' @ CLIENT_FILTER @ ''}'')
       '''' ''A'' ''table'' True, prom_query (''openwrt_client_up{'' @ PROM_FILTER @ ''}'') ''''
       ''B'' ''table'' True, prom_query WIFI_SIGNAL_BY_MAC '''' ''C'' ''table'' True, prom_query
       (''openwrt_client_lease_expiry_seconds{'' @ PROM_FILTER @ ''} - time()'') '''' ''D''
       ''table'' True, prom_query (''openwrt_client_ipv6_addresses{'' @ PROM_FILTER @ ''}'') ''''
       ''E'' ''table'' True, prom_query TRAFFIC_IN '''' ''F'' ''table'' True, prom_query
       TRAFFIC_OUT '''' ''G'' ''table'' True, prom_query (''openwrt_client_info{'' @
       CLIENT_FILTER @ ''} * 0 + on() group_left() ('' @ TRAFFIC_ACCOUNTING_STATE @ '')'') ''''
       ''H'' ''table'' True, prom_query (trusted_conntrack
       (''openwrt_client_conntrack_entries{'' @ PROM_FILTER @ ''}'')) '''' ''I'' ''table'' True]
       (''One row per openwrt_client_info client. Traffic is nlbwmon per-MAC accounting;'' @
       '' the state column is explicit when collection is absent or flow offload '' @
       ''makes conntrack accounting unreliable.'') (kw\<lparr>o_transformations := Some [tf
       ''joinByField'' [(''byField'', JStr ''mac''), (''mode'', JStr ''outer'')], organize
       [''Time'', ''__name__'', ''Value #A'', ''cluster'', ''endpoint'', ''instance'', ''job'',
       ''namespace'', ''prometheus'', ''prometheus_replica'', ''service'']
       [(''hostname'', ''Hostname''), (''mac'', ''MAC''), (''ip'', ''IP''),
       (''router'', ''Router''), (''ap'', ''AP''), (''ssid'', ''SSID''), (''band'', ''Band''),
       (''connection'', ''Connection''), (''network'', ''Network''), (''mac_type'', ''MAC Type''),
       (''has_ipv6'', ''IPv6''), (''ifname'', ''Interface''), (''static'', ''Static''),
       (''Value #B'', ''Status''), (''Value #C'', ''Signal dBm''),
       (''Value #D'', ''Lease Remaining''), (''Value #E'', ''IPv6 Count''),
       (''Value #F'', ''Inbound''), (''Value #G'', ''Outbound''),
       (''Value #H'', ''Traffic Accounting''), (''Value #I'', ''Conntrack Entries'')]
       [(''Hostname'', 0), (''MAC'', 1), (''IP'', 2), (''Router'', 3), (''AP'', 4), (''SSID'', 5),
       (''Band'', 6), (''Connection'', 7), (''Network'', 8), (''MAC Type'', 9), (''IPv6'', 10),
       (''IPv6 Count'', 11), (''Status'', 12), (''Signal dBm'', 13), (''Lease Remaining'', 14),
       (''Inbound'', 15), (''Outbound'', 16), (''Traffic Accounting'', 17),
       (''Conntrack Entries'', 18), (''Interface'', 19), (''Static'', 20)], sort_by ''Hostname''
       False], o_overrides := Some [cli_field_override ''Status''
       [JDict [(''id'', JStr ''custom.cellOptions''),
       (''value'', JDict [(''type'', JStr ''color-background'')])],
       JDict [(''id'', JStr ''mappings''), (''value'', JList CLIENT_STATUS_MAPPINGS)]],
       cli_field_override ''Signal dBm'' [JDict [(''id'', JStr ''unit''),
       (''value'', JStr ''dBm'')], JDict [(''id'', JStr ''custom.cellOptions''),
       (''value'', JDict [(''type'', JStr ''color-background'')])],
       JDict [(''id'', JStr ''thresholds''),
       (''value'', thresholds [(''red'', JInt (- 90)), (''yellow'', JInt (- 70)), (''green'', JInt (- 60))])],
       JDict [(''id'', JStr ''mappings''), (''value'', JList [JDict [(''type'', JStr ''special''),
       (''options'', JDict [(''match'', JStr ''null''), (''result'',
       JDict [(''text'', JStr ''Unavailable''), (''color'', JStr ''gray''),
       (''index'', JInt 0)])])]])]], cli_field_override ''Lease Remaining''
       [JDict [(''id'', JStr ''unit''), (''value'', JStr ''s'')],
       JDict [(''id'', JStr ''mappings''), (''value'', JList [JDict [(''type'', JStr ''special''),
       (''options'', JDict [(''match'', JStr ''null''), (''result'',
       JDict [(''text'', JStr ''No lease''), (''color'', JStr ''gray''),
       (''index'', JInt 0)])])]])]], regexp_override ''/Inbound|Outbound/''
       [JDict [(''id'', JStr ''unit''), (''value'', JStr ''Bps'')],
       JDict [(''id'', JStr ''mappings''), (''value'', JList [JDict [(''type'', JStr ''special''),
       (''options'', JDict [(''match'', JStr ''null''), (''result'',
       JDict [(''text'', JStr ''Unavailable or unreliable''), (''color'', JStr ''gray''),
       (''index'', JInt 0)])])]])]], cli_field_override ''Traffic Accounting''
       [JDict [(''id'', JStr ''custom.cellOptions''),
       (''value'', JDict [(''type'', JStr ''color-background'')])],
       JDict [(''id'', JStr ''mappings''), (''value'', JList TRAFFIC_STATE_MAPPINGS)]],
       cli_field_override ''IPv6'' [JDict [(''id'', JStr ''mappings''),
       (''value'', JList IPV6_MAPPINGS)]]], o_sort_col := Some ''Hostname'',
       o_sort_desc := Some False\<rparr>), 0, 0, 24, 14),
     (timeseries 101 ''WiFi Signal by Client'' [prom_query (WIFI_SIGNAL_BY_MAC @
       '' * on(mac) group_left(hostname, ssid, band) openwrt_client_info{'' @ WIFI_CLIENT_FILTER @
       ''}'') ''{{hostname}} {{ssid}} {{band}}'' ''A'' ''time_series'' False] ''dBm''
       (''WiFi client RSSI joined to client identity after normalizing upstream station '' @
       ''MAC labels to lowercase. Empty means no WiFi signal collector sample exists '' @
       ''for the selected client.'')
       (kw\<lparr>o_thresholds_value := Some (thresholds [(''red'', JInt (- 90)), (''yellow'', JInt (- 70)), (''green'', JInt (- 60))]),
       o_legend_calcs := Some [''lastNotNull'', ''min'']\<rparr>), 0, 14, 12, 8),
     (bargauge 102 ''Weakest Associated Clients'' [prom_query (''bottomk(10, '' @ WIFI_SIGNAL_BY_MAC @
       '' * on(mac) group_left(hostname, ssid, band) openwrt_client_info{'' @ WIFI_CLIENT_FILTER @
       ''})'') ''{{hostname}} {{ssid}} {{band}}'' ''A'' ''time_series'' False] ''dBm''
       ''Bottom-10 current WiFi RSSI values. Less negative is better.''
       (kw\<lparr>o_thresholds_key := Some Neutral\<rparr>), 12, 14, 12, 8),
     (timeseries 103 ''Client Presence'' [prom_query (''sum(openwrt_client_up{'' @ PROM_FILTER @
       ''} * on(mac) group_left(connection, network) openwrt_client_info{'' @ CLIENT_FILTER @
       ''})'') ''Online'' ''A'' ''time_series'' False, prom_query
       (''count(openwrt_client_info{'' @ CLIENT_FILTER @ ''}) - sum(openwrt_client_up{'' @
       PROM_FILTER @ ''} * on(mac) group_left(connection, network) openwrt_client_info{'' @
       CLIENT_FILTER @ ''})'') ''Offline'' ''B'' ''time_series'' False] ''none''
       (''Online and offline client inventory trend. Offline clients still appear '' @
       ''in the inventory when the router knows about them.'')
       (kw\<lparr>o_overrides := Some [cli_field_override ''Online''
       [JDict [(''id'', JStr ''color''), (''value'', JDict [(''mode'', JStr ''fixed''),
       (''fixedColor'', JStr GREEN)])]], cli_field_override ''Offline''
       [JDict [(''id'', JStr ''color''), (''value'', JDict [(''mode'', JStr ''fixed''),
       (''fixedColor'', JStr GRAY)])]]]\<rparr>), 0, 22, 12, 7),
     (bargauge 104 ''Randomized / Local MACs'' [prom_query
       (''count by(mac_type) (openwrt_client_info{'' @ CLIENT_FILTER @ ''}) or vector(0)'')
       ''{{mac_type}}'' ''A'' ''time_series'' False] ''none''
       (''Locally administered MACs are privacy/randomized or synthetic addresses;'' @
       '' the dashboard surfaces them without trying to fingerprint a physical device.'')
       (kw\<lparr>o_transformations := Some [tf ''labelsToFields'' []]\<rparr>), 12, 22, 12, 7),
     (timeseries 105 ''Highest Conntrack Occupancy'' [prom_query (trusted_conntrack
       (''topk(12, openwrt_client_conntrack_entries{'' @ PROM_FILTER @
       ''} * on(mac) group_left(hostname, network) openwrt_client_info{'' @ CLIENT_FILTER @
       ''})'')) ''{{hostname}} {{network}}'' ''A'' ''time_series'' False] ''none''
       (''Current conntrack rows containing each known client IPv4 address. This is '' @
       ''a bounded per-client state count; it is suppressed while flow-offload entry '' @
       ''semantics remain unverified.'') (kw\<lparr>o_legend_calcs := Some [''lastNotNull'',
       ''max'']\<rparr>), 0, 29, 24, 8)]\<close>

definition cli_traffic :: "placement list" where
  \<open>cli_traffic =
    [(text_panel 200 '''' (''## Per-client traffic'' @ [NL] @
       ''nlbwmon accounts traffic by MAC and a deliberately small service set. The '' @
       ''counters reset at nlbwmon accounting-period rollover, which `rate()` and '' @
       ''`increase()` handle normally. Flow offload is a hard correctness guard: '' @
       ''when enabled, all traffic values below are suppressed and the accounting '' @
       ''state is red.''), 0, 0, 24, 4),
     (stat 201 ''Traffic Accounting State'' TRAFFIC_ACCOUNTING_STATE ''none''
       (''Not collected means nlbwmon is unavailable. Accounting unreliable means '' @
       ''software or hardware flow offload is enabled, so traffic panels suppress '' @
       ''values rather than showing wrong zeros.'')
       (kw\<lparr>o_mappings := Some TRAFFIC_STATE_MAPPINGS, o_thresholds_key := Some OkBad,
       o_color_mode := Some ''value''\<rparr>), 0, 4, 8, 4),
     (stat 202 ''Traffic Collector'' TRAFFIC_AVAILABLE ''none''
       (''Availability of the nlbwmon textfile collector. A failed schema or unsupported '' @
       ''service is fail-closed.'') (kw\<lparr>o_mappings := Some AVAILABILITY_MAPPINGS,
       o_thresholds_key := Some Unavailable, o_color_mode := Some ''value''\<rparr>), 8, 4, 8, 4),
     (stat 203 ''Flow Offload'' (''max(openwrt_flow_offload_enabled{'' @ PROM_FILTER @
       ''}) or vector(0)'') ''none''
       (''Software or hardware flow offload makes conntrack-derived nlbwmon accounting '' @
       ''unreliable.'') (kw\<lparr>o_mappings := Some OFFLOAD_MAPPINGS,
       o_thresholds_key := Some OkBad, o_color_mode := Some ''value''\<rparr>), 16, 4, 8, 4),
     (timeseries 205 ''Inbound by Client'' [prom_query (''topk(12, '' @ TRAFFIC_IN @ '')'') ''{{mac}}''
       ''A'' ''time_series'' False] ''Bps''
       ''Per-MAC nlbwmon inbound rate. Suppressed when flow offload is enabled.''
       (kw\<lparr>o_overrides := Some [cli_field_override ''Inbound''
       [JDict [(''id'', JStr ''color''), (''value'', JDict [(''mode'', JStr ''fixed''),
       (''fixedColor'', JStr GREEN)])]]]\<rparr>), 0, 8, 12, 8),
     (timeseries 206 ''Outbound by Client'' [prom_query (''topk(12, '' @ TRAFFIC_OUT @ '')'')
       ''{{mac}}'' ''A'' ''time_series'' False] ''Bps''
       ''Per-MAC nlbwmon outbound rate. Suppressed when flow offload is enabled.''
       (kw\<lparr>o_overrides := Some [cli_field_override ''Outbound''
       [JDict [(''id'', JStr ''color''), (''value'', JDict [(''mode'', JStr ''fixed''),
       (''fixedColor'', JStr BLUE)])]]]\<rparr>), 12, 8, 12, 8),
     (timeseries 207 ''Traffic by Service'' [prom_query TRAFFIC_SERVICE ''{{service}} {{direction}}''
       ''A'' ''time_series'' False] ''Bps''
       (''Bounded service buckets from the installed nlbwmon protocol file. Suppressed '' @
       ''when flow offload is enabled.'') kw, 0, 16, 24, 10)]\<close>

definition cli_quality :: "placement list" where
  \<open>cli_quality =
    [(text_panel 300 '''' (''## Data quality'' @ [NL] @
       ''Collector state, joinability, and identity gaps are surfaced as first-class '' @
       ''values. A missing join or collector is not treated as a healthy zero.''), 0, 0, 24, 3),
     (table 301 ''Collector Availability'' [prom_query
       (''openwrt_client_inventory_collector_available{'' @ PROM_FILTER @ ''}'') '''' ''A''
       ''table'' True, prom_query (''node_scrape_collector_success{'' @ PROM_FILTER @
       '', collector="client_inventory"}'') '''' ''B'' ''table'' True, prom_query
       (''openwrt_client_inventory_truncated{'' @ PROM_FILTER @ ''}'') '''' ''C'' ''table'' True,
       prom_query (''openwrt_flow_offload_enabled{'' @ PROM_FILTER @ ''}'') '''' ''D'' ''table''
       True] (''Raw availability and offload-state series needed to trust or reject the '' @
       ''client dashboard values.'') (kw\<lparr>o_transformations := Some [tf ''merge'' [],
       organize [''Time'', ''__name__'', ''cluster'', ''endpoint'', ''instance'', ''job'',
       ''namespace'', ''prometheus'', ''prometheus_replica'', ''service'']
       [(''mode'', ''Offload Mode''), (''collector'', ''Collector''), (''router'', ''Router''),
       (''Value #A'', ''Inventory Available''), (''Value #B'', ''Scrape Success''),
       (''Value #C'', ''Truncated''), (''Value #D'', ''Offload Enabled'')] [(''Router'', 0),
       (''Collector'', 1), (''Offload Mode'', 2), (''Inventory Available'', 3),
       (''Scrape Success'', 4), (''Truncated'', 5), (''Offload Enabled'', 6)]],
       o_overrides := Some [regexp_override ''/Inventory Available|Scrape Success/''
       [JDict [(''id'', JStr ''custom.cellOptions''),
       (''value'', JDict [(''type'', JStr ''color-background'')])],
       JDict [(''id'', JStr ''mappings''), (''value'', JList AVAILABILITY_MAPPINGS)]],
       cli_field_override ''Truncated'' [JDict [(''id'', JStr ''custom.cellOptions''),
       (''value'', JDict [(''type'', JStr ''color-background'')])],
       JDict [(''id'', JStr ''mappings''), (''value'', JList TRUNCATION_MAPPINGS)]],
       cli_field_override ''Offload Enabled'' [JDict [(''id'', JStr ''custom.cellOptions''),
       (''value'', JDict [(''type'', JStr ''color-background'')])],
       JDict [(''id'', JStr ''mappings''), (''value'', JList OFFLOAD_MAPPINGS)]]],
       o_sort_col := Some ''Router'', o_sort_desc := Some False\<rparr>), 0, 3, 24, 8),
     (stat 302 ''No Hostname'' (''count(openwrt_client_info{'' @ CLIENT_FILTER @
       '', hostname=~"unknown_.*"}) or vector(0)'') ''none''
       (''Clients without a usable hostname remain visible in the inventory and retain '' @
       ''MAC-keyed nlbwmon traffic accounting.'') (kw\<lparr>o_graph := Some True,
       o_color_mode := Some ''value''\<rparr>), 0, 11, 4, 4),
     (stat 303 ''Randomized / Local'' (''count(openwrt_client_info{'' @ CLIENT_FILTER @
       '', mac_type="local"}) or vector(0)'') ''none''
       (''Clients using a locally administered MAC address. This includes privacy-randomized '' @
       ''and synthetic addresses.'') (kw\<lparr>o_graph := Some True,
       o_color_mode := Some ''value''\<rparr>), 4, 11, 4, 4),
     (stat 304 ''Missing IP'' (''count(openwrt_client_info{'' @ CLIENT_FILTER @
       '', ip=""}) or vector(0)'') ''none''
       ''Inventory rows without an IPv4 address. This should remain low and explicit.''
       (kw\<lparr>o_graph := Some True, o_color_mode := Some ''value''\<rparr>), 8, 11, 4, 4),
     (stat 305 ''WiFi Missing SSID'' (''count(openwrt_client_info{'' @ WIFI_CLIENT_FILTER @
       '', ssid=""}) or vector(0)'') ''none''
       ''WiFi clients whose association data is missing an SSID.''
       (kw\<lparr>o_graph := Some True, o_color_mode := Some ''value''\<rparr>), 12, 11, 4, 4),
     (stat 306 ''WiFi Missing Band'' (''count(openwrt_client_info{'' @ WIFI_CLIENT_FILTER @
       '', band=""}) or vector(0)'') ''none''
       ''WiFi clients whose association data is missing a radio band.''
       (kw\<lparr>o_graph := Some True, o_color_mode := Some ''value''\<rparr>), 16, 11, 4, 4),
     (stat 307 ''No Signal Join'' (''count(openwrt_client_info{'' @ WIFI_CLIENT_FILTER @
       ''} unless on(mac) '' @ WIFI_SIGNAL_BY_MAC @ '') or vector(0)'') ''none''
       (''Associated WiFi clients without a matching signal sample after MAC-case '' @
       ''normalization.'') (kw\<lparr>o_graph := Some True,
       o_color_mode := Some ''value''\<rparr>), 20, 11, 4, 4),
     (bargauge 308 ''IPv6 Address Count'' [prom_query (''openwrt_client_ipv6_addresses{'' @
       PROM_FILTER @ ''} * on(mac) group_left(hostname) openwrt_client_info{'' @ CLIENT_FILTER @
       ''}'') ''{{hostname}}'' ''A'' ''time_series'' False] ''none''
       (''IPv6 presence is counted, not exposed as address labels, avoiding privacy-address '' @
       ''churn.'') (kw\<lparr>o_transformations := Some [tf ''limit''
       [(''limitField'', JInt 25)]]\<rparr>), 0, 15, 12, 7),
     (bargauge 309 ''Local MAC Clients'' [prom_query (''openwrt_client_info{'' @ CLIENT_FILTER @
       '', mac_type="local"}'') ''{{hostname}}'' ''A'' ''time_series'' False] ''none''
       (''Clients flagged by mac_type=local. This replaces OUI/vendor lookup and avoids '' @
       ''fingerprinting randomised addresses.'') (kw\<lparr>o_mappings := Some LOCAL_MAC_MAPPINGS,
       o_transformations := Some [tf ''limit'' [(''limitField'', JInt 25)]]\<rparr>),
       12, 15, 12, 7)]\<close>

definition cli_roaming :: "placement list" where
  \<open>cli_roaming =
    [(text_panel 400 '''' (''## WiFi roaming'' @ [NL] @
       ''Raw hostapd association and disconnection lines are kept in Loki for per-client '' @
       ''investigation. Prometheus receives only the bounded aggregate counter by '' @
       ''AP, SSID, and event; it never carries a MAC, remote IP, domain, port, IPv6 '' @
       ''address, or vendor label.''), 0, 0, 24, 4),
     (stat 401 ''Association Event Collector'' ASSOC_EVENTS_AVAILABLE ''none''
       (''Availability of the bounded AP/SSID/event counter. Loki raw-event panels '' @
       ''remain useful even when this aggregate counter is unavailable.'')
       (kw\<lparr>o_mappings := Some CONNTRACK_STATE_MAPPINGS,
       o_thresholds_key := Some Unavailable, o_color_mode := Some ''value''\<rparr>), 0, 4, 8, 4),
     (loki_stat 402 ''Roam Events (1h)'' (''sum(count_over_time({'' @ LOKI_FILTER @
       ''} |~ "AP-STA-(CONNECTED|DISCONNECTED)" [1h])) or vector(0)'')
       (''Hostapd association/disconnection lines in Loki. A zero is a valid no-events '' @
       ''state on a single AP; an empty Loki result is rendered as zero, not an error.'') kw,
       8, 4, 8, 4),
     (timeseries 403 ''Association Events by AP / SSID'' [prom_query
       (''sum by(ap, ssid, event) (increase(openwrt_wifi_assoc_events_total{'' @ PROM_FILTER @
       ''}[$__rate_interval]))'') ''{{ap}} {{ssid}} {{event}}'' ''A'' ''time_series'' False]
       ''none''
       (''Bounded aggregate association events. The label budget is AP x SSID x {connected,'' @
       '' disconnected}; no MAC label is emitted.'') kw, 16, 4, 8, 4),
     (logs_panel 404 ''Roaming Timeline'' (''{'' @ LOKI_FILTER @
       ''} |~ "AP-STA-(CONNECTED|DISCONNECTED)"'')
       (''Raw hostapd events, including the station MAC, live only in Loki. No events '' @
       ''is an expected, clean empty timeline on a single-AP installation.''), 0, 8, 24, 14)]\<close>

definition cli_tabs :: "(string \<times> placement list) list" where
  \<open>cli_tabs =
    [(''Overview'', cli_overview),
     (''Clients'', cli_clients),
     (''Traffic'', cli_traffic),
     (''Data Quality'', cli_quality),
     (''Roaming'', cli_roaming)]\<close>

definition cli_spec :: "item list \<Rightarrow> json list \<Rightarrow> json" where
  \<open>cli_spec elements tabs =
     JDict [(''title'', JStr ''OpenWrt - Clients''), (''description'',
     JStr (''Client inventory dashboard for OpenWrt identity, bounded conntrack occupancy,'' @
     '' MAC-keyed nlbwmon traffic accounting, and Loki-first WiFi roaming detail.'')), (''tags'',
     JList [JStr ''openwrt'', JStr ''clients'', JStr ''router'']),
     (''cursorSync'', JStr ''Crosshair''), (''editable'', JBool True), (''preload'', JBool False),
     (''liveNow'', JBool False), (''annotations'',
     JList [JDict [(''kind'', JStr ''AnnotationQuery''), (''spec'',
     JDict [(''builtIn'', JBool True), (''enable'', JBool True), (''hide'', JBool True),
     (''iconColor'', JStr ''rgba(0, 211, 255, 1)''), (''name'', JStr ''Annotations & Alerts''),
     (''query'', JDict [(''kind'', JStr ''DataQuery''), (''group'', JStr ''grafana''),
     (''version'', JStr ''v0''), (''spec'', JDict [])])])]]), (''links'', JList []),
     (''timeSettings'', JDict [(''timezone'', JStr ''browser''), (''from'', JStr ''now-3h''),
     (''to'', JStr ''now''), (''autoRefresh'', JStr ''30s''), (''autoRefreshIntervals'',
     JList [JStr ''10s'', JStr ''30s'', JStr ''1m'', JStr ''5m'', JStr ''15m'']),
     (''hideTimepicker'', JBool False), (''fiscalYearStartMonth'', JInt 0)]),
     (''variables'', JList cli_variables), (''elements'', JDict elements), (''layout'',
     JDict [(''kind'', JStr ''TabsLayout''), (''spec'', JDict [(''tabs'', JList tabs)])])]\<close>

definition cli_dashboard :: "json \<Rightarrow> json" where
  \<open>cli_dashboard spec =
     JDict [(''apiVersion'', JStr ''dashboard.grafana.app/v2beta1''),
     (''kind'', JStr ''Dashboard''), (''metadata'', JDict [(''name'', JStr ''openwrt-clients'')]),
     (''spec'', spec)]\<close>

end
