(* ===== verification/Validate.thy ===== *)
theory Validate
  imports Ops_Dashboard Topology_Dashboard Advanced_Dashboard Clients_Dashboard
begin

text \<open>
  \<open>validate_dashboard\<close> of the four generators, and \<open>build_dashboard\<close>, which assembles a dashboard
  and returns it only when its validation raised nothing. The order of the assertions is the
  code's. Where a message prints a set, whose order Python leaves open, the message stops before
  it.
\<close>

section \<open>Shared pieces\<close>

definition DASHBOARD_API :: string where
  "DASHBOARD_API = ''dashboard.grafana.app/v2beta1''"

definition check_header :: "json \<Rightarrow> string \<Rightarrow> unit res" where
  "check_header dash slug =
     bindR (check_field dash [''apiVersion''] DASHBOARD_API) (\<lambda>_.
     bindR (check_field dash [''kind''] ''Dashboard'') (\<lambda>_.
     check_field dash [''metadata'', ''name''] slug))"

definition lacks :: "string \<Rightarrow> string \<Rightarrow> unit res" where
  "lacks w s = ensure (\<not> py_in w s) (AssertionError [])"

definition has :: "string \<Rightarrow> string \<Rightarrow> unit res" where
  "has w s = ensure (py_in w s) (AssertionError [])"

definition check_no_uid :: "json \<Rightarrow> unit res" where
  "check_no_uid dash = bindR (jget dash ''metadata'') (\<lambda>md.
     ensure (''uid'' \<notin> set (jkeys md)) (AssertionError []))"

text \<open>The \<open>expr\<close> of every query of every panel.\<close>

definition query_expr :: "json \<Rightarrow> string res" where
  "query_expr q =
     bindR (bindR (jpath q [''spec'', ''query'', ''spec'']) jitems) (\<lambda>spec.
       case map_of spec ''expr'' of None \<Rightarrow> Inr [] | Some e \<Rightarrow> jstr e)"

definition panel_queries :: "json \<Rightarrow> json list res" where
  "panel_queries element = bindR (jpath element [''spec'', ''data'', ''spec'', ''queries'']) jlist"

definition query_exprs :: "json \<Rightarrow> string list res" where
  "query_exprs elements =
     bindR (jitems elements) (\<lambda>items.
     bindR (mapR (\<lambda>it. bindR (panel_queries (snd it)) (mapR query_expr)) items) (\<lambda>ess.
       Inr (concat ess)))"

definition any_has :: "string \<Rightarrow> string list \<Rightarrow> unit res" where
  "any_has w es = ensure (list_ex (py_in w) es) (AssertionError [])"

definition none_has :: "string \<Rightarrow> string list \<Rightarrow> unit res" where
  "none_has w es = ensure (\<not> list_ex (py_in w) es) (AssertionError [])"

section \<open>Operations\<close>

definition OPS_TABS :: "string list" where
  "OPS_TABS = [''Overview'', ''WAN & Internet'', ''WiFi & Clients'', ''LAN, NAT & Devices'',
     ''Client Insights'', ''DNS & DHCP'', ''Router Health'', ''Logs & Security'',
     ''Optional & Diagnostics'']"

definition ops_validate_dashboard :: "json \<Rightarrow> unit res" where
  "ops_validate_dashboard dash =
     bindR (check_header dash ''openwrt-operations'') (\<lambda>_.
     bindR (jget dash ''spec'') (\<lambda>spec.
     bindR (check_field spec [''title''] (''OpenWrt '' @ [CHR 0xE2, CHR 0x80, CHR 0x94] @ '' Operations'')) (\<lambda>_.
     bindR (check_field spec [''layout'', ''kind''] ''TabsLayout'') (\<lambda>_.
     bindR (tab_titles spec) (\<lambda>actual_tabs.
     bindR (ensure (actual_tabs = OPS_TABS) (AssertionError (py_repr_list actual_tabs))) (\<lambda>_.
     bindR (jget spec ''elements'') (\<lambda>elements.
     bindR (jget spec ''layout'') (\<lambda>layout.
     bindR (check_refs layout elements) (\<lambda>_.
     bindR (check_panels [''text'', ''logs''] elements) (\<lambda>_.
     bindR (check_grid layout) (\<lambda>_.
     bindR (check_vars GLOBALS_ALLOWED [''DS_PROMETHEUS'', ''DS_LOKI''] spec) (\<lambda>_.
     let dumped = json_text True dash in
     bindR (lacks ''schemaVersion'' dumped) (\<lambda>_.
     bindR (lacks ''pluginVersion'' dumped) (\<lambda>_.
     bindR (check_no_uid dash) (\<lambda>_.
     bindR (has PROM_DS dumped) (\<lambda>_. has LOKI_DS dumped))))))))))))))))"

definition ops_build_dashboard :: "json res" where
  "ops_build_dashboard =
     bindR (build_tabs ops_tabs) (\<lambda>(elements, tabs).
     let dashboard = ops_dashboard (ops_spec elements tabs) in
     bindR (ops_validate_dashboard dashboard) (\<lambda>_. Inr dashboard))"

section \<open>Topology\<close>

definition TOPO_TABS :: "string list" where
  "TOPO_TABS = [''Overview'', ''Topology'', ''Data Quality'']"

definition ARC_FIELDS :: "string list" where
  "ARC_FIELDS = [''arc__online'', ''arc__offline'', ''arc__ok'', ''arc__warn'']"

text \<open>The queries of a node graph panel.\<close>

definition check_graph_query :: "json \<Rightarrow> unit res" where
  "check_graph_query q =
     bindR (bindR (jpath q [''spec'', ''query'', ''spec'']) jitems) (\<lambda>qspec.
     bindR (ensure (map_of qspec ''format'' = Some (JStr ''table''))
       (AssertionError ''node graph queries must be format=table'')) (\<lambda>_.
     ensure (map_of qspec ''instant'' = Some (JBool True))
       (AssertionError ''node graph queries must be instant'')))"

definition check_node_graph :: "json \<Rightarrow> unit res" where
  "check_node_graph element =
     bindR (panel_queries element) (\<lambda>queries.
     bindR (mapR (\<lambda>q. bindR (jpath q [''spec'', ''refId'']) jstr) queries) (\<lambda>ref_ids.
     bindR (ensure (set ref_ids = {''nodes'', ''edges''})
       (AssertionError ''node graph must use refId nodes/edges: '')) (\<lambda>_.
     bindR (allR check_graph_query queries) (\<lambda>_.
     bindR (jpath element [''spec'', ''vizConfig'', ''spec'', ''options'']) (\<lambda>options.
     bindR (bindR (jpath options [''nodes'', ''arcs'']) jlist) (\<lambda>arcs.
     bindR (mapR (\<lambda>arc. bindR (jget arc ''field'') jstr) arcs) (\<lambda>declared_arcs.
     bindR (ensure (set declared_arcs = set ARC_FIELDS)
       (AssertionError (''arc vocabulary drifted from the collector: '' @
          py_repr_list (sort (remdups declared_arcs))))) (\<lambda>_.
     bindR (jget options ''layoutAlgorithm'') (\<lambda>algorithm.
     bindR (ensure (algorithm = JStr ''layered'')
       (AssertionError ''the force layout is unreadable at this size'')) (\<lambda>_.
     bindR (check_field options [''nodes'', ''mainStatUnit''] ''Bps'') (\<lambda>_.
     bindR (check_field options [''edges'', ''mainStatUnit''] ''Bps'') (\<lambda>_.
     bindR (bindR (jpath element [''spec'', ''data'', ''spec'', ''transformations'']) jlist) (\<lambda>transformations.
     bindR (mapR (\<lambda>t. bindR (jget t ''kind'') jstr) transformations) (\<lambda>kinds.
     bindR (ensure (''joinByField'' \<notin> set kinds)
       (AssertionError ''joinByField would merge the nodes and edges frames'')) (\<lambda>_.
     lacks ''secondarystat'' (json_text False element))))))))))))))))"

definition topo_check_panel :: "int list \<times> bool \<Rightarrow> item \<Rightarrow> (int list \<times> bool) res" where
  "topo_check_panel acc it =
     (let (ids, node_graph_seen) = acc in
      bindR (check_panel [''text''] ids it) (\<lambda>ids'.
      bindR (bindR (jpath (snd it) [''spec'', ''vizConfig'', ''group'']) jstr) (\<lambda>viz.
      if viz = ''nodeGraph'' then bindR (check_node_graph (snd it)) (\<lambda>_. Inr (ids', True))
      else Inr (ids', node_graph_seen))))"

definition topo_check_panels :: "json \<Rightarrow> unit res" where
  "topo_check_panels elements =
     bindR (jitems elements) (\<lambda>items.
     bindR (foldR topo_check_panel ([], False) items) (\<lambda>(ids, node_graph_seen).
     bindR (ensure node_graph_seen (AssertionError ''no nodeGraph panel found'')) (\<lambda>_.
     ensure (distinct ids) (AssertionError ''duplicate panel ids''))))"

definition TOPO_GLOBALS :: "string list" where
  "TOPO_GLOBALS = GLOBALS_ALLOWED @ [''__data'', ''__url_time_range'']"

definition topo_check_text :: "json \<Rightarrow> json \<Rightarrow> unit res" where
  "topo_check_text dash spec =
     (let strings = iter_strings spec; text_blob = json_text True dash in
      bindR (lacks ''schemaVersion'' text_blob) (\<lambda>_.
      bindR (lacks ''pluginVersion'' text_blob) (\<lambda>_.
      bindR (check_no_uid dash) (\<lambda>_.
      bindR (has PROM_DS text_blob) (\<lambda>_.
      bindR (lacks ''${DS_LOKI}'' text_blob) (\<lambda>_.
      bindR (any_has (''router=~'' @ [DQ] @ ''$router'' @ [DQ]) strings) (\<lambda>_.
      bindR (any_has (''job='' @ [DQ] @ ''openwrt'' @ [DQ]) strings) (\<lambda>_.
      bindR (jget spec ''elements'') (\<lambda>elements.
      bindR (query_exprs elements) (\<lambda>exprs.
      bindR (none_has ''node_nat_traffic'' exprs) (\<lambda>_.
      bindR (ensure (list_ex (\<lambda>e. py_in ''openwrt_topology_node'' e \<and> py_in ''unless on(id)'' e) exprs)
        (AssertionError ''node query lost its infra-MAC suppression'')) (\<lambda>_.
      bindR (ensure (list_ex (py_in (''authority='' @ [DQ] @ ''1'' @ [DQ])) exprs)
        (AssertionError ''authority preference lost'')) (\<lambda>_.
      ensure (list_ex (py_in ''unless on(target)'') exprs)
        (AssertionError ''edge infra suppression lost''))))))))))))))"

definition topo_validate_dashboard :: "json \<Rightarrow> unit res" where
  "topo_validate_dashboard dash =
     bindR (check_header dash ''openwrt-topology'') (\<lambda>_.
     bindR (jget dash ''spec'') (\<lambda>spec.
     bindR (check_field spec [''title''] ''OpenWrt - Topology'') (\<lambda>_.
     bindR (check_field spec [''layout'', ''kind''] ''TabsLayout'') (\<lambda>_.
     bindR (tab_titles spec) (\<lambda>titles.
     bindR (ensure (titles = TOPO_TABS) (AssertionError [])) (\<lambda>_.
     bindR (jget spec ''elements'') (\<lambda>elements.
     bindR (jget spec ''layout'') (\<lambda>layout.
     bindR (check_refs layout elements) (\<lambda>_.
     bindR (topo_check_panels elements) (\<lambda>_.
     bindR (check_grid layout) (\<lambda>_.
     bindR (check_vars TOPO_GLOBALS [''DS_PROMETHEUS''] spec) (\<lambda>_.
     topo_check_text dash spec))))))))))))"

definition topo_build_dashboard :: "json res" where
  "topo_build_dashboard =
     bindR (build_tabs topo_tabs) (\<lambda>(elements, tabs).
     let dashboard = topo_dashboard (topo_spec elements tabs) in
     bindR (topo_validate_dashboard dashboard) (\<lambda>_. Inr dashboard))"

section \<open>Clients\<close>

definition CLI_TABS :: "string list" where
  "CLI_TABS = [''Overview'', ''Clients'', ''Traffic'', ''Data Quality'', ''Roaming'']"

definition cli_check_text :: "json \<Rightarrow> json \<Rightarrow> unit res" where
  "cli_check_text dash spec =
     (let strings = iter_strings spec; text_blob = json_text True dash in
      bindR (lacks ''schemaVersion'' text_blob) (\<lambda>_.
      bindR (lacks ''pluginVersion'' text_blob) (\<lambda>_.
      bindR (check_no_uid dash) (\<lambda>_.
      bindR (has PROM_DS text_blob) (\<lambda>_.
      bindR (has LOKI_DS text_blob) (\<lambda>_.
      bindR (any_has (''router=~'' @ [DQ] @ ''$router'' @ [DQ]) strings) (\<lambda>_.
      bindR (any_has (''job='' @ [DQ] @ ''openwrt'' @ [DQ]) strings) (\<lambda>_.
      bindR (jget spec ''elements'') (\<lambda>elements.
      bindR (query_exprs elements) (\<lambda>exprs.
      bindR (any_has ''openwrt_client_bytes_total'' exprs) (\<lambda>_.
      bindR (any_has ''openwrt_client_conntrack_entries'' exprs) (\<lambda>_.
      bindR (any_has ''openwrt_wifi_assoc_events_total'' exprs) (\<lambda>_.
      bindR (any_has ''AP-STA-(CONNECTED|DISCONNECTED)'' exprs) (\<lambda>_.
      bindR (none_has ''openwrt_device_traffic_bytes_total'' exprs) (\<lambda>_.
      none_has ''node_nat_traffic'' exprs)))))))))))))))"

definition cli_validate_dashboard :: "json \<Rightarrow> unit res" where
  "cli_validate_dashboard dash =
     bindR (check_header dash ''openwrt-clients'') (\<lambda>_.
     bindR (jget dash ''spec'') (\<lambda>spec.
     bindR (check_field spec [''title''] ''OpenWrt - Clients'') (\<lambda>_.
     bindR (check_field spec [''layout'', ''kind''] ''TabsLayout'') (\<lambda>_.
     bindR (tab_titles spec) (\<lambda>titles.
     bindR (ensure (titles = CLI_TABS) (AssertionError [])) (\<lambda>_.
     bindR (jget spec ''elements'') (\<lambda>elements.
     bindR (jget spec ''layout'') (\<lambda>layout.
     bindR (check_refs layout elements) (\<lambda>_.
     bindR (check_panels [''text''] elements) (\<lambda>_.
     bindR (check_grid layout) (\<lambda>_.
     bindR (check_vars GLOBALS_ALLOWED [''DS_PROMETHEUS'', ''DS_LOKI''] spec) (\<lambda>_.
     cli_check_text dash spec))))))))))))"

definition cli_build_dashboard :: "json res" where
  "cli_build_dashboard =
     bindR (build_tabs cli_tabs) (\<lambda>(elements, tabs).
     let dashboard = cli_dashboard (cli_spec elements tabs) in
     bindR (cli_validate_dashboard dashboard) (\<lambda>_. Inr dashboard))"

section \<open>Advanced\<close>

definition ADV_TABS :: "string list" where
  "ADV_TABS = [''Advanced Overview'', ''Device Traffic'', ''WiFi Mesh'', ''DPI and Data Quality'']"

definition adv_check_refs :: "json \<Rightarrow> json \<Rightarrow> unit res" where
  "adv_check_refs layout elements =
     (let refs = layout_refs layout in
      bindR (ensure (set refs = set (jkeys elements)) (AssertionError [])) (\<lambda>_.
      ensure (distinct refs) (AssertionError [])))"

definition adv_check_panel :: "int list \<Rightarrow> item \<Rightarrow> int list res" where
  "adv_check_panel ids it =
     (let (key, element) = it in
      bindR (ensure (starts_with ''panel-'' key) (AssertionError [])) (\<lambda>_.
      bindR (jget element ''spec'') (\<lambda>spec.
      bindR (bindR (jget spec ''id'') jint) (\<lambda>pid.
      bindR (ensure (key = ''panel-'' @ show_int pid) (AssertionError [])) (\<lambda>_.
      bindR (bindR (jpath spec [''vizConfig'', ''group'']) jstr) (\<lambda>viz.
      bindR
        (if viz \<notin> {''text'', ''logs''} then
           bindR (bindR (jpath spec [''vizConfig'', ''spec'', ''fieldConfig'', ''defaults'']) jitems)
             (\<lambda>defaults. ensure (map_of defaults ''unit'' \<noteq> Some (JStr ''short'')) (AssertionError []))
         else Inr ()) (\<lambda>_.
      bindR (jpath spec [''vizConfig'', ''spec'', ''options'']) (\<lambda>options.
      bindR (ensure (''noValue'' \<notin> set (jkeys options))
        (AssertionError (''noValue in panel options: '' @ key))) (\<lambda>_.
      Inr (ids @ [pid]))))))))))"

fun rect_repr :: "rect \<Rightarrow> string" where
  "rect_repr (a, b, c, d, name) = ''('' @ py_join '', '' (map show_int [a, b, c, d] @ [py_repr name]) @ '')''"

definition adv_check_item :: "string \<Rightarrow> rect list \<Rightarrow> json \<Rightarrow> rect list res" where
  "adv_check_item tab_title rects it =
     bindR (read_item it) (\<lambda>(x, y, w, h, name).
     bindR (ensure (0 \<le> x \<and> x \<le> 23 \<and> y \<ge> 0 \<and> 1 \<le> w \<and> w \<le> 24 \<and> h > 0 \<and> x + w \<le> 24)
       (AssertionError [])) (\<lambda>_.
     let rect = (x, y, x + w, y + h, name) in
     (case find (overlaps rect) rects of
        Some other \<Rightarrow> Inl (AssertionError (''('' @
          py_join '', '' [py_repr tab_title, rect_repr rect, rect_repr other] @ '')''))
      | None \<Rightarrow> Inr (rects @ [rect]))))"

text \<open>
  Only the first row of a tab is looked at; the builder makes no other. The title, which the code
  reads only for its message, is there: \<open>adv_validate_dashboard\<close> has read every title before.
\<close>

definition adv_check_tab :: "json \<Rightarrow> unit res" where
  "adv_check_tab tab =
     bindR (bindR (jpath tab [''spec'', ''layout'', ''spec'', ''rows'']) jlist) (\<lambda>rows.
     case rows of
       [] \<Rightarrow> Inl (IndexError ''list index out of range'')
     | row # _ \<Rightarrow>
         bindR (bindR (jpath row [''spec'', ''layout'', ''spec'', ''items'']) jlist) (\<lambda>items.
         bindR (bindR (jpath tab [''spec'', ''title'']) jstr) (\<lambda>title.
         bindR (foldR (adv_check_item title) [] items) (\<lambda>_. Inr ()))))"

definition adv_check_vars :: "json \<Rightarrow> unit res" where
  "adv_check_vars spec =
     bindR (variable_names spec) (\<lambda>defined_names.
     let referenced = referenced_vars spec in
     bindR (ensure (set referenced \<subseteq> set defined_names \<union> set GLOBALS_ALLOWED) (AssertionError [])) (\<lambda>_.
     ensure (set defined_names \<subseteq> set referenced \<union> {''DS_PROMETHEUS''}) (AssertionError [])))"

definition adv_validate_dashboard :: "json \<Rightarrow> unit res" where
  "adv_validate_dashboard dash =
     bindR (check_header dash ''openwrt-advanced'') (\<lambda>_.
     bindR (jget dash ''spec'') (\<lambda>spec.
     bindR (check_field spec [''title''] ''OpenWrt - Advanced Monitoring'') (\<lambda>_.
     bindR (tab_titles spec) (\<lambda>titles.
     bindR (ensure (titles = ADV_TABS) (AssertionError [])) (\<lambda>_.
     bindR (jget spec ''layout'') (\<lambda>layout.
     bindR (jget spec ''elements'') (\<lambda>elements.
     bindR (adv_check_refs layout elements) (\<lambda>_.
     bindR (jitems elements) (\<lambda>items.
     bindR (foldR adv_check_panel [] items) (\<lambda>ids.
     bindR (ensure (distinct ids) (AssertionError [])) (\<lambda>_.
     bindR (bindR (jpath layout [''spec'', ''tabs'']) jlist) (\<lambda>tabs.
     bindR (allR adv_check_tab tabs) (\<lambda>_.
     let text_blob = json_text True dash in
     bindR (lacks ''schemaVersion'' text_blob) (\<lambda>_.
     bindR (lacks ''pluginVersion'' text_blob) (\<lambda>_.
     bindR (has PROM_DS text_blob) (\<lambda>_.
     adv_check_vars spec))))))))))))))))"

definition adv_build_dashboard :: "json res" where
  "adv_build_dashboard =
     bindR (build_tabs adv_tabs) (\<lambda>(elements, tabs).
     let dashboard = adv_dashboard (adv_spec elements tabs) in
     bindR (adv_validate_dashboard dashboard) (\<lambda>_. Inr dashboard))"

end
