(* ===== verification/Grid.thy ===== *)
theory Grid
  imports Layout Validate
begin

text \<open>
  The grid check against its meaning. A panel is a box of cells; the specification \<open>grid_ok\<close> says
  that every box lies on the 24-column grid and that no cell is covered twice. The code compares
  rectangles pairwise instead. Both readings agree on every layout, and the two versions of the
  check in the generators agree on every layout the builder makes.
\<close>

section \<open>The specification by cells\<close>

text \<open>What \<open>read_item\<close> reads: left, top, width, height and the panel's name.\<close>

type_synonym box = "int \<times> int \<times> int \<times> int \<times> string"

fun covers :: "int \<times> int \<Rightarrow> box \<Rightarrow> bool" where
  "covers (cx, cy) (x, y, w, h, _) = (x \<le> cx \<and> cx < x + w \<and> y \<le> cy \<and> cy < y + h)"

fun on_grid :: "box \<Rightarrow> bool" where
  "on_grid (x, y, w, h, _) = (0 \<le> x \<and> 0 \<le> y \<and> 1 \<le> w \<and> 1 \<le> h \<and> x + w \<le> 24)"

definition covered_once :: "box list \<Rightarrow> bool" where
  "covered_once bs = (\<forall>cell. length (filter (covers cell) bs) \<le> 1)"

definition grid_ok :: "box list \<Rightarrow> bool" where
  "grid_ok bs = (list_all on_grid bs \<and> covered_once bs)"

definition items_ok :: "json list \<Rightarrow> bool" where
  "items_ok items = (\<exists>bs. mapR read_item items = Inr bs \<and> grid_ok bs)"

section \<open>Rectangles and cells\<close>

fun rect_of :: "box \<Rightarrow> rect" where
  "rect_of (x, y, w, h, name) = (x, y, x + w, y + h, name)"

text \<open>Two boxes of at least one cell overlap exactly when they share a cell.\<close>

lemma overlaps_cell:
  assumes "on_grid a" "on_grid b"
  shows "overlaps (rect_of a) (rect_of b) \<longleftrightarrow> (\<exists>cell. covers cell a \<and> covers cell b)"
proof -
  obtain x y w h n x' y' w' h' n' where ab: "a = (x, y, w, h, n)" "b = (x', y', w', h', n')"
    by (metis prod.exhaust)
  have "covers (max x x', max y y') a \<and> covers (max x x', max y y') b"
    if "overlaps (rect_of a) (rect_of b)"
    using that assms by (auto simp: ab max_def)
  moreover have "overlaps (rect_of a) (rect_of b)" if "covers cell a \<and> covers cell b" for cell
    using that by (cases cell) (auto simp: ab)
  ultimately show ?thesis by blast
qed

lemma overlaps_sym: "overlaps a b = overlaps b a"
  by (cases a; cases b) auto

text \<open>The pairs the loop compares: every rectangle with all those before it.\<close>

definition apart :: "rect list \<Rightarrow> bool" where
  "apart = sorted_wrt (\<lambda>a b. \<not> overlaps a b)"

lemma apart_snoc: "apart (rs @ [r]) \<longleftrightarrow> apart rs \<and> find (overlaps r) rs = None"
  by (auto simp: apart_def sorted_wrt_append find_None_iff overlaps_sym)

lemma covered_once_Cons:
  "covered_once (b # bs) \<longleftrightarrow>
     covered_once bs \<and> (\<forall>b' \<in> set bs. \<not> (\<exists>cell. covers cell b \<and> covers cell b'))"
proof -
  have "length (filter (covers c) (b # bs)) \<le> 1 \<longleftrightarrow>
      length (filter (covers c) bs) \<le> 1 \<and> (covers c b \<longrightarrow> (\<forall>b' \<in> set bs. \<not> covers c b'))" for c
    by (cases "covers c b") (auto simp: filter_empty_conv)
  then show ?thesis unfolding covered_once_def by blast
qed

lemma apart_cells: "list_all on_grid bs \<Longrightarrow> apart (map rect_of bs) \<longleftrightarrow> covered_once bs"
proof (induction bs)
  case Nil
  then show ?case by (simp add: apart_def covered_once_def)
next
  case (Cons b bs)
  have "(\<forall>b' \<in> set bs. \<not> overlaps (rect_of b) (rect_of b')) \<longleftrightarrow>
      (\<forall>b' \<in> set bs. \<not> (\<exists>cell. covers cell b \<and> covers cell b'))"
    using Cons.prems by (auto simp: overlaps_cell list_all_iff)
  then show ?case using Cons by (simp add: apart_def covered_once_Cons conj_commute)
qed

section \<open>The loop of the checks\<close>

lemma check_item_Inr:
  "check_item t rs it = Inr rs' \<longleftrightarrow>
     (\<exists>b. read_item it = Inr b \<and> on_grid b \<and> find (overlaps (rect_of b)) rs = None \<and>
        rs' = rs @ [rect_of b])"
proof (cases "read_item it")
  case (Inr b)
  obtain x y w h n where "b = (x, y, w, h, n)" by (metis prod.exhaust)
  then show ?thesis using Inr
    by (cases "find (overlaps (rect_of b)) rs")
      (auto simp: check_item_def bindR_Inr_iff ensure_Inr_iff Let_def)
qed (simp add: check_item_def)

lemma adv_check_item_Inr:
  "adv_check_item t rs it = Inr rs' \<longleftrightarrow>
     (\<exists>b. read_item it = Inr b \<and> on_grid b \<and> find (overlaps (rect_of b)) rs = None \<and>
        rs' = rs @ [rect_of b])"
proof (cases "read_item it")
  case (Inr b)
  obtain x y w h n where "b = (x, y, w, h, n)" by (metis prod.exhaust)
  then show ?thesis using Inr
    by (cases "find (overlaps (rect_of b)) rs")
      (auto simp: adv_check_item_def bindR_Inr_iff ensure_Inr_iff Let_def)
qed (simp add: adv_check_item_def)

text \<open>Any check of one item with that meaning, folded over the items of a tab.\<close>

locale item_check =
  fixes check :: "string \<Rightarrow> rect list \<Rightarrow> json \<Rightarrow> rect list res"
  assumes check_Inr: "check t rs it = Inr rs' \<longleftrightarrow>
     (\<exists>b. read_item it = Inr b \<and> on_grid b \<and> find (overlaps (rect_of b)) rs = None \<and>
        rs' = rs @ [rect_of b])"
begin

lemma fold_Inr:
  "apart rs \<Longrightarrow> foldR (check t) rs items = Inr rs' \<longleftrightarrow>
     (\<exists>bs. mapR read_item items = Inr bs \<and> list_all on_grid bs \<and> rs' = rs @ map rect_of bs \<and> apart rs')"
proof (induction items arbitrary: rs)
  case Nil
  then show ?case by auto
next
  case (Cons it items)
  have "foldR (check t) rs (it # items) = Inr rs' \<longleftrightarrow>
     (\<exists>b. read_item it = Inr b \<and> on_grid b \<and> apart (rs @ [rect_of b]) \<and>
        foldR (check t) (rs @ [rect_of b]) items = Inr rs')"
    using Cons.prems by (auto simp: bindR_Inr_iff check_Inr apart_snoc)
  also have "\<dots> \<longleftrightarrow> (\<exists>b bs. read_item it = Inr b \<and> on_grid b \<and> apart (rs @ [rect_of b]) \<and>
       mapR read_item items = Inr bs \<and> list_all on_grid bs \<and>
       rs' = rs @ map rect_of (b # bs) \<and> apart rs')"
    using Cons.IH by auto
  also have "\<dots> \<longleftrightarrow> (\<exists>b bs. read_item it = Inr b \<and> on_grid b \<and>
       mapR read_item items = Inr bs \<and> list_all on_grid bs \<and>
       rs' = rs @ map rect_of (b # bs) \<and> apart rs')"
    by (auto simp: apart_def sorted_wrt_append)
  also have "\<dots> \<longleftrightarrow> (\<exists>bs. mapR read_item (it # items) = Inr bs \<and> list_all on_grid bs \<and>
       rs' = rs @ map rect_of bs \<and> apart rs')"
    by (auto simp: bindR_Inr_iff)
  finally show ?case .
qed

lemma tab_ok: "bindR (foldR (check t) [] items) (\<lambda>_. Inr ()) = Inr () \<longleftrightarrow> items_ok items"
proof -
  have "apart []" by (simp add: apart_def)
  then show ?thesis by (auto simp: bindR_Inr_iff fold_Inr items_ok_def grid_ok_def apart_cells)
qed

end

interpretation shared: item_check check_item
  by unfold_locales (rule check_item_Inr)

interpretation advanced: item_check adv_check_item
  by unfold_locales (rule adv_check_item_Inr)

section \<open>The grid check on any layout\<close>

definition tabs_ok :: "(string \<times> json list) list \<Rightarrow> bool" where
  "tabs_ok by_tab = list_all (\<lambda>t. items_ok (snd t)) by_tab"

lemma check_grid_iff:
  "check_grid layout = Inr () \<longleftrightarrow>
     (\<exists>by_tab. grid_items_by_tab layout = Inr by_tab \<and> tabs_ok by_tab)"
  by (simp add: check_grid_def tabs_ok_def list_all_iff bindR_Inr_iff [of "grid_items_by_tab layout"]
      allR_Inr_iff split_beta shared.tab_ok del: split_paired_Ex)

section \<open>The layouts of the builder\<close>

lemma read_item_of: "read_item (grid_item k x y w h) = Inr (x, y, w, h, k)"
  by (simp add: grid_item_def read_item_def)

fun box_of :: "placement \<Rightarrow> box" where
  "box_of ((k, e), x, y, w, h) = (x, y, w, h, k)"

lemma read_items_of: "mapR read_item (map item_of ps) = Inr (map box_of ps)"
proof (induction ps)
  case (Cons p ps)
  obtain k e x y w h where "p = ((k, e), x, y, w, h)" by (metis prod.exhaust)
  then show ?case using Cons.IH by (simp add: read_item_of)
qed simp

lemma items_ok_built: "items_ok (map item_of ps) \<longleftrightarrow> grid_ok (map box_of ps)"
  by (simp add: items_ok_def read_items_of)

lemma tab_items_built: "tab_items (tab_of t) = Inr (fst t, map item_of (snd t))"
  by (simp add: tab_items_def tab_of_def tab_json_def)

lemma update_new: "k \<notin> fst ` set xs \<Longrightarrow> AList.update k v xs = xs @ [(k, v)]"
  by (induction xs) auto

lemma by_tab_fold:
  "distinct (map fst tabs) \<Longrightarrow> fst ` set acc \<inter> fst ` set tabs = {} \<Longrightarrow>
   foldR (\<lambda>acc tab. bindR (tab_items tab) (\<lambda>(title, items). Inr (AList.update title items acc)))
     acc (map tab_of tabs) = Inr (acc @ map (\<lambda>t. (fst t, map item_of (snd t))) tabs)"
  by (induction tabs arbitrary: acc) (auto simp: tab_items_built update_new)

lemma grid_items_built:
  "distinct (map fst tabs) \<Longrightarrow> grid_items_by_tab (layout_json (map tab_of tabs)) =
     Inr (map (\<lambda>t. (fst t, map item_of (snd t))) tabs)"
  by (simp add: grid_items_by_tab_def layout_json_def by_tab_fold)

definition placements_ok :: "placement list \<Rightarrow> bool" where
  "placements_ok ps = grid_ok (map box_of ps)"

lemma check_grid_built:
  "distinct (map fst tabs) \<Longrightarrow>
   check_grid (layout_json (map tab_of tabs)) = Inr () \<longleftrightarrow> list_all (\<lambda>t. placements_ok (snd t)) tabs"
  by (auto simp: check_grid_def grid_items_built allR_Inr_iff list_all_iff shared.tab_ok
      items_ok_built placements_ok_def)

lemma adv_check_tab_built: "adv_check_tab (tab_of t) = Inr () \<longleftrightarrow> placements_ok (snd t)"
  by (simp add: adv_check_tab_def tab_of_def tab_json_def advanced.tab_ok items_ok_built
      placements_ok_def)

section \<open>The two versions of the checks\<close>

lemma adv_check_refs_iff: "adv_check_refs layout elements = Inr () \<longleftrightarrow> check_refs layout elements = Inr ()"
  by (auto simp: adv_check_refs_def check_refs_iff bindR_Inr_iff ensure_Inr_iff Let_def)

lemma check_vars_iff:
  "check_vars globals exempt spec = Inr () \<longleftrightarrow>
     (\<exists>names. variable_names spec = Inr names \<and>
        set (referenced_vars spec) \<subseteq> set names \<union> set globals \<and>
        set names \<subseteq> set (referenced_vars spec) \<union> set exempt)"
  by (auto simp: check_vars_def bindR_Inr_iff ensure_Inr_iff Let_def sort_empty_iff
      remdups_eq_nil_iff filter_empty_conv subset_iff)

lemma adv_check_vars_iff:
  "adv_check_vars spec = Inr () \<longleftrightarrow> check_vars GLOBALS_ALLOWED [''DS_PROMETHEUS''] spec = Inr ()"
  by (auto simp: adv_check_vars_def check_vars_iff bindR_Inr_iff ensure_Inr_iff Let_def)

end
