(* ===== verification/Variables.thy ===== *)
theory Variables
  imports Grid
begin

text \<open>
  Template variables. The scanner finds exactly the names the pattern
  \<open>\$\{?([A-Za-z_][A-Za-z0-9_]*)\}?\<close> matches, and the check accepts a specification exactly when
  every name that occurs in one of its texts is declared or global and every declared name occurs.
\<close>

section \<open>The pattern\<close>

text \<open>A name that ends here: a letter or underscore, then as many name characters as there are.\<close>

definition whole_name :: "string \<Rightarrow> string \<Rightarrow> bool" where
  "whole_name v b = (v \<noteq> [] \<and> ident_start (hd v) \<and> list_all ident_char v \<and>
     (b = [] \<or> \<not> ident_char (hd b)))"

definition var_occurs :: "string \<Rightarrow> string \<Rightarrow> bool" where
  "var_occurs v s = (\<exists>a b. (s = a @ ''$'' @ v @ b \<or> s = a @ ''${'' @ v @ b) \<and> whole_name v b)"

text \<open>The same at the front of a text, after the dollar sign.\<close>

definition name_front :: "string \<Rightarrow> string \<Rightarrow> bool" where
  "name_front v s = (\<exists>b. (s = v @ b \<or> s = ''{'' @ v @ b) \<and> whole_name v b)"

lemma var_occurs_Nil: "\<not> var_occurs v []"
  by (simp add: var_occurs_def)

lemma var_occurs_Cons:
  "var_occurs v (c # s) \<longleftrightarrow> c = CHR ''$'' \<and> name_front v s \<or> var_occurs v s"
proof
  assume "var_occurs v (c # s)"
  then obtain a b where e: "c # s = a @ ''$'' @ v @ b \<or> c # s = a @ ''${'' @ v @ b" and
    w: "whole_name v b" by (auto simp: var_occurs_def)
  show "c = CHR ''$'' \<and> name_front v s \<or> var_occurs v s"
  proof (cases a)
    case Nil
    then show ?thesis using e w by (auto simp: name_front_def)
  next
    case (Cons a0 a')
    then show ?thesis using e w by (auto simp: var_occurs_def)
  qed
next
  assume "c = CHR ''$'' \<and> name_front v s \<or> var_occurs v s"
  then show "var_occurs v (c # s)"
  proof
    assume "c = CHR ''$'' \<and> name_front v s"
    then obtain b where "c = CHR ''$''" "s = v @ b \<or> s = ''{'' @ v @ b" "whole_name v b"
      by (auto simp: name_front_def)
    then show ?thesis unfolding var_occurs_def by (intro exI [of _ "[]"] exI [of _ b]) auto
  next
    assume "var_occurs v s"
    then obtain a b where "s = a @ ''$'' @ v @ b \<or> s = a @ ''${'' @ v @ b" "whole_name v b"
      by (auto simp: var_occurs_def)
    then show ?thesis unfolding var_occurs_def by (intro exI [of _ "c # a"] exI [of _ b]) auto
  qed
qed

lemma var_occurs_skip: "CHR ''$'' \<notin> set xs \<Longrightarrow> var_occurs v (xs @ s) \<longleftrightarrow> var_occurs v s"
  by (induction xs) (auto simp: var_occurs_Cons)

lemma whole_name_takeWhile:
  "whole_name v b \<Longrightarrow> takeWhile ident_char (v @ b) = v"
  unfolding whole_name_def
  by (cases b) (auto simp: list_all_iff takeWhile_append takeWhile_eq_Nil_iff)

lemma ident_not_special: "ident_char c \<Longrightarrow> c \<noteq> CHR ''$'' \<and> c \<noteq> CHR ''{''"
  by (auto simp: ident_char_def ident_start_def is_upper_def is_lower_def is_digit_def code_def)

lemma ident_start_char: "ident_start c \<Longrightarrow> ident_char c"
  by (simp add: ident_char_def)

text \<open>What the scanner calls \<open>s'\<close>: the text after the dollar sign without one brace.\<close>

definition after_brace :: "string \<Rightarrow> string" where
  "after_brace s = (if s \<noteq> [] \<and> hd s = CHR ''{'' then tl s else s)"

lemma after_brace_cases:
  obtains pre where "s = pre @ after_brace s" and "pre = [] \<or> pre = ''{''"
proof (cases "s \<noteq> [] \<and> hd s = CHR ''{''")
  case True
  then have "s = ''{'' @ after_brace s" by (cases s) (simp_all add: after_brace_def)
  then show ?thesis using that by blast
next
  case False
  then have "s = [] @ after_brace s" by (simp only: after_brace_def if_False append_Nil)
  then show ?thesis using that by blast
qed

lemma name_front_iff:
  "name_front v s \<longleftrightarrow>
     after_brace s \<noteq> [] \<and> ident_start (hd (after_brace s)) \<and> v = takeWhile ident_char (after_brace s)"
proof
  assume "name_front v s"
  then obtain b where e: "s = v @ b \<or> s = ''{'' @ v @ b" and w: "whole_name v b"
    by (auto simp: name_front_def)
  have v: "v \<noteq> []" "ident_start (hd v)" using w by (auto simp: whole_name_def)
  have "hd v \<noteq> CHR ''{''" using v(2) ident_not_special ident_start_char by blast
  then have "after_brace s = v @ b" using e v(1) by (auto simp: after_brace_def)
  then show "after_brace s \<noteq> [] \<and> ident_start (hd (after_brace s)) \<and>
      v = takeWhile ident_char (after_brace s)"
    using v whole_name_takeWhile [OF w] by simp
next
  let ?t = "after_brace s"
  assume *: "?t \<noteq> [] \<and> ident_start (hd ?t) \<and> v = takeWhile ident_char ?t"
  then obtain c t where t: "?t = c # t" by (cases ?t) auto
  have c: "ident_char c" using * t by (auto intro: ident_start_char)
  have "whole_name v (dropWhile ident_char ?t)"
  proof -
    have v: "v = c # takeWhile ident_char t" using * c by (simp add: t)
    have "dropWhile ident_char ?t = [] \<or> \<not> ident_char (hd (dropWhile ident_char ?t))"
      using hd_dropWhile by blast
    moreover have "ident_start (hd v)" using * v by (simp add: t)
    moreover have "list_all ident_char v" using * by (auto simp: list_all_iff dest: set_takeWhileD)
    ultimately show ?thesis by (simp add: whole_name_def v)
  qed
  moreover have t: "?t = v @ dropWhile ident_char ?t" using * by simp
  moreover obtain pre where pre: "s = pre @ ?t" "pre = [] \<or> pre = ''{''" by (rule after_brace_cases)
  have "s = v @ dropWhile ident_char ?t \<or> s = ''{'' @ v @ dropWhile ident_char ?t"
    using pre t by (metis append_Nil)
  ultimately show "name_front v s" unfolding name_front_def by blast
qed

lemma var_names_Cons:
  "var_names (c # s) =
     (if c = CHR ''$'' \<and> after_brace s \<noteq> [] \<and> ident_start (hd (after_brace s))
      then takeWhile ident_char (after_brace s) # var_names (dropWhile ident_char (after_brace s))
      else var_names s)"
  by (simp add: var_names.simps(2) after_brace_def Let_def)

lemma var_names_step:
  assumes "after_brace s \<noteq> []" "ident_start (hd (after_brace s))"
  shows "var_occurs v s \<longleftrightarrow> var_occurs v (dropWhile ident_char (after_brace s))"
proof -
  let ?t = "after_brace s"
  have "CHR ''$'' \<notin> set (takeWhile ident_char ?t)" using ident_not_special by (auto dest: set_takeWhileD)
  then have "var_occurs v (takeWhile ident_char ?t @ dropWhile ident_char ?t) \<longleftrightarrow>
      var_occurs v (dropWhile ident_char ?t)" by (rule var_occurs_skip)
  moreover obtain pre where pre: "s = pre @ ?t" "pre = [] \<or> pre = ''{''" by (rule after_brace_cases)
  have "CHR ''$'' \<notin> set pre" using pre(2) by auto
  then have "var_occurs v (pre @ ?t) \<longleftrightarrow> var_occurs v ?t" by (rule var_occurs_skip)
  then have "var_occurs v s \<longleftrightarrow> var_occurs v ?t" using pre(1) by metis
  ultimately show ?thesis by simp
qed

text \<open>The left-to-right scan that never looks back misses no occurrence and adds none.\<close>

lemma var_names_iff: "v \<in> set (var_names s) \<longleftrightarrow> var_occurs v s"
proof (induction s rule: var_names.induct)
  case 1
  then show ?case by (simp add: var_occurs_Nil)
next
  case (2 c s)
  show ?case
  proof (cases "c = CHR ''$'' \<and> after_brace s \<noteq> [] \<and> ident_start (hd (after_brace s))")
    case True
    then have "v \<in> set (var_names (dropWhile ident_char (after_brace s))) \<longleftrightarrow>
        var_occurs v (dropWhile ident_char (after_brace s))"
      using 2(1) [OF after_brace_def] by simp
    then show ?thesis using True var_names_step [of s v]
      by (auto simp: var_names_Cons var_occurs_Cons name_front_iff)
  next
    case False
    then have "v \<in> set (var_names s) \<longleftrightarrow> var_occurs v s" using 2(2) [OF after_brace_def] by simp
    then show ?thesis using False
      by (auto simp: var_names_Cons var_occurs_Cons name_front_iff)
  qed
qed

end
