(* ===== verification/Json_Text.thy ===== *)
theory Json_Text
  imports Json
begin

text \<open>
  Searching the text of a JSON value. The validators look for words in \<open>json.dumps\<close>; a word without
  quote and backslash, whose first character occurs outside no string, occurs in the text exactly
  because a key or a string of the value holds it.
\<close>

section \<open>The strings and numbers of a value\<close>

fun all_strings :: "json \<Rightarrow> string list" where
  "all_strings (JStr s) = [s]"
| "all_strings (JDict kvs) = concat (map (\<lambda>p. fst p # all_strings (snd p)) kvs)"
| "all_strings (JList xs) = concat (map all_strings xs)"
| "all_strings _ = []"

fun all_floats :: "json \<Rightarrow> string list" where
  "all_floats (JFloat f) = [f]"
| "all_floats (JDict kvs) = concat (map (\<lambda>p. all_floats (snd p)) kvs)"
| "all_floats (JList xs) = concat (map all_floats xs)"
| "all_floats _ = []"

text \<open>Every value the validators scan is among the strings.\<close>

lemma iter_strings_all: "set (iter_strings j) \<subseteq> set (all_strings j)"
proof (induction j rule: iter_strings.induct)
  case (2 kvs)
  then show ?case by (force simp: subset_iff)
next
  case (3 xs)
  then show ?case by (force simp: subset_iff)
qed simp_all

section \<open>Escapes\<close>

definition escape :: "string \<Rightarrow> string" where
  "escape s = concat (map json_escape_char s)"

lemma escape_simps: "escape [] = []" "escape (c # s) = json_escape_char c @ escape s"
  by (simp_all add: escape_def)

lemma escape_cases: "json_escape_char c = [c] \<or>
    (\<exists>y. json_escape_char c = [BS, y] \<and> y \<in> {DQ, BS, CHR ''n''})"
  by (auto simp: json_escape_char_def)

lemma escape_prefix: "prefix w (escape s) \<Longrightarrow> BS \<notin> set w \<Longrightarrow> prefix w s"
proof (induction s arbitrary: w)
  case Nil
  then show ?case by (simp add: escape_simps)
next
  case (Cons c s)
  then show ?case using escape_cases [of c] by (cases w) (auto simp: escape_simps)
qed

lemma escape_sublist:
  assumes "sublist (x # w) (escape s)" "BS \<notin> set (x # w)" "x \<notin> {DQ, CHR ''n''}"
  shows "sublist (x # w) s"
  using assms(1)
proof (induction s)
  case Nil
  then show ?case by (simp add: escape_simps)
next
  case (Cons c s)
  from escape_cases [of c] show ?case
  proof
    assume c: "json_escape_char c = [c]"
    then have "prefix (x # w) (c # escape s) \<or> sublist (x # w) (escape s)"
      using Cons.prems by (simp add: escape_simps sublist_Cons_right)
    then show ?thesis using Cons.IH escape_prefix [of w s] assms(2) by (auto simp: sublist_Cons_right)
  next
    assume "\<exists>y. json_escape_char c = [BS, y] \<and> y \<in> {DQ, BS, CHR ''n''}"
    then show ?thesis using Cons assms(2,3) by (auto simp: escape_simps sublist_Cons_right)
  qed
qed

section \<open>Where a character stands in the text\<close>

text \<open>
  Every \<open>x\<close> of the text stands in a string of \<open>S\<close>: from there to the next quote the text is part
  of that string's escape.
\<close>

definition in_strings :: "char \<Rightarrow> string set \<Rightarrow> string \<Rightarrow> bool" where
  "in_strings x S t = (\<forall>a b. t = a @ x # b \<longrightarrow>
     (\<exists>r b' s. b = r @ DQ # b' \<and> s \<in> S \<and> sublist (x # r) (escape s)))"

lemma in_strings_absent: "x \<notin> set t \<Longrightarrow> in_strings x S t"
  by (auto simp: in_strings_def)

lemma in_strings_append: "in_strings x S t \<Longrightarrow> in_strings x S u \<Longrightarrow> in_strings x S (t @ u)"
  unfolding in_strings_def
  by (auto simp: append_eq_append_conv2 append_eq_Cons_conv Cons_eq_append_conv) (metis append_Cons append_assoc)+

lemma in_strings_mono: "in_strings x S t \<Longrightarrow> S \<subseteq> S' \<Longrightarrow> in_strings x S' t"
  unfolding in_strings_def by blast

lemma in_strings_quote:
  assumes "x \<noteq> DQ"
  shows "in_strings x {s} (json_quote s)"
  unfolding in_strings_def
proof (intro allI impI)
  fix a b
  assume "json_quote s = a @ x # b"
  then have e: "DQ # escape s @ [DQ] = a @ x # b" by (simp add: json_quote_def escape_def)
  then obtain a' where "escape s @ [DQ] = a' @ x # b" using assms by (cases a) auto
  then obtain r where "b = r @ [DQ]" "escape s = a' @ x # r"
    using assms by (cases b rule: rev_cases) auto
  then show "\<exists>r b' s'. b = r @ DQ # b' \<and> s' \<in> {s} \<and> sublist (x # r) (escape s')"
    by (metis singletonI sublist_append_leftI)
qed

lemma in_strings_join:
  "(\<And>t. t \<in> set ts \<Longrightarrow> in_strings x S t) \<Longrightarrow> x \<notin> set sep \<Longrightarrow> in_strings x S (py_join sep ts)"
proof (induction sep ts rule: py_join.induct)
  case (3 sep w v vs)
  then show ?case by (simp add: in_strings_append in_strings_absent)
qed (auto intro: in_strings_absent)

lemma in_strings_wrap:
  "in_strings x S t \<Longrightarrow> x \<notin> set l \<Longrightarrow> x \<notin> set r \<Longrightarrow> in_strings x S (l @ t @ r)"
  by (simp add: in_strings_append in_strings_absent)

section \<open>The text of a value\<close>

text \<open>The characters outside of strings and floats.\<close>

definition json_punctuation :: "string" where
  "json_punctuation = ''nulltruefalse-0123456789[], {}:'' @ [DQ]"

lemma show_int_punctuation: "set (show_int n) \<subseteq> set json_punctuation"
proof -
  have "c \<in> set json_punctuation" if "is_digit c" for c
  proof -
    have "code c - 48 < 10" "c = digit_char (code c - 48)"
      using that by (auto simp: is_digit_def digit_char_def)
    moreover have "list_all (\<lambda>n. digit_char n \<in> set json_punctuation) [0..<10]" by code_simp
    ultimately show ?thesis by (metis atLeastLessThan_iff le0 list_all_iff set_upt)
  qed
  moreover have "CHR ''-'' \<in> set json_punctuation" by (simp add: json_punctuation_def)
  ultimately show ?thesis using show_nat_digits by (auto simp: show_int_def list_all_iff split: if_splits)
qed

lemma in_strings_json_text:
  assumes "x \<notin> set json_punctuation"
  shows "(\<And>f. f \<in> set (all_floats j) \<Longrightarrow> x \<notin> set f) \<Longrightarrow>
    in_strings x (set (all_strings j)) (json_text b j)"
proof (induction b j rule: json_text.induct)
  case (3 b n)
  then show ?case using show_int_punctuation assms by (auto intro!: in_strings_absent)
next
  case (5 b s)
  have "x \<noteq> DQ" using assms by (auto simp: json_punctuation_def)
  then show ?case using in_strings_quote by simp
next
  case (6 b xs)
  have "in_strings x (set (all_strings (JList xs))) t" if t: "t \<in> set (map (json_text b) xs)" for t
  proof -
    obtain j where "j \<in> set xs" "t = json_text b j" using t by auto
    then show ?thesis using 6 by (auto intro: in_strings_mono)
  qed
  then have "in_strings x (set (all_strings (JList xs))) (py_join '', '' (map (json_text b) xs))"
    using assms by (intro in_strings_join) (auto simp: json_punctuation_def)
  then show ?case using assms in_strings_wrap [of x _ _ "''[''" "'']''"]
    by (simp add: json_punctuation_def)
next
  case (7 b kvs)
  let ?S = "set (all_strings (JDict kvs))"
  have dq: "x \<noteq> DQ" using assms by (auto simp: json_punctuation_def)
  let ?texts = "map (\<lambda>p. (fst p, json_text b (snd p))) kvs"
  have "in_strings x ?S (json_quote (fst p) @ '': '' @ snd p)" if p: "p \<in> set ?texts" for p
  proof -
    obtain q where q: "q \<in> set kvs" "p = (fst q, json_text b (snd q))" using p by auto
    have "in_strings x ?S (json_quote (fst q))"
      using in_strings_quote [OF dq] by (rule in_strings_mono) (use q in auto)
    moreover have fl: "x \<notin> set f" if "f \<in> set (all_floats (snd q))" for f
      using 7(2) [of f] that q(1) by auto
    then have "in_strings x (set (all_strings (snd q))) (json_text b (snd q))"
      by (rule 7(1) [OF q(1)])
    then have "in_strings x ?S (json_text b (snd q))"
      by (rule in_strings_mono) (use q(1) in auto)
    moreover have "in_strings x ?S '': ''"
      by (rule in_strings_absent) (use assms in \<open>simp add: json_punctuation_def\<close>)
    ultimately show ?thesis unfolding q(2) fst_conv snd_conv by (intro in_strings_append)
  qed
  then have "in_strings x ?S (py_join '', ''
      (map (\<lambda>p. json_quote (fst p) @ '': '' @ snd p) (if b then sort_key fst ?texts else ?texts)))"
    using assms by (intro in_strings_join) (auto simp: json_punctuation_def split: if_splits)
  then show ?case using assms in_strings_wrap [of x _ _ "''{''" "''}''"]
    by (simp add: json_punctuation_def Let_def)
qed (use assms in \<open>auto intro!: in_strings_absent simp: json_punctuation_def\<close>)

text \<open>A word found in the text is in a string of the value.\<close>

lemma py_in_json_text:
  assumes "py_in (x # w) (json_text b j)"
    and "x \<notin> set json_punctuation" "DQ \<notin> set w" "BS \<notin> set (x # w)"
    and "\<And>f. f \<in> set (all_floats j) \<Longrightarrow> x \<notin> set f"
  shows "\<exists>s \<in> set (all_strings j). py_in (x # w) s"
proof -
  obtain a b' where t: "json_text b j = a @ x # w @ b'"
    using assms(1) by (auto simp: py_in_sublist sublist_def)
  then obtain r b'' s where r: "w @ b' = r @ DQ # b''" and s: "s \<in> set (all_strings j)"
    "sublist (x # r) (escape s)"
    using in_strings_json_text [OF assms(2,5)] unfolding in_strings_def by (metis append_Cons)
  have "prefix w r" using r assms(3)
    by (auto simp: append_eq_append_conv2 Cons_eq_append_conv append_eq_Cons_conv prefix_def)
  then have "sublist (x # w) (escape s)" using s(2)
    by (meson Cons_prefix_Cons prefix_imp_sublist sublist_order.order.trans)
  moreover have "x \<notin> {DQ, CHR ''n''}" using assms(2) by (auto simp: json_punctuation_def)
  ultimately show ?thesis using s(1) escape_sublist assms(4) by (auto simp: py_in_sublist)
qed

text \<open>A string of the value is found in the text, in its escaped form.\<close>

lemma sublist_py_join: "t \<in> set ts \<Longrightarrow> sublist t (py_join sep ts)"
proof (induction sep ts rule: py_join.induct)
  case (3 sep w v vs)
  then show ?case
    by simp (metis sublist_append_leftI sublist_append_rightI sublist_order.order.trans append_assoc)
qed auto

lemma string_in_json_text: "s \<in> set (all_strings j) \<Longrightarrow> sublist (escape s) (json_text b j)"
proof (induction b j rule: json_text.induct)
  case (5 b s')
  then show ?case by (simp add: json_quote_def escape_def) (metis append_Cons append_Nil sublist_appendI)
next
  case (6 b xs)
  then obtain j where j: "j \<in> set xs" "s \<in> set (all_strings j)" by auto
  then have "sublist (escape s) (json_text b j)" using 6 by auto
  also have "sublist \<dots> (py_join '', '' (map (json_text b) xs))" using j by (intro sublist_py_join) auto
  also have "sublist \<dots> (json_text b (JList xs))" by simp (metis append_Cons append_Nil sublist_appendI)
  finally show ?case .
next
  case (7 b kvs)
  let ?texts = "map (\<lambda>p. (fst p, json_text b (snd p))) kvs"
  let ?row = "\<lambda>p. json_quote (fst p) @ '': '' @ snd p"
  let ?ts = "map ?row (if b then sort_key fst ?texts else ?texts)"
  obtain q where q: "q \<in> set kvs" "s = fst q \<or> s \<in> set (all_strings (snd q))" using 7 by auto
  have row: "sublist (escape s) (?row (fst q, json_text b (snd q)))"
  proof (cases "s = fst q")
    case True
    then show ?thesis by (simp add: json_quote_def escape_def)
      (metis append_Cons append_Nil sublist_appendI)
  next
    case False
    then have "sublist (escape s) (json_text b (snd q))" using 7(1) q by auto
    then show ?thesis
      by simp (metis append_assoc append_Cons append_Nil sublist_append_leftI sublist_order.order.trans)
  qed
  have "(fst q, json_text b (snd q)) \<in> set (if b then sort_key fst ?texts else ?texts)"
    using q(1) by simp
  then have "?row (fst q, json_text b (snd q)) \<in> set ?ts" unfolding set_map by (rule imageI)
  then have "sublist (?row (fst q, json_text b (snd q))) (py_join '', '' ?ts)" by (rule sublist_py_join)
  with row have "sublist (escape s) (py_join '', '' ?ts)" by (rule sublist_order.order.trans)
  moreover have "sublist (py_join '', '' ?ts) (''{'' @ py_join '', '' ?ts @ ''}'')" by (rule sublist_appendI)
  ultimately have "sublist (escape s) (''{'' @ py_join '', '' ?ts @ ''}'')"
    by (rule sublist_order.order.trans)
  moreover have "json_text b (JDict kvs) = ''{'' @ py_join '', '' ?ts @ ''}''"
    by (simp only: json_text.simps Let_def)
  ultimately show ?case by (simp only:)
qed auto

end
