(* ===== verification/Scan.thy ===== *)
theory Scan
  imports Variables Json_Text
begin

text \<open>
  Deciding what the validators ask of a text without building it. The texts of a dashboard are
  concatenations of many pieces; an automaton reads them piece by piece, each piece once. It finds
  the names of template variables and the letters \<open>Ve\<close>, which both forbidden words
  \<open>pluginVersion\<close> and \<open>schemaVersion\<close> hold.
\<close>

section \<open>Names of template variables\<close>

datatype vstate = Idle | Dollar | Brace | Name string | Bad

fun enter :: "char \<Rightarrow> vstate" where
  "enter c = (if ident_start c then Name [c] else if c = CHR ''$'' then Dollar else Idle)"

fun vstep :: "string list \<Rightarrow> char \<Rightarrow> vstate \<Rightarrow> vstate" where
  "vstep ok c Idle = (if c = CHR ''$'' then Dollar else Idle)"
| "vstep ok c Dollar = (if c = CHR ''{'' then Brace else enter c)"
| "vstep ok c Brace = enter c"
| "vstep ok c (Name r) = (if ident_char c then Name (c # r)
     else if rev r \<in> set ok then (if c = CHR ''$'' then Dollar else Idle) else Bad)"
| "vstep ok c Bad = Bad"

fun vend :: "string list \<Rightarrow> vstate \<Rightarrow> bool" where
  "vend ok (Name r) = (rev r \<in> set ok)"
| "vend ok Bad = False"
| "vend ok _ = True"

definition vars_in :: "string list \<Rightarrow> string \<Rightarrow> bool" where
  "vars_in ok s = (set (var_names s) \<subseteq> set ok)"

text \<open>What a state has still to find.\<close>

fun vspec :: "string list \<Rightarrow> vstate \<Rightarrow> string \<Rightarrow> bool" where
  "vspec ok Idle s = vars_in ok s"
| "vspec ok Dollar s = vars_in ok (''$'' @ s)"
| "vspec ok Brace s = vars_in ok (''${'' @ s)"
| "vspec ok (Name r) s = (rev r @ takeWhile ident_char s \<in> set ok \<and> vars_in ok (dropWhile ident_char s))"
| "vspec ok Bad s = False"

lemma vars_in_simps:
  "vars_in ok []"
  "c \<noteq> CHR ''$'' \<Longrightarrow> vars_in ok (c # s) = vars_in ok s"
  "vars_in ok (CHR ''$'' # s) =
     (if after_brace s \<noteq> [] \<and> ident_start (hd (after_brace s))
      then takeWhile ident_char (after_brace s) \<in> set ok \<and> vars_in ok (dropWhile ident_char (after_brace s))
      else vars_in ok s)"
  by (simp_all add: vars_in_def var_names_Cons)

lemma after_brace_simps:
  "after_brace [] = []" "after_brace (CHR ''{'' # s) = s" "c \<noteq> CHR ''{'' \<Longrightarrow> after_brace (c # s) = c # s"
  by (simp_all add: after_brace_def)

lemma ident_start_special: "ident_start c \<Longrightarrow> c \<noteq> CHR ''$'' \<and> c \<noteq> CHR ''{''"
  using ident_not_special ident_start_char by blast

lemma vspec_Nil: "vspec ok st [] = vend ok st"
  by (cases st) (simp_all add: vars_in_simps after_brace_simps)

lemma vspec_Cons: "vspec ok st (c # s) = vspec ok (vstep ok c st) s"
proof (cases st)
  case Idle
  then show ?thesis by (simp add: vars_in_simps)
next
  case Dollar
  then show ?thesis using ident_start_special [of c] ident_start_char [of c]
    by (cases "c = CHR ''{''"; cases "ident_start c"; cases "c = CHR ''$''")
      (simp_all add: vars_in_simps(3) [of ok "c # s"] vars_in_simps(3) [of ok "CHR ''$'' # s"] vars_in_simps(2) after_brace_simps)
next
  case Brace
  then show ?thesis using ident_start_special [of c] ident_start_char [of c]
    by (cases "ident_start c"; cases "c = CHR ''$''")
      (simp_all add: vars_in_simps(3) [of ok "CHR ''{'' # c # s"]
          vars_in_simps(3) [of ok "CHR ''{'' # CHR ''$'' # s"] vars_in_simps(2) after_brace_simps)
next
  case (Name r)
  then show ?thesis using ident_not_special [of c]
    by (cases "c = CHR ''$''") (simp_all add: vars_in_simps(2))
qed simp

lemma vend_fold: "vend ok (fold (vstep ok) s st) = vspec ok st s"
  by (induction s arbitrary: st) (simp_all add: vspec_Nil vspec_Cons)

section \<open>Words\<close>

text \<open>The state holds what is left of every occurrence begun; none once one is complete.\<close>

fun wstep :: "string \<Rightarrow> char \<Rightarrow> string list option \<Rightarrow> string list option" where
  "wstep w c None = None"
| "wstep w c (Some act) =
     (let act' = map tl (filter (\<lambda>r. hd r = c) (w # act)) in if [] \<in> set act' then None else Some act')"

lemma wstep_None: "fold (wstep w) s None = None"
  by (induction s) auto

lemma wstep_sound:
  "fold (wstep w) s (Some act) \<noteq> None \<Longrightarrow> w \<noteq> [] \<Longrightarrow> [] \<notin> set act \<Longrightarrow>
     \<not> sublist w s \<and> (\<forall>r \<in> set act. \<not> prefix r s)"
proof (induction s arbitrary: act)
  case Nil
  then show ?case by auto
next
  case (Cons c s)
  let ?act = "map tl (filter (\<lambda>r. hd r = c) (w # act))"
  have ne: "[] \<notin> set ?act" using Cons.prems(1) by (auto simp: wstep_None Let_def split: if_splits)
  then have "fold (wstep w) s (Some ?act) \<noteq> None" using Cons.prems(1) by (simp add: Let_def)
  then have IH: "\<not> sublist w s" "\<forall>r \<in> set ?act. \<not> prefix r s"
    using Cons.IH [OF _ Cons.prems(2) ne] by auto
  have "\<not> prefix r (c # s)" if r: "r \<in> set (w # act)" for r
  proof
    assume p: "prefix r (c # s)"
    have "r \<noteq> []" using r Cons.prems(2,3) by auto
    then have "hd r = c" "prefix (tl r) s" using p by (cases r; auto)+
    then have "tl r \<in> set ?act" using r by (auto simp: image_iff)
    then show False using IH(2) \<open>prefix (tl r) s\<close> by blast
  qed
  then show ?case using IH(1) by (auto simp: sublist_Cons_right)
qed

definition word_free :: "string \<Rightarrow> string \<Rightarrow> bool" where
  "word_free w s = (fold (wstep w) s (Some []) \<noteq> None)"

lemma word_free: "word_free w s \<Longrightarrow> w \<noteq> [] \<Longrightarrow> \<not> py_in w s"
  using wstep_sound [of w s "[]"] by (simp add: word_free_def py_in_sublist)

section \<open>Both at once\<close>

type_synonym cstate = "vstate \<times> string list option"

fun cstep :: "string list \<Rightarrow> char \<Rightarrow> cstate \<Rightarrow> cstate" where
  "cstep ok c (v, n) = (vstep ok c v, wstep ''Ve'' c n)"

definition c0 :: cstate where
  "c0 = (Idle, Some [])"

definition run :: "string list \<Rightarrow> string \<Rightarrow> cstate \<Rightarrow> cstate" where
  "run ok s st = fold (cstep ok) s st"

fun accepts :: "string list \<Rightarrow> cstate \<Rightarrow> bool" where
  "accepts ok (v, n) = (vend ok v \<and> n \<noteq> None)"

definition clean :: "string list \<Rightarrow> string \<Rightarrow> bool" where
  "clean ok s = accepts ok (run ok s c0)"

definition float_text :: "string \<Rightarrow> bool" where
  "float_text f = list_all (\<lambda>c. c \<in> set ''0123456789.e-+'') f"

text \<open>A value all of whose texts are clean.\<close>

definition text_clean :: "string list \<Rightarrow> json \<Rightarrow> bool" where
  "text_clean ok j = (list_all (clean ok) (all_strings j) \<and> list_all float_text (all_floats j))"

definition dict_clean :: "string list \<Rightarrow> item list \<Rightarrow> bool" where
  "dict_clean ok kvs = list_all (\<lambda>p. clean ok (fst p) \<and> text_clean ok (snd p)) kvs"

lemma run_pair: "run ok s (v, n) = (fold (vstep ok) s v, fold (wstep ''Ve'') s n)"
  by (induction s arbitrary: v n) (simp_all add: run_def)

lemma clean_vars: "clean ok s \<Longrightarrow> set (var_names s) \<subseteq> set ok"
  by (simp add: clean_def c0_def run_pair vend_fold vars_in_def)

lemma clean_word: "clean ok s \<Longrightarrow> \<not> py_in ''Ve'' s"
  using word_free [of "''Ve''" s] by (simp add: clean_def c0_def run_pair word_free_def)

text \<open>No value whose texts are clean holds a word with the letters \<open>Ve\<close>.\<close>

lemma text_clean_word:
  assumes "text_clean ok j" "c \<notin> set json_punctuation" "c \<notin> set ''.+''"
    and "DQ \<notin> set w" "BS \<notin> set (c # w)" "py_in ''Ve'' (c # w)"
  shows "\<not> py_in (c # w) (json_text b j)"
proof
  assume "py_in (c # w) (json_text b j)"
  moreover have "c \<notin> set f" if "f \<in> set (all_floats j)" for f
  proof -
    have "set f \<subseteq> set ''0123456789.e-+''"
      using that assms(1) unfolding text_clean_def float_text_def list_all_iff by blast
    also have "\<dots> \<subseteq> set json_punctuation \<union> set ''.+''" by (simp add: json_punctuation_def)
    finally show ?thesis using assms(2,3) by blast
  qed
  ultimately obtain s where s: "s \<in> set (all_strings j)" "py_in (c # w) s"
    using py_in_json_text assms(2,4,5) by blast
  then have "py_in ''Ve'' s" using assms(6) unfolding py_in_sublist
    by (rule_tac sublist_order.order.trans)
  then show False using s(1) assms(1) clean_word by (auto simp: text_clean_def list_all_iff)
qed

lemma text_clean_vars:
  "text_clean ok j \<Longrightarrow> set (concat (map var_names (iter_strings j))) \<subseteq> set ok"
  using iter_strings_all [of j] clean_vars by (fastforce simp: text_clean_def list_all_iff)

lemma text_clean_simps [simp]:
  "text_clean ok (JStr s) = clean ok s"
  "text_clean ok (JList xs) = list_all (text_clean ok) xs"
  "text_clean ok (JDict kvs) = dict_clean ok kvs"
  "text_clean ok (JInt i)"
  "text_clean ok (JBool b)"
  "text_clean ok JNull"
  "text_clean ok (JFloat f) = float_text f"
  by (auto simp: text_clean_def dict_clean_def list_all_iff)

lemma dict_clean_simps [simp]:
  "dict_clean ok []"
  "dict_clean ok ((k, v) # kvs) = (clean ok k \<and> text_clean ok v \<and> dict_clean ok kvs)"
  "dict_clean ok (kvs @ kvs') = (dict_clean ok kvs \<and> dict_clean ok kvs')"
  by (simp_all add: dict_clean_def)

lemma set_update: "set (AList.update k v d) \<subseteq> insert (k, v) (set d)"
  by (induction d) auto

lemma set_dict_update: "set (dict_update d e) \<subseteq> set d \<union> set e"
proof (induction e arbitrary: d)
  case (Cons p e)
  then have "set (dict_update d (p # e)) \<subseteq> set (AList.update (fst p) (snd p) d) \<union> set e"
    by (simp add: dict_update_def split_beta)
  then show ?case using set_update [of "fst p" "snd p" d] by auto
qed (simp add: dict_update_def)

lemma dict_clean_update: "dict_clean ok d \<Longrightarrow> dict_clean ok e \<Longrightarrow> dict_clean ok (dict_update d e)"
  using set_dict_update [of d e] by (auto simp: dict_clean_def list_all_iff)

lemma run_simps:
  "run ok [] st = st"
  "run ok (c # s) st = run ok s (cstep ok c st)"
  "run ok (s @ t) st = run ok t (run ok s st)"
  by (simp_all add: run_def)

section \<open>One rule for each character\<close>

text \<open>
  Evaluating the automaton on a text takes one rewriting step for each character: the rules below are
  chosen by the character, so that no comparison is made.
\<close>

lemma run_plain:
  "run ok (CHR '' '' # s) c0 = run ok s c0"
  "run ok (CHR ''!'' # s) c0 = run ok s c0"
  "run ok (DQ # s) c0 = run ok s c0"
  "run ok (CHR ''#'' # s) c0 = run ok s c0"
  "run ok (CHR ''%'' # s) c0 = run ok s c0"
  "run ok (CHR ''&'' # s) c0 = run ok s c0"
  "run ok (CHR 0x27 # s) c0 = run ok s c0"
  "run ok (CHR ''('' # s) c0 = run ok s c0"
  "run ok (CHR '')'' # s) c0 = run ok s c0"
  "run ok (CHR ''*'' # s) c0 = run ok s c0"
  "run ok (CHR ''+'' # s) c0 = run ok s c0"
  "run ok (CHR '','' # s) c0 = run ok s c0"
  "run ok (CHR ''-'' # s) c0 = run ok s c0"
  "run ok (CHR ''.'' # s) c0 = run ok s c0"
  "run ok (CHR ''/'' # s) c0 = run ok s c0"
  "run ok (CHR ''0'' # s) c0 = run ok s c0"
  "run ok (CHR ''1'' # s) c0 = run ok s c0"
  "run ok (CHR ''2'' # s) c0 = run ok s c0"
  "run ok (CHR ''3'' # s) c0 = run ok s c0"
  "run ok (CHR ''4'' # s) c0 = run ok s c0"
  "run ok (CHR ''5'' # s) c0 = run ok s c0"
  "run ok (CHR ''6'' # s) c0 = run ok s c0"
  "run ok (CHR ''7'' # s) c0 = run ok s c0"
  "run ok (CHR ''8'' # s) c0 = run ok s c0"
  "run ok (CHR ''9'' # s) c0 = run ok s c0"
  "run ok (CHR '':'' # s) c0 = run ok s c0"
  "run ok (CHR '';'' # s) c0 = run ok s c0"
  "run ok (CHR ''<'' # s) c0 = run ok s c0"
  "run ok (CHR ''='' # s) c0 = run ok s c0"
  "run ok (CHR ''>'' # s) c0 = run ok s c0"
  "run ok (CHR ''?'' # s) c0 = run ok s c0"
  "run ok (CHR ''@'' # s) c0 = run ok s c0"
  "run ok (CHR ''A'' # s) c0 = run ok s c0"
  "run ok (CHR ''B'' # s) c0 = run ok s c0"
  "run ok (CHR ''C'' # s) c0 = run ok s c0"
  "run ok (CHR ''D'' # s) c0 = run ok s c0"
  "run ok (CHR ''E'' # s) c0 = run ok s c0"
  "run ok (CHR ''F'' # s) c0 = run ok s c0"
  "run ok (CHR ''G'' # s) c0 = run ok s c0"
  "run ok (CHR ''H'' # s) c0 = run ok s c0"
  "run ok (CHR ''I'' # s) c0 = run ok s c0"
  "run ok (CHR ''J'' # s) c0 = run ok s c0"
  "run ok (CHR ''K'' # s) c0 = run ok s c0"
  "run ok (CHR ''L'' # s) c0 = run ok s c0"
  "run ok (CHR ''M'' # s) c0 = run ok s c0"
  "run ok (CHR ''N'' # s) c0 = run ok s c0"
  "run ok (CHR ''O'' # s) c0 = run ok s c0"
  "run ok (CHR ''P'' # s) c0 = run ok s c0"
  "run ok (CHR ''Q'' # s) c0 = run ok s c0"
  "run ok (CHR ''R'' # s) c0 = run ok s c0"
  "run ok (CHR ''S'' # s) c0 = run ok s c0"
  "run ok (CHR ''T'' # s) c0 = run ok s c0"
  "run ok (CHR ''U'' # s) c0 = run ok s c0"
  "run ok (CHR ''W'' # s) c0 = run ok s c0"
  "run ok (CHR ''X'' # s) c0 = run ok s c0"
  "run ok (CHR ''Y'' # s) c0 = run ok s c0"
  "run ok (CHR ''Z'' # s) c0 = run ok s c0"
  "run ok (CHR ''['' # s) c0 = run ok s c0"
  "run ok (BS # s) c0 = run ok s c0"
  "run ok (CHR '']'' # s) c0 = run ok s c0"
  "run ok (CHR ''^'' # s) c0 = run ok s c0"
  "run ok (CHR ''_'' # s) c0 = run ok s c0"
  "run ok (CHR ''`'' # s) c0 = run ok s c0"
  "run ok (CHR ''a'' # s) c0 = run ok s c0"
  "run ok (CHR ''b'' # s) c0 = run ok s c0"
  "run ok (CHR ''c'' # s) c0 = run ok s c0"
  "run ok (CHR ''d'' # s) c0 = run ok s c0"
  "run ok (CHR ''e'' # s) c0 = run ok s c0"
  "run ok (CHR ''f'' # s) c0 = run ok s c0"
  "run ok (CHR ''g'' # s) c0 = run ok s c0"
  "run ok (CHR ''h'' # s) c0 = run ok s c0"
  "run ok (CHR ''i'' # s) c0 = run ok s c0"
  "run ok (CHR ''j'' # s) c0 = run ok s c0"
  "run ok (CHR ''k'' # s) c0 = run ok s c0"
  "run ok (CHR ''l'' # s) c0 = run ok s c0"
  "run ok (CHR ''m'' # s) c0 = run ok s c0"
  "run ok (CHR ''n'' # s) c0 = run ok s c0"
  "run ok (CHR ''o'' # s) c0 = run ok s c0"
  "run ok (CHR ''p'' # s) c0 = run ok s c0"
  "run ok (CHR ''q'' # s) c0 = run ok s c0"
  "run ok (CHR ''r'' # s) c0 = run ok s c0"
  "run ok (CHR ''s'' # s) c0 = run ok s c0"
  "run ok (CHR ''t'' # s) c0 = run ok s c0"
  "run ok (CHR ''u'' # s) c0 = run ok s c0"
  "run ok (CHR ''v'' # s) c0 = run ok s c0"
  "run ok (CHR ''w'' # s) c0 = run ok s c0"
  "run ok (CHR ''x'' # s) c0 = run ok s c0"
  "run ok (CHR ''y'' # s) c0 = run ok s c0"
  "run ok (CHR ''z'' # s) c0 = run ok s c0"
  "run ok (CHR ''{'' # s) c0 = run ok s c0"
  "run ok (CHR ''|'' # s) c0 = run ok s c0"
  "run ok (CHR ''}'' # s) c0 = run ok s c0"
  "run ok (CHR ''~'' # s) c0 = run ok s c0"
  "run ok (NL # s) c0 = run ok s c0"
  "run ok (CHR 0xE2 # s) c0 = run ok s c0"
  "run ok (CHR 0x80 # s) c0 = run ok s c0"
  "run ok (CHR 0x94 # s) c0 = run ok s c0"
  "run ok (CHR 0x93 # s) c0 = run ok s c0"
  "run ok (CHR 0x86 # s) c0 = run ok s c0"
  "run ok (CHR 0x92 # s) c0 = run ok s c0"
  "run ok (CHR 0xC2 # s) c0 = run ok s c0"
  "run ok (CHR 0xB7 # s) c0 = run ok s c0"
  "run ok (CHR 0xB0 # s) c0 = run ok s c0"
  "run ok (CHR 0xB1 # s) c0 = run ok s c0"
  "run ok (CHR 0xC3 # s) c0 = run ok s c0"
  "run ok (CHR 0x97 # s) c0 = run ok s c0"
  by (simp_all add: run_def c0_def)

lemma run_special:
  "run ok (CHR ''$'' # s) c0 = run ok s (Dollar, Some [])"
  "run ok (CHR ''V'' # s) c0 = run ok s (Idle, Some [''e''])"
  "run ok (CHR ''{'' # s) (Dollar, Some []) = run ok s (Brace, Some [])"
  by (simp_all add: run_def c0_def)

lemma run_name:
  "run ok (CHR ''a'' # s) (Name r, Some []) = run ok s (Name (CHR ''a'' # r), Some [])"
  "run ok (CHR ''b'' # s) (Name r, Some []) = run ok s (Name (CHR ''b'' # r), Some [])"
  "run ok (CHR ''c'' # s) (Name r, Some []) = run ok s (Name (CHR ''c'' # r), Some [])"
  "run ok (CHR ''d'' # s) (Name r, Some []) = run ok s (Name (CHR ''d'' # r), Some [])"
  "run ok (CHR ''e'' # s) (Name r, Some []) = run ok s (Name (CHR ''e'' # r), Some [])"
  "run ok (CHR ''f'' # s) (Name r, Some []) = run ok s (Name (CHR ''f'' # r), Some [])"
  "run ok (CHR ''g'' # s) (Name r, Some []) = run ok s (Name (CHR ''g'' # r), Some [])"
  "run ok (CHR ''h'' # s) (Name r, Some []) = run ok s (Name (CHR ''h'' # r), Some [])"
  "run ok (CHR ''i'' # s) (Name r, Some []) = run ok s (Name (CHR ''i'' # r), Some [])"
  "run ok (CHR ''j'' # s) (Name r, Some []) = run ok s (Name (CHR ''j'' # r), Some [])"
  "run ok (CHR ''k'' # s) (Name r, Some []) = run ok s (Name (CHR ''k'' # r), Some [])"
  "run ok (CHR ''l'' # s) (Name r, Some []) = run ok s (Name (CHR ''l'' # r), Some [])"
  "run ok (CHR ''m'' # s) (Name r, Some []) = run ok s (Name (CHR ''m'' # r), Some [])"
  "run ok (CHR ''n'' # s) (Name r, Some []) = run ok s (Name (CHR ''n'' # r), Some [])"
  "run ok (CHR ''o'' # s) (Name r, Some []) = run ok s (Name (CHR ''o'' # r), Some [])"
  "run ok (CHR ''p'' # s) (Name r, Some []) = run ok s (Name (CHR ''p'' # r), Some [])"
  "run ok (CHR ''q'' # s) (Name r, Some []) = run ok s (Name (CHR ''q'' # r), Some [])"
  "run ok (CHR ''r'' # s) (Name r, Some []) = run ok s (Name (CHR ''r'' # r), Some [])"
  "run ok (CHR ''s'' # s) (Name r, Some []) = run ok s (Name (CHR ''s'' # r), Some [])"
  "run ok (CHR ''t'' # s) (Name r, Some []) = run ok s (Name (CHR ''t'' # r), Some [])"
  "run ok (CHR ''u'' # s) (Name r, Some []) = run ok s (Name (CHR ''u'' # r), Some [])"
  "run ok (CHR ''v'' # s) (Name r, Some []) = run ok s (Name (CHR ''v'' # r), Some [])"
  "run ok (CHR ''w'' # s) (Name r, Some []) = run ok s (Name (CHR ''w'' # r), Some [])"
  "run ok (CHR ''x'' # s) (Name r, Some []) = run ok s (Name (CHR ''x'' # r), Some [])"
  "run ok (CHR ''y'' # s) (Name r, Some []) = run ok s (Name (CHR ''y'' # r), Some [])"
  "run ok (CHR ''z'' # s) (Name r, Some []) = run ok s (Name (CHR ''z'' # r), Some [])"
  "run ok (CHR ''A'' # s) (Name r, Some []) = run ok s (Name (CHR ''A'' # r), Some [])"
  "run ok (CHR ''B'' # s) (Name r, Some []) = run ok s (Name (CHR ''B'' # r), Some [])"
  "run ok (CHR ''C'' # s) (Name r, Some []) = run ok s (Name (CHR ''C'' # r), Some [])"
  "run ok (CHR ''D'' # s) (Name r, Some []) = run ok s (Name (CHR ''D'' # r), Some [])"
  "run ok (CHR ''E'' # s) (Name r, Some []) = run ok s (Name (CHR ''E'' # r), Some [])"
  "run ok (CHR ''F'' # s) (Name r, Some []) = run ok s (Name (CHR ''F'' # r), Some [])"
  "run ok (CHR ''G'' # s) (Name r, Some []) = run ok s (Name (CHR ''G'' # r), Some [])"
  "run ok (CHR ''H'' # s) (Name r, Some []) = run ok s (Name (CHR ''H'' # r), Some [])"
  "run ok (CHR ''I'' # s) (Name r, Some []) = run ok s (Name (CHR ''I'' # r), Some [])"
  "run ok (CHR ''J'' # s) (Name r, Some []) = run ok s (Name (CHR ''J'' # r), Some [])"
  "run ok (CHR ''K'' # s) (Name r, Some []) = run ok s (Name (CHR ''K'' # r), Some [])"
  "run ok (CHR ''L'' # s) (Name r, Some []) = run ok s (Name (CHR ''L'' # r), Some [])"
  "run ok (CHR ''M'' # s) (Name r, Some []) = run ok s (Name (CHR ''M'' # r), Some [])"
  "run ok (CHR ''N'' # s) (Name r, Some []) = run ok s (Name (CHR ''N'' # r), Some [])"
  "run ok (CHR ''O'' # s) (Name r, Some []) = run ok s (Name (CHR ''O'' # r), Some [])"
  "run ok (CHR ''P'' # s) (Name r, Some []) = run ok s (Name (CHR ''P'' # r), Some [])"
  "run ok (CHR ''Q'' # s) (Name r, Some []) = run ok s (Name (CHR ''Q'' # r), Some [])"
  "run ok (CHR ''R'' # s) (Name r, Some []) = run ok s (Name (CHR ''R'' # r), Some [])"
  "run ok (CHR ''S'' # s) (Name r, Some []) = run ok s (Name (CHR ''S'' # r), Some [])"
  "run ok (CHR ''T'' # s) (Name r, Some []) = run ok s (Name (CHR ''T'' # r), Some [])"
  "run ok (CHR ''U'' # s) (Name r, Some []) = run ok s (Name (CHR ''U'' # r), Some [])"
  "run ok (CHR ''W'' # s) (Name r, Some []) = run ok s (Name (CHR ''W'' # r), Some [])"
  "run ok (CHR ''X'' # s) (Name r, Some []) = run ok s (Name (CHR ''X'' # r), Some [])"
  "run ok (CHR ''Y'' # s) (Name r, Some []) = run ok s (Name (CHR ''Y'' # r), Some [])"
  "run ok (CHR ''Z'' # s) (Name r, Some []) = run ok s (Name (CHR ''Z'' # r), Some [])"
  "run ok (CHR ''0'' # s) (Name r, Some []) = run ok s (Name (CHR ''0'' # r), Some [])"
  "run ok (CHR ''1'' # s) (Name r, Some []) = run ok s (Name (CHR ''1'' # r), Some [])"
  "run ok (CHR ''2'' # s) (Name r, Some []) = run ok s (Name (CHR ''2'' # r), Some [])"
  "run ok (CHR ''3'' # s) (Name r, Some []) = run ok s (Name (CHR ''3'' # r), Some [])"
  "run ok (CHR ''4'' # s) (Name r, Some []) = run ok s (Name (CHR ''4'' # r), Some [])"
  "run ok (CHR ''5'' # s) (Name r, Some []) = run ok s (Name (CHR ''5'' # r), Some [])"
  "run ok (CHR ''6'' # s) (Name r, Some []) = run ok s (Name (CHR ''6'' # r), Some [])"
  "run ok (CHR ''7'' # s) (Name r, Some []) = run ok s (Name (CHR ''7'' # r), Some [])"
  "run ok (CHR ''8'' # s) (Name r, Some []) = run ok s (Name (CHR ''8'' # r), Some [])"
  "run ok (CHR ''9'' # s) (Name r, Some []) = run ok s (Name (CHR ''9'' # r), Some [])"
  "run ok (CHR ''_'' # s) (Name r, Some []) = run ok s (Name (CHR ''_'' # r), Some [])"
  by (simp_all add: run_def c0_def ident_char_def ident_start_def is_upper_def is_lower_def is_digit_def code_def)

lemma run_first:
  "run ok (CHR ''a'' # s) (Dollar, Some []) = run ok s (Name [CHR ''a''], Some [])"
  "run ok (CHR ''b'' # s) (Dollar, Some []) = run ok s (Name [CHR ''b''], Some [])"
  "run ok (CHR ''c'' # s) (Dollar, Some []) = run ok s (Name [CHR ''c''], Some [])"
  "run ok (CHR ''d'' # s) (Dollar, Some []) = run ok s (Name [CHR ''d''], Some [])"
  "run ok (CHR ''e'' # s) (Dollar, Some []) = run ok s (Name [CHR ''e''], Some [])"
  "run ok (CHR ''f'' # s) (Dollar, Some []) = run ok s (Name [CHR ''f''], Some [])"
  "run ok (CHR ''g'' # s) (Dollar, Some []) = run ok s (Name [CHR ''g''], Some [])"
  "run ok (CHR ''h'' # s) (Dollar, Some []) = run ok s (Name [CHR ''h''], Some [])"
  "run ok (CHR ''i'' # s) (Dollar, Some []) = run ok s (Name [CHR ''i''], Some [])"
  "run ok (CHR ''j'' # s) (Dollar, Some []) = run ok s (Name [CHR ''j''], Some [])"
  "run ok (CHR ''k'' # s) (Dollar, Some []) = run ok s (Name [CHR ''k''], Some [])"
  "run ok (CHR ''l'' # s) (Dollar, Some []) = run ok s (Name [CHR ''l''], Some [])"
  "run ok (CHR ''m'' # s) (Dollar, Some []) = run ok s (Name [CHR ''m''], Some [])"
  "run ok (CHR ''n'' # s) (Dollar, Some []) = run ok s (Name [CHR ''n''], Some [])"
  "run ok (CHR ''o'' # s) (Dollar, Some []) = run ok s (Name [CHR ''o''], Some [])"
  "run ok (CHR ''p'' # s) (Dollar, Some []) = run ok s (Name [CHR ''p''], Some [])"
  "run ok (CHR ''q'' # s) (Dollar, Some []) = run ok s (Name [CHR ''q''], Some [])"
  "run ok (CHR ''r'' # s) (Dollar, Some []) = run ok s (Name [CHR ''r''], Some [])"
  "run ok (CHR ''s'' # s) (Dollar, Some []) = run ok s (Name [CHR ''s''], Some [])"
  "run ok (CHR ''t'' # s) (Dollar, Some []) = run ok s (Name [CHR ''t''], Some [])"
  "run ok (CHR ''u'' # s) (Dollar, Some []) = run ok s (Name [CHR ''u''], Some [])"
  "run ok (CHR ''v'' # s) (Dollar, Some []) = run ok s (Name [CHR ''v''], Some [])"
  "run ok (CHR ''w'' # s) (Dollar, Some []) = run ok s (Name [CHR ''w''], Some [])"
  "run ok (CHR ''x'' # s) (Dollar, Some []) = run ok s (Name [CHR ''x''], Some [])"
  "run ok (CHR ''y'' # s) (Dollar, Some []) = run ok s (Name [CHR ''y''], Some [])"
  "run ok (CHR ''z'' # s) (Dollar, Some []) = run ok s (Name [CHR ''z''], Some [])"
  "run ok (CHR ''A'' # s) (Dollar, Some []) = run ok s (Name [CHR ''A''], Some [])"
  "run ok (CHR ''B'' # s) (Dollar, Some []) = run ok s (Name [CHR ''B''], Some [])"
  "run ok (CHR ''C'' # s) (Dollar, Some []) = run ok s (Name [CHR ''C''], Some [])"
  "run ok (CHR ''D'' # s) (Dollar, Some []) = run ok s (Name [CHR ''D''], Some [])"
  "run ok (CHR ''E'' # s) (Dollar, Some []) = run ok s (Name [CHR ''E''], Some [])"
  "run ok (CHR ''F'' # s) (Dollar, Some []) = run ok s (Name [CHR ''F''], Some [])"
  "run ok (CHR ''G'' # s) (Dollar, Some []) = run ok s (Name [CHR ''G''], Some [])"
  "run ok (CHR ''H'' # s) (Dollar, Some []) = run ok s (Name [CHR ''H''], Some [])"
  "run ok (CHR ''I'' # s) (Dollar, Some []) = run ok s (Name [CHR ''I''], Some [])"
  "run ok (CHR ''J'' # s) (Dollar, Some []) = run ok s (Name [CHR ''J''], Some [])"
  "run ok (CHR ''K'' # s) (Dollar, Some []) = run ok s (Name [CHR ''K''], Some [])"
  "run ok (CHR ''L'' # s) (Dollar, Some []) = run ok s (Name [CHR ''L''], Some [])"
  "run ok (CHR ''M'' # s) (Dollar, Some []) = run ok s (Name [CHR ''M''], Some [])"
  "run ok (CHR ''N'' # s) (Dollar, Some []) = run ok s (Name [CHR ''N''], Some [])"
  "run ok (CHR ''O'' # s) (Dollar, Some []) = run ok s (Name [CHR ''O''], Some [])"
  "run ok (CHR ''P'' # s) (Dollar, Some []) = run ok s (Name [CHR ''P''], Some [])"
  "run ok (CHR ''Q'' # s) (Dollar, Some []) = run ok s (Name [CHR ''Q''], Some [])"
  "run ok (CHR ''R'' # s) (Dollar, Some []) = run ok s (Name [CHR ''R''], Some [])"
  "run ok (CHR ''S'' # s) (Dollar, Some []) = run ok s (Name [CHR ''S''], Some [])"
  "run ok (CHR ''T'' # s) (Dollar, Some []) = run ok s (Name [CHR ''T''], Some [])"
  "run ok (CHR ''U'' # s) (Dollar, Some []) = run ok s (Name [CHR ''U''], Some [])"
  "run ok (CHR ''W'' # s) (Dollar, Some []) = run ok s (Name [CHR ''W''], Some [])"
  "run ok (CHR ''X'' # s) (Dollar, Some []) = run ok s (Name [CHR ''X''], Some [])"
  "run ok (CHR ''Y'' # s) (Dollar, Some []) = run ok s (Name [CHR ''Y''], Some [])"
  "run ok (CHR ''Z'' # s) (Dollar, Some []) = run ok s (Name [CHR ''Z''], Some [])"
  "run ok (CHR ''_'' # s) (Dollar, Some []) = run ok s (Name [CHR ''_''], Some [])"
  "run ok (CHR ''a'' # s) (Brace, Some []) = run ok s (Name [CHR ''a''], Some [])"
  "run ok (CHR ''b'' # s) (Brace, Some []) = run ok s (Name [CHR ''b''], Some [])"
  "run ok (CHR ''c'' # s) (Brace, Some []) = run ok s (Name [CHR ''c''], Some [])"
  "run ok (CHR ''d'' # s) (Brace, Some []) = run ok s (Name [CHR ''d''], Some [])"
  "run ok (CHR ''e'' # s) (Brace, Some []) = run ok s (Name [CHR ''e''], Some [])"
  "run ok (CHR ''f'' # s) (Brace, Some []) = run ok s (Name [CHR ''f''], Some [])"
  "run ok (CHR ''g'' # s) (Brace, Some []) = run ok s (Name [CHR ''g''], Some [])"
  "run ok (CHR ''h'' # s) (Brace, Some []) = run ok s (Name [CHR ''h''], Some [])"
  "run ok (CHR ''i'' # s) (Brace, Some []) = run ok s (Name [CHR ''i''], Some [])"
  "run ok (CHR ''j'' # s) (Brace, Some []) = run ok s (Name [CHR ''j''], Some [])"
  "run ok (CHR ''k'' # s) (Brace, Some []) = run ok s (Name [CHR ''k''], Some [])"
  "run ok (CHR ''l'' # s) (Brace, Some []) = run ok s (Name [CHR ''l''], Some [])"
  "run ok (CHR ''m'' # s) (Brace, Some []) = run ok s (Name [CHR ''m''], Some [])"
  "run ok (CHR ''n'' # s) (Brace, Some []) = run ok s (Name [CHR ''n''], Some [])"
  "run ok (CHR ''o'' # s) (Brace, Some []) = run ok s (Name [CHR ''o''], Some [])"
  "run ok (CHR ''p'' # s) (Brace, Some []) = run ok s (Name [CHR ''p''], Some [])"
  "run ok (CHR ''q'' # s) (Brace, Some []) = run ok s (Name [CHR ''q''], Some [])"
  "run ok (CHR ''r'' # s) (Brace, Some []) = run ok s (Name [CHR ''r''], Some [])"
  "run ok (CHR ''s'' # s) (Brace, Some []) = run ok s (Name [CHR ''s''], Some [])"
  "run ok (CHR ''t'' # s) (Brace, Some []) = run ok s (Name [CHR ''t''], Some [])"
  "run ok (CHR ''u'' # s) (Brace, Some []) = run ok s (Name [CHR ''u''], Some [])"
  "run ok (CHR ''v'' # s) (Brace, Some []) = run ok s (Name [CHR ''v''], Some [])"
  "run ok (CHR ''w'' # s) (Brace, Some []) = run ok s (Name [CHR ''w''], Some [])"
  "run ok (CHR ''x'' # s) (Brace, Some []) = run ok s (Name [CHR ''x''], Some [])"
  "run ok (CHR ''y'' # s) (Brace, Some []) = run ok s (Name [CHR ''y''], Some [])"
  "run ok (CHR ''z'' # s) (Brace, Some []) = run ok s (Name [CHR ''z''], Some [])"
  "run ok (CHR ''A'' # s) (Brace, Some []) = run ok s (Name [CHR ''A''], Some [])"
  "run ok (CHR ''B'' # s) (Brace, Some []) = run ok s (Name [CHR ''B''], Some [])"
  "run ok (CHR ''C'' # s) (Brace, Some []) = run ok s (Name [CHR ''C''], Some [])"
  "run ok (CHR ''D'' # s) (Brace, Some []) = run ok s (Name [CHR ''D''], Some [])"
  "run ok (CHR ''E'' # s) (Brace, Some []) = run ok s (Name [CHR ''E''], Some [])"
  "run ok (CHR ''F'' # s) (Brace, Some []) = run ok s (Name [CHR ''F''], Some [])"
  "run ok (CHR ''G'' # s) (Brace, Some []) = run ok s (Name [CHR ''G''], Some [])"
  "run ok (CHR ''H'' # s) (Brace, Some []) = run ok s (Name [CHR ''H''], Some [])"
  "run ok (CHR ''I'' # s) (Brace, Some []) = run ok s (Name [CHR ''I''], Some [])"
  "run ok (CHR ''J'' # s) (Brace, Some []) = run ok s (Name [CHR ''J''], Some [])"
  "run ok (CHR ''K'' # s) (Brace, Some []) = run ok s (Name [CHR ''K''], Some [])"
  "run ok (CHR ''L'' # s) (Brace, Some []) = run ok s (Name [CHR ''L''], Some [])"
  "run ok (CHR ''M'' # s) (Brace, Some []) = run ok s (Name [CHR ''M''], Some [])"
  "run ok (CHR ''N'' # s) (Brace, Some []) = run ok s (Name [CHR ''N''], Some [])"
  "run ok (CHR ''O'' # s) (Brace, Some []) = run ok s (Name [CHR ''O''], Some [])"
  "run ok (CHR ''P'' # s) (Brace, Some []) = run ok s (Name [CHR ''P''], Some [])"
  "run ok (CHR ''Q'' # s) (Brace, Some []) = run ok s (Name [CHR ''Q''], Some [])"
  "run ok (CHR ''R'' # s) (Brace, Some []) = run ok s (Name [CHR ''R''], Some [])"
  "run ok (CHR ''S'' # s) (Brace, Some []) = run ok s (Name [CHR ''S''], Some [])"
  "run ok (CHR ''T'' # s) (Brace, Some []) = run ok s (Name [CHR ''T''], Some [])"
  "run ok (CHR ''U'' # s) (Brace, Some []) = run ok s (Name [CHR ''U''], Some [])"
  "run ok (CHR ''W'' # s) (Brace, Some []) = run ok s (Name [CHR ''W''], Some [])"
  "run ok (CHR ''X'' # s) (Brace, Some []) = run ok s (Name [CHR ''X''], Some [])"
  "run ok (CHR ''Y'' # s) (Brace, Some []) = run ok s (Name [CHR ''Y''], Some [])"
  "run ok (CHR ''Z'' # s) (Brace, Some []) = run ok s (Name [CHR ''Z''], Some [])"
  "run ok (CHR ''_'' # s) (Brace, Some []) = run ok s (Name [CHR ''_''], Some [])"
  by (simp_all add: run_def c0_def ident_char_def ident_start_def is_upper_def is_lower_def is_digit_def code_def)

fun onto :: "string \<Rightarrow> string \<Rightarrow> string" where
  "onto [] s = s"
| "onto (c # r) s = onto r (c # s)"

lemma onto_rev: "onto r s = rev r @ s"
  by (induction r arbitrary: s) auto

lemma run_name_end:
  "onto r [] \<in> set ok \<Longrightarrow> run ok (CHR '' '' # s) (Name r, Some []) = run ok s c0"
  "onto r [] \<in> set ok \<Longrightarrow> run ok (CHR ''!'' # s) (Name r, Some []) = run ok s c0"
  "onto r [] \<in> set ok \<Longrightarrow> run ok (DQ # s) (Name r, Some []) = run ok s c0"
  "onto r [] \<in> set ok \<Longrightarrow> run ok (CHR ''#'' # s) (Name r, Some []) = run ok s c0"
  "onto r [] \<in> set ok \<Longrightarrow> run ok (CHR ''%'' # s) (Name r, Some []) = run ok s c0"
  "onto r [] \<in> set ok \<Longrightarrow> run ok (CHR ''&'' # s) (Name r, Some []) = run ok s c0"
  "onto r [] \<in> set ok \<Longrightarrow> run ok (CHR 0x27 # s) (Name r, Some []) = run ok s c0"
  "onto r [] \<in> set ok \<Longrightarrow> run ok (CHR ''('' # s) (Name r, Some []) = run ok s c0"
  "onto r [] \<in> set ok \<Longrightarrow> run ok (CHR '')'' # s) (Name r, Some []) = run ok s c0"
  "onto r [] \<in> set ok \<Longrightarrow> run ok (CHR ''*'' # s) (Name r, Some []) = run ok s c0"
  "onto r [] \<in> set ok \<Longrightarrow> run ok (CHR ''+'' # s) (Name r, Some []) = run ok s c0"
  "onto r [] \<in> set ok \<Longrightarrow> run ok (CHR '','' # s) (Name r, Some []) = run ok s c0"
  "onto r [] \<in> set ok \<Longrightarrow> run ok (CHR ''-'' # s) (Name r, Some []) = run ok s c0"
  "onto r [] \<in> set ok \<Longrightarrow> run ok (CHR ''.'' # s) (Name r, Some []) = run ok s c0"
  "onto r [] \<in> set ok \<Longrightarrow> run ok (CHR ''/'' # s) (Name r, Some []) = run ok s c0"
  "onto r [] \<in> set ok \<Longrightarrow> run ok (CHR '':'' # s) (Name r, Some []) = run ok s c0"
  "onto r [] \<in> set ok \<Longrightarrow> run ok (CHR '';'' # s) (Name r, Some []) = run ok s c0"
  "onto r [] \<in> set ok \<Longrightarrow> run ok (CHR ''<'' # s) (Name r, Some []) = run ok s c0"
  "onto r [] \<in> set ok \<Longrightarrow> run ok (CHR ''='' # s) (Name r, Some []) = run ok s c0"
  "onto r [] \<in> set ok \<Longrightarrow> run ok (CHR ''>'' # s) (Name r, Some []) = run ok s c0"
  "onto r [] \<in> set ok \<Longrightarrow> run ok (CHR ''?'' # s) (Name r, Some []) = run ok s c0"
  "onto r [] \<in> set ok \<Longrightarrow> run ok (CHR ''@'' # s) (Name r, Some []) = run ok s c0"
  "onto r [] \<in> set ok \<Longrightarrow> run ok (CHR ''['' # s) (Name r, Some []) = run ok s c0"
  "onto r [] \<in> set ok \<Longrightarrow> run ok (BS # s) (Name r, Some []) = run ok s c0"
  "onto r [] \<in> set ok \<Longrightarrow> run ok (CHR '']'' # s) (Name r, Some []) = run ok s c0"
  "onto r [] \<in> set ok \<Longrightarrow> run ok (CHR ''^'' # s) (Name r, Some []) = run ok s c0"
  "onto r [] \<in> set ok \<Longrightarrow> run ok (CHR ''`'' # s) (Name r, Some []) = run ok s c0"
  "onto r [] \<in> set ok \<Longrightarrow> run ok (CHR ''{'' # s) (Name r, Some []) = run ok s c0"
  "onto r [] \<in> set ok \<Longrightarrow> run ok (CHR ''|'' # s) (Name r, Some []) = run ok s c0"
  "onto r [] \<in> set ok \<Longrightarrow> run ok (CHR ''}'' # s) (Name r, Some []) = run ok s c0"
  "onto r [] \<in> set ok \<Longrightarrow> run ok (CHR ''~'' # s) (Name r, Some []) = run ok s c0"
  "onto r [] \<in> set ok \<Longrightarrow> run ok (NL # s) (Name r, Some []) = run ok s c0"
  "onto r [] \<in> set ok \<Longrightarrow> run ok (CHR 0xE2 # s) (Name r, Some []) = run ok s c0"
  "onto r [] \<in> set ok \<Longrightarrow> run ok (CHR 0x80 # s) (Name r, Some []) = run ok s c0"
  "onto r [] \<in> set ok \<Longrightarrow> run ok (CHR 0x94 # s) (Name r, Some []) = run ok s c0"
  "onto r [] \<in> set ok \<Longrightarrow> run ok (CHR 0x93 # s) (Name r, Some []) = run ok s c0"
  "onto r [] \<in> set ok \<Longrightarrow> run ok (CHR 0x86 # s) (Name r, Some []) = run ok s c0"
  "onto r [] \<in> set ok \<Longrightarrow> run ok (CHR 0x92 # s) (Name r, Some []) = run ok s c0"
  "onto r [] \<in> set ok \<Longrightarrow> run ok (CHR 0xC2 # s) (Name r, Some []) = run ok s c0"
  "onto r [] \<in> set ok \<Longrightarrow> run ok (CHR 0xB7 # s) (Name r, Some []) = run ok s c0"
  "onto r [] \<in> set ok \<Longrightarrow> run ok (CHR 0xB0 # s) (Name r, Some []) = run ok s c0"
  "onto r [] \<in> set ok \<Longrightarrow> run ok (CHR 0xB1 # s) (Name r, Some []) = run ok s c0"
  "onto r [] \<in> set ok \<Longrightarrow> run ok (CHR 0xC3 # s) (Name r, Some []) = run ok s c0"
  "onto r [] \<in> set ok \<Longrightarrow> run ok (CHR 0x97 # s) (Name r, Some []) = run ok s c0"
  by (simp_all add: onto_rev run_def c0_def ident_char_def ident_start_def is_upper_def is_lower_def is_digit_def code_def)

lemma run_no_name:
  "run ok (CHR '' '' # s) (Dollar, Some []) = run ok s c0"
  "run ok (CHR ''!'' # s) (Dollar, Some []) = run ok s c0"
  "run ok (DQ # s) (Dollar, Some []) = run ok s c0"
  "run ok (CHR ''#'' # s) (Dollar, Some []) = run ok s c0"
  "run ok (CHR ''%'' # s) (Dollar, Some []) = run ok s c0"
  "run ok (CHR ''&'' # s) (Dollar, Some []) = run ok s c0"
  "run ok (CHR 0x27 # s) (Dollar, Some []) = run ok s c0"
  "run ok (CHR ''('' # s) (Dollar, Some []) = run ok s c0"
  "run ok (CHR '')'' # s) (Dollar, Some []) = run ok s c0"
  "run ok (CHR ''*'' # s) (Dollar, Some []) = run ok s c0"
  "run ok (CHR ''+'' # s) (Dollar, Some []) = run ok s c0"
  "run ok (CHR '','' # s) (Dollar, Some []) = run ok s c0"
  "run ok (CHR ''-'' # s) (Dollar, Some []) = run ok s c0"
  "run ok (CHR ''.'' # s) (Dollar, Some []) = run ok s c0"
  "run ok (CHR ''/'' # s) (Dollar, Some []) = run ok s c0"
  "run ok (CHR ''0'' # s) (Dollar, Some []) = run ok s c0"
  "run ok (CHR ''1'' # s) (Dollar, Some []) = run ok s c0"
  "run ok (CHR ''2'' # s) (Dollar, Some []) = run ok s c0"
  "run ok (CHR ''3'' # s) (Dollar, Some []) = run ok s c0"
  "run ok (CHR ''4'' # s) (Dollar, Some []) = run ok s c0"
  "run ok (CHR ''5'' # s) (Dollar, Some []) = run ok s c0"
  "run ok (CHR ''6'' # s) (Dollar, Some []) = run ok s c0"
  "run ok (CHR ''7'' # s) (Dollar, Some []) = run ok s c0"
  "run ok (CHR ''8'' # s) (Dollar, Some []) = run ok s c0"
  "run ok (CHR ''9'' # s) (Dollar, Some []) = run ok s c0"
  "run ok (CHR '':'' # s) (Dollar, Some []) = run ok s c0"
  "run ok (CHR '';'' # s) (Dollar, Some []) = run ok s c0"
  "run ok (CHR ''<'' # s) (Dollar, Some []) = run ok s c0"
  "run ok (CHR ''='' # s) (Dollar, Some []) = run ok s c0"
  "run ok (CHR ''>'' # s) (Dollar, Some []) = run ok s c0"
  "run ok (CHR ''?'' # s) (Dollar, Some []) = run ok s c0"
  "run ok (CHR ''@'' # s) (Dollar, Some []) = run ok s c0"
  "run ok (CHR ''['' # s) (Dollar, Some []) = run ok s c0"
  "run ok (BS # s) (Dollar, Some []) = run ok s c0"
  "run ok (CHR '']'' # s) (Dollar, Some []) = run ok s c0"
  "run ok (CHR ''^'' # s) (Dollar, Some []) = run ok s c0"
  "run ok (CHR ''`'' # s) (Dollar, Some []) = run ok s c0"
  "run ok (CHR ''|'' # s) (Dollar, Some []) = run ok s c0"
  "run ok (CHR ''}'' # s) (Dollar, Some []) = run ok s c0"
  "run ok (CHR ''~'' # s) (Dollar, Some []) = run ok s c0"
  "run ok (NL # s) (Dollar, Some []) = run ok s c0"
  "run ok (CHR 0xE2 # s) (Dollar, Some []) = run ok s c0"
  "run ok (CHR 0x80 # s) (Dollar, Some []) = run ok s c0"
  "run ok (CHR 0x94 # s) (Dollar, Some []) = run ok s c0"
  "run ok (CHR 0x93 # s) (Dollar, Some []) = run ok s c0"
  "run ok (CHR 0x86 # s) (Dollar, Some []) = run ok s c0"
  "run ok (CHR 0x92 # s) (Dollar, Some []) = run ok s c0"
  "run ok (CHR 0xC2 # s) (Dollar, Some []) = run ok s c0"
  "run ok (CHR 0xB7 # s) (Dollar, Some []) = run ok s c0"
  "run ok (CHR 0xB0 # s) (Dollar, Some []) = run ok s c0"
  "run ok (CHR 0xB1 # s) (Dollar, Some []) = run ok s c0"
  "run ok (CHR 0xC3 # s) (Dollar, Some []) = run ok s c0"
  "run ok (CHR 0x97 # s) (Dollar, Some []) = run ok s c0"
  by (simp_all add: run_def c0_def ident_char_def ident_start_def is_upper_def is_lower_def is_digit_def code_def)

lemma run_after_V:
  "run ok (CHR '' '' # s) (Idle, Some [''e'']) = run ok s c0"
  "run ok (CHR ''!'' # s) (Idle, Some [''e'']) = run ok s c0"
  "run ok (DQ # s) (Idle, Some [''e'']) = run ok s c0"
  "run ok (CHR ''#'' # s) (Idle, Some [''e'']) = run ok s c0"
  "run ok (CHR ''%'' # s) (Idle, Some [''e'']) = run ok s c0"
  "run ok (CHR ''&'' # s) (Idle, Some [''e'']) = run ok s c0"
  "run ok (CHR 0x27 # s) (Idle, Some [''e'']) = run ok s c0"
  "run ok (CHR ''('' # s) (Idle, Some [''e'']) = run ok s c0"
  "run ok (CHR '')'' # s) (Idle, Some [''e'']) = run ok s c0"
  "run ok (CHR ''*'' # s) (Idle, Some [''e'']) = run ok s c0"
  "run ok (CHR ''+'' # s) (Idle, Some [''e'']) = run ok s c0"
  "run ok (CHR '','' # s) (Idle, Some [''e'']) = run ok s c0"
  "run ok (CHR ''-'' # s) (Idle, Some [''e'']) = run ok s c0"
  "run ok (CHR ''.'' # s) (Idle, Some [''e'']) = run ok s c0"
  "run ok (CHR ''/'' # s) (Idle, Some [''e'']) = run ok s c0"
  "run ok (CHR ''0'' # s) (Idle, Some [''e'']) = run ok s c0"
  "run ok (CHR ''1'' # s) (Idle, Some [''e'']) = run ok s c0"
  "run ok (CHR ''2'' # s) (Idle, Some [''e'']) = run ok s c0"
  "run ok (CHR ''3'' # s) (Idle, Some [''e'']) = run ok s c0"
  "run ok (CHR ''4'' # s) (Idle, Some [''e'']) = run ok s c0"
  "run ok (CHR ''5'' # s) (Idle, Some [''e'']) = run ok s c0"
  "run ok (CHR ''6'' # s) (Idle, Some [''e'']) = run ok s c0"
  "run ok (CHR ''7'' # s) (Idle, Some [''e'']) = run ok s c0"
  "run ok (CHR ''8'' # s) (Idle, Some [''e'']) = run ok s c0"
  "run ok (CHR ''9'' # s) (Idle, Some [''e'']) = run ok s c0"
  "run ok (CHR '':'' # s) (Idle, Some [''e'']) = run ok s c0"
  "run ok (CHR '';'' # s) (Idle, Some [''e'']) = run ok s c0"
  "run ok (CHR ''<'' # s) (Idle, Some [''e'']) = run ok s c0"
  "run ok (CHR ''='' # s) (Idle, Some [''e'']) = run ok s c0"
  "run ok (CHR ''>'' # s) (Idle, Some [''e'']) = run ok s c0"
  "run ok (CHR ''?'' # s) (Idle, Some [''e'']) = run ok s c0"
  "run ok (CHR ''@'' # s) (Idle, Some [''e'']) = run ok s c0"
  "run ok (CHR ''A'' # s) (Idle, Some [''e'']) = run ok s c0"
  "run ok (CHR ''B'' # s) (Idle, Some [''e'']) = run ok s c0"
  "run ok (CHR ''C'' # s) (Idle, Some [''e'']) = run ok s c0"
  "run ok (CHR ''D'' # s) (Idle, Some [''e'']) = run ok s c0"
  "run ok (CHR ''E'' # s) (Idle, Some [''e'']) = run ok s c0"
  "run ok (CHR ''F'' # s) (Idle, Some [''e'']) = run ok s c0"
  "run ok (CHR ''G'' # s) (Idle, Some [''e'']) = run ok s c0"
  "run ok (CHR ''H'' # s) (Idle, Some [''e'']) = run ok s c0"
  "run ok (CHR ''I'' # s) (Idle, Some [''e'']) = run ok s c0"
  "run ok (CHR ''J'' # s) (Idle, Some [''e'']) = run ok s c0"
  "run ok (CHR ''K'' # s) (Idle, Some [''e'']) = run ok s c0"
  "run ok (CHR ''L'' # s) (Idle, Some [''e'']) = run ok s c0"
  "run ok (CHR ''M'' # s) (Idle, Some [''e'']) = run ok s c0"
  "run ok (CHR ''N'' # s) (Idle, Some [''e'']) = run ok s c0"
  "run ok (CHR ''O'' # s) (Idle, Some [''e'']) = run ok s c0"
  "run ok (CHR ''P'' # s) (Idle, Some [''e'']) = run ok s c0"
  "run ok (CHR ''Q'' # s) (Idle, Some [''e'']) = run ok s c0"
  "run ok (CHR ''R'' # s) (Idle, Some [''e'']) = run ok s c0"
  "run ok (CHR ''S'' # s) (Idle, Some [''e'']) = run ok s c0"
  "run ok (CHR ''T'' # s) (Idle, Some [''e'']) = run ok s c0"
  "run ok (CHR ''U'' # s) (Idle, Some [''e'']) = run ok s c0"
  "run ok (CHR ''W'' # s) (Idle, Some [''e'']) = run ok s c0"
  "run ok (CHR ''X'' # s) (Idle, Some [''e'']) = run ok s c0"
  "run ok (CHR ''Y'' # s) (Idle, Some [''e'']) = run ok s c0"
  "run ok (CHR ''Z'' # s) (Idle, Some [''e'']) = run ok s c0"
  "run ok (CHR ''['' # s) (Idle, Some [''e'']) = run ok s c0"
  "run ok (BS # s) (Idle, Some [''e'']) = run ok s c0"
  "run ok (CHR '']'' # s) (Idle, Some [''e'']) = run ok s c0"
  "run ok (CHR ''^'' # s) (Idle, Some [''e'']) = run ok s c0"
  "run ok (CHR ''_'' # s) (Idle, Some [''e'']) = run ok s c0"
  "run ok (CHR ''`'' # s) (Idle, Some [''e'']) = run ok s c0"
  "run ok (CHR ''a'' # s) (Idle, Some [''e'']) = run ok s c0"
  "run ok (CHR ''b'' # s) (Idle, Some [''e'']) = run ok s c0"
  "run ok (CHR ''c'' # s) (Idle, Some [''e'']) = run ok s c0"
  "run ok (CHR ''d'' # s) (Idle, Some [''e'']) = run ok s c0"
  "run ok (CHR ''f'' # s) (Idle, Some [''e'']) = run ok s c0"
  "run ok (CHR ''g'' # s) (Idle, Some [''e'']) = run ok s c0"
  "run ok (CHR ''h'' # s) (Idle, Some [''e'']) = run ok s c0"
  "run ok (CHR ''i'' # s) (Idle, Some [''e'']) = run ok s c0"
  "run ok (CHR ''j'' # s) (Idle, Some [''e'']) = run ok s c0"
  "run ok (CHR ''k'' # s) (Idle, Some [''e'']) = run ok s c0"
  "run ok (CHR ''l'' # s) (Idle, Some [''e'']) = run ok s c0"
  "run ok (CHR ''m'' # s) (Idle, Some [''e'']) = run ok s c0"
  "run ok (CHR ''n'' # s) (Idle, Some [''e'']) = run ok s c0"
  "run ok (CHR ''o'' # s) (Idle, Some [''e'']) = run ok s c0"
  "run ok (CHR ''p'' # s) (Idle, Some [''e'']) = run ok s c0"
  "run ok (CHR ''q'' # s) (Idle, Some [''e'']) = run ok s c0"
  "run ok (CHR ''r'' # s) (Idle, Some [''e'']) = run ok s c0"
  "run ok (CHR ''s'' # s) (Idle, Some [''e'']) = run ok s c0"
  "run ok (CHR ''t'' # s) (Idle, Some [''e'']) = run ok s c0"
  "run ok (CHR ''u'' # s) (Idle, Some [''e'']) = run ok s c0"
  "run ok (CHR ''v'' # s) (Idle, Some [''e'']) = run ok s c0"
  "run ok (CHR ''w'' # s) (Idle, Some [''e'']) = run ok s c0"
  "run ok (CHR ''x'' # s) (Idle, Some [''e'']) = run ok s c0"
  "run ok (CHR ''y'' # s) (Idle, Some [''e'']) = run ok s c0"
  "run ok (CHR ''z'' # s) (Idle, Some [''e'']) = run ok s c0"
  "run ok (CHR ''{'' # s) (Idle, Some [''e'']) = run ok s c0"
  "run ok (CHR ''|'' # s) (Idle, Some [''e'']) = run ok s c0"
  "run ok (CHR ''}'' # s) (Idle, Some [''e'']) = run ok s c0"
  "run ok (CHR ''~'' # s) (Idle, Some [''e'']) = run ok s c0"
  "run ok (NL # s) (Idle, Some [''e'']) = run ok s c0"
  "run ok (CHR 0xE2 # s) (Idle, Some [''e'']) = run ok s c0"
  "run ok (CHR 0x80 # s) (Idle, Some [''e'']) = run ok s c0"
  "run ok (CHR 0x94 # s) (Idle, Some [''e'']) = run ok s c0"
  "run ok (CHR 0x93 # s) (Idle, Some [''e'']) = run ok s c0"
  "run ok (CHR 0x86 # s) (Idle, Some [''e'']) = run ok s c0"
  "run ok (CHR 0x92 # s) (Idle, Some [''e'']) = run ok s c0"
  "run ok (CHR 0xC2 # s) (Idle, Some [''e'']) = run ok s c0"
  "run ok (CHR 0xB7 # s) (Idle, Some [''e'']) = run ok s c0"
  "run ok (CHR 0xB0 # s) (Idle, Some [''e'']) = run ok s c0"
  "run ok (CHR 0xB1 # s) (Idle, Some [''e'']) = run ok s c0"
  "run ok (CHR 0xC3 # s) (Idle, Some [''e'']) = run ok s c0"
  "run ok (CHR 0x97 # s) (Idle, Some [''e'']) = run ok s c0"
  by (simp_all add: run_def c0_def ident_char_def ident_start_def is_upper_def is_lower_def is_digit_def code_def)

lemma run_pieces: "run ok [] st = st" "run ok (s @ t) st = run ok t (run ok s st)"
  by (simp_all add: run_simps)

lemma clean_run: "run ok s c0 = c0 \<Longrightarrow> clean ok s"
  by (simp add: clean_def c0_def)

declare accepts.simps [simp del]

lemma clean_pieces:
  "clean ok []"
  "clean ok (c # s) = accepts ok (run ok (c # s) c0)"
  "clean ok (s @ t) = accepts ok (run ok (s @ t) c0)"
  by (simp_all add: clean_def run_def c0_def accepts.simps)

lemma accepts_name: "accepts ok (Name r, Some act) = (onto r [] \<in> set ok)"
  by (simp add: onto_rev accepts.simps)

lemma accepts_c0 [simp]: "accepts ok c0"
  by (simp add: c0_def accepts.simps)

lemmas run_rules = clean_pieces accepts_name run_pieces run_plain run_special run_name run_first run_name_end run_no_name
  run_after_V

end
