(* ===== verification/Panel_Text.thy ===== *)
theory Panel_Text
  imports Panels Scan
begin

text \<open>
  The texts of a panel are clean when the texts its caller passes are: one rule for each constructor
  of queries, transformations, panels and variables. The texts the constructors add themselves are
  read here once and not again for every panel.
\<close>

lemmas scan_texts = run_rules

text \<open>The record of options, read field by field.\<close>

lemma kw_select [simp]:
  "o_legend kw = None" "o_thresholds_key kw = None" "o_mappings kw = None" "o_graph kw = None"
  "o_decimals kw = None" "o_color_mode kw = None" "o_no_value kw = None" "o_stacked kw = None"
  "o_fill kw = None" "o_line_interpolation kw = None" "o_overrides kw = None"
  "o_thresholds_value kw = None" "o_legend_calcs kw = None" "o_stack_mode kw = None"
  "o_transformations kw = None" "o_max_value kw = None" "o_values kw = None" "o_sort_col kw = None"
  "o_sort_desc kw = None" "o_pie_type kw = None" "o_show_value kw = None" "o_row_height kw = None"
  "o_scheme kw = None" "o_calculate kw = None" "o_y_axis_unit kw = None" "o_show_legend kw = None"
  "o_options kw = None" "o_field_defaults kw = None" "o_links kw = None"
  by (simp_all add: kw_def)

lemma arg_simps [simp]: "arg d None = d" "arg d (Some v) = v"
  by (simp_all add: arg_def)

named_theorems panel_text "texts of what a constructor makes"

declare scan_texts [panel_text]

lemma PROM_FILTER_run [panel_text]: "''router'' \<in> set ok \<Longrightarrow> run ok PROM_FILTER c0 = c0"
  by (simp add: PROM_FILTER_def run_rules del: append.simps append_assoc)

lemma LOKI_FILTER_run [panel_text]: "''router'' \<in> set ok \<Longrightarrow> run ok LOKI_FILTER c0 = c0"
  by (simp add: LOKI_FILTER_def run_rules del: append.simps append_assoc)

lemma clean_FILTER [panel_text]:
  "''router'' \<in> set ok \<Longrightarrow> clean ok PROM_FILTER" "''router'' \<in> set ok \<Longrightarrow> clean ok LOKI_FILTER"
  by (simp_all add: clean_def PROM_FILTER_run LOKI_FILTER_run)

lemma clean_PROM_DS [panel_text]: "''DS_PROMETHEUS'' \<in> set ok \<Longrightarrow> clean ok PROM_DS"
  by (simp add: PROM_DS_def scan_texts)

lemma clean_LOKI_DS [panel_text]: "''DS_LOKI'' \<in> set ok \<Longrightarrow> clean ok LOKI_DS"
  by (simp add: LOKI_DS_def scan_texts)

lemma clean_colours [panel_text]:
  "clean ok GREEN" "clean ok YELLOW" "clean ok RED" "clean ok ORANGE" "clean ok BLUE" "clean ok GRAY"
  "clean ok PURPLE"
  by (simp_all add: scan_texts GREEN_def YELLOW_def RED_def ORANGE_def BLUE_def GRAY_def PURPLE_def)

declare float_text_def [panel_text]

lemma text_thresholds [panel_text]:
  "list_all (\<lambda>s. clean ok (fst s) \<and> text_clean ok (snd s)) steps \<Longrightarrow> text_clean ok (thresholds steps)"
  by (simp add: thresholds_def scan_texts list_all_iff split_beta)

lemma text_THRESHOLDS [panel_text]: "text_clean ok (THRESHOLDS k)"
  by (cases k) (simp_all add: panel_text float_text_def)

lemma text_override [panel_text]:
  "clean ok n \<Longrightarrow> clean ok c \<Longrightarrow> text_clean ok (color_override n c)"
  "clean ok n \<Longrightarrow> clean ok c \<Longrightarrow> text_clean ok (regexp_color_override n c)"
  by (simp_all add: color_override_def regexp_color_override_def scan_texts)

lemma text_constants [panel_text]:
  "list_all (text_clean ok) STATUS_MAPPINGS"
  "list_all (text_clean ok) BOOLEAN_OK_MAPPINGS"
  "list_all (text_clean ok) CHANGE_MAPPINGS"
  "list_all (text_clean ok) AVAILABILITY_MAPPINGS"
  "list_all (text_clean ok) DEVICE_STATE_MAPPINGS"
  "list_all (text_clean ok) COMMON_OVERRIDES"
  by (simp_all add: STATUS_MAPPINGS_def BOOLEAN_OK_MAPPINGS_def CHANGE_MAPPINGS_def
      AVAILABILITY_MAPPINGS_def DEVICE_STATE_MAPPINGS_def COMMON_OVERRIDES_def panel_text
      del: append.simps append_assoc)

section \<open>Queries and transformations\<close>

lemma text_prom_query [panel_text]:
  "''DS_PROMETHEUS'' \<in> set ok \<Longrightarrow> clean ok expr \<Longrightarrow> clean ok legend \<Longrightarrow> clean ok ref \<Longrightarrow> clean ok fmt \<Longrightarrow>
   text_clean ok (prom_query expr legend ref fmt inst)"
  by (simp add: prom_query_def panel_text Let_def del: append.simps append_assoc)

lemma text_loki_query [panel_text]:
  "''DS_LOKI'' \<in> set ok \<Longrightarrow> clean ok expr \<Longrightarrow> clean ok ref \<Longrightarrow> clean ok qt \<Longrightarrow>
   text_clean ok (loki_query expr ref qt)"
  by (simp add: loki_query_def panel_text)

lemma text_tf [panel_text]: "clean ok k \<Longrightarrow> dict_clean ok os \<Longrightarrow> text_clean ok (tf k os)"
  by (simp add: tf_def panel_text)

lemma dict_clean_map:
  "list_all (\<lambda>x. clean ok (fst (f x)) \<and> text_clean ok (snd (f x))) xs \<Longrightarrow> dict_clean ok (map f xs)"
  by (simp add: dict_clean_def list.pred_map o_def)

lemma text_organize [panel_text]:
  "list_all (clean ok) ex \<Longrightarrow> list_all (\<lambda>p. clean ok (fst p) \<and> clean ok (snd p)) rn \<Longrightarrow>
   list_all (\<lambda>p. clean ok (fst p)) ix \<Longrightarrow> text_clean ok (organize ex rn ix)"
  by (simp add: organize_def panel_text dict_clean_map split_beta)

lemma text_transformations [panel_text]:
  "clean ok f \<Longrightarrow> text_clean ok (sort_by f d)"
  "text_clean ok (limit n)"
  "clean ok f \<Longrightarrow> text_clean ok (convert_time f)"
  "clean ok al \<Longrightarrow> clean ok l \<Longrightarrow> clean ok r \<Longrightarrow> clean ok oper \<Longrightarrow> text_clean ok (calculate al l r oper b)"
  by (simp_all add: sort_by_def limit_def convert_time_def calculate_def panel_text)

lemma text_data_group [panel_text]:
  "list_all (text_clean ok) qs \<Longrightarrow> list_all (text_clean ok) ts \<Longrightarrow> text_clean ok (data_group qs ts)"
  by (simp add: data_group_def panel_text)

lemma text_clean_table_transforms [panel_text]:
  "list_all (\<lambda>p. clean ok (fst p) \<and> clean ok (snd p)) rn \<Longrightarrow> list_all (clean ok) keep \<Longrightarrow>
   list_all (text_clean ok) (clean_table_transforms rn keep)"
proof -
  assume *: "list_all (\<lambda>p. clean ok (fst p) \<and> clean ok (snd p)) rn" "list_all (clean ok) keep"
  have "list_all (\<lambda>p. clean ok (fst p)) (zip keep ns)" for ns :: "int list"
    using *(2) by (auto simp: list_all_iff dest: set_zip_leftD)
  then show ?thesis using *(1) by (simp add: clean_table_transforms_def Let_def panel_text)
qed

section \<open>Panels\<close>

lemma text_panel_of [panel_text]:
  assumes "clean ok t" "clean ok viz" "list_all (text_clean ok) qs" "clean ok unit" "clean ok desc"
    and "list_all (text_clean ok) (arg [] (o_links a))"
    and "list_all (text_clean ok) (arg [] (o_transformations a))"
    and "dict_clean ok (arg [] (o_options a))" "dict_clean ok (arg [] (o_field_defaults a))"
    and "list_all (text_clean ok) (arg [] (o_overrides a))"
  shows "text_clean ok (snd (panel pid t viz qs unit desc a))"
  using assms by (simp add: panel_def Let_def panel_text dict_clean_update)

lemma text_stat [panel_text]:
  assumes "''DS_PROMETHEUS'' \<in> set ok" "clean ok t" "clean ok expr" "clean ok unit" "clean ok desc"
    and "clean ok (arg [] (o_legend a))" "list_all (text_clean ok) (arg [] (o_mappings a))"
    and "clean ok (arg ''background_solid'' (o_color_mode a))"
    and "clean ok (arg ''Unavailable'' (o_no_value a))"
  shows "text_clean ok (snd (stat pid t expr unit desc a))"
  using assms by (simp add: stat_def Let_def panel_text del: append.simps append_assoc)

lemma text_loki_stat [panel_text]:
  assumes "''DS_LOKI'' \<in> set ok" "clean ok t" "clean ok expr" "clean ok desc"
    and "list_all (text_clean ok) (arg [] (o_mappings a))"
  shows "text_clean ok (snd (loki_stat pid t expr desc a))"
  using assms by (simp add: loki_stat_def panel_text del: append.simps append_assoc)

lemma text_timeseries [panel_text]:
  assumes "clean ok t" "list_all (text_clean ok) qs" "clean ok unit" "clean ok desc"
    and "clean ok (arg ''linear'' (o_line_interpolation a))"
    and "clean ok (arg ''normal'' (o_stack_mode a))"
    and "text_clean ok (arg (THRESHOLDS Neutral) (o_thresholds_value a))"
    and "list_all (clean ok) (arg [''lastNotNull'', ''max''] (o_legend_calcs a))"
    and "list_all (text_clean ok) (arg [] (o_overrides a))"
    and "list_all (text_clean ok) (arg [] (o_transformations a))"
  shows "text_clean ok (snd (timeseries pid t qs unit desc a))"
  using assms by (simp add: timeseries_def Let_def panel_text list.pred_map o_def del: append.simps append_assoc)

lemma text_bargauge [panel_text]:
  assumes "clean ok t" "list_all (text_clean ok) qs" "clean ok unit" "clean ok desc"
    and "clean ok (arg ''thresholds'' (o_color_mode a))"
    and "list_all (text_clean ok) (arg [] (o_mappings a))"
    and "text_clean ok (arg JNull (o_max_value a))"
    and "list_all (text_clean ok) (arg [] (o_overrides a))"
    and "list_all (text_clean ok) (arg [] (o_transformations a))"
  shows "text_clean ok (snd (bargauge pid t qs unit desc a))"
  using assms by (simp add: bargauge_def Let_def panel_text del: append.simps append_assoc)

lemma text_gauge [panel_text]:
  assumes "''DS_PROMETHEUS'' \<in> set ok" "clean ok t" "clean ok expr" "clean ok desc"
  shows "text_clean ok (snd (gauge pid t expr desc a))"
  using assms by (simp add: gauge_def panel_text del: append.simps append_assoc)

lemma text_table [panel_text]:
  assumes "clean ok t" "list_all (text_clean ok) qs" "clean ok desc"
    and "clean ok (arg [] (o_sort_col a))"
    and "list_all (text_clean ok) (arg [] (o_overrides a))"
    and "list_all (text_clean ok) (arg [] (o_transformations a))"
  shows "text_clean ok (snd (table pid t qs desc a))"
  using assms by (simp add: table_def panel_text del: append.simps append_assoc)

lemma text_piechart [panel_text]:
  assumes "clean ok t" "list_all (text_clean ok) qs" "clean ok unit" "clean ok desc"
    and "clean ok (arg ''donut'' (o_pie_type a))"
    and "list_all (text_clean ok) (arg [] (o_overrides a))"
    and "list_all (text_clean ok) (arg [] (o_transformations a))"
  shows "text_clean ok (snd (piechart pid t qs unit desc a))"
  using assms by (simp add: piechart_def panel_text del: append.simps append_assoc)

lemma text_state_timeline [panel_text]:
  assumes "clean ok t" "list_all (text_clean ok) qs" "clean ok unit" "clean ok desc"
    and "text_clean ok (arg (JFloat ''0.8'') (o_row_height a))"
    and "clean ok (arg ''auto'' (o_show_value a))"
    and "clean ok (arg ''thresholds'' (o_color_mode a))"
    and "list_all (text_clean ok) (arg [] (o_mappings a))"
    and "list_all (text_clean ok) (arg [] (o_overrides a))"
    and "list_all (text_clean ok) (arg [] (o_transformations a))"
  shows "text_clean ok (snd (state_timeline pid t qs unit desc a))"
  using assms by (simp add: state_timeline_def panel_text del: append.simps append_assoc)

lemma text_heatmap [panel_text]:
  assumes "clean ok t" "list_all (text_clean ok) qs" "clean ok unit" "clean ok desc"
    and "clean ok (arg ''Turbo'' (o_scheme a))" "clean ok (arg ''none'' (o_y_axis_unit a))"
    and "list_all (text_clean ok) (arg [] (o_transformations a))"
  shows "text_clean ok (snd (heatmap pid t qs unit desc a))"
  using assms by (simp add: heatmap_def panel_text float_text_def del: append.simps append_assoc)

lemma text_logs_panel [panel_text]:
  assumes "''DS_LOKI'' \<in> set ok" "clean ok t" "clean ok expr" "clean ok desc"
  shows "text_clean ok (snd (logs_panel pid t expr desc))"
  using assms by (simp add: logs_panel_def panel_text del: append.simps append_assoc)

lemma text_text_panel [panel_text]:
  assumes "clean ok t" "clean ok content"
  shows "text_clean ok (snd (text_panel pid t content))"
  using assms by (simp add: text_panel_def Let_def panel_text del: append.simps append_assoc)

section \<open>Variables\<close>

lemma text_vars [panel_text]:
  "clean ok n \<Longrightarrow> clean ok l \<Longrightarrow> clean ok p \<Longrightarrow> clean ok c \<Longrightarrow> text_clean ok (datasource_var n l p c)"
  "''DS_PROMETHEUS'' \<in> set ok \<Longrightarrow> ''__all'' \<in> set ok \<Longrightarrow> clean ok n \<Longrightarrow> clean ok l \<Longrightarrow> clean ok q \<Longrightarrow>
     clean ok c \<Longrightarrow> clean ok av \<Longrightarrow> text_clean ok (query_var n l q c ia mu av)"
  by (simp_all add: datasource_var_def query_var_def panel_text
      del: append.simps append_assoc)

section \<open>Wi-Fi expressions\<close>

lemma wifi_raw_runs [panel_text]:
  assumes "''router'' \<in> set ok" "''__rate_interval'' \<in> set ok"
  shows "run ok WIFI_SIGNAL_RAW c0 = c0"
    "run ok WIFI_RX_BPS_RAW c0 = c0"
    "run ok WIFI_TX_BPS_RAW c0 = c0"
    "run ok WIFI_INACTIVE_RAW c0 = c0"
    "run ok WIFI_CONNECTED_RAW c0 = c0"
  using assms by (simp_all add: WIFI_SIGNAL_RAW_def WIFI_RX_BPS_RAW_def WIFI_TX_BPS_RAW_def WIFI_INACTIVE_RAW_def WIFI_CONNECTED_RAW_def
      wifi_station_fallback_expr_def wifi_station_rate_bps_expr_def wifi_station_label_expr_def Let_def
      panel_text del: append.simps append_assoc)

lemma wifi_runs [panel_text]:
  assumes "''router'' \<in> set ok" "''__rate_interval'' \<in> set ok"
  shows "run ok WIFI_SIGNAL c0 = c0"
    "run ok WIFI_RX_BPS c0 = c0"
    "run ok WIFI_TX_BPS c0 = c0"
    "run ok WIFI_INACTIVE c0 = c0"
    "run ok WIFI_CONNECTED c0 = c0"
    "run ok WIFI_CLIENT_COUNT c0 = c0"
  using assms by (simp_all add: WIFI_SIGNAL_def WIFI_RX_BPS_def WIFI_TX_BPS_def WIFI_INACTIVE_def WIFI_CONNECTED_def WIFI_CLIENT_COUNT_def
      panel_text del: append.simps append_assoc)

lemma wifi_clean [panel_text]:
  assumes "''router'' \<in> set ok" "''__rate_interval'' \<in> set ok"
  shows "clean ok WIFI_SIGNAL_RAW"
    "clean ok WIFI_RX_BPS_RAW"
    "clean ok WIFI_TX_BPS_RAW"
    "clean ok WIFI_INACTIVE_RAW"
    "clean ok WIFI_CONNECTED_RAW"
    "clean ok WIFI_SIGNAL"
    "clean ok WIFI_RX_BPS"
    "clean ok WIFI_TX_BPS"
    "clean ok WIFI_INACTIVE"
    "clean ok WIFI_CONNECTED"
    "clean ok WIFI_CLIENT_COUNT"
  using wifi_raw_runs [OF assms] wifi_runs [OF assms] by (simp_all add: clean_run)

lemma cron_run [panel_text]: "run ok CRON_CMD_FILTER c0 = c0"
  by (simp add: CRON_CMD_FILTER_def panel_text del: append.simps append_assoc)

end
