(* ===== verification/Panel_Checks.thy ===== *)
theory Panel_Checks
  imports Panel_Text
begin

text \<open>
  Every constructor makes panels the validators accept: the key fits the number, the unit is in the
  field defaults, the empty-state text is not among the options. What a caller can still get wrong
  is the unit \<open>short\<close> and its texts.
\<close>

section \<open>Passing the check of one panel\<close>

definition passes :: "string list \<Rightarrow> item \<Rightarrow> bool" where
  "passes unitless it =
     (\<exists>pid. fst it = panel_key pid \<and> (\<forall>ids. check_panel unitless ids it = Inr (ids @ [pid])))"

definition good_panel :: "string list \<Rightarrow> string list \<Rightarrow> item \<Rightarrow> bool" where
  "good_panel ok unitless it = (passes unitless it \<and> text_clean ok (snd it))"

lemma no_pluginVersion: "text_clean ok j \<Longrightarrow> \<not> py_in ''pluginVersion'' (json_text b j)"
  by (rule text_clean_word [of ok j "CHR ''p''" "''luginVersion''"]) (simp_all add: json_punctuation_def)

lemma starts_with_panel_key: "starts_with ''panel-'' (panel_key pid)"
  by (simp add: starts_with_prefix panel_key_def)

definition panel_shape :: "int \<Rightarrow> string \<Rightarrow> item list \<Rightarrow> item list \<Rightarrow> json \<Rightarrow> bool" where
  "panel_shape pid viz os d el = (\<exists>k t de l da vk ve ov. el = JDict [(''kind'', k), (''spec'',
     JDict [(''id'', JInt pid), (''title'', t), (''description'', de), (''links'', l), (''data'', da),
       (''vizConfig'', JDict [(''kind'', vk), (''group'', JStr viz), (''version'', ve), (''spec'',
         JDict [(''options'', JDict os), (''fieldConfig'',
           JDict [(''defaults'', JDict d), (''overrides'', ov)])])])])])"

lemma check_panel_ok:
  assumes "panel_shape pid viz os d el"
    and "viz \<in> set u \<or> (\<exists>v. map_of d ''unit'' = Some v \<and> v \<noteq> JStr ''short'')"
    and "''noValue'' \<notin> fst ` set os" "\<not> py_in ''pluginVersion'' (json_text False el)"
  shows "check_panel u ids (panel_key pid, el) = Inr (ids @ [pid])"
proof -
  obtain spec where j: "jget el ''spec'' = Inr spec" "jget spec ''id'' = Inr (JInt pid)"
    "jpath spec [''vizConfig'', ''group''] = Inr (JStr viz)"
    "jpath spec [''vizConfig'', ''spec'', ''fieldConfig'', ''defaults''] = Inr (JDict d)"
    "jpath spec [''vizConfig'', ''spec'', ''options''] = Inr (JDict os)"
    using assms(1) unfolding panel_shape_def by (auto simp del: json_text.simps)
  show ?thesis using assms(2,3,4) starts_with_panel_key [of pid] j
    by (auto simp add: check_panel_def panel_key_def Let_def simp del: jpath.simps json_text.simps jget.simps)
qed

lemma good_panel_of:
  assumes "unit \<noteq> ''short''" "''unit'' \<notin> fst ` set (arg [] (o_field_defaults a))"
    and "''noValue'' \<notin> fst ` set (arg [] (o_options a))"
    and "text_clean ok (snd (panel pid t viz qs unit desc a))"
  shows "good_panel ok unitless (panel pid t viz qs unit desc a)"
proof -
  define el where "el = snd (panel pid t viz qs unit desc a)"
  have e: "panel pid t viz qs unit desc a = (panel_key pid, el)"
    by (simp add: el_def prod_eq_iff panel_key)
  have "map_of (rev (arg [] (o_field_defaults a))) ''unit'' = None"
    using assms(2) by (simp add: map_of_eq_None_iff image_iff)
  moreover have "\<not> py_in ''pluginVersion'' (json_text False el)"
    using assms(4) no_pluginVersion by (simp add: el_def)
  moreover have "panel_shape pid viz (arg [] (o_options a)) (dict_update [(''unit'', JStr unit),
      (''mappings'', JList []), (''thresholds'', THRESHOLDS Neutral), (''color'',
      JDict [(''mode'', (if viz \<in> {''stat'', ''gauge'', ''bargauge''} then JStr ''thresholds''
       else JStr ''palette-classic-by-name''))])] (arg [] (o_field_defaults a))) el"
    by (simp add: panel_shape_def el_def panel_def Let_def)
  ultimately have "check_panel unitless ids (panel_key pid, el) = Inr (ids @ [pid])" for ids
    using assms(1,3) by (intro check_panel_ok) (auto simp: dict_update_map_of map_add_def)
  moreover have "text_clean ok el" using assms(4) by (simp add: el_def)
  ultimately show ?thesis by (auto simp: good_panel_def passes_def e)
qed

named_theorems good_panels "panels the validators accept"

lemma good_stat [good_panels]:
  assumes "unit \<noteq> ''short''" "text_clean ok (snd (stat pid t expr unit desc a))"
  shows "good_panel ok u (stat pid t expr unit desc a)"
  using assms by (auto simp: stat_def Let_def intro!: good_panel_of)

lemma good_loki_stat [good_panels]:
  "text_clean ok (snd (loki_stat pid t expr desc a)) \<Longrightarrow> good_panel ok u (loki_stat pid t expr desc a)"
  by (auto simp: loki_stat_def intro!: good_panel_of)

lemma good_timeseries [good_panels]:
  assumes "unit \<noteq> ''short''" "text_clean ok (snd (timeseries pid t qs unit desc a))"
  shows "good_panel ok u (timeseries pid t qs unit desc a)"
  using assms by (auto simp: timeseries_def Let_def intro!: good_panel_of)

lemma good_bargauge [good_panels]:
  assumes "unit \<noteq> ''short''" "text_clean ok (snd (bargauge pid t qs unit desc a))"
  shows "good_panel ok u (bargauge pid t qs unit desc a)"
  using assms by (auto simp: bargauge_def Let_def intro!: good_panel_of)

lemma good_gauge [good_panels]:
  "text_clean ok (snd (gauge pid t expr desc a)) \<Longrightarrow> good_panel ok u (gauge pid t expr desc a)"
  by (auto simp: gauge_def intro!: good_panel_of)

lemma good_table [good_panels]:
  "text_clean ok (snd (table pid t qs desc a)) \<Longrightarrow> good_panel ok u (table pid t qs desc a)"
  by (auto simp: table_def intro!: good_panel_of)

lemma good_piechart [good_panels]:
  assumes "unit \<noteq> ''short''" "text_clean ok (snd (piechart pid t qs unit desc a))"
  shows "good_panel ok u (piechart pid t qs unit desc a)"
  using assms by (auto simp: piechart_def intro!: good_panel_of)

lemma good_state_timeline [good_panels]:
  assumes "unit \<noteq> ''short''" "text_clean ok (snd (state_timeline pid t qs unit desc a))"
  shows "good_panel ok u (state_timeline pid t qs unit desc a)"
  using assms by (auto simp: state_timeline_def intro!: good_panel_of)

lemma good_heatmap [good_panels]:
  assumes "unit \<noteq> ''short''" "text_clean ok (snd (heatmap pid t qs unit desc a))"
  shows "good_panel ok u (heatmap pid t qs unit desc a)"
  using assms by (auto simp: heatmap_def intro!: good_panel_of)

lemma good_logs_panel [good_panels]:
  "text_clean ok (snd (logs_panel pid t expr desc)) \<Longrightarrow> good_panel ok u (logs_panel pid t expr desc)"
  by (auto simp: logs_panel_def intro!: good_panel_of)

lemma good_text_panel [good_panels]:
  assumes "''text'' \<in> set u" "text_clean ok (snd (text_panel pid t content))"
  shows "good_panel ok u (text_panel pid t content)"
proof -
  define el where "el = snd (text_panel pid t content)"
  have e: "text_panel pid t content = (panel_key pid, el)"
    by (simp add: el_def prod_eq_iff maker_keys)
  have "\<not> py_in ''pluginVersion'' (json_text False el)"
    using assms(2) no_pluginVersion by (simp add: el_def)
  moreover have "panel_shape pid ''text'' [(''mode'', JStr ''markdown''), (''content'', JStr content),
      (''code'', JDict [(''language'', JStr ''plaintext''), (''showLineNumbers'', JBool False),
       (''showMiniMap'', JBool False)])] [] el"
    by (simp add: panel_shape_def el_def text_panel_def Let_def)
  ultimately have "check_panel u ids (panel_key pid, el) = Inr (ids @ [pid])" for ids
    using assms(1) by (intro check_panel_ok) auto
  moreover have "text_clean ok el" using assms(2) by (simp add: el_def)
  ultimately show ?thesis by (auto simp: good_panel_def passes_def e)
qed

section \<open>What the check of one panel decides\<close>

definition has_unit :: "json \<Rightarrow> bool" where
  "has_unit spec = (\<exists>d v. bindR (jpath spec [''vizConfig'', ''spec'', ''fieldConfig'', ''defaults'']) jitems = Inr d \<and>
     map_of d ''unit'' = Some v \<and> v \<noteq> JStr ''short'')"

text \<open>The panel with number \<open>pid\<close> and the kind \<open>viz\<close> as the assertions want it.\<close>

definition panel_sound :: "string list \<Rightarrow> item \<Rightarrow> int \<Rightarrow> bool" where
  "panel_sound u it pid = (\<exists>spec viz os. fst it = panel_key pid \<and> jget (snd it) ''spec'' = Inr spec \<and>
     jget spec ''id'' = Inr (JInt pid) \<and> bindR (jpath spec [''vizConfig'', ''group'']) jstr = Inr viz \<and>
     (viz \<notin> set u \<longrightarrow> has_unit spec) \<and>
     jpath spec [''vizConfig'', ''spec'', ''options''] = Inr os \<and> ''noValue'' \<notin> set (jkeys os) \<and>
     \<not> py_in ''pluginVersion'' (json_text False (snd it)))"

lemma if_Inr_unit: "(if c then m else Inr ()) = Inr () \<longleftrightarrow> (c \<longrightarrow> m = Inr ())"
  by simp

lemma unit_check:
  "bindR m (\<lambda>d. if map_of d ''unit'' = None then bindR t e1
     else if map_of d ''unit'' = Some (JStr ''short'') then bindR t e2 else Inr ()) = Inr () \<longleftrightarrow>
   (\<exists>d v. m = Inr d \<and> map_of d ''unit'' = Some v \<and> v \<noteq> JStr ''short'')"
  if "\<And>x. e1 x \<noteq> Inr ()" "\<And>x. e2 x \<noteq> Inr ()"
  using that by (cases m) (auto simp: bindR_Inr_iff)

lemma id_check: "bindR (jget spec ''id'') jint = Inr pid \<longleftrightarrow> jget spec ''id'' = Inr (JInt pid)"
  by (cases "jget spec ''id''") (auto simp: jint_Inr)

lemma starts_panel: "key = ''panel-'' @ show_int pid \<Longrightarrow> starts_with ''panel-'' key"
  by (simp add: starts_with_prefix)

lemma check_panel_iff:
  "check_panel u ids it = Inr ids' \<longleftrightarrow> (\<exists>pid. panel_sound u it pid \<and> ids' = ids @ [pid])"
proof (cases "jget (snd it) ''spec''")
  case (Inl e)
  then show ?thesis by (cases it) (simp add: check_panel_def panel_sound_def bindR_Inr_iff)
next
  case spec: (Inr spec)
  show ?thesis
  proof (cases "bindR (jget spec ''id'') jint")
    case (Inl e)
    then have "jget spec ''id'' \<noteq> Inr (JInt pid)" for pid by auto
    then show ?thesis using spec Inl
      by (cases it) (simp add: check_panel_def panel_sound_def bindR_Inr_iff [of "ensure _ _"])
  next
    case id: (Inr pid)
    then have id': "jget spec ''id'' = Inr (JInt pid)" by (simp add: id_check)
    show ?thesis
    proof (cases "bindR (jpath spec [''vizConfig'', ''group'']) jstr")
      case (Inl e)
      then show ?thesis using spec id
        by (cases it) (simp add: check_panel_def panel_sound_def bindR_Inr_iff [of "ensure _ _"]
            del: jpath.simps)
    next
      case viz: (Inr viz)
      show ?thesis
        using spec id id' viz starts_panel [of "fst it" pid]
        by (cases it; cases "jpath spec [''vizConfig'', ''spec'', ''options'']")
          (auto simp: check_panel_def panel_sound_def panel_key_def has_unit_def Let_def ensure_Inr_iff
            bindR_Inr_iff [of "ensure _ _"] bindR_Inr_iff [of "if _ then _ else _"] if_Inr_unit unit_check
            simp del: jpath.simps json_text.simps)
    qed
  qed
qed

section \<open>All panels\<close>

lemma passes_fold:
  "list_all (passes u) its \<Longrightarrow>
     \<exists>pids. map fst its = map panel_key pids \<and> foldR (check_panel u) ids its = Inr (ids @ pids)"
proof (induction its arbitrary: ids)
  case (Cons it its)
  then obtain pid where p: "fst it = panel_key pid" "check_panel u ids it = Inr (ids @ [pid])"
    by (auto simp: passes_def)
  obtain pids where "map fst its = map panel_key pids"
    "foldR (check_panel u) (ids @ [pid]) its = Inr ((ids @ [pid]) @ pids)"
    using Cons by fastforce
  then show ?case using p by (intro exI [of _ "pid # pids"]) simp
qed simp

lemma check_panels_good:
  assumes "list_all (passes u) its" "distinct (map fst its)"
  shows "check_panels u (JDict its) = Inr ()"
proof -
  obtain pids where p: "map fst its = map panel_key pids" "foldR (check_panel u) [] its = Inr pids"
    using passes_fold [OF assms(1), of "[]"] by auto
  then have "distinct pids" using assms(2) by (simp add: distinct_map)
  then show ?thesis using p by (simp add: check_panels_def)
qed

end
