(* ===== verification/Assembly.thy ===== *)
theory Assembly
  imports Panel_Checks
begin

text \<open>
  From the placements of a generator to the dashboard its validator accepts: the checks on what the
  builder makes are reduced to facts on the list of placements, which a generator's tables decide.
\<close>

section \<open>Keys\<close>

lemma show_int_inj: "0 \<le> a \<Longrightarrow> 0 \<le> b \<Longrightarrow> show_int a = show_int b \<longleftrightarrow> a = b"
  using py_int_show_int by (metis option.inject)

lemma distinct_panel_keys:
  assumes "list_all (\<lambda>i. 0 \<le> i) ids" "distinct ids"
  shows "distinct (map panel_key ids)"
  using assms by (auto simp: distinct_map inj_on_def panel_key_def list_all_iff show_int_inj)

lemma run_digits: "list_all is_digit s \<Longrightarrow> run ok s c0 = c0"
proof (induction s)
  case (Cons c s)
  then have "c \<noteq> CHR ''$''" "c \<noteq> CHR ''V''" by (auto simp: is_digit_def code_def)
  then have "cstep ok c c0 = c0" by (simp add: c0_def)
  then show ?case using Cons by (simp add: run_def)
qed (simp add: run_def)

lemma clean_panel_key [panel_text]: "0 \<le> i \<Longrightarrow> clean ok (panel_key i)"
  using run_digits [OF show_nat_digits]
  by (simp add: panel_key_def clean_pieces show_int_nonneg run_rules del: append.simps append_assoc)

section \<open>The elements and the layout\<close>

definition elements_of :: "(string \<times> placement list) list \<Rightarrow> item list" where
  "elements_of tabs = map fst (all_placements tabs)"

definition layout_of :: "(string \<times> placement list) list \<Rightarrow> json" where
  "layout_of tabs = layout_json (map tab_of tabs)"

lemma keys_elements: "map fst (elements_of tabs) = keys (all_placements tabs)"
  by (simp add: elements_of_def keys_def)

lemma text_grid_item: "0 \<le> i \<Longrightarrow> text_clean ok (grid_item (panel_key i) x y w h)"
  by (simp add: grid_item_def panel_text)

lemma text_item_of:
  assumes "fst (fst p) = panel_key i" "0 \<le> i"
  shows "text_clean ok (item_of p)"
proof -
  obtain k e x y w h where "p = ((k, e), x, y, w, h)" by (metis prod.exhaust)
  then show ?thesis using assms by (simp add: text_grid_item)
qed

lemma text_items:
  "keys ps = map panel_key ids \<Longrightarrow> list_all (\<lambda>i. 0 \<le> i) ids \<Longrightarrow> list_all (text_clean ok) (map item_of ps)"
proof (induction ps arbitrary: ids)
  case (Cons p ps)
  then obtain i js where "ids = i # js" "fst (fst p) = panel_key i" "keys ps = map panel_key js"
    by (auto simp: keys_def)
  then show ?case using Cons text_item_of by auto
qed simp

lemma text_tab_json [panel_text]:
  "clean ok t \<Longrightarrow> list_all (text_clean ok) its \<Longrightarrow> text_clean ok (tab_json t its)"
  by (simp add: tab_json_def panel_text)

lemma text_layout:
  assumes "list_all (clean ok) (map fst tabs)" "keys (all_placements tabs) = map panel_key ids"
    and "list_all (\<lambda>i. 0 \<le> i) ids"
  shows "text_clean ok (layout_of tabs)"
proof -
  have items: "list_all (text_clean ok) (map item_of (all_placements tabs))"
    using assms(2,3) by (rule text_items)
  have "text_clean ok (tab_of t)" if t: "t \<in> set tabs" for t
  proof -
    have "set (snd t) \<subseteq> set (all_placements tabs)" using t by (auto simp: all_placements_def)
    then have "list_all (text_clean ok) (map item_of (snd t))" using items by (auto simp: list_all_iff)
    then show ?thesis using t assms(1) by (simp add: tab_of_def text_tab_json list_all_iff)
  qed
  then have "list_all (text_clean ok) (map tab_of tabs)" by (simp add: list_all_iff)
  then show ?thesis by (simp add: layout_of_def layout_json_def panel_text)
qed

section \<open>One generator\<close>

text \<open>
  What the table of a generator has to show: the panel numbers, the titles, the rectangles and
  panels that are good. \<open>ok\<close> are the names the texts may use, \<open>u\<close> the kinds without unit.
\<close>

definition tables_ok ::
  "string list \<Rightarrow> string list \<Rightarrow> string list \<Rightarrow> int list \<Rightarrow> (string \<times> placement list) list \<Rightarrow> bool" where
  "tables_ok ok u titles ids tabs =
     (keys (all_placements tabs) = map panel_key ids \<and> list_all (\<lambda>i. 0 \<le> i) ids \<and> distinct ids \<and>
      map fst tabs = titles \<and> distinct titles \<and> list_all (clean ok) titles \<and>
      list_all (\<lambda>t. placements_ok (snd t)) tabs \<and>
      list_all (\<lambda>p. good_panel ok u (fst p)) (all_placements tabs))"

lemma tables_build:
  assumes "tables_ok ok u titles ids tabs"
  shows "build_tabs tabs = Inr (elements_of tabs, map tab_of tabs)"
  using assms by (simp add: tables_ok_def build_tabs_iff elements_of_def distinct_panel_keys)

lemma tables_refs:
  assumes "tables_ok ok u titles ids tabs"
  shows "check_refs (layout_of tabs) (JDict (elements_of tabs)) = Inr ()"
  using assms
  by (simp add: tables_ok_def check_refs_iff layout_of_def layout_refs_layout keys_elements
      distinct_panel_keys del: set_map)

lemma tables_passes: "tables_ok ok u titles ids tabs \<Longrightarrow> list_all (passes u) (elements_of tabs)"
  by (simp add: tables_ok_def elements_of_def list.pred_map o_def list_all_iff good_panel_def)

lemma tables_panels:
  assumes "tables_ok ok u titles ids tabs"
  shows "check_panels u (JDict (elements_of tabs)) = Inr ()"
proof (rule check_panels_good [OF tables_passes [OF assms]])
  show "distinct (map fst (elements_of tabs))"
    using assms by (simp add: tables_ok_def keys_elements distinct_panel_keys)
qed

lemma tables_panel_fold:
  assumes "tables_ok ok u titles ids tabs"
  obtains pids where "foldR (check_panel u) [] (elements_of tabs) = Inr pids" "distinct pids"
  using tables_panels [OF assms] by (auto simp: check_panels_def bindR_Inr_iff ensure_Inr_iff)

lemma tables_grid:
  assumes "tables_ok ok u titles ids tabs"
  shows "check_grid (layout_of tabs) = Inr ()"
  using assms by (simp add: tables_ok_def layout_of_def check_grid_built)

lemma mapR_title: "mapR (\<lambda>t. bindR (jpath t [''spec'', ''title'']) jstr) (map tab_of tabs) = Inr (map fst tabs)"
  by (induction tabs) (simp_all add: tab_of_def tab_json_def)

lemma tab_titles_of:
  "jpath spec [''layout'', ''spec'', ''tabs''] = Inr (JList (map tab_of tabs)) \<Longrightarrow>
   tab_titles spec = Inr (map fst tabs)"
  by (simp add: tab_titles_def mapR_title del: jpath.simps)

lemma tables_text:
  assumes "tables_ok ok u titles ids tabs"
  shows "dict_clean ok (elements_of tabs)" and "text_clean ok (layout_of tabs)"
proof -
  have k: "keys (all_placements tabs) = map panel_key ids" "list_all (\<lambda>i. 0 \<le> i) ids"
    using assms by (auto simp: tables_ok_def)
  then have "list_all (clean ok) (map fst (elements_of tabs))"
    using clean_panel_key by (auto simp: keys_elements list_all_iff)
  then show "dict_clean ok (elements_of tabs)"
    using assms by (auto simp: tables_ok_def dict_clean_def elements_of_def list_all_iff good_panel_def)
  show "text_clean ok (layout_of tabs)"
    using assms k by (intro text_layout) (auto simp: tables_ok_def)
qed

section \<open>Reading the tables\<close>

lemma box_of_alt: "box_of p = (case snd p of (x, y, w, h) \<Rightarrow> (x, y, w, h, fst (fst p)))"
  by (cases p rule: box_of.cases) simp

lemma placements_ok_alt:
  "placements_ok ps \<longleftrightarrow> list_all on_grid (map box_of ps) \<and> apart (map rect_of (map box_of ps))"
  using apart_cells by (auto simp: placements_ok_def grid_ok_def simp del: map_map)

lemmas geometry = placements_ok_alt box_of_alt apart_def maker_keys

lemma keys_tabs:
  "keys (all_placements []) = []"
  "keys (all_placements ((t, ps) # tabs)) = keys ps @ keys (all_placements tabs)"
  by (simp_all add: all_placements_def keys_def)

lemma list_all_placements:
  "list_all P (all_placements []) = True"
  "list_all P (all_placements ((t, ps) # tabs)) = (list_all P ps \<and> list_all P (all_placements tabs))"
  by (simp_all add: all_placements_def)

section \<open>The other way to check panels\<close>

text \<open>A panel the shared check accepts passes the advanced one.\<close>

lemma adv_check_panel_of:
  assumes "check_panel [''text'', ''logs''] ids it = Inr ids'"
  shows "adv_check_panel ids it = Inr ids'"
proof -
  obtain pid where p: "panel_sound [''text'', ''logs''] it pid" "ids' = ids @ [pid]"
    using assms by (auto simp: check_panel_iff)
  then show ?thesis using starts_panel [of "fst it" pid]
    by (cases it) (auto simp: panel_sound_def has_unit_def adv_check_panel_def panel_key_def id_check
        simp del: jpath.simps jget.simps json_text.simps)
qed

lemma adv_panel_fold:
  "foldR (check_panel [''text'', ''logs'']) ids its = Inr ids' \<Longrightarrow> foldR adv_check_panel ids its = Inr ids'"
  by (induction its arbitrary: ids) (auto simp: bindR_Inr_iff dest: adv_check_panel_of)

end
