(* ===== verification/Queries.thy ===== *)
theory Queries
  imports Assembly
begin

text \<open>
  The kind and the query expressions of a panel, for every constructor, and words that no expression
  holds.
\<close>

section \<open>Kinds and expressions\<close>

definition viz_of :: "json \<Rightarrow> string" where
  "viz_of el = (case bindR (jpath el [''spec'', ''vizConfig'', ''group'']) jstr of Inr v \<Rightarrow> v | Inl e \<Rightarrow> [])"

definition panel_exprs :: "json \<Rightarrow> string list res" where
  "panel_exprs el = bindR (panel_queries el) (mapR query_expr)"

lemma viz_panel: "viz_of (snd (panel pid t viz qs unit desc a)) = viz"
  by (simp add: viz_of_def panel_def Let_def)

lemma maker_viz:
  "viz_of (snd (stat pid t e un d a)) = ''stat''"
  "viz_of (snd (loki_stat pid t e d a)) = ''stat''"
  "viz_of (snd (timeseries pid t qs un d a)) = ''timeseries''"
  "viz_of (snd (bargauge pid t qs un d a)) = ''bargauge''"
  "viz_of (snd (gauge pid t e d a)) = ''gauge''"
  "viz_of (snd (table pid t qs d a)) = ''table''"
  "viz_of (snd (piechart pid t qs un d a)) = ''piechart''"
  "viz_of (snd (state_timeline pid t qs un d a)) = ''state-timeline''"
  "viz_of (snd (heatmap pid t qs un d a)) = ''heatmap''"
  "viz_of (snd (logs_panel pid t e d)) = ''logs''"
  "viz_of (snd (text_panel pid t c)) = ''text''"
  by (simp_all add: stat_def loki_stat_def timeseries_def bargauge_def gauge_def table_def piechart_def
      state_timeline_def heatmap_def logs_panel_def Let_def viz_panel)
    (simp add: viz_of_def text_panel_def Let_def)

lemma query_expr_simps:
  "query_expr (prom_query e l r f i) = Inr e"
  "query_expr (loki_query e r q) = Inr e"
  by (simp_all add: query_expr_def prom_query_def loki_query_def Let_def)

lemma exprs_panel: "panel_exprs (snd (panel pid t viz qs unit desc a)) = mapR query_expr qs"
  by (simp add: panel_exprs_def panel_queries_def panel_def data_group_def Let_def)

lemma maker_exprs:
  "panel_exprs (snd (stat pid t e un d a)) = Inr [e]"
  "panel_exprs (snd (loki_stat pid t e d a)) = Inr [e]"
  "panel_exprs (snd (timeseries pid t qs un d a)) = mapR query_expr qs"
  "panel_exprs (snd (bargauge pid t qs un d a)) = mapR query_expr qs"
  "panel_exprs (snd (gauge pid t e d a)) = Inr [e]"
  "panel_exprs (snd (table pid t qs d a)) = mapR query_expr qs"
  "panel_exprs (snd (piechart pid t qs un d a)) = mapR query_expr qs"
  "panel_exprs (snd (state_timeline pid t qs un d a)) = mapR query_expr qs"
  "panel_exprs (snd (heatmap pid t qs un d a)) = mapR query_expr qs"
  "panel_exprs (snd (logs_panel pid t e d)) = Inr [e]"
  "panel_exprs (snd (text_panel pid t c)) = Inr []"
  by (simp_all add: stat_def loki_stat_def timeseries_def bargauge_def gauge_def table_def piechart_def
      state_timeline_def heatmap_def logs_panel_def Let_def exprs_panel query_expr_simps)
    (simp add: panel_exprs_def panel_queries_def text_panel_def data_group_def Let_def)

section \<open>All expressions of a table\<close>

text \<open>Every expression of the panels can be read and satisfies \<open>P\<close>.\<close>

definition exprs_all :: "(string \<Rightarrow> bool) \<Rightarrow> placement list \<Rightarrow> bool" where
  "exprs_all P ps = list_all (\<lambda>p. \<exists>es. panel_exprs (snd (fst p)) = Inr es \<and> list_all P es) ps"

lemma exprs_all_tabs:
  "exprs_all P (all_placements []) = True"
  "exprs_all P (all_placements ((t, ps) # tabs)) = (exprs_all P ps \<and> exprs_all P (all_placements tabs))"
  by (simp_all add: exprs_all_def all_placements_def)

lemma exprs_all_simps:
  "exprs_all P [] = True"
  "exprs_all P (p # ps) = ((\<exists>es. panel_exprs (snd (fst p)) = Inr es \<and> list_all P es) \<and> exprs_all P ps)"
  by (simp_all add: exprs_all_def)

lemma mapR_map: "mapR f (map g xs) = mapR (\<lambda>x. f (g x)) xs"
  by (induction xs) auto

lemma exprs_all_mapR:
  "exprs_all P ps \<Longrightarrow> \<exists>ess. mapR (\<lambda>p. panel_exprs (snd (fst p))) ps = Inr ess \<and>
     list_all P (concat ess) \<and>
     (\<forall>p \<in> set ps. \<forall>es. panel_exprs (snd (fst p)) = Inr es \<longrightarrow> set es \<subseteq> set (concat ess))"
proof (induction ps)
  case (Cons p ps)
  then obtain es ess where "panel_exprs (snd (fst p)) = Inr es" "list_all P es"
    "mapR (\<lambda>p. panel_exprs (snd (fst p))) ps = Inr ess" "list_all P (concat ess)"
    "\<forall>p \<in> set ps. \<forall>es. panel_exprs (snd (fst p)) = Inr es \<longrightarrow> set es \<subseteq> set (concat ess)"
    by (auto simp: exprs_all_simps)
  then show ?case by (intro exI [of _ "es # ess"]) auto
qed (simp add: exprs_all_def)

lemma query_exprs_elements:
  assumes "exprs_all P (all_placements tabs)"
  obtains es where "query_exprs (JDict (elements_of tabs)) = Inr es" "list_all P es"
    "\<And>p es'. p \<in> set (all_placements tabs) \<Longrightarrow> panel_exprs (snd (fst p)) = Inr es' \<Longrightarrow> set es' \<subseteq> set es"
proof -
  obtain ess where e: "mapR (\<lambda>p. panel_exprs (snd (fst p))) (all_placements tabs) = Inr ess"
    "list_all P (concat ess)"
    "\<forall>p \<in> set (all_placements tabs). \<forall>es. panel_exprs (snd (fst p)) = Inr es \<longrightarrow> set es \<subseteq> set (concat ess)"
    using exprs_all_mapR [OF assms] by blast
  have "query_exprs (JDict (elements_of tabs)) = Inr (concat ess)"
    using e(1) by (simp add: query_exprs_def elements_of_def mapR_map panel_exprs_def)
  then show thesis using that e(2,3) by blast
qed

section \<open>Words\<close>

definition wrun :: "string \<Rightarrow> string \<Rightarrow> string list option \<Rightarrow> string list option" where
  "wrun w s st = fold (wstep w) s st"

lemma wrun_simps:
  "wrun w [] st = st"
  "wrun w (s @ t) st = wrun w t (wrun w s st)"
  "c \<noteq> d \<Longrightarrow> wrun (d # w) (c # s) (Some []) = wrun (d # w) s (Some [])"
  "w \<noteq> [] \<Longrightarrow> wrun (d # w) (d # s) (Some []) = wrun (d # w) s (Some [w])"
  "wrun w (c # s) (Some (r # act)) = wrun w s (wstep w c (Some (r # act)))"
  by (simp_all add: wrun_def Let_def)

lemma wrun_word: "w \<noteq> [] \<Longrightarrow> wrun w s (Some []) = Some act \<Longrightarrow> \<not> py_in w s"
  using word_free [of w s] by (simp add: word_free_def wrun_def)

text \<open>A word holds every part of it.\<close>

lemma py_in_part: "\<not> py_in v s \<Longrightarrow> py_in v w \<Longrightarrow> \<not> py_in w s"
  unfolding py_in_sublist using sublist_order.order.trans by blast

lemma py_in_or: "py_in w a \<or> py_in w b \<Longrightarrow> py_in w (a @ b)"
  unfolding py_in_sublist by (auto simp: sublist_append)

lemma py_in_left: "py_in w a \<Longrightarrow> py_in w (a @ b)"
  and py_in_right: "py_in w b \<Longrightarrow> py_in w (a @ b)"
  unfolding py_in_sublist by (auto simp: sublist_append)

end
