(* ===== verification/Document.thy ===== *)
theory Document
  imports Queries
begin

text \<open>
  The assertions on a whole document: its template variables, and the words its text may not or must
  hold. They are reduced to facts on the specification and on single texts of it.
\<close>

section \<open>Variables\<close>

lemma check_vars_clean:
  assumes "variable_names spec = Inr names" "text_clean (names @ globals) spec"
    and "set names \<subseteq> set (referenced_vars spec) \<union> set exempt"
  shows "check_vars globals exempt spec = Inr ()"
  using assms text_clean_vars [OF assms(2)]
  by (auto simp: check_vars_iff referenced_vars_def)

lemma referenced: "s \<in> set (iter_strings spec) \<Longrightarrow> var_occurs v s \<Longrightarrow> v \<in> set (referenced_vars spec)"
  using var_names_iff by (auto simp: referenced_vars_def)

text \<open>Every expression with the filter uses the variable \<open>router\<close> and names the job.\<close>

lemma PROM_FILTER_parts:
  "var_occurs ''router'' (a @ PROM_FILTER @ b)"
  \<open>py_in (''router=~'' @ [DQ] @ ''$router'' @ [DQ]) (a @ PROM_FILTER @ b)\<close>
  \<open>py_in (''job='' @ [DQ] @ ''openwrt'' @ [DQ]) (a @ PROM_FILTER @ b)\<close>
proof -
  have f: \<open>PROM_FILTER = ''job="openwrt", router=~"'' @ ''$'' @ ''router'' @ [DQ]\<close>
    \<open>PROM_FILTER = ''job="openwrt", '' @ (''router=~'' @ [DQ] @ ''$router'' @ [DQ])\<close>
    \<open>PROM_FILTER = (''job='' @ [DQ] @ ''openwrt'' @ [DQ]) @ '', router=~"$router"''\<close>
    by (simp_all add: PROM_FILTER_def)
  have "whole_name ''router'' ([DQ] @ b)"
    by (simp add: whole_name_def ident_start_def ident_char_def is_upper_def is_lower_def is_digit_def code_def)
  moreover have \<open>a @ PROM_FILTER @ b = (a @ ''job="openwrt", router=~"'') @ ''$'' @ ''router'' @ ([DQ] @ b)\<close>
    by (simp add: f(1))
  ultimately show "var_occurs ''router'' (a @ PROM_FILTER @ b)" unfolding var_occurs_def by blast
  show \<open>py_in (''router=~'' @ [DQ] @ ''$router'' @ [DQ]) (a @ PROM_FILTER @ b)\<close>
    unfolding f(2) by (rule py_in_right, rule py_in_left, rule py_in_right) (simp add: py_in_sublist)
  show \<open>py_in (''job='' @ [DQ] @ ''openwrt'' @ [DQ]) (a @ PROM_FILTER @ b)\<close>
    unfolding f(3) by (rule py_in_right, rule py_in_left, rule py_in_left) (simp add: py_in_sublist)
qed

lemma var_occurs_at: "whole_name v (c # b) \<Longrightarrow> var_occurs v (a @ ''$'' @ v @ c # b)"
  unfolding var_occurs_def by blast

lemmas name_defs = whole_name_def ident_start_def ident_char_def is_upper_def is_lower_def is_digit_def code_def

section \<open>Texts of an element\<close>

lemma iter_elements:
  "s \<in> set (iter_strings (snd (fst p))) \<Longrightarrow> p \<in> set (all_placements tabs) \<Longrightarrow>
   s \<in> set (iter_strings (JDict (elements_of tabs)))"
  by (force simp: elements_of_def)

lemma stat_texts:
  "e \<in> set (iter_strings (snd (stat pid t e u d a)))"
  "PROM_DS \<in> set (iter_strings (snd (stat pid t e u d a)))"
  by (simp_all add: stat_def panel_def data_group_def prom_query_def Let_def)

lemma logs_texts:
  "e \<in> set (iter_strings (snd (logs_panel pid t e d)))"
  "LOKI_DS \<in> set (iter_strings (snd (logs_panel pid t e d)))"
  by (simp_all add: logs_panel_def panel_def data_group_def loki_query_def Let_def)

lemma placement_texts:
  "(title, ps) \<in> set tabs \<Longrightarrow> n < length ps \<Longrightarrow> s \<in> set (iter_strings (snd (fst (ps ! n)))) \<Longrightarrow>
   s \<in> set (iter_strings (JDict (elements_of tabs)))"
  by (rule iter_elements [of _ "ps ! n"]) (auto simp: all_placements_def intro!: bexI nth_mem)

text \<open>An expression of the \<open>n\<close>-th panel of a tab.\<close>

lemma stat_string:
  assumes "\<exists>pid t u d a. fst (ps ! n) = stat pid t e u d a" "(title, ps) \<in> set tabs" "n < length ps"
  shows "e \<in> set (iter_strings (JDict (elements_of tabs)))"
    and "PROM_DS \<in> set (iter_strings (JDict (elements_of tabs)))"
proof -
  obtain pid t u d a where f: "fst (ps ! n) = stat pid t e u d a" using assms(1) by blast
  show "e \<in> set (iter_strings (JDict (elements_of tabs)))"
    by (rule placement_texts [OF assms(2,3)]) (simp only: f stat_texts)
  show "PROM_DS \<in> set (iter_strings (JDict (elements_of tabs)))"
    by (rule placement_texts [OF assms(2,3)]) (simp only: f stat_texts)
qed

lemma logs_string:
  assumes "\<exists>pid t d. fst (ps ! n) = logs_panel pid t e d" "(title, ps) \<in> set tabs" "n < length ps"
  shows "e \<in> set (iter_strings (JDict (elements_of tabs)))"
    and "LOKI_DS \<in> set (iter_strings (JDict (elements_of tabs)))"
proof -
  obtain pid t d where f: "fst (ps ! n) = logs_panel pid t e d" using assms(1) by blast
  show "e \<in> set (iter_strings (JDict (elements_of tabs)))"
    by (rule placement_texts [OF assms(2,3)]) (simp only: f logs_texts)
  show "LOKI_DS \<in> set (iter_strings (JDict (elements_of tabs)))"
    by (rule placement_texts [OF assms(2,3)]) (simp only: f logs_texts)
qed

lemma timeseries_string:
  assumes "\<exists>pid t l r f i qs u d a. fst (ps ! n) = timeseries pid t (prom_query e l r f i # qs) u d a"
    and "(title, ps) \<in> set tabs" "n < length ps"
  shows "e \<in> set (iter_strings (JDict (elements_of tabs)))"
proof -
  obtain pid t l r f i qs u d a where
    f: "fst (ps ! n) = timeseries pid t (prom_query e l r f i # qs) u d a" using assms(1) by blast
  have "e \<in> set (iter_strings (snd (timeseries pid t (prom_query e l r f i # qs) u d a)))"
    by (simp add: timeseries_def panel_def data_group_def prom_query_def Let_def)
  then show ?thesis by (intro placement_texts [OF assms(2,3)]) (simp only: f)
qed

section \<open>Words of the document\<close>

definition document :: "string \<Rightarrow> json \<Rightarrow> json" where
  "document slug spec = JDict [(''apiVersion'', JStr DASHBOARD_API), (''kind'', JStr ''Dashboard''),
     (''metadata'', JDict [(''name'', JStr slug)]), (''spec'', spec)]"

lemma document_strings:
  "s \<in> set (all_strings (document slug spec)) \<Longrightarrow> s \<in> {''apiVersion'', DASHBOARD_API, ''kind'',
     ''Dashboard'', ''metadata'', ''name'', slug, ''spec''} \<or> s \<in> set (all_strings spec)"
  by (auto simp: document_def)

lemma document_floats:
  assumes "text_clean ok spec" "c \<notin> set ''0123456789.e-+''" "f \<in> set (all_floats (document slug spec))"
  shows "c \<notin> set f"
proof -
  have "f \<in> set (all_floats spec)" using assms(3) by (simp add: document_def)
  then have "float_text f" using assms(1) unfolding text_clean_def list_all_iff by blast
  then show ?thesis using assms(2) unfolding float_text_def list_all_iff by blast
qed

lemma document_lacks_word:
  assumes "text_clean ok spec" "clean ok slug" "c \<in> {CHR ''c'', CHR ''p''}"
    and "DQ \<notin> set w" "BS \<notin> set (c # w)" "py_in ''Ve'' (c # w)" "\<not> py_in (c # w) ''apiVersion''"
  shows "\<not> py_in (c # w) (json_text b (document slug spec))"
proof
  assume p: "py_in (c # w) (json_text b (document slug spec))"
  have "c \<notin> set ''0123456789.e-+''" using assms(3) by auto
  then have "c \<notin> set f" if "f \<in> set (all_floats (document slug spec))" for f
    using document_floats [OF assms(1)] that by blast
  moreover have "c \<notin> set json_punctuation" using assms(3) by (auto simp: json_punctuation_def)
  ultimately obtain s where s: "s \<in> set (all_strings (document slug spec))" "py_in (c # w) s"
    using py_in_json_text [OF p _ assms(4,5)] by blast
  then have v: "py_in ''Ve'' s" using assms(6) py_in_part by blast
  have "\<not> py_in ''Ve'' x" if "x \<in> set (all_strings spec)" for x
    using that assms(1) clean_word by (auto simp: text_clean_def list_all_iff)
  then have "s = ''apiVersion''"
    using document_strings [OF s(1)] v clean_word [OF assms(2)] by (auto simp: DASHBOARD_API_def)
  then show False using s(2) assms(7) by simp
qed

lemma document_lacks:
  assumes "text_clean ok spec" "clean ok slug"
  shows "lacks ''schemaVersion'' (json_text b (document slug spec)) = Inr ()"
    and "lacks ''pluginVersion'' (json_text b (document slug spec)) = Inr ()"
proof -
  have "\<not> py_in ''chemaVersion'' (json_text b (document slug spec))"
    using document_lacks_word [OF assms, of "CHR ''c''" "''hemaVersion''"] by simp
  then have "\<not> py_in ''schemaVersion'' (json_text b (document slug spec))"
    by (rule py_in_part) simp
  then show "lacks ''schemaVersion'' (json_text b (document slug spec)) = Inr ()" by (simp add: lacks_def)
  have "\<not> py_in ''pluginVersion'' (json_text b (document slug spec))"
    using document_lacks_word [OF assms, of "CHR ''p''" "''luginVersion''"] by simp
  then show "lacks ''pluginVersion'' (json_text b (document slug spec)) = Inr ()" by (simp add: lacks_def)
qed

lemma document_has:
  assumes "s \<in> set (iter_strings spec)" "escape s = s"
  shows "has s (json_text b (document slug spec)) = Inr ()"
proof -
  have "s \<in> set (all_strings (document slug spec))"
    using assms(1) iter_strings_all [of spec] by (auto simp: document_def)
  then have "sublist (escape s) (json_text b (document slug spec))" by (rule string_in_json_text)
  then show ?thesis using assms(2) by (simp add: has_def py_in_sublist)
qed

text \<open>A word with a variable outside the allowed names does not occur.\<close>

lemma document_lacks_var:
  assumes "text_clean ok spec" "''DS_LOKI'' \<notin> set ok" "clean ok slug"
  shows "lacks ''${DS_LOKI}'' (json_text b (document slug spec)) = Inr ()"
proof -
  have "\<not> py_in (CHR ''$'' # ''{DS_LOKI}'') (json_text b (document slug spec))"
  proof
    assume p: "py_in (CHR ''$'' # ''{DS_LOKI}'') (json_text b (document slug spec))"
    have "CHR ''$'' \<notin> set f" if "f \<in> set (all_floats (document slug spec))" for f
      using document_floats [OF assms(1) _ that, of "CHR ''$''"] by simp
    then obtain s where s: "s \<in> set (all_strings (document slug spec))" "py_in (CHR ''$'' # ''{DS_LOKI}'') s"
      using py_in_json_text [OF p] by (auto simp: json_punctuation_def)
    then obtain a c where "s = a @ ''$'' @ ''{DS_LOKI}'' @ c" by (auto simp: py_in_sublist sublist_def)
    then have "s = a @ ''${'' @ ''DS_LOKI'' @ (CHR ''}'' # c)" by simp
    then have "var_occurs ''DS_LOKI'' s" unfolding var_occurs_def
      by (intro exI [of _ a] exI [of _ "CHR ''}'' # c"])
        (simp add: whole_name_def ident_start_def ident_char_def is_upper_def is_lower_def is_digit_def code_def)
    then have "\<not> clean ok s" using clean_vars assms(2) var_names_iff by blast
    moreover have "s \<in> set (all_strings spec) \<Longrightarrow> clean ok s"
      using assms(1) by (auto simp: text_clean_def list_all_iff)
    ultimately show False using document_strings [OF s(1)] s(2) assms(3) by (auto simp: DASHBOARD_API_def)
  qed
  then show ?thesis by (simp add: lacks_def)
qed

lemma document_no_uid: "check_no_uid (document slug spec) = Inr ()"
  by (simp add: check_no_uid_def document_def)

lemma document_header: "check_header (document slug spec) slug = Inr ()"
  by (simp add: check_header_def check_field_def document_def)

lemma document_spec: "jget (document slug spec) ''spec'' = Inr spec"
  by (simp add: document_def)

lemma escape_DS: "escape PROM_DS = PROM_DS" "escape LOKI_DS = LOKI_DS"
  by (simp_all add: escape_def PROM_DS_def LOKI_DS_def json_escape_char_def)

end
