(* ===== verification/Topology_Built.thy ===== *)
theory Topology_Built
  imports Document
begin

text \<open>
  The topology generator returns a dashboard: its tables are good, and every assertion of its
  validator holds.
\<close>

section \<open>Texts\<close>

definition TOPO_NAMES :: "string list" where
  "TOPO_NAMES = [''DS_PROMETHEUS'', ''router''] @ TOPO_GLOBALS"

lemma topo_names [simp]:
  "''DS_PROMETHEUS'' \<in> set TOPO_NAMES" "''router'' \<in> set TOPO_NAMES" "''__all'' \<in> set TOPO_NAMES"
  "''__rate_interval'' \<in> set TOPO_NAMES" "''__data'' \<in> set TOPO_NAMES" "''__url_time_range'' \<in> set TOPO_NAMES"
  by (simp_all add: TOPO_NAMES_def TOPO_GLOBALS_def GLOBALS_ALLOWED_def)

lemma metric_runs [panel_text]:
  "run TOPO_NAMES NODE_METRIC c0 = c0" "run TOPO_NAMES EDGE_METRIC c0 = c0" "run TOPO_NAMES INFRA_METRIC c0 = c0"
  "run TOPO_NAMES CLIENTS_DASHBOARD c0 = c0" "run TOPO_NAMES MISSION_CONTROL_DASHBOARD c0 = c0"
  "run TOPO_NAMES TRAFFIC_BY_MAC c0 = c0"
  by (simp_all add: NODE_METRIC_def EDGE_METRIC_def INFRA_METRIC_def CLIENTS_DASHBOARD_def
      MISSION_CONTROL_DASHBOARD_def TRAFFIC_BY_MAC_def selector_def panel_text del: append.simps append_assoc)

lemma expr_runs [panel_text]:
  "run TOPO_NAMES NODES_EXPR c0 = c0" "run TOPO_NAMES EDGES_EXPR c0 = c0"
  "run TOPO_NAMES NODES_RAW c0 = c0" "run TOPO_NAMES EDGES_RAW c0 = c0"
  "run TOPO_NAMES topo_weak_links c0 = c0"
  by (simp_all add: NODES_EXPR_def EDGES_EXPR_def NODES_RAW_def EDGES_RAW_def topo_weak_links_def
      nodes_expr_def edges_expr_def prefer_authority_def infra_as_def overlay_traffic_def traffic_as_def
      selector_def Let_def panel_text del: append.simps append_assoc)

lemma expr_clean [panel_text]:
  "clean TOPO_NAMES NODES_EXPR" "clean TOPO_NAMES EDGES_EXPR" "clean TOPO_NAMES NODES_RAW"
  "clean TOPO_NAMES EDGES_RAW" "clean TOPO_NAMES topo_weak_links"
  by (simp_all add: clean_run expr_runs)

lemma good_nodegraph [good_panels]:
  "clean TOPO_NAMES t \<Longrightarrow> clean TOPO_NAMES d \<Longrightarrow> good_panel TOPO_NAMES u (nodegraph pid t d)"
  unfolding nodegraph_def
  by (rule good_panel_of)
    (simp_all add: panel_text NODE_ARCS_def NODE_LINKS_def topo_field_override_def NOISE_COLUMNS_def
      del: append.simps append_assoc)

lemma topo_good_overview: "list_all (\<lambda>p. good_panel TOPO_NAMES [''text''] (fst p)) topo_overview"
  by (simp add: topo_overview_def good_panels panel_text topo_availability_expr_def selector_def
      count_nodes_def del: append.simps append_assoc)

lemma good_topology: "list_all (\<lambda>p. good_panel TOPO_NAMES [''text''] (fst p)) topo_topology"
  by (simp add: topo_topology_def good_panels panel_text del: append.simps append_assoc)

lemma good_quality: "list_all (\<lambda>p. good_panel TOPO_NAMES [''text''] (fst p)) topo_quality"
  by (simp add: topo_quality_def good_panels panel_text selector_def del: append.simps append_assoc)

section \<open>Geometry\<close>

lemma key_nodegraph: "fst (nodegraph pid t d) = panel_key pid"
  by (simp add: nodegraph_def panel_key)

lemma topo_keys:
  "keys (all_placements topo_tabs) =
     map panel_key [1, 2, 3, 4, 5, 6, 7, 8, 9, 100, 101, 200, 201, 202, 203, 204, 205, 206]"
  by (simp add: topo_tabs_def keys_tabs) (simp add: keys_def topo_overview_def topo_topology_def
      topo_quality_def maker_keys key_nodegraph)

lemma topo_geometry: "list_all (\<lambda>t. placements_ok (snd t)) topo_tabs"
  by (simp add: topo_tabs_def topo_overview_def topo_topology_def topo_quality_def geometry key_nodegraph)

lemma topo_tables:
  "tables_ok TOPO_NAMES [''text''] TOPO_TABS
     [1, 2, 3, 4, 5, 6, 7, 8, 9, 100, 101, 200, 201, 202, 203, 204, 205, 206] topo_tabs"
  unfolding tables_ok_def
  using topo_geometry topo_good_overview good_topology good_quality
  by (simp add: topo_keys del: list.map) (simp add: topo_tabs_def list_all_placements TOPO_TABS_def panel_text)

section \<open>The node graph\<close>

text \<open>No text of the node graph holds \<open>secondarystat\<close>.\<close>

definition no_stat :: "string \<Rightarrow> bool" where
  "no_stat s = (wrun ''condarystat'' s (Some []) \<noteq> None)"

lemma no_stat_word: "no_stat s \<Longrightarrow> \<not> py_in ''condarystat'' s"
  using wrun_word [of "''condarystat''" s] by (auto simp: no_stat_def)

lemma metric_stats:
  "wrun ''condarystat'' NODE_METRIC (Some []) = Some []" "wrun ''condarystat'' EDGE_METRIC (Some []) = Some []"
  "wrun ''condarystat'' CLIENTS_DASHBOARD (Some []) = Some []"
  "wrun ''condarystat'' MISSION_CONTROL_DASHBOARD (Some []) = Some []"
  "wrun ''condarystat'' PROM_FILTER (Some []) = Some []"
  by (simp_all add: NODE_METRIC_def EDGE_METRIC_def CLIENTS_DASHBOARD_def PROM_FILTER_def
      MISSION_CONTROL_DASHBOARD_def wrun_simps del: append.simps append_assoc)

lemma traffic_stat: "wrun ''condarystat'' TRAFFIC_BY_MAC (Some []) = Some []"
  by (simp add: TRAFFIC_BY_MAC_def selector_def wrun_simps metric_stats del: append.simps append_assoc)

lemma expr_stats: "wrun ''condarystat'' NODES_EXPR (Some []) = Some []"
  "wrun ''condarystat'' EDGES_EXPR (Some []) = Some []"
  by (simp_all add: NODES_EXPR_def EDGES_EXPR_def nodes_expr_def edges_expr_def prefer_authority_def
      infra_as_def overlay_traffic_def traffic_as_def selector_def Let_def INFRA_METRIC_def wrun_simps metric_stats
      traffic_stat del: append.simps append_assoc)

lemma nodegraph_stats:
  assumes "no_stat t" "no_stat d" "0 \<le> pid"
  shows "list_all no_stat (all_strings (snd (nodegraph pid t d)))"
proof -
  have "no_stat NODES_EXPR" "no_stat EDGES_EXPR" using expr_stats by (simp_all add: no_stat_def)
  then show ?thesis using assms
    by (simp add: nodegraph_def panel_def data_group_def prom_query_def dict_update_def thresholds_def
        NODE_ARCS_def NODE_LINKS_def topo_field_override_def NOISE_COLUMNS_def organize_def tf_def Let_def
        PROM_DS_def GREEN_def GRAY_def YELLOW_def)
      (simp add: no_stat_def wrun_simps metric_stats del: append.simps append_assoc)
qed

lemma nodegraph_floats: "all_floats (snd (nodegraph pid t d)) = []"
  by (simp add: nodegraph_def panel_def data_group_def prom_query_def dict_update_def thresholds_def
      NODE_ARCS_def NODE_LINKS_def topo_field_override_def NOISE_COLUMNS_def organize_def tf_def Let_def)

lemma nodegraph_lacks:
  assumes "no_stat t" "no_stat d" "0 \<le> pid"
  shows "\<not> py_in ''secondarystat'' (json_text b (snd (nodegraph pid t d)))"
proof
  assume "py_in ''secondarystat'' (json_text b (snd (nodegraph pid t d)))"
  then have "py_in (CHR ''c'' # ''ondarystat'') (json_text b (snd (nodegraph pid t d)))"
    using py_in_part [of "''condarystat''" _ "''secondarystat''"] by auto
  then obtain s where "s \<in> set (all_strings (snd (nodegraph pid t d)))" "py_in ''condarystat'' s"
    using py_in_json_text [of "CHR ''c''" "''ondarystat''" b "snd (nodegraph pid t d)"]
    by (auto simp: nodegraph_floats json_punctuation_def)
  then show False using nodegraph_stats [OF assms] no_stat_word by (auto simp: list_all_iff)
qed

lemma check_graph_prom_query: "check_graph_query (prom_query e l r ''table'' True) = Inr ()"
  by (simp add: check_graph_query_def prom_query_def Let_def)

lemma ref_prom_query: "bindR (jpath (prom_query e l r f i) [''spec'', ''refId'']) jstr = Inr r"
  by (simp add: prom_query_def Let_def)

text \<open>The checks on a node graph, for an element with the parts they read.\<close>

lemma check_node_graph_parts:
  assumes "panel_queries el = Inr [prom_query e1 l1 ''edges'' ''table'' True,
      prom_query e2 l2 ''nodes'' ''table'' True]"
    and "jpath el [''spec'', ''vizConfig'', ''spec'', ''options''] = Inr os"
    and "jpath os [''nodes'', ''arcs''] = Inr (JList NODE_ARCS)"
    and "jget os ''layoutAlgorithm'' = Inr (JStr ''layered'')"
    and "jpath os [''nodes'', ''mainStatUnit''] = Inr (JStr ''Bps'')"
    and "jpath os [''edges'', ''mainStatUnit''] = Inr (JStr ''Bps'')"
    and "jpath el [''spec'', ''data'', ''spec'', ''transformations''] = Inr (JList ts)"
    and "mapR (\<lambda>t. bindR (jget t ''kind'') jstr) ts = Inr kinds" "''joinByField'' \<notin> set kinds"
    and "\<not> py_in ''secondarystat'' (json_text False el)"
  shows "check_node_graph el = Inr ()"
proof -
  have "mapR (\<lambda>arc. bindR (jget arc ''field'') jstr) NODE_ARCS = Inr ARC_FIELDS"
    by (simp add: NODE_ARCS_def ARC_FIELDS_def)
  then show ?thesis using assms
    by (simp add: check_node_graph_def check_graph_prom_query ref_prom_query lacks_def check_field_def
        insert_commute del: json_text.simps jpath.simps)
qed

lemma check_nodegraph:
  assumes "no_stat t" "no_stat d" "0 \<le> pid"
  shows "check_node_graph (snd (nodegraph pid t d)) = Inr ()"
  using nodegraph_lacks [OF assms, of False]
  by (rule check_node_graph_parts [where kinds = "[''organize'']" and
      ts = "[organize NOISE_COLUMNS [(''Value'', ''mainstat'')] []]" and os = "JDict
      [(''zoomMode'', JStr ''cooperative''), (''layoutAlgorithm'', JStr ''layered''),
       (''nodes'', JDict [(''mainStatUnit'', JStr ''Bps''), (''arcs'', JList NODE_ARCS)]),
       (''edges'', JDict [(''mainStatUnit'', JStr ''Bps'')])]", rotated -1])
    (simp_all add: nodegraph_def panel_def Let_def panel_queries_def data_group_def organize_def tf_def
      del: json_text.simps)

section \<open>The panels\<close>

lemma check_panel_viz:
  assumes "check_panel u ids it = Inr ids'"
  shows "bindR (jpath (snd it) [''spec'', ''vizConfig'', ''group'']) jstr = Inr (viz_of (snd it))"
  using assms by (cases it) (auto simp: check_panel_def viz_of_def Let_def bindR_Inr_iff
      simp del: json_text.simps split: sum.splits)

lemma topo_panel_fold:
  assumes "list_all (\<lambda>it. passes [''text''] it \<and>
      (viz_of (snd it) = ''nodeGraph'' \<longrightarrow> check_node_graph (snd it) = Inr ())) its"
    and "foldR (check_panel [''text'']) ids its = Inr ids'"
  shows "foldR topo_check_panel (ids, b) its =
    Inr (ids', b \<or> list_ex (\<lambda>it. viz_of (snd it) = ''nodeGraph'') its)"
  using assms
proof (induction its arbitrary: ids b)
  case (Cons it its)
  obtain ids'' where c: "check_panel [''text''] ids it = Inr ids''"
    "foldR (check_panel [''text'']) ids'' its = Inr ids'"
    using Cons.prems(2) by (auto simp: bindR_Inr_iff)
  have "topo_check_panel (ids, b) it = Inr (ids'', b \<or> viz_of (snd it) = ''nodeGraph'')"
    using Cons.prems(1) c(1) check_panel_viz [OF c(1)] by (auto simp: topo_check_panel_def)
  then show ?case using Cons.IH [OF _ c(2)] Cons.prems(1) by (simp add: disj_assoc)
qed simp

lemma topo_viz:
  "list_all (\<lambda>p. viz_of (snd (fst p)) = ''nodeGraph'' \<longrightarrow> check_node_graph (snd (fst p)) = Inr ())
     (all_placements topo_tabs)"
proof -
  have "no_stat []" by (simp add: no_stat_def wrun_simps)
  show ?thesis
    by (simp add: topo_tabs_def list_all_placements topo_overview_def topo_topology_def topo_quality_def
        maker_viz) (simp add: check_nodegraph no_stat_def wrun_simps del: append.simps append_assoc)
qed

lemma topo_has_graph: "list_ex (\<lambda>p. viz_of (snd (fst p)) = ''nodeGraph'') (all_placements topo_tabs)"
  by (simp add: topo_tabs_def all_placements_def topo_topology_def nodegraph_def viz_panel)

lemma topo_panels: "topo_check_panels (JDict (elements_of topo_tabs)) = Inr ()"
proof -
  note p = tables_passes [OF topo_tables]
  obtain pids where ids: "foldR (check_panel [''text'']) [] (elements_of topo_tabs) = Inr pids" "distinct pids"
    by (rule tables_panel_fold [OF topo_tables])
  have v: "list_all (\<lambda>it. viz_of (snd it) = ''nodeGraph'' \<longrightarrow> check_node_graph (snd it) = Inr ())
      (elements_of topo_tabs)"
    using topo_viz by (simp add: elements_of_def list.pred_map o_def)
  have "list_ex (\<lambda>it. viz_of (snd it) = ''nodeGraph'') (elements_of topo_tabs)"
    using topo_has_graph by (simp add: elements_of_def list_ex_iff)
  moreover have "foldR topo_check_panel ([], False) (elements_of topo_tabs) =
      Inr (pids, False \<or> list_ex (\<lambda>it. viz_of (snd it) = ''nodeGraph'') (elements_of topo_tabs))"
    using p v by (intro topo_panel_fold [OF _ ids(1)]) (simp add: list_all_iff)
  ultimately show ?thesis using ids(2) by (simp add: topo_check_panels_def)
qed

section \<open>The specification\<close>

abbreviation topo_elements :: "item list" where "topo_elements \<equiv> elements_of topo_tabs"

abbreviation topo_built :: json where "topo_built \<equiv> topo_spec topo_elements (map tab_of topo_tabs)"

lemma topo_document: "topo_dashboard spec = document ''openwrt-topology'' spec"
  by (simp add: topo_dashboard_def document_def DASHBOARD_API_def)

lemma topo_spec_parts:
  "jget topo_built ''elements'' = Inr (JDict topo_elements)"
  "jget topo_built ''layout'' = Inr (layout_of topo_tabs)"
  "check_field topo_built [''title''] ''OpenWrt - Topology'' = Inr ()"
  "check_field topo_built [''layout'', ''kind''] ''TabsLayout'' = Inr ()"
  "tab_titles topo_built = Inr TOPO_TABS"
  "variable_names topo_built = Inr [''DS_PROMETHEUS'', ''router'']"
proof -
  have "tab_titles topo_built = Inr (map fst topo_tabs)"
    by (rule tab_titles_of) (simp add: topo_spec_def)
  then show "tab_titles topo_built = Inr TOPO_TABS" by (simp add: topo_tabs_def TOPO_TABS_def)
qed (simp_all add: topo_spec_def layout_of_def layout_json_def check_field_def variable_names_def
      topo_variables_def datasource_var_def query_var_def)

lemma topo_text: "text_clean TOPO_NAMES topo_built"
  using tables_text [OF topo_tables]
  by (simp add: topo_spec_def topo_variables_def panel_text layout_of_def layout_json_def
      del: append.simps append_assoc)

lemma iter_topo:
  "s \<in> set (iter_strings (JDict topo_elements)) \<Longrightarrow> s \<in> set (iter_strings topo_built)"
  by (simp add: topo_spec_def)

text \<open>One expression of the overview, which holds the filter and a variable.\<close>

definition ap_count :: string where
  \<open>ap_count = count_nodes ''id=~"ap:.+"''\<close>

lemma topo_string: "ap_count \<in> set (iter_strings topo_built)"
  and topo_PROM_DS: "PROM_DS \<in> set (iter_strings topo_built)"
proof -
  have "\<exists>pid t u d a. fst (topo_overview ! 5) = stat pid t ap_count u d a"
    by (intro exI) (simp add: topo_overview_def ap_count_def)
  moreover have "(''Overview'', topo_overview) \<in> set topo_tabs" by (simp add: topo_tabs_def)
  moreover have "5 < length topo_overview" by (simp add: topo_overview_def)
  ultimately show "ap_count \<in> set (iter_strings topo_built)" "PROM_DS \<in> set (iter_strings topo_built)"
    by (blast intro: iter_topo stat_string)+
qed

lemma ap_count_parts:
  "var_occurs ''router'' ap_count"
  \<open>py_in (''router=~'' @ [DQ] @ ''$router'' @ [DQ]) ap_count\<close>
  \<open>py_in (''job='' @ [DQ] @ ''openwrt'' @ [DQ]) ap_count\<close>
proof -
  have e: \<open>ap_count = (''count('' @ NODE_METRIC @ ''{'') @ PROM_FILTER @
      ('', id=~"ap:.+", authority="1"}) or vector(0)'')\<close>
    by (simp add: ap_count_def count_nodes_def selector_def)
  show "var_occurs ''router'' ap_count"
    "py_in (''router=~'' @ [DQ] @ ''$router'' @ [DQ]) ap_count"
    "py_in (''job='' @ [DQ] @ ''openwrt'' @ [DQ]) ap_count"
    unfolding e by (rule PROM_FILTER_parts)+
qed

lemma topo_vars: "check_vars TOPO_GLOBALS [''DS_PROMETHEUS''] topo_built = Inr ()"
proof (rule check_vars_clean [OF topo_spec_parts(6)])
  show "text_clean ([''DS_PROMETHEUS'', ''router''] @ TOPO_GLOBALS) topo_built"
    using topo_text by (simp add: TOPO_NAMES_def)
  show "set [''DS_PROMETHEUS'', ''router''] \<subseteq> set (referenced_vars topo_built) \<union> set [''DS_PROMETHEUS'']"
    using referenced [OF topo_string ap_count_parts(1)] by simp
qed

section \<open>The expressions\<close>

definition no_nat :: "string \<Rightarrow> bool" where
  "no_nat s = (wrun ''nat_'' s (Some []) \<noteq> None)"

lemma no_nat_word: "no_nat s \<Longrightarrow> \<not> py_in ''node_nat_traffic'' s"
  using wrun_word [of "''nat_''" s] by (rule_tac py_in_part [of "''nat_''"]) (auto simp: no_nat_def)

lemma metric_nats:
  "wrun ''nat_'' NODE_METRIC (Some []) = Some []" "wrun ''nat_'' EDGE_METRIC (Some []) = Some []"
  "wrun ''nat_'' INFRA_METRIC (Some []) = Some []" "wrun ''nat_'' PROM_FILTER (Some []) = Some []"
  by (simp_all add: NODE_METRIC_def EDGE_METRIC_def INFRA_METRIC_def PROM_FILTER_def wrun_simps
      del: append.simps append_assoc)

lemma traffic_nat: "wrun ''nat_'' TRAFFIC_BY_MAC (Some []) = Some []"
  by (simp add: TRAFFIC_BY_MAC_def selector_def wrun_simps metric_nats del: append.simps append_assoc)

lemma expr_nats:
  "wrun ''nat_'' NODES_EXPR (Some []) = Some []" "wrun ''nat_'' EDGES_EXPR (Some []) = Some []"
  "wrun ''nat_'' NODES_RAW (Some []) = Some []" "wrun ''nat_'' EDGES_RAW (Some []) = Some []"
  "wrun ''nat_'' topo_weak_links (Some []) = Some []"
  by (simp_all add: NODES_EXPR_def EDGES_EXPR_def NODES_RAW_def EDGES_RAW_def topo_weak_links_def
      nodes_expr_def edges_expr_def prefer_authority_def infra_as_def overlay_traffic_def traffic_as_def
      selector_def Let_def wrun_simps metric_nats traffic_nat del: append.simps append_assoc)

lemma exprs_nodegraph: "panel_exprs (snd (nodegraph pid t d)) = Inr [EDGES_EXPR, NODES_EXPR]"
  by (simp add: nodegraph_def exprs_panel query_expr_simps)

lemma topo_exprs: "exprs_all no_nat (all_placements topo_tabs)"
  by (simp add: topo_tabs_def exprs_all_tabs topo_overview_def topo_topology_def topo_quality_def
      exprs_all_simps maker_exprs query_expr_simps exprs_nodegraph del: append.simps append_assoc)
    (simp add: no_nat_def topo_availability_expr_def selector_def count_nodes_def wrun_simps expr_nats
      metric_nats del: append.simps append_assoc)

lemma EXPR_parts:
  "py_in ''openwrt_topology_node'' NODES_EXPR" "py_in ''unless on(id)'' NODES_EXPR"
  "py_in ''unless on(target)'' EDGES_EXPR"
  \<open>py_in (''authority='' @ [DQ] @ ''1'' @ [DQ]) ap_count\<close>
proof -
  have "py_in ''openwrt_topology_node'' NODE_METRIC" by (simp add: NODE_METRIC_def)
  then show "py_in ''openwrt_topology_node'' NODES_EXPR" "py_in ''unless on(id)'' NODES_EXPR"
    by (simp_all add: NODES_EXPR_def nodes_expr_def overlay_traffic_def prefer_authority_def selector_def
        Let_def py_in_or del: append.simps append_assoc)
  show "py_in ''unless on(target)'' EDGES_EXPR"
    by (simp add: EDGES_EXPR_def edges_expr_def overlay_traffic_def Let_def py_in_or
        del: append.simps append_assoc)
  have \<open>ap_count = (''count('' @ NODE_METRIC @ ''{'' @ PROM_FILTER @ '', id=~"ap:.+", '') @
      (''authority='' @ [DQ] @ ''1'' @ [DQ]) @ ''}) or vector(0)''\<close>
    by (simp add: ap_count_def count_nodes_def selector_def)
  then show \<open>py_in (''authority='' @ [DQ] @ ''1'' @ [DQ]) ap_count\<close>
    by (rule ssubst) (rule py_in_append)
qed

section \<open>The dashboard\<close>

lemma list_ex_mem: "x \<in> set xs \<Longrightarrow> P x \<Longrightarrow> list_ex P xs"
  by (auto simp: list_ex_iff)

lemma topo_texts: "topo_check_text (document ''openwrt-topology'' topo_built) topo_built = Inr ()"
proof -
  have slug: "clean TOPO_NAMES ''openwrt-topology''" by (simp add: panel_text)
  have loki: "''DS_LOKI'' \<notin> set TOPO_NAMES"
    by (simp add: TOPO_NAMES_def TOPO_GLOBALS_def GLOBALS_ALLOWED_def)
  obtain es where es: "query_exprs (JDict topo_elements) = Inr es" "list_all no_nat es"
    and mem: "\<And>p es'. p \<in> set (all_placements topo_tabs) \<Longrightarrow>
      panel_exprs (snd (fst p)) = Inr es' \<Longrightarrow> set es' \<subseteq> set es"
    using query_exprs_elements [OF topo_exprs] by blast
  have "topo_topology ! 0 \<in> set (all_placements topo_tabs)"
    by (simp add: topo_tabs_def all_placements_def topo_topology_def)
  moreover have "panel_exprs (snd (fst (topo_topology ! 0))) = Inr [EDGES_EXPR, NODES_EXPR]"
    by (simp add: topo_topology_def exprs_nodegraph)
  ultimately have "set [EDGES_EXPR, NODES_EXPR] \<subseteq> set es" by (rule mem)
  then have graph: "NODES_EXPR \<in> set es" "EDGES_EXPR \<in> set es" by auto
  have "topo_overview ! 5 \<in> set topo_overview" by (rule nth_mem) (simp add: topo_overview_def)
  then have "topo_overview ! 5 \<in> set (all_placements topo_tabs)"
    by (simp add: topo_tabs_def all_placements_def)
  moreover have "panel_exprs (snd (fst (topo_overview ! 5))) = Inr [ap_count]"
    by (simp add: topo_overview_def maker_exprs ap_count_def)
  ultimately have "set [ap_count] \<subseteq> set es" by (rule mem)
  then have ap: "ap_count \<in> set es" by auto
  have "none_has ''node_nat_traffic'' es = Inr ()"
    using es(2) no_nat_word by (auto simp: none_has_def list_all_iff list_ex_iff ensure_Inr_iff)
  moreover have "any_has w (iter_strings topo_built) = Inr ()" if "py_in w ap_count" for w
    using list_ex_mem [OF topo_string, of "py_in w"] that by (simp add: any_has_def)
  moreover have "list_ex (\<lambda>e. py_in ''openwrt_topology_node'' e \<and> py_in ''unless on(id)'' e) es"
    using graph(1) EXPR_parts by (intro list_ex_mem) auto
  moreover have "list_ex (py_in (''authority='' @ [DQ] @ ''1'' @ [DQ])) es"
    using ap EXPR_parts by (intro list_ex_mem)
  moreover have "list_ex (py_in ''unless on(target)'') es" using graph(2) EXPR_parts by (intro list_ex_mem)
  moreover note document_lacks [OF topo_text slug] document_lacks_var [OF topo_text loki slug]
    document_has [OF topo_PROM_DS] topo_spec_parts(1) es(1) ap_count_parts
  ultimately show ?thesis
    unfolding topo_check_text_def Let_def by (simp only: bindR.simps document_no_uid escape_DS ensure_True)
qed

lemma topo_valid: "topo_validate_dashboard (topo_dashboard topo_built) = Inr ()"
proof -
  have "check_header (document ''openwrt-topology'' topo_built) ''openwrt-topology'' = Inr ()"
    by (rule document_header)
  then show ?thesis
    unfolding topo_validate_dashboard_def topo_document
    by (simp only: bindR.simps document_spec topo_spec_parts ensure_True tables_refs [OF topo_tables]
        topo_panels tables_grid [OF topo_tables] topo_vars topo_texts refl)
qed

lemma topo_build: "topo_build_dashboard = Inr (topo_dashboard topo_built)"
  by (simp add: topo_build_dashboard_def tables_build [OF topo_tables] topo_valid Let_def)

end
