(* ===== verification/Advanced_Built.thy ===== *)
theory Advanced_Built
  imports Document
begin

text \<open>
  The generator of the optional-profile dashboard returns: its tables are good, and every assertion
  of its own validator holds.
\<close>

section \<open>Texts\<close>

definition ADV_NAMES :: "string list" where
  "ADV_NAMES = [''DS_PROMETHEUS'', ''router'', ''device''] @ GLOBALS_ALLOWED"

lemma adv_names [simp]:
  "''DS_PROMETHEUS'' \<in> set ADV_NAMES" "''router'' \<in> set ADV_NAMES" "''device'' \<in> set ADV_NAMES"
  "''__all'' \<in> set ADV_NAMES" "''__rate_interval'' \<in> set ADV_NAMES"
  by (simp_all add: ADV_NAMES_def GLOBALS_ALLOWED_def)

lemma device_filter [panel_text]:
  "run ADV_NAMES DEVICE_FILTER c0 = c0"
  by (simp add: DEVICE_FILTER_def panel_text del: append.simps append_assoc)

lemma good_availability [good_panels]:
  assumes "clean ADV_NAMES t" "run ADV_NAMES m c0 = c0" "clean ADV_NAMES d" "run ADV_NAMES c c0 = c0"
  shows "good_panel ADV_NAMES u (availability pid t m d c)"
  using assms by (cases c) (simp_all add: availability_def Let_def good_panels panel_text
      del: append.simps append_assoc)

lemma adv_good_overview: "list_all (\<lambda>p. good_panel ADV_NAMES [''text'', ''logs''] (fst p)) adv_overview"
  by (simp add: adv_overview_def good_panels panel_text del: append.simps append_assoc)

lemma good_traffic: "list_all (\<lambda>p. good_panel ADV_NAMES [''text'', ''logs''] (fst p)) adv_traffic"
  by (simp add: adv_traffic_def good_panels panel_text del: append.simps append_assoc)

lemma adv_good_wifi: "list_all (\<lambda>p. good_panel ADV_NAMES [''text'', ''logs''] (fst p)) adv_wifi"
  by (simp add: adv_wifi_def good_panels panel_text del: append.simps append_assoc)

lemma good_dpi: "list_all (\<lambda>p. good_panel ADV_NAMES [''text'', ''logs''] (fst p)) adv_dpi"
  by (simp add: adv_dpi_def good_panels panel_text del: append.simps append_assoc)

section \<open>Geometry\<close>

definition adv_ids :: "int list" where
  "adv_ids = [1, 2, 3, 4, 5, 6, 7, 8, 9, 100, 101, 102, 103, 104, 105, 106, 107,
     200, 201, 202, 203, 204, 205, 206, 207, 208, 209,
     300, 301, 302, 303, 304, 305, 306, 307, 308, 309, 310, 311, 312]"

lemma key_availability: "fst (availability pid t m d c) = panel_key pid"
  by (simp add: availability_def Let_def maker_keys)

lemma adv_keys: "keys (all_placements adv_tabs) = map panel_key adv_ids"
  by (simp add: adv_tabs_def keys_tabs) (simp add: keys_def adv_ids_def adv_overview_def adv_traffic_def
      adv_wifi_def adv_dpi_def maker_keys key_availability)

lemma adv_geometry: "list_all (\<lambda>t. placements_ok (snd t)) adv_tabs"
  by (simp add: adv_tabs_def adv_overview_def adv_traffic_def adv_wifi_def adv_dpi_def geometry key_availability)

lemma adv_tables: "tables_ok ADV_NAMES [''text'', ''logs''] ADV_TABS adv_ids adv_tabs"
  unfolding tables_ok_def
  using adv_geometry adv_good_overview good_traffic adv_good_wifi good_dpi
  by (simp add: adv_keys del: list.map)
    (simp add: adv_tabs_def list_all_placements ADV_TABS_def adv_ids_def panel_text)

section \<open>The specification\<close>

abbreviation adv_elements :: "item list" where "adv_elements \<equiv> elements_of adv_tabs"

abbreviation adv_built :: json where "adv_built \<equiv> adv_spec adv_elements (map tab_of adv_tabs)"

lemma adv_document: "adv_dashboard spec = document ''openwrt-advanced'' spec"
  by (simp add: adv_dashboard_def document_def DASHBOARD_API_def)

lemma adv_spec_parts:
  "jget adv_built ''elements'' = Inr (JDict adv_elements)"
  "jget adv_built ''layout'' = Inr (layout_of adv_tabs)"
  "check_field adv_built [''title''] ''OpenWrt - Advanced Monitoring'' = Inr ()"
  "tab_titles adv_built = Inr ADV_TABS"
  "variable_names adv_built = Inr [''DS_PROMETHEUS'', ''router'', ''device'']"
  "bindR (jpath (layout_of adv_tabs) [''spec'', ''tabs'']) jlist = Inr (map tab_of adv_tabs)"
proof -
  have "tab_titles adv_built = Inr (map fst adv_tabs)"
    by (rule tab_titles_of) (simp add: adv_spec_def)
  then show "tab_titles adv_built = Inr ADV_TABS" by (simp add: adv_tabs_def ADV_TABS_def)
qed (simp_all add: adv_spec_def layout_of_def layout_json_def check_field_def variable_names_def
      adv_variables_def datasource_var_def query_var_def)

lemma adv_text: "text_clean ADV_NAMES adv_built"
  using tables_text [OF adv_tables]
  by (simp add: adv_spec_def adv_variables_def panel_text layout_of_def layout_json_def
      del: append.simps append_assoc)

lemma iter_adv: "s \<in> set (iter_strings (JDict adv_elements)) \<Longrightarrow> s \<in> set (iter_strings adv_built)"
  by (simp add: adv_spec_def)

text \<open>One expression, which uses both variables.\<close>

definition series_count :: string where
  "series_count = ''count(openwrt_device_traffic_bytes_total{'' @ DEVICE_FILTER @ ''}) or vector(0)''"

lemma adv_strings: "series_count \<in> set (iter_strings adv_built)" "PROM_DS \<in> set (iter_strings adv_built)"
proof -
  have "\<exists>pid t u d a. fst (adv_traffic ! 4) = stat pid t series_count u d a"
    by (intro exI) (simp add: adv_traffic_def series_count_def)
  moreover have "(''Device Traffic'', adv_traffic) \<in> set adv_tabs" by (simp add: adv_tabs_def)
  moreover have "4 < length adv_traffic" by (simp add: adv_traffic_def)
  ultimately show "series_count \<in> set (iter_strings adv_built)" "PROM_DS \<in> set (iter_strings adv_built)"
    by (blast intro: iter_adv stat_string)+
qed

lemma series_count_vars: "var_occurs ''router'' series_count" "var_occurs ''device'' series_count"
proof -
  have \<open>series_count = ''count(openwrt_device_traffic_bytes_total{'' @ PROM_FILTER @
      ('', device=~"$device"'' @ ''}) or vector(0)'')\<close>
    by (simp add: series_count_def DEVICE_FILTER_def)
  then show "var_occurs ''router'' series_count" using PROM_FILTER_parts(1) by (rule ssubst)
  have \<open>series_count = (''count(openwrt_device_traffic_bytes_total{'' @ PROM_FILTER @ '', device=~"'') @
      ''$'' @ ''device'' @ DQ # ''}) or vector(0)''\<close>
    by (simp add: series_count_def DEVICE_FILTER_def)
  moreover have "whole_name ''device'' (DQ # ''}) or vector(0)'')" by (simp add: name_defs)
  note var_occurs_at [OF this]
  ultimately show "var_occurs ''device'' series_count" by (rule ssubst)
qed

lemma adv_vars: "adv_check_vars adv_built = Inr ()"
  unfolding adv_check_vars_iff
proof (rule check_vars_clean [OF adv_spec_parts(5)])
  show "text_clean ([''DS_PROMETHEUS'', ''router'', ''device''] @ GLOBALS_ALLOWED) adv_built"
    using adv_text by (simp add: ADV_NAMES_def)
  show "set [''DS_PROMETHEUS'', ''router'', ''device''] \<subseteq>
      set (referenced_vars adv_built) \<union> set [''DS_PROMETHEUS'']"
    using referenced [OF adv_strings(1)] series_count_vars by simp
qed

section \<open>The dashboard\<close>

lemma adv_valid: "adv_validate_dashboard (adv_dashboard adv_built) = Inr ()"
proof -
  let ?d = "document ''openwrt-advanced'' adv_built"
  have slug: "clean ADV_NAMES ''openwrt-advanced''" by (simp add: panel_text)
  obtain pids where ids: "foldR adv_check_panel [] adv_elements = Inr pids" "distinct pids"
    using tables_panel_fold [OF adv_tables] adv_panel_fold by metis
  have refs: "adv_check_refs (layout_of adv_tabs) (JDict adv_elements) = Inr ()"
    using tables_refs [OF adv_tables] by (simp add: adv_check_refs_iff)
  have tabs: "allR adv_check_tab (map tab_of adv_tabs) = Inr ()"
    using adv_geometry by (simp add: allR_Inr_iff adv_check_tab_built list_all_iff)
  have "check_header ?d ''openwrt-advanced'' = Inr ()" by (rule document_header)
  then show ?thesis
    unfolding adv_validate_dashboard_def Let_def adv_document
    by (simp only: bindR.simps document_spec adv_spec_parts ensure_True refs jitems.simps ids tabs adv_vars
        document_lacks [OF adv_text slug] document_has [OF adv_strings(2) escape_DS(1)] refl)
qed

lemma adv_build: "adv_build_dashboard = Inr (adv_dashboard adv_built)"
  by (simp add: adv_build_dashboard_def tables_build [OF adv_tables] adv_valid Let_def)

end
