(* ===== verification/Ops_Built.thy ===== *)
theory Ops_Built
  imports Document
begin

text \<open>
  The operations generator returns a dashboard: its 116 panels are good, and every assertion of its
  validator holds.
\<close>

section \<open>Texts\<close>

definition OPS_NAMES :: "string list" where
  "OPS_NAMES = [''DS_PROMETHEUS'', ''DS_LOKI'', ''router'', ''wan_interface'', ''lan_interface'', ''wifi_ap'',
     ''vpn_interface''] @ GLOBALS_ALLOWED"

lemma ops_names [simp]:
  "''DS_PROMETHEUS'' \<in> set OPS_NAMES" "''DS_LOKI'' \<in> set OPS_NAMES" "''router'' \<in> set OPS_NAMES"
  "''wan_interface'' \<in> set OPS_NAMES" "''lan_interface'' \<in> set OPS_NAMES" "''wifi_ap'' \<in> set OPS_NAMES"
  "''vpn_interface'' \<in> set OPS_NAMES" "''__all'' \<in> set OPS_NAMES" "''__rate_interval'' \<in> set OPS_NAMES"
  "''__range'' \<in> set OPS_NAMES" "''__auto'' \<in> set OPS_NAMES"
  by (simp_all add: OPS_NAMES_def GLOBALS_ALLOWED_def)

lemma rate_runs [panel_text]:
  "run OPS_NAMES ops_DL c0 = c0" "run OPS_NAMES ops_UL c0 = c0" "run OPS_NAMES ops_TOTAL_RATE c0 = c0"
  by (simp_all add: ops_DL_def ops_UL_def ops_TOTAL_RATE_def panel_text del: append.simps append_assoc)

text \<open>The two totals replace a part of a rate expression.\<close>

lemma total_runs [panel_text]:
  "run OPS_NAMES (py_replace ''sum by(device) '' ''sum '' ops_DL) c0 = c0"
  "run OPS_NAMES (py_replace ''sum by(device) '' ''sum '' ops_UL) c0 = c0"
  by code_simp+

lemma rate_clean [panel_text]:
  "clean OPS_NAMES ops_DL" "clean OPS_NAMES ops_UL" "clean OPS_NAMES ops_TOTAL_RATE"
  by (simp_all add: clean_run rate_runs)

lemma ops_good_overview: "list_all (\<lambda>p. good_panel OPS_NAMES [''text'', ''logs''] (fst p)) ops_overview"
  by (simp add: ops_overview_def good_panels panel_text del: append.simps append_assoc)

lemma good_wan: "list_all (\<lambda>p. good_panel OPS_NAMES [''text'', ''logs''] (fst p)) ops_wan"
  by (simp add: ops_wan_def good_panels panel_text del: append.simps append_assoc)

lemma ops_good_wifi: "list_all (\<lambda>p. good_panel OPS_NAMES [''text'', ''logs''] (fst p)) ops_wifi"
  by (simp add: ops_wifi_def good_panels panel_text del: append.simps append_assoc)

lemma good_lan: "list_all (\<lambda>p. good_panel OPS_NAMES [''text'', ''logs''] (fst p)) ops_lan"
  by (simp add: ops_lan_def good_panels panel_text del: append.simps append_assoc)

lemma good_clients: "list_all (\<lambda>p. good_panel OPS_NAMES [''text'', ''logs''] (fst p)) ops_clients"
  by (simp add: ops_clients_def good_panels panel_text del: append.simps append_assoc)

lemma good_dns: "list_all (\<lambda>p. good_panel OPS_NAMES [''text'', ''logs''] (fst p)) ops_dns"
  by (simp add: ops_dns_def good_panels panel_text del: append.simps append_assoc)

lemma good_health: "list_all (\<lambda>p. good_panel OPS_NAMES [''text'', ''logs''] (fst p)) ops_health"
  by (simp add: ops_health_def good_panels panel_text del: append.simps append_assoc)

lemma good_logs: "list_all (\<lambda>p. good_panel OPS_NAMES [''text'', ''logs''] (fst p)) ops_logs"
  by (simp add: ops_logs_def good_panels panel_text del: append.simps append_assoc)

text \<open>The optional panels, which a comprehension lists with their positions.\<close>

lemma zip6:
  "zip (map int [0..<length [a, b, c, d, e, f]]) [a, b, c, d, e, f] =
     [(0, a), (1, b), (2, c), (3, d), (4, e), (5, f)]"
  by (simp add: upt_rec)

lemmas ops_opt_unfold = ops_opt_def ops_optionals_def zip6

lemma good_opt: "list_all (\<lambda>p. good_panel OPS_NAMES [''text'', ''logs''] (fst p)) ops_opt"
  unfolding ops_opt_unfold by (simp add: good_panels panel_text del: append.simps append_assoc)

section \<open>Geometry\<close>

definition ops_ids :: "int list" where
  "ops_ids = [1, 2, 3, 4, 5, 6, 7, 8, 9, 10, 100, 101, 102, 103, 104, 109, 105, 106, 107, 108, 200, 201,
     202, 203, 204, 205, 206, 207, 208, 300, 301, 302, 303, 304, 305, 306, 307, 308, 309,
     310, 800, 801, 802, 803, 804, 805, 806, 807, 808, 809, 811, 812, 700, 701, 702, 703,
     704, 705, 706, 707, 708, 709, 710, 400, 401, 402, 403, 404, 405, 406, 407, 408, 409,
     410, 411, 412, 413, 414, 415, 416, 417, 418, 419, 420, 500, 501, 502, 503, 504, 505,
     506, 507, 508, 509, 510, 511, 512, 600, 601, 602, 603, 604, 605, 606, 607, 608, 613,
     609, 610, 611, 614, 615, 616, 617, 618, 612]"

lemmas ops_tab_defs = ops_overview_def ops_wan_def ops_wifi_def ops_lan_def ops_clients_def ops_dns_def
  ops_health_def ops_logs_def ops_opt_unfold

lemma ops_keys: "keys (all_placements ops_tabs) = map panel_key ops_ids"
  by (simp add: ops_tabs_def keys_tabs) (simp add: keys_def ops_ids_def ops_tab_defs maker_keys)

lemma ops_geometry: "list_all (\<lambda>t. placements_ok (snd t)) ops_tabs"
  by (simp add: ops_tabs_def ops_tab_defs geometry)

lemma ops_ids_ok: "list_all (\<lambda>i. 0 \<le> i) ops_ids" "distinct ops_ids"
  by (simp_all add: ops_ids_def)

lemma ops_tables: "tables_ok OPS_NAMES [''text'', ''logs''] OPS_TABS ops_ids ops_tabs"
  unfolding tables_ok_def
  using ops_geometry ops_good_overview good_wan ops_good_wifi good_lan good_clients good_dns good_health good_logs good_opt ops_ids_ok
  by (simp add: ops_keys del: list.map)
    (simp add: ops_tabs_def list_all_placements OPS_TABS_def panel_text)

section \<open>The specification\<close>

abbreviation ops_elements :: "item list" where "ops_elements \<equiv> elements_of ops_tabs"

abbreviation ops_built :: json where "ops_built \<equiv> ops_spec ops_elements (map tab_of ops_tabs)"

lemma ops_document: "ops_dashboard spec = document ''openwrt-operations'' spec"
  by (simp add: ops_dashboard_def document_def DASHBOARD_API_def)

lemma ops_spec_parts:
  "jget ops_built ''elements'' = Inr (JDict ops_elements)"
  "jget ops_built ''layout'' = Inr (layout_of ops_tabs)"
  "check_field ops_built [''title''] (''OpenWrt '' @ [CHR 0xE2, CHR 0x80, CHR 0x94] @ '' Operations'') = Inr ()"
  "check_field ops_built [''layout'', ''kind''] ''TabsLayout'' = Inr ()"
  "tab_titles ops_built = Inr OPS_TABS"
  "variable_names ops_built = Inr [''DS_PROMETHEUS'', ''DS_LOKI'', ''router'', ''wan_interface'',
     ''lan_interface'', ''wifi_ap'', ''vpn_interface'']"
proof -
  have "tab_titles ops_built = Inr (map fst ops_tabs)"
    by (rule tab_titles_of) (simp add: ops_spec_def)
  then show "tab_titles ops_built = Inr OPS_TABS" by (simp add: ops_tabs_def OPS_TABS_def)
qed (simp_all add: ops_spec_def layout_of_def layout_json_def check_field_def variable_names_def
      ops_variables_def datasource_var_def query_var_def)

lemma ops_text: "text_clean OPS_NAMES ops_built"
  using tables_text [OF ops_tables]
  by (simp add: ops_spec_def ops_variables_def panel_text layout_of_def layout_json_def
      del: append.simps append_assoc)

lemma iter_ops: "s \<in> set (iter_strings (JDict ops_elements)) \<Longrightarrow> s \<in> set (iter_strings ops_built)"
  by (simp add: ops_spec_def)

text \<open>Expressions that use the variables, where they stand.\<close>

definition wan_rate :: string where
  \<open>wan_rate = ''rate(node_network_receive_bytes_total{'' @ PROM_FILTER @
     '', device="$wan_interface"}[$__rate_interval])''\<close>

definition lan_rate :: string where
  \<open>lan_rate = ''rate(node_network_receive_bytes_total{'' @ PROM_FILTER @
     '', device="$lan_interface"}[$__rate_interval])''\<close>

definition ap_rate :: string where
  \<open>ap_rate = ''rate(node_network_receive_bytes_total{'' @ PROM_FILTER @
     '', device=~"$wifi_ap"}[$__rate_interval])''\<close>

definition vpn_present :: string where
  \<open>vpn_present = ''max(present_over_time(node_network_receive_bytes_total{'' @ PROM_FILTER @
     '', device="$vpn_interface"}[$__range])) or vector(0)''\<close>

definition log_stream :: string where
  "log_stream = ''{'' @ LOKI_FILTER @ ''}''"

lemma wan_string: "wan_rate \<in> set (iter_strings ops_built)"
proof -
  have "\<exists>pid t l r f i qs u d a. fst (ops_wan ! 1) = timeseries pid t (prom_query wan_rate l r f i # qs) u d a"
    by (intro exI) (simp add: ops_wan_def wan_rate_def)
  moreover have "(''WAN & Internet'', ops_wan) \<in> set ops_tabs" by (simp add: ops_tabs_def)
  moreover have "1 < length ops_wan" by (simp add: ops_wan_def)
  ultimately show "wan_rate \<in> set (iter_strings ops_built)"
    by (blast intro: iter_ops timeseries_string)
qed

lemma lan_string: "lan_rate \<in> set (iter_strings ops_built)"
proof -
  have "\<exists>pid t l r f i qs u d a. fst (ops_lan ! 5) = timeseries pid t (prom_query lan_rate l r f i # qs) u d a"
    by (intro exI) (simp add: ops_lan_def lan_rate_def)
  moreover have "(''LAN, NAT & Devices'', ops_lan) \<in> set ops_tabs" by (simp add: ops_tabs_def)
  moreover have "5 < length ops_lan" by (simp add: ops_lan_def)
  ultimately show "lan_rate \<in> set (iter_strings ops_built)"
    by (blast intro: iter_ops timeseries_string)
qed

lemma ap_string: "ap_rate \<in> set (iter_strings ops_built)"
proof -
  have "\<exists>pid t l r f i qs u d a. fst (ops_wifi ! 1) = timeseries pid t (prom_query ap_rate l r f i # qs) u d a"
    by (intro exI) (simp add: ops_wifi_def ap_rate_def)
  moreover have "(''WiFi & Clients'', ops_wifi) \<in> set ops_tabs" by (simp add: ops_tabs_def)
  moreover have "1 < length ops_wifi" by (simp add: ops_wifi_def)
  ultimately show "ap_rate \<in> set (iter_strings ops_built)"
    by (blast intro: iter_ops timeseries_string)
qed

lemma vpn_string: "vpn_present \<in> set (iter_strings ops_built)"
  and ops_PROM_DS: "PROM_DS \<in> set (iter_strings ops_built)"
proof -
  have "\<exists>pid t u d a. fst (ops_opt ! 5) = stat pid t vpn_present u d a"
    by (intro exI) (simp add: ops_opt_unfold vpn_present_def)
  moreover have "(''Optional & Diagnostics'', ops_opt) \<in> set ops_tabs" by (simp add: ops_tabs_def)
  moreover have "5 < length ops_opt" by (simp add: ops_opt_unfold)
  ultimately show "vpn_present \<in> set (iter_strings ops_built)" "PROM_DS \<in> set (iter_strings ops_built)"
    by (blast intro: iter_ops stat_string)+
qed

lemma log_string: "log_stream \<in> set (iter_strings ops_built)"
  and ops_LOKI_DS: "LOKI_DS \<in> set (iter_strings ops_built)"
proof -
  have "\<exists>pid t d. fst (ops_logs ! 8) = logs_panel pid t log_stream d"
    by (intro exI) (simp add: ops_logs_def log_stream_def)
  moreover have "(''Logs & Security'', ops_logs) \<in> set ops_tabs" by (simp add: ops_tabs_def)
  moreover have "8 < length ops_logs" by (simp add: ops_logs_def)
  ultimately show "log_stream \<in> set (iter_strings ops_built)" "LOKI_DS \<in> set (iter_strings ops_built)"
    by (blast intro: iter_ops logs_string)+
qed

lemma ops_vars_occur:
  "var_occurs ''router'' wan_rate" "var_occurs ''wan_interface'' wan_rate" "var_occurs ''lan_interface'' lan_rate"
  "var_occurs ''wifi_ap'' ap_rate" "var_occurs ''vpn_interface'' vpn_present"
proof -
  have e: \<open>wan_rate = (''rate(node_network_receive_bytes_total{'' @ PROM_FILTER @ '', device="'') @ ''$'' @
      ''wan_interface'' @ DQ # ''}[$__rate_interval])''\<close>
    \<open>wan_rate = ''rate(node_network_receive_bytes_total{'' @ PROM_FILTER @
      '', device="$wan_interface"}[$__rate_interval])''\<close>
    \<open>lan_rate = (''rate(node_network_receive_bytes_total{'' @ PROM_FILTER @ '', device="'') @ ''$'' @
      ''lan_interface'' @ DQ # ''}[$__rate_interval])''\<close>
    \<open>ap_rate = (''rate(node_network_receive_bytes_total{'' @ PROM_FILTER @ '', device=~"'') @ ''$'' @
      ''wifi_ap'' @ DQ # ''}[$__rate_interval])''\<close>
    \<open>vpn_present = (''max(present_over_time(node_network_receive_bytes_total{'' @ PROM_FILTER @
      '', device="'') @ ''$'' @ ''vpn_interface'' @ DQ # ''}[$__range])) or vector(0)''\<close>
    by (simp_all add: wan_rate_def lan_rate_def ap_rate_def vpn_present_def)
  have w: "whole_name ''wan_interface'' (DQ # b)" "whole_name ''lan_interface'' (DQ # b)"
    "whole_name ''wifi_ap'' (DQ # b)" "whole_name ''vpn_interface'' (DQ # b)" for b
    by (simp_all add: name_defs)
  show "var_occurs ''router'' wan_rate" unfolding e(2) by (rule PROM_FILTER_parts)
  show "var_occurs ''wan_interface'' wan_rate" unfolding e(1) by (rule var_occurs_at [OF w(1)])
  show "var_occurs ''lan_interface'' lan_rate" unfolding e(3) by (rule var_occurs_at [OF w(2)])
  show "var_occurs ''wifi_ap'' ap_rate" unfolding e(4) by (rule var_occurs_at [OF w(3)])
  show "var_occurs ''vpn_interface'' vpn_present" unfolding e(5) by (rule var_occurs_at [OF w(4)])
qed

lemma ops_vars: "check_vars GLOBALS_ALLOWED [''DS_PROMETHEUS'', ''DS_LOKI''] ops_built = Inr ()"
proof (rule check_vars_clean [OF ops_spec_parts(6)])
  show "text_clean ([''DS_PROMETHEUS'', ''DS_LOKI'', ''router'', ''wan_interface'', ''lan_interface'',
      ''wifi_ap'', ''vpn_interface''] @ GLOBALS_ALLOWED) ops_built"
    using ops_text by (simp add: OPS_NAMES_def)
  show "set [''DS_PROMETHEUS'', ''DS_LOKI'', ''router'', ''wan_interface'', ''lan_interface'', ''wifi_ap'',
      ''vpn_interface''] \<subseteq> set (referenced_vars ops_built) \<union> set [''DS_PROMETHEUS'', ''DS_LOKI'']"
    using referenced [OF wan_string] referenced [OF lan_string] referenced [OF ap_string]
      referenced [OF vpn_string] ops_vars_occur by simp
qed

section \<open>The dashboard\<close>

lemma ops_valid: "ops_validate_dashboard (ops_dashboard ops_built) = Inr ()"
proof -
  let ?d = "document ''openwrt-operations'' ops_built"
  have slug: "clean OPS_NAMES ''openwrt-operations''" by (simp add: panel_text)
  have "check_header ?d ''openwrt-operations'' = Inr ()" by (rule document_header)
  then show ?thesis
    unfolding ops_validate_dashboard_def Let_def ops_document
    by (simp only: bindR.simps document_spec ops_spec_parts ensure_True tables_refs [OF ops_tables]
        tables_panels [OF ops_tables] tables_grid [OF ops_tables] ops_vars document_no_uid
        document_lacks [OF ops_text slug] document_has [OF ops_PROM_DS escape_DS(1)]
        document_has [OF ops_LOKI_DS escape_DS(2)] refl)
qed

lemma ops_build: "ops_build_dashboard = Inr (ops_dashboard ops_built)"
  by (simp add: ops_build_dashboard_def tables_build [OF ops_tables] ops_valid Let_def)

end
