(* ===== verification/Clients_Built.thy ===== *)
theory Clients_Built
  imports Document
begin

text \<open>
  The client generator returns a dashboard: its tables are good, no expression uses the two metrics
  that flow offload makes meaningless, and every other assertion of its validator holds.
\<close>

section \<open>Lowering the case of a label\<close>

text \<open>The expression is wrapped 72 times; a text the automaton passes unchanged stays such a text.\<close>

definition letter_pairs :: "(string \<times> string) list" where
  "letter_pairs = [(''A'', ''a''), (''B'', ''b''), (''C'', ''c''), (''D'', ''d''), (''E'', ''e''), (''F'', ''f'')]"

lemma fold_lowercase:
  assumes "fold f e st = st"
    and "\<And>p x. p \<in> set letter_pairs \<Longrightarrow> fold f x st = st \<Longrightarrow> fold f (lowercase_once l p x) st = st"
  shows "fold f (lowercase_mac_label e l) st = st"
proof -
  have pow: "fold f (((lowercase_once l p) ^^ n) x) st = st" if "p \<in> set letter_pairs" "fold f x st = st" for p n x
    using assms(2) that by (induction n) auto
  have all: "fold f (fold (\<lambda>p lowered. ((lowercase_once l p) ^^ 12) lowered) ps x) st = st"
    if "set ps \<subseteq> set letter_pairs" "fold f x st = st" for ps x
    using that pow by (induction ps arbitrary: x) (auto simp del: funpow.simps)
  show ?thesis using all [of letter_pairs e] assms(1)
    by (simp only: lowercase_mac_label_def letter_pairs_def subset_refl)
qed

section \<open>Texts\<close>

definition CLI_NAMES :: "string list" where
  "CLI_NAMES = [''DS_PROMETHEUS'', ''DS_LOKI'', ''router'', ''connection'', ''network'', ''mac''] @ GLOBALS_ALLOWED"

lemma cli_names [simp]:
  "''DS_PROMETHEUS'' \<in> set CLI_NAMES" "''DS_LOKI'' \<in> set CLI_NAMES" "''router'' \<in> set CLI_NAMES"
  "''connection'' \<in> set CLI_NAMES" "''network'' \<in> set CLI_NAMES" "''mac'' \<in> set CLI_NAMES"
  "''__all'' \<in> set CLI_NAMES" "''__rate_interval'' \<in> set CLI_NAMES" "''__range'' \<in> set CLI_NAMES"
  by (simp_all add: CLI_NAMES_def GLOBALS_ALLOWED_def)

lemma filter_runs [panel_text]:
  "run CLI_NAMES CLIENT_FILTER c0 = c0" "run CLI_NAMES WIFI_CLIENT_FILTER c0 = c0"
  by (simp_all add: CLIENT_FILTER_def WIFI_CLIENT_FILTER_def panel_text del: append.simps append_assoc)

lemma mapping_texts [panel_text]:
  "list_all (text_clean ok) CLIENT_STATUS_MAPPINGS" "list_all (text_clean ok) TRUNCATION_MAPPINGS"
  "list_all (text_clean ok) OFFLOAD_MAPPINGS" "list_all (text_clean ok) TRAFFIC_STATE_MAPPINGS"
  "list_all (text_clean ok) CONNTRACK_STATE_MAPPINGS" "list_all (text_clean ok) IPV6_MAPPINGS"
  "list_all (text_clean ok) LOCAL_MAC_MAPPINGS"
  by (simp_all add: CLIENT_STATUS_MAPPINGS_def TRUNCATION_MAPPINGS_def OFFLOAD_MAPPINGS_def
      TRAFFIC_STATE_MAPPINGS_def CONNTRACK_STATE_MAPPINGS_def IPV6_MAPPINGS_def LOCAL_MAC_MAPPINGS_def
      panel_text del: append.simps append_assoc)

lemma override_texts [panel_text]:
  "clean ok n \<Longrightarrow> list_all (text_clean ok) ps \<Longrightarrow> text_clean ok (cli_field_override n ps)"
  "clean ok n \<Longrightarrow> list_all (text_clean ok) ps \<Longrightarrow> text_clean ok (regexp_override n ps)"
  by (simp_all add: cli_field_override_def regexp_override_def panel_text)

text \<open>The groups \<open>${1}\<close> and \<open>${2}\<close> of a replacement are no variables.\<close>

lemma run_group [panel_text]:
  "run ok (CHR ''1'' # s) (Brace, Some []) = run ok s c0" "run ok (CHR ''2'' # s) (Brace, Some []) = run ok s c0"
  by (simp_all add: run_def c0_def ident_start_def is_upper_def is_lower_def code_def)

lemma lowercase_once_run:
  "p \<in> set letter_pairs \<Longrightarrow> run CLI_NAMES x c0 = c0 \<Longrightarrow> run CLI_NAMES (lowercase_once ''mac'' p x) c0 = c0"
  by (auto simp: letter_pairs_def lowercase_once_def panel_text simp del: append.simps append_assoc)

lemma lowercase_run [panel_text]:
  "run CLI_NAMES e c0 = c0 \<Longrightarrow> run CLI_NAMES (lowercase_mac_label e ''mac'') c0 = c0"
  unfolding run_def by (intro fold_lowercase lowercase_once_run [unfolded run_def])

lemma signal_runs [panel_text]:
  "run CLI_NAMES HOSTAPD_SIGNAL c0 = c0" "run CLI_NAMES CLIENT_WIFI_SIGNAL c0 = c0"
  by (simp_all add: HOSTAPD_SIGNAL_def CLIENT_WIFI_SIGNAL_def panel_text del: append.simps append_assoc)

lemma cli_expr_runs [panel_text]:
  "run CLI_NAMES CLIENT_WIFI_SIGNAL_RAW c0 = c0" "run CLI_NAMES WIFI_SIGNAL_BY_MAC c0 = c0"
  "run CLI_NAMES FLOW_OFFLOAD_ENABLED c0 = c0" "run CLI_NAMES TRAFFIC_AVAILABLE c0 = c0"
  "run CLI_NAMES TRAFFIC_ACCOUNTING_STATE c0 = c0" "run CLI_NAMES CONNTRACK_AVAILABLE c0 = c0"
  "run CLI_NAMES CONNTRACK_STATE c0 = c0" "run CLI_NAMES ASSOC_EVENTS_AVAILABLE c0 = c0"
  "run CLI_NAMES TRAFFIC_IN c0 = c0" "run CLI_NAMES TRAFFIC_OUT c0 = c0" "run CLI_NAMES TRAFFIC_SERVICE c0 = c0"
  by (simp_all add: CLIENT_WIFI_SIGNAL_RAW_def WIFI_SIGNAL_BY_MAC_def FLOW_OFFLOAD_ENABLED_def
      TRAFFIC_AVAILABLE_def TRAFFIC_ACCOUNTING_STATE_def CONNTRACK_AVAILABLE_def CONNTRACK_STATE_def
      ASSOC_EVENTS_AVAILABLE_def TRAFFIC_IN_def TRAFFIC_OUT_def TRAFFIC_SERVICE_def trusted_traffic_def
      panel_text del: append.simps append_assoc)

lemma cli_expr_clean [panel_text]:
  "clean CLI_NAMES WIFI_SIGNAL_BY_MAC" "clean CLI_NAMES TRAFFIC_AVAILABLE"
  "clean CLI_NAMES TRAFFIC_ACCOUNTING_STATE" "clean CLI_NAMES CONNTRACK_STATE"
  "clean CLI_NAMES ASSOC_EVENTS_AVAILABLE" "clean CLI_NAMES TRAFFIC_SERVICE"
  "clean CLI_NAMES TRAFFIC_IN" "clean CLI_NAMES TRAFFIC_OUT" "clean CLI_NAMES CLIENT_WIFI_SIGNAL_RAW"
  "clean CLI_NAMES FLOW_OFFLOAD_ENABLED"
  by (simp_all add: clean_run cli_expr_runs)

lemmas cli_expr_defs = trusted_conntrack_def trusted_traffic_def cli_availability_expr_def

lemma cli_good_overview: "list_all (\<lambda>p. good_panel CLI_NAMES [''text''] (fst p)) cli_overview"
  by (simp add: cli_overview_def good_panels panel_text cli_expr_defs del: append.simps append_assoc)

lemma cli_good_clients: "list_all (\<lambda>p. good_panel CLI_NAMES [''text''] (fst p)) cli_clients"
  by (simp add: cli_clients_def good_panels panel_text cli_expr_defs del: append.simps append_assoc)

lemma cli_good_traffic: "list_all (\<lambda>p. good_panel CLI_NAMES [''text''] (fst p)) cli_traffic"
  by (simp add: cli_traffic_def good_panels panel_text cli_expr_defs del: append.simps append_assoc)

lemma cli_good_quality: "list_all (\<lambda>p. good_panel CLI_NAMES [''text''] (fst p)) cli_quality"
  by (simp add: cli_quality_def good_panels panel_text cli_expr_defs del: append.simps append_assoc)

lemma cli_good_roaming: "list_all (\<lambda>p. good_panel CLI_NAMES [''text''] (fst p)) cli_roaming"
  by (simp add: cli_roaming_def good_panels panel_text cli_expr_defs del: append.simps append_assoc)

section \<open>Geometry\<close>

definition cli_ids :: "int list" where
  "cli_ids = [1, 2, 3, 4, 5, 6, 11, 7, 8, 9, 10, 100, 101, 102, 103, 104, 105, 200, 201, 202, 203, 205, 206,
     207, 300, 301, 302, 303, 304, 305, 306, 307, 308, 309, 400, 401, 402, 403, 404]"

lemmas cli_tab_defs = cli_overview_def cli_clients_def cli_traffic_def cli_quality_def cli_roaming_def

lemma cli_keys: "keys (all_placements cli_tabs) = map panel_key cli_ids"
  by (simp add: cli_tabs_def keys_tabs) (simp add: keys_def cli_ids_def cli_tab_defs maker_keys)

lemma cli_geometry: "list_all (\<lambda>t. placements_ok (snd t)) cli_tabs"
  by (simp add: cli_tabs_def cli_tab_defs geometry)

lemma cli_ids_ok: "list_all (\<lambda>i. 0 \<le> i) cli_ids" "distinct cli_ids"
  by (simp_all add: cli_ids_def)

lemma cli_tables: "tables_ok CLI_NAMES [''text''] CLI_TABS cli_ids cli_tabs"
  unfolding tables_ok_def
  using cli_geometry cli_good_overview cli_good_clients cli_good_traffic cli_good_quality cli_good_roaming
    cli_ids_ok
  by (simp add: cli_keys del: list.map) (simp add: cli_tabs_def list_all_placements CLI_TABS_def panel_text)

section \<open>The specification\<close>

abbreviation cli_elements :: "item list" where "cli_elements \<equiv> elements_of cli_tabs"

abbreviation cli_built :: json where "cli_built \<equiv> cli_spec cli_elements (map tab_of cli_tabs)"

lemma cli_document: "cli_dashboard spec = document ''openwrt-clients'' spec"
  by (simp add: cli_dashboard_def document_def DASHBOARD_API_def)

lemma cli_spec_parts:
  "jget cli_built ''elements'' = Inr (JDict cli_elements)"
  "jget cli_built ''layout'' = Inr (layout_of cli_tabs)"
  "check_field cli_built [''title''] ''OpenWrt - Clients'' = Inr ()"
  "check_field cli_built [''layout'', ''kind''] ''TabsLayout'' = Inr ()"
  "tab_titles cli_built = Inr CLI_TABS"
  "variable_names cli_built = Inr [''DS_PROMETHEUS'', ''DS_LOKI'', ''router'', ''connection'', ''network'', ''mac'']"
proof -
  have "tab_titles cli_built = Inr (map fst cli_tabs)"
    by (rule tab_titles_of) (simp add: cli_spec_def)
  then show "tab_titles cli_built = Inr CLI_TABS" by (simp add: cli_tabs_def CLI_TABS_def)
qed (simp_all add: cli_spec_def layout_of_def layout_json_def check_field_def variable_names_def
      cli_variables_def datasource_var_def query_var_def)

lemma cli_text: "text_clean CLI_NAMES cli_built"
  using tables_text [OF cli_tables]
  by (simp add: cli_spec_def cli_variables_def panel_text layout_of_def layout_json_def
      del: append.simps append_assoc)

lemma iter_cli: "s \<in> set (iter_strings (JDict cli_elements)) \<Longrightarrow> s \<in> set (iter_strings cli_built)"
  by (simp add: cli_spec_def)

text \<open>The count of clients uses every variable; the roaming log stream is read from Loki.\<close>

definition client_count :: string where
  "client_count = ''count(openwrt_client_info{'' @ CLIENT_FILTER @ ''}) or vector(0)''"

definition roaming_stream :: string where
  \<open>roaming_stream = ''{'' @ LOKI_FILTER @ ''} |~ "AP-STA-(CONNECTED|DISCONNECTED)"''\<close>

lemma cli_strings: "client_count \<in> set (iter_strings cli_built)" "PROM_DS \<in> set (iter_strings cli_built)"
proof -
  have "\<exists>pid t u d a. fst (cli_overview ! 2) = stat pid t client_count u d a"
    by (intro exI) (simp add: cli_overview_def client_count_def)
  moreover have "(''Overview'', cli_overview) \<in> set cli_tabs" by (simp add: cli_tabs_def)
  moreover have "2 < length cli_overview" by (simp add: cli_overview_def)
  ultimately show "client_count \<in> set (iter_strings cli_built)" "PROM_DS \<in> set (iter_strings cli_built)"
    by (blast intro: iter_cli stat_string)+
qed

lemma cli_LOKI_DS: "LOKI_DS \<in> set (iter_strings cli_built)"
proof -
  have "\<exists>pid t d. fst (cli_roaming ! 4) = logs_panel pid t roaming_stream d"
    by (intro exI) (simp add: cli_roaming_def roaming_stream_def)
  moreover have "(''Roaming'', cli_roaming) \<in> set cli_tabs" by (simp add: cli_tabs_def)
  moreover have "4 < length cli_roaming" by (simp add: cli_roaming_def)
  ultimately show "LOKI_DS \<in> set (iter_strings cli_built)" by (blast intro: iter_cli logs_string)
qed

lemma client_count_split:
  \<open>client_count = ''count(openwrt_client_info{'' @ PROM_FILTER @
     ('', connection=~"$connection", network=~"$network", mac=~"$mac"'' @ ''}) or vector(0)'')\<close>
  \<open>client_count = (''count(openwrt_client_info{'' @ PROM_FILTER @ '', connection=~"'') @ ''$'' @ ''connection'' @
     DQ # '', network=~"$network", mac=~"$mac"}) or vector(0)''\<close>
  \<open>client_count = (''count(openwrt_client_info{'' @ PROM_FILTER @ '', connection=~"$connection", network=~"'') @
     ''$'' @ ''network'' @ DQ # '', mac=~"$mac"}) or vector(0)''\<close>
  \<open>client_count = (''count(openwrt_client_info{'' @ PROM_FILTER @
     '', connection=~"$connection", network=~"$network", mac=~"'') @ ''$'' @ ''mac'' @ DQ # ''}) or vector(0)''\<close>
  by (simp_all add: client_count_def CLIENT_FILTER_def)

lemma client_count_vars:
  "var_occurs ''router'' client_count" "var_occurs ''connection'' client_count"
  "var_occurs ''network'' client_count" "var_occurs ''mac'' client_count"
  \<open>py_in (''router=~'' @ [DQ] @ ''$router'' @ [DQ]) client_count\<close>
  \<open>py_in (''job='' @ [DQ] @ ''openwrt'' @ [DQ]) client_count\<close>
proof -
  have w: "whole_name ''connection'' (DQ # b)" "whole_name ''network'' (DQ # b)" "whole_name ''mac'' (DQ # b)" for b
    by (simp_all add: name_defs)
  show "var_occurs ''router'' client_count"
    \<open>py_in (''router=~'' @ [DQ] @ ''$router'' @ [DQ]) client_count\<close>
    \<open>py_in (''job='' @ [DQ] @ ''openwrt'' @ [DQ]) client_count\<close>
    unfolding client_count_split(1) by (rule PROM_FILTER_parts)+
  show "var_occurs ''connection'' client_count" unfolding client_count_split(2) by (rule var_occurs_at [OF w(1)])
  show "var_occurs ''network'' client_count" unfolding client_count_split(3) by (rule var_occurs_at [OF w(2)])
  show "var_occurs ''mac'' client_count" unfolding client_count_split(4) by (rule var_occurs_at [OF w(3)])
qed

lemma cli_vars: "check_vars GLOBALS_ALLOWED [''DS_PROMETHEUS'', ''DS_LOKI''] cli_built = Inr ()"
proof (rule check_vars_clean [OF cli_spec_parts(6)])
  show "text_clean ([''DS_PROMETHEUS'', ''DS_LOKI'', ''router'', ''connection'', ''network'', ''mac''] @
      GLOBALS_ALLOWED) cli_built"
    using cli_text by (simp add: CLI_NAMES_def)
  show "set [''DS_PROMETHEUS'', ''DS_LOKI'', ''router'', ''connection'', ''network'', ''mac''] \<subseteq>
      set (referenced_vars cli_built) \<union> set [''DS_PROMETHEUS'', ''DS_LOKI'']"
    using referenced [OF cli_strings(1)] client_count_vars by simp
qed

section \<open>The expressions\<close>

text \<open>No expression holds a part of the two metrics that flow offload makes meaningless.\<close>

definition no_offloaded :: "string \<Rightarrow> bool" where
  "no_offloaded s = (wrun ''vice_traffic'' s (Some []) \<noteq> None \<and> wrun ''_nat'' s (Some []) \<noteq> None)"

lemma no_offloaded_words:
  "no_offloaded s \<Longrightarrow> \<not> py_in ''openwrt_device_traffic_bytes_total'' s"
  "no_offloaded s \<Longrightarrow> \<not> py_in ''node_nat_traffic'' s"
proof -
  assume a: "no_offloaded s"
  have "\<not> py_in ''vice_traffic'' s" using a wrun_word [of "''vice_traffic''" s] by (auto simp: no_offloaded_def)
  then show "\<not> py_in ''openwrt_device_traffic_bytes_total'' s" by (rule py_in_part) simp
  have "\<not> py_in ''_nat'' s" using a wrun_word [of "''_nat''" s] by (auto simp: no_offloaded_def)
  then show "\<not> py_in ''node_nat_traffic'' s" by (rule py_in_part) simp
qed

lemma lowercase_wruns:
  "wrun ''vice_traffic'' e (Some []) = Some [] \<Longrightarrow> wrun ''vice_traffic'' (lowercase_mac_label e ''mac'') (Some []) = Some []"
  "wrun ''_nat'' e (Some []) = Some [] \<Longrightarrow> wrun ''_nat'' (lowercase_mac_label e ''mac'') (Some []) = Some []"
proof -
  have "p \<in> set letter_pairs \<Longrightarrow> wrun ''vice_traffic'' x (Some []) = Some [] \<Longrightarrow>
      wrun ''vice_traffic'' (lowercase_once ''mac'' p x) (Some []) = Some []" for p x
    by (auto simp: letter_pairs_def lowercase_once_def wrun_simps simp del: append.simps append_assoc)
  then show "wrun ''vice_traffic'' e (Some []) = Some [] \<Longrightarrow>
      wrun ''vice_traffic'' (lowercase_mac_label e ''mac'') (Some []) = Some []"
    unfolding wrun_def by (intro fold_lowercase)
  have "p \<in> set letter_pairs \<Longrightarrow> wrun ''_nat'' x (Some []) = Some [] \<Longrightarrow>
      wrun ''_nat'' (lowercase_once ''mac'' p x) (Some []) = Some []" for p x
    by (auto simp: letter_pairs_def lowercase_once_def wrun_simps simp del: append.simps append_assoc)
  then show "wrun ''_nat'' e (Some []) = Some [] \<Longrightarrow>
      wrun ''_nat'' (lowercase_mac_label e ''mac'') (Some []) = Some []"
    unfolding wrun_def by (intro fold_lowercase)
qed

lemma filter_wruns:
  "wrun ''vice_traffic'' PROM_FILTER (Some []) = Some []" "wrun ''_nat'' PROM_FILTER (Some []) = Some []"
  "wrun ''vice_traffic'' LOKI_FILTER (Some []) = Some []" "wrun ''_nat'' LOKI_FILTER (Some []) = Some []"
  by (simp_all add: PROM_FILTER_def LOKI_FILTER_def wrun_simps del: append.simps append_assoc)

lemma client_wruns:
  "wrun ''vice_traffic'' CLIENT_FILTER (Some []) = Some []" "wrun ''_nat'' CLIENT_FILTER (Some []) = Some []"
  "wrun ''vice_traffic'' WIFI_CLIENT_FILTER (Some []) = Some []" "wrun ''_nat'' WIFI_CLIENT_FILTER (Some []) = Some []"
  "wrun ''vice_traffic'' FLOW_OFFLOAD_ENABLED (Some []) = Some []" "wrun ''_nat'' FLOW_OFFLOAD_ENABLED (Some []) = Some []"
  "wrun ''vice_traffic'' TRAFFIC_AVAILABLE (Some []) = Some []" "wrun ''_nat'' TRAFFIC_AVAILABLE (Some []) = Some []"
  "wrun ''vice_traffic'' CONNTRACK_AVAILABLE (Some []) = Some []" "wrun ''_nat'' CONNTRACK_AVAILABLE (Some []) = Some []"
  "wrun ''vice_traffic'' ASSOC_EVENTS_AVAILABLE (Some []) = Some []" "wrun ''_nat'' ASSOC_EVENTS_AVAILABLE (Some []) = Some []"
  "wrun ''vice_traffic'' HOSTAPD_SIGNAL (Some []) = Some []" "wrun ''_nat'' HOSTAPD_SIGNAL (Some []) = Some []"
  "wrun ''vice_traffic'' CLIENT_WIFI_SIGNAL (Some []) = Some []" "wrun ''_nat'' CLIENT_WIFI_SIGNAL (Some []) = Some []"
  by (simp_all add: CLIENT_FILTER_def WIFI_CLIENT_FILTER_def FLOW_OFFLOAD_ENABLED_def TRAFFIC_AVAILABLE_def
      CONNTRACK_AVAILABLE_def ASSOC_EVENTS_AVAILABLE_def HOSTAPD_SIGNAL_def CLIENT_WIFI_SIGNAL_def
      lowercase_wruns filter_wruns wrun_simps del: append.simps append_assoc)

lemmas cli_query_defs = cli_expr_defs WIFI_SIGNAL_BY_MAC_def CLIENT_WIFI_SIGNAL_RAW_def
  TRAFFIC_ACCOUNTING_STATE_def CONNTRACK_STATE_def TRAFFIC_IN_def TRAFFIC_OUT_def TRAFFIC_SERVICE_def

lemma cli_exprs: "exprs_all no_offloaded (all_placements cli_tabs)"
  by (simp add: cli_tabs_def exprs_all_tabs cli_tab_defs exprs_all_simps maker_exprs query_expr_simps
      del: append.simps append_assoc)
    (simp add: no_offloaded_def cli_query_defs wrun_simps filter_wruns client_wruns del: append.simps append_assoc)

section \<open>The dashboard\<close>

lemma cli_presence:
  "py_in ''openwrt_client_bytes_total'' TRAFFIC_SERVICE"
  "py_in ''openwrt_client_conntrack_entries'' (trusted_conntrack (''openwrt_client_conntrack_entries{'' @ PROM_FILTER @ ''}''))"
  "py_in ''openwrt_wifi_assoc_events_total'' (''sum by(ap, ssid, event) (increase(openwrt_wifi_assoc_events_total{'' @
     PROM_FILTER @ ''}[$__rate_interval]))'')"
  "py_in ''AP-STA-(CONNECTED|DISCONNECTED)'' roaming_stream"
  by (simp_all add: TRAFFIC_SERVICE_def trusted_traffic_def trusted_conntrack_def roaming_stream_def py_in_or
      del: append.simps append_assoc)

lemma cli_exprs_present:
  assumes "\<And>p es'. p \<in> set (all_placements cli_tabs) \<Longrightarrow> panel_exprs (snd (fst p)) = Inr es' \<Longrightarrow> set es' \<subseteq> set es"
  shows "any_has ''openwrt_client_bytes_total'' es = Inr ()"
    "any_has ''openwrt_client_conntrack_entries'' es = Inr ()"
    "any_has ''openwrt_wifi_assoc_events_total'' es = Inr ()"
    "any_has ''AP-STA-(CONNECTED|DISCONNECTED)'' es = Inr ()"
proof -
  have has: "any_has w es = Inr ()"
    if "p \<in> set (all_placements cli_tabs)" "panel_exprs (snd (fst p)) = Inr es'" "e \<in> set es'" "py_in w e"
    for p w e es'
  proof -
    have "e \<in> set es" using assms [OF that(1,2)] that(3) by blast
    then show ?thesis using that(4) by (auto simp: any_has_def ensure_Inr_iff list_ex_iff)
  qed
  have mem: "t ! n \<in> set (all_placements cli_tabs)"
    if "t \<in> {cli_clients, cli_traffic, cli_roaming}" "n < length t" for t n
    using that nth_mem [OF that(2)] by (auto simp: cli_tabs_def all_placements_def)
  have at: "cli_traffic ! 6 \<in> set (all_placements cli_tabs)" "cli_clients ! 0 \<in> set (all_placements cli_tabs)"
    "cli_roaming ! 3 \<in> set (all_placements cli_tabs)" "cli_roaming ! 4 \<in> set (all_placements cli_tabs)"
    by (rule mem, simp, simp add: cli_tab_defs)+
  show "any_has ''openwrt_client_bytes_total'' es = Inr ()"
    by (rule has [OF at(1) _ _ cli_presence(1)], simp add: cli_traffic_def maker_exprs query_expr_simps, simp)
  show "any_has ''openwrt_client_conntrack_entries'' es = Inr ()"
    by (rule has [OF at(2) _ _ cli_presence(2)], simp add: cli_clients_def maker_exprs query_expr_simps, simp)
  show "any_has ''openwrt_wifi_assoc_events_total'' es = Inr ()"
    by (rule has [OF at(3) _ _ cli_presence(3)], simp add: cli_roaming_def maker_exprs query_expr_simps, simp)
  show "any_has ''AP-STA-(CONNECTED|DISCONNECTED)'' es = Inr ()"
    by (rule has [OF at(4) _ _ cli_presence(4)], simp add: cli_roaming_def maker_exprs query_expr_simps roaming_stream_def, simp add: roaming_stream_def)
qed

lemma cli_texts: "cli_check_text (document ''openwrt-clients'' cli_built) cli_built = Inr ()"
proof -
  have slug: "clean CLI_NAMES ''openwrt-clients''" by (simp add: panel_text)
  obtain es where es: "query_exprs (JDict cli_elements) = Inr es" "list_all no_offloaded es"
    and mem: "\<And>p es'. p \<in> set (all_placements cli_tabs) \<Longrightarrow>
      panel_exprs (snd (fst p)) = Inr es' \<Longrightarrow> set es' \<subseteq> set es"
    using query_exprs_elements [OF cli_exprs] by blast
  have "none_has ''openwrt_device_traffic_bytes_total'' es = Inr ()" "none_has ''node_nat_traffic'' es = Inr ()"
    using es(2) no_offloaded_words by (auto simp: none_has_def list_all_iff list_ex_iff ensure_Inr_iff)
  moreover have "any_has w (iter_strings cli_built) = Inr ()" if "py_in w client_count" for w
    using cli_strings(1) that by (auto simp: any_has_def ensure_Inr_iff list_ex_iff)
  moreover note cli_exprs_present [OF mem] document_lacks [OF cli_text slug]
    document_has [OF cli_strings(2)] document_has [OF cli_LOKI_DS] cli_spec_parts(1) es(1) client_count_vars
  ultimately show ?thesis
    unfolding cli_check_text_def Let_def by (simp only: bindR.simps document_no_uid escape_DS)
qed

lemma cli_valid: "cli_validate_dashboard (cli_dashboard cli_built) = Inr ()"
proof -
  have "check_header (document ''openwrt-clients'' cli_built) ''openwrt-clients'' = Inr ()"
    by (rule document_header)
  then show ?thesis
    unfolding cli_validate_dashboard_def cli_document
    by (simp only: bindR.simps document_spec cli_spec_parts ensure_True tables_refs [OF cli_tables]
        tables_panels [OF cli_tables] tables_grid [OF cli_tables] cli_vars cli_texts refl)
qed

lemma cli_build: "cli_build_dashboard = Inr (cli_dashboard cli_built)"
  by (simp add: cli_build_dashboard_def tables_build [OF cli_tables] cli_valid Let_def)

end
