(* ===== verification/Netflow_Dashboard.thy ===== *)
theory Netflow_Dashboard
  imports Builder
begin

text \<open>
  The NetFlow dashboard of \<open>scripts/build_openwrt_netflow_dashboard.py\<close>: the SQL fragments over the
  flow table, the ClickHouse query and panel constructors, the tabs and the dashboard. The panel
  constructors, the Prometheus filter and the builder are the shared ones.
\<close>

definition CH_DS :: string where
  \<open>CH_DS = ''${DS_CLICKHOUSE}''\<close>

definition ROUTER_SQL :: string where
  \<open>ROUTER_SQL =
     ''$__conditionalAll(ExporterName IN (${router:singlequote}), $router)''\<close>

definition LOCAL_SRC :: string where
  \<open>LOCAL_SRC =
     (''SrcNetRole = 'internal'' @ [SQ])\<close>

definition LOCAL_DST :: string where
  \<open>LOCAL_DST =
     (''DstNetRole = 'internal'' @ [SQ])\<close>

definition EXTERNAL_SRC :: string where
  \<open>EXTERNAL_SRC =
     (''SrcNetRole != 'internal'' @ [SQ])\<close>

definition EXTERNAL_DST :: string where
  \<open>EXTERNAL_DST =
     (''DstNetRole != 'internal'' @ [SQ])\<close>

definition CROSSES_BOUNDARY :: string where
  \<open>CROSSES_BOUNDARY = ''(SrcNetRole != 'internal' OR DstNetRole != 'internal')''\<close>

definition SRC_COUNTRY :: string where
  \<open>SRC_COUNTRY =
     (''replaceRegexpAll(toString(SrcCountry), '' @ [SQ] @ [BS] @ [BS] @ ''x00', '' @ [SQ] @
     ''')'')\<close>

definition DST_COUNTRY :: string where
  \<open>DST_COUNTRY =
     (''replaceRegexpAll(toString(DstCountry), '' @ [SQ] @ [BS] @ [BS] @ ''x00', '' @ [SQ] @
     ''')'')\<close>

definition IPV6 :: string where
  \<open>IPV6 = ''EType = 34525''\<close>

definition ip_display :: "string \<Rightarrow> string" where
  \<open>ip_display column =
     (''replaceRegexpAll(IPv6NumToString('' @ column @ ''), '^::ffff:', '' @ [SQ] @ ''')'')\<close>

definition TCP_SHAPE :: string where
  \<open>TCP_SHAPE =
     (''multiIf(bitAnd(TCPFlags, 2) != 0 AND bitAnd(TCPFlags, 16) = 0, 'SYN, never '' @
     ''answered', bitAnd(TCPFlags, 4) != 0, 'RST - reset or refused', bitAnd(TCPFlags,'' @
     '' 1) != 0 AND bitAnd(TCPFlags, 2) != 0, 'Completed - opened and closed', '' @
     ''bitAnd(TCPFlags, 1) != 0, 'Closed - handshake not captured', bitAnd(TCPFlags,'' @
     '' 2) != 0, 'Open - handshake, still running', bitAnd(TCPFlags, 16) != 0, '' @
     '''Established - data only', 'Other')'')\<close>

definition TCP_SHAPE_COLORS :: "json list" where
  \<open>TCP_SHAPE_COLORS =
     [color_override ''Completed - opened and closed'' GREEN, color_override
     ''RST - reset or refused'' ORANGE, color_override ''SYN, never answered'' RED, color_override
     ''Open - handshake, still running'' BLUE, color_override ''Established - data only'' PURPLE,
     color_override ''Closed - handshake not captured'' GRAY, color_override ''Other'' GRAY]\<close>

definition PACKET_SIZE_EDGES :: "int list" where
  \<open>PACKET_SIZE_EDGES = [64, 128, 256, 512, 1024, 1500]\<close>

definition DIRECTION_COLORS :: "json list" where
  \<open>DIRECTION_COLORS =
     [color_override ''outbound'' BLUE, color_override ''inbound'' PURPLE, color_override
     ''local'' GRAY]\<close>

definition SERVICE_CLASS :: string where
  \<open>SERVICE_CLASS =
     (''multiIf(DstPort IN (53, 853) OR SrcPort IN (53, 853), 'DNS / encrypted DNS','' @
     '' DstPort IN (80, 443, 8080, 8443) OR SrcPort IN (80, 443, 8080, 8443), 'Web '' @
     ''/ QUIC', DstPort IN (9100, 9090, 3000, 8081, 8123) OR SrcPort IN (9100, '' @
     ''9090, 3000, 8081, 8123), 'Monitoring stack', DstPort IN (22, 2222) OR SrcPort '' @
     ''IN (22, 2222), 'SSH / admin', DstPort = 123 OR SrcPort = 123, 'NTP', DstPort '' @
     ''= 5353 OR SrcPort = 5353, 'mDNS', DstPort = 1900 OR SrcPort = 1900, 'SSDP '' @
     ''/ discovery', 'Other')'')\<close>

definition pivot_columns :: "string \<Rightarrow> string list \<Rightarrow> string \<Rightarrow> string" where
  \<open>pivot_columns label_expr names agg =
     py_join '', '' (map (\<lambda>name. ''sumIf('' @ agg @ '', '' @ label_expr @ '' = '' @ [SQ] @ name @ [SQ] @
       '') AS "'' @ name @ ''"'') names)\<close>

definition partition_by :: "string \<Rightarrow> json" where
  \<open>partition_by field =
     JDict [(''kind'', JStr ''partitionByValues''), (''spec'',
     JDict [(''id'', JStr ''partitionByValues''), (''options'',
     JDict [(''fields'', JList [JStr field]), (''keepFields'', JBool False)])])]\<close>

definition DIRECTIONS :: "string list" where
  \<open>DIRECTIONS =
     [''outbound'', ''inbound'', ''local'']\<close>

definition DIRECTION_EXPR :: string where
  \<open>DIRECTION_EXPR =
     (''multiIf(SrcNetRole = 'internal' AND DstNetRole = 'internal', 'local', SrcNetRole '' @
     ''= 'internal', 'outbound', 'inbound')'')\<close>

definition SERVICE_CLASSES :: "string list" where
  \<open>SERVICE_CLASSES =
     [''DNS / encrypted DNS'', ''Web / QUIC'', ''Monitoring stack'', ''SSH / admin'', ''NTP'',
     ''mDNS'', ''SSDP / discovery'', ''Other'']\<close>

definition TCP_SHAPES :: "string list" where
  \<open>TCP_SHAPES =
     [''Completed - opened and closed'', ''RST - reset or refused'', ''SYN, never answered'',
     ''Open - handshake, still running'', ''Established - data only'',
     ''Closed - handshake not captured'', ''Other'']\<close>

fun packet_size_parts :: "int \<Rightarrow> int list \<Rightarrow> string list" where
  "packet_size_parts previous [] = []"
| \<open>packet_size_parts previous (edge # edges) =
     (let lower = (if previous \<noteq> 0 then ''PacketSize >= '' @ show_int previous @ '' AND '' else []) in
      (''sumIf(Packets * SamplingRate, '' @ lower @ ''PacketSize < '' @ show_int edge @ '') AS "'' @
        show_int edge @ ''"'') # packet_size_parts edge edges)\<close>

definition packet_size_columns :: string where
  \<open>packet_size_columns =
     py_join '', '' (packet_size_parts 0 PACKET_SIZE_EDGES @
       [''sumIf(Packets * SamplingRate, PacketSize >= '' @ show_int (last PACKET_SIZE_EDGES) @ '') AS "+Inf"''])\<close>

definition tcp_shape_counts :: string where
  \<open>tcp_shape_counts =
     py_join '', '' (map (\<lambda>name. ''countIf('' @ TCP_SHAPE @ '' = '' @ [SQ] @ name @ [SQ] @
       '') AS "'' @ name @ ''"'') TCP_SHAPES)\<close>

definition ch_query :: "string \<Rightarrow> string \<Rightarrow> int \<Rightarrow> json" where
  \<open>ch_query sql ref fmt =
     JDict [(''kind'', JStr ''PanelQuery''), (''spec'', JDict [(''refId'', JStr ref),
     (''hidden'', JBool False), (''query'', JDict [(''kind'', JStr ''DataQuery''),
     (''group'', JStr ''grafana-clickhouse-datasource''), (''version'', JStr ''v0''),
     (''datasource'', JDict [(''name'', JStr CH_DS)]), (''spec'', JDict [(''rawSql'', JStr sql),
     (''editorType'', JStr ''sql''), (''format'', JInt fmt),
     (''queryType'', JStr ''table'')])])])]\<close>

definition ch_stat :: "int \<Rightarrow> string \<Rightarrow> string \<Rightarrow> string \<Rightarrow> string \<Rightarrow> item" where
  \<open>ch_stat pid title sql unit desc =
     panel pid title ''stat'' [ch_query sql ''A'' 2] unit desc
     (kw\<lparr>o_options := Some [(''colorMode'', JStr ''background_solid''),
     (''graphMode'', JStr ''none''), (''justifyMode'', JStr ''center''),
     (''orientation'', JStr ''auto''), (''reduceOptions'',
     JDict [(''calcs'', JList [JStr ''lastNotNull'']), (''fields'', JStr ''''),
     (''values'', JBool False)]), (''textMode'', JStr ''auto''), (''wideLayout'', JBool True)],
     o_field_defaults := Some [(''thresholds'', THRESHOLDS Neutral), (''mappings'', JList []),
     (''color'', JDict [(''mode'', JStr ''thresholds'')]),
     (''noValue'', JStr ''No flows'')]\<rparr>)\<close>

definition ch_geomap :: "int \<Rightarrow> string \<Rightarrow> string \<Rightarrow> string \<Rightarrow> string \<Rightarrow> item" where
  \<open>ch_geomap pid title sql lookup_field desc =
     panel pid title ''geomap'' [ch_query sql ''A'' 2] ''bytes'' desc
     (kw\<lparr>o_options := Some [(''basemap'', JDict [(''config'', JDict []),
     (''name'', JStr ''Basemap''), (''type'', JStr ''default'')]), (''controls'',
     JDict [(''mouseWheelZoom'', JBool False), (''showAttribution'', JBool True),
     (''showDebug'', JBool False), (''showMeasure'', JBool False), (''showScale'', JBool False),
     (''showZoom'', JBool True)]), (''layers'', JList [JDict [(''config'',
     JDict [(''showLegend'', JBool True), (''style'', JDict [(''color'',
     JDict [(''field'', JStr ''bytes''), (''fixed'', JStr BLUE)]), (''opacity'', JFloat ''0.6''),
     (''rotation'', JDict [(''fixed'', JInt 0), (''max'', JInt 360), (''min'', JInt (- 360)),
     (''mode'', JStr ''mod'')]), (''size'', JDict [(''field'', JStr ''bytes''),
     (''fixed'', JInt 5), (''max'', JInt 24), (''min'', JInt 5)]), (''symbol'',
     JDict [(''fixed'', JStr ''img/icons/marker/circle.svg''), (''mode'', JStr ''fixed'')]),
     (''symbolAlign'', JDict [(''horizontal'', JStr ''center''),
     (''vertical'', JStr ''center'')]), (''textConfig'', JDict [(''fontSize'', JInt 12),
     (''offsetX'', JInt 0), (''offsetY'', JInt 0), (''textAlign'', JStr ''center''),
     (''textBaseline'', JStr ''middle'')])])]), (''location'', JDict [(''mode'', JStr ''lookup''),
     (''lookup'', JStr lookup_field), (''gazetteer'', JStr ''public/gazetteer/countries.json'')]),
     (''name'', JStr ''Countries''), (''tooltip'', JBool True), (''type'', JStr ''markers'')]]),
     (''tooltip'', JDict [(''mode'', JStr ''details'')]), (''view'',
     JDict [(''allLayers'', JBool True), (''id'', JStr ''zero''), (''lat'', JInt 25),
     (''lon'', JInt 0), (''zoom'', JFloat ''1.5'')])],
     o_field_defaults := Some [(''color'', JDict [(''mode'', JStr ''continuous-BlPu'')]),
     (''thresholds'', THRESHOLDS Neutral)]\<rparr>)\<close>

definition ch_nodegraph :: "int \<Rightarrow> string \<Rightarrow> string \<Rightarrow> string \<Rightarrow> string \<Rightarrow> item" where
  \<open>ch_nodegraph pid title nodes_sql edges_sql desc =
     panel pid title ''nodeGraph'' [ch_query nodes_sql ''nodes'' 2, ch_query edges_sql ''edges''
     2] ''bytes'' desc (kw\<lparr>o_options := Some [(''zoomMode'', JStr ''cooperative''),
     (''layoutAlgorithm'', JStr ''layered''),
     (''nodes'', JDict [(''mainStatUnit'', JStr ''bytes'')]),
     (''edges'', JDict [(''mainStatUnit'', JStr ''bytes'')])],
     o_field_defaults := Some [(''thresholds'', THRESHOLDS Neutral)]\<rparr>)\<close>

definition nf_variables :: "json list" where
  \<open>nf_variables =
     [datasource_var ''DS_PROMETHEUS'' ''Prometheus'' ''prometheus'' ''prometheus'',
     datasource_var ''DS_CLICKHOUSE'' ''ClickHouse'' ''grafana-clickhouse-datasource''
     ''ClickHouse'', query_var ''router'' ''Router''
     ''label_values(node_load1{job="openwrt"}, router)'' ''All'' True True ''.*'']\<close>

definition nf_overview :: "placement list" where
  \<open>nf_overview =
    [(text_panel 1 '''' (''## Per-flow traffic'' @ [NL] @
       ''NetFlow v9 from softflowd on the router, collected by Akvorado and stored '' @
       ''in ClickHouse. Byte counts are multiplied by the reported sampling rate.'' @ [NL] @
       [NL] @ ''**Coverage caveat:** softflowd captures with libpcap, so traffic forwarded '' @
       ''by the switch ASIC under hardware flow offload never reaches it. Check the '' @
       ''**Pipeline Health** tab before treating these totals as complete.''), 0, 0, 24, 4),
     (ch_stat 2 ''Flows''
       (''SELECT count() AS flows FROM flows WHERE $__timeFilter(TimeReceived) AND '' @
       ROUTER_SQL) ''none'' ''Flow records stored in the selected range.'', 0, 4, 4, 4),
     (ch_stat 3 ''Traffic''
       (''SELECT sum(Bytes * SamplingRate) AS bytes FROM flows WHERE $__timeFilter('' @
       ''TimeReceived) AND '' @ ROUTER_SQL) ''bytes''
       ''Total bytes in the selected range, sampling-rate corrected.'', 4, 4, 4, 4),
     (ch_stat 10 ''Peak Bitrate''
       (''SELECT max(bps) AS bps FROM (SELECT $__timeInterval(TimeReceived) AS time,'' @
       '' sum(Bytes * SamplingRate) * 8 / $__interval_s AS bps FROM flows WHERE $__timeFilter('' @
       ''TimeReceived) AND '' @ ROUTER_SQL @ '' GROUP BY time)'') ''bps''
       ''Highest sampling-rate-corrected bitrate bucket in the selected range.'', 8, 4, 4, 4),
     (ch_stat 12 ''External Share'' (''SELECT round(100 * sumIf(Bytes * SamplingRate, '' @
       CROSSES_BOUNDARY @
       '') / greatest(sum(Bytes * SamplingRate), 1)) AS pct FROM flows WHERE $__timeFilter('' @
       ''TimeReceived) AND '' @ ROUTER_SQL) ''percent''
       (''Share of bytes that cross the local network boundary rather than staying '' @
       ''LAN-local. On a typical home network this is low -- most bytes are between '' @
       ''local devices -- which is the context every other panel on this dashboard '' @
       ''should be read in. Derived from address role, not interface boundary.''), 12, 4, 4, 4),
     (ch_stat 13 ''IPv6 Flow Share'' (''SELECT round(100 * countIf('' @ IPV6 @
       '') / greatest(count(), 1)) AS pct FROM flows WHERE $__timeFilter(TimeReceived) '' @
       ''AND '' @ ROUTER_SQL) ''percent''
       (''Share of flow records carried over IPv6, from the ethertype.'' @ [NL] @ [NL] @
       ''This is a share of **flows**, not of bytes. The two differ sharply here: '' @
       ''IPv6 carries a meaningful fraction of conversations (DNS, mDNS, NTP, service '' @
       ''discovery) while the large transfers are still IPv4, so byte share reads '' @
       ''near zero and would look like an enrichment failure rather than a real property '' @
       ''of the traffic.''), 16, 4, 4, 4),
     (ch_stat 4 ''Local Hosts''
       (''SELECT uniq(SrcAddr) AS hosts FROM flows WHERE $__timeFilter(TimeReceived) '' @
       ''AND '' @ ROUTER_SQL @ '' AND SrcNetRole = 'internal'' @ [SQ]) ''none''
       (''Distinct local source addresses seen. Depends on the `networks` prefixes '' @
       ''in akvorado.yaml matching your addressing.''), 20, 4, 4, 4),
     (ch_stat 5 ''External Peers''
       (''SELECT uniq(DstAddr) AS peers FROM flows WHERE $__timeFilter(TimeReceived) '' @
       ''AND '' @ ROUTER_SQL @ '' AND '' @ EXTERNAL_DST) ''none''
       ''Distinct internet-side addresses contacted.'', 0, 8, 6, 4),
     (ch_stat 11 ''ASN Coverage''
       (''SELECT round(100 * countIf(SrcAS != 0 OR DstAS != 0) / greatest(count(),'' @
       '' 1)) AS pct FROM flows WHERE $__timeFilter(TimeReceived) AND '' @ ROUTER_SQL @
       '' AND '' @ CROSSES_BOUNDARY) ''percent''
       (''Share of boundary-crossing flows with a source or destination AS after GeoIP/ASN '' @
       ''enrichment.''), 6, 8, 6, 4),
     (panel 14 ''Peak Link Utilization'' ''gauge'' [ch_query
       (''SELECT max(bps) / greatest(max(link_bps), 1) AS util FROM (SELECT $__timeInterval('' @
       ''TimeReceived) AS time, sum(Bytes * SamplingRate) * 8 / $__interval_s AS '' @
       ''bps, max(InIfSpeed) * 1000000 AS link_bps FROM flows WHERE $__timeFilter('' @
       ''TimeReceived) AND '' @ ROUTER_SQL @ '' GROUP BY time)'') ''A'' 2] ''percentunit''
       (''Peak bitrate as a fraction of the capture interface's reported link speed '' @
       ''(InIfSpeed, a constant 1 Gbps here).'' @ [NL] @ [NL] @
       ''This is a **lower bound**: anything hardware flow offload hid from softflowd '' @
       ''is missing from the numerator, so real link utilization is at least this '' @
       ''high. Use it for 'is the link anywhere near saturated', not for capacity '' @
       ''planning.'') (kw\<lparr>o_options := Some [(''minVizHeight'', JInt 75),
       (''minVizWidth'', JInt 75), (''orientation'', JStr ''auto''), (''reduceOptions'',
       JDict [(''calcs'', JList [JStr ''lastNotNull'']), (''fields'', JStr ''''),
       (''values'', JBool False)]), (''showThresholdLabels'', JBool False),
       (''showThresholdMarkers'', JBool True), (''sizing'', JStr ''auto'')],
       o_field_defaults := Some [(''min'', JInt 0), (''max'', JInt 1),
       (''thresholds'', THRESHOLDS Capacity), (''noValue'', JStr ''No flows'')]\<rparr>),
       12, 8, 12, 4),
     (timeseries 6 ''Throughput by Direction'' [ch_query
       (''SELECT $__timeInterval(TimeReceived) AS time, '' @ pivot_columns DIRECTION_EXPR
       DIRECTIONS ''Bytes * SamplingRate * 8 / $__interval_s'' @
       '' FROM flows WHERE $__timeFilter(TimeReceived) AND '' @ ROUTER_SQL @
       '' GROUP BY time ORDER BY time'') ''A'' 1] ''bps''
       (''Bit rate split into outbound, inbound, and LAN-local, derived from whether '' @
       ''each address falls in one of the `clickhouse.networks` prefixes in akvorado.yaml.'' @
       [NL] @ [NL] @
       ''This deliberately does NOT use InIfBoundary: softflowd reports the same '' @
       ''ifIndex for both ingress and egress, so interface boundary is constant across '' @
       ''every flow and cannot distinguish direction. If everything lands in one '' @
       ''series, your LAN prefix is missing from `clickhouse.networks`.'')
       (kw\<lparr>o_overrides := Some DIRECTION_COLORS\<rparr>), 0, 12, 12, 8),
     (timeseries 15 ''Direction Share'' [ch_query (''SELECT $__timeInterval(TimeReceived) AS time, '' @
       pivot_columns DIRECTION_EXPR DIRECTIONS ''Bytes * SamplingRate'' @
       '' FROM flows WHERE $__timeFilter(TimeReceived) AND '' @ ROUTER_SQL @
       '' GROUP BY time ORDER BY time'') ''A'' 1] ''bytes''
       (''The same three buckets as the panel on the left, stacked to 100%. This answers '' @
       '''what is the mix right now' rather than 'how much is there' -- useful for '' @
       ''spotting a shift to outbound traffic that the absolute view hides because '' @
       ''the total barely moved.'') (kw\<lparr>o_stacked := Some True,
       o_stack_mode := Some ''percent'', o_fill := Some 60,
       o_overrides := Some DIRECTION_COLORS\<rparr>), 12, 12, 12, 8),
     (bargauge 7 ''Top Local Talkers'' [ch_query (''SELECT '' @ ip_display ''SrcAddr'' @
       '' AS host, sum(Bytes * SamplingRate) AS bytes FROM flows WHERE $__timeFilter('' @
       ''TimeReceived) AND '' @ ROUTER_SQL @
       '' AND SrcNetRole = 'internal' GROUP BY host ORDER BY bytes DESC LIMIT 15'') ''A'' 2]
       ''bytes''
       (''Busiest local sources by uploaded bytes. Raw `flows` table only, so bounded '' @
       ''by the interval-0 retention window.'') (kw\<lparr>o_transformations := Some [limit 15],
       o_values := Some True\<rparr>), 0, 20, 12, 9),
     (bargauge 8 ''Top External Destinations'' [ch_query (''SELECT '' @ ip_display ''DstAddr'' @
       '' AS peer, sum(Bytes * SamplingRate) AS bytes FROM flows WHERE $__timeFilter('' @
       ''TimeReceived) AND '' @ ROUTER_SQL @ '' AND '' @ EXTERNAL_DST @
       '' GROUP BY peer ORDER BY bytes DESC LIMIT 15'') ''A'' 2] ''bytes''
       ''Busiest internet-side destinations by bytes.''
       (kw\<lparr>o_transformations := Some [limit 15], o_values := Some True\<rparr>),
       12, 20, 12, 9),
     (table 9 ''Top Conversations'' [ch_query (''SELECT '' @ ip_display ''SrcAddr'' @
       '' AS Source, '' @ ip_display ''DstAddr'' @
       '' AS Destination, DstPort AS Port, dictGetOrDefault('protocols', 'name', '' @
       ''toUInt64(Proto), toString(Proto)) AS Protocol, sum(Bytes * SamplingRate) '' @
       ''AS Bytes, sum(Packets * SamplingRate) AS Packets FROM flows WHERE $__timeFilter('' @
       ''TimeReceived) AND '' @ ROUTER_SQL @
       '' GROUP BY Source, Destination, Port, Protocol ORDER BY Bytes DESC LIMIT '' @ ''50'')
       ''A'' 2] (''Individual source/destination/port conversations, heaviest first. This is '' @
       ''the panel that answers 'what is saturating the link right now'.'')
       (kw\<lparr>o_sort_col := Some ''Bytes''\<rparr>), 0, 29, 24, 10)]\<close>

definition nf_applications :: "placement list" where
  \<open>nf_applications =
    [(text_panel 100 '''' (''## Ports and protocols'' @ [NL] @
       ''Port numbers are a weak proxy for application identity -- almost everything '' @
       ''is 443/TCP now. For real application labels, install the `dpi` profile ('' @
       ''Netifyd) and use the Advanced dashboard; this tab answers 'which service '' @
       ''ports and protocols carry the bytes', not 'which app'.''), 0, 0, 24, 4),
     (bargauge 101 ''Top Destination Ports'' [ch_query
       (''SELECT concat(toString(DstPort), '/', dictGetOrDefault('protocols', 'name','' @
       '' toUInt64(Proto), toString(Proto))) AS port, sum(Bytes * SamplingRate) AS '' @
       ''bytes FROM flows WHERE $__timeFilter(TimeReceived) AND '' @ ROUTER_SQL @ '' AND '' @
       EXTERNAL_DST @ '' GROUP BY port ORDER BY bytes DESC LIMIT 15'') ''A'' 2] ''bytes''
       (''Internet-side destination ports by bytes. This is usually the most useful '' @
       ''port ranking for web, DNS, streaming, VPN, and gaming traffic.'')
       (kw\<lparr>o_transformations := Some [limit 15], o_values := Some True\<rparr>),
       0, 4, 8, 9),
     (bargauge 106 ''Top Source Ports'' [ch_query
       (''SELECT concat(toString(SrcPort), '/', dictGetOrDefault('protocols', 'name','' @
       '' toUInt64(Proto), toString(Proto))) AS port, sum(Bytes * SamplingRate) AS '' @
       ''bytes FROM flows WHERE $__timeFilter(TimeReceived) AND '' @ ROUTER_SQL @
       '' AND SrcPort > 0 GROUP BY port ORDER BY bytes DESC LIMIT 15'') ''A'' 2] ''bytes''
       (''Source ports by bytes. Expect many ephemeral client ports here; fixed source '' @
       ''ports such as 443/UDP or 9100/TCP are the interesting exceptions.'')
       (kw\<lparr>o_transformations := Some [limit 15], o_values := Some True\<rparr>),
       8, 4, 8, 9),
     (piechart 102 ''Protocol Mix'' [ch_query
       (''SELECT dictGetOrDefault('protocols', 'name', toUInt64(Proto), toString(Proto)) '' @
       ''AS protocol, sum(Bytes * SamplingRate) AS bytes FROM flows WHERE $__timeFilter('' @
       ''TimeReceived) AND '' @ ROUTER_SQL @ '' GROUP BY protocol ORDER BY bytes DESC LIMIT 10'')
       ''A'' 2] ''bytes'' ''Share of bytes by IP protocol.''
       (kw\<lparr>o_values := Some True\<rparr>), 16, 4, 8, 9),
     (timeseries 103 ''Throughput by Destination Port'' [ch_query
       (''SELECT $__timeInterval(TimeReceived) AS time, toString(DstPort) AS port,'' @
       '' sum(Bytes * SamplingRate) * 8 / $__interval_s AS bps FROM flows WHERE $__timeFilter('' @
       ''TimeReceived) AND '' @ ROUTER_SQL @ '' AND '' @ EXTERNAL_DST @
       '' AND DstPort IN (SELECT DstPort FROM flows WHERE $__timeFilter(TimeReceived) '' @
       ''AND '' @ ROUTER_SQL @ '' AND '' @ EXTERNAL_DST @
       '' GROUP BY DstPort ORDER BY sum(Bytes * SamplingRate) DESC LIMIT 8) GROUP '' @
       ''BY time, port ORDER BY time'') ''A'' 1] ''bps''
       ''Bit rate over time for the eight busiest destination ports in the range.''
       (kw\<lparr>o_stacked := Some True, o_transformations := Some [partition_by
       ''port'']\<rparr>), 0, 13, 24, 9),
     (piechart 107 ''Service Class Mix'' [ch_query (''SELECT '' @ SERVICE_CLASS @
       '' AS service, sum(Bytes * SamplingRate) AS bytes FROM flows WHERE $__timeFilter('' @
       ''TimeReceived) AND '' @ ROUTER_SQL @ '' GROUP BY service ORDER BY bytes DESC'') ''A'' 2]
       ''bytes'' (''Human-readable service buckets from source and destination ports. This is '' @
       ''a convenience grouping, not DPI. Answers 'what is the mix over the whole '' @
       ''range'; the companion panel below answers 'did it change'.'')
       (kw\<lparr>o_values := Some True\<rparr>), 0, 22, 8, 9),
     (heatmap 104 ''Packet Size over Time'' [ch_query
       (''SELECT $__timeInterval(TimeReceived) AS time, '' @ packet_size_columns @
       '' FROM flows WHERE $__timeFilter(TimeReceived) AND '' @ ROUTER_SQL @
       '' GROUP BY time ORDER BY time'') ''A'' 1] ''packets''
       (''Packets per mean-packet-size bucket, over time. Column names are bucket '' @
       ''**upper** bounds in bytes.'' @ [NL] @ [NL] @
       ''A band that sits at the bottom is interactive, control, and ACK traffic;'' @
       '' weight in the 1024-1500 band is bulk transfer. The shift between them across '' @
       ''a day is the shape worth watching -- a sustained small-packet band alongside '' @
       ''a high flow count is also what scan-like behaviour looks like.'' @ [NL] @ [NL] @
       ''Sizes are per-flow means (`PacketSize`), not per-packet, so a flow mixing '' @
       ''large and tiny packets lands in a middle bucket rather than in both.'')
       (kw\<lparr>o_y_axis_unit := Some ''bytes''\<rparr>), 8, 22, 8, 9),
     (bargauge 105 ''TCP Flow Outcomes'' [ch_query (''SELECT '' @ TCP_SHAPE @
       '' AS shape, count() AS flows FROM flows WHERE $__timeFilter(TimeReceived) '' @ ''AND '' @
       ROUTER_SQL @ '' AND Proto = 6 GROUP BY shape ORDER BY flows DESC'') ''A'' 2] ''none''
       (''TCP flag bitmasks decoded into what actually happened to each flow.'' @ [NL] @ [NL] @
       ''`TCPFlags` is the cumulative OR of every packet's flags across the flow's '' @
       ''lifetime, so it describes an outcome rather than a packet: a flow carrying '' @
       ''both SYN and FIN was opened and closed inside the capture window.'' @ [NL] @ [NL] @
       ''- **Completed** -- handshake and close both seen. The healthy majority.'' @ [NL] @
       ''- **RST** -- something reset the connection. Normal in small amounts (browsers '' @
       ''abandon connections constantly); a sustained rise against one destination '' @
       ''is a service refusing.'' @ [NL] @
       ''- **SYN, never answered** -- a connection attempt that got nothing back. '' @
       ''This is the scan and unreachable-host signature, and it is normally near '' @
       ''zero here.'' @ [NL] @
       ''- **Open / Established** -- still running when the flow was cut. Expected,'' @
       '' because `maxlife=60` cuts every flow once a minute regardless of state.'' @ [NL] @
       [NL] @ ''Colours are an identity contract shared with the Security Signals tab.'')
       (kw\<lparr>o_color_mode := Some ''palette-classic-by-name'',
       o_overrides := Some TCP_SHAPE_COLORS, o_values := Some True\<rparr>), 16, 22, 8, 9),
     (bargauge 108 ''Top Local Service Ports'' [ch_query
       (''SELECT concat(toString(DstPort), '/', dictGetOrDefault('protocols', 'name','' @
       '' toUInt64(Proto), toString(Proto))) AS port, sum(Bytes * SamplingRate) AS '' @
       ''bytes FROM flows WHERE $__timeFilter(TimeReceived) AND '' @ ROUTER_SQL @ '' AND '' @
       LOCAL_DST @ '' AND DstPort > 0 GROUP BY port ORDER BY bytes DESC LIMIT 15'') ''A'' 2]
       ''bytes''
       (''Ports receiving traffic on internal destinations. Useful for spotting local '' @
       ''scrapes, media servers, admin interfaces, and noisy LAN services.'')
       (kw\<lparr>o_transformations := Some [limit 15], o_values := Some True\<rparr>),
       0, 31, 12, 9),
     (table 109 ''Port Conversation Matrix'' [ch_query
       (''SELECT concat(toString(SrcPort), ' -> ', toString(DstPort), '/', dictGetOrDefault('' @
       '''protocols', 'name', toUInt64(Proto), toString(Proto))) AS PortPath, count('' @
       '') AS Flows, sum(Bytes * SamplingRate) AS Bytes, sum(Packets * SamplingRate) '' @
       ''AS Packets FROM flows WHERE $__timeFilter(TimeReceived) AND '' @ ROUTER_SQL @
       '' AND SrcPort > 0 AND DstPort > 0 GROUP BY PortPath ORDER BY Bytes DESC LIMIT '' @ ''40'')
       ''A'' 2] (''Source-to-destination port pairs. This makes fixed source-port services '' @
       ''stand out from ordinary client ephemeral ports.'')
       (kw\<lparr>o_sort_col := Some ''Bytes''\<rparr>), 12, 31, 12, 9),
     (timeseries 110 ''Service Class over Time'' [ch_query
       (''SELECT $__timeInterval(TimeReceived) AS time, '' @ pivot_columns SERVICE_CLASS
       SERVICE_CLASSES ''Bytes * SamplingRate'' @
       '' FROM flows WHERE $__timeFilter(TimeReceived) AND '' @ ROUTER_SQL @
       '' GROUP BY time ORDER BY time'') ''A'' 1] ''bytes''
       (''The same port-derived service buckets as the donut above, stacked to 100% '' @
       ''over time.'' @ [NL] @ [NL] @
       ''Read it for shape changes rather than for levels: a backup window, a streaming '' @
       ''session, or an overnight update run all show up here as one band taking '' @
       ''over, where the donut would only show a slightly different slice.'')
       (kw\<lparr>o_stacked := Some True, o_stack_mode := Some ''percent'',
       o_fill := Some 60\<rparr>), 0, 40, 24, 9)]\<close>

definition nf_NODE_PAIRS :: string where
  \<open>nf_NODE_PAIRS =
     (''WITH pairs AS (SELECT '' @ ip_display ''SrcAddr'' @
     '' AS host, toString(DstAS) AS asn, dictGetOrDefault('asns', 'name', toUInt64('' @
     ''DstAS), concat('AS', toString(DstAS))) AS as_name, sum(Bytes * SamplingRate) '' @
     ''AS bytes, count() AS flows FROM flows WHERE $__timeFilter(TimeReceived) '' @ ''AND '' @
     ROUTER_SQL @ '' AND '' @ LOCAL_SRC @ '' AND '' @ EXTERNAL_DST @
     '' AND DstAS != 0 GROUP BY host, asn, as_name ORDER BY bytes DESC LIMIT 60) '')\<close>

definition nf_external :: "placement list" where
  \<open>nf_external =
    [(text_panel 200 '''' (''## Autonomous systems and geography'' @ [NL] @
       ''ASN and country enrichment comes from the MaxMind/IPinfo databases mounted '' @
       ''in `akvorado/geoip/`. When the databases are missing, Akvorado still stores '' @
       ''flows but AS, country, and network labels stay empty. The resolution tiles '' @
       ''below make that state explicit.'' @ [NL] @ [NL] @
       ''**Resolution here reads low by design, and that is not a fault.** Most flows '' @
       ''on this network are LAN-to-LAN, and a private address has no AS or country '' @
       ''by definition. The tiles measure resolution over boundary-crossing flows,'' @
       '' so the honest reading is 'of the traffic that actually left, how much did '' @
       ''we identify' -- not 'how much of the enrichment is broken'.'' @ [NL] @ [NL] @
       ''Read source-side panels as **who sent traffic to you or to local services** '' @
       ''and destination-side panels as **where your clients sent traffic**. On a '' @
       ''home LAN most source ports are ephemeral; AS and destination ports are usually '' @
       ''the cleaner story.'' @ [NL] @ [NL] @
       ''City-level enrichment is deliberately off (the City and Country databases '' @
       ''together OOM the orchestrator at its current memory limit), so there is '' @
       ''no city panel here.''), 0, 0, 24, 5),
     (ch_stat 201 ''Destination AS Resolution''
       (''SELECT round(100 * countIf(DstAS != 0) / greatest(count(), 1)) AS pct FROM '' @
       ''flows WHERE $__timeFilter(TimeReceived) AND '' @ ROUTER_SQL @ '' AND '' @ EXTERNAL_DST)
       ''percent''
       (''Share of outbound/external-destination flows that resolved to a destination '' @
       ''AS number.''), 0, 5, 6, 4),
     (ch_stat 202 ''Source AS Resolution''
       (''SELECT round(100 * countIf(SrcAS != 0) / greatest(count(), 1)) AS pct FROM '' @
       ''flows WHERE $__timeFilter(TimeReceived) AND '' @ ROUTER_SQL @ '' AND '' @ EXTERNAL_SRC)
       ''percent'' ''Share of internet-source flows that resolved to a source AS number.'',
       6, 5, 6, 4),
     (ch_stat 207 ''Country Resolution'' (''SELECT round(100 * countIf('' @ SRC_COUNTRY @ '' != '' @
       [SQ] @ ''' OR '' @ DST_COUNTRY @ '' != '' @ [SQ] @
       ''') / greatest(count(), 1)) AS pct FROM flows WHERE $__timeFilter(TimeReceived) '' @
       ''AND '' @ ROUTER_SQL @ '' AND '' @ CROSSES_BOUNDARY) ''percent''
       (''Share of boundary-crossing flows with either side resolved to a non-empty '' @
       ''country code.''), 12, 5, 6, 4),
     (ch_stat 203 ''Countries Contacted'' (''SELECT uniqExactIf('' @ DST_COUNTRY @ '', '' @
       DST_COUNTRY @ '' != '' @ [SQ] @
       ''') AS countries FROM flows WHERE $__timeFilter(TimeReceived) AND '' @ ROUTER_SQL @
       '' AND '' @ EXTERNAL_DST) ''none''
       (''Distinct destination countries resolved in this range. Counts only flows '' @
       ''whose destination country actually resolved, so it is a floor on the real '' @
       ''spread, not an estimate of it.''), 18, 5, 6, 4),
     (bargauge 204 ''Top Destination AS'' [ch_query
       (''SELECT concat('AS', toString(DstAS), ' ', dictGetOrDefault('asns', 'name','' @
       '' toUInt64(DstAS), '' @ [SQ] @
       ''')) AS asn, sum(Bytes * SamplingRate) AS bytes FROM flows WHERE $__timeFilter('' @
       ''TimeReceived) AND '' @ ROUTER_SQL @ '' AND '' @ EXTERNAL_DST @
       '' AND DstAS != 0 GROUP BY asn ORDER BY bytes DESC LIMIT 15'') ''A'' 2] ''bytes''
       ''Networks your traffic actually goes to, by bytes. Requires GeoIP/ASN.''
       (kw\<lparr>o_transformations := Some [limit 15], o_values := Some True\<rparr>),
       0, 9, 12, 9),
     (bargauge 208 ''Top Source AS'' [ch_query
       (''SELECT concat('AS', toString(SrcAS), ' ', dictGetOrDefault('asns', 'name','' @
       '' toUInt64(SrcAS), '' @ [SQ] @
       ''')) AS asn, sum(Bytes * SamplingRate) AS bytes FROM flows WHERE $__timeFilter('' @
       ''TimeReceived) AND '' @ ROUTER_SQL @ '' AND '' @ EXTERNAL_SRC @
       '' AND SrcAS != 0 GROUP BY asn ORDER BY bytes DESC LIMIT 15'') ''A'' 2] ''bytes''
       (''Internet-side source networks by bytes. This is the panel to inspect for '' @
       ''inbound traffic or remote services sending data to the LAN.'')
       (kw\<lparr>o_transformations := Some [limit 15], o_values := Some True\<rparr>),
       12, 9, 12, 9),
     (bargauge 205 ''Top Destination Country'' [ch_query (''SELECT '' @ DST_COUNTRY @
       '' AS country, sum(Bytes * SamplingRate) AS bytes FROM flows WHERE $__timeFilter('' @
       ''TimeReceived) AND '' @ ROUTER_SQL @ '' AND '' @ EXTERNAL_DST @ '' AND '' @ DST_COUNTRY @
       '' != '' @ [SQ] @ ''' GROUP BY country ORDER BY bytes DESC LIMIT 15'') ''A'' 2] ''bytes''
       ''Destination countries by bytes. Requires GeoIP.''
       (kw\<lparr>o_transformations := Some [limit 15], o_values := Some True\<rparr>),
       0, 18, 12, 9),
     (bargauge 209 ''Top Source Country'' [ch_query (''SELECT '' @ SRC_COUNTRY @
       '' AS country, sum(Bytes * SamplingRate) AS bytes FROM flows WHERE $__timeFilter('' @
       ''TimeReceived) AND '' @ ROUTER_SQL @ '' AND '' @ EXTERNAL_SRC @ '' AND '' @ SRC_COUNTRY @
       '' != '' @ [SQ] @ ''' GROUP BY country ORDER BY bytes DESC LIMIT 15'') ''A'' 2] ''bytes''
       (''Internet-side source countries by bytes. Missing countries are stripped '' @
       ''instead of showing ClickHouse FixedString NUL bytes.'')
       (kw\<lparr>o_transformations := Some [limit 15], o_values := Some True\<rparr>),
       12, 18, 12, 9),
     (timeseries 206 ''Throughput by Destination AS'' [ch_query
       (''SELECT $__timeInterval(TimeReceived) AS time, concat('AS', toString(DstAS)) '' @
       ''AS asn, sum(Bytes * SamplingRate) * 8 / $__interval_s AS bps FROM flows '' @
       ''WHERE $__timeFilter(TimeReceived) AND '' @ ROUTER_SQL @ '' AND '' @ EXTERNAL_DST @
       '' AND DstAS != 0 AND DstAS IN (SELECT DstAS FROM flows WHERE $__timeFilter('' @
       ''TimeReceived) AND '' @ ROUTER_SQL @ '' AND '' @ EXTERNAL_DST @
       '' AND DstAS != 0 GROUP BY DstAS ORDER BY sum(Bytes * SamplingRate) DESC LIMIT '' @
       ''8) GROUP BY time, asn ORDER BY time'') ''A'' 1] ''bps''
       ''Bit rate to the eight busiest destination networks. Requires GeoIP/ASN.''
       (kw\<lparr>o_stacked := Some True, o_transformations := Some [partition_by
       ''asn'']\<rparr>), 0, 27, 12, 9),
     (timeseries 210 ''Throughput by Source AS'' [ch_query
       (''SELECT $__timeInterval(TimeReceived) AS time, concat('AS', toString(SrcAS)) '' @
       ''AS asn, sum(Bytes * SamplingRate) * 8 / $__interval_s AS bps FROM flows '' @
       ''WHERE $__timeFilter(TimeReceived) AND '' @ ROUTER_SQL @ '' AND '' @ EXTERNAL_SRC @
       '' AND SrcAS != 0 AND SrcAS IN (SELECT SrcAS FROM flows WHERE $__timeFilter('' @
       ''TimeReceived) AND '' @ ROUTER_SQL @ '' AND '' @ EXTERNAL_SRC @
       '' AND SrcAS != 0 GROUP BY SrcAS ORDER BY sum(Bytes * SamplingRate) DESC LIMIT '' @
       ''8) GROUP BY time, asn ORDER BY time'') ''A'' 1] ''bps''
       (''Bit rate from the eight busiest source networks. Useful for inbound traffic '' @
       ''and remote services that send large responses.'') (kw\<lparr>o_stacked := Some True,
       o_transformations := Some [partition_by ''asn'']\<rparr>), 12, 27, 12, 9),
     (table 211 ''AS Conversation Matrix'' [ch_query
       (''SELECT concat('AS', toString(SrcAS), ' ', dictGetOrDefault('asns', 'name','' @
       '' toUInt64(SrcAS), '' @ [SQ] @
       ''')) AS SourceAS, concat('AS', toString(DstAS), ' ', dictGetOrDefault('asns','' @
       '' 'name', toUInt64(DstAS), '' @ [SQ] @
       ''')) AS DestinationAS, count() AS Flows, uniq(SrcAddr) AS Sources, uniq(DstAddr) '' @
       ''AS Destinations, sum(Bytes * SamplingRate) AS Bytes, sum(Packets * SamplingRate) '' @
       ''AS Packets FROM flows WHERE $__timeFilter(TimeReceived) AND '' @ ROUTER_SQL @
       '' AND (SrcAS != 0 OR DstAS != 0) GROUP BY SourceAS, DestinationAS ORDER BY '' @
       ''Bytes DESC LIMIT 50'') ''A'' 2]
       (''Who is talking to whom at the AS level, with local or unresolved sides grouped '' @
       ''as AS0. This makes CDN, resolver, cloud, and remote-service relationships '' @
       ''visible in one sortable table.'') (kw\<lparr>o_sort_col := Some ''Bytes''\<rparr>),
       0, 36, 24, 10),
     (table 212 ''Country Pair Matrix'' [ch_query (''SELECT if('' @ SRC_COUNTRY @ '' = '' @ [SQ] @
       ''', 'unresolved', '' @ SRC_COUNTRY @ '') AS SourceCountry, if('' @ DST_COUNTRY @ '' = '' @
       [SQ] @ ''', 'unresolved', '' @ DST_COUNTRY @
       '') AS DestinationCountry, count() AS Flows, sum(Bytes * SamplingRate) AS '' @
       ''Bytes FROM flows WHERE $__timeFilter(TimeReceived) AND '' @ ROUTER_SQL @ '' AND '' @
       CROSSES_BOUNDARY @
       '' GROUP BY SourceCountry, DestinationCountry ORDER BY Bytes DESC LIMIT 50'') ''A'' 2]
       (''Country-to-country pairs after stripping missing FixedString values. This '' @
       ''is a compact way to see where traffic is going without exposing individual '' @ ''IPs.'')
       (kw\<lparr>o_sort_col := Some ''Bytes''\<rparr>), 0, 46, 24, 9),
     (ch_geomap 214 ''Where the Traffic Goes'' (''SELECT '' @ DST_COUNTRY @
       '' AS country, sum(Bytes * SamplingRate) AS bytes FROM flows WHERE $__timeFilter('' @
       ''TimeReceived) AND '' @ ROUTER_SQL @ '' AND '' @ EXTERNAL_DST @ '' AND '' @ DST_COUNTRY @
       '' != '' @ [SQ] @ ''' GROUP BY country ORDER BY bytes DESC LIMIT 100'') ''country''
       (''Destination countries, marker size and colour by bytes.'' @ [NL] @ [NL] @
       ''Only flows whose destination country resolved appear here -- roughly a third '' @
       ''of boundary-crossing flows, per the Country Resolution tile above. Read '' @
       ''the map as 'where the identified traffic went', not as a complete picture: '' @
       ''an absent country means unresolved just as often as it means unvisited.'' @ [NL] @ [NL] @
       ''Markers sit at country centroids from Grafana's built-in gazetteer. They '' @
       ''are not the location of any actual host, and country-level GeoIP is itself '' @
       ''only an approximation -- anycast CDN traffic in particular resolves to wherever '' @
       ''the address block is registered.''), 0, 55, 24, 11),
     (ch_nodegraph 215 ''Local Hosts to External Networks'' (nf_NODE_PAIRS @
       (''SELECT concat('h:', host) AS id, host AS title, 'local host' AS subtitle,'' @
       '' sum(bytes) AS mainstat, sum(flows) AS secondarystat FROM pairs GROUP BY '' @
       ''id, title UNION ALL SELECT concat('a:', asn) AS id, as_name AS title, concat('' @
       '''AS', asn) AS subtitle, sum(bytes) AS mainstat, sum(flows) AS secondarystat '' @
       ''FROM pairs GROUP BY id, title, subtitle'')) (nf_NODE_PAIRS @
       (''SELECT concat(host, '>', asn) AS id, concat('h:', host) AS source, concat('' @
       '''a:', asn) AS target, bytes AS mainstat, flows AS secondarystat FROM pairs''))
       (''Which local devices talk to which networks on the internet, sized by bytes. '' @
       ''Node stats are bytes (main) and flow count (secondary).'' @ [NL] @ [NL] @
       ''Only flows with a resolved destination AS are included, and only the 60 '' @
       ''heaviest host-to-network pairs in the range -- Grafana hides nodes past '' @
       ''200 behind cluster markers, so the cap keeps the graph readable rather than '' @
       ''truthful-but-unusable. The dashboard keeps the grouped label set bounded '' @
       ''for Grafana.'' @ [NL] @ [NL] @
       ''This is the same relationship the AS Conversation Matrix below states as '' @
       ''a table. The table is what you sort and filter; this is what makes a device '' @
       ''with an unexpected number of network relationships obvious at a glance.''),
       0, 66, 24, 13)]\<close>

definition nf_security :: "placement list" where
  \<open>nf_security =
    [(text_panel 400 '''' (''## Shapes worth a second look'' @ [NL] @
       ''Nothing on this tab is an alert, and nothing here means you have been attacked. '' @
       ''These are traffic *shapes* that are occasionally worth explaining -- and '' @
       ''that a home network produces innocently all the time.'' @ [NL] @ [NL] @
       ''- A browser opening a page touches dozens of CDN endpoints; that is fan-out.'' @ [NL] @
       ''- Connections get reset constantly as pages are abandoned; that is resets.'' @ [NL] @
       ''- Phones and TVs probe the LAN continuously; that is discovery traffic.'' @ [NL] @ [NL] @
       ''The useful signal is almost never a single number being non-zero. It is '' @
       ''a **change**: a device that suddenly fans out far wider than it used to,'' @
       '' or a reset rate that climbs against one destination. Compare against a '' @
       ''quiet period before drawing conclusions.'' @ [NL] @ [NL] @
       ''**Coverage caveat applies here more than anywhere else.** Hardware flow '' @
       ''offload means softflowd never sees some traffic, so absence of a signal '' @
       ''on this tab is not evidence of absence. Check the Pipeline Health tab first.''),
       0, 0, 24, 7),
     (ch_stat 401 ''Reset Rate''
       (''SELECT round(100 * countIf(bitAnd(TCPFlags, 4) != 0) / greatest(count(),'' @
       '' 1)) AS pct FROM flows WHERE $__timeFilter(TimeReceived) AND '' @ ROUTER_SQL @
       '' AND Proto = 6'') ''percent''
       (''Share of TCP flows in which a RST was seen at any point.'' @ [NL] @ [NL] @
       ''A quarter to a third is entirely normal -- browsers abandon connections,'' @
       '' servers close idle sockets, and connection racing (Happy Eyeballs) resets '' @
       ''the loser by design. Watch the trend, not the value, and cross-check against '' @
       ''the destination breakdown below if it moves.''), 0, 7, 6, 4),
     (ch_stat 402 ''Unanswered Attempts''
       (''SELECT countIf(bitAnd(TCPFlags, 2) != 0 AND bitAnd(TCPFlags, 16) = 0) AS '' @
       ''flows FROM flows WHERE $__timeFilter(TimeReceived) AND '' @ ROUTER_SQL @
       '' AND Proto = 6'') ''none''
       (''TCP flows that carried a SYN and never a matching ACK -- a connection attempt '' @
       ''that got nothing back.'' @ [NL] @ [NL] @
       ''This is the closest thing in the dataset to a scan signature, and it is '' @
       ''normally a handful of flows: an unreachable host, a service that moved, '' @
       ''a stale bookmark. It has no threshold colour on purpose, because the number '' @
       ''that matters is how it compares to yesterday, not whether it crossed a line '' @
       ''someone guessed at.''), 6, 7, 6, 4),
     (ch_stat 403 ''Widest Fan-out''
       (''SELECT max(dests) AS dests FROM (SELECT uniq(DstAddr) AS dests FROM flows '' @
       ''WHERE $__timeFilter(TimeReceived) AND '' @ ROUTER_SQL @ '' AND '' @ LOCAL_SRC @
       '' AND '' @ EXTERNAL_DST @ '' GROUP BY SrcAddr)'') ''none''
       (''The largest number of distinct external addresses any single local host '' @
       ''contacted in this range.'' @ [NL] @ [NL] @
       ''Ordinary web browsing reaches hundreds of endpoints per hour, so a high '' @
       ''number is normal for a laptop or phone and notable for a device that should '' @
       ''be quiet -- a thermostat, a printer, a camera. The table below names which '' @
       ''host it was.''), 12, 7, 6, 4),
     (ch_stat 404 ''Inbound Sources''
       (''SELECT uniq(SrcAddr) AS sources FROM flows WHERE $__timeFilter(TimeReceived) '' @
       ''AND '' @ ROUTER_SQL @ '' AND '' @ EXTERNAL_SRC @ '' AND '' @ LOCAL_DST @
       '' AND DstPort > 0 AND DstPort < 1024'') ''none''
       (''Distinct internet-side addresses that sent traffic to a well-known port '' @
       ''(below 1024) on a local host.'' @ [NL] @ [NL] @
       ''Behind NAT with no port forwards this is mostly replies to things the LAN '' @
       ''started -- NTP servers answering, for instance. A rising count, or traffic '' @
       ''to a port you did not expose, is worth explaining.''), 18, 7, 6, 4),
     (timeseries 405 ''TCP Flow Outcomes over Time'' [ch_query
       ((''SELECT $__timeInterval(TimeReceived) AS time, '' @ tcp_shape_counts) @
       ('' FROM flows WHERE $__timeFilter(TimeReceived) AND '' @ ROUTER_SQL @
       '' AND Proto = 6 GROUP BY time ORDER BY time'')) ''A'' 1] ''none''
       (''The decoded TCP outcomes from the Applications tab, over time and stacked.'' @ [NL] @
       [NL] @ ''The point of the time axis is that the mix is normally stable. A step change '' @
       ''-- resets suddenly dominating, or unanswered attempts appearing in a band '' @
       ''where there were none -- is the thing to notice; the absolute counts follow '' @
       ''whatever the network was doing.'') (kw\<lparr>o_stacked := Some True,
       o_overrides := Some TCP_SHAPE_COLORS\<rparr>), 0, 11, 12, 9),
     (timeseries 406 ''ICMP Volume'' [ch_query
       (''SELECT $__timeInterval(TimeReceived) AS time, countIf(Proto = 1) AS "ICMPv4",'' @
       '' countIf(Proto = 58) AS "ICMPv6" FROM flows WHERE $__timeFilter(TimeReceived) '' @
       ''AND '' @ ROUTER_SQL @ '' AND Proto IN (1, 58) GROUP BY time ORDER BY time'') ''A'' 1]
       ''none'' (''ICMP and ICMPv6 flow counts over time.'' @ [NL] @ [NL] @
       ''**No type/code breakdown is possible here.** ClickHouse ships an `icmp` '' @
       ''dictionary that maps (protocol, type, code) to names like `echo-request` '' @
       ''or `destination-unreachable`, but softflowd does not export ICMP type or '' @
       ''code -- the field is a constant zero on every ICMP flow in this deployment. '' @
       ''Decoding it would label everything `echo-reply`, which is what the dictionary '' @
       ''returns for (1,0,0) and not a fact about the traffic. Volume is what the '' @
       ''data honestly supports.'' @ [NL] @ [NL] @
       ''ICMPv6 is steady and high on any IPv6 LAN: neighbour discovery and router '' @
       ''advertisement are ICMPv6. A sustained ICMPv4 climb is the more interesting '' @
       ''of the two.'') kw, 12, 11, 12, 9),
     (table 407 ''Fan-out by Local Host'' [ch_query (''SELECT '' @ ip_display ''SrcAddr'' @
       '' AS Host, uniq(DstAddr) AS Destinations, uniq(DstAS) AS Networks, uniq(DstPort) '' @
       ''AS Ports, count() AS Flows, sum(Bytes * SamplingRate) AS Bytes FROM flows '' @
       ''WHERE $__timeFilter(TimeReceived) AND '' @ ROUTER_SQL @ '' AND '' @ LOCAL_SRC @
       '' AND '' @ EXTERNAL_DST @ '' GROUP BY Host ORDER BY Destinations DESC LIMIT 30'') ''A'' 2]
       (''Local hosts ranked by how many distinct external destinations they contacted.'' @ [NL] @
       [NL] @ ''**This is a browsing-activity ranking as much as anything else.** A laptop '' @
       ''at the top of this table is the expected result, not a finding. What is '' @
       ''worth a look is a device with a narrow job -- a printer, a smart plug, an '' @
       ''IP camera -- sitting anywhere near the top, or a host whose `Ports` count '' @
       ''is high while its `Bytes` stay tiny, which is the shape of probing rather '' @
       ''than of using a service.'' @ [NL] @ [NL] @
       ''`Networks` counts distinct destination ASes and is the steadier column: '' @
       ''CDN fan-out inflates `Destinations` heavily but usually resolves to only '' @
       ''a handful of networks.'') (kw\<lparr>o_sort_col := Some ''Destinations''\<rparr>),
       0, 20, 12, 10),
     (table 408 ''Inbound to Local Hosts'' [ch_query (''SELECT '' @ ip_display ''DstAddr'' @
       '' AS Target, DstPort AS Port, dictGetOrDefault('protocols', 'name', toUInt64('' @
       ''Proto), toString(Proto)) AS Protocol, uniq(SrcAddr) AS Sources, count() '' @
       ''AS Flows, sum(Bytes * SamplingRate) AS Bytes FROM flows WHERE $__timeFilter('' @
       ''TimeReceived) AND '' @ ROUTER_SQL @ '' AND '' @ EXTERNAL_SRC @ '' AND '' @ LOCAL_DST @
       '' AND DstPort > 0 AND DstPort < 1024 GROUP BY Target, Port, Protocol ORDER '' @
       ''BY Flows DESC LIMIT 30'') ''A'' 2]
       (''Traffic from internet-side sources to well-known ports on local hosts.'' @ [NL] @ [NL] @
       ''Restricted to ports below 1024 to keep ordinary reply traffic on ephemeral '' @
       ''ports out. Most of what remains is still solicited -- an NTP server answering '' @
       ''the LAN's own query looks exactly like an inbound flow to port 123, because '' @
       ''from the capture's point of view that is what it is. softflowd cannot tell '' @
       ''a reply from an unsolicited connection.'' @ [NL] @ [NL] @
       ''Read it as an inventory of what reaches in and on which port, and check '' @
       ''anything you did not deliberately expose. An empty table is the expected '' @
       ''state behind NAT with no port forwards.'')
       (kw\<lparr>o_sort_col := Some ''Flows''\<rparr>), 12, 20, 12, 10)]\<close>

definition nf_health :: "placement list" where
  \<open>nf_health =
    [(text_panel 300 '''' (''## Is the flow data trustworthy?'' @ [NL] @
       ''Everything on this tab is Prometheus, not ClickHouse. The flow pipeline '' @
       ''has three failure modes that produce *plausible but wrong* data rather than '' @
       ''an error:'' @ [NL] @ [NL] @
       ''1. **Hardware flow offload** -- packets forwarded by the switch ASIC never '' @
       ''reach softflowd.'' @ [NL] @
       ''2. **libpcap drops** -- the router could not keep up and flows are missing '' @
       ''packets.'' @ [NL] @
       ''3. **Flow table overflow** -- `max_flows` was hit, so flows expired early '' @
       ''and byte counts are truncated.'' @ [NL] @ [NL] @
       ''All three are surfaced below. Treat a non-zero value in any of them as 'the '' @
       ''numbers on the other tabs are a lower bound'.''), 0, 0, 24, 6),
     (stat 301 ''Exporter Running'' (''min(openwrt_netflow_exporter_up{'' @ PROM_FILTER @
       ''}) or vector(0)'') ''none''
       (''Whether every configured softflowd instance answered on its control socket. '' @
       ''Reads 0 if any capture interface has no live exporter.'')
       (kw\<lparr>o_mappings := Some AVAILABILITY_MAPPINGS, o_thresholds_key := Some Unavailable,
       o_color_mode := Some ''value''\<rparr>), 0, 6, 6, 4),
     (stat 302 ''Flow Data Complete'' (''(max(openwrt_flow_offload_enabled{'' @ PROM_FILTER @
       '', mode="hw"}) == bool 0) or vector(0)'') ''none''
       (''0 means hardware flow offload is enabled, so the switch ASIC forwards traffic '' @
       ''the CPU never sees and softflowd cannot capture it. Flow totals are then '' @
       ''incomplete by an unknown amount. Set NETFLOW_DISABLE_HW_OFFLOAD=1 when running '' @
       ''setup.sh to trade routing throughput for complete accounting.'')
       (kw\<lparr>o_mappings := Some [JDict [(''type'', JStr ''value''), (''options'',
       JDict [(''1'', JDict [(''text'', JStr ''Complete''), (''color'', JStr ''green''),
       (''index'', JInt 0)]), (''0'', JDict [(''text'', JStr ''Incomplete (HW offload)''),
       (''color'', JStr ''red''), (''index'', JInt 1)])])]], o_thresholds_key := Some Unavailable,
       o_color_mode := Some ''value''\<rparr>), 6, 6, 6, 4),
     (stat 303 ''Capture Drops'' (''sum(rate(openwrt_netflow_pcap_packets_dropped_total{'' @
       PROM_FILTER @ ''}[$__rate_interval])) or vector(0)'') ''pps''
       (''Packets libpcap discarded because softflowd could not keep up. Anything '' @
       ''above zero means flows are missing packets; reduce the captured interface '' @
       ''set or raise NETFLOW_SAMPLING_RATE.'') (kw\<lparr>o_thresholds_key := Some Unavailable,
       o_graph := Some True\<rparr>), 12, 6, 6, 4),
     (stat 304 ''Forced Flow Expiry'' (''sum(rate(openwrt_netflow_flows_force_expired_total{'' @
       PROM_FILTER @ ''}[$__rate_interval])) or vector(0)'') ''none''
       (''Flows expired early because the softflowd flow table was full. Non-zero '' @
       ''truncates byte counts; raise NETFLOW_MAX_FLOWS.'')
       (kw\<lparr>o_thresholds_key := Some Unavailable, o_graph := Some True\<rparr>),
       18, 6, 6, 4),
     (timeseries 305 ''Router Exporter Rates'' [prom_query
       (''sum(rate(openwrt_netflow_packets_processed_total{'' @ PROM_FILTER @
       ''}[$__rate_interval]))'') ''packets processed'' ''A'' ''time_series'' False, prom_query
       (''sum(rate(openwrt_netflow_flows_exported_total{'' @ PROM_FILTER @
       ''}[$__rate_interval]))'') ''flows exported'' ''B'' ''time_series'' False, prom_query
       (''sum(rate(openwrt_netflow_pcap_packets_dropped_total{'' @ PROM_FILTER @
       ''}[$__rate_interval]))'') ''libpcap drops'' ''C'' ''time_series'' False, prom_query
       (''sum(rate(openwrt_netflow_export_failures_total{'' @ PROM_FILTER @
       ''}[$__rate_interval]))'') ''export failures'' ''D'' ''time_series'' False] ''none''
       (''softflowd's own counters. Export failures mean the router could not send '' @
       ''to the collector -- check the inlet is reachable on the NetFlow port.'')
       (kw\<lparr>o_overrides := Some [JDict [(''matcher'', JDict [(''id'', JStr ''byName''),
       (''options'', JStr ''libpcap drops'')]), (''properties'',
       JList [JDict [(''id'', JStr ''color''), (''value'', JDict [(''mode'', JStr ''fixed''),
       (''fixedColor'', JStr RED)])]])], JDict [(''matcher'', JDict [(''id'', JStr ''byName''),
       (''options'', JStr ''export failures'')]), (''properties'',
       JList [JDict [(''id'', JStr ''color''), (''value'', JDict [(''mode'', JStr ''fixed''),
       (''fixedColor'', JStr RED)])]])], JDict [(''matcher'', JDict [(''id'', JStr ''byName''),
       (''options'', JStr ''flows exported'')]), (''properties'',
       JList [JDict [(''id'', JStr ''color''), (''value'', JDict [(''mode'', JStr ''fixed''),
       (''fixedColor'', JStr GREEN)])]])]]\<rparr>), 0, 10, 12, 9),
     (timeseries 306 ''Collector Pipeline Rates'' [prom_query
       (''sum(rate(akvorado_inlet_flow_input_udp_packets_total[$__rate_interval])) '' @
       ''or vector(0)'') ''inlet UDP packets'' ''A'' ''time_series'' False, prom_query
       (''sum(rate(akvorado_inlet_flow_input_udp_in_dropped_packets_total[$__rate_interval])) '' @
       ''or vector(0)'') ''inlet kernel drops'' ''B'' ''time_series'' False, prom_query
       (''sum(rate(akvorado_outlet_core_received_flows_total[$__rate_interval])) or '' @
       ''vector(0)'') ''outlet flows received'' ''C'' ''time_series'' False, prom_query
       (''sum(rate(akvorado_outlet_core_forwarded_flows_total[$__rate_interval])) '' @
       ''or vector(0)'') ''outlet flows stored'' ''D'' ''time_series'' False] ''none''
       (''Akvorado's own counters, scraped as job="akvorado". Two gaps to read here:'' @ [NL] @
       [NL] @ ''- **inlet kernel drops** above zero means the UDP receive buffer overflowed. '' @
       ''Akvorado's docs are explicit that this makes byte and packet counts unreliable,'' @
       '' because the reported sampling rate no longer matches what actually arrived.'' @ [NL] @
       ''- **received but not stored** means enrichment is dropping flows. Almost '' @
       ''always an ifIndex that akvorado/exporters.yaml does not know. The breakdown '' @
       ''panel below names the exact reason.'')
       (kw\<lparr>o_overrides := Some [JDict [(''matcher'', JDict [(''id'', JStr ''byName''),
       (''options'', JStr ''inlet kernel drops'')]), (''properties'',
       JList [JDict [(''id'', JStr ''color''), (''value'', JDict [(''mode'', JStr ''fixed''),
       (''fixedColor'', JStr RED)])]])], JDict [(''matcher'', JDict [(''id'', JStr ''byName''),
       (''options'', JStr ''outlet flows stored'')]), (''properties'',
       JList [JDict [(''id'', JStr ''color''), (''value'', JDict [(''mode'', JStr ''fixed''),
       (''fixedColor'', JStr GREEN)])]])]]\<rparr>), 12, 10, 12, 9),
     (table 307 ''Capture Interfaces and ifIndex'' [prom_query (''openwrt_netflow_ifindex{'' @
       PROM_FILTER @ ''}'') '''' ''A'' ''table'' True, prom_query
       (''openwrt_netflow_exporter_up{'' @ PROM_FILTER @ ''}'') '''' ''B'' ''table'' True,
       prom_query (''openwrt_netflow_active_flows{'' @ PROM_FILTER @ ''}'') '''' ''C'' ''table''
       True] (''The ifIndex column is what must match akvorado/exporters.yaml. A mismatch '' @
       ''discards every flow from that interface with no error anywhere -- it looks '' @
       ''identical to NetFlow not working at all.'')
       (kw\<lparr>o_transformations := Some [JDict [(''kind'', JStr ''merge''), (''spec'',
       JDict [(''id'', JStr ''merge''), (''options'', JDict [])])], organize [''Time'',
       ''__name__'', ''cluster'', ''endpoint'', ''instance'', ''job'', ''namespace'',
       ''prometheus'', ''prometheus_replica'', ''service''] [(''router'', ''Router''),
       (''interface'', ''Interface''), (''Value #A'', ''ifIndex''),
       (''Value #B'', ''Exporter Up''), (''Value #C'', ''Active Flows'')] [(''Router'', 0),
       (''Interface'', 1), (''ifIndex'', 2), (''Exporter Up'', 3), (''Active Flows'', 4)], limit
       25], o_sort_col := Some ''Router'', o_sort_desc := Some False\<rparr>), 0, 19, 12, 9),
     (timeseries 308 ''Flow Table Occupancy'' [prom_query (''openwrt_netflow_active_flows{'' @
       PROM_FILTER @ ''}'') ''{{router}} {{interface}}'' ''A'' ''time_series'' False] ''none''
       (''Flows currently tracked by softflowd. Approaching NETFLOW_MAX_FLOWS (8192 '' @
       ''by default) is what causes the forced expiry above.'')
       (kw\<lparr>o_overrides := Some []\<rparr>), 12, 19, 12, 9),
     (stat 309 ''Collector Available'' (''min(openwrt_netflow_collector_available{'' @ PROM_FILTER @
       ''}) or vector(0)'') ''none''
       (''Whether the health collector itself ran and reached at least one exporter. '' @
       ''0 with the netflow profile installed means softflowctl is missing or every '' @
       ''instance is down.'') (kw\<lparr>o_mappings := Some AVAILABILITY_MAPPINGS,
       o_thresholds_key := Some Unavailable, o_color_mode := Some ''value''\<rparr>), 0, 28, 8, 4),
     (stat 310 ''Export Failures'' (''sum(increase(openwrt_netflow_export_failures_total{'' @
       PROM_FILTER @ ''}[$__range])) or vector(0)'') ''none''
       (''Flows softflowd could not send to the collector over the selected range. '' @
       ''Non-zero means UDP to the Akvorado inlet is failing.'')
       (kw\<lparr>o_thresholds_key := Some Unavailable\<rparr>), 8, 28, 8, 4),
     (stat 311 ''Textfile Freshness'' (''max(time() - node_textfile_mtime_seconds{'' @ PROM_FILTER @
       ''}) or vector(999999)'') ''s''
       (''Age of the router's textfile metrics, including this collector's output. '' @
       ''A stale value means cron is not running the health script.'')
       (kw\<lparr>o_thresholds_key := Some Freshness, o_graph := Some True\<rparr>), 16, 28, 8, 4),
     (bargauge 312 ''Collector Error Reasons'' [prom_query
       ''sum by(error) (increase({__name__=~"akvorado_outlet_core_.*errors_total"}[$__range]))''
       ''{{error}}'' ''A'' ''time_series'' False] ''none''
       (''Why the outlet discarded flows over the selected range, by Akvorado's own '' @
       ''reason label. 'metadata missing' means the ifIndex is not in akvorado/exporters.yaml '' @
       ''- the most likely failure on a fresh install. 'sampling rate missing' is '' @
       ''normal briefly at startup but should stop increasing; if it keeps climbing,'' @
       '' akvorado.yaml's default-sampling-rate is not taking effect. Empty is the '' @
       ''healthy state.'') (kw\<lparr>o_transformations := Some [limit 10]\<rparr>), 0, 32, 24, 7),
     (state_timeline 313 ''Availability History'' [prom_query (''min(openwrt_netflow_exporter_up{'' @
       PROM_FILTER @ ''}) or vector(0)'') ''Exporter running'' ''A'' ''time_series'' False,
       prom_query (''min(openwrt_netflow_collector_available{'' @ PROM_FILTER @
       ''}) or vector(0)'') ''Health collector'' ''B'' ''time_series'' False, prom_query
       (''(max(openwrt_flow_offload_enabled{'' @ PROM_FILTER @
       '', mode="hw"}) == bool 0) or vector(0)'') ''Capture complete'' ''C'' ''time_series''
       False] ''none''
       (''Each of the three trust conditions above, over the selected range instead '' @
       ''of right now.'' @ [NL] @ [NL] @
       ''This is the panel that answers 'was it down at 3am'. A gap in **Exporter '' @
       ''running** means softflowd was not answering, so flows from that window are '' @
       ''missing entirely rather than merely incomplete. **Capture complete** going '' @
       ''red means hardware flow offload was active and the totals for that period '' @
       ''are a lower bound.'' @ [NL] @ [NL] @
       ''The three series are deliberately the same conditions as the tiles at the '' @
       ''top of the tab, so a tile and its history can never disagree.'')
       (kw\<lparr>o_mappings := Some [JDict [(''type'', JStr ''value''), (''options'',
       JDict [(''1'', JDict [(''text'', JStr ''OK''), (''color'', JStr GREEN),
       (''index'', JInt 0)]), (''0'', JDict [(''text'', JStr ''Degraded''), (''color'', JStr RED),
       (''index'', JInt 1)])])], JDict [(''type'', JStr ''special''), (''options'',
       JDict [(''match'', JStr ''null''), (''result'', JDict [(''text'', JStr ''No data''),
       (''color'', JStr GRAY), (''index'', JInt 2)])])]],
       o_color_mode := Some ''palette-classic'', o_thresholds_key := Some OkBad\<rparr>),
       0, 39, 24, 8),
     (table 314 ''Direction Cross-Check'' [ch_query
       (''SELECT FlowDirection AS Reported, multiIf(SrcNetRole = 'internal' AND DstNetRole '' @
       ''= 'internal', 'local', SrcNetRole = 'internal', 'outbound', 'inbound') AS '' @
       ''Derived, count() AS Flows, sum(Bytes * SamplingRate) AS Bytes FROM flows '' @
       ''WHERE $__timeFilter(TimeReceived) AND '' @ ROUTER_SQL @
       '' GROUP BY Reported, Derived ORDER BY Flows DESC LIMIT 20'') ''A'' 2]
       (''Akvorado's own `FlowDirection` against the direction this dashboard derives '' @
       ''from address role. These are independent signals and this table is the only '' @
       ''place they meet.'' @ [NL] @ [NL] @
       ''The expected shape is a strong diagonal: `egress`/`outbound` and `ingress`/`inbound` '' @
       ''should carry nearly all the flows. That agreement is what justifies using '' @
       ''address role everywhere else -- `InIfBoundary` is unusable here because '' @
       ''softflowd reports one ifIndex for both directions, but `FlowDirection` is '' @
       ''populated independently and corroborates the workaround.'' @ [NL] @ [NL] @
       ''If the diagonal breaks down, suspect `clickhouse.networks` in akvorado.yaml: '' @
       ''a LAN prefix missing from it makes every local address look external and '' @
       ''skews every direction-split panel on the Flow Overview tab. Rows with a '' @
       ''blank role are flows where neither side matched a configured prefix.'')
       (kw\<lparr>o_sort_col := Some ''Flows''\<rparr>), 0, 47, 24, 9)]\<close>

definition nf_internals :: "placement list" where
  \<open>nf_internals =
    [(text_panel 500 '''' (''## Where the collector is struggling'' @ [NL] @
       ''Akvorado's own pipeline, in order: **inlet** receives UDP and pushes to '' @
       ''Kafka without parsing, **Kafka** buffers, **outlet** consumes, decodes, '' @
       ''enriches, and batch-inserts into ClickHouse.'' @ [NL] @ [NL] @
       ''Walk it in that order when something is wrong -- the first stage that stops '' @
       ''keeping up is the one to fix. Consumer lag rising while everything else '' @
       ''looks fine means the outlet is the bottleneck; insert latency rising means '' @
       ''ClickHouse is.'' @ [NL] @ [NL] @
       ''All of this is collector health, not flow data. A perfectly healthy pipeline '' @
       ''still cannot recover traffic that hardware offload hid from softflowd in '' @
       ''the first place -- that is the Pipeline Health tab's job.''), 0, 0, 24, 5),
     (timeseries 501 ''Kafka Consumer Lag'' [prom_query
       ''sum(akvorado_outlet_kafka_consumergroup_lag_messages) or vector(0)'' ''messages behind''
       ''A'' ''time_series'' False] ''none''
       (''Messages sitting in Kafka that the outlet has not consumed yet.'' @ [NL] @ [NL] @
       ''Zero or near-zero is healthy and normal here. Sustained growth means the '' @
       ''outlet cannot keep up with the inlet -- flows are not lost while Kafka still '' @
       ''holds them, but they are arriving in ClickHouse late, so recent panels on '' @
       ''the other tabs will read low until it catches up. If lag keeps climbing,'' @
       '' the retention on the Kafka topic eventually decides what gets dropped.'' @ [NL] @ [NL] @
       ''The threshold band is a judgement call, not a measured limit: this deployment '' @
       ''sits at zero, so anything into the thousands is a real change of state rather '' @
       ''than noise.'')
       (kw\<lparr>o_thresholds_value := Some (thresholds [(''green'', JNull), (''yellow'', JInt 1000), (''red'', JInt 10000)])\<rparr>),
       0, 5, 12, 8),
     (timeseries 502 ''ClickHouse Insert Latency'' [prom_query
       ''histogram_quantile(0.50, sum by (le) (rate(akvorado_outlet_clickhouse_insert_time_seconds_bucket[$__rate_interval])))''
       ''p50'' ''A'' ''time_series'' False, prom_query
       ''histogram_quantile(0.95, sum by (le) (rate(akvorado_outlet_clickhouse_insert_time_seconds_bucket[$__rate_interval])))''
       ''p95'' ''B'' ''time_series'' False, prom_query
       ''histogram_quantile(0.99, sum by (le) (rate(akvorado_outlet_clickhouse_insert_time_seconds_bucket[$__rate_interval])))''
       ''p99'' ''C'' ''time_series'' False] ''s''
       (''How long each batch insert into ClickHouse takes, from Akvorado's own histogram.'' @
       [NL] @ [NL] @
       ''`le` is preserved inside the inner aggregation, which `histogram_quantile` '' @
       ''requires. Rising p95 with flat p50 is ClickHouse occasionally stalling -- '' @
       ''usually merges or disk pressure; both percentiles rising together is sustained '' @
       ''write pressure. This is the stage immediately upstream of every ClickHouse '' @
       ''panel on this dashboard, so latency here shows up there as data arriving '' @ ''late.'')
       (kw\<lparr>o_thresholds_value := Some (thresholds [(''green'', JNull), (''yellow'', JInt 1), (''red'', JInt 5)])\<rparr>),
       12, 5, 12, 8),
     (timeseries 503 ''Decoder Throughput by Record Type'' [prom_query
       ''sum by (type) (rate(akvorado_outlet_flow_decoder_netflow_records_total[$__rate_interval]))''
       ''{{type}}'' ''A'' ''time_series'' False] ''none''
       (''NetFlow records decoded per second, split by record type.'' @ [NL] @ [NL] @
       ''This panel exists for one specific failure that is otherwise invisible: '' @
       ''**templates arriving with no data records**. NetFlow v9 sends the schema '' @
       ''(`TemplateFlowSet`, `OptionsTemplateFlowSet`) separately from the data ('' @
       ''`DataFlowSet`). If softflowd is running but capturing nothing, the template '' @
       ''lines keep ticking along at their usual slow rate while `DataFlowSet` sits '' @
       ''flat at zero -- the pipeline looks alive from every other angle and no flows '' @
       ''arrive.'' @ [NL] @ [NL] @
       ''Healthy is `DataFlowSet` far above the rest. `DataFlowSet` at zero with '' @
       ''templates still flowing means checking the capture interface and pcap filter '' @
       ''on the router.'') (kw\<lparr>o_overrides := Some [color_override ''DataFlowSet'' GREEN,
       color_override ''TemplateFlowSet'' GRAY, color_override ''OptionsTemplateFlowSet'' GRAY,
       color_override ''OptionsDataFlowSet'' BLUE]\<rparr>), 0, 13, 12, 8),
     (timeseries 504 ''Metadata Cache Hit Ratio'' [prom_query
       (''sum(rate(akvorado_outlet_metadata_cache_hits_total[$__rate_interval])) / '' @
       ''(sum(rate(akvorado_outlet_metadata_cache_hits_total[$__rate_interval])) '' @
       ''+ sum(rate(akvorado_outlet_metadata_cache_misses_total[$__rate_interval])) '' @ ''> 0)'')
       ''hit ratio'' ''A'' ''time_series'' False] ''percentunit''
       (''Share of interface-metadata lookups served from the outlet's cache.'' @ [NL] @ [NL] @
       ''The denominator is guarded with `> 0` so an idle or freshly-restarted outlet '' @
       ''renders no data rather than `+Inf` or a misleading 100%.'' @ [NL] @ [NL] @
       ''This should sit very close to 1 in a single-router deployment: there is '' @
       ''one exporter and one interface, so after the first lookup everything is '' @
       ''a hit. A ratio that drops and stays down means entries are being evicted '' @
       ''or expired faster than they are used, which is the same underlying condition '' @
       ''that produces `metadata missing` errors on the Collector Error Reasons panel.'')
       (kw\<lparr>o_thresholds_value := Some (thresholds [(''red'', JNull), (''yellow'', JFloat ''0.8''), (''green'', JFloat ''0.95'')])\<rparr>),
       12, 13, 12, 8),
     (timeseries 505 ''Outlet Worker Load'' [prom_query
       (''sum(rate(akvorado_outlet_clickhouse_worker_steady_total[$__rate_interval])) '' @
       ''or vector(0)'') ''steady'' ''A'' ''time_series'' False, prom_query
       (''sum(rate(akvorado_outlet_clickhouse_worker_overloaded_total[$__rate_interval])) '' @
       ''or vector(0)'') ''overloaded'' ''B'' ''time_series'' False, prom_query
       (''sum(rate(akvorado_outlet_clickhouse_worker_underloaded_total[$__rate_interval])) '' @
       ''or vector(0)'') ''underloaded'' ''C'' ''time_series'' False] ''none''
       (''How often the outlet's ClickHouse writer workers reported themselves steady,'' @
       '' overloaded, or underloaded -- Akvorado's own autoscaling signal.'' @ [NL] @ [NL] @
       ''Sustained `overloaded` is the saturation warning that precedes consumer '' @
       ''lag: the workers are asking for help before the backlog becomes visible '' @
       ''upstream. `underloaded` dominating is the normal state on a home link and '' @
       ''is not a problem to fix.'') (kw\<lparr>o_stacked := Some True,
       o_overrides := Some [color_override ''steady'' GREEN, color_override ''overloaded'' RED,
       color_override ''underloaded'' GRAY]\<rparr>), 0, 21, 12, 8),
     (timeseries 506 ''Flows per ClickHouse Batch'' [prom_query
       ''akvorado_outlet_clickhouse_flow_per_batch{quantile="0.5"}'' ''p50'' ''A'' ''time_series''
       False, prom_query ''akvorado_outlet_clickhouse_flow_per_batch{quantile="0.9"}'' ''p90''
       ''B'' ''time_series'' False, prom_query
       ''akvorado_outlet_clickhouse_flow_per_batch{quantile="0.99"}'' ''p99'' ''C''
       ''time_series'' False] ''none''
       (''How many flows the outlet packs into each ClickHouse insert.'' @ [NL] @ [NL] @
       ''This is a Prometheus **summary**, not a histogram -- it publishes precomputed '' @
       ''quantiles under a `quantile` label and has no `le` buckets, so `histogram_quantile('' @
       '')` over it returns nothing. The quantiles are selected directly.'' @ [NL] @ [NL] @
       ''Read it together with insert latency: small batches with high latency means '' @
       ''the outlet is flushing early under time pressure rather than filling batches,'' @
       '' which is inefficient but not lossy. Batch size is driven by flow arrival '' @
       ''rate, so it tracks how busy the network is.'') kw, 12, 21, 12, 8)]\<close>

definition nf_tabs :: "(string \<times> placement list) list" where
  \<open>nf_tabs =
    [(''Flow Overview'', nf_overview),
     (''Applications'', nf_applications),
     (''External'', nf_external),
     (''Security Signals'', nf_security),
     (''Pipeline Health'', nf_health),
     (''Pipeline Internals'', nf_internals)]\<close>

definition nf_spec :: "item list \<Rightarrow> json list \<Rightarrow> json" where
  \<open>nf_spec elements tabs =
     JDict [(''title'', JStr ''OpenWrt - NetFlow''), (''description'',
     JStr (''Per-flow traffic from softflowd via Akvorado, stored in ClickHouse, plus '' @
     ''the exporter and collector health that says whether it is complete.'')), (''tags'',
     JList [JStr ''openwrt'', JStr ''netflow'', JStr ''router'', JStr ''akvorado'']),
     (''cursorSync'', JStr ''Crosshair''), (''editable'', JBool True), (''preload'', JBool False),
     (''liveNow'', JBool False), (''variables'', JList nf_variables),
     (''elements'', JDict elements), (''layout'', JDict [(''kind'', JStr ''TabsLayout''),
     (''spec'', JDict [(''tabs'', JList tabs)])]), (''annotations'',
     JList [JDict [(''kind'', JStr ''AnnotationQuery''), (''spec'',
     JDict [(''builtIn'', JBool True), (''enable'', JBool True), (''hide'', JBool True),
     (''iconColor'', JStr ''rgba(0, 211, 255, 1)''), (''name'', JStr ''Annotations & Alerts''),
     (''query'', JDict [(''kind'', JStr ''DataQuery''), (''group'', JStr ''grafana''),
     (''version'', JStr ''v0''), (''spec'', JDict [])])])]]), (''links'', JList []),
     (''timeSettings'', JDict [(''timezone'', JStr ''browser''), (''from'', JStr ''now-6h''),
     (''to'', JStr ''now''), (''autoRefresh'', JStr ''1m''), (''autoRefreshIntervals'',
     JList [JStr ''30s'', JStr ''1m'', JStr ''5m'', JStr ''15m'']),
     (''hideTimepicker'', JBool False), (''fiscalYearStartMonth'', JInt 0)])]\<close>

definition nf_dashboard :: "json \<Rightarrow> json" where
  \<open>nf_dashboard spec =
     JDict [(''apiVersion'', JStr ''dashboard.grafana.app/v2beta1''),
     (''kind'', JStr ''Dashboard''), (''metadata'', JDict [(''name'', JStr ''openwrt-netflow'')]),
     (''spec'', spec)]\<close>

end
