(* ===== verification/Netflow_Validate.thy ===== *)
theory Netflow_Validate
  imports Validate Netflow_Dashboard
begin

text \<open>
  \<open>validate_dashboard\<close> and \<open>build_dashboard\<close> of \<open>scripts/build_openwrt_netflow_dashboard.py\<close>. The
  assertions on references, panels and rectangles are written as in the advanced generator and are
  the same definitions. Two loops are this generator's own: every sum over bytes or packets in a
  SQL text must name the sampling rate, and a histogram quantile may only be taken over bucket
  series. Both read the query texts with regular expressions, which are scanners here.
\<close>

section \<open>Aggregates in SQL\<close>

definition no_paren :: "char \<Rightarrow> bool" where
  "no_paren c = (c \<noteq> CHR ''('' \<and> c \<noteq> CHR '')'')"

text \<open>
  \<open>([^()]*(?:Bytes|Packets)[^()]*)\)\<close> at the start of a text: the run of characters that are no
  parentheses, which must end at a closing one and hold one of the two words.
\<close>

definition sum_arg :: "string \<Rightarrow> (string \<times> string) option" where
  "sum_arg s =
     (let inner = takeWhile no_paren s; rest = dropWhile no_paren s in
      if rest \<noteq> [] \<and> hd rest = CHR '')'' \<and> (py_in ''Bytes'' inner \<or> py_in ''Packets'' inner)
      then Some (inner, tl rest) else None)"

definition sum_call :: "string \<Rightarrow> (string \<times> string) option" where
  "sum_call s =
     (if starts_with ''sumIf('' s then sum_arg (drop 6 s)
      else if starts_with ''sum('' s then sum_arg (drop 4 s)
      else None)"

lemma sum_arg_shorter: "sum_arg s = Some (inner, rest) \<Longrightarrow> length rest < length s"
proof -
  assume "sum_arg s = Some (inner, rest)"
  then have "dropWhile no_paren s \<noteq> []" "rest = tl (dropWhile no_paren s)"
    by (auto simp: sum_arg_def Let_def split: if_splits)
  then have "length rest < length (dropWhile no_paren s)" by simp
  also have "\<dots> \<le> length s" by (rule length_dropWhile_le)
  finally show ?thesis .
qed

lemma sum_call_shorter: "sum_call s = Some (inner, rest) \<Longrightarrow> length rest < length s"
  using sum_arg_shorter [of "drop 6 s"] sum_arg_shorter [of "drop 4 s"]
  by (fastforce simp: sum_call_def split: if_splits)

text \<open>The first groups of the matches \<open>re.finditer\<close> yields, left to right and without overlap.\<close>

function sum_args :: "string \<Rightarrow> string list" where
  "sum_args [] = []"
| "sum_args (c # s) =
     (case sum_call (c # s) of Some (inner, rest) \<Rightarrow> inner # sum_args rest | None \<Rightarrow> sum_args s)"
  by pat_completeness auto

termination
  by (relation "measure length") (auto dest: sum_call_shorter)

declare sum_args.simps(2) [simp del]

section \<open>Metrics in an expression\<close>

definition word_char :: "char \<Rightarrow> bool" where
  "word_char c = ident_char c"

function words :: "string \<Rightarrow> string list" where
  "words [] = []"
| "words (c # s) =
     (if word_char c then (c # takeWhile word_char s) # words (dropWhile word_char s) else words s)"
  by pat_completeness auto

termination
  by (relation "measure length") (auto intro!: le_imp_less_Suc length_dropWhile_le)

declare words.simps(2) [simp del]

text \<open>
  \<open>\b(akvorado_\w+|openwrt_\w+|node_\w+)\b\<close>: a match starts and ends at a word boundary and \<open>\w+\<close>
  takes all it can, so the matches are the whole words with one of the prefixes and more behind it.
\<close>

definition known_metric :: "string \<Rightarrow> bool" where
  "known_metric w = list_ex (\<lambda>p. starts_with p w \<and> length p < length w)
     [''akvorado_'', ''openwrt_'', ''node_'']"

definition metric_words :: "string \<Rightarrow> string list" where
  "metric_words expr = filter known_metric (words expr)"

section \<open>The two loops\<close>

fun py_truthy :: "json \<Rightarrow> bool" where
  "py_truthy JNull = False"
| "py_truthy (JBool b) = b"
| "py_truthy (JInt n) = (n \<noteq> 0)"
| "py_truthy (JFloat f) = (f \<notin> {''0.0'', ''-0.0''})"
| "py_truthy (JStr s) = (s \<noteq> [])"
| "py_truthy (JList xs) = (xs \<noteq> [])"
| "py_truthy (JDict kvs) = (kvs \<noteq> [])"

text \<open>\<open>query["spec"]["query"]["spec"].get(key)\<close>, \<open>None\<close> when the loop skips the query.\<close>

definition query_text :: "string \<Rightarrow> json \<Rightarrow> string option res" where
  "query_text key query =
     bindR (bindR (jpath query [''spec'', ''query'', ''spec'']) jitems) (\<lambda>spec.
       case map_of spec key of
         None \<Rightarrow> Inr None
       | Some v \<Rightarrow> if py_truthy v then bindR (jstr v) (\<lambda>s. Inr (Some s)) else Inr None)"

text \<open>\<open>f"{element['spec']['id']}: ..."\<close>\<close>

definition panel_error :: "json \<Rightarrow> string \<Rightarrow> 'a res" where
  "panel_error element msg =
     bindR (bindR (jpath element [''spec'', ''id'']) jint) (\<lambda>pid.
       Inl (AssertionError (show_int pid @ '': '' @ msg)))"

definition check_sql :: "json \<Rightarrow> json \<Rightarrow> unit res" where
  "check_sql element query =
     bindR (query_text ''rawSql'' query) (\<lambda>t.
     case t of
       None \<Rightarrow> Inr ()
     | Some sql \<Rightarrow>
         if py_in ''IfBoundary'' sql then panel_error element
           (''query filters on interface boundary, '' @
            ''which softflowd cannot populate meaningfully; use SrcNetRole/DstNetRole instead'')
         else allR (\<lambda>inner.
           if py_in ''SamplingRate'' inner then Inr ()
           else panel_error element
             (''aggregate over '' @ py_strip inner @ '' is not multiplied by SamplingRate''))
           (sum_args sql))"

definition check_histogram :: "json \<Rightarrow> json \<Rightarrow> unit res" where
  "check_histogram element query =
     bindR (query_text ''expr'' query) (\<lambda>t.
     case t of
       None \<Rightarrow> Inr ()
     | Some expr \<Rightarrow>
         if \<not> py_in ''histogram_quantile'' expr then Inr ()
         else
           (let metrics = metric_words expr in
            if metrics = [] then panel_error element ''histogram_quantile over no known metric''
            else allR (\<lambda>metric.
              if ends_with ''_bucket'' metric then Inr ()
              else panel_error element
                (''histogram_quantile over '' @ metric @ '', which is not a '' @
                 ''_bucket series; summaries expose a `quantile` label instead and must be '' @
                 ''selected directly'')) metrics))"

definition check_queries :: "(json \<Rightarrow> json \<Rightarrow> unit res) \<Rightarrow> json \<Rightarrow> unit res" where
  "check_queries check elements =
     bindR (jitems elements) (\<lambda>items.
       allR (\<lambda>it. bindR (panel_queries (snd it)) (allR (check (snd it)))) items)"

section \<open>The validator\<close>

definition NF_TABS :: "string list" where
  "NF_TABS = [''Flow Overview'', ''Applications'', ''External'', ''Security Signals'',
     ''Pipeline Health'', ''Pipeline Internals'']"

definition NF_GLOBALS :: "string list" where
  "NF_GLOBALS = [''__rate_interval'', ''__range'', ''__from'', ''__to'', ''__all'', ''__value'',
     ''__interval'', ''__auto'', ''__timeFilter'', ''__timeFilter_ms'', ''__timeInterval'',
     ''__timeInterval_ms'', ''__interval_s'', ''__conditionalAll'', ''__fromTime'', ''__toTime'',
     ''__dateFilter'', ''__dateTimeFilter'']"

definition nf_check_vars :: "json \<Rightarrow> unit res" where
  "nf_check_vars spec =
     bindR (variable_names spec) (\<lambda>defined_names.
     let referenced = referenced_vars spec in
     bindR (ensure (set referenced \<subseteq> set defined_names \<union> set NF_GLOBALS) (AssertionError [])) (\<lambda>_.
     ensure (set defined_names \<subseteq> set referenced \<union> {''DS_PROMETHEUS'', ''DS_CLICKHOUSE''})
       (AssertionError [])))"

definition nf_validate_dashboard :: "json \<Rightarrow> unit res" where
  "nf_validate_dashboard dash =
     bindR (check_header dash ''openwrt-netflow'') (\<lambda>_.
     bindR (jget dash ''spec'') (\<lambda>spec.
     bindR (check_field spec [''title''] ''OpenWrt - NetFlow'') (\<lambda>_.
     bindR (tab_titles spec) (\<lambda>titles.
     bindR (ensure (titles = NF_TABS) (AssertionError [])) (\<lambda>_.
     bindR (jget spec ''layout'') (\<lambda>layout.
     bindR (jget spec ''elements'') (\<lambda>elements.
     bindR (adv_check_refs layout elements) (\<lambda>_.
     bindR (jitems elements) (\<lambda>items.
     bindR (foldR adv_check_panel [] items) (\<lambda>ids.
     bindR (ensure (distinct ids) (AssertionError [])) (\<lambda>_.
     bindR (bindR (jpath layout [''spec'', ''tabs'']) jlist) (\<lambda>tabs.
     bindR (allR adv_check_tab tabs) (\<lambda>_.
     let text_blob = json_text True dash in
     bindR (lacks ''schemaVersion'' text_blob) (\<lambda>_.
     bindR (lacks ''pluginVersion'' text_blob) (\<lambda>_.
     bindR (has PROM_DS text_blob) (\<lambda>_.
     bindR (has CH_DS text_blob) (\<lambda>_.
     bindR (check_queries check_sql elements) (\<lambda>_.
     bindR (check_queries check_histogram elements) (\<lambda>_.
     nf_check_vars spec)))))))))))))))))))"

definition nf_build_dashboard :: "json res" where
  "nf_build_dashboard =
     bindR (build_tabs nf_tabs) (\<lambda>(elements, tabs).
     let dashboard = nf_dashboard (nf_spec elements tabs) in
     bindR (nf_validate_dashboard dashboard) (\<lambda>_. Inr dashboard))"

end
