(* ===== verification/Sql_Check.thy ===== *)
theory Sql_Check
  imports Netflow_Validate Document
begin

text \<open>
  What the scanner of aggregates finds, against its specification by occurrences, and an automaton
  that decides over the pieces of a SQL text whether every aggregate is corrected for sampling.
\<close>

section \<open>Occurrences\<close>

text \<open>\<open>inner\<close> is the whole, parenthesis-free argument of a sum over bytes or packets.\<close>

definition sum_occurs :: "string \<Rightarrow> string \<Rightarrow> bool" where
  "sum_occurs inner sql = (\<exists>pre w post. sql = pre @ w @ ''('' @ inner @ '')'' @ post \<and>
     w \<in> {''sum'', ''sumIf''} \<and> list_all no_paren inner \<and>
     (py_in ''Bytes'' inner \<or> py_in ''Packets'' inner))"

lemma takeWhile_stop: "list_all P a \<Longrightarrow> \<not> P c \<Longrightarrow> takeWhile P (a @ c # b) = a \<and> dropWhile P (a @ c # b) = c # b"
  by (induction a) auto

lemma sum_arg_iff:
  "sum_arg s = Some (inner, rest) \<longleftrightarrow> s = inner @ '')'' @ rest \<and> list_all no_paren inner \<and>
     (py_in ''Bytes'' inner \<or> py_in ''Packets'' inner)"
proof
  assume "sum_arg s = Some (inner, rest)"
  then have p: "inner = takeWhile no_paren s" "dropWhile no_paren s \<noteq> []"
    "hd (dropWhile no_paren s) = CHR '')''" "rest = tl (dropWhile no_paren s)"
    "py_in ''Bytes'' inner \<or> py_in ''Packets'' inner"
    by (auto simp: sum_arg_def Let_def split: if_splits)
  then have "dropWhile no_paren s = CHR '')'' # rest" by (metis list.collapse)
  then have "s = inner @ '')'' @ rest" using p(1) by (metis append_Cons append_Nil takeWhile_dropWhile_id)
  moreover have "list_all no_paren inner" using p(1) by (auto simp: list_all_iff dest: set_takeWhileD)
  ultimately show "s = inner @ '')'' @ rest \<and> list_all no_paren inner \<and>
     (py_in ''Bytes'' inner \<or> py_in ''Packets'' inner)" using p(5) by blast
next
  assume "s = inner @ '')'' @ rest \<and> list_all no_paren inner \<and>
     (py_in ''Bytes'' inner \<or> py_in ''Packets'' inner)"
  then show "sum_arg s = Some (inner, rest)"
    using takeWhile_stop [of no_paren inner "CHR '')''" rest] by (simp add: sum_arg_def no_paren_def)
qed

lemma starts_with_split: "starts_with p s \<longleftrightarrow> s = p @ drop (length p) s"
  by (metis append_eq_conv_conj prefix_def starts_with_prefix)

lemma sum_call_iff:
  "sum_call s = Some (inner, rest) \<longleftrightarrow> (\<exists>w. s = w @ ''('' @ inner @ '')'' @ rest \<and>
     w \<in> {''sum'', ''sumIf''} \<and> list_all no_paren inner \<and>
     (py_in ''Bytes'' inner \<or> py_in ''Packets'' inner))"
proof (cases "starts_with ''sumIf('' s")
  case True
  then obtain t where s: "s = ''sumIf('' @ t" by (metis starts_with_split)
  then show ?thesis by (auto simp: sum_call_def sum_arg_iff)
next
  case no: False
  show ?thesis
  proof (cases "starts_with ''sum('' s")
    case True
    then obtain t where s: "s = ''sum('' @ t" by (metis starts_with_split)
    then show ?thesis by (auto simp: sum_call_def sum_arg_iff)
  next
    case False
    then have "s \<noteq> w @ ''('' @ inner @ '')'' @ rest" if "w \<in> {''sum'', ''sumIf''}" for w
      using that no by auto
    then show ?thesis using no False by (auto simp: sum_call_def)
  qed
qed

text \<open>No match begins inside another: what stands before its first bracket is all of \<open>sum\<close>.\<close>

abbreviation to_open :: "string \<Rightarrow> string" where
  "to_open s \<equiv> takeWhile (\<lambda>c. c \<noteq> CHR ''('') s"

lemma sum_call_to_open: "sum_call s = Some p \<Longrightarrow> to_open s \<in> {''sum'', ''sumIf''}"
  by (cases p) (auto simp: sum_call_iff)

lemma sum_occurs_Nil: "\<not> sum_occurs inner []"
  by (auto simp: sum_occurs_def)

lemma sum_occurs_Cons:
  "sum_occurs inner (c # s) \<longleftrightarrow> (\<exists>rest. sum_call (c # s) = Some (inner, rest)) \<or> sum_occurs inner s"
proof
  assume "sum_occurs inner (c # s)"
  then obtain pre w post where p: "c # s = pre @ w @ ''('' @ inner @ '')'' @ post"
    "w \<in> {''sum'', ''sumIf''}" "list_all no_paren inner" "py_in ''Bytes'' inner \<or> py_in ''Packets'' inner"
    unfolding sum_occurs_def by blast
  show "(\<exists>rest. sum_call (c # s) = Some (inner, rest)) \<or> sum_occurs inner s"
  proof (cases pre)
    case Nil
    then have "sum_call (c # s) = Some (inner, post)" unfolding sum_call_iff using p by auto
    then show ?thesis by blast
  next
    case (Cons d pre')
    then have "s = pre' @ w @ ''('' @ inner @ '')'' @ post" using p(1) by simp
    then have "sum_occurs inner s" unfolding sum_occurs_def using p(2-4) by blast
    then show ?thesis ..
  qed
next
  assume "(\<exists>rest. sum_call (c # s) = Some (inner, rest)) \<or> sum_occurs inner s"
  then show "sum_occurs inner (c # s)"
  proof
    assume "\<exists>rest. sum_call (c # s) = Some (inner, rest)"
    then show ?thesis unfolding sum_call_iff sum_occurs_def by (metis append_Nil)
  next
    assume "sum_occurs inner s"
    then show ?thesis unfolding sum_occurs_def by (metis append_Cons)
  qed
qed

lemma sum_occurs_step:
  "to_open (c # s) \<notin> {''sum'', ''sumIf''} \<Longrightarrow> sum_occurs inner (c # s) = sum_occurs inner s"
  using sum_call_to_open [of "c # s"] by (auto simp: sum_occurs_Cons simp del: takeWhile.simps)

lemma sum_occurs_closed: "list_all no_paren t \<Longrightarrow> sum_occurs inner (t @ '')'' @ r) = sum_occurs inner r"
proof (induction t)
  case Nil
  then show ?case by (simp add: sum_occurs_step)
next
  case (Cons c t)
  then have "CHR '')'' \<in> set (to_open ((c # t) @ '')'' @ r))"
    by (auto simp: takeWhile_append list_all_iff no_paren_def)
  then have "to_open ((c # t) @ '')'' @ r) \<notin> {''sum'', ''sumIf''}" by auto
  then show ?case using Cons by (simp add: sum_occurs_step)
qed

lemma sum_occurs_match:
  assumes "sum_call s = Some (i, rest)"
  shows "sum_occurs inner s \<longleftrightarrow> inner = i \<or> sum_occurs inner rest"
proof -
  obtain w where s: "s = w @ ''('' @ i @ '')'' @ rest" "w \<in> {''sum'', ''sumIf''}" "list_all no_paren i"
    using assms unfolding sum_call_iff by blast
  have "sum_occurs inner s \<longleftrightarrow> (\<exists>rest. sum_call s = Some (inner, rest)) \<or> sum_occurs inner (tl s)"
    using s(2) by (auto simp: s(1) sum_occurs_Cons)
  moreover have "sum_occurs inner (tl s) \<longleftrightarrow> sum_occurs inner (i @ '')'' @ rest)"
    using s(2) by (auto simp: s(1) sum_occurs_step)
  ultimately show ?thesis using assms sum_occurs_closed [OF s(3)] by auto
qed

lemma sum_args_iff: "inner \<in> set (sum_args sql) \<longleftrightarrow> sum_occurs inner sql"
proof (induction sql rule: sum_args.induct)
  case 1
  then show ?case by (simp add: sum_occurs_Nil)
next
  case (2 c s)
  show ?case
  proof (cases "sum_call (c # s)")
    case None
    then show ?thesis using "2.IH" by (simp add: sum_args.simps(2) sum_occurs_Cons)
  next
    case (Some p)
    obtain i rest where p: "p = (i, rest)" by (cases p)
    then show ?thesis using "2.IH" Some
      by (auto simp: sum_args.simps(2) sum_occurs_match)
  qed
qed

section \<open>The automaton\<close>

text \<open>
  The letters of \<open>sumIf\<close> read last, and the argument read so far, backwards, since the bracket of a
  sum. No state is left once an argument over bytes or packets closes without the sampling rate.
\<close>

type_synonym qstate = "string \<times> string option"

definition next_sum :: "string \<Rightarrow> char \<Rightarrow> string" where
  "next_sum k c = (if c = CHR ''s'' then [c] else if k = ''s'' \<and> c = CHR ''u'' then ''su''
     else if k = ''su'' \<and> c = CHR ''m'' then ''sum'' else if k = ''sum'' \<and> c = CHR ''I'' then ''sumI''
     else if k = ''sumI'' \<and> c = CHR ''f'' then ''sumIf'' else [])"

definition uncorrected :: "string \<Rightarrow> bool" where
  "uncorrected inner = ((py_in ''Bytes'' inner \<or> py_in ''Packets'' inner) \<and> \<not> py_in ''SamplingRate'' inner)"

fun qstep :: "char \<Rightarrow> qstate option \<Rightarrow> qstate option" where
  "qstep c None = None"
| "qstep c (Some (k, a)) =
     (if c = CHR ''('' then Some ([], if k \<in> {''sum'', ''sumIf''} then Some [] else None)
      else if c = CHR '')'' then
        (case a of Some r \<Rightarrow> if uncorrected (rev r) then None else Some ([], None) | None \<Rightarrow> Some ([], None))
      else Some (next_sum k c, map_option (Cons c) a))"

definition qrun :: "string \<Rightarrow> qstate option \<Rightarrow> qstate option" where
  "qrun s st = fold qstep s st"

lemma qrun_None: "qrun s None = None"
  by (induction s) (auto simp: qrun_def)

lemma qrun_append: "qrun (s @ t) st = qrun t (qrun s st)"
  by (simp add: qrun_def)

lemma qrun_Cons: "qrun (c # s) st = qrun s (qstep c st)"
  by (simp add: qrun_def)

lemma qrun_Nil: "qrun [] st = st"
  by (simp add: qrun_def)

lemma qrun_inner:
  "list_all no_paren s \<Longrightarrow> \<exists>k'. qrun s (Some (k, Some r)) = Some (k', Some (rev s @ r))"
  by (induction s arbitrary: k r) (auto simp: qrun_Nil qrun_Cons no_paren_def)

lemma qrun_word:
  "w \<in> {''sum'', ''sumIf''} \<Longrightarrow> qrun (w @ ''('') (Some st) = Some ([], Some [])"
  by (cases st) (auto simp: qrun_Nil qrun_Cons next_sum_def)

lemma qrun_sound:
  assumes "qrun sql (Some ([], None)) \<noteq> None" "inner \<in> set (sum_args sql)"
  shows "py_in ''SamplingRate'' inner"
proof (rule ccontr)
  assume no: "\<not> py_in ''SamplingRate'' inner"
  obtain pre w post where o: "sql = pre @ (w @ ''('') @ inner @ '')'' @ post" "w \<in> {''sum'', ''sumIf''}"
    "list_all no_paren inner" "py_in ''Bytes'' inner \<or> py_in ''Packets'' inner"
    using assms(2) by (auto simp: sum_args_iff sum_occurs_def)
  obtain st where "qrun pre (Some ([], None)) = Some st"
    using assms(1) o(1) by (cases "qrun pre (Some ([], None))") (auto simp: qrun_append qrun_None)
  moreover obtain k where "qrun inner (Some ([], Some [])) = Some (k, Some (rev inner))"
    using qrun_inner [OF o(3), of "[]" "[]"] by auto
  ultimately have "qrun sql (Some ([], None)) = qrun post (qstep CHR '')'' (Some (k, Some (rev inner))))"
    using qrun_word [OF o(2)] by (simp add: o(1) qrun_append qrun_Cons qrun_Nil)
  also have "\<dots> = None" using o(4) no by (simp add: uncorrected_def qrun_None)
  finally show False using assms(1) by simp
qed

text \<open>Reading a piece that opens and closes nothing, and the rules that read a literal.\<close>

definition q0 :: "qstate option" where
  "q0 = Some ([], None)"

lemma qrun_rules:
  "qrun [] st = st"
  "qrun (s @ t) st = qrun t (qrun s st)"
  "c \<notin> {CHR ''s'', CHR ''('', CHR '')''} \<Longrightarrow> qrun (c # s) q0 = qrun s q0"
  "qrun (CHR ''s'' # s) q0 = qrun s (Some (''s'', None))"
  "qrun (CHR ''('' # s) q0 = qrun s q0"
  "qrun (CHR '')'' # s) q0 = qrun s q0"
  by (simp_all add: qrun_def q0_def next_sum_def)

lemma qrun_more:
  "qrun (CHR ''('' # s) (Some (k, a)) =
     (if k \<in> {''sum'', ''sumIf''} then qrun s (Some ([], Some [])) else qrun s q0)"
  "qrun (CHR '')'' # s) (Some (k, None)) = qrun s q0"
  "qrun (CHR '')'' # s) (Some (k, Some r)) = (if uncorrected (onto r []) then None else qrun s q0)"
  "c \<notin> {CHR ''('', CHR '')''} \<Longrightarrow> qrun (c # s) (Some (k, None)) =
     (if next_sum k c = [] then qrun s q0 else qrun s (Some (next_sum k c, None)))"
  "c \<notin> {CHR ''('', CHR '')''} \<Longrightarrow> qrun (c # s) (Some (k, Some r)) = qrun s (Some (next_sum k c, Some (c # r)))"
  by (simp_all add: qrun_def q0_def qrun_None [unfolded qrun_def] onto_rev)

lemma q0_some: "q0 \<noteq> None" "Some st \<noteq> (None :: qstate option)"
  by (simp_all add: q0_def)

lemmas qrun_simps = q0_some qrun_rules qrun_more next_sum_def uncorrected_def

end
