(* ===== verification/Netflow_Built.thy ===== *)
theory Netflow_Built
  imports Sql_Check
begin

text \<open>
  The NetFlow generator returns a dashboard: its tables are good, every aggregate in its SQL is
  corrected for sampling as far as the validator looks, and every other assertion holds.
\<close>

section \<open>Texts\<close>

definition NF_NAMES :: "string list" where
  "NF_NAMES = [''DS_PROMETHEUS'', ''DS_CLICKHOUSE'', ''router''] @ NF_GLOBALS"

lemma nf_names [simp]:
  "''DS_PROMETHEUS'' \<in> set NF_NAMES" "''DS_CLICKHOUSE'' \<in> set NF_NAMES" "''router'' \<in> set NF_NAMES"
  "''__all'' \<in> set NF_NAMES" "''__range'' \<in> set NF_NAMES" "''__rate_interval'' \<in> set NF_NAMES" "''__timeFilter'' \<in> set NF_NAMES"
  "''__timeInterval'' \<in> set NF_NAMES" "''__interval_s'' \<in> set NF_NAMES" "''__conditionalAll'' \<in> set NF_NAMES"
  by (simp_all add: NF_NAMES_def NF_GLOBALS_def)

lemma sql_runs [panel_text]:
  "run NF_NAMES ROUTER_SQL c0 = c0" "run NF_NAMES LOCAL_SRC c0 = c0" "run NF_NAMES LOCAL_DST c0 = c0"
  "run NF_NAMES EXTERNAL_SRC c0 = c0" "run NF_NAMES EXTERNAL_DST c0 = c0"
  "run NF_NAMES CROSSES_BOUNDARY c0 = c0" "run NF_NAMES SRC_COUNTRY c0 = c0"
  "run NF_NAMES DST_COUNTRY c0 = c0" "run NF_NAMES IPV6 c0 = c0" "run NF_NAMES TCP_SHAPE c0 = c0"
  "run NF_NAMES SERVICE_CLASS c0 = c0" "run NF_NAMES DIRECTION_EXPR c0 = c0"
  by (simp_all add: ROUTER_SQL_def LOCAL_SRC_def LOCAL_DST_def EXTERNAL_SRC_def EXTERNAL_DST_def
      CROSSES_BOUNDARY_def SRC_COUNTRY_def DST_COUNTRY_def IPV6_def TCP_SHAPE_def SERVICE_CLASS_def
      DIRECTION_EXPR_def panel_text del: append.simps append_assoc)

lemma show_edges:
  "show_int 64 = ''64''" "show_int 128 = ''128''" "show_int 256 = ''256''" "show_int 512 = ''512''"
  "show_int 1024 = ''1024''" "show_int 1500 = ''1500''"
  by code_simp+

lemma fold_join:
  assumes "fold f sep st = st" "list_all (\<lambda>w. fold f w st = st) ws"
  shows "fold f (py_join sep ws) st = st"
  using assms(2) by (induction ws rule: induct_list012) (use assms(1) in simp_all)

lemma packet_size_run [panel_text]: "run NF_NAMES packet_size_columns c0 = c0"
proof -
  have "list_all (\<lambda>w. run NF_NAMES w c0 = c0) (packet_size_parts 0 PACKET_SIZE_EDGES)"
    by (simp add: PACKET_SIZE_EDGES_def panel_text Let_def show_edges del: append.simps append_assoc)
  moreover have "run NF_NAMES ('', '') c0 = c0" by (simp add: panel_text)
  ultimately show ?thesis unfolding packet_size_columns_def run_def
    by (intro fold_join) (simp_all add: run_def [symmetric] panel_text PACKET_SIZE_EDGES_def show_edges
        del: append.simps append_assoc)
qed

lemmas sql_parts = pivot_columns_def DIRECTIONS_def
  SERVICE_CLASSES_def TCP_SHAPES_def tcp_shape_counts_def ip_display_def nf_NODE_PAIRS_def show_edges

lemma text_ch_query [panel_text]:
  "clean NF_NAMES sql \<Longrightarrow> clean NF_NAMES r \<Longrightarrow> text_clean NF_NAMES (ch_query sql r f)"
  by (simp add: ch_query_def CH_DS_def panel_text del: append.simps append_assoc)

lemma text_partition_by [panel_text]: "clean ok f \<Longrightarrow> text_clean ok (partition_by f)"
  by (simp add: partition_by_def panel_text)

lemma text_colours [panel_text]:
  "list_all (text_clean ok) TCP_SHAPE_COLORS" "list_all (text_clean ok) DIRECTION_COLORS"
  by (simp_all add: TCP_SHAPE_COLORS_def DIRECTION_COLORS_def panel_text del: append.simps append_assoc)

lemma good_ch_stat [good_panels]:
  assumes "unit \<noteq> ''short''" "clean NF_NAMES t" "clean NF_NAMES sql" "clean NF_NAMES unit" "clean NF_NAMES d"
  shows "good_panel NF_NAMES u (ch_stat pid t sql unit d)"
  unfolding ch_stat_def
  by (rule good_panel_of) (use assms in \<open>simp_all add: panel_text del: append.simps append_assoc\<close>)

lemma good_ch_geomap [good_panels]:
  assumes "clean NF_NAMES t" "clean NF_NAMES sql" "clean NF_NAMES l" "clean NF_NAMES d"
  shows "good_panel NF_NAMES u (ch_geomap pid t sql l d)"
  unfolding ch_geomap_def
  by (rule good_panel_of) (use assms in \<open>simp_all add: panel_text del: append.simps append_assoc\<close>)

lemma good_ch_nodegraph [good_panels]:
  assumes "clean NF_NAMES t" "clean NF_NAMES ns" "clean NF_NAMES es" "clean NF_NAMES d"
  shows "good_panel NF_NAMES u (ch_nodegraph pid t ns es d)"
  unfolding ch_nodegraph_def
  by (rule good_panel_of) (use assms in \<open>simp_all add: panel_text del: append.simps append_assoc\<close>)

lemma good_plain_panel [good_panels]:
  assumes "unit \<noteq> ''short''" "''unit'' \<notin> fst ` set (arg [] (o_field_defaults a))"
    and "''noValue'' \<notin> fst ` set (arg [] (o_options a))"
    and "text_clean ok (snd (panel pid t viz qs unit desc a))"
  shows "good_panel ok unitless (panel pid t viz qs unit desc a)"
  using assms by (rule good_panel_of)

lemma nf_good_overview: "list_all (\<lambda>p. good_panel NF_NAMES [''text'', ''logs''] (fst p)) nf_overview"
  by (simp add: nf_overview_def good_panels panel_text sql_parts del: append.simps append_assoc)

lemma nf_good_applications: "list_all (\<lambda>p. good_panel NF_NAMES [''text'', ''logs''] (fst p)) nf_applications"
  by (simp add: nf_applications_def good_panels panel_text sql_parts del: append.simps append_assoc)

lemma nf_good_external: "list_all (\<lambda>p. good_panel NF_NAMES [''text'', ''logs''] (fst p)) nf_external"
  by (simp add: nf_external_def good_panels panel_text sql_parts del: append.simps append_assoc)

lemma nf_good_security: "list_all (\<lambda>p. good_panel NF_NAMES [''text'', ''logs''] (fst p)) nf_security"
  by (simp add: nf_security_def good_panels panel_text sql_parts del: append.simps append_assoc)

lemma nf_good_health: "list_all (\<lambda>p. good_panel NF_NAMES [''text'', ''logs''] (fst p)) nf_health"
  by (simp add: nf_health_def good_panels panel_text sql_parts del: append.simps append_assoc)

lemma nf_good_internals: "list_all (\<lambda>p. good_panel NF_NAMES [''text'', ''logs''] (fst p)) nf_internals"
  by (simp add: nf_internals_def good_panels panel_text sql_parts del: append.simps append_assoc)

section \<open>Geometry\<close>

definition nf_ids :: "int list" where
  "nf_ids = [1, 2, 3, 10, 12, 13, 4, 5, 11, 14, 6, 15, 7, 8, 9, 100, 101, 106, 102, 103, 107, 104, 105, 108,
     109, 110, 200, 201, 202, 207, 203, 204, 208, 205, 209, 206, 210, 211, 212, 214, 215, 400, 401,
     402, 403, 404, 405, 406, 407, 408, 300, 301, 302, 303, 304, 305, 306, 307, 308, 309, 310, 311,
     312, 313, 314, 500, 501, 502, 503, 504, 505, 506]"

lemma ch_keys:
  "fst (ch_stat pid t sql un d) = panel_key pid" "fst (ch_geomap pid t sql l d) = panel_key pid"
  "fst (ch_nodegraph pid t ns es d) = panel_key pid"
  by (simp_all add: ch_stat_def ch_geomap_def ch_nodegraph_def panel_key)

lemmas nf_tab_defs = nf_overview_def nf_applications_def nf_external_def nf_security_def nf_health_def
  nf_internals_def

lemma nf_keys: "keys (all_placements nf_tabs) = map panel_key nf_ids"
  by (simp add: nf_tabs_def keys_tabs) (simp add: keys_def nf_ids_def nf_tab_defs maker_keys ch_keys panel_key)

lemma nf_geometry: "list_all (\<lambda>t. placements_ok (snd t)) nf_tabs"
  by (simp add: nf_tabs_def nf_tab_defs geometry ch_keys panel_key)

lemma nf_ids_ok: "list_all (\<lambda>i. 0 \<le> i) nf_ids" "distinct nf_ids"
  by (simp_all add: nf_ids_def)

lemma nf_tables: "tables_ok NF_NAMES [''text'', ''logs''] NF_TABS nf_ids nf_tabs"
  unfolding tables_ok_def
  using nf_geometry nf_good_overview nf_good_applications nf_good_external nf_good_security nf_good_health
    nf_good_internals nf_ids_ok
  by (simp add: nf_keys del: list.map) (simp add: nf_tabs_def list_all_placements NF_TABS_def panel_text)

section \<open>Queries\<close>

text \<open>A query that passes both loops, whichever panel it is in.\<close>

definition query_ok :: "json \<Rightarrow> bool" where
  "query_ok q = (\<forall>el. check_sql el q = Inr () \<and> check_histogram el q = Inr ())"

definition sql_ok :: "string \<Rightarrow> bool" where
  "sql_ok sql = (qrun sql q0 \<noteq> None \<and> wrun ''Boundary'' sql (Some []) \<noteq> None)"

definition expr_ok :: "string \<Rightarrow> bool" where
  "expr_ok e = (\<not> py_in ''histogram_quantile'' e \<or>
     metric_words e \<noteq> [] \<and> list_all (ends_with ''_bucket'') (metric_words e))"

lemma sql_ok_check:
  assumes "sql_ok sql"
  shows "\<not> py_in ''IfBoundary'' sql" "inner \<in> set (sum_args sql) \<Longrightarrow> py_in ''SamplingRate'' inner"
proof -
  have "\<not> py_in ''Boundary'' sql" using assms wrun_word [of "''Boundary''" sql] by (auto simp: sql_ok_def)
  then show "\<not> py_in ''IfBoundary'' sql" by (rule py_in_part) simp
  show "inner \<in> set (sum_args sql) \<Longrightarrow> py_in ''SamplingRate'' inner"
    using assms qrun_sound [of sql] by (simp add: sql_ok_def q0_def)
qed

lemma query_ok_ch: "sql_ok sql \<Longrightarrow> query_ok (ch_query sql r f)"
  using sql_ok_check [of sql]
  by (auto simp: query_ok_def check_sql_def check_histogram_def query_text_def ch_query_def allR_Inr_iff)

lemma query_ok_prom: "expr_ok e \<Longrightarrow> query_ok (prom_query e l r f i)"
  by (auto simp: query_ok_def expr_ok_def check_sql_def check_histogram_def query_text_def prom_query_def
      allR_Inr_iff list_all_iff Let_def)

definition panel_ok :: "json \<Rightarrow> bool" where
  "panel_ok el = (\<exists>qs. panel_queries el = Inr qs \<and> list_all query_ok qs)"

lemma panel_queries_panel: "panel_queries (snd (panel pid t viz qs unit desc a)) = Inr qs"
  by (simp add: panel_queries_def panel_def data_group_def Let_def)

lemma maker_queries:
  "panel_ok (snd (panel pid t viz qs un d a)) = list_all query_ok qs"
  "panel_ok (snd (stat pid t e un d a)) = query_ok (prom_query e (arg [] (o_legend a)) ''A'' ''time_series'' False)"
  "panel_ok (snd (timeseries pid t qs un d a)) = list_all query_ok qs"
  "panel_ok (snd (bargauge pid t qs un d a)) = list_all query_ok qs"
  "panel_ok (snd (table pid t qs d a)) = list_all query_ok qs"
  "panel_ok (snd (piechart pid t qs un d a)) = list_all query_ok qs"
  "panel_ok (snd (state_timeline pid t qs un d a)) = list_all query_ok qs"
  "panel_ok (snd (heatmap pid t qs un d a)) = list_all query_ok qs"
  "panel_ok (snd (ch_stat pid t sql un d)) = query_ok (ch_query sql ''A'' 2)"
  "panel_ok (snd (ch_geomap pid t sql l d)) = query_ok (ch_query sql ''A'' 2)"
  "panel_ok (snd (ch_nodegraph pid t ns es d)) =
     (query_ok (ch_query ns ''nodes'' 2) \<and> query_ok (ch_query es ''edges'' 2))"
  "panel_ok (snd (text_panel pid t c))"
  by (simp_all add: panel_ok_def panel_queries_panel stat_def timeseries_def bargauge_def table_def
      piechart_def state_timeline_def heatmap_def ch_stat_def ch_geomap_def ch_nodegraph_def Let_def)
    (simp add: panel_queries_def text_panel_def data_group_def Let_def)

lemma sql_qruns:
  "qrun ROUTER_SQL q0 = q0" "qrun LOCAL_SRC q0 = q0" "qrun LOCAL_DST q0 = q0" "qrun EXTERNAL_SRC q0 = q0"
  "qrun EXTERNAL_DST q0 = q0" "qrun CROSSES_BOUNDARY q0 = q0" "qrun SRC_COUNTRY q0 = q0"
  "qrun DST_COUNTRY q0 = q0" "qrun IPV6 q0 = q0" "qrun TCP_SHAPE q0 = q0" "qrun SERVICE_CLASS q0 = q0"
  "qrun DIRECTION_EXPR q0 = q0" "qrun CROSSES_BOUNDARY (Some ([], Some r)) = q0"
  "qrun TCP_SHAPE (Some ([], Some r)) = q0" "qrun SERVICE_CLASS (Some ([], Some r)) = q0"
  "qrun DIRECTION_EXPR (Some ([], Some r)) = q0"
  by (simp_all add: ROUTER_SQL_def LOCAL_SRC_def LOCAL_DST_def EXTERNAL_SRC_def EXTERNAL_DST_def
      CROSSES_BOUNDARY_def SRC_COUNTRY_def DST_COUNTRY_def IPV6_def TCP_SHAPE_def SERVICE_CLASS_def
      DIRECTION_EXPR_def qrun_simps del: append.simps append_assoc)

lemma sql_wruns:
  "wrun ''Boundary'' ROUTER_SQL (Some []) = Some []" "wrun ''Boundary'' LOCAL_SRC (Some []) = Some []"
  "wrun ''Boundary'' LOCAL_DST (Some []) = Some []" "wrun ''Boundary'' EXTERNAL_SRC (Some []) = Some []"
  "wrun ''Boundary'' EXTERNAL_DST (Some []) = Some []" "wrun ''Boundary'' CROSSES_BOUNDARY (Some []) = Some []"
  "wrun ''Boundary'' SRC_COUNTRY (Some []) = Some []" "wrun ''Boundary'' DST_COUNTRY (Some []) = Some []"
  "wrun ''Boundary'' IPV6 (Some []) = Some []" "wrun ''Boundary'' TCP_SHAPE (Some []) = Some []"
  "wrun ''Boundary'' SERVICE_CLASS (Some []) = Some []" "wrun ''Boundary'' DIRECTION_EXPR (Some []) = Some []"
  by (simp_all add: ROUTER_SQL_def LOCAL_SRC_def LOCAL_DST_def EXTERNAL_SRC_def EXTERNAL_DST_def
      CROSSES_BOUNDARY_def SRC_COUNTRY_def DST_COUNTRY_def IPV6_def TCP_SHAPE_def SERVICE_CLASS_def
      DIRECTION_EXPR_def wrun_simps del: append.simps append_assoc)

lemma packet_size_qrun: "qrun packet_size_columns q0 = q0"
proof -
  have "list_all (\<lambda>w. qrun w q0 = q0) (packet_size_parts 0 PACKET_SIZE_EDGES)"
    by (simp add: PACKET_SIZE_EDGES_def qrun_simps Let_def show_edges del: append.simps append_assoc)
  moreover have "qrun ('', '') q0 = q0" by (simp add: qrun_simps)
  ultimately show ?thesis unfolding packet_size_columns_def qrun_def
    by (intro fold_join) (simp_all add: qrun_def [symmetric] qrun_simps PACKET_SIZE_EDGES_def show_edges
        del: append.simps append_assoc)
qed

lemma packet_size_wrun: "wrun ''Boundary'' packet_size_columns (Some []) = Some []"
proof -
  have "list_all (\<lambda>w. wrun ''Boundary'' w (Some []) = Some []) (packet_size_parts 0 PACKET_SIZE_EDGES)"
    by (simp add: PACKET_SIZE_EDGES_def wrun_simps Let_def show_edges del: append.simps append_assoc)
  moreover have "wrun ''Boundary'' ('', '') (Some []) = Some []" by (simp add: wrun_simps)
  ultimately show ?thesis unfolding packet_size_columns_def wrun_def
    by (intro fold_join) (simp_all add: wrun_def [symmetric] wrun_simps PACKET_SIZE_EDGES_def show_edges
        del: append.simps append_assoc)
qed

lemma expr_free: "wrun ''histogram'' e (Some []) \<noteq> None \<Longrightarrow> expr_ok e"
proof -
  assume "wrun ''histogram'' e (Some []) \<noteq> None"
  then have "\<not> py_in ''histogram'' e" using wrun_word [of "''histogram''" e] by auto
  then have "\<not> py_in ''histogram_quantile'' e" by (rule py_in_part) simp
  then show "expr_ok e" by (simp add: expr_ok_def)
qed

lemma insert_time_ok:
  "expr_ok ''histogram_quantile(0.50, sum by (le) (rate(akvorado_outlet_clickhouse_insert_time_seconds_bucket[$__rate_interval])))''"
  "expr_ok ''histogram_quantile(0.95, sum by (le) (rate(akvorado_outlet_clickhouse_insert_time_seconds_bucket[$__rate_interval])))''"
  "expr_ok ''histogram_quantile(0.99, sum by (le) (rate(akvorado_outlet_clickhouse_insert_time_seconds_bucket[$__rate_interval])))''"
  by code_simp+

lemma FILTER_hist: "wrun ''histogram'' PROM_FILTER (Some []) = Some []"
  by (simp add: PROM_FILTER_def wrun_simps del: append.simps append_assoc)

lemmas nf_query_rules = maker_queries query_ok_ch query_ok_prom insert_time_ok expr_free sql_ok_def
  qrun_simps sql_qruns packet_size_qrun wrun_simps sql_wruns packet_size_wrun FILTER_hist sql_parts

lemma nf_queries_overview: "list_all (\<lambda>p. panel_ok (snd (fst p))) nf_overview"
  unfolding nf_overview_def
  by (simp only: list.pred_inject fst_conv snd_conv) (simp add: nf_query_rules del: append.simps append_assoc)

lemma nf_queries_applications: "list_all (\<lambda>p. panel_ok (snd (fst p))) nf_applications"
  unfolding nf_applications_def
  by (simp only: list.pred_inject fst_conv snd_conv) (simp add: nf_query_rules del: append.simps append_assoc)

lemma nf_queries_external: "list_all (\<lambda>p. panel_ok (snd (fst p))) nf_external"
  unfolding nf_external_def
  by (simp only: list.pred_inject fst_conv snd_conv) (simp add: nf_query_rules del: append.simps append_assoc)

lemma nf_queries_security: "list_all (\<lambda>p. panel_ok (snd (fst p))) nf_security"
  unfolding nf_security_def
  by (simp only: list.pred_inject fst_conv snd_conv) (simp add: nf_query_rules del: append.simps append_assoc)

lemma nf_queries_health: "list_all (\<lambda>p. panel_ok (snd (fst p))) nf_health"
  unfolding nf_health_def
  by (simp only: list.pred_inject fst_conv snd_conv) (simp add: nf_query_rules del: append.simps append_assoc)

lemma nf_queries_internals: "list_all (\<lambda>p. panel_ok (snd (fst p))) nf_internals"
  unfolding nf_internals_def
  by (simp only: list.pred_inject fst_conv snd_conv) (simp add: nf_query_rules del: append.simps append_assoc)

lemmas nf_queries = nf_queries_overview nf_queries_applications nf_queries_external nf_queries_security
  nf_queries_health nf_queries_internals

lemma check_queries_ok:
  assumes "list_all (\<lambda>p. panel_ok (snd (fst p))) (all_placements tabs)"
    and "check = check_sql \<or> check = check_histogram"
  shows "check_queries check (JDict (elements_of tabs)) = Inr ()"
proof -
  have "bindR (panel_queries (snd it)) (allR (check (snd it))) = Inr ()" if it: "it \<in> set (elements_of tabs)" for it
  proof -
    have "panel_ok (snd it)" using it assms(1) by (auto simp: elements_of_def list_all_iff)
    then obtain qs where qs: "panel_queries (snd it) = Inr qs" "list_all query_ok qs"
      by (auto simp: panel_ok_def)
    then have "check (snd it) q = Inr ()" if "q \<in> set qs" for q
      using assms(2) that by (auto simp: list_all_iff query_ok_def)
    then show ?thesis using qs(1) by (simp add: allR_Inr_iff)
  qed
  then show ?thesis by (simp add: check_queries_def allR_Inr_iff)
qed

section \<open>The specification\<close>

abbreviation nf_elements :: "item list" where "nf_elements \<equiv> elements_of nf_tabs"

abbreviation nf_built :: json where "nf_built \<equiv> nf_spec nf_elements (map tab_of nf_tabs)"

lemma nf_document: "nf_dashboard spec = document ''openwrt-netflow'' spec"
  by (simp add: nf_dashboard_def document_def DASHBOARD_API_def)

lemma nf_spec_parts:
  "jget nf_built ''elements'' = Inr (JDict nf_elements)"
  "jget nf_built ''layout'' = Inr (layout_of nf_tabs)"
  "check_field nf_built [''title''] ''OpenWrt - NetFlow'' = Inr ()"
  "tab_titles nf_built = Inr NF_TABS"
  "variable_names nf_built = Inr [''DS_PROMETHEUS'', ''DS_CLICKHOUSE'', ''router'']"
  "bindR (jpath (layout_of nf_tabs) [''spec'', ''tabs'']) jlist = Inr (map tab_of nf_tabs)"
proof -
  have "tab_titles nf_built = Inr (map fst nf_tabs)"
    by (rule tab_titles_of) (simp add: nf_spec_def)
  then show "tab_titles nf_built = Inr NF_TABS" by (simp add: nf_tabs_def NF_TABS_def)
qed (simp_all add: nf_spec_def layout_of_def layout_json_def check_field_def variable_names_def
      nf_variables_def datasource_var_def query_var_def)

lemma nf_text: "text_clean NF_NAMES nf_built"
  using tables_text [OF nf_tables]
  by (simp add: nf_spec_def nf_variables_def panel_text layout_of_def layout_json_def
      del: append.simps append_assoc)

lemma iter_nf: "s \<in> set (iter_strings (JDict nf_elements)) \<Longrightarrow> s \<in> set (iter_strings nf_built)"
  by (simp add: nf_spec_def)

text \<open>One query to each data source.\<close>

definition failures :: string where
  "failures = ''sum(increase(openwrt_netflow_export_failures_total{'' @ PROM_FILTER @
     ''}[$__range])) or vector(0)''"

lemma ch_stat_texts: "CH_DS \<in> set (iter_strings (snd (ch_stat pid t sql u d)))"
  by (simp add: ch_stat_def panel_def data_group_def ch_query_def Let_def)

lemma nf_strings: "failures \<in> set (iter_strings nf_built)" "PROM_DS \<in> set (iter_strings nf_built)"
  "CH_DS \<in> set (iter_strings nf_built)"
proof -
  have "\<exists>pid t u d a. fst (nf_health ! 10) = stat pid t failures u d a"
    by (intro exI) (simp add: nf_health_def failures_def)
  moreover have "10 < length nf_health" by (simp add: nf_health_def)
  moreover have "(''Pipeline Health'', nf_health) \<in> set nf_tabs" by (simp add: nf_tabs_def)
  ultimately show "failures \<in> set (iter_strings nf_built)" "PROM_DS \<in> set (iter_strings nf_built)"
    by (blast intro: iter_nf stat_string)+
  have "\<exists>pid t sql u d. fst (nf_overview ! 1) = ch_stat pid t sql u d"
    by (intro exI) (simp add: nf_overview_def)
  then have "CH_DS \<in> set (iter_strings (snd (fst (nf_overview ! 1))))" using ch_stat_texts by metis
  moreover have "(''Flow Overview'', nf_overview) \<in> set nf_tabs" by (simp add: nf_tabs_def)
  moreover have "1 < length nf_overview" by (simp add: nf_overview_def)
  ultimately show "CH_DS \<in> set (iter_strings nf_built)" by (blast intro: iter_nf placement_texts)
qed

lemma nf_check_vars_iff:
  "nf_check_vars spec = Inr () \<longleftrightarrow>
     check_vars NF_GLOBALS [''DS_PROMETHEUS'', ''DS_CLICKHOUSE''] spec = Inr ()"
  by (auto simp: nf_check_vars_def check_vars_iff bindR_Inr_iff ensure_Inr_iff Let_def)

lemma nf_vars: "nf_check_vars nf_built = Inr ()"
  unfolding nf_check_vars_iff
proof (rule check_vars_clean [OF nf_spec_parts(5)])
  show "text_clean ([''DS_PROMETHEUS'', ''DS_CLICKHOUSE'', ''router''] @ NF_GLOBALS) nf_built"
    using nf_text by (simp add: NF_NAMES_def)
  have "var_occurs ''router'' failures" unfolding failures_def by (rule PROM_FILTER_parts)
  then show "set [''DS_PROMETHEUS'', ''DS_CLICKHOUSE'', ''router''] \<subseteq>
      set (referenced_vars nf_built) \<union> set [''DS_PROMETHEUS'', ''DS_CLICKHOUSE'']"
    using referenced [OF nf_strings(1)] by simp
qed

section \<open>The dashboard\<close>

lemma escape_CH: "escape CH_DS = CH_DS"
  by (simp add: escape_def CH_DS_def json_escape_char_def)

lemma nf_valid: "nf_validate_dashboard (nf_dashboard nf_built) = Inr ()"
proof -
  let ?d = "document ''openwrt-netflow'' nf_built"
  have slug: "clean NF_NAMES ''openwrt-netflow''" by (simp add: panel_text)
  obtain pids where ids: "foldR adv_check_panel [] nf_elements = Inr pids" "distinct pids"
    using tables_panel_fold [OF nf_tables] adv_panel_fold by metis
  have refs: "adv_check_refs (layout_of nf_tabs) (JDict nf_elements) = Inr ()"
    using tables_refs [OF nf_tables] by (simp add: adv_check_refs_iff)
  have tabs: "allR adv_check_tab (map tab_of nf_tabs) = Inr ()"
    using nf_geometry by (simp add: allR_Inr_iff adv_check_tab_built list_all_iff)
  have "list_all (\<lambda>p. panel_ok (snd (fst p))) (all_placements nf_tabs)"
    using nf_queries by (simp add: nf_tabs_def list_all_placements)
  then have queries: "check_queries check_sql (JDict nf_elements) = Inr ()"
    "check_queries check_histogram (JDict nf_elements) = Inr ()"
    by (simp_all add: check_queries_ok)
  have "check_header ?d ''openwrt-netflow'' = Inr ()" by (rule document_header)
  then show ?thesis
    unfolding nf_validate_dashboard_def Let_def nf_document
    by (simp only: bindR.simps document_spec nf_spec_parts ensure_True refs jitems.simps ids tabs nf_vars queries
        document_lacks [OF nf_text slug] document_has [OF nf_strings(2) escape_DS(1)]
        document_has [OF nf_strings(3) escape_CH] refl)
qed

lemma nf_build: "nf_build_dashboard = Inr (nf_dashboard nf_built)"
  by (simp add: nf_build_dashboard_def tables_build [OF nf_tables] nf_valid Let_def)

end
