(* ===== verification/Builder_Spec.thy ===== *)
theory Builder_Spec
  imports Grid
begin

text \<open>
  The specification the builder refines: a finite map of elements and, for each tab, the boxes its
  items stand for. One commuting lemma per operation, and one for loops.
\<close>

text \<open>
  The builder's contract: a dashboard under construction is a finite map from keys to elements and,
  for each tab, the boxes of its panels; adding a panel extends the map at a fresh key.
\<close>

fun spec_add ::
  "(string \<rightharpoonup> json) \<times> box res list \<Rightarrow> placement \<Rightarrow> ((string \<rightharpoonup> json) \<times> box res list) res" where
  "spec_add (m, bs) ((key, element), x, y, w, h) =
     (if key \<in> dom m then Inl (AssertionError (''duplicate element key: '' @ key))
      else Inr (m(key \<mapsto> element), bs @ [Inr (x, y, w, h, key)]))"

fun spec_tab ::
  "(string \<rightharpoonup> json) \<times> (string \<times> box res list) list \<Rightarrow> string \<times> placement list \<Rightarrow>
     ((string \<rightharpoonup> json) \<times> (string \<times> box res list) list) res" where
  "spec_tab (m, tabs) (title, ps) =
     bindR (foldR spec_add (m, []) ps) (\<lambda>(m', bs). Inr (m', tabs @ [(title, bs)]))"

text \<open>What the lists of the builder stand for.\<close>

definition abs_items :: "item list \<times> json list \<Rightarrow> (string \<rightharpoonup> json) \<times> box res list" where
  "abs_items st = (map_of (fst st), map read_item (snd st))"

definition abs_tab :: "json \<Rightarrow> string \<times> box res list" where
  "abs_tab tj = (case tab_items tj of Inr (title, items) \<Rightarrow> (title, map read_item items) | Inl e \<Rightarrow> ([], [Inl e]))"

definition abs_board :: "item list \<times> json list \<Rightarrow> (string \<rightharpoonup> json) \<times> (string \<times> box res list) list" where
  "abs_board st = (map_of (fst st), map abs_tab (snd st))"

lemma map_of_snoc: "k \<notin> fst ` set els \<Longrightarrow> map_of (els @ [(k, e)]) = (map_of els)(k \<mapsto> e)"
  by (induction els) auto

lemma add_panel_refines: "map_sum id abs_items (add_panel st p) = spec_add (abs_items st) p"
proof -
  obtain els its where st: "st = (els, its)" by (cases st)
  obtain k e x y w h where p: "p = ((k, e), x, y, w, h)" by (metis prod.exhaust)
  show ?thesis
    by (cases "k \<in> fst ` set els")
      (auto simp: st p abs_items_def dom_map_of_conv_image_fst map_of_snoc read_item_of simp del: map_of_append)
qed

text \<open>A loop refines a loop when its step does.\<close>

lemma foldR_refines:
  assumes "\<And>s x. map_sum id rep (f s x) = g (rep s) x"
  shows "map_sum id rep (foldR f s xs) = foldR g (rep s) xs"
proof (induction xs arbitrary: s)
  case (Cons x xs)
  then show ?case using assms [of s x] by (cases "f s x") (auto simp: assms [symmetric])
qed simp

lemma build_tab_refines: "map_sum id abs_board (build_tab st t) = spec_tab (abs_board st) t"
proof -
  obtain els tjs title ps where st: "st = (els, tjs)" "t = (title, ps)" by (cases st, cases t)
  have "foldR spec_add (map_of els, []) ps = map_sum id abs_items (foldR add_panel (els, []) ps)"
    using foldR_refines [of abs_items add_panel spec_add "(els, [])" ps] add_panel_refines
    by (simp add: abs_items_def)
  moreover have "abs_tab (tab_json title its) = (title, map read_item its)" for its
    by (simp add: abs_tab_def tab_items_def tab_json_def)
  ultimately show ?thesis
    by (cases "foldR add_panel (els, []) ps") (auto simp: st abs_board_def abs_items_def split_beta)
qed

lemma build_tabs_refines:
  "map_sum id abs_board (build_tabs tabs) = foldR spec_tab (Map.empty, []) tabs"
proof -
  have "map_sum id abs_board (foldR build_tab ([], []) tabs) = foldR spec_tab (abs_board ([], [])) tabs"
    by (rule foldR_refines) (rule build_tab_refines)
  then show ?thesis by (simp add: build_tabs_def abs_board_def)
qed

end
