(* ===== verification/Grid_Area.thy ===== *)
theory Grid_Area
  imports Grid
begin

text \<open>
  What non-overlap gives in numbers: the panels of an accepted tab have together no more cells than
  the 24 columns down to the lowest edge.
\<close>

fun box_area :: "box \<Rightarrow> int" where
  "box_area (x, y, w, h, _) = w * h"

fun bottom_edge :: "box \<Rightarrow> int" where
  "bottom_edge (x, y, w, h, _) = y + h"

definition bottom :: "box list \<Rightarrow> int" where
  "bottom bs = foldr (\<lambda>b m. max (bottom_edge b) m) bs 0"

definition cells :: "box \<Rightarrow> (int \<times> int) set" where
  "cells b = {c. covers c b}"

lemma cells_box: "cells (x, y, w, h, n) = {x..<x + w} \<times> {y..<y + h}"
  by (auto simp: cells_def)

lemma cells_finite: "finite (cells b)"
  by (cases b rule: box_area.cases) (simp add: cells_box)

lemma cells_area: "on_grid b \<Longrightarrow> int (card (cells b)) = box_area b"
  by (cases b rule: box_area.cases) (simp add: cells_box)

lemma bottom_edge_le: "b \<in> set bs \<Longrightarrow> bottom_edge b \<le> bottom bs"
  by (induction bs) (auto simp: bottom_def)

lemma bottom_nonneg: "0 \<le> bottom bs"
  by (induction bs) (auto simp: bottom_def)

lemma cells_inside: "b \<in> set bs \<Longrightarrow> on_grid b \<Longrightarrow> cells b \<subseteq> {0..<24} \<times> {0..<bottom bs}"
  using bottom_edge_le [of b bs] by (cases b rule: box_area.cases) (auto simp: cells_box)

lemma disjoint_area:
  "list_all on_grid bs \<Longrightarrow> covered_once bs \<Longrightarrow>
     sum_list (map box_area bs) = int (card (\<Union> (cells ` set bs)))"
proof (induction bs)
  case (Cons b bs)
  have "cells b \<inter> \<Union> (cells ` set bs) = {}"
    using Cons.prems(2) by (auto simp: covered_once_Cons cells_def)
  then have "card (\<Union> (cells ` set (b # bs))) = card (cells b) + card (\<Union> (cells ` set bs))"
    by (simp add: card_Un_disjoint cells_finite)
  then show ?case using Cons by (simp add: cells_area covered_once_Cons)
qed simp

lemma grid_area:
  assumes "grid_ok bs"
  shows "sum_list (map box_area bs) \<le> 24 * bottom bs"
proof -
  have ok: "list_all on_grid bs" "covered_once bs" using assms by (auto simp: grid_ok_def)
  have "\<Union> (cells ` set bs) \<subseteq> {0..<24} \<times> {0..<bottom bs}"
    using cells_inside ok(1) by (fastforce simp: list_all_iff)
  then have "card (\<Union> (cells ` set bs)) \<le> card ({0..<24::int} \<times> {0..<bottom bs})"
    by (intro card_mono) auto
  also have "\<dots> = 24 * nat (bottom bs)" by (simp add: card_cartesian_product)
  finally show ?thesis using bottom_nonneg [of bs] by (simp add: disjoint_area [OF ok])
qed

end
