(* ===== verification/Flow_Labels.thy ===== *)
theory Flow_Labels
  imports Netflow_Validate
begin

text \<open>
  The lists the NetFlow generator keeps in step by hand: the labels a SQL expression can yield and
  the columns made of them, and the edges of the packet-size buckets and the conditions over them.
\<close>

section \<open>Labels\<close>

fun seconds :: "'a list \<Rightarrow> 'a list" where
  "seconds (a # b # xs) = b # seconds xs"
| "seconds _ = []"

text \<open>The texts between single quotes of a SQL expression.\<close>

definition quoted :: "string \<Rightarrow> string list" where
  "quoted sql = seconds (py_split SQ sql)"

text \<open>The name an override of the field configuration matches.\<close>

definition override_name :: "json \<Rightarrow> string res" where
  "override_name v = bindR (jpath v [''matcher'', ''options'']) jstr"

section \<open>Buckets\<close>

type_synonym bucket = "int \<times> int option"

fun buckets :: "int \<Rightarrow> int list \<Rightarrow> bucket list" where
  "buckets lower [] = [(lower, None)]"
| "buckets lower (upper # edges) = (lower, Some upper) # buckets upper edges"

fun in_bucket :: "int \<Rightarrow> bucket \<Rightarrow> bool" where
  "in_bucket n (lower, upper) = (lower \<le> n \<and> (case upper of Some u \<Rightarrow> n < u | None \<Rightarrow> True))"

fun bucket_tests :: "bucket \<Rightarrow> string list" where
  "bucket_tests (lower, upper) =
     (if lower \<noteq> 0 then [''PacketSize >= '' @ show_int lower] else []) @
     (case upper of Some u \<Rightarrow> [''PacketSize < '' @ show_int u] | None \<Rightarrow> [])"

definition bucket_name :: "bucket \<Rightarrow> string" where
  "bucket_name b = (case snd b of Some u \<Rightarrow> show_int u | None \<Rightarrow> ''+Inf'')"

definition bucket_column :: "bucket \<Rightarrow> string" where
  \<open>bucket_column b = ''sumIf(Packets * SamplingRate, '' @ py_join '' AND '' (bucket_tests b) @
     '') AS "'' @ bucket_name b @ ''"''\<close>

text \<open>Rising edges cut the sizes from the first edge on into buckets that do not meet.\<close>

lemma buckets_partition:
  "sorted_wrt (<) (lower # edges) \<Longrightarrow> lower \<le> n \<Longrightarrow> length (filter (in_bucket n) (buckets lower edges)) = 1"
proof (induction edges arbitrary: lower)
  case (Cons upper edges)
  have below: "n < l \<Longrightarrow> sorted_wrt (<) (l # es) \<Longrightarrow> filter (in_bucket n) (buckets l es) = []" for l es
    by (induction es arbitrary: l) (auto split: option.splits)
  show ?case using Cons below [of upper edges] by (cases "n < upper") auto
qed simp

lemma packet_columns: "packet_size_columns = py_join '', '' (map bucket_column (buckets 0 PACKET_SIZE_EDGES))"
  by (simp add: packet_size_columns_def PACKET_SIZE_EDGES_def bucket_column_def bucket_name_def Let_def)

lemma edges_rise: "sorted_wrt (<) (0 # PACKET_SIZE_EDGES)"
  by (simp add: PACKET_SIZE_EDGES_def)

lemma label_lists:
  "distinct TCP_SHAPES" "set (quoted TCP_SHAPE) = set TCP_SHAPES"
  "distinct SERVICE_CLASSES" "set (quoted SERVICE_CLASS) = set SERVICE_CLASSES"
  "distinct DIRECTIONS" "set (quoted DIRECTION_EXPR) = insert ''internal'' (set DIRECTIONS)"
  "mapR override_name DIRECTION_COLORS = Inr DIRECTIONS"
  "mapR override_name TCP_SHAPE_COLORS = Inr TCP_SHAPES"
  by code_simp+

end
