(* ===== verification/Mission_Widgets.thy ===== *)
theory Mission_Widgets
  imports Builder
begin

text \<open>
  The constants and panel constructors of \<open>scripts/build_openwrt_mission_control.py\<close>. It imports
  queries, transformations, variables and the builder from the operations generator and has
  thresholds, mappings and panels of its own. Two assertions run while panels are made: the first
  step of a threshold set has no value, and a panel has a description; so a constructor returns
  \<open>item res\<close>. The sets of the table \<open>THRESHOLDS\<close> are made when the module is loaded, where none of
  them fails (\<open>mc_THRESHOLDS_ok\<close>).
\<close>

section \<open>Names\<close>

definition MC_DASHBOARD_NAME :: string where
  \<open>MC_DASHBOARD_NAME = ''openwrt-mission-control''\<close>

definition MC_DASHBOARD_TITLE :: string where
  \<open>MC_DASHBOARD_TITLE = ''OpenWrt - Mission Control''\<close>

definition ALLOY_FILTER :: string where
  \<open>ALLOY_FILTER = ''job="alloy-openwrt-metrics"''\<close>

definition MIN_INTERVAL :: string where
  \<open>MIN_INTERVAL = ''30s''\<close>

definition TAB_TITLES :: "string list" where
  \<open>TAB_TITLES =
     [([CHR 0xF0, CHR 0x9F, CHR 0x8F, CHR 0xA0] @ '' Overview''),
     ([CHR 0xF0, CHR 0x9F, CHR 0x8C, CHR 0x90] @ '' WAN & Internet''),
     ([CHR 0xF0, CHR 0x9F, CHR 0x93, CHR 0xB6] @ '' WiFi & Clients''),
     ([CHR 0xF0, CHR 0x9F, CHR 0x94, CHR 0x80] @ '' LAN, Devices & Traffic''),
     ([CHR 0xF0, CHR 0x9F, CHR 0xA7, CHR 0xAD] @ '' DNS & DHCP''),
     ([CHR 0xE2, CHR 0x9D, CHR 0xA4] @ [CHR 0xEF, CHR 0xB8, CHR 0x8F] @ '' Router Health''),
     ([CHR 0xF0, CHR 0x9F, CHR 0x95, CHR 0xB8] @ '' Topology''),
     ([CHR 0xF0, CHR 0x9F, CHR 0x93, CHR 0x9C] @ '' Logs & Security''),
     ([CHR 0xF0, CHR 0x9F, CHR 0x94, CHR 0xAC] @ '' Diagnostics'')]\<close>

section \<open>Thresholds, mappings and overrides\<close>

definition mc_threshold_set :: "(string \<times> json) list \<Rightarrow> json" where
  \<open>mc_threshold_set steps = JDict [(''mode'', JStr ''absolute''), (''steps'', JList
     (map (\<lambda>(color, value). JDict [(''color'', JStr color), (''value'', value)]) steps))]\<close>

definition mc_thresholds :: "(string \<times> json) list \<Rightarrow> json res" where
  \<open>mc_thresholds steps =
     bindR (ensure (steps \<noteq> [] \<and> snd (hd steps) = JNull)
       (AssertionError ''base threshold step must be None (-inf)'')) (\<lambda>_. Inr (mc_threshold_set steps))\<close>

datatype mc_threshold_key =
    McNeutral | McInfo | McOkBad | McZeroGood | McZeroGoodHard | McCapacityPercent
    | McAvailability | McLatencyMs | McLossPercent | McSignalDbm | McTemperature | McScore
    | McFreshness | McScrapeSeconds

fun mc_steps :: "mc_threshold_key \<Rightarrow> (string \<times> json) list" where
  "mc_steps McNeutral = [(BLUE, JNull)]"
| "mc_steps McInfo = [(PURPLE, JNull)]"
| "mc_steps McOkBad = [(RED, JNull), (GREEN, JInt 1)]"
| "mc_steps McZeroGood = [(GREEN, JNull), (ORANGE, JInt 1)]"
| "mc_steps McZeroGoodHard = [(GREEN, JNull), (RED, JInt 1)]"
| "mc_steps McCapacityPercent = [(GREEN, JNull), (YELLOW, JInt 70), (RED, JInt 90)]"
| "mc_steps McAvailability = [(RED, JNull), (YELLOW, JInt 99), (GREEN, JFloat ''99.9'')]"
| "mc_steps McLatencyMs = [(GREEN, JNull), (YELLOW, JInt 50), (RED, JInt 150)]"
| "mc_steps McLossPercent = [(GREEN, JNull), (YELLOW, JInt 1), (RED, JInt 5)]"
| "mc_steps McSignalDbm = [(RED, JNull), (YELLOW, JInt (- 75)), (GREEN, JInt (- 67))]"
| "mc_steps McTemperature = [(GREEN, JNull), (YELLOW, JInt 75), (RED, JInt 85)]"
| "mc_steps McScore = [(RED, JNull), (YELLOW, JInt 5), (GREEN, JInt 9)]"
| "mc_steps McFreshness = [(GREEN, JNull), (YELLOW, JInt 660), (RED, JInt 900)]"
| "mc_steps McScrapeSeconds = [(GREEN, JNull), (YELLOW, JInt 5), (RED, JInt 15)]"

definition mc_THRESHOLDS :: "mc_threshold_key \<Rightarrow> json" where
  "mc_THRESHOLDS k = mc_threshold_set (mc_steps k)"

definition MC_STATUS_MAPPINGS :: "json list" where
  \<open>MC_STATUS_MAPPINGS =
     [JDict [(''type'', JStr ''value''), (''options'', JDict [(''1'', JDict [(''text'',
     JStr ([CHR 0xF0, CHR 0x9F, CHR 0x9F, CHR 0xA2] @ '' Healthy'')), (''color'', JStr GREEN),
     (''index'', JInt 0)])])], JDict [(''type'', JStr ''value''), (''options'', JDict [(''0'',
     JDict [(''text'', JStr ([CHR 0xF0, CHR 0x9F, CHR 0x94, CHR 0xB4] @ '' Down'')),
     (''color'', JStr RED), (''index'', JInt 1)])])], JDict [(''type'', JStr ''special''),
     (''options'', JDict [(''match'', JStr ''null''), (''result'',
     JDict [(''text'', JStr ''No data''), (''color'', JStr GRAY), (''index'', JInt 2)])])],
     JDict [(''type'', JStr ''special''), (''options'', JDict [(''match'', JStr ''nan''),
     (''result'', JDict [(''text'', JStr ''n/a''), (''color'', JStr GRAY),
     (''index'', JInt 3)])])]]\<close>

definition ONLINE_MAPPINGS :: "json list" where
  \<open>ONLINE_MAPPINGS =
     [JDict [(''type'', JStr ''value''), (''options'', JDict [(''1'',
     JDict [(''text'', JStr ''Online''), (''color'', JStr GREEN), (''index'', JInt 0)])])],
     JDict [(''type'', JStr ''value''), (''options'', JDict [(''0'',
     JDict [(''text'', JStr ''Offline''), (''color'', JStr GRAY), (''index'', JInt 1)])])],
     JDict [(''type'', JStr ''special''), (''options'', JDict [(''match'', JStr ''null''),
     (''result'', JDict [(''text'', JStr ''Unknown''), (''color'', JStr GRAY),
     (''index'', JInt 2)])])]]\<close>

definition RUNNING_MAPPINGS :: "json list" where
  \<open>RUNNING_MAPPINGS =
     [JDict [(''type'', JStr ''value''), (''options'', JDict [(''1'',
     JDict [(''text'', JStr ''Running''), (''color'', JStr GREEN), (''index'', JInt 0)])])],
     JDict [(''type'', JStr ''value''), (''options'', JDict [(''0'',
     JDict [(''text'', JStr ''Stopped''), (''color'', JStr RED), (''index'', JInt 1)])])],
     JDict [(''type'', JStr ''special''), (''options'', JDict [(''match'', JStr ''null''),
     (''result'', JDict [(''text'', JStr ''Unknown''), (''color'', JStr GRAY),
     (''index'', JInt 2)])])]]\<close>

definition REACHABLE_MAPPINGS :: "json list" where
  \<open>REACHABLE_MAPPINGS =
     [JDict [(''type'', JStr ''value''), (''options'', JDict [(''1'',
     JDict [(''text'', JStr ''Reachable''), (''color'', JStr GREEN), (''index'', JInt 0)])])],
     JDict [(''type'', JStr ''value''), (''options'', JDict [(''0'',
     JDict [(''text'', JStr ''Unreachable''), (''color'', JStr RED), (''index'', JInt 1)])])],
     JDict [(''type'', JStr ''special''), (''options'', JDict [(''match'', JStr ''null''),
     (''result'', JDict [(''text'', JStr ''Not probed''), (''color'', JStr GRAY),
     (''index'', JInt 2)])])]]\<close>

definition ENABLED_MAPPINGS :: "json list" where
  \<open>ENABLED_MAPPINGS =
     [JDict [(''type'', JStr ''value''), (''options'', JDict [(''1'',
     JDict [(''text'', JStr ''Yes''), (''color'', JStr GREEN), (''index'', JInt 0)])])],
     JDict [(''type'', JStr ''value''), (''options'', JDict [(''0'',
     JDict [(''text'', JStr ''No''), (''color'', JStr GRAY), (''index'', JInt 1)])])]]\<close>

definition COLLECTOR_MAPPINGS :: "json list" where
  \<open>COLLECTOR_MAPPINGS =
     [JDict [(''type'', JStr ''value''), (''options'', JDict [(''1'',
     JDict [(''text'', JStr ''Collected''), (''color'', JStr GREEN), (''index'', JInt 0)])])],
     JDict [(''type'', JStr ''value''), (''options'', JDict [(''0'',
     JDict [(''text'', JStr ''Not collected''), (''color'', JStr GRAY), (''index'', JInt 1)])])],
     JDict [(''type'', JStr ''special''), (''options'', JDict [(''match'', JStr ''null''),
     (''result'', JDict [(''text'', JStr ''Not collected''), (''color'', JStr GRAY),
     (''index'', JInt 2)])])]]\<close>

definition LINK_UP_MAPPINGS :: "json list" where
  \<open>LINK_UP_MAPPINGS =
     [JDict [(''type'', JStr ''value''), (''options'', JDict [(''1'',
     JDict [(''text'', JStr ''Up''), (''color'', JStr GREEN), (''index'', JInt 0)])])],
     JDict [(''type'', JStr ''value''), (''options'', JDict [(''0'',
     JDict [(''text'', JStr ''Down''), (''color'', JStr GRAY), (''index'', JInt 1)])])]]\<close>

definition DUPLEX_MAPPINGS :: "json list" where
  \<open>DUPLEX_MAPPINGS =
     [JDict [(''type'', JStr ''value''), (''options'', JDict [(''2'',
     JDict [(''text'', JStr ''Full''), (''color'', JStr GREEN), (''index'', JInt 0)])])],
     JDict [(''type'', JStr ''value''), (''options'', JDict [(''1'',
     JDict [(''text'', JStr ''Half''), (''color'', JStr YELLOW), (''index'', JInt 1)])])],
     JDict [(''type'', JStr ''value''), (''options'', JDict [(''0'',
     JDict [(''text'', JStr ''Unknown''), (''color'', JStr GRAY), (''index'', JInt 2)])])]]\<close>

definition SEVERITY_COLOURS :: "(string \<times> string) list" where
  \<open>SEVERITY_COLOURS =
     [(''emergency'', RED), (''alert'', RED), (''critical'', RED), (''error'', ORANGE),
     (''warning'', YELLOW), (''notice'', BLUE), (''informational'', GREEN), (''debug'', GRAY)]\<close>

definition mc_name_override :: "string \<Rightarrow> json list \<Rightarrow> json" where
  \<open>mc_name_override name properties =
     JDict [(''matcher'', JDict [(''id'', JStr ''byName''), (''options'', JStr name)]),
     (''properties'', JList properties)]\<close>

definition mc_regexp_override :: "string \<Rightarrow> json list \<Rightarrow> json" where
  \<open>mc_regexp_override pattern properties =
     JDict [(''matcher'', JDict [(''id'', JStr ''byRegexp''), (''options'', JStr pattern)]),
     (''properties'', JList properties)]\<close>

definition MC_COMMON_OVERRIDES :: "json list" where
  \<open>MC_COMMON_OVERRIDES =
     [regexp_color_override (''/RX|Download|Received|Inbound|Local|Online|Up'' @ [BS] @ ''b/i'')
     GREEN, regexp_color_override ''/TX|Upload|Transmit|Outbound|Forwarded/i'' BLUE,
     regexp_color_override (''/error|'' @ [BS] @ ''bdrop|fail|'' @ [BS] @ ''bdown'' @ [BS] @
     ''b|offline|critical|reject/i'') RED, regexp_color_override
     ''/warn|loss|retrans|evict|changed/i'' ORANGE, regexp_color_override
     ''/limit|maximum|capacity/i'' YELLOW]\<close>

definition SEVERITY_OVERRIDES :: "json list" where
  \<open>SEVERITY_OVERRIDES =
     map (\<lambda>(name, colour). color_override name colour) SEVERITY_COLOURS\<close>

definition mc_query_options :: "int \<Rightarrow> string \<Rightarrow> item list" where
  \<open>mc_query_options max_data_points interval =
     [(''maxDataPoints'', JInt max_data_points), (''interval'', JStr interval)]\<close>

section \<open>Panels\<close>

text \<open>The keyword arguments; \<open>None\<close> inside \<open>json\<close> ones is \<open>JNull\<close>. A threshold set raises before the panel does.\<close>

record mkwargs =
  m_legend :: "string option"
  m_thresholds_key :: "mc_threshold_key option"
  m_mappings :: "json list option"
  m_graph :: "bool option"
  m_decimals :: "json option"
  m_color_mode :: "string option"
  m_no_value :: "string option"
  m_unit :: "string option"
  m_stacked :: "bool option"
  m_fill :: "int option"
  m_line_interpolation :: "string option"
  m_overrides :: "json list option"
  m_thresholds_value :: "json res option"
  m_legend_calcs :: "string list option"
  m_show_legend :: "bool option"
  m_soft_min :: "json option"
  m_max_data_points :: "int option"
  m_min_value :: "json option"
  m_max_value :: "json option"
  m_transformations :: "json list option"
  m_sort_col :: "string option"
  m_sort_desc :: "bool option"
  m_show_value :: "string option"
  m_row_height :: "json option"
  m_bucket_size :: "json option"
  m_combine :: "bool option"
  m_max_lines :: "int option"
  m_title :: "string option"
  m_options :: "item list option"
  m_field_defaults :: "item list option"
  m_links :: "json list option"
  m_query_opts :: "item list option"

definition mkw :: mkwargs where
  "mkw = \<lparr>m_legend = None, m_thresholds_key = None, m_mappings = None, m_graph = None, m_decimals = None,
     m_color_mode = None, m_no_value = None, m_unit = None, m_stacked = None, m_fill = None,
     m_line_interpolation = None, m_overrides = None, m_thresholds_value = None,
     m_legend_calcs = None, m_show_legend = None, m_soft_min = None, m_max_data_points = None,
     m_min_value = None, m_max_value = None, m_transformations = None, m_sort_col = None,
     m_sort_desc = None, m_show_value = None, m_row_height = None, m_bucket_size = None,
     m_combine = None, m_max_lines = None, m_title = None, m_options = None,
     m_field_defaults = None, m_links = None, m_query_opts = None\<rparr>"

definition opt_res :: "'a res option \<Rightarrow> 'a option res" where
  "opt_res v = (case v of None \<Rightarrow> Inr None | Some r \<Rightarrow> bindR r (\<lambda>x. Inr (Some x)))"

definition mc_data_group ::
  "json list \<Rightarrow> json list \<Rightarrow> item list option \<Rightarrow> json" where
  \<open>mc_data_group queries transformations options =
     JDict [(''kind'', JStr ''QueryGroup''), (''spec'', JDict [(''queries'', JList queries),
     (''transformations'', JList transformations), (''queryOptions'',
     JDict (case options of None \<Rightarrow> mc_query_options 500
     MIN_INTERVAL | Some opts \<Rightarrow> opts))])]\<close>

definition mc_panel ::
  "int \<Rightarrow> string \<Rightarrow> string \<Rightarrow> json list \<Rightarrow> string \<Rightarrow> string \<Rightarrow> mkwargs \<Rightarrow> item res" where
  \<open>mc_panel pid title viz queries unit desc a =
    (bindR (ensure (py_strip desc \<noteq> [])
       (AssertionError (''panel '' @ show_int pid @ '' ('' @ title @ '') has no description'')))
       (\<lambda>_.
     let defaults = [(''unit'', JStr unit), (''mappings'', JList []),
       (''thresholds'', mc_THRESHOLDS McNeutral), (''color'', JDict [(''mode'',
       (if viz \<in> {''stat'', ''gauge'', ''bargauge''} then JStr ''thresholds''
       else JStr ''palette-classic-by-name''))])] in
     let defaults = dict_update defaults (arg [] (m_field_defaults a)) in
     let key = (''panel-'' @ show_int pid) in
     let element = [(''kind'', JStr ''Panel''), (''spec'', JDict [(''id'', JInt pid),
       (''title'', JStr title), (''description'', JStr desc),
       (''links'', JList (arg [] (m_links a))), (''data'', mc_data_group queries
       (arg [] (m_transformations a)) (m_query_opts a)), (''vizConfig'',
       JDict [(''kind'', JStr ''VizConfig''), (''group'', JStr viz), (''version'', JStr []),
       (''spec'', JDict [(''options'', JDict (arg [] (m_options a))), (''fieldConfig'',
       JDict [(''defaults'', JDict defaults),
       (''overrides'', JList (arg [] (m_overrides a)))])])])])] in
     Inr (key, JDict element)))\<close>

definition mc_stat ::
  "int \<Rightarrow> string \<Rightarrow> string \<Rightarrow> string \<Rightarrow> string \<Rightarrow> mkwargs \<Rightarrow> item res" where
  \<open>mc_stat pid title expr unit desc a =
    (let defaults = [(''thresholds'', mc_THRESHOLDS (arg McNeutral (m_thresholds_key a))),
       (''mappings'', JList (arg [] (m_mappings a))),
       (''color'', JDict [(''mode'', JStr ''thresholds'')]),
       (''noValue'', JStr (arg ''No data'' (m_no_value a)))] in
     let defaults = defaults @ (if arg JNull (m_decimals a) \<noteq> JNull then [(''decimals'', arg JNull (m_decimals a))] else []) in
     mc_panel pid title ''stat'' [prom_query expr (arg [] (m_legend a)) ''A'' ''time_series''
       False] unit desc
       (mkw\<lparr>m_options := Some [(''colorMode'', JStr (arg ''background_solid'' (m_color_mode a))),
       (''graphMode'', (if arg False (m_graph a) then JStr ''area'' else JStr ''none'')),
       (''justifyMode'', JStr ''center''), (''orientation'', JStr ''auto''), (''reduceOptions'',
       JDict [(''calcs'', JList [JStr ''lastNotNull'']), (''fields'', JStr []),
       (''values'', JBool False)]), (''textMode'', JStr ''auto''), (''wideLayout'', JBool True)],
       m_field_defaults := Some defaults, m_query_opts := Some (mc_query_options 200
       MIN_INTERVAL)\<rparr>))\<close>

definition mc_loki_stat ::
  "int \<Rightarrow> string \<Rightarrow> string \<Rightarrow> string \<Rightarrow> mkwargs \<Rightarrow> item res" where
  \<open>mc_loki_stat pid title expr desc a =
     mc_panel pid title ''stat'' [loki_query expr ''A'' ''instant''] (arg ''none'' (m_unit a))
     desc (mkw\<lparr>m_options := Some [(''colorMode'', JStr ''background_solid''),
     (''graphMode'', JStr ''none''), (''justifyMode'', JStr ''center''),
     (''orientation'', JStr ''auto''), (''reduceOptions'',
     JDict [(''calcs'', JList [JStr ''lastNotNull'']), (''fields'', JStr []),
     (''values'', JBool False)]), (''textMode'', JStr ''auto''), (''wideLayout'', JBool True)],
     m_field_defaults := Some [(''thresholds'', mc_THRESHOLDS (arg McNeutral (m_thresholds_key a))),
     (''color'', JDict [(''mode'', JStr ''thresholds'')]),
     (''noValue'', JStr (arg ''0'' (m_no_value a)))], m_query_opts := Some (mc_query_options 200
     MIN_INTERVAL)\<rparr>)\<close>

definition mc_timeseries ::
  "int \<Rightarrow> string \<Rightarrow> json list \<Rightarrow> string \<Rightarrow> string \<Rightarrow> mkwargs \<Rightarrow> item res" where
  \<open>mc_timeseries pid title queries unit desc a =
    (bindR (opt_res (m_thresholds_value a)) (\<lambda>tv.
     let custom = [(''drawStyle'', JStr ''line''),
       (''lineInterpolation'', JStr (arg ''linear'' (m_line_interpolation a))),
       (''lineWidth'', JInt 2), (''fillOpacity'', (if arg False (m_stacked a) then JInt 60
       else JInt (arg 18 (m_fill a)))), (''gradientMode'',
       (if arg False (m_stacked a) then JStr ''none'' else JStr ''opacity'')),
       (''showPoints'', JStr ''never''), (''spanNulls'', JBool False), (''stacking'',
       JDict [(''group'', JStr ''A''), (''mode'', (if arg False (m_stacked a) then JStr ''normal''
       else JStr ''none''))]),
       (''thresholdsStyle'', JDict [(''mode'', (case tv of None \<Rightarrow> JStr ''off'' | Some v \<Rightarrow> JStr ''dashed+area''))]),
       (''scaleDistribution'', JDict [(''type'', JStr ''linear'')]), (''hideFrom'',
       JDict [(''legend'', JBool False), (''tooltip'', JBool False), (''viz'', JBool False)])] in
     let custom = custom @ (if arg (JInt 0) (m_soft_min a) \<noteq> JNull then [(''axisSoftMin'', arg (JInt 0) (m_soft_min a))] else []) in
     let defaults = [(''color'', JDict [(''mode'', JStr (arg ''palette-classic-by-name'' (m_color_mode a)))]),
       (''custom'', JDict custom),
       (''thresholds'', (case tv of None \<Rightarrow> mc_THRESHOLDS McNeutral | Some v \<Rightarrow> v))] in
     mc_panel pid title ''timeseries'' queries unit desc
       (mkw\<lparr>m_options := Some [(''legend'', JDict [(''calcs'',
       JList (map JStr (arg [''lastNotNull'', ''max''] (m_legend_calcs a)))), (''displayMode'',
       (if arg True (m_show_legend a) then JStr ''table'' else JStr ''list'')),
       (''placement'', JStr ''bottom''), (''showLegend'', JBool (arg True (m_show_legend a)))]),
       (''tooltip'', JDict [(''hideZeros'', JBool False), (''mode'', JStr ''multi''),
       (''sort'', JStr ''desc'')])], m_field_defaults := Some defaults,
       m_overrides := Some (arg [] (m_overrides a) @ MC_COMMON_OVERRIDES),
       m_query_opts := Some (mc_query_options (arg 800 (m_max_data_points a))
       MIN_INTERVAL)\<rparr>)))\<close>

definition mc_bargauge ::
  "int \<Rightarrow> string \<Rightarrow> json list \<Rightarrow> string \<Rightarrow> string \<Rightarrow> mkwargs \<Rightarrow> item res" where
  \<open>mc_bargauge pid title queries unit desc a =
    (let defaults = [(''color'', JDict [(''mode'', JStr (arg ''thresholds'' (m_color_mode a)))]),
       (''mappings'', JList (arg [] (m_mappings a))),
       (''thresholds'', mc_THRESHOLDS (arg McNeutral (m_thresholds_key a)))] in
     let defaults = defaults @ (if arg (JInt 0) (m_min_value a) \<noteq> JNull then [(''min'', arg (JInt 0) (m_min_value a))] else []) in
     let defaults = defaults @ (if arg JNull (m_max_value a) \<noteq> JNull then [(''max'', arg JNull (m_max_value a))] else []) in
     let defaults = defaults @ (if arg JNull (m_decimals a) \<noteq> JNull then [(''decimals'', arg JNull (m_decimals a))] else []) in
     mc_panel pid title ''bargauge'' queries unit desc
       (mkw\<lparr>m_options := Some [(''displayMode'', JStr ''gradient''),
       (''orientation'', JStr ''horizontal''), (''namePlacement'', JStr ''auto''),
       (''valueMode'', JStr ''color''), (''showUnfilled'', JBool True),
       (''sizing'', JStr ''auto''), (''minVizHeight'', JInt 16), (''maxVizHeight'', JInt 300),
       (''minVizWidth'', JInt 8), (''reduceOptions'',
       JDict [(''calcs'', JList [JStr ''lastNotNull'']), (''fields'', JStr []),
       (''values'', JBool False)]), (''legend'', JDict [(''calcs'', JList []),
       (''displayMode'', JStr ''list''), (''placement'', JStr ''bottom''),
       (''showLegend'', JBool False)])], m_field_defaults := Some defaults,
       m_transformations := m_transformations a, m_query_opts := Some (mc_query_options 200
       MIN_INTERVAL)\<rparr>))\<close>

definition mc_gauge ::
  "int \<Rightarrow> string \<Rightarrow> string \<Rightarrow> string \<Rightarrow> string \<Rightarrow> mkwargs \<Rightarrow> item res" where
  \<open>mc_gauge pid title expr unit desc a =
    (let defaults = [(''min'', arg (JInt 0) (m_min_value a)),
       (''max'', arg (JInt 100) (m_max_value a)),
       (''thresholds'', mc_THRESHOLDS (arg McCapacityPercent (m_thresholds_key a))),
       (''color'', JDict [(''mode'', JStr ''thresholds'')]),
       (''noValue'', JStr (arg ''No data'' (m_no_value a)))] in
     let defaults = defaults @ (if arg (JInt 1) (m_decimals a) \<noteq> JNull then [(''decimals'', arg (JInt 1) (m_decimals a))] else []) in
     mc_panel pid title ''gauge'' [prom_query expr [] ''A'' ''time_series'' False] unit desc
       (mkw\<lparr>m_options := Some [(''minVizHeight'', JInt 75), (''minVizWidth'', JInt 75),
       (''orientation'', JStr ''auto''), (''reduceOptions'',
       JDict [(''calcs'', JList [JStr ''lastNotNull'']), (''fields'', JStr []),
       (''values'', JBool False)]), (''showThresholdLabels'', JBool False),
       (''showThresholdMarkers'', JBool True), (''sizing'', JStr ''auto'')],
       m_field_defaults := Some defaults, m_query_opts := Some (mc_query_options 200
       MIN_INTERVAL)\<rparr>))\<close>

definition mc_table ::
  "int \<Rightarrow> string \<Rightarrow> json list \<Rightarrow> string \<Rightarrow> mkwargs \<Rightarrow> item res" where
  \<open>mc_table pid title queries desc a =
     mc_panel pid title ''table'' queries ''none'' desc
     (mkw\<lparr>m_options := Some [(''cellHeight'', JStr ''sm''), (''showHeader'', JBool True),
     (''footer'', JDict [(''show'', JBool False), (''reducer'', JList [JStr ''sum'']),
     (''fields'', JStr [])]), (''sortBy'',
     JList (if arg [] (m_sort_col a) \<noteq> [] then [JDict [(''desc'', JBool (arg True (m_sort_desc a))),
     (''displayName'', JStr (arg [] (m_sort_col a)))]] else []))],
     m_field_defaults := Some [(''custom'', JDict [(''align'', JStr ''auto''),
     (''cellOptions'', JDict [(''type'', JStr ''auto'')]), (''filterable'', JBool True),
     (''inspect'', JBool False)]), (''thresholds'', mc_THRESHOLDS McNeutral),
     (''noValue'', JStr (arg ''No rows'' (m_no_value a)))],
     m_overrides := Some (arg [] (m_overrides a)), m_transformations := m_transformations a,
     m_query_opts := Some (mc_query_options 200 MIN_INTERVAL)\<rparr>)\<close>

definition mc_piechart ::
  "int \<Rightarrow> string \<Rightarrow> json list \<Rightarrow> string \<Rightarrow> string \<Rightarrow> mkwargs \<Rightarrow> item res" where
  \<open>mc_piechart pid title queries unit desc a =
     mc_panel pid title ''piechart'' queries unit desc
     (mkw\<lparr>m_options := Some [(''pieType'', JStr ''donut''),
     (''displayLabels'', JList [JStr ''percent'']), (''legend'',
     JDict [(''displayMode'', JStr ''table''), (''placement'', JStr ''right''),
     (''showLegend'', JBool True), (''values'', JList [JStr ''value'', JStr ''percent''])]),
     (''reduceOptions'', JDict [(''calcs'', JList [JStr ''lastNotNull'']),
     (''fields'', JStr []), (''values'', JBool False)]), (''tooltip'',
     JDict [(''mode'', JStr ''single''), (''sort'', JStr ''desc''),
     (''hideZeros'', JBool True)])],
     m_field_defaults := Some [(''color'', JDict [(''mode'', JStr ''palette-classic'')]),
     (''noValue'', JStr (arg ''No data'' (m_no_value a)))],
     m_overrides := Some (arg [] (m_overrides a)), m_transformations := m_transformations a,
     m_query_opts := Some (mc_query_options 200 MIN_INTERVAL)\<rparr>)\<close>

definition mc_state_timeline ::
  "int \<Rightarrow> string \<Rightarrow> json list \<Rightarrow> string \<Rightarrow> json list \<Rightarrow> mkwargs \<Rightarrow> item res" where
  \<open>mc_state_timeline pid title queries desc mappings a =
     mc_panel pid title ''state-timeline'' queries (arg ''none'' (m_unit a)) desc
     (mkw\<lparr>m_options := Some [(''alignValue'', JStr ''left''),
     (''mergeValues'', JBool True), (''rowHeight'', arg (JFloat ''0.85'') (m_row_height a)),
     (''showValue'', JStr (arg ''never'' (m_show_value a))), (''perPage'', JInt 20), (''legend'',
     JDict [(''displayMode'', JStr ''list''), (''placement'', JStr ''bottom''),
     (''showLegend'', JBool True)]), (''tooltip'', JDict [(''hideZeros'', JBool False),
     (''mode'', JStr ''single''), (''sort'', JStr ''none'')])],
     m_field_defaults := Some [(''color'', JDict [(''mode'', JStr ''thresholds'')]), (''custom'',
     JDict [(''fillOpacity'', JInt 80), (''lineWidth'', JInt 0), (''hideFrom'',
     JDict [(''legend'', JBool False), (''tooltip'', JBool False), (''viz'', JBool False)])]),
     (''mappings'', JList mappings), (''thresholds'', mc_THRESHOLDS McOkBad)],
     m_overrides := Some (arg [] (m_overrides a)), m_transformations := m_transformations a,
     m_query_opts := Some (mc_query_options (arg 300 (m_max_data_points a)) MIN_INTERVAL)\<rparr>)\<close>

definition mc_histogram ::
  "int \<Rightarrow> string \<Rightarrow> json list \<Rightarrow> string \<Rightarrow> string \<Rightarrow> mkwargs \<Rightarrow> item res" where
  \<open>mc_histogram pid title queries unit desc a =
     mc_panel pid title ''histogram'' queries unit desc
     (mkw\<lparr>m_options := Some [(''bucketSize'', arg (JStr ''auto'') (m_bucket_size a)),
     (''combine'', JBool (arg True (m_combine a))), (''fillOpacity'', JInt 80),
     (''gradientMode'', JStr ''none''), (''legend'', JDict [(''displayMode'', JStr ''list''),
     (''placement'', JStr ''bottom''), (''showLegend'', JBool False)]), (''tooltip'',
     JDict [(''hideZeros'', JBool False), (''mode'', JStr ''single''),
     (''sort'', JStr ''none'')])],
     m_field_defaults := Some [(''color'', JDict [(''mode'', JStr ''thresholds'')]), (''custom'',
     JDict [(''fillOpacity'', JInt 80), (''gradientMode'', JStr ''none''),
     (''lineWidth'', JInt 1), (''hideFrom'', JDict [(''legend'', JBool False),
     (''tooltip'', JBool False), (''viz'', JBool False)])]),
     (''thresholds'', mc_THRESHOLDS McSignalDbm)], m_query_opts := Some (mc_query_options 200
     MIN_INTERVAL)\<rparr>)\<close>

definition mc_logs_panel ::
  "int \<Rightarrow> string \<Rightarrow> string \<Rightarrow> string \<Rightarrow> mkwargs \<Rightarrow> item res" where
  \<open>mc_logs_panel pid title expr desc a =
     mc_panel pid title ''logs'' [loki_query expr ''A'' ''range''] ''none'' desc
     (mkw\<lparr>m_options := Some [(''dedupStrategy'', JStr ''none''),
     (''enableLogDetails'', JBool True), (''prettifyLogMessage'', JBool False),
     (''showCommonLabels'', JBool False), (''showLabels'', JBool False),
     (''showTime'', JBool True), (''sortOrder'', JStr ''Descending''),
     (''wrapLogMessage'', JBool True)],
     m_field_defaults := Some [(''thresholds'', mc_THRESHOLDS McNeutral)],
     m_query_opts := Some (mc_query_options (arg 300 (m_max_lines a)) MIN_INTERVAL)\<rparr>)\<close>

definition mc_text ::
  "int \<Rightarrow> string \<Rightarrow> mkwargs \<Rightarrow> item" where
  \<open>mc_text pid content a =
    (let key = (''panel-'' @ show_int pid) in
     (key, JDict [(''kind'', JStr ''Panel''), (''spec'', JDict [(''id'', JInt pid),
       (''title'', JStr (arg [] (m_title a))), (''description'', JStr []),
       (''links'', JList []), (''data'', mc_data_group [] [] (Some [])), (''vizConfig'',
       JDict [(''kind'', JStr ''VizConfig''), (''group'', JStr ''text''),
       (''version'', JStr []), (''spec'', JDict [(''options'',
       JDict [(''mode'', JStr ''markdown''), (''content'', JStr content), (''code'',
       JDict [(''language'', JStr ''plaintext''), (''showLineNumbers'', JBool False),
       (''showMiniMap'', JBool False)])]), (''fieldConfig'', JDict [(''defaults'', JDict []),
       (''overrides'', JList [])])])])])]))\<close>

definition MC_NOISE_COLUMNS :: "string list" where
  \<open>MC_NOISE_COLUMNS =
     [''Time'', ''__name__'', ''cluster'', ''endpoint'', ''instance'', ''job'', ''namespace'',
     ''prometheus'', ''prometheus_replica'', ''service'']\<close>

definition mc_clean ::
  "(string \<times> string) list \<Rightarrow> string list \<Rightarrow> string list \<Rightarrow> json" where
  \<open>mc_clean rename extra_exclude keep =
     organize (MC_NOISE_COLUMNS @ extra_exclude) rename
     (if keep \<noteq> [] then zip keep (map int [0..<length keep]) else [])\<close>

section \<open>Expressions\<close>

definition DEV_DL :: string where
  \<open>DEV_DL =
     (''sum by (device) (rate(openwrt_device_traffic_bytes_total{'' @ PROM_FILTER @
     '', device=~"$device", direction="download"}[$__rate_interval]))'')\<close>

definition DEV_UL :: string where
  \<open>DEV_UL =
     (''sum by (device) (rate(openwrt_device_traffic_bytes_total{'' @ PROM_FILTER @
     '', device=~"$device", direction="upload"}[$__rate_interval]))'')\<close>

definition DEV_TOTAL :: string where
  \<open>DEV_TOTAL =
     (''sum by (device) (rate(openwrt_device_traffic_bytes_total{'' @ PROM_FILTER @
     '', device=~"$device"}[$__rate_interval]))'')\<close>

definition mc_TRAFFIC_BY_MAC :: string where
  \<open>mc_TRAFFIC_BY_MAC =
     (''sum by (mac) (rate(openwrt_device_traffic_bytes_total{'' @ PROM_FILTER @
     ''}[$__rate_interval]) * on(device) group_left(mac) openwrt_device_info{'' @ PROM_FILTER @
     ''})'')\<close>

definition mc_prefer_authority :: "string \<Rightarrow> string" where
  \<open>mc_prefer_authority metric =
    (let first = (metric @ ''{'' @ PROM_FILTER @ '', authority="1"}'') in
     let fallback = (metric @ ''{'' @ PROM_FILTER @ '', authority="0"}'') in
     (''('' @ first @ '' or ('' @ fallback @ '' unless on(id) '' @ first @ ''))''))\<close>

definition mc_infra_as :: "string \<Rightarrow> string" where
  \<open>mc_infra_as label =
     (''label_replace(openwrt_topology_infra_mac{'' @ PROM_FILTER @ ''}, "'' @ label @
     ''", "client:$1", "mac", "(.+)")'')\<close>

definition mc_with_traffic :: "string \<Rightarrow> string \<Rightarrow> string" where
  \<open>mc_with_traffic base traffic =
    (let zeroed = (''(('' @ base @ '') * 0)'') in
     (''(('' @ zeroed @ '' + on(id) group_left() ('' @ traffic @ '')) or '' @ zeroed @ '')''))\<close>

definition mc_traffic_as :: "string \<Rightarrow> string" where
  \<open>mc_traffic_as kind =
     (''sum by (id) (label_replace('' @ mc_TRAFFIC_BY_MAC @ '', "id", "'' @ kind @
     '':$1", "mac", "(.+)"))'')\<close>

definition mc_nodes_expr :: "string" where
  \<open>mc_nodes_expr =
    (let reconciled = (''('' @ mc_prefer_authority ''openwrt_topology_node'' @
       '' unless on(id) '' @ mc_infra_as ''id'' @ '')'') in
     mc_with_traffic reconciled (mc_traffic_as ''client''))\<close>

definition mc_edges_expr :: "string" where
  \<open>mc_edges_expr =
    (let assoc_as_lan = (''label_replace(openwrt_topology_edge{'' @ PROM_FILTER @
       '', id=~"assoc:.+"}, "id", "lan:$1", "id", "assoc:(.+)")'') in
     let reconciled = (''('' @ mc_prefer_authority ''openwrt_topology_edge'' @
       '' unless on(id) '' @ assoc_as_lan @ '')'') in
     let reconciled = (''('' @ reconciled @ '' unless on(target) '' @ mc_infra_as ''target'' @
       '')'') in
     mc_with_traffic reconciled (''('' @ mc_traffic_as ''lan'' @ '' or '' @ mc_traffic_as
       ''assoc'' @ '')''))\<close>

definition mc_NODES_EXPR :: string where
  \<open>mc_NODES_EXPR = mc_nodes_expr\<close>

definition mc_EDGES_EXPR :: string where
  \<open>mc_EDGES_EXPR = mc_edges_expr\<close>

definition WIFI_SIGNAL_NAMED :: string where
  \<open>WIFI_SIGNAL_NAMED =
     (''max by (mac, ifname, hostname) (wifi_station_signal_dbm{'' @ PROM_FILTER @
     ''} * on(mac) group_left(hostname) max by (mac, hostname) (dhcp_lease{'' @ PROM_FILTER @
     ''}))'')\<close>

definition WIFI_SIGNAL_PLAIN :: string where
  \<open>WIFI_SIGNAL_PLAIN =
     (''max by (mac, ifname) (wifi_station_signal_dbm{'' @ PROM_FILTER @ ''})'')\<close>

section \<open>Variables\<close>

definition mc_variables :: "json list" where
  \<open>mc_variables =
     [datasource_var ''DS_PROMETHEUS'' ''Prometheus'' ''prometheus'' ''prometheus'',
     datasource_var ''DS_LOKI'' ''Loki'' ''loki'' ''loki'', query_var ''router'' ''Router''
     ''label_values(up{job="openwrt"}, router)'' ''All'' True True ''.*'', query_var
     ''wan_netdev'' ''WAN interface''
     ''label_values(node_network_info{job="openwrt", router=~"$router"}, device)'' ''wan'' False
     False ''.*'', query_var ''device'' ''Client device''
     ''label_values(openwrt_device_info{job="openwrt", router=~"$router"}, device)'' ''All'' True
     True ''.*'', query_var ''netdev'' ''Network interface''
     ''label_values(node_network_info{job="openwrt", router=~"$router"}, device)'' ''All'' True
     True ''.*'']\<close>

lemma mc_THRESHOLDS_ok: "mc_thresholds (mc_steps k) = Inr (mc_THRESHOLDS k)"
  by (cases k) (simp_all add: mc_thresholds_def mc_THRESHOLDS_def)

end
