(* ===== verification/Mission_Dashboard.thy ===== *)
theory Mission_Dashboard
  imports Mission_Widgets
begin

text \<open>
  The nine tabs of \<open>scripts/build_openwrt_mission_control.py\<close> and the dashboard around them. A tab is
  the list of its \<open>b.add\<close> calls, each the panel it makes, or the error making it raises, and the
  rectangle. A long tab is two or three lists, one after the other.
\<close>

type_synonym mc_placement = "item res \<times> int \<times> int \<times> int \<times> int"

definition mc_overview_1 :: "mc_placement list" where
  \<open>mc_overview_1 =
    [(Inr (mc_text 101 (''# '' @ [CHR 0xF0, CHR 0x9F, CHR 0x9B, CHR 0xB0] @
       '' OpenWrt Mission Control'' @ [NL] @
       ''**Is the network healthy?** The tiles below answer that in five seconds;'' @
       '' the tabs above answer *why*.'' @ [NL] @ [NL] @
       [CHR 0xF0, CHR 0x9F, CHR 0x8C, CHR 0x90] @ '' uplink SLI '' @ [CHR 0xC2, CHR 0xB7] @
       '' '' @ [CHR 0xF0, CHR 0x9F, CHR 0x93, CHR 0xB6] @ '' RF and clients '' @
       [CHR 0xC2, CHR 0xB7] @ '' '' @ [CHR 0xF0, CHR 0x9F, CHR 0x94, CHR 0x80] @
       '' who is using bandwidth '' @ [CHR 0xC2, CHR 0xB7] @ '' '' @
       [CHR 0xF0, CHR 0x9F, CHR 0xA7, CHR 0xAD] @ '' DNS/DHCP '' @ [CHR 0xC2, CHR 0xB7] @ '' '' @
       [CHR 0xE2, CHR 0x9D, CHR 0xA4] @ [CHR 0xEF, CHR 0xB8, CHR 0x8F] @ '' the box itself '' @
       [CHR 0xC2, CHR 0xB7] @ '' '' @ [CHR 0xF0, CHR 0x9F, CHR 0x95, CHR 0xB8] @
       '' what is connected '' @ [CHR 0xC2, CHR 0xB7] @ '' '' @
       [CHR 0xF0, CHR 0x9F, CHR 0x93, CHR 0x9C] @ '' what it is saying '' @ [CHR 0xC2, CHR 0xB7] @
       '' '' @ [CHR 0xF0, CHR 0x9F, CHR 0x94, CHR 0xAC] @ '' do I trust this data'' @ [NL] @
       [NL] @
       ''> Scope everything with **Router**; the LAN tab also honours **Client device**. '' @
       ''Grey never means healthy on this dashboard - it means *not reported*.'') mkw),
       0, 0, 24, 4),
     (mc_stat 102 ''Network Status'' (''(min(up{'' @ PROM_FILTER @
       ''}) * min(openwrt_wan_probe_success{'' @ PROM_FILTER @
       '', target=~"internet|resolver"})) or vector(0)'') ''none''
       (''Green only when every selected router is being scraped AND its internet '' @
       ''and resolver probes both succeed. Red means either the exporter is unreachable '' @
       ''or the uplink is failing - check the WAN tab first, then Diagnostics.'')
       (mkw\<lparr>m_thresholds_key := Some McOkBad,
       m_mappings := Some MC_STATUS_MAPPINGS\<rparr>), 0, 4, 4, 4),
     (mc_stat 103 ''Internet Latency'' (''max(openwrt_wan_probe_latency_milliseconds{'' @ PROM_FILTER @
       '', target="internet"})'') ''ms''
       (''Worst current ICMP round-trip to the internet probe targets (1.1.1.1 / 8.8.8.8). '' @
       ''Yellow above 50 ms, red above 150 ms - at red, expect video calls to stutter. '' @
       ''Check WAN '' @ [CHR 0xE2, CHR 0x86, CHR 0x92] @
       '' Probe Latency for which target and when.'')
       (mkw\<lparr>m_thresholds_key := Some McLatencyMs, m_graph := Some True,
       m_decimals := Some (JInt 1)\<rparr>), 4, 4, 4, 4),
     (mc_stat 104 ''WAN Availability (24h)'' (''min(avg_over_time(openwrt_wan_probe_success{'' @
       PROM_FILTER @ '', target="internet"}[24h])) * 100'') ''percent''
       (''Fraction of the last 24 hours the internet probe succeeded, worst target. '' @
       ''99.9% is roughly 1.5 minutes of downtime per day. Metric retention here '' @
       ''is about two days, so a longer error-budget window is not available.'')
       (mkw\<lparr>m_thresholds_key := Some McAvailability, m_decimals := Some (JInt 3)\<rparr>),
       8, 4, 4, 4),
     (mc_stat 105 ''Online Clients'' (''sum(openwrt_client_up{'' @ PROM_FILTER @ ''}) or vector(0)'')
       ''none''
       (''Clients the router currently considers present (wired plus associated wireless). '' @
       ''Zero is truthful when nothing is connected, so the query pins it to 0 rather '' @
       ''than letting an empty result render as a healthy blank tile.'')
       (mkw\<lparr>m_graph := Some True, m_color_mode := Some ''value''\<rparr>), 12, 4, 4, 4)]\<close>

definition mc_overview_2 :: "mc_placement list" where
  \<open>mc_overview_2 =
    [(mc_stat 106 ''WAN Throughput'' (''(sum(rate(node_network_receive_bytes_total{'' @ PROM_FILTER @
       '', device=~"$wan_netdev"}[$__rate_interval])) + sum(rate(node_network_transmit_bytes_total{'' @
       PROM_FILTER @ '', device=~"$wan_netdev"}[$__rate_interval]))) or vector(0)'') ''Bps''
       (''Combined download plus upload rate on the WAN interface right now. Split '' @
       ''by direction on the chart below. If this is high and the network feels slow,'' @
       '' go to LAN '' @ [CHR 0xE2, CHR 0x86, CHR 0x92] @ '' Top Talkers.'')
       (mkw\<lparr>m_graph := Some True, m_color_mode := Some ''value''\<rparr>), 16, 4, 4, 4),
     (mc_stat 107 ''Firing Alerts'' ''count(ALERTS{job="openwrt", alertstate="firing"}) or vector(0)''
       ''none''
       (''Prometheus alert rules currently firing for the OpenWrt job. Zero is genuinely '' @
       ''good here. Pending alerts are excluded on purpose - they have not yet met '' @
       ''their `for` duration.'') (mkw\<lparr>m_thresholds_key := Some McZeroGoodHard\<rparr>),
       20, 4, 4, 4),
     (mc_timeseries 108 ''WAN Throughput'' [prom_query
       (''sum(rate(node_network_receive_bytes_total{'' @ PROM_FILTER @
       '', device=~"$wan_netdev"}[$__rate_interval]))'') ''Download'' ''A'' ''time_series'' False,
       prom_query (''sum(rate(node_network_transmit_bytes_total{'' @ PROM_FILTER @
       '', device=~"$wan_netdev"}[$__rate_interval]))'') ''Upload'' ''B'' ''time_series'' False]
       ''Bps'' (''Uplink throughput by direction, from the WAN interface counters. Download '' @
       ''green, upload blue, consistently across this dashboard. A flat line at zero '' @
       ''during a period when clients were active points at the exporter, not the '' @
       ''ISP - confirm on Diagnostics.'') mkw, 0, 8, 12, 9),
     (mc_timeseries 109 ''Connected Clients by Link Type'' [prom_query
       (''count by (band) (openwrt_client_info{'' @ PROM_FILTER @ '', connection="wifi"})'')
       ''WiFi {{band}}'' ''A'' ''time_series'' False, prom_query (''count(openwrt_client_info{'' @
       PROM_FILTER @ '', connection="wired"}) or vector(0)'') ''Wired'' ''B'' ''time_series''
       False] ''none''
       (''How many clients are attached and over what. A sudden drop on one band without '' @
       ''a matching rise on the other is a radio problem; a drop on both is usually '' @
       ''a reboot - confirm with Router Health '' @ [CHR 0xE2, CHR 0x86, CHR 0x92] @ '' Uptime.'')
       (mkw\<lparr>m_stacked := Some True\<rparr>), 12, 8, 12, 9)]\<close>

definition mc_overview :: "mc_placement list" where
  "mc_overview = mc_overview_1 @ mc_overview_2"

definition mc_wan_1 :: "mc_placement list" where
  \<open>mc_wan_1 =
    [(mc_timeseries 201 ''Probe Latency by Target'' [prom_query
       (''openwrt_wan_probe_latency_milliseconds{'' @ PROM_FILTER @ ''}'') (''{{target}} '' @
       [CHR 0xC2, CHR 0xB7] @ '' {{address}}'') ''A'' ''time_series'' False] ''ms''
       (''ICMP round-trip per probe target. `gateway` is your ISP's first hop, `internet` '' @
       ''is a public anycast address, `resolver` is DNS. Gateway bad but internet '' @
       ''fine means a local link problem; all three bad together means the uplink '' @
       ''is down. The dashed line marks 150 ms.'')
       (mkw\<lparr>m_thresholds_value := Some (mc_thresholds [(''transparent'', JNull), (RED, JInt 150)])\<rparr>),
       0, 0, 12, 9),
     (mc_timeseries 202 ''Probe Jitter by Target'' [prom_query
       (''openwrt_wan_probe_jitter_milliseconds{'' @ PROM_FILTER @ ''}'') (''{{target}} '' @
       [CHR 0xC2, CHR 0xB7] @ '' {{address}}'') ''A'' ''time_series'' False] ''ms''
       (''Variation between consecutive round-trips. High jitter with normal latency '' @
       ''is what actually breaks voice and video calls. Sustained jitter above ~30 '' @
       ''ms on the internet target is worth raising with the ISP.'') mkw, 12, 0, 12, 9),
     (mc_timeseries 203 ''Packet Loss by Target'' [prom_query
       (''openwrt_wan_probe_packet_loss_percent{'' @ PROM_FILTER @ ''}'') (''{{target}} '' @
       [CHR 0xC2, CHR 0xB7] @ '' {{address}}'') ''A'' ''time_series'' False] ''percent''
       (''Percentage of probe packets lost. Anything sustained above 1% degrades TCP '' @
       ''throughput noticeably; above 5% the link is effectively broken. The dashed '' @
       ''band marks those two lines.'')
       (mkw\<lparr>m_thresholds_value := Some (mc_thresholds [(''transparent'', JNull), (YELLOW, JInt 1), (RED, JInt 5)])\<rparr>),
       0, 9, 12, 9),
     (mc_state_timeline 204 ''Probe Success Over Time'' [prom_query (''openwrt_wan_probe_success{'' @
       PROM_FILTER @ ''}'') (''{{target}} '' @ [CHR 0xC2, CHR 0xB7] @ '' {{address}}'') ''A''
       ''time_series'' False]
       (''One row per probe target, coloured by whether it answered. This is the panel '' @
       ''that tells you *when* an outage started and how long it lasted. Grey gaps '' @
       ''mean the exporter itself was not reporting, which is a different failure '' @
       ''from a red band.'') REACHABLE_MAPPINGS mkw, 12, 9, 12, 9),
     (mc_timeseries 205 ''WAN Interface Throughput'' [prom_query
       (''sum(rate(node_network_receive_bytes_total{'' @ PROM_FILTER @
       '', device=~"$wan_netdev"}[$__rate_interval]))'') ''Download'' ''A'' ''time_series'' False,
       prom_query (''sum(rate(node_network_transmit_bytes_total{'' @ PROM_FILTER @
       '', device=~"$wan_netdev"}[$__rate_interval]))'') ''Upload'' ''B'' ''time_series'' False,
       prom_query (''sum(rate(node_network_receive_drop_total{'' @ PROM_FILTER @
       '', device=~"$wan_netdev"}[$__rate_interval]) + rate(node_network_transmit_drop_total{'' @
       PROM_FILTER @ '', device=~"$wan_netdev"}[$__rate_interval]))'') ''Dropped packets/s'' ''C''
       ''time_series'' False] ''Bps''
       (''Uplink bytes per second with dropped packets overlaid. Drops climbing while '' @
       ''throughput is at its ceiling means the link is saturated; drops with low '' @
       ''throughput means a driver or cabling fault. The drop series is packets/s,'' @
       '' shown on the right axis.'') (mkw\<lparr>m_overrides := Some [mc_name_override
       ''Dropped packets/s'' [JDict [(''id'', JStr ''unit''), (''value'', JStr ''pps'')],
       JDict [(''id'', JStr ''custom.axisPlacement''), (''value'', JStr ''right'')],
       JDict [(''id'', JStr ''custom.drawStyle''), (''value'', JStr ''bars'')]]]\<rparr>),
       0, 18, 12, 9)]\<close>

definition mc_wan_2 :: "mc_placement list" where
  \<open>mc_wan_2 =
    [(mc_bargauge 206 ''mwan3 Uplink Score'' [prom_query
       (''max by (interface) (mwan3_interface_score{'' @ PROM_FILTER @ ''})'') ''{{interface}}''
       ''A'' ''time_series'' False] ''none''
       (''mwan3's own tracking score per uplink, 0 to 10. 10 means every tracking '' @
       ''IP answered; 0 means the interface is considered dead and traffic has been '' @
       ''steered away from it. Green at 9+, red below 5. Empty means mwan3 is not '' @
       ''installed.'') (mkw\<lparr>m_thresholds_key := Some McScore,
       m_color_mode := Some ''thresholds'', m_max_value := Some (JInt 10)\<rparr>), 12, 18, 6, 9),
     (mc_stat 207 ''WAN Uptime'' (''max(mwan3_interface_uptime{'' @ PROM_FILTER @
       '', interface="wan"})'') ''s''
       (''How long mwan3 has considered the primary WAN interface continuously up. '' @
       ''A reset to near zero is a reconnect - correlate with Logs & Security and '' @
       ''with WAN Identity below to see whether the public IP changed at the same '' @
       ''moment.'') (mkw\<lparr>m_color_mode := Some ''value'',
       m_no_value := Some ''mwan3 not collected''\<rparr>), 18, 18, 6, 4),
     (mc_table 208 ''WAN Identity'' [prom_query (''wan_info{'' @ PROM_FILTER @ ''}'') '''' ''A''
       ''table'' True, prom_query (''wan_public_ip_changed{'' @ PROM_FILTER @ ''}'') '''' ''B''
       ''table'' True]
       (''Current public and WAN-side addresses per router, plus whether the public '' @
       ''IP changed since the last check. A changed public IP explains sudden failures '' @
       ''of anything with an IP allowlist or dynamic DNS.'')
       (mkw\<lparr>m_transformations := Some [tf ''merge'' [], mc_clean [(''router'', ''Router''),
       (''hostname'', ''Hostname''), (''publicip'', ''Public IP''), (''wanip'', ''WAN IP''),
       (''Value #A'', ''Present''), (''Value #B'', ''IP Changed'')] [''Present''] [''Router'',
       ''Hostname'', ''Public IP'', ''WAN IP'', ''IP Changed'']],
       m_overrides := Some [mc_name_override ''IP Changed''
       [JDict [(''id'', JStr ''custom.cellOptions''),
       (''value'', JDict [(''type'', JStr ''color-background'')])],
       JDict [(''id'', JStr ''mappings''), (''value'', JList [JDict [(''type'', JStr ''value''),
       (''options'', JDict [(''0'', JDict [(''text'', JStr ''No''), (''color'', JStr GREEN),
       (''index'', JInt 0)]), (''1'', JDict [(''text'', JStr ''Yes''), (''color'', JStr YELLOW),
       (''index'', JInt 1)])])]])]]], m_sort_col := Some ''Router'',
       m_sort_desc := Some False\<rparr>), 18, 22, 6, 5)]\<close>

definition mc_wan :: "mc_placement list" where
  "mc_wan = mc_wan_1 @ mc_wan_2"

definition mc_wifi_1 :: "mc_placement list" where
  \<open>mc_wifi_1 =
    [(mc_stat 301 ''WiFi Clients'' (''sum(wifi_stations{'' @ PROM_FILTER @ ''}) or vector(0)'')
       ''none'' (''Stations currently associated across every radio, straight from the AP's '' @
       ''association list.'') (mkw\<lparr>m_graph := Some True,
       m_color_mode := Some ''value''\<rparr>), 0, 0, 4, 4),
     (mc_stat 302 ''5 GHz Share'' (''(count(openwrt_client_info{'' @ PROM_FILTER @
       '', connection="wifi", band="5g"}) / (count(openwrt_client_info{'' @ PROM_FILTER @
       '', connection="wifi"}) > 0)) * 100'') ''percent''
       (''Share of wireless clients sitting on 5 GHz rather than 2.4 GHz - the practical '' @
       ''measure of whether band steering is working. A capable device parked on '' @
       ''2.4 GHz next to the AP is wasting most of its available throughput. The '' @
       ''denominator is guarded against zero clients.'') (mkw\<lparr>m_decimals := Some (JInt 0),
       m_color_mode := Some ''value'', m_no_value := Some ''No WiFi clients''\<rparr>),
       4, 0, 4, 4),
     (mc_stat 303 ''Weakest Signal'' (''min(wifi_station_signal_dbm{'' @ PROM_FILTER @ ''})'') ''dBm''
       (''The worst RSSI among currently associated stations. Above -67 dBm is comfortable '' @
       ''for video, below -75 dBm expect retries and low rates. Identify the station '' @
       ''in the bar gauge to the right.'') (mkw\<lparr>m_thresholds_key := Some McSignalDbm,
       m_no_value := Some ''No stations''\<rparr>), 8, 0, 4, 4),
     (mc_bargauge 304 ''Signal by Station'' [prom_query WIFI_SIGNAL_NAMED (''{{hostname}} '' @
       [CHR 0xC2, CHR 0xB7] @ '' {{ifname}}'') ''A'' ''time_series'' False] ''dBm''
       (''RSSI per associated station, named from its DHCP lease. Stations without '' @
       ''a current lease fall out of this join and appear in the table below by MAC '' @
       ''instead (the WiFi and DHCP metric families are the only two that share MAC '' @
       ''casing, so this is the one name join that is possible).'')
       (mkw\<lparr>m_thresholds_key := Some McSignalDbm, m_color_mode := Some ''thresholds'',
       m_min_value := Some (JInt (- 90)), m_max_value := Some (JInt (- 20))\<rparr>),
       12, 0, 12, 8),
     (mc_timeseries 305 ''Clients by Band'' [prom_query (''count by (band) (openwrt_client_info{'' @
       PROM_FILTER @ '', connection="wifi"})'') ''{{band}}'' ''A'' ''time_series'' False] ''none''
       (''Band membership over time. Watch this after changing steering settings or '' @
       ''transmit power: an effective change moves the 5 GHz line up and keeps it '' @
       ''there rather than producing a sawtooth of clients bouncing between bands.'')
       (mkw\<lparr>m_stacked := Some True\<rparr>), 0, 8, 12, 8),
     (mc_histogram 306 ''Signal Distribution'' [prom_query WIFI_SIGNAL_PLAIN ''{{ifname}}'' ''A''
       ''time_series'' False] ''dBm''
       (''Distribution of station RSSI right now, all radios combined. An average '' @
       ''hides the one client at the edge of coverage; this does not. A bimodal shape '' @
       ''usually means one room is poorly covered.'') mkw, 12, 8, 12, 8),
     (mc_timeseries 307 ''Noise Floor by Radio'' [prom_query (''openwrt_wifi_noise_dbm{'' @
       PROM_FILTER @ ''}'') ''{{ifname}}'' ''A'' ''time_series'' False] ''dBm''
       (''Background RF noise per radio. A rising noise floor at constant signal is '' @
       ''interference - a neighbouring AP, a microwave, a badly shielded PSU - and '' @
       ''it costs throughput even though every client still shows as connected. Compare '' @
       ''against the signal levels above: what matters is the gap between them.'')
       (mkw\<lparr>m_soft_min := Some JNull\<rparr>), 0, 16, 12, 8),
     (mc_timeseries 308 ''Link Quality by Radio'' [prom_query
       (''avg by (ifname, ssid) (wifi_network_quality{'' @ PROM_FILTER @ ''})'') (''{{ssid}} '' @
       [CHR 0xC2, CHR 0xB7] @ '' {{ifname}}'') ''A'' ''time_series'' False] ''percent''
       (''hostapd's own link-quality percentage per BSS. This is a quality score, '' @
       ''not airtime utilisation - the exporter emits no channel-utilisation or airtime '' @
       ''metric, so co-channel interference can only be inferred here and from the '' @
       ''noise floor.'') mkw, 12, 16, 12, 8)]\<close>

definition mc_wifi_2 :: "mc_placement list" where
  \<open>mc_wifi_2 =
    [(mc_state_timeline 309 ''Station Association'' [prom_query (WIFI_SIGNAL_PLAIN @ '' >= -100'')
       (''{{mac}} '' @ [CHR 0xC2, CHR 0xB7] @ '' {{ifname}}'') ''A'' ''time_series'' False]
       (''One row per station, filled while it is associated and blank while it is '' @
       ''not. This is how you spot a device that keeps dropping off, or one that '' @
       ''roams between the two APs. The `>= -100` guard keeps NaN samples from rendering '' @
       ''as a healthy band.'') [JDict [(''type'', JStr ''range''), (''options'',
       JDict [(''from'', JInt (- 100)), (''to'', JInt (- 20)), (''result'',
       JDict [(''text'', JStr ''Associated''), (''color'', JStr GREEN), (''index'', JInt 0)])])],
       JDict [(''type'', JStr ''special''), (''options'', JDict [(''match'', JStr ''null''),
       (''result'', JDict [(''text'', JStr ''Not associated''), (''color'', JStr GRAY),
       (''index'', JInt 1)])])]] (mkw\<lparr>m_unit := Some ''dBm''\<rparr>), 0, 24, 12, 8),
     (mc_table 310 ''WiFi Stations'' [prom_query WIFI_SIGNAL_PLAIN '''' ''A'' ''table'' True,
       prom_query (''max by (mac, ifname) (wifi_station_receive_kilobits_per_second{'' @
       PROM_FILTER @ ''}) * 1000'') '''' ''B'' ''table'' True, prom_query
       (''max by (mac, ifname) (wifi_station_transmit_kilobits_per_second{'' @ PROM_FILTER @
       ''}) * 1000'') '''' ''C'' ''table'' True, prom_query
       (''max by (mac, ifname) (wifi_station_expected_throughput_kilobits_per_second{'' @
       PROM_FILTER @ ''}) * 1000'') '''' ''D'' ''table'' True, prom_query
       (''max by (mac, ifname) (wifi_station_inactive_milliseconds{'' @ PROM_FILTER @
       ''}) / 1000'') '''' ''E'' ''table'' True, prom_query
       (''max by (mac, ifname) (label_replace(label_replace(openwrt_wifi_station_connected_seconds{'' @
       PROM_FILTER @ ''}, "mac", "$1", "station", "(.+)"), "ifname", "$1", "vif", "(.+)"))'') ''''
       ''G'' ''table'' True]
       (''One row per associated station. Negotiated RX/TX rates are the PHY link '' @
       ''rates, not achieved throughput; **Expected** is the driver's own estimate '' @
       ''of usable throughput and is the honest number to compare against. A station '' @
       ''whose expected throughput is far below its negotiated rate is retrying heavily. '' @
       ''**Idle** is time since the last frame. Keyed by MAC because these metrics '' @
       ''use uppercase MACs while the client-inventory metrics use lowercase.'')
       (mkw\<lparr>m_transformations := Some [tf ''merge'' [], mc_clean [(''mac'', ''MAC''),
       (''ifname'', ''Radio''), (''Value #A'', ''Signal''), (''Value #B'', ''RX Rate''),
       (''Value #C'', ''TX Rate''), (''Value #D'', ''Expected''), (''Value #E'', ''Idle''),
       (''Value #G'', ''Connected'')] [''router''] [''MAC'', ''Radio'', ''Signal'', ''RX Rate'',
       ''TX Rate'', ''Expected'', ''Idle'', ''Connected''], sort_by ''Signal'' False],
       m_overrides := Some [mc_name_override ''Signal'' [JDict [(''id'', JStr ''unit''),
       (''value'', JStr ''dBm'')], JDict [(''id'', JStr ''custom.cellOptions''),
       (''value'', JDict [(''type'', JStr ''color-background'')])],
       JDict [(''id'', JStr ''thresholds''), (''value'', mc_THRESHOLDS McSignalDbm)]],
       mc_regexp_override ''/RX Rate|TX Rate|Expected/'' [JDict [(''id'', JStr ''unit''),
       (''value'', JStr ''bps'')], JDict [(''id'', JStr ''decimals''), (''value'', JInt 0)]],
       mc_regexp_override ''/Idle|Connected/'' [JDict [(''id'', JStr ''unit''),
       (''value'', JStr ''s'')], JDict [(''id'', JStr ''decimals''), (''value'', JInt 0)]]],
       m_sort_col := Some ''Signal'', m_sort_desc := Some False,
       m_no_value := Some ''No stations associated''\<rparr>), 12, 24, 12, 8)]\<close>

definition mc_wifi_3 :: "mc_placement list" where
  \<open>mc_wifi_3 =
    [(mc_table 311 ''Radio Configuration'' [prom_query (''wifi_radio_channel{'' @ PROM_FILTER @ ''}'')
       '''' ''A'' ''table'' True, prom_query (''wifi_radio_frequency_mhz{'' @ PROM_FILTER @ ''}'')
       '''' ''B'' ''table'' True, prom_query (''wifi_radio_txpower_dbm{'' @ PROM_FILTER @ ''}'')
       '''' ''C'' ''table'' True, prom_query (''wifi_stations{'' @ PROM_FILTER @ ''}'') '''' ''D''
       ''table'' True]
       (''Channel, frequency, transmit power and client count per BSS. Two APs sharing '' @
       ''a channel on 2.4 GHz halve each other's airtime - check this before blaming '' @
       ''the ISP for slow WiFi. Channel numbers use unit `none` so they are never '' @
       ''scaled to "1.5 K".'') (mkw\<lparr>m_transformations := Some [tf ''merge'' [], mc_clean
       [(''router'', ''Router''), (''device'', ''Radio''), (''ifname'', ''Interface''),
       (''ssid'', ''SSID''), (''Value #A'', ''Channel''), (''Value #B'', ''Frequency''),
       (''Value #C'', ''TX Power''), (''Value #D'', ''Stations'')] [] [''Router'', ''Radio'',
       ''Interface'', ''SSID'', ''Channel'', ''Frequency'', ''TX Power'', ''Stations'']],
       m_overrides := Some [mc_name_override ''Channel'' [JDict [(''id'', JStr ''unit''),
       (''value'', JStr ''none'')], JDict [(''id'', JStr ''decimals''), (''value'', JInt 0)]],
       mc_name_override ''Frequency'' [JDict [(''id'', JStr ''unit''),
       (''value'', JStr ''rotmhz'')], JDict [(''id'', JStr ''decimals''), (''value'', JInt 0)]],
       mc_name_override ''TX Power'' [JDict [(''id'', JStr ''unit''), (''value'', JStr ''dBm'')],
       JDict [(''id'', JStr ''decimals''), (''value'', JInt 0)]], mc_name_override ''Stations''
       [JDict [(''id'', JStr ''unit''), (''value'', JStr ''none'')],
       JDict [(''id'', JStr ''decimals''), (''value'', JInt 0)]]],
       m_sort_col := Some ''Interface'', m_sort_desc := Some False\<rparr>), 0, 32, 24, 7)]\<close>

definition mc_wifi :: "mc_placement list" where
  "mc_wifi = mc_wifi_1 @ mc_wifi_2 @ mc_wifi_3"

definition mc_lan_1 :: "mc_placement list" where
  \<open>mc_lan_1 =
    [(mc_stat 401 ''LAN Throughput'' (''sum(rate(openwrt_device_traffic_bytes_total{'' @ PROM_FILTER @
       ''}[$__rate_interval])) or vector(0)'') ''Bps''
       (''Total per-device traffic the router is accounting for, both directions. '' @
       ''Compare with WAN throughput on the Overview tab: a large gap means most '' @
       ''traffic is staying inside the LAN, which is normal for backups and media '' @
       ''streaming.'') (mkw\<lparr>m_graph := Some True, m_color_mode := Some ''value''\<rparr>),
       0, 0, 5, 5),
     (mc_gauge 402 ''Conntrack Utilisation'' (''(sum(node_nf_conntrack_entries{'' @ PROM_FILTER @
       ''}) / (sum(node_nf_conntrack_entries_limit{'' @ PROM_FILTER @ ''}) > 0)) * 100'')
       ''percent''
       (''Connection-tracking table fill against the kernel's real limit (nf_conntrack_max),'' @
       '' not an invented maximum. Above 90% the router starts dropping new connections '' @
       ''and everything feels broken at once - raise nf_conntrack_max or find the '' @
       ''device opening the connections.'')
       (mkw\<lparr>m_thresholds_key := Some McCapacityPercent\<rparr>), 5, 0, 5, 5),
     (mc_piechart 403 ''Bandwidth Share'' [prom_query DEV_TOTAL ''{{device}}'' ''A'' ''time_series''
       False] ''Bps''
       (''Each client's share of current total throughput. Answers "who is using the '' @
       ''internet right now" in one glance. Devices named `ip_x_x_x_x` have no DHCP '' @
       ''hostname - give them a static lease if you want to recognise them.'') mkw, 10, 0, 14, 5),
     (mc_bargauge 404 ''Top Talkers - Download'' [prom_query (''topk(10, '' @ DEV_DL @ '')'')
       ''{{device}}'' ''A'' ''time_series'' False] ''Bps''
       (''Ten busiest clients by download rate. Coloured on a neutral blue scale on '' @
       ''purpose: being the biggest downloader is not a fault, so a red bar here '' @
       ''would be misleading.'') mkw, 0, 5, 12, 9),
     (mc_bargauge 405 ''Top Talkers - Upload'' [prom_query (''topk(10, '' @ DEV_UL @ '')'')
       ''{{device}}'' ''A'' ''time_series'' False] ''Bps''
       (''Ten busiest clients by upload rate. Sustained heavy upload from one client '' @
       ''is the usual cause of poor latency for everyone else on an asymmetric line '' @
       ''- check the WAN tab's jitter panel at the same time.'') mkw, 12, 5, 12, 9),
     (mc_timeseries 406 ''Per-Device Throughput'' [prom_query DEV_DL ''{{device}} download'' ''A''
       ''time_series'' False, prom_query DEV_UL ''{{device}} upload'' ''B'' ''time_series'' False]
       ''Bps''
       (''Traffic over time for the clients selected in the **Client device** variable. '' @
       ''Leave it on All for the whole picture, or pick one device to see whether '' @
       ''that 2 a.m. spike was really it.'') mkw, 0, 14, 24, 9)]\<close>

definition mc_lan_2 :: "mc_placement list" where
  \<open>mc_lan_2 =
    [(mc_table 407 ''Client Traffic'' [prom_query DEV_DL '''' ''A'' ''table'' True, prom_query DEV_UL
       '''' ''B'' ''table'' True, prom_query (''openwrt_device_info{'' @ PROM_FILTER @
       '', device=~"$device"}'') '''' ''C'' ''table'' True]
       (''One row per client: download, upload, and the derived total, joined to identity. '' @
       ''Clients with no current traffic still appear via the identity query rather '' @
       ''than silently vanishing. Sorted by total, with in-cell gauges so the distribution '' @
       ''is readable without a chart.'') (mkw\<lparr>m_transformations := Some [tf ''joinByField''
       [(''byField'', JStr ''device''), (''mode'', JStr ''outer'')],
       JDict [(''kind'', JStr ''calculateField''), (''spec'',
       JDict [(''id'', JStr ''calculateField''), (''options'', JDict [(''mode'', JStr ''binary''),
       (''alias'', JStr ''Total''), (''binary'', JDict [(''left'', JStr ''Value #A''),
       (''right'', JStr ''Value #B''), (''operator'', JStr ''+'')]),
       (''replace'', JBool False)])])], mc_clean [(''device'', ''Client''), (''ip'', ''IP''),
       (''mac'', ''MAC''), (''Value #A'', ''Download''), (''Value #B'', ''Upload'')]
       [''Value #C'', ''interface'', ''router''] [''Client'', ''IP'', ''MAC'', ''Download'',
       ''Upload'', ''Total''], sort_by ''Total'' True, limit 60],
       m_overrides := Some [mc_regexp_override ''/Download|Upload|Total/''
       [JDict [(''id'', JStr ''unit''), (''value'', JStr ''Bps'')],
       JDict [(''id'', JStr ''custom.cellOptions''), (''value'',
       JDict [(''type'', JStr ''gauge''), (''mode'', JStr ''gradient'')])],
       JDict [(''id'', JStr ''min''), (''value'', JInt 0)], JDict [(''id'', JStr ''color''),
       (''value'', JDict [(''mode'', JStr ''continuous-blues'')])]]],
       m_sort_col := Some ''Total'', m_sort_desc := Some True\<rparr>), 0, 23, 14, 10),
     (mc_timeseries 408 ''Interface Errors & Drops'' [prom_query
       (''sum by (device) (rate(node_network_receive_drop_total{'' @ PROM_FILTER @
       '', device=~"$netdev"}[$__rate_interval]))'') ''{{device}} rx drops'' ''A'' ''time_series''
       False, prom_query (''sum by (device) (rate(node_network_transmit_drop_total{'' @
       PROM_FILTER @ '', device=~"$netdev"}[$__rate_interval]))'') ''{{device}} tx drops'' ''B''
       ''time_series'' False, prom_query
       (''sum by (device) (rate(node_network_receive_errs_total{'' @ PROM_FILTER @
       '', device=~"$netdev"}[$__rate_interval]) + rate(node_network_transmit_errs_total{'' @
       PROM_FILTER @ '', device=~"$netdev"}[$__rate_interval]))'') ''{{device}} errors'' ''C''
       ''time_series'' False] ''pps''
       (''Dropped and errored packets per interface. Errors are almost always physical '' @
       ''- cable, port, duplex mismatch. Drops are usually queue pressure. Both flat '' @
       ''at zero is the expected state; any sustained non-zero line deserves investigating '' @
       ''even if throughput looks fine.'') mkw, 14, 23, 10, 10),
     (mc_table 409 ''Link Status'' [prom_query (''openwrt_link_up{'' @ PROM_FILTER @ ''}'') '''' ''A''
       ''table'' True, prom_query (''openwrt_link_speed_bits_per_second{'' @ PROM_FILTER @ ''}'')
       '''' ''B'' ''table'' True, prom_query (''openwrt_link_duplex{'' @ PROM_FILTER @ ''}'') ''''
       ''C'' ''table'' True, prom_query (''openwrt_link_carrier_changes_total{'' @ PROM_FILTER @
       ''}'') '''' ''D'' ''table'' True]
       (''Physical link state per interface. **Carrier changes** is the flap counter '' @
       ''- a port whose count keeps climbing has a failing cable, a failing port,'' @
       '' or a device power-cycling behind it. A gigabit port negotiated at 100 Mbit '' @
       ''or half duplex is a cabling fault, not a setting.'')
       (mkw\<lparr>m_transformations := Some [tf ''merge'' [], mc_clean [(''router'', ''Router''),
       (''device'', ''Interface''), (''Value #A'', ''Link''), (''Value #B'', ''Speed''),
       (''Value #C'', ''Duplex''), (''Value #D'', ''Carrier Changes'')] [] [''Router'',
       ''Interface'', ''Link'', ''Speed'', ''Duplex'', ''Carrier Changes''], sort_by
       ''Carrier Changes'' True], m_overrides := Some [mc_name_override ''Link''
       [JDict [(''id'', JStr ''custom.cellOptions''),
       (''value'', JDict [(''type'', JStr ''color-background'')])],
       JDict [(''id'', JStr ''mappings''), (''value'', JList LINK_UP_MAPPINGS)]], mc_name_override
       ''Speed'' [JDict [(''id'', JStr ''unit''), (''value'', JStr ''bps'')],
       JDict [(''id'', JStr ''decimals''), (''value'', JInt 0)]], mc_name_override ''Duplex''
       [JDict [(''id'', JStr ''custom.cellOptions''),
       (''value'', JDict [(''type'', JStr ''color-background'')])],
       JDict [(''id'', JStr ''mappings''), (''value'', JList DUPLEX_MAPPINGS)]], mc_name_override
       ''Carrier Changes'' [JDict [(''id'', JStr ''unit''), (''value'', JStr ''none'')],
       JDict [(''id'', JStr ''decimals''), (''value'', JInt 0)]]],
       m_sort_col := Some ''Carrier Changes'', m_sort_desc := Some True\<rparr>), 0, 33, 24, 8)]\<close>

definition mc_lan :: "mc_placement list" where
  "mc_lan = mc_lan_1 @ mc_lan_2"

definition mc_dns_local :: string where
  \<open>mc_dns_local =
     (''sum(rate(dnsmasq_dns_local_answered{'' @ PROM_FILTER @ ''}[$__rate_interval]))'')\<close>

definition mc_dns_fwd :: string where
  \<open>mc_dns_fwd =
     (''sum(rate(dnsmasq_dns_queries_forwarded{'' @ PROM_FILTER @ ''}[$__rate_interval]))'')\<close>

definition mc_dns_dhcp_1 :: "mc_placement list" where
  \<open>mc_dns_dhcp_1 =
    [(mc_stat 501 ''DNS Query Rate'' (''('' @ mc_dns_local @ '' + '' @ mc_dns_fwd @ '') or vector(0)'')
       ''reqps'' (''Queries per second dnsmasq is answering, local plus forwarded. These are '' @
       ''counters without a `_total` suffix, so they are rated here - the raw metric '' @
       ''is a lifetime total and would be meaningless as a current value.'')
       (mkw\<lparr>m_graph := Some True, m_color_mode := Some ''value'',
       m_decimals := Some (JInt 1)\<rparr>), 0, 0, 5, 5),
     (mc_stat 502 ''Cache Hit Ratio'' (''('' @ mc_dns_local @ '' / (('' @ mc_dns_local @ '' + '' @
       mc_dns_fwd @ '') > 0)) * 100'') ''percent''
       (''Share of DNS queries answered locally from cache or hosts rather than forwarded '' @
       ''upstream. Higher is faster browsing and less upstream dependency. The denominator '' @
       ''is guarded so an idle router shows no data instead of +Inf.'')
       (mkw\<lparr>m_decimals := Some (JInt 0), m_color_mode := Some ''value'',
       m_no_value := Some ''No queries''\<rparr>), 5, 0, 5, 5),
     (mc_gauge 503 ''DHCP Pool Utilisation'' (''max(openwrt_dhcp_pool_utilization_percent{'' @
       PROM_FILTER @ ''})'') ''percent''
       (''Active leases as a percentage of the configured pool. The absolute numbers '' @
       ''behind this percentage are in the bar gauge to the right - a percentage '' @
       ''without its denominator is not actionable.'')
       (mkw\<lparr>m_thresholds_key := Some McCapacityPercent\<rparr>), 10, 0, 5, 5),
     (mc_bargauge 504 ''DHCP Pool'' [prom_query (''sum(openwrt_dhcp_leases_used{'' @ PROM_FILTER @
       ''}) or vector(0)'') ''Leases in use'' ''A'' ''time_series'' False, prom_query
       (''sum(openwrt_dhcp_static_hosts_total{'' @ PROM_FILTER @ ''}) or vector(0)'')
       ''Static reservations'' ''B'' ''time_series'' False, prom_query
       (''sum(openwrt_dhcp_pool_size_total{'' @ PROM_FILTER @ ''}) or vector(0)'') ''Pool size''
       ''C'' ''time_series'' False] ''none''
       (''The raw numbers behind the utilisation gauge: leases currently held, statically '' @
       ''reserved hosts, and the total configured pool size. Running out of pool '' @
       ''shows up as clients that associate to WiFi but never get an address.'')
       (mkw\<lparr>m_decimals := Some (JInt 0)\<rparr>), 15, 0, 9, 5),
     (mc_timeseries 505 ''DNS Answers: Local vs Forwarded'' [prom_query mc_dns_local
       ''Local (cache/hosts)'' ''A'' ''time_series'' False, prom_query mc_dns_fwd
       ''Forwarded upstream'' ''B'' ''time_series'' False, prom_query
       (''sum(rate(dnsmasq_dns_unanswered{'' @ PROM_FILTER @ ''}[$__rate_interval]))'')
       ''Unanswered'' ''C'' ''time_series'' False] ''reqps''
       (''Where DNS answers come from, stacked so the total is the query rate. A rising '' @
       ''*forwarded* share means the cache is being evicted or TTLs are short; any '' @
       ''sustained *unanswered* line means upstream resolvers are failing and browsing '' @
       ''will feel broken long before anything else alerts.'')
       (mkw\<lparr>m_stacked := Some True\<rparr>), 0, 5, 12, 8)]\<close>

definition mc_dns_dhcp_2 :: "mc_placement list" where
  \<open>mc_dns_dhcp_2 =
    [(mc_timeseries 506 ''DNS Cache Activity'' [prom_query (''sum(rate(dnsmasq_dns_cache_inserted{'' @
       PROM_FILTER @ ''}[$__rate_interval]))'') ''Inserted'' ''A'' ''time_series'' False,
       prom_query (''sum(rate(dnsmasq_dns_cache_live_freed{'' @ PROM_FILTER @
       ''}[$__rate_interval]))'') ''Evicted while live'' ''B'' ''time_series'' False] ''reqps''
       (''Cache inserts against entries evicted while still valid. A persistent eviction '' @
       ''rate means the cache is too small for this network's query mix - raise dnsmasq's '' @
       ''`cachesize`. Zero evictions means the cache is comfortably sized.'') mkw, 12, 5, 12, 8),
     (mc_timeseries 507 ''DHCP Transactions'' [prom_query (''sum(rate(dnsmasq_dhcp_discover{'' @
       PROM_FILTER @ ''}[$__rate_interval]))'') ''Discover'' ''A'' ''time_series'' False,
       prom_query (''sum(rate(dnsmasq_dhcp_offer{'' @ PROM_FILTER @ ''}[$__rate_interval]))'')
       ''Offer'' ''B'' ''time_series'' False, prom_query (''sum(rate(dnsmasq_dhcp_request{'' @
       PROM_FILTER @ ''}[$__rate_interval]))'') ''Request'' ''C'' ''time_series'' False,
       prom_query (''sum(rate(dnsmasq_dhcp_ack{'' @ PROM_FILTER @ ''}[$__rate_interval]))'')
       ''Ack'' ''D'' ''time_series'' False, prom_query (''sum(rate(dnsmasq_dhcp_nak{'' @
       PROM_FILTER @ ''}[$__rate_interval]))'') ''Nak'' ''E'' ''time_series'' False, prom_query
       (''sum(rate(dnsmasq_dhcp_decline{'' @ PROM_FILTER @ ''}[$__rate_interval]))'') ''Decline''
       ''G'' ''time_series'' False] ''reqps''
       (''The DHCP handshake, per message type. Discover without Offer means the pool '' @
       ''is exhausted or the server is not listening on that interface. Any Nak or '' @
       ''Decline at all is worth reading the logs over - it usually means two servers '' @
       ''or a duplicate address.'') mkw, 0, 13, 12, 8),
     (mc_table 508 ''DHCP Leases'' [prom_query (''(dhcp_lease{'' @ PROM_FILTER @ ''} > 0) * 1000'')
       '''' ''A'' ''table'' True, prom_query (''clamp_min((dhcp_lease{'' @ PROM_FILTER @
       ''} > 0) - time(), 0)'') '''' ''B'' ''table'' True]
       (''Current DHCP leases with absolute expiry and remaining time. Leases exported '' @
       ''as 0 (static or infinite) are filtered out rather than rendered as impossible '' @
       ''negative durations. Sorted by soonest expiry, which is where a lease-renewal '' @
       ''problem shows up first.'') (mkw\<lparr>m_transformations := Some [tf ''merge'' [],
       mc_clean [(''hostname'', ''Hostname''), (''ip'', ''IP''), (''mac'', ''MAC''),
       (''Value #A'', ''Expires''), (''Value #B'', ''Remaining'')] [''dnsmasq'', ''router'']
       [''Hostname'', ''IP'', ''MAC'', ''Expires'', ''Remaining''], sort_by ''Remaining'' False],
       m_overrides := Some [mc_name_override ''Expires'' [JDict [(''id'', JStr ''unit''),
       (''value'', JStr ''dateTimeAsIso'')]], mc_name_override ''Remaining''
       [JDict [(''id'', JStr ''unit''), (''value'', JStr ''s'')],
       JDict [(''id'', JStr ''decimals''), (''value'', JInt 0)]]],
       m_sort_col := Some ''Remaining'', m_sort_desc := Some False,
       m_no_value := Some ''No expiring leases''\<rparr>), 12, 13, 12, 8),
     (mc_timeseries 509 ''DHCP Lease Churn'' [prom_query (''sum(rate(dnsmasq_leases_allocated_4{'' @
       PROM_FILTER @ ''}[$__rate_interval]))'') ''Allocated'' ''A'' ''time_series'' False,
       prom_query (''sum(rate(dnsmasq_leases_pruned_4{'' @ PROM_FILTER @
       ''}[$__rate_interval]))'') ''Pruned'' ''B'' ''time_series'' False] ''cps''
       (''How often the DHCP pool is handing out or reclaiming leases. A sustained '' @
       ''high allocation rate with matching prunes is normal churn (phones sleeping '' @
       ''and waking); allocations climbing with prunes flat means the pool is filling '' @
       ''up faster than leases expire, worth checking against DHCP Pool Utilisation '' @
       ''above before it runs out.'') mkw, 0, 21, 24, 7)]\<close>

definition mc_dns_dhcp :: "mc_placement list" where
  "mc_dns_dhcp = mc_dns_dhcp_1 @ mc_dns_dhcp_2"

definition mc_health_1 :: "mc_placement list" where
  \<open>mc_health_1 =
    [(mc_stat 601 ''CPU Busy'' (''(1 - avg(rate(node_cpu_seconds_total{'' @ PROM_FILTER @
       '', mode="idle"}[$__rate_interval]))) * 100'') ''percent''
       (''Average non-idle CPU across all four MT7621 cores. This SoC routes at line '' @
       ''rate only while it has headroom, so sustained high CPU usually shows up '' @
       ''as reduced WAN throughput before anything else. Break it down by mode on '' @
       ''the chart below.'') (mkw\<lparr>m_thresholds_key := Some McCapacityPercent,
       m_decimals := Some (JInt 0)\<rparr>), 0, 0, 4, 4),
     (mc_stat 602 ''Memory Used'' (''((sum(node_memory_MemTotal_bytes{'' @ PROM_FILTER @
       ''}) - sum(node_memory_MemAvailable_bytes{'' @ PROM_FILTER @
       ''})) / (sum(node_memory_MemTotal_bytes{'' @ PROM_FILTER @ ''}) > 0)) * 100'') ''percent''
       (''Memory in use against MemAvailable, which correctly counts reclaimable cache '' @
       ''as free. On a 256 MB router, sustained pressure here ends in the OOM killer '' @
       ''taking out dnsmasq or hostapd - which looks like a network outage, not a '' @
       ''memory problem.'') (mkw\<lparr>m_thresholds_key := Some McCapacityPercent,
       m_decimals := Some (JInt 0)\<rparr>), 4, 0, 4, 4),
     (mc_stat 603 ''Uptime'' (''max(node_time_seconds{'' @ PROM_FILTER @
       ''} - node_boot_time_seconds{'' @ PROM_FILTER @ ''})'') ''s''
       (''Time since the last boot, longest-running selected router. An unexpectedly '' @
       ''small value means it rebooted - the reboot counter next to this tile tells '' @
       ''you how many times within the dashboard window.'')
       (mkw\<lparr>m_color_mode := Some ''value''\<rparr>), 8, 0, 4, 4),
     (mc_stat 604 ''Reboots (24h)'' (''sum(changes(node_boot_time_seconds{'' @ PROM_FILTER @
       ''}[24h])) or vector(0)'') ''none''
       (''Number of times the boot timestamp changed in the last 24 hours, i.e. unplanned '' @
       ''or planned restarts. Zero is the expected value; anything else should be '' @
       ''explained by the logs or by a power event.'')
       (mkw\<lparr>m_thresholds_key := Some McZeroGood\<rparr>), 12, 0, 4, 4),
     (mc_stat 605 ''Hottest Radio'' (''max(node_hwmon_temp_celsius{'' @ PROM_FILTER @ ''})'')
       ''celsius'' (''Hottest hardware-monitor sensor on the router - on this board these are '' @
       ''the two WiFi PHYs. Above 85 C the radios throttle and clients see sudden '' @
       ''rate drops with no other symptom. This query is filtered to `job="openwrt"`;'' @
       '' without that it also matches the Kubernetes node exporters.'')
       (mkw\<lparr>m_thresholds_key := Some McTemperature, m_decimals := Some (JInt 0),
       m_no_value := Some ''No sensor''\<rparr>), 16, 0, 4, 4),
     (mc_stat 606 ''Services Down'' (''count(openwrt_service_up{'' @ PROM_FILTER @
       ''} == 0) or vector(0)'') ''none''
       (''Monitored daemons that are enabled but not running. Zero is truthful and '' @
       ''green here. Which service it is, is in the state timeline below.'')
       (mkw\<lparr>m_thresholds_key := Some McZeroGoodHard\<rparr>), 20, 0, 4, 4),
     (mc_timeseries 607 ''CPU by Mode'' [prom_query (''sum by (mode) (rate(node_cpu_seconds_total{'' @
       PROM_FILTER @
       '', mode!="idle"}[$__rate_interval])) / scalar(count(count by (cpu) (node_cpu_seconds_total{'' @
       PROM_FILTER @ ''}))) * 100'') ''{{mode}}'' ''A'' ''time_series'' False] ''percent''
       (''Non-idle CPU by mode, normalised to a percentage of total capacity across '' @
       ''all cores and stacked so the top of the stack is total utilisation. `softirq` '' @
       ''and `sys` dominating is normal for a router forwarding packets; `iowait` '' @
       ''climbing means flash trouble.'') (mkw\<lparr>m_stacked := Some True\<rparr>), 0, 4, 8, 8),
     (mc_timeseries 608 ''Load Average'' [prom_query (''max(node_load1{'' @ PROM_FILTER @ ''})'')
       ''1 min'' ''A'' ''time_series'' False, prom_query (''max(node_load5{'' @ PROM_FILTER @
       ''})'') ''5 min'' ''B'' ''time_series'' False, prom_query (''max(node_load15{'' @
       PROM_FILTER @ ''})'') ''15 min'' ''C'' ''time_series'' False] ''none''
       (''Run-queue length. On a four-core SoC, sustained load above 4 means processes '' @
       ''are waiting. The 1-minute line spiking while the 15-minute line stays flat '' @
       ''is a transient and not worth chasing.'')
       (mkw\<lparr>m_thresholds_value := Some (mc_thresholds [(''transparent'', JNull), (ORANGE, JInt 4)])\<rparr>),
       8, 4, 8, 8)]\<close>

definition mc_health_2 :: "mc_placement list" where
  \<open>mc_health_2 =
    [(mc_timeseries 609 ''Temperature by Sensor'' [prom_query
       (''max by (chip, sensor) (node_hwmon_temp_celsius{'' @ PROM_FILTER @ ''})'')
       (''{{chip}} '' @ [CHR 0xC2, CHR 0xB7] @ '' {{sensor}}'') ''A'' ''time_series'' False]
       ''celsius''
       (''Every hardware-monitor sensor on the router over time. A slow upward drift '' @
       ''across all sensors is dust or a blocked vent; a single sensor climbing under '' @
       ''load is that radio working hard. The dashed line marks the 85 C throttling '' @
       ''point.'')
       (mkw\<lparr>m_thresholds_value := Some (mc_thresholds [(''transparent'', JNull), (RED, JInt 85)]),
       m_soft_min := Some JNull\<rparr>), 16, 4, 8, 8),
     (mc_timeseries 610 ''Memory Breakdown'' [prom_query (''sum(node_memory_MemTotal_bytes{'' @
       PROM_FILTER @ ''}) - sum(node_memory_MemFree_bytes{'' @ PROM_FILTER @
       ''}) - sum(node_memory_Buffers_bytes{'' @ PROM_FILTER @
       ''}) - sum(node_memory_Cached_bytes{'' @ PROM_FILTER @ ''})'') ''Used by processes'' ''A''
       ''time_series'' False, prom_query (''sum(node_memory_Buffers_bytes{'' @ PROM_FILTER @
       ''})'') ''Buffers'' ''B'' ''time_series'' False, prom_query
       (''sum(node_memory_Cached_bytes{'' @ PROM_FILTER @ ''})'') ''Cached'' ''C'' ''time_series''
       False, prom_query (''sum(node_memory_MemFree_bytes{'' @ PROM_FILTER @ ''})'') ''Free''
       ''D'' ''time_series'' False] ''bytes''
       (''Where the RAM went, stacked to total installed memory. Cache and buffers '' @
       ''are reclaimable and their growth is healthy - only the *Used by processes* '' @
       ''band growing without bound is a leak.'') (mkw\<lparr>m_stacked := Some True\<rparr>),
       0, 12, 12, 8),
     (mc_state_timeline 611 ''Service Health'' [prom_query (''openwrt_service_up{'' @ PROM_FILTER @
       ''}'') ''{{exported_service}}'' ''A'' ''time_series'' False]
       (''One row per monitored daemon, coloured by whether it is running. This is '' @
       ''where a dnsmasq or hostapd restart becomes visible as a discrete event rather '' @
       ''than a blip you have to infer from a graph. Mappings live in field defaults '' @
       ''- a byType override silently fails on this panel type.'') RUNNING_MAPPINGS mkw,
       12, 12, 12, 8),
     (mc_bargauge 612 ''Filesystem Usage'' [prom_query
       (''max by (router, mount) (openwrt_filesystem_used_percent{'' @ PROM_FILTER @ ''})'')
       ''{{router}} {{mount}}'' ''A'' ''time_series'' False] ''percent''
       (''Fill level per mount. `/overlay` is the writable flash that holds your configuration '' @
       ''and installed packages; filling it bricks configuration changes and package '' @
       ''installs. `/tmp` is RAM. Thresholds are real here: yellow at 70%, red at '' @ ''90%.'')
       (mkw\<lparr>m_thresholds_key := Some McCapacityPercent,
       m_color_mode := Some ''thresholds'', m_max_value := Some (JInt 100),
       m_decimals := Some (JInt 0)\<rparr>), 0, 20, 24, 6),
     (mc_timeseries 613 ''Network Stack Saturation'' [prom_query
       (''sum(rate(openwrt_softnet_dropped_total{'' @ PROM_FILTER @ ''}[$__rate_interval]))'')
       ''Softnet dropped'' ''A'' ''time_series'' False, prom_query
       (''sum(rate(openwrt_softnet_times_squeezed_total{'' @ PROM_FILTER @
       ''}[$__rate_interval]))'') ''Softnet squeezed'' ''B'' ''time_series'' False, prom_query
       (''sum(rate(openwrt_tcp_listen_drops_total{'' @ PROM_FILTER @ ''}[$__rate_interval]))'')
       ''TCP listen drops'' ''C'' ''time_series'' False] ''cps''
       (''Kernel packet-processing backlog signals, summed across CPUs. `Softnet dropped` '' @
       ''is packets the NIC ring handed over that the kernel had no room to queue;'' @
       '' `squeezed` is the softirq budget running out before the queue was drained '' @
       ''- both mean the CPU could not keep up with incoming traffic for a moment. '' @
       ''`TCP listen drops` means a service's accept queue was full. Any of these '' @
       ''climbing under load, on hardware this constrained, shows up before throughput '' @
       ''visibly drops - it is the earliest warning this dashboard has for CPU-bound '' @
       ''packet loss.'')
       (mkw\<lparr>m_thresholds_value := Some (mc_thresholds [(''transparent'', JNull), (ORANGE, JInt 1)])\<rparr>),
       0, 26, 12, 8),
     (mc_timeseries 614 ''Scheduler Activity'' [prom_query (''sum(rate(node_context_switches_total{'' @
       PROM_FILTER @ ''}[$__rate_interval]))'') ''Context switches/s'' ''A'' ''time_series''
       False, prom_query (''sum(rate(node_intr_total{'' @ PROM_FILTER @ ''}[$__rate_interval]))'')
       ''Interrupts/s'' ''B'' ''time_series'' False] ''cps''
       (''How hard the four MT7621 cores are being interrupted and rescheduled - context '' @
       ''switches and hardware/software interrupts per second, summed across CPUs. '' @
       ''This is the mechanism behind sustained CPU busy: a climb here alongside '' @
       ''CPU Busy above explains *why* the router is busy (packet interrupts, radio '' @
       ''IRQs) rather than just confirming that it is.'') mkw, 12, 26, 12, 8)]\<close>

definition mc_health :: "mc_placement list" where
  "mc_health = mc_health_1 @ mc_health_2"

definition mc_topology_1 :: "mc_placement list" where
  \<open>mc_topology_1 =
    [(Inr (mc_text 701 (''## '' @ [CHR 0xF0, CHR 0x9F, CHR 0x95, CHR 0xB8] @
       '' How to read this graph'' @ [NL] @ ''`Internet '' @ [CHR 0xE2, CHR 0x86, CHR 0x92] @
       '' router '' @ [CHR 0xE2, CHR 0x86, CHR 0x92] @ '' access point '' @
       [CHR 0xE2, CHR 0x86, CHR 0x92] @ '' SSID '' @ [CHR 0xE2, CHR 0x86, CHR 0x92] @
       '' client`, built from one scrape, so a client that disappears never leaves '' @
       ''a dangling edge.'' @ [NL] @ [NL] @ ''**Node ring** '' @ [CHR 0xE2, CHR 0x80, CHR 0x94] @
       '' green arc = online, grey arc = offline (clients); router and AP show an '' @
       ''ok/warn ring. **Node and edge numbers** are live throughput in bytes/sec: '' @
       ''nodes show the client's own traffic, edges show the traffic crossing that '' @
       ''link. A node showing 0 B/s is genuinely idle, not missing. **Click a node** '' @
       ''for its IP, MAC and band.'' @ [NL] @ [NL] @
       ''> Isolated client nodes mean their association state is unknown, not that '' @
       ''they are wired '' @ [CHR 0xE2, CHR 0x80, CHR 0x94] @ '' the collector never guesses.'')
       mkw), 0, 0, 24, 5),
     (mc_stat 702 ''Topology Nodes'' (''count(openwrt_topology_node{'' @ PROM_FILTER @
       ''}) or vector(0)'') ''none''
       (''Everything the topology collector currently knows about: internet, routers,'' @
       '' APs, SSIDs and clients. Grafana's node graph draws at most 200 nodes before '' @
       ''hiding the rest behind a marker, which this network is comfortably below.'')
       (mkw\<lparr>m_color_mode := Some ''value''\<rparr>), 0, 5, 4, 4),
     (mc_stat 703 ''Offline Clients'' (''count(openwrt_topology_node{'' @ PROM_FILTER @
       '', arc__offline="1"}) or vector(0)'') ''none''
       (''Client nodes the router has seen before but that are not present now. A '' @
       ''number that never falls is stale lease data rather than genuinely absent '' @
       ''devices - cross-check against the inventory table below.'')
       (mkw\<lparr>m_thresholds_key := Some McNeutral, m_color_mode := Some ''value''\<rparr>),
       4, 5, 4, 4),
     (mc_stat 704 ''New Devices in Window'' (''count((openwrt_client_first_seen_seconds{'' @
       PROM_FILTER @ ''} > time() - $__range_s)) or vector(0)'') ''none''
       (''Clients whose first-seen timestamp falls inside the dashboard's current '' @
       ''time range - i.e. devices that appeared for the first time in this window. '' @
       ''Widen the time range and this counts further back. A non-zero value you '' @
       ''cannot account for is worth investigating.'')
       (mkw\<lparr>m_thresholds_key := Some McZeroGood, m_color_mode := Some ''value''\<rparr>),
       8, 5, 4, 4),
     (mc_state_timeline 705 ''Client Presence'' [prom_query (''openwrt_client_up{'' @ PROM_FILTER @
       ''} * on(mac) group_left(hostname) max by (mac, hostname) (openwrt_client_info{'' @
       PROM_FILTER @ ''})'') ''{{hostname}}'' ''A'' ''time_series'' False]
       (''One row per client, filled while it is present. Read it for patterns: a '' @
       ''device dropping off every night is a power-saving setting, a device flapping '' @
       ''every few minutes is a signal or DHCP problem, and a row that ends abruptly '' @
       ''is a device that left.'') ONLINE_MAPPINGS mkw, 12, 5, 12, 13)]\<close>

definition mc_topology_2 :: "mc_placement list" where
  \<open>mc_topology_2 =
    [(mc_table 706 ''Client Inventory & State'' [prom_query (''openwrt_client_up{'' @ PROM_FILTER @
       ''} * on(mac) group_left(hostname, ip, connection, band, ssid, ap) max by '' @
       ''(mac, hostname, ip, connection, band, ssid, ap) (openwrt_client_info{'' @ PROM_FILTER @
       ''})'') '''' ''A'' ''table'' True, prom_query
       (''max by (mac) (time() - openwrt_client_first_seen_seconds{'' @ PROM_FILTER @ ''})'') ''''
       ''B'' ''table'' True]
       (''Every known client with its current state, how it is attached, and how long '' @
       ''ago it was first seen. Sort by **State** to bring offline devices to the '' @
       ''top, or by **First Seen** to find newcomers. Blank band and SSID mean a '' @
       ''wired client.'') (mkw\<lparr>m_transformations := Some [tf ''merge'' [], mc_clean
       [(''hostname'', ''Hostname''), (''ip'', ''IP''), (''mac'', ''MAC''),
       (''connection'', ''Link''), (''band'', ''Band''), (''ssid'', ''SSID''), (''ap'', ''AP''),
       (''router'', ''Router''), (''Value #A'', ''State''), (''Value #B'', ''First Seen'')] []
       [''Hostname'', ''IP'', ''MAC'', ''Link'', ''Band'', ''SSID'', ''AP'', ''State'',
       ''First Seen''], sort_by ''State'' False], m_overrides := Some [mc_name_override ''State''
       [JDict [(''id'', JStr ''custom.cellOptions''),
       (''value'', JDict [(''type'', JStr ''color-background'')])],
       JDict [(''id'', JStr ''mappings''), (''value'', JList ONLINE_MAPPINGS)]], mc_name_override
       ''First Seen'' [JDict [(''id'', JStr ''unit''), (''value'', JStr ''s'')],
       JDict [(''id'', JStr ''decimals''), (''value'', JInt 0)]]], m_sort_col := Some ''State'',
       m_sort_desc := Some False\<rparr>), 0, 9, 12, 9),
     (mc_panel 707 ''Network Topology'' ''nodeGraph'' [prom_query mc_EDGES_EXPR '''' ''edges''
       ''table'' True, prom_query mc_NODES_EXPR '''' ''nodes'' ''table'' True] ''none''
       (''The live network graph. Node and edge values are current throughput in bytes/sec,'' @
       '' joined from the per-device traffic counters onto the topology frames; anything '' @
       ''with no traffic reads a truthful 0 B/s rather than disappearing. The ring '' @
       ''around each node is its health arc: green online/ok, grey offline, yellow '' @
       ''warning - offline is grey rather than red because a device that has gone '' @
       ''home is not a fault. Association edges are coloured by signal strength - '' @
       ''green above -60 dBm, orange to -72, red below - which the collector computes '' @
       ''in the same scrape that reads the association, so the colour and the link '' @
       ''can never disagree. Only `mainstat` is populated: a Prometheus table query '' @
       ''returns exactly one numeric column per frame and Grafana's transformation '' @
       ''chain applies to every frame in the panel, so `secondarystat` and `thickness` '' @
       ''cannot be added to one frame without corrupting the other. Emitting them '' @
       ''from the exporter as their own series is the way to unlock them.'')
       (mkw\<lparr>m_options := Some [(''zoomMode'', JStr ''cooperative''),
       (''layoutAlgorithm'', JStr ''layered''), (''nodes'',
       JDict [(''mainStatUnit'', JStr ''Bps''), (''arcs'',
       JList [JDict [(''field'', JStr ''arc__online''), (''color'', JStr GREEN)],
       JDict [(''field'', JStr ''arc__offline''), (''color'', JStr GRAY)],
       JDict [(''field'', JStr ''arc__ok''), (''color'', JStr GREEN)],
       JDict [(''field'', JStr ''arc__warn''), (''color'', JStr YELLOW)]])]),
       (''edges'', JDict [(''mainStatUnit'', JStr ''Bps'')])],
       m_field_defaults := Some [(''thresholds'', mc_THRESHOLDS McNeutral)],
       m_transformations := Some [mc_clean [(''Value'', ''mainstat'')] [''router'', ''authority'']
       []], m_query_opts := Some (mc_query_options 200 MIN_INTERVAL)\<rparr>), 0, 18, 24, 17)]\<close>

definition mc_topology :: "mc_placement list" where
  "mc_topology = mc_topology_1 @ mc_topology_2"

definition mc_logs :: "mc_placement list" where
  \<open>mc_logs =
    [(mc_loki_stat 801 ''Log Lines (1h)'' (''sum(count_over_time({'' @ LOKI_FILTER @
       ''} [1h])) or vector(0)'')
       (''Everything the router logged in the last hour. A sudden collapse to zero '' @
       ''is a syslog pipeline failure, not a quiet router - confirm on Diagnostics '' @
       [CHR 0xE2, CHR 0x86, CHR 0x92] @ '' Syslog Pipeline before concluding all is well.'') mkw,
       0, 0, 6, 4),
     (mc_loki_stat 802 ''Errors (1h)'' (''sum(count_over_time({'' @ LOKI_FILTER @
       '', message_severity=~"error|err|crit|critical|alert|emergency|emerg"} '' @
       CRON_CMD_FILTER @ '' [1h])) or vector(0)'')
       (''Syslog lines at error severity or above in the last hour, excluding BusyBox '' @
       ''cron's routine command-start records. Any non-zero value here should be '' @
       ''readable in the log panel below; if it is not, the severity mapping needs '' @
       ''widening.'') (mkw\<lparr>m_thresholds_key := Some McZeroGood\<rparr>), 6, 0, 6, 4),
     (mc_loki_stat 803 ''Warnings (1h)'' (''sum(count_over_time({'' @ LOKI_FILTER @
       '', message_severity=~"warning|warn"} '' @ CRON_CMD_FILTER @ '' [1h])) or vector(0)'')
       (''Warning-severity lines in the last hour. Warnings are normal in small numbers '' @
       ''on a router - hostapd logs a warning every time a client with a weak signal '' @
       ''retries. A step change in the rate is the signal, not the absolute count.'')
       (mkw\<lparr>m_thresholds_key := Some McNeutral\<rparr>), 12, 0, 6, 4),
     (mc_loki_stat 804 ''Auth Failures (24h)'' (''sum(count_over_time({'' @ LOKI_FILTER @
       ''} |~ "(?i)(failed password|login failed|bad password|invalid user|authentication '' @
       ''failure|bad pubkey)" [24h])) or vector(0)'')
       (''Failed SSH and login attempts in the last 24 hours, from dropbear. A handful '' @
       ''is background internet noise if the router is exposed; a sustained rate '' @
       ''means someone is trying, and the router should not be reachable from the '' @
       ''WAN at all. Details in the events panel below.'')
       (mkw\<lparr>m_thresholds_key := Some McZeroGood\<rparr>), 18, 0, 6, 4),
     (mc_timeseries 805 ''Log Rate by Severity'' [loki_query (''sum by (message_severity) (rate({'' @
       LOKI_FILTER @ ''} '' @ CRON_CMD_FILTER @ '' [$__auto]))'') ''A'' ''range''] ''cps''
       (''Syslog volume by severity, stacked, with one colour per severity used consistently '' @
       ''across this dashboard: red for critical and above, orange for error, yellow '' @
       ''for warning, blue for notice, green for informational. Cron command-start '' @
       ''lines are filtered out - on an idle router they are the majority of all '' @
       ''lines and drown everything else.'') (mkw\<lparr>m_stacked := Some True,
       m_overrides := Some SEVERITY_OVERRIDES\<rparr>), 0, 4, 14, 9),
     (mc_piechart 806 ''Log Volume by Application'' [loki_query
       (''sum by (message_app_name) (count_over_time({'' @ LOKI_FILTER @ ''} '' @
       CRON_CMD_FILTER @ '' [$__range]))'') ''A'' ''instant''] ''none''
       (''Which daemon is doing the talking over the selected time range. A process '' @
       ''that suddenly dominates the log is usually the one having trouble - hostapd '' @
       ''for WiFi, odhcpd or dnsmasq for addressing, netifd for interfaces, kernel '' @
       ''for hardware.'') mkw, 14, 4, 10, 9),
     (mc_logs_panel 807 ''Errors & Warnings'' (''{'' @ LOKI_FILTER @
       '', message_severity=~"error|err|crit|critical|alert|emergency|emerg|warning|warn"} '' @
       CRON_CMD_FILTER)
       (''Warning-and-above lines, newest first. This is the panel to read when any '' @
       ''tile above turns orange or red. Line count is bounded by the panel's Max '' @
       ''data points rather than the datasource default.'') mkw, 0, 13, 12, 11),
     (mc_logs_panel 808 ''Authentication & WiFi Association Events'' (''{'' @ LOKI_FILTER @
       ''} |~ "(?i)(failed password|login failed|bad password|invalid user|authentication '' @
       ''failure|bad pubkey|exit '' @ [BS] @ [BS] @ ''(|AP-STA-(CONNECTED|DISCONNECTED))"'')
       (''Login attempts and WiFi association/disassociation events in one stream. '' @
       ''The AP-STA lines are the only roaming record this network has - the association-event '' @
       ''*metric* collector reports itself unavailable, but hostapd still logs every '' @
       ''join and leave, so this is the reliable source.'') mkw, 12, 13, 12, 11)]\<close>

definition mc_diagnostics_1 :: "mc_placement list" where
  \<open>mc_diagnostics_1 =
    [(mc_stat 901 ''Exporter Reachable'' (''min(up{'' @ PROM_FILTER @ ''}) or vector(0)'') ''none''
       (''Whether Prometheus is successfully scraping every selected router. If this '' @
       ''is red, every other panel on this dashboard is stale and nothing else here '' @
       ''should be trusted.'') (mkw\<lparr>m_thresholds_key := Some McOkBad,
       m_mappings := Some MC_STATUS_MAPPINGS\<rparr>), 0, 0, 6, 4),
     (mc_stat 902 ''Scrape Duration'' (''max(scrape_duration_seconds{'' @ PROM_FILTER @ ''})'') ''s''
       (''How long the slowest router takes to answer a scrape. Climbing duration '' @
       ''on an embedded router means the Lua collectors are being starved of CPU;'' @
       '' once it exceeds the scrape interval, samples start being missed and graphs '' @
       ''go gappy.'') (mkw\<lparr>m_thresholds_key := Some McScrapeSeconds,
       m_decimals := Some (JInt 2)\<rparr>), 6, 0, 6, 4),
     (mc_stat 903 ''Series per Scrape'' (''max(scrape_samples_scraped{'' @ PROM_FILTER @ ''})'')
       ''none'' (''Number of samples returned per scrape - the cardinality of this exporter. '' @
       ''A sudden jump usually means a collector started emitting a per-client or '' @
       ''per-connection label it should not, which is how a small router quietly '' @
       ''overwhelms a metrics backend.'') (mkw\<lparr>m_color_mode := Some ''value''\<rparr>),
       12, 0, 6, 4),
     (mc_stat 904 ''Textfile Freshness'' (''max(time() - node_textfile_mtime_seconds{'' @ PROM_FILTER @
       ''})'') ''s''
       (''Age of the oldest textfile-collector output. Several helpers run on a 10-minute '' @
       ''cron, so values up to about 660 seconds are healthy; beyond 900 seconds '' @
       ''a helper has clearly missed a run and the panels it feeds are showing stale '' @
       ''data.'') (mkw\<lparr>m_thresholds_key := Some McFreshness,
       m_decimals := Some (JInt 0)\<rparr>), 18, 0, 6, 4),
     (mc_timeseries 905 ''Scrape Health Over Time'' [prom_query (''max(scrape_duration_seconds{'' @
       PROM_FILTER @ ''})'') ''Scrape duration'' ''A'' ''time_series'' False, prom_query
       (''max(scrape_samples_scraped{'' @ PROM_FILTER @ ''})'') ''Samples scraped'' ''B''
       ''time_series'' False, prom_query (''max(scrape_series_added{'' @ PROM_FILTER @ ''})'')
       ''New series added'' ''C'' ''time_series'' False] ''s''
       (''Scrape duration against sample count and newly added series. Duration and '' @
       ''samples rising together is normal growth; *New series added* staying persistently '' @
       ''high is a cardinality leak, because in a stable system almost every series '' @
       ''should already exist.'') (mkw\<lparr>m_overrides := Some [mc_regexp_override
       ''/Samples scraped|New series added/'' [JDict [(''id'', JStr ''unit''),
       (''value'', JStr ''none'')], JDict [(''id'', JStr ''custom.axisPlacement''),
       (''value'', JStr ''right'')], JDict [(''id'', JStr ''decimals''),
       (''value'', JInt 0)]]]\<rparr>), 0, 4, 12, 9)]\<close>

definition mc_diagnostics_2 :: "mc_placement list" where
  \<open>mc_diagnostics_2 =
    [(mc_timeseries 906 ''Syslog Pipeline'' [prom_query
       (''sum(rate(loki_source_syslog_entries_total{'' @ ALLOY_FILTER @ ''}[$__rate_interval]))'')
       ''Received from router'' ''A'' ''time_series'' False, prom_query
       (''sum(rate(loki_write_sent_entries_total{'' @ ALLOY_FILTER @ ''}[$__rate_interval]))'')
       ''Written to Loki'' ''B'' ''time_series'' False, prom_query
       (''sum(rate(loki_write_dropped_entries_total{'' @ ALLOY_FILTER @
       ''}[$__rate_interval])) or vector(0)'') ''Dropped'' ''C'' ''time_series'' False, prom_query
       (''sum(rate(loki_source_syslog_parsing_errors_total{'' @ ALLOY_FILTER @
       ''}[$__rate_interval])) or vector(0)'') ''Parse errors'' ''D'' ''time_series'' False]
       ''cps'' (''Health of the log path itself: syslog lines received from the router, lines '' @
       ''written to Loki, and anything dropped or unparseable along the way. If the '' @
       ''Logs tab looks suspiciously quiet, look here first - this is measured by '' @
       ''the Alloy shipper, not by the router, so it survives the router going away. '' @
       ''Not scoped by the Router variable: the shipper is a single shared process.'')
       (mkw\<lparr>m_overrides := Some [color_override ''Dropped'' RED, color_override
       ''Parse errors'' ORANGE]\<rparr>), 12, 4, 12, 9),
     (mc_table 907 ''Collector Status'' [prom_query (''node_scrape_collector_success{'' @ PROM_FILTER @
       ''}'') '''' ''A'' ''table'' True]
       (''Per-collector scrape result inside the exporter, sorted so anything failing '' @
       ''floats to the top. A failing collector is why an otherwise healthy-looking '' @
       ''dashboard has one empty panel - it fails silently at the exporter, not at '' @
       ''Prometheus.'') (mkw\<lparr>m_transformations := Some [tf ''merge'' [], mc_clean
       [(''router'', ''Router''), (''collector'', ''Collector''), (''Value #A'', ''Success''),
       (''Value'', ''Success'')] [] [''Router'', ''Collector'', ''Success''], sort_by ''Success''
       False], m_overrides := Some [mc_name_override ''Success''
       [JDict [(''id'', JStr ''custom.cellOptions''),
       (''value'', JDict [(''type'', JStr ''color-background'')])],
       JDict [(''id'', JStr ''mappings''), (''value'', JList [JDict [(''type'', JStr ''value''),
       (''options'', JDict [(''1'', JDict [(''text'', JStr ''OK''), (''color'', JStr GREEN),
       (''index'', JInt 0)]), (''0'', JDict [(''text'', JStr ''Failed''), (''color'', JStr RED),
       (''index'', JInt 1)])])]])]]], m_sort_col := Some ''Success'',
       m_sort_desc := Some False\<rparr>), 0, 13, 12, 10),
     (mc_table 908 ''Optional Collector Availability'' [prom_query
       (''{__name__=~"openwrt_.*_collector_available", '' @ PROM_FILTER @ ''}'') '''' ''A''
       ''table'' True]
       (''Which optional collectors this build of the exporter is actually providing. '' @
       ''**Not collected is grey, never red** - a collector that is off because the '' @
       ''feature is not installed is a configuration fact, not a fault. Known-empty '' @
       ''on this network: the association-event collector reports unavailable, and '' @
       ''the DPI collector reports available but has emitted zero flows and zero '' @
       ''devices for the whole retention window.'') (mkw\<lparr>m_transformations := Some [tf
       ''merge'' [], mc_clean [(''router'', ''Router''), (''__name__'', ''Collector''),
       (''Value'', ''State''), (''Value #A'', ''State'')] [] [''Router'', ''Collector'',
       ''State''], sort_by ''Collector'' False], m_overrides := Some [mc_name_override ''State''
       [JDict [(''id'', JStr ''custom.cellOptions''),
       (''value'', JDict [(''type'', JStr ''color-background'')])],
       JDict [(''id'', JStr ''mappings''), (''value'', JList COLLECTOR_MAPPINGS)]]],
       m_sort_col := Some ''Collector'', m_sort_desc := Some False\<rparr>), 12, 13, 12, 10)]\<close>

definition mc_diagnostics :: "mc_placement list" where
  "mc_diagnostics = mc_diagnostics_1 @ mc_diagnostics_2"

definition mc_tabs :: "(string \<times> mc_placement list) list" where
  "mc_tabs = zip TAB_TITLES [mc_overview, mc_wan, mc_wifi, mc_lan, mc_dns_dhcp, mc_health, mc_topology, mc_logs, mc_diagnostics]"

definition mc_spec :: "item list \<Rightarrow> json list \<Rightarrow> json" where
  \<open>mc_spec elements tabs =
     JDict [(''title'', JStr MC_DASHBOARD_TITLE), (''description'',
     JStr (''Single-pane OpenWrt operations dashboard: uplink SLI, WiFi and clients, '' @
     ''per-device traffic, DNS/DHCP, router health, live topology, syslog and data-quality '' @
     ''diagnostics. Replaces eight separate dashboards. Every query is verified '' @
     ''against live data; metrics the exporter does not emit are absent rather '' @
     ''than rendered as empty panels.'')), (''tags'', JList [JStr ''openwrt'', JStr ''router'',
     JStr ''mission-control'', JStr ''generated'']), (''cursorSync'', JStr ''Crosshair''),
     (''editable'', JBool True), (''preload'', JBool False), (''liveNow'', JBool False),
     (''annotations'', JList [JDict [(''kind'', JStr ''AnnotationQuery''), (''spec'',
     JDict [(''builtIn'', JBool True), (''enable'', JBool True), (''hide'', JBool True),
     (''iconColor'', JStr ''rgba(0, 211, 255, 1)''), (''name'', JStr ''Annotations & Alerts''),
     (''query'', JDict [(''kind'', JStr ''DataQuery''), (''group'', JStr ''grafana''),
     (''version'', JStr ''v0''), (''spec'', JDict [])])])]]), (''links'', JList []),
     (''timeSettings'', JDict [(''timezone'', JStr ''browser''), (''from'', JStr ''now-6h''),
     (''to'', JStr ''now''), (''autoRefresh'', JStr ''1m''), (''autoRefreshIntervals'',
     JList [JStr ''30s'', JStr ''1m'', JStr ''5m'', JStr ''15m'', JStr ''1h'']),
     (''hideTimepicker'', JBool False), (''fiscalYearStartMonth'', JInt 0)]),
     (''variables'', JList mc_variables), (''elements'', JDict elements), (''layout'',
     JDict [(''kind'', JStr ''TabsLayout''), (''spec'', JDict [(''tabs'', JList tabs)])])]\<close>

definition mc_dashboard :: "json \<Rightarrow> json" where
  \<open>mc_dashboard spec =
     JDict [(''apiVersion'', JStr ''dashboard.grafana.app/v2beta1''),
     (''kind'', JStr ''Dashboard''), (''metadata'', JDict [(''name'', JStr MC_DASHBOARD_NAME)]),
     (''spec'', spec)]\<close>

end
