(* ===== verification/Mission_Validate.thy ===== *)
theory Mission_Validate
  imports Netflow_Validate Mission_Dashboard
begin

text \<open>
  \<open>validate_dashboard\<close> and \<open>build_dashboard\<close> of \<open>scripts/build_openwrt_mission_control.py\<close>. References,
  the walk over tabs and the test of variables are the code the other generators have. Its own are
  the budget of panels, the assertions on one panel and those on the query texts. The builder is the
  shared one; after the tabs one transformation of one panel is edited in place.
\<close>

section \<open>Panels\<close>

definition KNOWN_UNITS :: "string list" where
  "KNOWN_UNITS = [''none'', ''percent'', ''percentunit'', ''s'', ''ms'', ''bytes'', ''bps'', ''Bps'', ''pps'',
     ''cps'', ''reqps'', ''dBm'', ''celsius'', ''rotmhz'', ''dateTimeAsIso'']"

definition BANNED_UNITS :: "string list" where
  "BANNED_UNITS = [''short'', []]"

definition PANEL_BUDGET :: "nat \<times> nat" where
  "PANEL_BUDGET = (60, 90)"

definition is_str_in :: "json option \<Rightarrow> string list \<Rightarrow> bool" where
  "is_str_in v ss = (\<exists>s \<in> set ss. v = Some (JStr s))"

definition some_truthy :: "json option \<Rightarrow> bool" where
  "some_truthy v = (case v of None \<Rightarrow> False | Some w \<Rightarrow> py_truthy w)"

text \<open>The messages on units stop before the unit's \<open>repr\<close>.\<close>

definition mc_check_unit :: "string \<Rightarrow> string \<Rightarrow> json \<Rightarrow> json \<Rightarrow> unit res" where
  "mc_check_unit key viz spec defaults =
     (if viz \<notin> {''text'', ''logs'', ''nodeGraph''} then
        bindR (jlookup defaults ''unit'') (\<lambda>unit.
        let title = bindR (jget spec ''title'') jstr in
        if is_str_in unit BANNED_UNITS
        then bindR title (\<lambda>t. Inl (AssertionError (''generic/absent unit: '' @ key @ '' '' @ t)))
        else if \<not> is_str_in unit KNOWN_UNITS
        then bindR title (\<lambda>t. Inl (AssertionError (''unknown unit id: '' @ key @ '' '' @ t)))
        else Inr ())
      else Inr ())"

definition mc_check_prop :: "string \<Rightarrow> json \<Rightarrow> unit res" where
  "mc_check_prop key p =
     bindR (jget p ''id'') (\<lambda>pid.
     if pid = JStr ''unit'' then
       bindR (jget p ''value'') (\<lambda>v. ensure (is_str_in (Some v) KNOWN_UNITS)
         (AssertionError (''unknown override unit id: '' @ key)))
     else Inr ())"

definition overrides_of :: "json \<Rightarrow> json list res" where
  "overrides_of spec = bindR (jpath spec [''vizConfig'', ''spec'', ''fieldConfig'', ''overrides'']) jlist"

definition each_prop :: "(json \<Rightarrow> unit res) \<Rightarrow> json \<Rightarrow> unit res" where
  "each_prop check override = bindR (bindR (jget override ''properties'') jlist) (allR check)"

text \<open>\<open>_iter_threshold_sets\<close>: the items of every dictionary with a mode and a list of steps.\<close>

definition own_thresholds :: "item list \<Rightarrow> item list list" where
  "own_thresholds kvs =
     (case map_of kvs ''steps'' of
        Some (JList xs) \<Rightarrow> if map_of kvs ''mode'' = None then [] else [kvs]
      | _ \<Rightarrow> [])"

fun iter_threshold_sets :: "json \<Rightarrow> item list list" where
  "iter_threshold_sets (JDict kvs) = own_thresholds kvs @ concat (map (\<lambda>p. iter_threshold_sets (snd p)) kvs)"
| "iter_threshold_sets (JList xs) = concat (map iter_threshold_sets xs)"
| "iter_threshold_sets _ = []"

definition mc_check_base :: "string \<Rightarrow> item list \<Rightarrow> unit res" where
  "mc_check_base key holder =
     (case map_of holder ''steps'' of
        Some (JList (step # _)) \<Rightarrow>
          bindR (jlookup step ''value'') (\<lambda>v. ensure (v = None \<or> v = Some JNull)
            (AssertionError (''non-null base threshold step in '' @ key)))
      | _ \<Rightarrow> Inr ())"

definition mc_check_timeline :: "string \<Rightarrow> string \<Rightarrow> json \<Rightarrow> json \<Rightarrow> unit res" where
  "mc_check_timeline key viz spec defaults =
     (if viz = ''state-timeline'' then
        bindR (jlookup defaults ''mappings'') (\<lambda>m.
        bindR (ensure (some_truthy m)
          (AssertionError (''state timeline without default mappings: '' @ key))) (\<lambda>_.
        bindR (overrides_of spec) (allR (\<lambda>override.
          bindR (jpath override [''matcher'', ''id'']) (\<lambda>kind.
          if kind = JStr ''byType'' then
            each_prop (\<lambda>p. bindR (jget p ''id'') (\<lambda>pid. ensure (pid \<noteq> JStr ''mappings'')
              (AssertionError (''byType mappings override on state timeline: '' @ key)))) override
          else Inr ())))))
      else Inr ())"

definition mc_check_options :: "string \<Rightarrow> string \<Rightarrow> json \<Rightarrow> unit res" where
  "mc_check_options key viz spec =
     bindR (jpath spec [''data'', ''spec'', ''queryOptions'']) (\<lambda>query_opts.
     if viz \<noteq> ''text'' then
       bindR (jlookup query_opts ''maxDataPoints'') (\<lambda>n.
       bindR (ensure (some_truthy n) (AssertionError (''no maxDataPoints: '' @ key))) (\<lambda>_.
       bindR (jlookup query_opts ''interval'') (\<lambda>i.
       ensure (i = Some (JStr MIN_INTERVAL))
         (AssertionError (''no/incorrect min interval: '' @ key)))))
     else Inr ())"

definition mc_check_panel :: "int list \<Rightarrow> item \<Rightarrow> int list res" where
  "mc_check_panel panel_ids it =
     (let (key, element) = it in
      bindR (jget element ''spec'') (\<lambda>spec.
      bindR (bindR (jget spec ''id'') jint) (\<lambda>pid.
      bindR (ensure (key = ''panel-'' @ show_int pid) (AssertionError key)) (\<lambda>_.
      bindR (bindR (jpath spec [''vizConfig'', ''group'']) jstr) (\<lambda>viz.
      bindR (jpath spec [''vizConfig'', ''spec'', ''fieldConfig'', ''defaults'']) (\<lambda>defaults.
      bindR
        (if viz \<noteq> ''text'' then
           bindR (bindR (jget spec ''description'') jstr) (\<lambda>desc.
           if py_strip desc = [] then bindR (bindR (jget spec ''title'') jstr) (\<lambda>t.
             Inl (AssertionError (''missing description: '' @ key @ '' '' @ t)))
           else Inr ())
         else Inr ()) (\<lambda>_.
      bindR (mc_check_unit key viz spec defaults) (\<lambda>_.
      bindR (bindR (overrides_of spec) (allR (each_prop (mc_check_prop key)))) (\<lambda>_.
      bindR (allR (mc_check_base key) (iter_threshold_sets spec)) (\<lambda>_.
      bindR (mc_check_timeline key viz spec defaults) (\<lambda>_.
      bindR (mc_check_options key viz spec) (\<lambda>_.
      bindR (jpath spec [''vizConfig'', ''spec'', ''options'']) (\<lambda>options.
      bindR (ensure (''noValue'' \<notin> set (jkeys options))
        (AssertionError (''noValue in panel options: '' @ key))) (\<lambda>_.
      bindR (ensure (\<not> py_in ''pluginVersion'' (json_text False element)) (AssertionError [])) (\<lambda>_.
      Inr (panel_ids @ [pid]))))))))))))))))"

section \<open>Queries\<close>

text \<open>
  The texts behind the matches of \<open>re.finditer(re.escape(w), s)\<close>, left to right and without overlap.
\<close>

function after_all :: "string \<Rightarrow> string \<Rightarrow> string list" where
  "after_all w [] = []"
| "after_all w (c # s) =
     (if starts_with w (c # s)
      then (let rest = drop (length w - 1) s in rest # after_all w rest)
      else after_all w s)"
  by pat_completeness auto

termination
  by (relation "measure (\<lambda>(w, s). length s)") auto

declare after_all.simps(2) [simp del]

text \<open>\<open>s[:n]\<close> counts characters; a byte that continues a character is none of its own.\<close>

definition continues :: "char \<Rightarrow> bool" where
  "continues c = (of_char c \<ge> (128 :: nat) \<and> of_char c < (192 :: nat))"

fun take_chars :: "nat \<Rightarrow> string \<Rightarrow> string" where
  "take_chars n [] = []"
| "take_chars n (c # s) =
     (if continues c then c # take_chars n s
      else case n of 0 \<Rightarrow> [] | Suc m \<Rightarrow> c # take_chars m s)"

text \<open>\<open>re.search(r"\[([^\]]+)\]", s)\<close>, its group.\<close>

definition no_close :: "char \<Rightarrow> bool" where
  "no_close c = (c \<noteq> CHR '']'')"

fun range_window :: "string \<Rightarrow> string option" where
  "range_window [] = None"
| "range_window (c # s) =
     (if c = CHR ''['' \<and> takeWhile no_close s \<noteq> [] \<and> dropWhile no_close s \<noteq> []
      then Some (takeWhile no_close s) else range_window s)"

definition RANGE_FUNCTIONS :: "string list" where
  "RANGE_FUNCTIONS = [''rate('', ''increase('', ''irate('']"

definition RANGE_WINDOWS :: "string list" where
  "RANGE_WINDOWS = [''$__rate_interval'', ''$__auto'', ''$__range'', ''1h'', ''24h'']"

definition check_window :: "string \<Rightarrow> string \<Rightarrow> unit res" where
  "check_window expr rest =
     (case range_window (take_chars 400 rest) of
        None \<Rightarrow> Inl (AssertionError (''range function without window: '' @ expr))
      | Some w \<Rightarrow> ensure (w \<in> set RANGE_WINDOWS)
          (AssertionError (''bad range window '' @ py_repr w @ '' in: '' @ expr)))"

definition check_ranges :: "json \<Rightarrow> string \<Rightarrow> unit res" where
  "check_ranges grp expr =
     (if grp = JStr ''prometheus''
      then allR (\<lambda>func. allR (check_window expr) (after_all func expr)) RANGE_FUNCTIONS
      else Inr ())"

definition MULTI_VARS :: "string list" where
  "MULTI_VARS = [''router'', ''device'', ''netdev'']"

definition multi_matched :: "string \<Rightarrow> string \<Rightarrow> bool" where
  "multi_matched v expr =
     (py_in (''=~'' @ [DQ] @ ''$'' @ v @ [DQ]) expr \<or> py_in (''=~'' @ [DQ] @ ''${'' @ v @ ''}'' @ [DQ]) expr)"

definition check_multi :: "string \<Rightarrow> unit res" where
  "check_multi expr = allR (\<lambda>v.
     if py_in (''$'' @ v) expr
     then ensure (multi_matched v expr) (AssertionError
       (''multi-value variable $'' @ v @ '' used without =~ in: '' @ expr))
     else Inr ()) MULTI_VARS"

text \<open>\<open>_iter_exprs\<close>: group and text of every query that has an expression.\<close>

definition query_group :: "json \<Rightarrow> (json \<times> string) list res" where
  "query_group query =
     bindR (query_text ''expr'' query) (\<lambda>t.
     case t of
       None \<Rightarrow> Inr []
     | Some expr \<Rightarrow> bindR (jpath query [''spec'', ''query'', ''group'']) (\<lambda>grp. Inr [(grp, expr)]))"

definition iter_exprs :: "json \<Rightarrow> (json \<times> string) list res" where
  "iter_exprs elements =
     bindR (jitems elements) (\<lambda>items.
     bindR (mapR (\<lambda>it. bindR (panel_queries (snd it)) (mapR query_group)) items) (\<lambda>groups.
       Inr (concat (concat groups))))"

section \<open>The grid\<close>

definition mc_check_item :: "string \<Rightarrow> rect list \<Rightarrow> json \<Rightarrow> rect list res" where
  "mc_check_item tab_title rects it =
     bindR (read_item it) (\<lambda>(x, y, w, h, name).
     bindR (ensure (0 \<le> x \<and> x \<le> 23)
       (AssertionError (tab_title @ '' '' @ name @ '' invalid x='' @ show_int x))) (\<lambda>_.
     bindR (ensure (y \<ge> 0)
       (AssertionError (tab_title @ '' '' @ name @ '' invalid y='' @ show_int y))) (\<lambda>_.
     bindR (ensure (1 \<le> w \<and> w \<le> 24 \<and> h > 0)
       (AssertionError (tab_title @ '' '' @ name @ '' invalid size '' @ show_int w @ ''x'' @ show_int h))) (\<lambda>_.
     bindR (ensure (x + w \<le> 24)
       (AssertionError (tab_title @ '' '' @ name @ '' overflows the 24-column grid''))) (\<lambda>_.
     let rect = (x, y, x + w, y + h, name) in
     (case find (overlaps rect) rects of
        Some other \<Rightarrow> Inl (AssertionError
          (tab_title @ '' overlap: '' @ name @ '' with '' @ rect_name other))
      | None \<Rightarrow> Inr (rects @ [rect])))))))"

definition mc_check_grid :: "json \<Rightarrow> unit res" where
  "mc_check_grid layout =
     bindR (grid_items_by_tab layout) (\<lambda>by_tab.
       allR (\<lambda>(title, items). bindR (foldR (mc_check_item title) [] items) (\<lambda>_. Inr ())) by_tab)"

section \<open>The validator\<close>

definition MC_GLOBALS :: "string list" where
  "MC_GLOBALS = [''__rate_interval'', ''__range'', ''__range_s'', ''__from'', ''__to'', ''__all'', ''__value'',
     ''__data'', ''__interval'', ''__auto'', ''__url_time_range'']"

definition mc_validate_dashboard :: "json \<Rightarrow> unit res" where
  "mc_validate_dashboard dash =
     bindR (check_header dash MC_DASHBOARD_NAME) (\<lambda>_.
     bindR (check_no_uid dash) (\<lambda>_.
     bindR (jget dash ''spec'') (\<lambda>spec.
     bindR (check_field spec [''title''] MC_DASHBOARD_TITLE) (\<lambda>_.
     bindR (check_field spec [''layout'', ''kind''] ''TabsLayout'') (\<lambda>_.
     bindR (tab_titles spec) (\<lambda>actual_tabs.
     bindR (ensure (actual_tabs = TAB_TITLES) (AssertionError (py_repr_list actual_tabs))) (\<lambda>_.
     bindR (jget spec ''elements'') (\<lambda>elements.
     bindR (jget spec ''layout'') (\<lambda>layout.
     bindR (check_refs layout elements) (\<lambda>_.
     let (low, high) = PANEL_BUDGET; n = length (jkeys elements) in
     bindR (ensure (low \<le> n \<and> n \<le> high) (AssertionError (''panel budget '' @ show_nat low @ ''-'' @
       show_nat high @ '' violated: '' @ show_nat n))) (\<lambda>_.
     bindR (jitems elements) (\<lambda>items.
     bindR (foldR mc_check_panel [] items) (\<lambda>panel_ids.
     bindR (ensure (distinct panel_ids) (AssertionError ''duplicate panel ids'')) (\<lambda>_.
     bindR (iter_exprs elements) (\<lambda>exprs.
     bindR (allR (\<lambda>(grp, expr). bindR (check_ranges grp expr) (\<lambda>_. check_multi expr)) exprs) (\<lambda>_.
     bindR (mc_check_grid layout) (\<lambda>_.
     bindR (check_vars MC_GLOBALS [''DS_PROMETHEUS'', ''DS_LOKI''] spec) (\<lambda>_.
     let rendered = json_text True dash in
     bindR (lacks ''schemaVersion'' rendered) (\<lambda>_.
     bindR (lacks ''pluginVersion'' rendered) (\<lambda>_.
     bindR (has PROM_DS rendered) (\<lambda>_. has LOKI_DS rendered)))))))))))))))))))))"

section \<open>The generator\<close>

text \<open>A panel is made before it is added.\<close>

definition mc_add :: "item list \<times> json list \<Rightarrow> mc_placement \<Rightarrow> (item list \<times> json list) res" where
  "mc_add acc p = bindR (fst p) (\<lambda>it. add_panel acc (it, snd p))"

fun mc_build_tab ::
  "item list \<times> json list \<Rightarrow> string \<times> mc_placement list \<Rightarrow> (item list \<times> json list) res" where
  "mc_build_tab (elements, tabs) (title, ps) =
     bindR (foldR mc_add (elements, []) ps) (\<lambda>(elements', items).
       Inr (elements', tabs @ [tab_json title items]))"

text \<open>Editing the value behind a path of keys and indices.\<close>

datatype jstep = Key string | Idx nat

fun jedit :: "jstep list \<Rightarrow> (json \<Rightarrow> json res) \<Rightarrow> json \<Rightarrow> json res" where
  "jedit [] f v = f v"
| "jedit (Key k # path) f (JDict kvs) =
     (case map_of kvs k of
        None \<Rightarrow> Inl (KeyError k)
      | Some w \<Rightarrow> bindR (jedit path f w) (\<lambda>w'. Inr (JDict (AList.update k w' kvs))))"
| "jedit (Idx n # path) f (JList xs) =
     (if n < length xs then bindR (jedit path f (xs ! n)) (\<lambda>w'. Inr (JList (xs[n := w'])))
      else Inl (IndexError ''list index out of range''))"
| "jedit (Key k # path) f v = Inl (TypeError k)"
| "jedit (Idx n # path) f v = Inl (TypeError ''index'')"

text \<open>\<open>d.pop(key, None)\<close>\<close>

fun jpop :: "string \<Rightarrow> json \<Rightarrow> json res" where
  "jpop k (JDict kvs) = Inr (JDict (AList.delete k kvs))"
| "jpop k _ = Inl (TypeError ''pop'')"

text \<open>
  Panel 908 selects by \<open>__name__\<close> and keeps that column. The dictionary belongs to that panel alone:
  \<open>organize\<close> makes a new one for every call.
\<close>

definition keep_name :: "json \<Rightarrow> json res" where
  "keep_name elements = jedit [Key ''panel-908'', Key ''spec'', Key ''data'', Key ''spec'', Key ''transformations'',
     Idx 1, Key ''spec'', Key ''options'', Key ''excludeByName''] (jpop ''__name__'') elements"

definition mc_build_dashboard :: "json res" where
  "mc_build_dashboard =
     bindR (foldR mc_build_tab ([], []) mc_tabs) (\<lambda>(built, tabs).
     bindR (bindR (keep_name (JDict built)) jitems) (\<lambda>elements.
     let dashboard = mc_dashboard (mc_spec elements tabs) in
     bindR (mc_validate_dashboard dashboard) (\<lambda>_. Inr dashboard)))"

end
