(* ===== verification/Mission_Scan.thy ===== *)
theory Mission_Scan
  imports Mission_Validate
begin

text \<open>
  The assertions of the mission control validator on query texts. First what the scans decide: the
  texts behind a word are those behind all its occurrences, and the range is the first bracket.
  Then two automata that read a text piece by piece and show that it passes.
\<close>

section \<open>The scans\<close>

text \<open>A word none of whose proper suffixes begins it cannot overlap itself.\<close>

definition unbordered :: "string \<Rightarrow> bool" where
  "unbordered w = (w \<noteq> [] \<and> (\<forall>n \<in> {1..<length w}. \<not> prefix (drop n w) w))"

lemma after_all_occurs: "r \<in> set (after_all w s) \<Longrightarrow> \<exists>a. s = a @ w @ r"
proof (induction w s rule: after_all.induct)
  case (2 w c s)
  show ?case
  proof (cases "starts_with w (c # s)")
    case True
    then obtain t where t: "c # s = w @ t" by (auto simp: starts_with_prefix prefix_def)
    show ?thesis
    proof (cases w)
      case Nil
      then show ?thesis using 2 True by (auto simp: after_all.simps(2) intro: exI [of _ "c # _"])
    next
      case (Cons d w')
      then have "t = drop (length w - 1) s" using t by auto
      then have "r = t \<or> r \<in> set (after_all w t)" using 2(3) True by (auto simp: after_all.simps(2) Let_def)
      then show ?thesis
      proof
        assume "r = t"
        then show ?thesis using t by (intro exI [of _ "[]"]) simp
      next
        assume r: "r \<in> set (after_all w t)"
        then obtain a where "t = a @ w @ r" using "2.IH"(1) [OF True] \<open>t = _\<close> by auto
        then show ?thesis using t by (intro exI [of _ "w @ a"]) simp
      qed
    qed
  next
    case False
    then have "r \<in> set (after_all w s)" using 2(3) by (simp add: after_all.simps(2))
    then obtain a where "s = a @ w @ r" using "2.IH"(2) [OF False] by blast
    then show ?thesis by (intro exI [of _ "c # a"]) simp
  qed
qed simp

lemma unbordered_split:
  assumes "unbordered w" "w @ t = a @ w @ r"
  shows "a = [] \<or> (\<exists>a'. a = w @ a')"
proof (rule ccontr)
  assume no: "\<not> ?thesis"
  then have "a \<noteq> []" "\<not> prefix w a" by (auto simp: prefix_def)
  moreover have "prefix a w \<or> prefix w a" using assms(2) by (metis prefixI prefix_same_cases)
  ultimately obtain u where u: "w = a @ u" "u \<noteq> []" by (auto simp: prefix_def)
  then have "u @ t = w @ r" using assms(2) by simp
  then have "prefix u w" using u(1) by (metis append.assoc length_append le_add2 prefixI prefix_length_prefix)
  moreover have "u = drop (length a) w" "length a \<in> {1..<length w}" using u \<open>a \<noteq> []\<close>
    by (auto simp: Suc_le_eq)
  ultimately show False using assms(1) by (auto simp: unbordered_def)
qed

lemma after_all_complete: "s = a @ w @ r \<Longrightarrow> unbordered w \<Longrightarrow> r \<in> set (after_all w s)"
proof (induction w s arbitrary: a rule: after_all.induct)
  case (1 w)
  then show ?case by (simp add: unbordered_def)
next
  case (2 w c s)
  have w: "w \<noteq> []" using 2(4) by (simp add: unbordered_def)
  show ?case
  proof (cases "starts_with w (c # s)")
    case True
    then obtain t where t: "c # s = w @ t" by (auto simp: starts_with_prefix prefix_def)
    then have d: "t = drop (length w - 1) s" using w by (cases w) auto
    have "a = [] \<or> (\<exists>a'. a = w @ a')" using unbordered_split [OF 2(4)] 2(3) t by metis
    then have "r = t \<or> (\<exists>a'. t = a' @ w @ r)" using 2(3) t by auto
    then have "r = t \<or> r \<in> set (after_all w t)" using "2.IH"(1) [OF True d] 2(4) by (auto simp: d)
    then show ?thesis using True d by (auto simp: after_all.simps(2) Let_def)
  next
    case False
    then obtain a' where "a = c # a'" using 2(3) by (cases a) (auto simp: starts_with_prefix)
    then have "s = a' @ w @ r" using 2(3) by simp
    then have "r \<in> set (after_all w s)" using "2.IH"(2) [OF False _ 2(4)] by blast
    then show ?thesis using False by (simp add: after_all.simps(2))
  qed
qed

lemma after_all_iff: "unbordered w \<Longrightarrow> r \<in> set (after_all w s) \<longleftrightarrow> (\<exists>a. s = a @ w @ r)"
  using after_all_occurs after_all_complete by blast

lemma range_functions_unbordered: "w \<in> set RANGE_FUNCTIONS \<Longrightarrow> unbordered w"
  by (auto simp: RANGE_FUNCTIONS_def unbordered_def atLeastLessThan_nat_numeral eval_nat_numeral atLeastLessThanSuc)

text \<open>The group is the text of a bracket, and of the first bracket when nothing before opens one.\<close>

lemma range_window_Some:
  "range_window s = Some w \<Longrightarrow> \<exists>u v. s = u @ ''['' @ w @ '']'' @ v \<and> w \<noteq> [] \<and> CHR '']'' \<notin> set w"
proof (induction s)
  case (Cons c s)
  show ?case
  proof (cases "c = CHR ''['' \<and> takeWhile no_close s \<noteq> [] \<and> dropWhile no_close s \<noteq> []")
    case True
    then have w: "w = takeWhile no_close s" using Cons.prems by simp
    have "hd (dropWhile no_close s) = CHR '']''" using hd_dropWhile [of no_close s] True by (simp add: no_close_def)
    then have "s = w @ '']'' @ tl (dropWhile no_close s)"
      using True w by (metis append_Cons append_Nil list.collapse takeWhile_dropWhile_id)
    moreover have "CHR '']'' \<notin> set w" using w set_takeWhileD [of _ no_close s] by (auto simp: no_close_def)
    ultimately show ?thesis using True w by (intro exI [of _ "[]"] exI [of _ "tl (dropWhile no_close s)"]) auto
  next
    case False
    then have "range_window s = Some w" using Cons.prems by (auto split: if_splits)
    then obtain u v where "s = u @ ''['' @ w @ '']'' @ v" "w \<noteq> []" "CHR '']'' \<notin> set w" using Cons.IH by blast
    then show ?thesis by (intro exI [of _ "c # u"] exI [of _ v]) simp
  qed
qed simp

lemma range_window_at:
  assumes "CHR ''['' \<notin> set u" "w \<noteq> []" "CHR '']'' \<notin> set w"
  shows "range_window (u @ ''['' @ w @ '']'' @ v) = Some w"
proof -
  have "list_all no_close w" using assms(3) by (auto simp: list_all_iff no_close_def)
  then have "takeWhile no_close (w @ '']'' @ v) = w" "dropWhile no_close (w @ '']'' @ v) = '']'' @ v"
    by (auto simp: list_all_iff no_close_def takeWhile_append dropWhile_append)
  then have "range_window (''['' @ w @ '']'' @ v) = Some w" using assms(2) by simp
  then show ?thesis using assms(1) by (induction u) auto
qed

lemma take_chars_prefix: "\<exists>t. take_chars n s = take n s @ t"
proof (induction n s rule: take_chars.induct)
  case (2 n c s)
  show ?case
  proof (cases "continues c")
    case True
    then obtain t where t: "take_chars n s = take n s @ t" using 2 by blast
    show ?thesis
    proof (cases n)
      case (Suc m)
      have "take n s = take m s @ take 1 (drop m s)" by (simp add: Suc take_add [symmetric])
      then show ?thesis using True t by (auto simp: Suc)
    qed simp
  next
    case False
    then show ?thesis using 2 by (cases n) auto
  qed
qed simp

section \<open>Ranges, piece by piece\<close>

text \<open>
  The letters \<open>te\<close> or \<open>se\<close> read last, which end a range function before its parenthesis; how many
  characters were read since a range function whose bracket is still to come; the text of the
  bracket that is open. No state is left once a bracket holds no known range or comes too late.
\<close>

type_synonym rstate = "nat \<times> nat option \<times> string option"

definition next_e :: "nat \<Rightarrow> char \<Rightarrow> nat" where
  "next_e d c = (if c = CHR ''t'' \<or> c = CHR ''s'' then 1 else if d = 1 \<and> c = CHR ''e'' then 2 else 0)"

definition later :: "nat option \<Rightarrow> nat option" where
  "later p = map_option Suc p"

fun rstep :: "char \<Rightarrow> rstate option \<Rightarrow> rstate option" where
  "rstep c None = None"
| "rstep c (Some (d, p, Some w)) =
     (if c = CHR '']'' then
        (if w \<in> set RANGE_WINDOWS \<and> (\<forall>n. p = Some n \<longrightarrow> n < 400) then Some (0, None, None) else None)
      else Some (0, later p, Some (w @ [c])))"
| "rstep c (Some (d, p, None)) =
     (if c = CHR ''['' then Some (0, later p, Some [])
      else if d = 2 \<and> c = CHR ''('' then Some (0, (if p = None then Some 0 else later p), None)
      else Some (next_e d c, later p, None))"

definition rrun :: "string \<Rightarrow> rstate option \<Rightarrow> rstate option" where
  "rrun s st = fold rstep s st"

lemma rrun_basic: "rrun [] st = st" "rrun (c # s) st = rrun s (rstep c st)" "rrun (s @ t) st = rrun t (rrun s st)"
  "rrun s None = None"
proof -
  show "rrun s None = None" by (induction s) (auto simp: rrun_def)
qed (simp_all add: rrun_def)

definition rdone :: "rstate option \<Rightarrow> bool" where
  "rdone st = (\<exists>d. st = Some (d, None, None))"

lemma rdone_None: "\<not> rdone None"
  by (simp add: rdone_def)

lemma rrun_inside:
  "rdone (rrun s (Some (d, p, Some w0))) \<Longrightarrow>
   \<exists>w v. s = w @ '']'' @ v \<and> CHR '']'' \<notin> set w \<and> w0 @ w \<in> set RANGE_WINDOWS \<and>
     (\<forall>n. p = Some n \<longrightarrow> n + length w < 400)"
proof (induction s arbitrary: d p w0)
  case Nil
  then show ?case by (simp add: rrun_basic rdone_def)
next
  case (Cons c s)
  show ?case
  proof (cases "c = CHR '']''")
    case True
    then show ?thesis using Cons.prems
      by (intro exI [of _ "[]"] exI [of _ s]) (auto simp: rrun_basic rdone_None split: if_splits)
  next
    case False
    then obtain w v where "s = w @ '']'' @ v" "CHR '']'' \<notin> set w" "(w0 @ [c]) @ w \<in> set RANGE_WINDOWS"
      "\<forall>n. later p = Some n \<longrightarrow> n + length w < 400"
      using Cons.prems Cons.IH [of 0 "later p" "w0 @ [c]"] by (auto simp: rrun_basic)
    then show ?thesis using False by (intro exI [of _ "c # w"] exI [of _ v]) (auto simp: later_def)
  qed
qed

lemma rrun_pending:
  "rdone (rrun s (Some (d, Some n, None))) \<Longrightarrow>
   \<exists>u w v. s = u @ ''['' @ w @ '']'' @ v \<and> CHR ''['' \<notin> set u \<and> CHR '']'' \<notin> set w \<and>
     w \<in> set RANGE_WINDOWS \<and> n + length u + 1 + length w < 400"
proof (induction s arbitrary: d n)
  case Nil
  then show ?case by (simp add: rrun_basic rdone_def)
next
  case (Cons c s)
  show ?case
  proof (cases "c = CHR ''[''")
    case True
    then obtain w v where "s = w @ '']'' @ v" "CHR '']'' \<notin> set w" "w \<in> set RANGE_WINDOWS" "Suc n + length w < 400"
      using Cons.prems rrun_inside [of s 0 "Some (Suc n)" "[]"] by (auto simp: rrun_basic later_def)
    then show ?thesis using True by (intro exI [of _ "[]"] exI [of _ w] exI [of _ v]) simp
  next
    case False
    then obtain d' where "rdone (rrun s (Some (d', Some (Suc n), None)))"
      using Cons.prems by (auto simp: rrun_basic later_def split: if_splits)
    then obtain u w v where "s = u @ ''['' @ w @ '']'' @ v" "CHR ''['' \<notin> set u" "CHR '']'' \<notin> set w"
      "w \<in> set RANGE_WINDOWS" "Suc n + length u + 1 + length w < 400"
      using Cons.IH by blast
    then show ?thesis using False by (intro exI [of _ "c # u"] exI [of _ w] exI [of _ v]) simp
  qed
qed

lemma known_windows: "w \<in> set RANGE_WINDOWS \<Longrightarrow> w \<noteq> [] \<and> CHR ''('' \<notin> set w"
  by (auto simp: RANGE_WINDOWS_def)

lemma rrun_trigger:
  assumes "f \<in> {''rate('', ''increase(''}"
  shows "\<exists>n. rrun f (Some (d, p, None)) = Some (0, Some n, None)"
  using assms by (auto simp: rrun_basic next_e_def later_def)

lemma rrun_window:
  assumes "rdone (rrun (a @ f @ b) (Some (0, None, None)))" "f \<in> {''rate('', ''increase(''}"
  shows "\<exists>w \<in> set RANGE_WINDOWS. range_window (take_chars 400 b) = Some w"
proof -
  have run: "rdone (rrun (f @ b) (rrun a (Some (0, None, None))))" using assms(1) by (simp only: rrun_basic)
  then obtain d p w0 where st: "rrun a (Some (0, None, None)) = Some (d, p, w0)"
    by (cases "rrun a (Some (0, None, None))") (auto simp: rrun_basic(4) rdone_None)
  have "w0 = None"
  proof (rule ccontr)
    assume "w0 \<noteq> None"
    then obtain w1 where "w0 = Some w1" by blast
    then have "rdone (rrun (f @ b) (Some (d, p, Some w1)))" using run st by simp
    then obtain w v where "f @ b = w @ '']'' @ v" "w1 @ w \<in> set RANGE_WINDOWS"
      using rrun_inside by blast
    then have "f @ b = w @ '']'' @ v" "CHR ''('' \<notin> set w" using known_windows [of "w1 @ w"] by auto
    then show False using assms(2) by (auto simp: append_eq_append_conv2 Cons_eq_append_conv)
  qed
  then obtain n where "rdone (rrun b (Some (0, Some n, None)))"
    using run st rrun_trigger [OF assms(2), of d p] by (auto simp: rrun_basic(3))
  then obtain u w v where b: "b = u @ ''['' @ w @ '']'' @ v" "CHR ''['' \<notin> set u" "CHR '']'' \<notin> set w"
    "w \<in> set RANGE_WINDOWS" "n + length u + 1 + length w < 400"
    using rrun_pending by blast
  obtain t where "take_chars 400 b = take 400 b @ t" using take_chars_prefix by blast
  moreover have "\<exists>v'. take 400 b = u @ ''['' @ w @ '']'' @ v'"
    using b(5) by (auto simp: b(1) take_Cons')
  ultimately obtain v' where "take_chars 400 b = u @ ''['' @ w @ '']'' @ v'" by auto
  then show ?thesis using b(2-4) range_window_at known_windows by metis
qed

definition ranges_fine :: "string \<Rightarrow> bool" where
  "ranges_fine e = rdone (rrun e (Some (0, None, None)))"

lemma ranges_fine: "ranges_fine e \<Longrightarrow> check_ranges grp e = Inr ()"
proof -
  assume e: "ranges_fine e"
  have "check_window e r = Inr ()" if w: "w \<in> set RANGE_FUNCTIONS" "r \<in> set (after_all w e)" for w r
  proof -
    obtain a where a: "e = a @ w @ r" using after_all_occurs [OF w(2)] by blast
    then obtain a' f where "e = a' @ f @ r" "f \<in> {''rate('', ''increase(''}"
      using w(1) by (auto simp: RANGE_FUNCTIONS_def) (metis append.assoc append_Cons append_Nil)
    then obtain v where "v \<in> set RANGE_WINDOWS" "range_window (take_chars 400 r) = Some v"
      using e rrun_window unfolding ranges_fine_def by blast
    then show ?thesis by (simp add: check_window_def)
  qed
  then show "check_ranges grp e = Inr ()" by (simp add: check_ranges_def allR_Inr_iff)
qed

section \<open>Variables, piece by piece\<close>

text \<open>
  Every \<open>$\<close> of a text is either followed by an underscore or a digit, or stands behind \<open>=~"\<close> with the whole
  name of a variable up to the next quote. \<open>Seen\<close> counts the characters of \<open>=~"\<close> read last.
\<close>

datatype mstate = Seen nat | Dollar | Name string

definition next_seen :: "nat \<Rightarrow> char \<Rightarrow> nat" where
  "next_seen k c = (if c = CHR ''='' then 1 else if k = 1 \<and> c = CHR ''~'' then 2
     else if k = 2 \<and> c = DQ then 3 else 0)"

definition MATCHED_NAMES :: "string list" where
  "MATCHED_NAMES = ''wan_netdev'' # MULTI_VARS"

fun mstep :: "char \<Rightarrow> mstate option \<Rightarrow> mstate option" where
  "mstep c None = None"
| "mstep c (Some (Seen k)) =
     (if c = CHR ''$'' then Some (if k = 3 then Name [] else Dollar) else Some (Seen (next_seen k c)))"
| "mstep c (Some Dollar) = (if c \<in> {CHR ''_'', CHR ''1''} then Some (Seen 0) else None)"
| "mstep c (Some (Name w)) =
     (if c = DQ then (if w \<in> set MATCHED_NAMES then Some (Seen 0) else None)
      else if c = CHR ''$'' then None else Some (Name (w @ [c])))"

definition mrun :: "string \<Rightarrow> mstate option \<Rightarrow> mstate option" where
  "mrun s st = fold mstep s st"

lemma mrun_basic: "mrun [] st = st" "mrun (c # s) st = mrun s (mstep c st)" "mrun (s @ t) st = mrun t (mrun s st)"
  "mrun s None = None"
proof -
  show "mrun s None = None" by (induction s) (auto simp: mrun_def)
qed (simp_all add: mrun_def)

definition mdone :: "mstate option \<Rightarrow> bool" where
  "mdone st = (\<exists>k. st = Some (Seen k))"

lemma mrun_name:
  "mdone (mrun s (Some (Name w0))) \<Longrightarrow>
   \<exists>w v. s = w @ [DQ] @ v \<and> DQ \<notin> set w \<and> w0 @ w \<in> set MATCHED_NAMES"
proof (induction s arbitrary: w0)
  case Nil
  then show ?case by (simp add: mrun_basic mdone_def)
next
  case (Cons c s)
  show ?case
  proof (cases "c = DQ")
    case True
    then show ?thesis using Cons.prems
      by (intro exI [of _ "[]"] exI [of _ s]) (auto simp: mrun_basic mdone_def split: if_splits)
  next
    case False
    then have "mdone (mrun s (Some (Name (w0 @ [c]))))"
      using Cons.prems by (auto simp: mrun_basic mdone_def split: if_splits)
    then obtain w v where "s = w @ [DQ] @ v" "DQ \<notin> set w" "(w0 @ [c]) @ w \<in> set MATCHED_NAMES"
      using Cons.IH by blast
    then show ?thesis using False by (intro exI [of _ "c # w"] exI [of _ v]) simp
  qed
qed

lemma mrun_seen: "mrun s (Some (Seen 0)) = Some (Seen k) \<Longrightarrow> \<exists>a. s = a @ take k (''=~'' @ [DQ])"
proof (induction s arbitrary: k rule: rev_induct)
  case (snoc c s)
  show ?case
  proof (cases "mrun s (Some (Seen 0))")
    case None
    then show ?thesis using snoc.prems by (simp add: mrun_basic)
  next
    case (Some st)
    show ?thesis
    proof (cases st)
      case (Seen j)
      obtain a where "s = a @ take j (''=~'' @ [DQ])" using snoc.IH Some Seen by blast
      then show ?thesis using snoc.prems Some Seen
        by (auto simp: mrun_basic next_seen_def numeral_2_eq_2 numeral_3_eq_3 split: if_splits)
    qed (use snoc.prems Some in \<open>auto simp: mrun_basic split: if_splits\<close>)
  qed
qed (simp add: mrun_basic)

lemma matched_names: "v \<in> set MULTI_VARS \<Longrightarrow> v @ w \<in> set MATCHED_NAMES \<Longrightarrow> w = []"
  by (auto simp: MATCHED_NAMES_def MULTI_VARS_def)

lemma multi_vars: "v \<in> set MULTI_VARS \<Longrightarrow> v \<noteq> [] \<and> hd v \<notin> {CHR ''_'', CHR ''1''} \<and> DQ \<notin> set v"
  by (auto simp: MULTI_VARS_def)

lemma mrun_matched:
  assumes "mdone (mrun (a @ (''$'' @ v) @ b) (Some (Seen 0)))" "v \<in> set MULTI_VARS"
  shows "\<exists>a' b'. a @ (''$'' @ v) @ b = a' @ (''=~'' @ [DQ] @ ''$'' @ v @ [DQ]) @ b'"
proof -
  have run: "mdone (mrun (v @ b) (mstep CHR ''$'' (mrun a (Some (Seen 0)))))"
    using assms(1) by (simp only: mrun_basic append_Cons append_Nil)
  obtain c v' where v: "v = c # v'" "c \<notin> {CHR ''_'', CHR ''1''}" using multi_vars [OF assms(2)] by (cases v) auto
  have fails: "\<not> mdone (mrun (v @ b) (Some Dollar))"
    using v(2) by (simp add: v(1) mrun_basic mdone_def)
  obtain st where st: "mrun a (Some (Seen 0)) = Some st"
    using run by (cases "mrun a (Some (Seen 0))") (auto simp: mrun_basic mdone_def)
  have "st = Seen 3"
    using run st fails by (cases st) (auto simp: mrun_basic(4) mdone_def split: if_splits)
  then obtain a' where a': "a = a' @ ''=~'' @ [DQ]" using mrun_seen [of a 3] st by auto
  have "mdone (mrun (v @ b) (Some (Name [])))" using run st \<open>st = Seen 3\<close> by simp
  then obtain w u where w: "v @ b = w @ [DQ] @ u" "w \<in> set MATCHED_NAMES" using mrun_name by fastforce
  then have "prefix v w" using multi_vars [OF assms(2)]
    by (auto simp: append_eq_append_conv2 append_eq_Cons_conv prefix_def)
  then have "w = v" using matched_names [OF assms(2)] w(2) by (auto simp: prefix_def)
  then show ?thesis using w(1) by (intro exI [of _ a'] exI [of _ u]) (simp add: a')
qed

definition vars_fine :: "string \<Rightarrow> bool" where
  "vars_fine e = mdone (mrun e (Some (Seen 0)))"

lemma vars_fine: "vars_fine e \<Longrightarrow> check_multi e = Inr ()"
proof -
  assume e: "vars_fine e"
  have "multi_matched v e" if v: "v \<in> set MULTI_VARS" "py_in (''$'' @ v) e" for v
  proof -
    obtain a b where a: "e = a @ (''$'' @ v) @ b" using v(2) by (auto simp: py_in_sublist sublist_def)
    then obtain a' b' where "e = a' @ (''=~'' @ [DQ] @ ''$'' @ v @ [DQ]) @ b'"
      using e mrun_matched v(1) unfolding vars_fine_def by metis
    then show ?thesis unfolding multi_matched_def py_in_sublist sublist_def by blast
  qed
  then show "check_multi e = Inr ()" by (simp add: check_multi_def allR_Inr_iff)
qed

end
