(* ===== verification/Mission_Panels.thy ===== *)
theory Mission_Panels
  imports Panel_Checks Mission_Scan
begin

text \<open>
  What the panel constructors of the mission control generator guarantee: with a description that
  is not blank and a known unit they return, and the panel passes every assertion of the validator
  that does not depend on a text the caller passes. One rule for each constructor, as for the shared
  ones.
\<close>

section \<open>Descriptions\<close>

definition visible :: "string \<Rightarrow> bool" where
  "visible s = list_ex (\<lambda>c. \<not> py_isspace c) s"

lemma visible_rules:
  "\<not> py_isspace c \<Longrightarrow> visible (c # s)"
  "py_isspace c \<Longrightarrow> visible (c # s) = visible s"
  "visible a \<Longrightarrow> visible (a @ b)"
  by (auto simp: visible_def)

lemma visible_first:
  "visible (CHR ''A'' # s)" "visible (CHR ''B'' # s)" "visible (CHR ''C'' # s)" "visible (CHR ''D'' # s)"
  "visible (CHR ''E'' # s)" "visible (CHR ''F'' # s)" "visible (CHR ''G'' # s)" "visible (CHR ''H'' # s)"
  "visible (CHR ''I'' # s)" "visible (CHR ''J'' # s)" "visible (CHR ''K'' # s)" "visible (CHR ''L'' # s)"
  "visible (CHR ''M'' # s)" "visible (CHR ''N'' # s)" "visible (CHR ''O'' # s)" "visible (CHR ''P'' # s)"
  "visible (CHR ''Q'' # s)" "visible (CHR ''R'' # s)" "visible (CHR ''S'' # s)" "visible (CHR ''T'' # s)"
  "visible (CHR ''U'' # s)" "visible (CHR ''V'' # s)" "visible (CHR ''W'' # s)" "visible (CHR ''X'' # s)"
  "visible (CHR ''Y'' # s)" "visible (CHR ''Z'' # s)" "visible (CHR ''a'' # s)" "visible (CHR ''b'' # s)"
  "visible (CHR ''c'' # s)" "visible (CHR ''d'' # s)" "visible (CHR ''e'' # s)" "visible (CHR ''f'' # s)"
  "visible (CHR ''g'' # s)" "visible (CHR ''h'' # s)" "visible (CHR ''i'' # s)" "visible (CHR ''j'' # s)"
  "visible (CHR ''k'' # s)" "visible (CHR ''l'' # s)" "visible (CHR ''m'' # s)" "visible (CHR ''n'' # s)"
  "visible (CHR ''o'' # s)" "visible (CHR ''p'' # s)" "visible (CHR ''q'' # s)" "visible (CHR ''r'' # s)"
  "visible (CHR ''s'' # s)" "visible (CHR ''t'' # s)" "visible (CHR ''u'' # s)" "visible (CHR ''v'' # s)"
  "visible (CHR ''w'' # s)" "visible (CHR ''x'' # s)" "visible (CHR ''y'' # s)" "visible (CHR ''z'' # s)"
  "visible (CHR ''0'' # s)" "visible (CHR ''1'' # s)" "visible (CHR ''2'' # s)" "visible (CHR ''3'' # s)"
  "visible (CHR ''4'' # s)" "visible (CHR ''5'' # s)" "visible (CHR ''6'' # s)" "visible (CHR ''7'' # s)"
  "visible (CHR ''8'' # s)" "visible (CHR ''9'' # s)" "visible (CHR ''*'' # s)" "visible (CHR ''`'' # s)"
  by (simp_all add: visible_def py_isspace_def code_def)

lemma strip_visible: "py_strip s \<noteq> [] \<longleftrightarrow> visible s"
proof -
  have "py_strip s = [] \<longleftrightarrow> (\<forall>c \<in> set s. py_isspace c)"
  proof
    assume "py_strip s = []"
    then have d: "\<forall>c \<in> set (dropWhile py_isspace s). py_isspace c" by (simp add: py_strip_def)
    show "\<forall>c \<in> set s. py_isspace c"
    proof (cases "dropWhile py_isspace s = []")
      case True
      then show ?thesis by simp
    next
      case False
      then have "hd (dropWhile py_isspace s) \<in> set (dropWhile py_isspace s)" by simp
      then show ?thesis using d hd_dropWhile [OF False] by blast
    qed
  next
    assume "\<forall>c \<in> set s. py_isspace c"
    then show "py_strip s = []" by (auto simp: py_strip_def dest: set_dropWhileD)
  qed
  then show ?thesis by (auto simp: visible_def list_ex_iff)
qed

section \<open>Keyword arguments\<close>

lemma mkw_select [simp]:
  "m_legend mkw = None" "m_thresholds_key mkw = None" "m_mappings mkw = None" "m_graph mkw = None"
  "m_decimals mkw = None" "m_color_mode mkw = None" "m_no_value mkw = None" "m_unit mkw = None"
  "m_stacked mkw = None" "m_fill mkw = None" "m_line_interpolation mkw = None" "m_overrides mkw = None"
  "m_thresholds_value mkw = None" "m_legend_calcs mkw = None" "m_show_legend mkw = None"
  "m_soft_min mkw = None" "m_max_data_points mkw = None" "m_min_value mkw = None" "m_max_value mkw = None"
  "m_transformations mkw = None" "m_sort_col mkw = None" "m_sort_desc mkw = None" "m_show_value mkw = None"
  "m_row_height mkw = None" "m_bucket_size mkw = None" "m_combine mkw = None" "m_max_lines mkw = None"
  "m_title mkw = None" "m_options mkw = None" "m_field_defaults mkw = None" "m_links mkw = None"
  "m_query_opts mkw = None"
  by (simp_all add: mkw_def)

section \<open>Threshold sets\<close>

definition based :: "item list \<Rightarrow> bool" where
  "based holder = (\<forall>key. mc_check_base key holder = Inr ())"

definition bases_ok :: "json \<Rightarrow> bool" where
  "bases_ok j = list_all based (iter_threshold_sets j)"

definition bases_dict :: "item list \<Rightarrow> bool" where
  "bases_dict kvs = list_all (\<lambda>p. bases_ok (snd p)) kvs"

lemma bases_rules:
  "bases_ok JNull" "bases_ok (JBool b)" "bases_ok (JInt n)" "bases_ok (JFloat f)" "bases_ok (JStr s)"
  "bases_ok (JList xs) = list_all bases_ok xs"
  "map_of kvs ''steps'' = None \<Longrightarrow> bases_ok (JDict kvs) = bases_dict kvs"
  "bases_dict []" "bases_dict (p # kvs) = (bases_ok (snd p) \<and> bases_dict kvs)"
  "bases_dict (kvs @ kws) = (bases_dict kvs \<and> bases_dict kws)"
  "bases_dict (if c then kvs else kws) = (if c then bases_dict kvs else bases_dict kws)"
  by (auto simp: bases_ok_def bases_dict_def own_thresholds_def list_all_iff)

lemma bases_update: "bases_dict d \<Longrightarrow> bases_dict e \<Longrightarrow> bases_dict (dict_update d e)"
  using set_dict_update [of d e] by (auto simp: bases_dict_def list_all_iff)

lemma bases_thresholds: "mc_thresholds steps = Inr v \<Longrightarrow> list_all (\<lambda>s. bases_ok (snd s)) steps \<Longrightarrow> bases_ok v"
proof -
  assume s: "mc_thresholds steps = Inr v" "list_all (\<lambda>s. bases_ok (snd s)) steps"
  then obtain c rest where c: "steps = (c, JNull) # rest" and v: "v = mc_threshold_set steps"
    by (cases steps) (auto simp: mc_thresholds_def bindR_Inr_iff ensure_Inr_iff)
  have "list_all bases_ok (map (\<lambda>(color, value). JDict [(''color'', JStr color), (''value'', value)]) steps)"
    using s(2) by (auto simp: list_all_iff bases_rules)
  then have "list_all (\<lambda>j. list_all based (iter_threshold_sets j))
      (map (\<lambda>(color, value). JDict [(''color'', JStr color), (''value'', value)]) steps)"
    by (simp add: bases_ok_def list_all_iff)
  moreover have "based [(''mode'', JStr ''absolute''), (''steps'', JList
     (map (\<lambda>(color, value). JDict [(''color'', JStr color), (''value'', value)]) steps))]"
    by (simp add: based_def mc_check_base_def jlookup_def c)
  ultimately show ?thesis
    by (auto simp: v mc_threshold_set_def bases_ok_def own_thresholds_def list_all_iff)
qed

lemma bases_THRESHOLDS: "bases_ok (mc_THRESHOLDS k)"
  by (rule bases_thresholds [OF mc_THRESHOLDS_ok]) (cases k; simp add: bases_rules)

section \<open>Overrides\<close>

definition override_ok :: "json \<Rightarrow> bool" where
  "override_ok o' = ((\<exists>kind. jpath o' [''matcher'', ''id''] = Inr kind \<and> kind \<noteq> JStr ''byType'') \<and>
     (\<forall>key. each_prop (mc_check_prop key) o' = Inr ()) \<and> bases_ok o')"

definition prop_ok :: "json \<Rightarrow> bool" where
  "prop_ok p = ((\<forall>key. mc_check_prop key p = Inr ()) \<and> bases_ok p)"

lemma prop_ok_rules:
  "k \<noteq> ''unit'' \<Longrightarrow> prop_ok (JDict [(''id'', JStr k), (''value'', v)]) = bases_ok v"
  "prop_ok (JDict [(''id'', JStr ''unit''), (''value'', JStr u)]) = (u \<in> set KNOWN_UNITS)"
  by (auto simp: prop_ok_def mc_check_prop_def bases_rules is_str_in_def ensure_Inr_iff)

lemma override_ok_rules:
  "override_ok (color_override n c)" "override_ok (regexp_color_override n c)"
  "override_ok (mc_name_override n ps) = list_all prop_ok ps"
  "override_ok (mc_regexp_override n ps) = list_all prop_ok ps"
  by (auto simp: override_ok_def color_override_def regexp_color_override_def mc_name_override_def
      mc_regexp_override_def each_prop_def mc_check_prop_def bases_rules allR_Inr_iff list_all_iff prop_ok_def)

section \<open>One panel\<close>

definition mc_good :: "string list \<Rightarrow> int \<Rightarrow> item res \<Rightarrow> bool" where
  "mc_good ok pid r = (\<exists>el. r = Inr (panel_key pid, el) \<and> good_panel ok [''text''] (panel_key pid, el) \<and>
     (\<forall>ids. mc_check_panel ids (panel_key pid, el) = Inr (ids @ [pid])))"

definition mc_defaults :: "string \<Rightarrow> string \<Rightarrow> item list" where
  "mc_defaults unit viz = [(''unit'', JStr unit), (''mappings'', JList []),
     (''thresholds'', mc_THRESHOLDS McNeutral), (''color'', JDict [(''mode'',
       (if viz \<in> {''stat'', ''gauge'', ''bargauge''} then JStr ''thresholds''
       else JStr ''palette-classic-by-name''))])]"

definition mc_element ::
  "int \<Rightarrow> string \<Rightarrow> string \<Rightarrow> json list \<Rightarrow> string \<Rightarrow> string \<Rightarrow> mkwargs \<Rightarrow> json" where
  "mc_element pid title viz queries unit desc a =
     JDict [(''kind'', JStr ''Panel''), (''spec'', JDict [(''id'', JInt pid), (''title'', JStr title),
       (''description'', JStr desc), (''links'', JList (arg [] (m_links a))),
       (''data'', mc_data_group queries (arg [] (m_transformations a)) (m_query_opts a)),
       (''vizConfig'', JDict [(''kind'', JStr ''VizConfig''), (''group'', JStr viz), (''version'', JStr []),
         (''spec'', JDict [(''options'', JDict (arg [] (m_options a))), (''fieldConfig'',
           JDict [(''defaults'', JDict (dict_update (mc_defaults unit viz) (arg [] (m_field_defaults a)))),
             (''overrides'', JList (arg [] (m_overrides a)))])])])])]"

lemma mc_panel_Inr:
  "mc_panel pid title viz qs unit desc a =
     bindR (ensure (visible desc) (AssertionError (''panel '' @ show_int pid @ '' ('' @ title @ '') has no description'')))
       (\<lambda>_. Inr (panel_key pid, mc_element pid title viz qs unit desc a))"
  by (simp add: mc_panel_def mc_element_def mc_defaults_def strip_visible panel_key_def Let_def)

lemma mc_unit_fine:
  "u \<in> set KNOWN_UNITS \<Longrightarrow> map_of defaults ''unit'' = Some (JStr u) \<Longrightarrow>
   mc_check_unit key viz spec (JDict defaults) = Inr ()"
  by (auto simp: mc_check_unit_def jlookup_def is_str_in_def BANNED_UNITS_def KNOWN_UNITS_def Let_def)

lemma mc_timeline_fine:
  assumes "viz = ''state-timeline'' \<longrightarrow> (\<exists>v. map_of defaults ''mappings'' = Some v \<and> py_truthy v)"
    and "overrides_of spec = Inr ovs" "list_all override_ok ovs"
  shows "mc_check_timeline key viz spec (JDict defaults) = Inr ()"
proof (cases "viz = ''state-timeline''")
  case True
  have "bindR (jpath ov [''matcher'', ''id'']) (\<lambda>kind. if kind = JStr ''byType'' then f ov else Inr ()) = Inr ()"
    if ov: "ov \<in> set ovs" for ov f
  proof -
    have "override_ok ov" using ov assms(3) by (simp add: list_all_iff)
    then obtain kind where "jpath ov [''matcher'', ''id''] = Inr kind" "kind \<noteq> JStr ''byType''"
      unfolding override_ok_def by blast
    then show ?thesis by (simp del: jpath.simps)
  qed
  then show ?thesis using True assms(1,2)
    by (auto simp: mc_check_timeline_def jlookup_def some_truthy_def allR_Inr_iff)
qed (simp add: mc_check_timeline_def)

lemma mc_options_fine:
  assumes "jpath spec [''data'', ''spec'', ''queryOptions''] = Inr (JDict (mc_query_options n MIN_INTERVAL))" "n \<noteq> 0"
  shows "mc_check_options key viz spec = Inr ()"
  using assms by (simp add: mc_check_options_def jlookup_def mc_query_options_def some_truthy_def del: jpath.simps)

lemma text_mc_element:
  assumes "clean ok t" "clean ok viz" "list_all (text_clean ok) qs" "clean ok unit" "clean ok desc"
    and "list_all (text_clean ok) (arg [] (m_links a))"
    and "list_all (text_clean ok) (arg [] (m_transformations a))"
    and "dict_clean ok (arg [] (m_options a))" "dict_clean ok (arg [] (m_field_defaults a))"
    and "list_all (text_clean ok) (arg [] (m_overrides a))"
    and "m_query_opts a = Some (mc_query_options n MIN_INTERVAL)"
  shows "text_clean ok (mc_element pid t viz qs unit desc a)"
proof -
  have "text_clean ok (mc_THRESHOLDS k)" for k
    by (cases k) (simp_all add: mc_THRESHOLDS_def mc_threshold_set_def panel_text)
  then show ?thesis using assms
    by (simp add: mc_element_def mc_defaults_def mc_data_group_def mc_query_options_def MIN_INTERVAL_def Let_def
        panel_text dict_clean_update)
qed

text \<open>The generic rule: what is left is about the arguments of \<open>mc_panel\<close>.\<close>

lemma mc_good_panel:
  assumes texts: "clean ok t" "clean ok viz" "list_all (text_clean ok) qs" "clean ok unit" "clean ok desc"
      "list_all (text_clean ok) (arg [] (m_links a))" "list_all (text_clean ok) (arg [] (m_transformations a))"
      "dict_clean ok (arg [] (m_options a))" "dict_clean ok (arg [] (m_field_defaults a))"
      "list_all (text_clean ok) (arg [] (m_overrides a))"
    and desc: "visible desc" and unit: "unit \<in> set KNOWN_UNITS"
    and keys: "map_of (arg [] (m_field_defaults a)) ''unit'' = None"
      "map_of (arg [] (m_field_defaults a)) ''steps'' = None" "map_of (arg [] (m_options a)) ''noValue'' = None"
      "map_of (arg [] (m_options a)) ''steps'' = None"
    and opts: "m_query_opts a = Some (mc_query_options n MIN_INTERVAL)" "n \<noteq> 0"
    and bases: "list_all bases_ok qs" "list_all bases_ok (arg [] (m_transformations a))"
      "list_all bases_ok (arg [] (m_links a))"
      "bases_dict (arg [] (m_options a))" "bases_dict (arg [] (m_field_defaults a))"
    and overrides: "list_all override_ok (arg [] (m_overrides a))"
    and timeline: "viz = ''state-timeline'' \<longrightarrow>
      (\<exists>v. map_of (rev (arg [] (m_field_defaults a))) ''mappings'' = Some v \<and> py_truthy v)"
  shows "mc_good ok pid (mc_panel pid t viz qs unit desc a)"
proof -
  define el where "el = mc_element pid t viz qs unit desc a"
  define fd where "fd = arg [] (m_field_defaults a)"
  define defaults where "defaults = dict_update (mc_defaults unit viz) fd"
  have clean: "text_clean ok el" unfolding el_def using texts opts(1) by (rule text_mc_element)
  have plugin: "\<not> py_in ''pluginVersion'' (json_text False el)" using clean by (rule no_pluginVersion)
  have no: "map_of (rev fd) ''unit'' = None" "map_of fd ''steps'' = None" "map_of (rev fd) ''steps'' = None"
    using keys(1,2) by (simp_all add: fd_def map_of_eq_None_iff)
  have lookups: "map_of defaults ''unit'' = Some (JStr unit)" "map_of defaults ''steps'' = None"
    using no by (simp_all add: defaults_def dict_update_map_of mc_defaults_def map_add_def)
  have mappings: "viz = ''state-timeline'' \<longrightarrow> (\<exists>v. map_of defaults ''mappings'' = Some v \<and> py_truthy v)"
    using timeline by (auto simp: defaults_def fd_def dict_update_map_of map_add_def)
  define spec where "spec = (case jget el ''spec'' of Inr s \<Rightarrow> s | Inl _ \<Rightarrow> JNull)"
  have spec: "jget el ''spec'' = Inr spec" "jget spec ''id'' = Inr (JInt pid)"
    "jpath spec [''vizConfig'', ''group''] = Inr (JStr viz)"
    "jpath spec [''vizConfig'', ''spec'', ''fieldConfig'', ''defaults''] = Inr (JDict defaults)"
    "jpath spec [''vizConfig'', ''spec'', ''options''] = Inr (JDict (arg [] (m_options a)))"
    "bindR (jget spec ''description'') jstr = Inr desc"
    "overrides_of spec = Inr (arg [] (m_overrides a))"
    "jpath spec [''data'', ''spec'', ''queryOptions''] = Inr (JDict (mc_query_options n MIN_INTERVAL))"
    by (simp_all add: spec_def el_def mc_element_def defaults_def fd_def overrides_of_def mc_data_group_def opts)
  have steps: "bases_ok (JDict (mc_query_options n MIN_INTERVAL))"
    by (simp add: mc_query_options_def bases_rules)
  have "bases_dict (mc_defaults unit viz)"
    by (simp add: mc_defaults_def bases_rules bases_THRESHOLDS)
  then have "bases_ok (JDict defaults)"
    using bases(5) lookups(2) by (simp add: defaults_def fd_def bases_rules bases_update)
  moreover have "list_all bases_ok (arg [] (m_overrides a))"
    using overrides by (auto simp: list_all_iff override_ok_def)
  ultimately have based: "list_all based (iter_threshold_sets spec)"
    using bases keys(4) steps unfolding bases_ok_def [symmetric]
    by (simp add: spec_def el_def mc_element_def mc_data_group_def opts(1) bases_rules
        defaults_def fd_def del: iter_threshold_sets.simps)
  have props: "allR (each_prop (mc_check_prop key)) (arg [] (m_overrides a)) = Inr ()" for key
    using overrides by (auto simp: allR_Inr_iff list_all_iff override_ok_def)
  have bases': "allR (mc_check_base key) (iter_threshold_sets spec) = Inr ()" for key
    using based by (auto simp: allR_Inr_iff list_all_iff based_def)
  have desc': "py_strip desc \<noteq> []" using desc by (simp add: strip_visible)
  have novalue: "''noValue'' \<notin> set (jkeys (JDict (arg [] (m_options a))))"
    using keys(3) by (simp add: map_of_eq_None_iff)
  have "mc_check_panel ids (panel_key pid, el) = Inr (ids @ [pid])" for ids
    unfolding mc_check_panel_def
    by (simp add: spec desc' mc_unit_fine [OF unit lookups(1)] mc_timeline_fine [OF mappings spec(7) overrides]
        mc_options_fine [OF spec(8) opts(2)] props bases' novalue plugin panel_key_def
        del: jpath.simps json_text.simps jget.simps jkeys.simps)
  moreover have "good_panel ok [''text''] (panel_key pid, el)"
  proof -
    have "unit \<noteq> ''short''" using unit by (auto simp: KNOWN_UNITS_def)
    moreover have "panel_shape pid viz (arg [] (m_options a)) defaults el"
      by (simp add: panel_shape_def el_def mc_element_def defaults_def fd_def)
    ultimately have "check_panel [''text''] ids (panel_key pid, el) = Inr (ids @ [pid])" for ids
      using lookups(1) novalue plugin by (intro check_panel_ok) auto
    then show ?thesis using clean by (auto simp: good_panel_def passes_def)
  qed
  ultimately show ?thesis using desc by (simp add: mc_good_def mc_panel_Inr el_def)
qed

section \<open>Pieces\<close>

text \<open>The bytes of the symbols in titles and texts.\<close>

lemma run_bytes [panel_text]:
  "run ok (CHR 0x8C # s) c0 = run ok s c0"
  "run ok (CHR 0x8F # s) c0 = run ok s c0"
  "run ok (CHR 0x90 # s) c0 = run ok s c0"
  "run ok (CHR 0x95 # s) c0 = run ok s c0"
  "run ok (CHR 0x9B # s) c0 = run ok s c0"
  "run ok (CHR 0x9C # s) c0 = run ok s c0"
  "run ok (CHR 0x9D # s) c0 = run ok s c0"
  "run ok (CHR 0x9F # s) c0 = run ok s c0"
  "run ok (CHR 0xA0 # s) c0 = run ok s c0"
  "run ok (CHR 0xA2 # s) c0 = run ok s c0"
  "run ok (CHR 0xA4 # s) c0 = run ok s c0"
  "run ok (CHR 0xA7 # s) c0 = run ok s c0"
  "run ok (CHR 0xAC # s) c0 = run ok s c0"
  "run ok (CHR 0xAD # s) c0 = run ok s c0"
  "run ok (CHR 0xB4 # s) c0 = run ok s c0"
  "run ok (CHR 0xB6 # s) c0 = run ok s c0"
  "run ok (CHR 0xB8 # s) c0 = run ok s c0"
  "run ok (CHR 0xEF # s) c0 = run ok s c0"
  "run ok (CHR 0xF0 # s) c0 = run ok s c0"
  by (simp_all add: run_def c0_def)

text \<open>What is passed to a constructor: clean texts, and threshold sets with an open base.\<close>

definition piece :: "string list \<Rightarrow> json \<Rightarrow> bool" where
  "piece ok j = (text_clean ok j \<and> bases_ok j)"

definition override_piece :: "string list \<Rightarrow> json \<Rightarrow> bool" where
  "override_piece ok j = (text_clean ok j \<and> override_ok j)"

definition deliberate :: "item list option \<Rightarrow> bool" where
  "deliberate v = (\<exists>n. n \<noteq> 0 \<and> v = Some (mc_query_options n MIN_INTERVAL))"

lemma deliberate: "n \<noteq> 0 \<Longrightarrow> deliberate (Some (mc_query_options n MIN_INTERVAL))"
  by (auto simp: deliberate_def)

lemma clean_unit: "u \<in> set KNOWN_UNITS \<Longrightarrow> clean ok u"
  by (auto simp: KNOWN_UNITS_def panel_text)

named_theorems mission "panels of the mission control generator and their parts"

lemma piece_prom_query [mission]:
  "''DS_PROMETHEUS'' \<in> set ok \<Longrightarrow> clean ok expr \<Longrightarrow> clean ok legend \<Longrightarrow> clean ok ref \<Longrightarrow> clean ok fmt \<Longrightarrow>
   piece ok (prom_query expr legend ref fmt inst)"
  by (auto simp: piece_def text_prom_query) (simp add: prom_query_def bases_rules Let_def)

lemma piece_loki_query [mission]:
  "''DS_LOKI'' \<in> set ok \<Longrightarrow> clean ok expr \<Longrightarrow> clean ok ref \<Longrightarrow> clean ok qt \<Longrightarrow> piece ok (loki_query expr ref qt)"
  by (auto simp: piece_def text_loki_query) (simp add: loki_query_def bases_rules Let_def)

lemma piece_tf [mission]:
  "clean ok k \<Longrightarrow> map_of os ''steps'' = None \<Longrightarrow>
   list_all (\<lambda>p. clean ok (fst p) \<and> piece ok (snd p)) os \<Longrightarrow> piece ok (tf k os)"
  by (auto simp: piece_def text_tf dict_clean_def list_all_iff) (simp add: tf_def bases_rules bases_dict_def list_all_iff)

lemma piece_transformations [mission]:
  "clean ok f \<Longrightarrow> piece ok (sort_by f d)" "piece ok (limit n)"
  by (auto simp: piece_def text_transformations sort_by_def limit_def tf_def bases_rules panel_text)

lemma bases_map:
  "''steps'' \<notin> fst ` set xs \<Longrightarrow> (\<And>v. bases_ok (f v)) \<Longrightarrow> bases_ok (JDict (map (\<lambda>(k, v). (k, f v)) xs))"
  by (subst bases_rules) (auto simp: map_of_eq_None_iff image_iff bases_dict_def list_all_iff)

lemma piece_organize [mission]:
  assumes "list_all (clean ok) ex" "list_all (\<lambda>p. clean ok (fst p) \<and> clean ok (snd p)) rn"
    and "list_all (\<lambda>p. clean ok (fst p)) ix" "''steps'' \<notin> set ex" "''steps'' \<notin> fst ` set rn" "''steps'' \<notin> fst ` set ix"
  shows "piece ok (organize ex rn ix)"
proof -
  have "bases_ok (JDict (map (\<lambda>name. (name, JBool True)) ex))"
    using assms(4) by (subst bases_rules) (auto simp: map_of_eq_None_iff bases_dict_def list_all_iff bases_rules)
  then have "bases_ok (organize ex rn ix)"
    using assms by (simp add: organize_def tf_def bases_rules bases_map)
  then show ?thesis using assms by (simp add: piece_def text_organize)
qed

lemma zip_numbered: "fst ` set (zip xs (map int [0..<length xs])) = set xs"
  by (simp add: set_map [symmetric] del: set_map)

lemma piece_clean [mission]:
  assumes "list_all (\<lambda>p. clean ok (fst p) \<and> clean ok (snd p)) rn" "list_all (clean ok) ex" "list_all (clean ok) kp"
    and "''steps'' \<notin> set ex" "''steps'' \<notin> fst ` set rn" "''steps'' \<notin> set kp"
  shows "piece ok (mc_clean rn ex kp)"
  unfolding mc_clean_def
proof (rule piece_organize)
  show "list_all (clean ok) (MC_NOISE_COLUMNS @ ex)"
    using assms(2) by (simp add: MC_NOISE_COLUMNS_def panel_text)
  show "list_all (\<lambda>p. clean ok (fst p)) (if kp \<noteq> [] then zip kp (map int [0..<length kp]) else [])"
    using assms(3) zip_numbered [of kp] by (auto simp: list_all_iff dest: set_zip_leftD)
  show "''steps'' \<notin> set (MC_NOISE_COLUMNS @ ex)"
    using assms(4) by (simp add: MC_NOISE_COLUMNS_def)
  show "''steps'' \<notin> fst ` set (if kp \<noteq> [] then zip kp (map int [0..<length kp]) else [])"
    using assms(6) zip_numbered [of kp] by (auto dest: set_zip_leftD)
qed (use assms in auto)

lemma piece_mappings [mission]:
  "list_all (piece ok) MC_STATUS_MAPPINGS" "list_all (piece ok) ONLINE_MAPPINGS"
  "list_all (piece ok) RUNNING_MAPPINGS" "list_all (piece ok) REACHABLE_MAPPINGS"
  "list_all (piece ok) ENABLED_MAPPINGS" "list_all (piece ok) COLLECTOR_MAPPINGS"
  "list_all (piece ok) LINK_UP_MAPPINGS" "list_all (piece ok) DUPLEX_MAPPINGS"
  by (simp_all add: piece_def MC_STATUS_MAPPINGS_def ONLINE_MAPPINGS_def RUNNING_MAPPINGS_def
      REACHABLE_MAPPINGS_def ENABLED_MAPPINGS_def COLLECTOR_MAPPINGS_def LINK_UP_MAPPINGS_def
      DUPLEX_MAPPINGS_def bases_rules panel_text del: append.simps append_assoc)

lemma mappings_nonempty [mission]:
  "MC_STATUS_MAPPINGS \<noteq> []" "ONLINE_MAPPINGS \<noteq> []" "RUNNING_MAPPINGS \<noteq> []" "REACHABLE_MAPPINGS \<noteq> []"
  "LINK_UP_MAPPINGS \<noteq> []"
  by (simp_all add: MC_STATUS_MAPPINGS_def ONLINE_MAPPINGS_def RUNNING_MAPPINGS_def REACHABLE_MAPPINGS_def
      LINK_UP_MAPPINGS_def)

lemma piece_thresholds [mission]: "piece ok (mc_THRESHOLDS k)"
proof -
  have "text_clean ok (mc_THRESHOLDS k)"
    by (cases k) (simp_all add: mc_THRESHOLDS_def mc_threshold_set_def panel_text)
  then show ?thesis by (simp add: piece_def bases_THRESHOLDS)
qed

lemma piece_literal [mission]:
  "piece ok JNull" "piece ok (JBool b)" "piece ok (JInt n)" "float_text f \<Longrightarrow> piece ok (JFloat f)" "clean ok s \<Longrightarrow> piece ok (JStr s)"
  "piece ok (JList xs) = list_all (piece ok) xs"
  by (auto simp: piece_def bases_rules panel_text list_all_iff)

lemma piece_dict [mission]:
  "map_of kvs ''steps'' = None \<Longrightarrow> list_all (\<lambda>p. clean ok (fst p) \<and> piece ok (snd p)) kvs \<Longrightarrow> piece ok (JDict kvs)"
  by (auto simp: piece_def bases_rules bases_dict_def panel_text dict_clean_def list_all_iff)

definition prop_piece :: "string list \<Rightarrow> json \<Rightarrow> bool" where
  "prop_piece ok p = (text_clean ok p \<and> prop_ok p)"

lemma prop_pieces [mission]:
  "k \<noteq> ''unit'' \<Longrightarrow> clean ok k \<Longrightarrow> piece ok v \<Longrightarrow> prop_piece ok (JDict [(''id'', JStr k), (''value'', v)])"
  "u \<in> set KNOWN_UNITS \<Longrightarrow> prop_piece ok (JDict [(''id'', JStr ''unit''), (''value'', JStr u)])"
  by (simp_all add: prop_piece_def prop_ok_rules piece_def clean_unit panel_text)

lemma override_pieces [mission]:
  "clean ok n \<Longrightarrow> clean ok c \<Longrightarrow> override_piece ok (color_override n c)"
  "clean ok n \<Longrightarrow> clean ok c \<Longrightarrow> override_piece ok (regexp_color_override n c)"
  "clean ok n \<Longrightarrow> list_all (prop_piece ok) ps \<Longrightarrow> override_piece ok (mc_name_override n ps)"
  "clean ok n \<Longrightarrow> list_all (prop_piece ok) ps \<Longrightarrow> override_piece ok (mc_regexp_override n ps)"
  by (auto simp: override_piece_def override_ok_rules text_override prop_piece_def list_all_iff)
    (auto simp: mc_name_override_def mc_regexp_override_def panel_text list_all_iff)

definition set_piece :: "string list \<Rightarrow> json res option \<Rightarrow> bool" where
  "set_piece ok v = (v = None \<or> (\<exists>w. v = Some (Inr w) \<and> piece ok w))"

lemma set_pieces [mission]:
  "set_piece ok None"
  "list_all (\<lambda>s. clean ok (fst s) \<and> piece ok (snd s)) ((c, JNull) # rest) \<Longrightarrow>
   set_piece ok (Some (mc_thresholds ((c, JNull) # rest)))"
proof -
  assume s: "list_all (\<lambda>s. clean ok (fst s) \<and> piece ok (snd s)) ((c, JNull) # rest)"
  have v: "mc_thresholds ((c, JNull) # rest) = Inr (mc_threshold_set ((c, JNull) # rest))"
    by (simp add: mc_thresholds_def)
  have "bases_ok (mc_threshold_set ((c, JNull) # rest))"
    using bases_thresholds [OF v] s by (simp add: list_all_iff piece_def)
  moreover have "text_clean ok (mc_threshold_set ((c, JNull) # rest))"
    using s by (auto simp: mc_threshold_set_def panel_text list_all_iff piece_def)
  ultimately show "set_piece ok (Some (mc_thresholds ((c, JNull) # rest)))"
    by (simp add: set_piece_def v piece_def)
qed (simp add: set_piece_def)

lemma severity_pieces [mission]: "list_all (override_piece ok) SEVERITY_OVERRIDES"
  by (simp add: SEVERITY_OVERRIDES_def SEVERITY_COLOURS_def mission panel_text)

lemma common_pieces: "list_all (override_piece ok) MC_COMMON_OVERRIDES"
  by (simp add: MC_COMMON_OVERRIDES_def mission panel_text del: append.simps append_assoc)

text \<open>The generic rule over pieces.\<close>

lemma good_pieces:
  assumes "clean ok t" "clean ok viz" "list_all (piece ok) qs" "unit \<in> set KNOWN_UNITS"
    and "clean ok desc" "visible desc"
    and "list_all (piece ok) (arg [] (m_links a))" "list_all (piece ok) (arg [] (m_transformations a))"
    and "list_all (\<lambda>p. clean ok (fst p) \<and> piece ok (snd p)) (arg [] (m_options a))"
    and "list_all (\<lambda>p. clean ok (fst p) \<and> piece ok (snd p)) (arg [] (m_field_defaults a))"
    and "list_all (override_piece ok) (arg [] (m_overrides a))"
    and "map_of (arg [] (m_field_defaults a)) ''unit'' = None" "map_of (arg [] (m_field_defaults a)) ''steps'' = None"
    and "map_of (arg [] (m_options a)) ''noValue'' = None" "map_of (arg [] (m_options a)) ''steps'' = None"
    and "deliberate (m_query_opts a)"
    and "viz = ''state-timeline'' \<longrightarrow>
      (\<exists>v. map_of (rev (arg [] (m_field_defaults a))) ''mappings'' = Some v \<and> py_truthy v)"
  shows "mc_good ok pid (mc_panel pid t viz qs unit desc a)"
proof -
  obtain n where n: "m_query_opts a = Some (mc_query_options n MIN_INTERVAL)" "n \<noteq> 0"
    using assms(16) by (auto simp: deliberate_def)
  show ?thesis
    by (rule mc_good_panel [where n = n])
      (use assms n in \<open>auto simp: piece_def override_piece_def bases_dict_def dict_clean_def list_all_iff clean_unit\<close>)
qed

end
