(* ===== verification/Mission_Makers.thy ===== *)
theory Mission_Makers
  imports Mission_Panels
begin

text \<open>One rule for each panel constructor of the mission control generator.\<close>

section \<open>Good panels\<close>

text \<open>An entry that is there or not.\<close>

lemma map_of_optional:
  "map_of (kvs @ (if b then [(k, v)] else [])) k' = None \<longleftrightarrow> map_of kvs k' = None \<and> \<not> (b \<and> k = k')"
  by (simp add: map_add_def split: option.splits)

lemma piece_strs [mission]: "list_all (clean ok) xs \<Longrightarrow> list_all (piece ok) (map JStr xs)"
  by (auto simp: list_all_iff piece_literal)

lemmas maker_rules = mission panel_text deliberate map_of_optional

lemma mc_good_stat [mission]:
  assumes "''DS_PROMETHEUS'' \<in> set ok" "clean ok t" "clean ok expr" "unit \<in> set KNOWN_UNITS"
    and "clean ok desc" "visible desc" "clean ok (arg [] (m_legend a))"
    and "list_all (piece ok) (arg [] (m_mappings a))" "piece ok (arg JNull (m_decimals a))"
    and "clean ok (arg ''background_solid'' (m_color_mode a))" "clean ok (arg ''No data'' (m_no_value a))"
  shows "mc_good ok pid (mc_stat pid t expr unit desc a)"
  unfolding mc_stat_def Let_def
  by (rule good_pieces) (use assms in \<open>simp_all add: maker_rules del: append.simps append_assoc\<close>)

lemma mc_good_loki_stat [mission]:
  assumes "''DS_LOKI'' \<in> set ok" "clean ok t" "clean ok expr" "arg ''none'' (m_unit a) \<in> set KNOWN_UNITS"
    and "clean ok desc" "visible desc" "clean ok (arg ''0'' (m_no_value a))"
  shows "mc_good ok pid (mc_loki_stat pid t expr desc a)"
  unfolding mc_loki_stat_def
  by (rule good_pieces) (use assms in \<open>simp_all add: maker_rules del: append.simps append_assoc\<close>)

lemma mc_good_timeseries [mission]:
  assumes "clean ok t" "list_all (piece ok) qs" "unit \<in> set KNOWN_UNITS" "clean ok desc" "visible desc"
    and "clean ok (arg ''linear'' (m_line_interpolation a))"
    and "list_all (override_piece ok) (arg [] (m_overrides a))"
    and "set_piece ok (m_thresholds_value a)"
    and "list_all (clean ok) (arg [''lastNotNull'', ''max''] (m_legend_calcs a))"
    and "piece ok (arg (JInt 0) (m_soft_min a))" "clean ok (arg ''palette-classic-by-name'' (m_color_mode a))"
    and "arg 800 (m_max_data_points a) \<noteq> 0"
  shows "mc_good ok pid (mc_timeseries pid t qs unit desc a)"
proof -
  obtain tv where tv: "opt_res (m_thresholds_value a) = Inr tv" "\<forall>v. tv = Some v \<longrightarrow> piece ok v"
    using assms(8) by (auto simp: opt_res_def set_piece_def)
  show ?thesis
    unfolding mc_timeseries_def Let_def tv(1) bindR.simps
    by (rule good_pieces; cases tv)
      (use assms tv(2) in \<open>simp_all add: maker_rules common_pieces del: append.simps append_assoc\<close>)
qed

lemma mc_good_bargauge [mission]:
  assumes "clean ok t" "list_all (piece ok) qs" "unit \<in> set KNOWN_UNITS" "clean ok desc" "visible desc"
    and "list_all (piece ok) (arg [] (m_mappings a))" "piece ok (arg (JInt 0) (m_min_value a))"
    and "piece ok (arg JNull (m_max_value a))" "clean ok (arg ''thresholds'' (m_color_mode a))"
    and "list_all (piece ok) (arg [] (m_transformations a))" "piece ok (arg JNull (m_decimals a))"
  shows "mc_good ok pid (mc_bargauge pid t qs unit desc a)"
  unfolding mc_bargauge_def Let_def
  by (rule good_pieces) (use assms in \<open>simp_all add: maker_rules del: append.simps append_assoc\<close>)

lemma mc_good_gauge [mission]:
  assumes "''DS_PROMETHEUS'' \<in> set ok" "clean ok t" "clean ok expr" "unit \<in> set KNOWN_UNITS"
    and "clean ok desc" "visible desc" "piece ok (arg (JInt 0) (m_min_value a))"
    and "piece ok (arg (JInt 100) (m_max_value a))" "piece ok (arg (JInt 1) (m_decimals a))"
    and "clean ok (arg ''No data'' (m_no_value a))"
  shows "mc_good ok pid (mc_gauge pid t expr unit desc a)"
  unfolding mc_gauge_def Let_def
  by (rule good_pieces) (use assms in \<open>simp_all add: maker_rules del: append.simps append_assoc\<close>)

lemma mc_good_table [mission]:
  assumes "clean ok t" "list_all (piece ok) qs" "clean ok desc" "visible desc"
    and "list_all (piece ok) (arg [] (m_transformations a))"
    and "list_all (override_piece ok) (arg [] (m_overrides a))"
    and "clean ok (arg [] (m_sort_col a))" "clean ok (arg ''No rows'' (m_no_value a))"
  shows "mc_good ok pid (mc_table pid t qs desc a)"
  unfolding mc_table_def
  by (rule good_pieces) (use assms in \<open>simp_all add: maker_rules KNOWN_UNITS_def del: append.simps append_assoc\<close>)

lemma mc_good_piechart [mission]:
  assumes "clean ok t" "list_all (piece ok) qs" "unit \<in> set KNOWN_UNITS" "clean ok desc" "visible desc"
    and "list_all (piece ok) (arg [] (m_transformations a))"
    and "list_all (override_piece ok) (arg [] (m_overrides a))" "clean ok (arg ''No data'' (m_no_value a))"
  shows "mc_good ok pid (mc_piechart pid t qs unit desc a)"
  unfolding mc_piechart_def
  by (rule good_pieces) (use assms in \<open>simp_all add: maker_rules del: append.simps append_assoc\<close>)

lemma mc_good_state_timeline [mission]:
  assumes "clean ok t" "list_all (piece ok) qs" "clean ok desc" "visible desc"
    and "list_all (piece ok) ms" "ms \<noteq> []" "arg ''none'' (m_unit a) \<in> set KNOWN_UNITS"
    and "list_all (override_piece ok) (arg [] (m_overrides a))"
    and "list_all (piece ok) (arg [] (m_transformations a))"
    and "clean ok (arg ''never'' (m_show_value a))" "piece ok (arg (JFloat ''0.85'') (m_row_height a))"
    and "arg 300 (m_max_data_points a) \<noteq> 0"
  shows "mc_good ok pid (mc_state_timeline pid t qs desc ms a)"
  unfolding mc_state_timeline_def
  by (rule good_pieces) (use assms in \<open>simp_all add: maker_rules del: append.simps append_assoc\<close>)

lemma mc_good_histogram [mission]:
  assumes "clean ok t" "list_all (piece ok) qs" "unit \<in> set KNOWN_UNITS" "clean ok desc" "visible desc"
    and "piece ok (arg (JStr ''auto'') (m_bucket_size a))"
  shows "mc_good ok pid (mc_histogram pid t qs unit desc a)"
  unfolding mc_histogram_def
  by (rule good_pieces) (use assms in \<open>simp_all add: maker_rules del: append.simps append_assoc\<close>)

lemma mc_good_logs_panel [mission]:
  assumes "''DS_LOKI'' \<in> set ok" "clean ok t" "clean ok expr" "clean ok desc" "visible desc"
    and "arg 300 (m_max_lines a) \<noteq> 0"
  shows "mc_good ok pid (mc_logs_panel pid t expr desc a)"
  unfolding mc_logs_panel_def
  by (rule good_pieces) (use assms in \<open>simp_all add: maker_rules KNOWN_UNITS_def del: append.simps append_assoc\<close>)

lemma mc_good_text [mission]:
  assumes "clean ok (arg [] (m_title a))" "clean ok content"
  shows "mc_good ok pid (Inr (mc_text pid content a))"
proof -
  define el where "el = snd (mc_text pid content a)"
  have e: "mc_text pid content a = (panel_key pid, el)"
    by (simp add: el_def mc_text_def panel_key_def Let_def)
  have clean: "text_clean ok el"
    using assms by (simp add: el_def mc_text_def mc_data_group_def Let_def panel_text del: append.simps append_assoc)
  then have plugin: "\<not> py_in ''pluginVersion'' (json_text False el)" by (rule no_pluginVersion)
  have "panel_shape pid ''text'' [(''mode'', JStr ''markdown''), (''content'', JStr content),
      (''code'', JDict [(''language'', JStr ''plaintext''), (''showLineNumbers'', JBool False),
       (''showMiniMap'', JBool False)])] [] el"
    by (simp add: panel_shape_def el_def mc_text_def Let_def)
  then have "check_panel [''text''] ids (panel_key pid, el) = Inr (ids @ [pid])" for ids
    using plugin by (intro check_panel_ok) auto
  then have good: "good_panel ok [''text''] (panel_key pid, el)"
    using clean by (auto simp: good_panel_def passes_def)
  have "mc_check_panel ids (panel_key pid, el) = Inr (ids @ [pid])" for ids
    using plugin by (simp add: mc_check_panel_def mc_check_unit_def mc_check_timeline_def mc_check_options_def
        overrides_of_def el_def mc_text_def mc_data_group_def own_thresholds_def panel_key_def Let_def
        del: json_text.simps)
  then show ?thesis using good by (simp add: mc_good_def e)
qed

section \<open>Queries\<close>

definition query_fine :: "json \<Rightarrow> bool" where
  "query_fine q = (\<exists>gs. query_group q = Inr gs \<and>
     list_all (\<lambda>(grp, e). bindR (check_ranges grp e) (\<lambda>_. check_multi e) = Inr ()) gs)"

definition mc_asks :: "item res \<Rightarrow> bool" where
  "mc_asks r = (\<forall>it. r = Inr it \<longrightarrow> (\<exists>qs. panel_queries (snd it) = Inr qs \<and> list_all query_fine qs))"

lemma query_fine_rules:
  "ranges_fine e \<Longrightarrow> vars_fine e \<Longrightarrow> query_fine (prom_query e l r f i)"
  "vars_fine e \<Longrightarrow> query_fine (loki_query e r qt)"
  using ranges_fine [of e "JStr ''prometheus''"] vars_fine [of e]
  by (auto simp: query_fine_def query_group_def query_text_def prom_query_def loki_query_def Let_def)
    (simp_all add: check_ranges_def)

lemma panel_asks: "list_all query_fine qs \<Longrightarrow> mc_asks (mc_panel pid t viz qs u d a)"
  by (auto simp: mc_asks_def mc_panel_Inr mc_element_def mc_data_group_def panel_queries_def bindR_Inr_iff)

lemma maker_asks:
  "query_fine (prom_query e (arg [] (m_legend a)) ''A'' ''time_series'' False) \<Longrightarrow> mc_asks (mc_stat pid t e u d a)"
  "query_fine (loki_query e ''A'' ''instant'') \<Longrightarrow> mc_asks (mc_loki_stat pid t e d a)"
  "list_all query_fine qs \<Longrightarrow> mc_asks (mc_timeseries pid t qs u d a)"
  "list_all query_fine qs \<Longrightarrow> mc_asks (mc_bargauge pid t qs u d a)"
  "query_fine (prom_query e [] ''A'' ''time_series'' False) \<Longrightarrow> mc_asks (mc_gauge pid t e u d a)"
  "list_all query_fine qs \<Longrightarrow> mc_asks (mc_table pid t qs d a)"
  "list_all query_fine qs \<Longrightarrow> mc_asks (mc_piechart pid t qs u d a)"
  "list_all query_fine qs \<Longrightarrow> mc_asks (mc_state_timeline pid t qs d ms a)"
  "list_all query_fine qs \<Longrightarrow> mc_asks (mc_histogram pid t qs u d a)"
  "query_fine (loki_query e ''A'' ''range'') \<Longrightarrow> mc_asks (mc_logs_panel pid t e d a)"
  "mc_asks (Inr (mc_text pid c a))"
proof -
  have bind: "mc_asks (bindR m f)" if "\<And>x. mc_asks (f x)" for m :: "'z res" and f
    using that by (cases m) (auto simp: mc_asks_def)
  show "list_all query_fine qs \<Longrightarrow> mc_asks (mc_timeseries pid t qs u d a)"
    unfolding mc_timeseries_def Let_def by (intro bind panel_asks)
  show "mc_asks (Inr (mc_text pid c a))"
    by (simp add: mc_asks_def mc_text_def mc_data_group_def panel_queries_def Let_def)
qed (simp_all only: mc_stat_def mc_loki_stat_def mc_bargauge_def mc_gauge_def mc_table_def mc_piechart_def
    mc_state_timeline_def mc_histogram_def mc_logs_panel_def Let_def panel_asks list.pred_inject simp_thms)

text \<open>Reading a text with the two automata, a literal at a time.\<close>

definition r0 :: "rstate option" where
  "r0 = Some (0, None, None)"

definition m0 :: "mstate option" where
  "m0 = Some (Seen 0)"

lemma fine_rules:
  "ranges_fine e = rdone (rrun e r0)" "rdone r0" "vars_fine e = mdone (mrun e m0)" "mdone m0"
  by (simp_all add: ranges_fine_def r0_def rdone_def vars_fine_def m0_def mdone_def)

lemma rrun_ranges:
  "rrun (CHR ''['' # CHR ''$'' # CHR ''_'' # CHR ''_'' # CHR ''r'' # CHR ''a'' # CHR ''t'' # CHR ''e'' # CHR ''_'' # CHR ''i'' # CHR ''n'' # CHR ''t'' # CHR ''e'' # CHR ''r'' # CHR ''v'' # CHR ''a'' # CHR ''l'' # CHR '']'' # s)
     (Some (d, None, None)) = rrun s r0"
  "n + 17 < 400 \<Longrightarrow> rrun (CHR ''['' # CHR ''$'' # CHR ''_'' # CHR ''_'' # CHR ''r'' # CHR ''a'' # CHR ''t'' # CHR ''e'' # CHR ''_'' # CHR ''i'' # CHR ''n'' # CHR ''t'' # CHR ''e'' # CHR ''r'' # CHR ''v'' # CHR ''a'' # CHR ''l'' # CHR '']'' # s)
     (Some (d, Some n, None)) = rrun s r0"
  "rrun (CHR ''['' # CHR ''$'' # CHR ''_'' # CHR ''_'' # CHR ''a'' # CHR ''u'' # CHR ''t'' # CHR ''o'' # CHR '']'' # s)
     (Some (d, None, None)) = rrun s r0"
  "n + 8 < 400 \<Longrightarrow> rrun (CHR ''['' # CHR ''$'' # CHR ''_'' # CHR ''_'' # CHR ''a'' # CHR ''u'' # CHR ''t'' # CHR ''o'' # CHR '']'' # s)
     (Some (d, Some n, None)) = rrun s r0"
  "rrun (CHR ''['' # CHR ''$'' # CHR ''_'' # CHR ''_'' # CHR ''r'' # CHR ''a'' # CHR ''n'' # CHR ''g'' # CHR ''e'' # CHR '']'' # s)
     (Some (d, None, None)) = rrun s r0"
  "n + 9 < 400 \<Longrightarrow> rrun (CHR ''['' # CHR ''$'' # CHR ''_'' # CHR ''_'' # CHR ''r'' # CHR ''a'' # CHR ''n'' # CHR ''g'' # CHR ''e'' # CHR '']'' # s)
     (Some (d, Some n, None)) = rrun s r0"
  "rrun (CHR ''['' # CHR ''1'' # CHR ''h'' # CHR '']'' # s)
     (Some (d, None, None)) = rrun s r0"
  "n + 3 < 400 \<Longrightarrow> rrun (CHR ''['' # CHR ''1'' # CHR ''h'' # CHR '']'' # s)
     (Some (d, Some n, None)) = rrun s r0"
  "rrun (CHR ''['' # CHR ''2'' # CHR ''4'' # CHR ''h'' # CHR '']'' # s)
     (Some (d, None, None)) = rrun s r0"
  "n + 4 < 400 \<Longrightarrow> rrun (CHR ''['' # CHR ''2'' # CHR ''4'' # CHR ''h'' # CHR '']'' # s)
     (Some (d, Some n, None)) = rrun s r0"
  by (simp_all add: rrun_basic r0_def later_def RANGE_WINDOWS_def)

lemma rrun_range0:
  "rrun (CHR ''['' # CHR ''$'' # CHR ''_'' # CHR ''_'' # CHR ''r'' # CHR ''a'' # CHR ''t'' # CHR ''e'' # CHR ''_'' # CHR ''i'' # CHR ''n'' # CHR ''t'' # CHR ''e'' # CHR ''r'' # CHR ''v'' # CHR ''a'' # CHR ''l'' # CHR '']'' # s)
     r0 = rrun s r0"
  "rrun (CHR ''['' # CHR ''$'' # CHR ''_'' # CHR ''_'' # CHR ''a'' # CHR ''u'' # CHR ''t'' # CHR ''o'' # CHR '']'' # s)
     r0 = rrun s r0"
  "rrun (CHR ''['' # CHR ''$'' # CHR ''_'' # CHR ''_'' # CHR ''r'' # CHR ''a'' # CHR ''n'' # CHR ''g'' # CHR ''e'' # CHR '']'' # s)
     r0 = rrun s r0"
  "rrun (CHR ''['' # CHR ''1'' # CHR ''h'' # CHR '']'' # s)
     r0 = rrun s r0"
  "rrun (CHR ''['' # CHR ''2'' # CHR ''4'' # CHR ''h'' # CHR '']'' # s)
     r0 = rrun s r0"
  unfolding r0_def by (rule rrun_ranges [unfolded r0_def])+

lemma rrun_plain:
  "rrun [] st = st" "rrun (s @ t) st = rrun t (rrun s st)"
  "c \<notin> {CHR ''['', CHR ''t'', CHR ''s''} \<Longrightarrow> rrun (c # s) r0 = rrun s r0"
  "rrun (CHR ''t'' # s) r0 = rrun s (Some (1, None, None))"
  "rrun (CHR ''s'' # s) r0 = rrun s (Some (1, None, None))"
  by (simp_all add: rrun_basic r0_def next_e_def later_def)

lemma rrun_letters:
  "c \<noteq> CHR ''['' \<Longrightarrow> rrun (c # s) (Some (Suc 0, None, None)) =
     (if c = CHR ''e'' then rrun s (Some (2, None, None))
      else if c = CHR ''t'' \<or> c = CHR ''s'' then rrun s (Some (1, None, None)) else rrun s r0)"
  "c \<noteq> CHR ''['' \<Longrightarrow> rrun (c # s) (Some (2, None, None)) =
     (if c = CHR ''('' then rrun s (Some (0, Some 0, None))
      else if c = CHR ''t'' \<or> c = CHR ''s'' then rrun s (Some (1, None, None)) else rrun s r0)"
  "c \<noteq> CHR ''['' \<Longrightarrow> rrun (c # s) (Some (d, Some n, None)) = rrun s (Some (next_e d c, Some (n + 1), None))"
  by (simp_all add: rrun_basic r0_def next_e_def later_def)

lemma mrun_names:
  "mrun (CHR ''$'' # CHR ''w'' # CHR ''a'' # CHR ''n'' # CHR ''_'' # CHR ''n'' # CHR ''e'' # CHR ''t'' # CHR ''d'' # CHR ''e'' # CHR ''v'' # DQ # s)
     (Some (Seen 3)) = mrun s m0"
  "mrun (CHR ''$'' # CHR ''r'' # CHR ''o'' # CHR ''u'' # CHR ''t'' # CHR ''e'' # CHR ''r'' # DQ # s)
     (Some (Seen 3)) = mrun s m0"
  "mrun (CHR ''$'' # CHR ''d'' # CHR ''e'' # CHR ''v'' # CHR ''i'' # CHR ''c'' # CHR ''e'' # DQ # s)
     (Some (Seen 3)) = mrun s m0"
  "mrun (CHR ''$'' # CHR ''n'' # CHR ''e'' # CHR ''t'' # CHR ''d'' # CHR ''e'' # CHR ''v'' # DQ # s)
     (Some (Seen 3)) = mrun s m0"
  by (simp_all add: mrun_basic m0_def next_seen_def MATCHED_NAMES_def MULTI_VARS_def)

lemma mrun_plain:
  "mrun [] st = st" "mrun (s @ t) st = mrun t (mrun s st)"
  "c \<notin> {CHR ''='', CHR ''$''} \<Longrightarrow> mrun (c # s) m0 = mrun s m0"
  "mrun (CHR ''$'' # CHR ''_'' # s) m0 = mrun s m0" "mrun (CHR ''$'' # CHR ''1'' # s) m0 = mrun s m0"
  "mrun (CHR ''='' # s) m0 = mrun s (Some (Seen 1))"
  "c \<noteq> CHR ''$'' \<Longrightarrow> mrun (c # s) (Some (Seen k)) =
     (if next_seen k c = 0 then mrun s m0 else mrun s (Some (Seen (next_seen k c))))"
  by (simp_all add: mrun_basic m0_def next_seen_def)

lemma FILTER_runs:
  "rrun PROM_FILTER r0 = r0" "rrun PROM_FILTER (Some (d, None, None)) = r0"
  "rrun PROM_FILTER (Some (d, Some n, None)) = Some (0, Some (n + 32), None)"
  "mrun PROM_FILTER m0 = m0" "mrun LOKI_FILTER m0 = m0"
  "mrun PROM_FILTER (Some (Seen k)) = m0" "mrun LOKI_FILTER (Some (Seen k)) = m0"
  by (simp_all add: PROM_FILTER_def LOKI_FILTER_def r0_def m0_def rrun_basic next_e_def later_def
      mrun_basic next_seen_def MATCHED_NAMES_def MULTI_VARS_def)

lemmas ask_rules = maker_asks panel_asks query_fine_rules fine_rules rrun_range0 rrun_ranges rrun_plain
  rrun_letters next_e_def mrun_names mrun_plain next_seen_def FILTER_runs

end
