(* ===== verification/Mission_Tabs.thy ===== *)
theory Mission_Tabs
  imports Mission_Makers
begin

text \<open>
  The nine tabs of the mission control generator, read twice: against the table of their panel numbers
  and rectangles, and for the texts of their queries.
\<close>

section \<open>Names and constants\<close>

definition MC_NAMES :: "string list" where
  "MC_NAMES = [''DS_PROMETHEUS'', ''DS_LOKI'', ''router'', ''wan_netdev'', ''device'', ''netdev''] @ MC_GLOBALS"

lemma mc_names [simp]:
  "''DS_PROMETHEUS'' \<in> set MC_NAMES" "''DS_LOKI'' \<in> set MC_NAMES" "''router'' \<in> set MC_NAMES"
  "''wan_netdev'' \<in> set MC_NAMES" "''device'' \<in> set MC_NAMES" "''netdev'' \<in> set MC_NAMES"
  "''__all'' \<in> set MC_NAMES" "''__range'' \<in> set MC_NAMES" "''__rate_interval'' \<in> set MC_NAMES"
  "''__auto'' \<in> set MC_NAMES" "''__data'' \<in> set MC_NAMES" "''__url_time_range'' \<in> set MC_NAMES"
  "''__range_s'' \<in> set MC_NAMES"
  by (simp_all add: MC_NAMES_def MC_GLOBALS_def)

lemma known_units:
  "''none'' \<in> set KNOWN_UNITS" "''percent'' \<in> set KNOWN_UNITS" "''percentunit'' \<in> set KNOWN_UNITS"
  "''s'' \<in> set KNOWN_UNITS" "''ms'' \<in> set KNOWN_UNITS" "''bytes'' \<in> set KNOWN_UNITS" "''bps'' \<in> set KNOWN_UNITS"
  "''Bps'' \<in> set KNOWN_UNITS" "''pps'' \<in> set KNOWN_UNITS" "''cps'' \<in> set KNOWN_UNITS" "''reqps'' \<in> set KNOWN_UNITS"
  "''dBm'' \<in> set KNOWN_UNITS" "''celsius'' \<in> set KNOWN_UNITS" "''rotmhz'' \<in> set KNOWN_UNITS"
  "''dateTimeAsIso'' \<in> set KNOWN_UNITS"
  by (simp_all add: KNOWN_UNITS_def)

lemma device_runs [panel_text]:
  "run MC_NAMES ALLOY_FILTER c0 = c0" "run MC_NAMES DEV_DL c0 = c0" "run MC_NAMES DEV_UL c0 = c0"
  "run MC_NAMES DEV_TOTAL c0 = c0" "run MC_NAMES mc_TRAFFIC_BY_MAC c0 = c0"
  "run MC_NAMES WIFI_SIGNAL_NAMED c0 = c0" "run MC_NAMES WIFI_SIGNAL_PLAIN c0 = c0"
  "run MC_NAMES mc_dns_local c0 = c0" "run MC_NAMES mc_dns_fwd c0 = c0"
  by (simp_all add: ALLOY_FILTER_def DEV_DL_def DEV_UL_def DEV_TOTAL_def mc_TRAFFIC_BY_MAC_def
      WIFI_SIGNAL_NAMED_def WIFI_SIGNAL_PLAIN_def mc_dns_local_def mc_dns_fwd_def panel_text
      del: append.simps append_assoc)

lemmas graph_defs = mc_NODES_EXPR_def mc_EDGES_EXPR_def mc_nodes_expr_def mc_edges_expr_def
  mc_prefer_authority_def mc_infra_as_def mc_with_traffic_def mc_traffic_as_def Let_def

lemma graph_runs [panel_text]:
  "run MC_NAMES mc_NODES_EXPR c0 = c0" "run MC_NAMES mc_EDGES_EXPR c0 = c0"
  by (simp_all add: graph_defs panel_text del: append.simps append_assoc)

lemma mc_cleans [panel_text]:
  "clean MC_NAMES DEV_DL" "clean MC_NAMES DEV_UL" "clean MC_NAMES DEV_TOTAL"
  "clean MC_NAMES WIFI_SIGNAL_NAMED" "clean MC_NAMES WIFI_SIGNAL_PLAIN" "clean MC_NAMES mc_dns_local"
  "clean MC_NAMES mc_dns_fwd" "clean MC_NAMES mc_NODES_EXPR" "clean MC_NAMES mc_EDGES_EXPR"
  by (simp_all add: clean_run device_runs graph_runs)

section \<open>The tabs\<close>

text \<open>A tab whose panels are good and have the numbers and rectangles of a table.\<close>

type_synonym mc_row = "int \<times> int \<times> int \<times> int \<times> int"

definition laid :: "mc_placement list \<Rightarrow> mc_row list \<Rightarrow> bool" where
  "laid ps rows = list_all2 (\<lambda>p t. mc_good MC_NAMES (fst t) (fst p) \<and> snd p = snd t) ps rows"

lemma laid_rules:
  "laid [] []"
  "laid (p # ps) (t # rows) = (mc_good MC_NAMES (fst t) (fst p) \<and> snd p = snd t \<and> laid ps rows)"
  by (simp_all add: laid_def)

lemmas mc_rules = laid_rules good_pieces deliberate mission panel_text visible_first visible_rules(3) known_units

lemma laid_overview_1: "laid mc_overview_1
    [(101, 0, 0, 24, 4), (102, 0, 4, 4, 4), (103, 4, 4, 4, 4), (104, 8, 4, 4, 4),
     (105, 12, 4, 4, 4)]"
  by (simp add: mc_overview_1_def mc_rules del: append.simps append_assoc)

lemma laid_overview_2: "laid mc_overview_2
    [(106, 16, 4, 4, 4), (107, 20, 4, 4, 4), (108, 0, 8, 12, 9), (109, 12, 8, 12, 9)]"
  by (simp add: mc_overview_2_def mc_rules del: append.simps append_assoc)

lemma laid_wan_1: "laid mc_wan_1
    [(201, 0, 0, 12, 9), (202, 12, 0, 12, 9), (203, 0, 9, 12, 9), (204, 12, 9, 12, 9),
     (205, 0, 18, 12, 9)]"
  by (simp add: mc_wan_1_def mc_rules del: append.simps append_assoc)

lemma laid_wan_2: "laid mc_wan_2
    [(206, 12, 18, 6, 9), (207, 18, 18, 6, 4), (208, 18, 22, 6, 5)]"
  by (simp add: mc_wan_2_def mc_rules del: append.simps append_assoc)

lemma laid_wifi_1: "laid mc_wifi_1
    [(301, 0, 0, 4, 4), (302, 4, 0, 4, 4), (303, 8, 0, 4, 4), (304, 12, 0, 12, 8),
     (305, 0, 8, 12, 8), (306, 12, 8, 12, 8), (307, 0, 16, 12, 8), (308, 12, 16, 12, 8)]"
  by (simp add: mc_wifi_1_def mc_rules del: append.simps append_assoc)

lemma laid_wifi_2: "laid mc_wifi_2
    [(309, 0, 24, 12, 8), (310, 12, 24, 12, 8)]"
  by (simp add: mc_wifi_2_def mc_rules del: append.simps append_assoc)

lemma laid_wifi_3: "laid mc_wifi_3
    [(311, 0, 32, 24, 7)]"
  by (simp add: mc_wifi_3_def mc_rules del: append.simps append_assoc)

lemma laid_lan_1: "laid mc_lan_1
    [(401, 0, 0, 5, 5), (402, 5, 0, 5, 5), (403, 10, 0, 14, 5), (404, 0, 5, 12, 9),
     (405, 12, 5, 12, 9), (406, 0, 14, 24, 9)]"
  by (simp add: mc_lan_1_def mc_rules del: append.simps append_assoc)

lemma laid_lan_2: "laid mc_lan_2
    [(407, 0, 23, 14, 10), (408, 14, 23, 10, 10), (409, 0, 33, 24, 8)]"
  by (simp add: mc_lan_2_def mc_rules del: append.simps append_assoc)

lemma laid_dns_dhcp_1: "laid mc_dns_dhcp_1
    [(501, 0, 0, 5, 5), (502, 5, 0, 5, 5), (503, 10, 0, 5, 5), (504, 15, 0, 9, 5),
     (505, 0, 5, 12, 8)]"
  by (simp add: mc_dns_dhcp_1_def mc_rules del: append.simps append_assoc)

lemma laid_dns_dhcp_2: "laid mc_dns_dhcp_2
    [(506, 12, 5, 12, 8), (507, 0, 13, 12, 8), (508, 12, 13, 12, 8), (509, 0, 21, 24, 7)]"
  by (simp add: mc_dns_dhcp_2_def mc_rules del: append.simps append_assoc)

lemma laid_health_1: "laid mc_health_1
    [(601, 0, 0, 4, 4), (602, 4, 0, 4, 4), (603, 8, 0, 4, 4), (604, 12, 0, 4, 4),
     (605, 16, 0, 4, 4), (606, 20, 0, 4, 4), (607, 0, 4, 8, 8), (608, 8, 4, 8, 8)]"
  by (simp add: mc_health_1_def mc_rules del: append.simps append_assoc)

lemma laid_health_2: "laid mc_health_2
    [(609, 16, 4, 8, 8), (610, 0, 12, 12, 8), (611, 12, 12, 12, 8), (612, 0, 20, 24, 6),
     (613, 0, 26, 12, 8), (614, 12, 26, 12, 8)]"
  by (simp add: mc_health_2_def mc_rules del: append.simps append_assoc)

lemma laid_topology_1: "laid mc_topology_1
    [(701, 0, 0, 24, 5), (702, 0, 5, 4, 4), (703, 4, 5, 4, 4), (704, 8, 5, 4, 4),
     (705, 12, 5, 12, 13)]"
  by (simp add: mc_topology_1_def mc_rules del: append.simps append_assoc)

lemma laid_topology_2: "laid mc_topology_2
    [(706, 0, 9, 12, 9), (707, 0, 18, 24, 17)]"
  by (simp add: mc_topology_2_def mc_rules del: append.simps append_assoc)

lemma laid_logs: "laid mc_logs
    [(801, 0, 0, 6, 4), (802, 6, 0, 6, 4), (803, 12, 0, 6, 4), (804, 18, 0, 6, 4),
     (805, 0, 4, 14, 9), (806, 14, 4, 10, 9), (807, 0, 13, 12, 11), (808, 12, 13, 12, 11)]"
  by (simp add: mc_logs_def mc_rules del: append.simps append_assoc)

lemma laid_diagnostics_1: "laid mc_diagnostics_1
    [(901, 0, 0, 6, 4), (902, 6, 0, 6, 4), (903, 12, 0, 6, 4), (904, 18, 0, 6, 4),
     (905, 0, 4, 12, 9)]"
  by (simp add: mc_diagnostics_1_def mc_rules del: append.simps append_assoc)

lemma laid_diagnostics_2: "laid mc_diagnostics_2
    [(906, 12, 4, 12, 9), (907, 0, 13, 12, 10), (908, 12, 13, 12, 10)]"
  by (simp add: mc_diagnostics_2_def mc_rules del: append.simps append_assoc)

section \<open>The queries\<close>

definition asks :: "mc_placement list \<Rightarrow> bool" where
  "asks ps = list_all (\<lambda>p. mc_asks (fst p)) ps"

lemma asks_rules: "asks []" "asks (p # ps) = (mc_asks (fst p) \<and> asks ps)"
  by (simp_all add: asks_def)

lemma const_rruns:
  "rrun DEV_DL r0 = r0" "rrun DEV_UL r0 = r0" "rrun DEV_TOTAL r0 = r0" "rrun mc_TRAFFIC_BY_MAC r0 = r0"
  "rrun WIFI_SIGNAL_NAMED r0 = r0" "rrun WIFI_SIGNAL_PLAIN r0 = r0" "rrun mc_dns_local r0 = r0"
  "rrun mc_dns_fwd r0 = r0" "rrun ALLOY_FILTER r0 = r0"
  "rrun ALLOY_FILTER (Some (0, Some n, None)) = Some (0, Some (n + 27), None)"
  by (simp_all add: DEV_DL_def DEV_UL_def DEV_TOTAL_def mc_TRAFFIC_BY_MAC_def WIFI_SIGNAL_NAMED_def
      WIFI_SIGNAL_PLAIN_def mc_dns_local_def mc_dns_fwd_def ALLOY_FILTER_def ask_rules
      del: append.simps append_assoc)

lemma graph_rruns: "rrun mc_NODES_EXPR r0 = r0" "rrun mc_EDGES_EXPR r0 = r0"
  by (simp_all add: graph_defs const_rruns ask_rules del: append.simps append_assoc)

lemma const_mruns:
  "mrun DEV_DL m0 = m0" "mrun DEV_UL m0 = m0" "mrun DEV_TOTAL m0 = m0" "mrun mc_TRAFFIC_BY_MAC m0 = m0"
  "mrun WIFI_SIGNAL_NAMED m0 = m0" "mrun WIFI_SIGNAL_PLAIN m0 = m0" "mrun mc_dns_local m0 = m0"
  "mrun mc_dns_fwd m0 = m0" "mrun ALLOY_FILTER m0 = m0" "mrun CRON_CMD_FILTER m0 = m0"
  by (simp_all add: DEV_DL_def DEV_UL_def DEV_TOTAL_def mc_TRAFFIC_BY_MAC_def WIFI_SIGNAL_NAMED_def
      WIFI_SIGNAL_PLAIN_def mc_dns_local_def mc_dns_fwd_def ALLOY_FILTER_def CRON_CMD_FILTER_def ask_rules
      del: append.simps append_assoc)

lemma graph_mruns: "mrun mc_NODES_EXPR m0 = m0" "mrun mc_EDGES_EXPR m0 = m0"
  by (simp_all add: graph_defs const_mruns ask_rules del: append.simps append_assoc)

lemmas mc_ask_rules = asks_rules ask_rules const_rruns graph_rruns graph_mruns const_mruns

lemma asks_overview_1: "asks mc_overview_1"
  by (simp add: mc_overview_1_def mc_ask_rules del: append.simps append_assoc)

lemma asks_overview_2: "asks mc_overview_2"
  by (simp add: mc_overview_2_def mc_ask_rules del: append.simps append_assoc)

lemma asks_wan_1: "asks mc_wan_1"
  by (simp add: mc_wan_1_def mc_ask_rules del: append.simps append_assoc)

lemma asks_wan_2: "asks mc_wan_2"
  by (simp add: mc_wan_2_def mc_ask_rules del: append.simps append_assoc)

lemma asks_wifi_1: "asks mc_wifi_1"
  by (simp add: mc_wifi_1_def mc_ask_rules del: append.simps append_assoc)

lemma asks_wifi_2: "asks mc_wifi_2"
  by (simp add: mc_wifi_2_def mc_ask_rules del: append.simps append_assoc)

lemma asks_wifi_3: "asks mc_wifi_3"
  by (simp add: mc_wifi_3_def mc_ask_rules del: append.simps append_assoc)

lemma asks_lan_1: "asks mc_lan_1"
  by (simp add: mc_lan_1_def mc_ask_rules del: append.simps append_assoc)

lemma asks_lan_2: "asks mc_lan_2"
  by (simp add: mc_lan_2_def mc_ask_rules del: append.simps append_assoc)

lemma asks_dns_dhcp_1: "asks mc_dns_dhcp_1"
  by (simp add: mc_dns_dhcp_1_def mc_ask_rules del: append.simps append_assoc)

lemma asks_dns_dhcp_2: "asks mc_dns_dhcp_2"
  by (simp add: mc_dns_dhcp_2_def mc_ask_rules del: append.simps append_assoc)

lemma asks_health_1: "asks mc_health_1"
  by (simp add: mc_health_1_def mc_ask_rules del: append.simps append_assoc)

lemma asks_health_2: "asks mc_health_2"
  by (simp add: mc_health_2_def mc_ask_rules del: append.simps append_assoc)

lemma asks_topology_1: "asks mc_topology_1"
  by (simp add: mc_topology_1_def mc_ask_rules del: append.simps append_assoc)

lemma asks_topology_2: "asks mc_topology_2"
  by (simp add: mc_topology_2_def mc_ask_rules del: append.simps append_assoc)

lemma asks_logs: "asks mc_logs"
  by (simp add: mc_logs_def mc_ask_rules del: append.simps append_assoc)

lemma asks_diagnostics_1: "asks mc_diagnostics_1"
  by (simp add: mc_diagnostics_1_def mc_ask_rules del: append.simps append_assoc)

lemma asks_diagnostics_2: "asks mc_diagnostics_2"
  by (simp add: mc_diagnostics_2_def mc_ask_rules del: append.simps append_assoc)

end
