(* ===== verification/Mission_Patch.thy ===== *)
theory Mission_Patch
  imports Mission_Tabs Document
begin

text \<open>
  The edit of panel 908, followed through the panels and their queries: the edited panels still have
  the numbers and rectangles of the tables, are good and ask nothing that is not allowed.
\<close>

section \<open>The edit of one panel\<close>

definition patch_item :: "item \<Rightarrow> item res" where
  "patch_item it = (if fst it = ''panel-908'' then
     bindR (jedit [Key ''spec'', Key ''data'', Key ''spec'', Key ''transformations'', Idx 1, Key ''spec'',
       Key ''options'', Key ''excludeByName''] (jpop ''__name__'') (snd it)) (\<lambda>el. Inr (fst it, el))
     else Inr it)"

lemma key_908: "0 \<le> pid \<Longrightarrow> panel_key pid = ''panel-908'' \<longleftrightarrow> pid = 908"
proof -
  assume "0 \<le> pid"
  moreover have "''panel-908'' = panel_key 908" by code_simp
  ultimately show ?thesis
    by (metis append_same_eq panel_key_def same_append_eq show_int_inj zero_le_numeral)
qed

lemma patch_other:
  assumes "mc_good ok pid r" "0 \<le> pid" "pid \<noteq> 908"
  shows "mc_good ok pid (bindR r patch_item)"
proof -
  obtain el where "r = Inr (panel_key pid, el)" using assms(1) by (auto simp: mc_good_def)
  then have "bindR r patch_item = r" using assms(2,3) by (simp add: patch_item_def key_908)
  then show ?thesis using assms(1) by simp
qed

lemma delete_excluded:
  "AList.delete k (map (\<lambda>name. (name, JBool True)) xs) = map (\<lambda>name. (name, JBool True)) (filter (\<lambda>n. n \<noteq> k) xs)"
  by (induction xs) auto

lemma patch_table:
  assumes "m_transformations a = Some [t1, mc_clean rn ex kp, t3]"
  shows "bindR (mc_table 908 t qs d a) patch_item = mc_table 908 t qs d (a\<lparr>m_transformations := Some
    [t1, organize (filter (\<lambda>n. n \<noteq> ''__name__'') (MC_NOISE_COLUMNS @ ex)) rn
      (if kp \<noteq> [] then zip kp (map int [0..<length kp]) else []), t3]\<rparr>)"
proof (cases "visible d")
  case True
  then show ?thesis
    by (simp add: mc_table_def mc_panel_Inr patch_item_def key_908 mc_element_def mc_data_group_def assms
        mc_clean_def organize_def tf_def delete_excluded del: filter_append map_append)
qed (simp add: mc_table_def mc_panel_Inr)

section \<open>The tabs, edited\<close>

text \<open>The placement of a panel that was made, and the same after the edit.\<close>

definition plain :: "mc_placement \<Rightarrow> placement" where
  "plain p = (projr (fst p), snd p)"

definition edited :: "mc_placement \<Rightarrow> placement" where
  "edited p = (projr (bindR (fst p) patch_item), snd p)"

text \<open>What a placement of a tab is known to satisfy, given its row of the table.\<close>

definition settled :: "mc_placement \<Rightarrow> mc_row \<Rightarrow> bool" where
  "settled p t = (0 \<le> fst t \<and> mc_good MC_NAMES (fst t) (fst p) \<and>
     mc_good MC_NAMES (fst t) (bindR (fst p) patch_item) \<and> mc_asks (bindR (fst p) patch_item) \<and> snd p = snd t)"

lemma patch_noop:
  assumes "mc_good ok pid r" "0 \<le> pid" "pid \<noteq> 908"
  shows "bindR r patch_item = r"
proof -
  obtain el where "r = Inr (panel_key pid, el)" using assms(1) by (auto simp: mc_good_def)
  then show ?thesis using assms(2,3) by (simp add: patch_item_def key_908)
qed

definition usual :: "mc_row list \<Rightarrow> bool" where
  "usual rows = list_all (\<lambda>t. 0 \<le> fst t \<and> fst t \<noteq> 908) rows"

lemma laid_settled:
  "laid ps rows \<Longrightarrow> asks ps \<Longrightarrow> usual rows \<Longrightarrow> list_all2 settled ps rows"
proof (induction ps arbitrary: rows)
  case (Cons p ps)
  then obtain t rows' where t: "rows = t # rows'" by (cases rows) (auto simp: laid_def)
  then have "settled p t"
    using Cons.prems patch_noop by (auto simp: laid_rules asks_rules usual_def settled_def)
  then show ?case using Cons t by (auto simp: laid_rules asks_rules usual_def)
qed (auto simp: laid_def)

text \<open>The table that is edited.\<close>

definition numbered :: "string list \<Rightarrow> (string \<times> int) list" where
  "numbered kp = (if kp \<noteq> [] then zip kp (map int [0..<length kp]) else [])"

lemma numbered_rules:
  "list_all (clean ok) kp \<Longrightarrow> list_all (\<lambda>p. clean ok (fst p)) (numbered kp)"
  "''steps'' \<notin> set kp \<Longrightarrow> ''steps'' \<notin> fst ` set (numbered kp)"
  by (auto simp: numbered_def list_all_iff dest: set_zip_leftD)

lemma patch_collector:
  "bindR (mc_table 908 t qs d (mkw\<lparr>m_transformations := Some [t1, mc_clean rn ex kp, t3], m_overrides := ov,
     m_sort_col := sc, m_sort_desc := sd\<rparr>)) patch_item =
   mc_table 908 t qs d (mkw\<lparr>m_transformations := Some
    [t1, organize (filter (\<lambda>n. n \<noteq> ''__name__'') (MC_NOISE_COLUMNS @ ex)) rn
      (numbered kp), t3], m_overrides := ov,
     m_sort_col := sc, m_sort_desc := sd\<rparr>)"
  unfolding numbered_def by (subst patch_table [of _ t1 rn ex kp t3]) (simp_all add: mc_table_def split del: if_split cong del: if_weak_cong)

lemma collector_table:
  "mc_good MC_NAMES 908 (bindR (fst (mc_diagnostics_2 ! 2)) patch_item)"
  "mc_asks (bindR (fst (mc_diagnostics_2 ! 2)) patch_item)"
  by (simp_all add: mc_diagnostics_2_def patch_collector numbered_rules MC_NOISE_COLUMNS_def mc_rules mc_ask_rules
      del: append.simps append_assoc)

text \<open>The last part of the last tab: two panels and the edited one.\<close>

lemma three: "length xs = 3 \<Longrightarrow> xs = [xs ! 0, xs ! 1, xs ! 2]"
  by (rule nth_equalityI) (auto simp: numeral_3_eq_3 numeral_2_eq_2 less_Suc_eq)

lemma settled_diagnostics_2:
  "list_all2 settled mc_diagnostics_2 [(906, 12, 4, 12, 9), (907, 0, 13, 12, 10), (908, 12, 13, 12, 10)]"
proof -
  define p where "p = mc_diagnostics_2"
  have p: "p = [p ! 0, p ! 1, p ! 2]" by (rule three) (simp add: p_def mc_diagnostics_2_def)
  have l: "laid p [(906, 12, 4, 12, 9), (907, 0, 13, 12, 10), (908, 12, 13, 12, 10)]"
    unfolding p_def by (rule laid_diagnostics_2)
  have a: "asks p" unfolding p_def by (rule asks_diagnostics_2)
  have "laid [p ! 0, p ! 1] [(906, 12, 4, 12, 9), (907, 0, 13, 12, 10)]" "asks [p ! 0, p ! 1]"
    using l a by (subst (asm) (1 2) p; simp add: laid_rules asks_rules)+
  then have "list_all2 settled [p ! 0, p ! 1] [(906, 12, 4, 12, 9), (907, 0, 13, 12, 10)]"
    by (rule laid_settled) (simp add: usual_def)
  moreover have "settled (p ! 2) (908, 12, 13, 12, 10)"
  proof -
    have "mc_good MC_NAMES 908 (fst (p ! 2)) \<and> snd (p ! 2) = (12, 13, 12, 10)"
      using l by (subst (asm) p) (simp add: laid_rules)
    then show ?thesis using collector_table unfolding settled_def p_def by simp
  qed
  ultimately show ?thesis unfolding p_def [symmetric] by (subst p) simp
qed

text \<open>The other parts.\<close>

lemma settled_overview_1: "list_all2 settled mc_overview_1
    [(101, 0, 0, 24, 4), (102, 0, 4, 4, 4), (103, 4, 4, 4, 4), (104, 8, 4, 4, 4),
     (105, 12, 4, 4, 4)]"
  by (rule laid_settled [OF laid_overview_1 asks_overview_1]) (simp add: usual_def)

lemma settled_overview_2: "list_all2 settled mc_overview_2
    [(106, 16, 4, 4, 4), (107, 20, 4, 4, 4), (108, 0, 8, 12, 9), (109, 12, 8, 12, 9)]"
  by (rule laid_settled [OF laid_overview_2 asks_overview_2]) (simp add: usual_def)

lemma settled_wan_1: "list_all2 settled mc_wan_1
    [(201, 0, 0, 12, 9), (202, 12, 0, 12, 9), (203, 0, 9, 12, 9), (204, 12, 9, 12, 9),
     (205, 0, 18, 12, 9)]"
  by (rule laid_settled [OF laid_wan_1 asks_wan_1]) (simp add: usual_def)

lemma settled_wan_2: "list_all2 settled mc_wan_2
    [(206, 12, 18, 6, 9), (207, 18, 18, 6, 4), (208, 18, 22, 6, 5)]"
  by (rule laid_settled [OF laid_wan_2 asks_wan_2]) (simp add: usual_def)

lemma settled_wifi_1: "list_all2 settled mc_wifi_1
    [(301, 0, 0, 4, 4), (302, 4, 0, 4, 4), (303, 8, 0, 4, 4), (304, 12, 0, 12, 8),
     (305, 0, 8, 12, 8), (306, 12, 8, 12, 8), (307, 0, 16, 12, 8), (308, 12, 16, 12, 8)]"
  by (rule laid_settled [OF laid_wifi_1 asks_wifi_1]) (simp add: usual_def)

lemma settled_wifi_2: "list_all2 settled mc_wifi_2
    [(309, 0, 24, 12, 8), (310, 12, 24, 12, 8)]"
  by (rule laid_settled [OF laid_wifi_2 asks_wifi_2]) (simp add: usual_def)

lemma settled_wifi_3: "list_all2 settled mc_wifi_3
    [(311, 0, 32, 24, 7)]"
  by (rule laid_settled [OF laid_wifi_3 asks_wifi_3]) (simp add: usual_def)

lemma settled_lan_1: "list_all2 settled mc_lan_1
    [(401, 0, 0, 5, 5), (402, 5, 0, 5, 5), (403, 10, 0, 14, 5), (404, 0, 5, 12, 9),
     (405, 12, 5, 12, 9), (406, 0, 14, 24, 9)]"
  by (rule laid_settled [OF laid_lan_1 asks_lan_1]) (simp add: usual_def)

lemma settled_lan_2: "list_all2 settled mc_lan_2
    [(407, 0, 23, 14, 10), (408, 14, 23, 10, 10), (409, 0, 33, 24, 8)]"
  by (rule laid_settled [OF laid_lan_2 asks_lan_2]) (simp add: usual_def)

lemma settled_dns_dhcp_1: "list_all2 settled mc_dns_dhcp_1
    [(501, 0, 0, 5, 5), (502, 5, 0, 5, 5), (503, 10, 0, 5, 5), (504, 15, 0, 9, 5),
     (505, 0, 5, 12, 8)]"
  by (rule laid_settled [OF laid_dns_dhcp_1 asks_dns_dhcp_1]) (simp add: usual_def)

lemma settled_dns_dhcp_2: "list_all2 settled mc_dns_dhcp_2
    [(506, 12, 5, 12, 8), (507, 0, 13, 12, 8), (508, 12, 13, 12, 8), (509, 0, 21, 24, 7)]"
  by (rule laid_settled [OF laid_dns_dhcp_2 asks_dns_dhcp_2]) (simp add: usual_def)

lemma settled_health_1: "list_all2 settled mc_health_1
    [(601, 0, 0, 4, 4), (602, 4, 0, 4, 4), (603, 8, 0, 4, 4), (604, 12, 0, 4, 4),
     (605, 16, 0, 4, 4), (606, 20, 0, 4, 4), (607, 0, 4, 8, 8), (608, 8, 4, 8, 8)]"
  by (rule laid_settled [OF laid_health_1 asks_health_1]) (simp add: usual_def)

lemma settled_health_2: "list_all2 settled mc_health_2
    [(609, 16, 4, 8, 8), (610, 0, 12, 12, 8), (611, 12, 12, 12, 8), (612, 0, 20, 24, 6),
     (613, 0, 26, 12, 8), (614, 12, 26, 12, 8)]"
  by (rule laid_settled [OF laid_health_2 asks_health_2]) (simp add: usual_def)

lemma settled_topology_1: "list_all2 settled mc_topology_1
    [(701, 0, 0, 24, 5), (702, 0, 5, 4, 4), (703, 4, 5, 4, 4), (704, 8, 5, 4, 4),
     (705, 12, 5, 12, 13)]"
  by (rule laid_settled [OF laid_topology_1 asks_topology_1]) (simp add: usual_def)

lemma settled_topology_2: "list_all2 settled mc_topology_2
    [(706, 0, 9, 12, 9), (707, 0, 18, 24, 17)]"
  by (rule laid_settled [OF laid_topology_2 asks_topology_2]) (simp add: usual_def)

lemma settled_logs: "list_all2 settled mc_logs
    [(801, 0, 0, 6, 4), (802, 6, 0, 6, 4), (803, 12, 0, 6, 4), (804, 18, 0, 6, 4),
     (805, 0, 4, 14, 9), (806, 14, 4, 10, 9), (807, 0, 13, 12, 11), (808, 12, 13, 12, 11)]"
  by (rule laid_settled [OF laid_logs asks_logs]) (simp add: usual_def)

lemma settled_diagnostics_1: "list_all2 settled mc_diagnostics_1
    [(901, 0, 0, 6, 4), (902, 6, 0, 6, 4), (903, 12, 0, 6, 4), (904, 18, 0, 6, 4),
     (905, 0, 4, 12, 9)]"
  by (rule laid_settled [OF laid_diagnostics_1 asks_diagnostics_1]) (simp add: usual_def)

section \<open>The whole table\<close>

text \<open>For each tab the number of a panel and its column, row, width and height.\<close>

definition mc_grid :: "mc_row list list" where
  "mc_grid =
    [[(101, 0, 0, 24, 4), (102, 0, 4, 4, 4), (103, 4, 4, 4, 4), (104, 8, 4, 4, 4),
     (105, 12, 4, 4, 4), (106, 16, 4, 4, 4), (107, 20, 4, 4, 4), (108, 0, 8, 12, 9),
     (109, 12, 8, 12, 9)],
     [(201, 0, 0, 12, 9), (202, 12, 0, 12, 9), (203, 0, 9, 12, 9), (204, 12, 9, 12, 9),
     (205, 0, 18, 12, 9), (206, 12, 18, 6, 9), (207, 18, 18, 6, 4), (208, 18, 22, 6, 5)],
     [(301, 0, 0, 4, 4), (302, 4, 0, 4, 4), (303, 8, 0, 4, 4), (304, 12, 0, 12, 8),
     (305, 0, 8, 12, 8), (306, 12, 8, 12, 8), (307, 0, 16, 12, 8), (308, 12, 16, 12, 8),
     (309, 0, 24, 12, 8), (310, 12, 24, 12, 8), (311, 0, 32, 24, 7)],
     [(401, 0, 0, 5, 5), (402, 5, 0, 5, 5), (403, 10, 0, 14, 5), (404, 0, 5, 12, 9),
     (405, 12, 5, 12, 9), (406, 0, 14, 24, 9), (407, 0, 23, 14, 10), (408, 14, 23, 10, 10),
     (409, 0, 33, 24, 8)],
     [(501, 0, 0, 5, 5), (502, 5, 0, 5, 5), (503, 10, 0, 5, 5), (504, 15, 0, 9, 5),
     (505, 0, 5, 12, 8), (506, 12, 5, 12, 8), (507, 0, 13, 12, 8), (508, 12, 13, 12, 8),
     (509, 0, 21, 24, 7)],
     [(601, 0, 0, 4, 4), (602, 4, 0, 4, 4), (603, 8, 0, 4, 4), (604, 12, 0, 4, 4),
     (605, 16, 0, 4, 4), (606, 20, 0, 4, 4), (607, 0, 4, 8, 8), (608, 8, 4, 8, 8),
     (609, 16, 4, 8, 8), (610, 0, 12, 12, 8), (611, 12, 12, 12, 8), (612, 0, 20, 24, 6),
     (613, 0, 26, 12, 8), (614, 12, 26, 12, 8)],
     [(701, 0, 0, 24, 5), (702, 0, 5, 4, 4), (703, 4, 5, 4, 4), (704, 8, 5, 4, 4),
     (705, 12, 5, 12, 13), (706, 0, 9, 12, 9), (707, 0, 18, 24, 17)],
     [(801, 0, 0, 6, 4), (802, 6, 0, 6, 4), (803, 12, 0, 6, 4), (804, 18, 0, 6, 4),
     (805, 0, 4, 14, 9), (806, 14, 4, 10, 9), (807, 0, 13, 12, 11), (808, 12, 13, 12, 11)],
     [(901, 0, 0, 6, 4), (902, 6, 0, 6, 4), (903, 12, 0, 6, 4), (904, 18, 0, 6, 4),
     (905, 0, 4, 12, 9), (906, 12, 4, 12, 9), (907, 0, 13, 12, 10), (908, 12, 13, 12, 10)]]"

lemmas settled_parts = settled_overview_1 settled_overview_2 settled_wan_1 settled_wan_2 settled_wifi_1
  settled_wifi_2 settled_wifi_3 settled_lan_1 settled_lan_2 settled_dns_dhcp_1 settled_dns_dhcp_2
  settled_health_1 settled_health_2 settled_topology_1 settled_topology_2 settled_logs
  settled_diagnostics_1 settled_diagnostics_2

lemmas mc_tab_defs = mc_overview_def mc_wan_def mc_wifi_def mc_lan_def mc_dns_dhcp_def mc_health_def
  mc_topology_def mc_diagnostics_def

lemma settled_tab:
  "list_all2 settled mc_overview (mc_grid ! 0)" "list_all2 settled mc_wan (mc_grid ! 1)"
  "list_all2 settled mc_wifi (mc_grid ! 2)" "list_all2 settled mc_lan (mc_grid ! 3)"
  "list_all2 settled mc_dns_dhcp (mc_grid ! 4)" "list_all2 settled mc_health (mc_grid ! 5)"
  "list_all2 settled mc_topology (mc_grid ! 6)" "list_all2 settled mc_logs (mc_grid ! 7)"
  "list_all2 settled mc_diagnostics (mc_grid ! 8)"
  using list_all2_appendI [OF settled_overview_1 settled_overview_2]
    list_all2_appendI [OF settled_wan_1 settled_wan_2]
    list_all2_appendI [OF settled_wifi_1 list_all2_appendI [OF settled_wifi_2 settled_wifi_3]]
    list_all2_appendI [OF settled_lan_1 settled_lan_2] list_all2_appendI [OF settled_dns_dhcp_1 settled_dns_dhcp_2]
    list_all2_appendI [OF settled_health_1 settled_health_2]
    list_all2_appendI [OF settled_topology_1 settled_topology_2] settled_logs
    list_all2_appendI [OF settled_diagnostics_1 settled_diagnostics_2]
  by (simp_all only: mc_tab_defs) (simp_all add: mc_grid_def)

lemma settled_tabs: "list_all2 (list_all2 settled) (map snd mc_tabs) mc_grid"
proof -
  have grid: "mc_grid = map (\<lambda>n. mc_grid ! n) [0, 1, 2, 3, 4, 5, 6, 7, 8]" by (simp add: mc_grid_def)
  have tabs: "map snd mc_tabs = [mc_overview, mc_wan, mc_wifi, mc_lan, mc_dns_dhcp, mc_health,
      mc_topology, mc_logs, mc_diagnostics]"
    by (simp add: mc_tabs_def TAB_TITLES_def)
  show ?thesis unfolding tabs
    by (subst grid) (simp only: list.map list.rel_inject list.rel_intros settled_tab simp_thms)
qed

end
