(* ===== verification/Mission_Built.thy ===== *)
theory Mission_Built
  imports Mission_Patch
begin

text \<open>
  The mission control generator returns a dashboard. With the facts on every placement what is left are
  the table of numbers and rectangles, the template variables and the words of the document.
\<close>

section \<open>Placements, plain and edited\<close>

definition mc_placements :: "mc_placement list" where
  "mc_placements = concat (map snd mc_tabs)"

definition mc_rows :: "mc_row list" where
  "mc_rows = concat mc_grid"

definition plain_tabs :: "(string \<times> placement list) list" where
  "plain_tabs = map (\<lambda>t. (fst t, map plain (snd t))) mc_tabs"

definition edited_tabs :: "(string \<times> placement list) list" where
  "edited_tabs = map (\<lambda>t. (fst t, map edited (snd t))) mc_tabs"

lemma settled_placements: "list_all2 settled mc_placements mc_rows"
  unfolding mc_placements_def mc_rows_def by (rule concat_transfer [THEN rel_funD, OF settled_tabs])

lemma placed_settled: "p \<in> set mc_placements \<Longrightarrow> \<exists>t. settled p t"
  using settled_placements by (metis in_set_conv_nth list_all2_conv_all_nth)

text \<open>Everything a settled placement gives, over the panels it makes.\<close>

lemma settledD:
  assumes "settled p t"
  shows "fst p = Inr (fst (plain p))" "patch_item (fst (plain p)) = Inr (fst (edited p))"
    and "fst (fst (plain p)) = panel_key (fst t)" "fst (fst (edited p)) = panel_key (fst t)"
    and "snd (plain p) = snd t" "snd (edited p) = snd t" "0 \<le> fst t"
    and "good_panel MC_NAMES [''text''] (fst (edited p))"
    and "mc_check_panel ids (fst (edited p)) = Inr (ids @ [fst t])"
    and "\<exists>qs. panel_queries (snd (fst (edited p))) = Inr qs \<and> list_all query_fine qs"
  using assms by (auto simp: settled_def mc_good_def mc_asks_def plain_def edited_def)

lemma placed:
  "all_placements plain_tabs = map plain mc_placements"
  "all_placements edited_tabs = map edited mc_placements"
  by (simp_all add: all_placements_def plain_tabs_def edited_tabs_def mc_placements_def map_concat o_def)

lemma placed_keys:
  "list_all2 settled ps rows \<Longrightarrow> keys (map plain ps) = map (\<lambda>t. panel_key (fst t)) rows"
  "list_all2 settled ps rows \<Longrightarrow> keys (map edited ps) = map (\<lambda>t. panel_key (fst t)) rows"
  by (induction rule: list_all2_induct) (simp_all add: keys_def settledD)

section \<open>The builder\<close>

lemma mc_add_plain: "fst p = Inr (fst (plain p)) \<Longrightarrow> mc_add acc p = add_panel acc (plain p)"
  by (cases "fst p") (simp_all add: mc_add_def plain_def)

lemma mc_adds_plain:
  "list_all (\<lambda>p. fst p = Inr (fst (plain p))) ps \<Longrightarrow> foldR mc_add acc ps = foldR add_panel acc (map plain ps)"
  by (induction ps arbitrary: acc) (simp_all add: mc_add_plain)

lemma mc_builds_plain:
  "list_all (\<lambda>t. list_all (\<lambda>p. fst p = Inr (fst (plain p))) (snd t)) tabs \<Longrightarrow>
   foldR mc_build_tab acc tabs = foldR build_tab acc (map (\<lambda>t. (fst t, map plain (snd t))) tabs)"
proof (induction tabs arbitrary: acc)
  case (Cons t tabs)
  then have "mc_build_tab acc t = build_tab acc (fst t, map plain (snd t))"
    by (cases acc; cases t) (simp add: mc_adds_plain)
  then show ?case using Cons by simp
qed simp

lemma mc_made: "list_all (\<lambda>t. list_all (\<lambda>p. fst p = Inr (fst (plain p))) (snd t)) mc_tabs"
proof -
  have "fst p = Inr (fst (plain p))" if "t \<in> set mc_tabs" "p \<in> set (snd t)" for t p
  proof -
    have "p \<in> set mc_placements" using that by (auto simp: mc_placements_def)
    then show ?thesis using placed_settled settledD(1) by blast
  qed
  then show ?thesis by (simp add: list_all_iff)
qed

section \<open>The edit\<close>

lemma update_other: "k \<noteq> k' \<Longrightarrow> AList.update k v ((k', w) # kvs) = (k', w) # AList.update k v kvs"
  by simp

lemma patch_items:
  "distinct (map fst kvs) \<Longrightarrow> mapR patch_item kvs =
     (case map_of kvs ''panel-908'' of
        None \<Rightarrow> Inr kvs
      | Some w \<Rightarrow> bindR (jedit [Key ''spec'', Key ''data'', Key ''spec'', Key ''transformations'', Idx 1,
          Key ''spec'', Key ''options'', Key ''excludeByName''] (jpop ''__name__'') w)
          (\<lambda>w'. Inr (AList.update ''panel-908'' w' kvs)))"
proof (induction kvs)
  case (Cons kv kvs)
  define E where "E = jedit [Key ''spec'', Key ''data'', Key ''spec'', Key ''transformations'', Idx 1,
    Key ''spec'', Key ''options'', Key ''excludeByName''] (jpop ''__name__'')"
  obtain k v where kv: "kv = (k, v)" by (cases kv)
  show ?case
  proof (cases "k = ''panel-908''")
    case True
    moreover have "map_of kvs ''panel-908'' = None"
      using Cons.prems True by (simp add: kv map_of_eq_None_iff)
    ultimately have "mapR patch_item kvs = Inr kvs" using Cons by simp
    then show ?thesis using True unfolding kv patch_item_def E_def [symmetric] by (cases "E v") simp_all
  next
    case False
    then have p: "patch_item kv = Inr kv" by (simp add: kv patch_item_def)
    have IH: "mapR patch_item kvs = (case map_of kvs ''panel-908'' of None \<Rightarrow> Inr kvs
        | Some w \<Rightarrow> bindR (E w) (\<lambda>w'. Inr (AList.update ''panel-908'' w' kvs)))"
      using Cons unfolding E_def by simp
    show ?thesis
    proof (cases "map_of kvs ''panel-908''")
      case None
      then show ?thesis using False p IH by (simp add: kv)
    next
      case (Some w)
      then show ?thesis using False p IH unfolding E_def [symmetric] by (cases "E w") (simp_all add: kv)
    qed
  qed
qed simp

lemma keep_name_items:
  assumes "distinct (map fst kvs)" "''panel-908'' \<in> fst ` set kvs" "mapR patch_item kvs = Inr kvs'"
  shows "keep_name (JDict kvs) = Inr (JDict kvs')"
proof -
  obtain w where w: "map_of kvs ''panel-908'' = Some w" using assms(2) by (cases "map_of kvs ''panel-908''")
      (auto simp: map_of_eq_None_iff)
  obtain w' where w': "jedit [Key ''spec'', Key ''data'', Key ''spec'', Key ''transformations'', Idx 1,
      Key ''spec'', Key ''options'', Key ''excludeByName''] (jpop ''__name__'') w = Inr w'"
    "kvs' = AList.update ''panel-908'' w' kvs"
    using assms(3) unfolding patch_items [OF assms(1)] w by (auto simp only: bindR_Inr_iff option.case sum.inject)
  show ?thesis unfolding keep_name_def jedit.simps(2) w by (simp only: option.case w' bindR.simps)
qed

lemma patch_plain: "list_all2 settled ps rows \<Longrightarrow> mapR patch_item (map (fst \<circ> plain) ps) = Inr (map (fst \<circ> edited) ps)"
  by (induction rule: list_all2_induct) (simp_all add: settledD)

section \<open>The tables\<close>

definition mc_ids :: "int list" where
  "mc_ids = map fst mc_rows"

definition row_box :: "mc_row \<Rightarrow> box" where
  "row_box t = (case snd t of (x, y, w, h) \<Rightarrow> (x, y, w, h, panel_key (fst t)))"

lemma settled_boxes: "list_all2 settled ps rows \<Longrightarrow> map box_of (map edited ps) = map row_box rows"
  by (induction rule: list_all2_induct) (auto simp: box_of_alt row_box_def settledD split: prod.splits)

lemma mc_geometry: "list_all (\<lambda>t. placements_ok (snd t)) edited_tabs"
proof -
  have rows: "list_all (\<lambda>rows. list_all on_grid (map row_box rows) \<and> apart (map rect_of (map row_box rows))) mc_grid"
    by (simp add: mc_grid_def row_box_def apart_def)
  have "placements_ok (map edited (snd t))" if t: "t \<in> set mc_tabs" for t
  proof -
    obtain i where i: "i < length mc_tabs" "t = mc_tabs ! i" using t by (auto simp: in_set_conv_nth)
    then have "list_all2 settled (snd t) (mc_grid ! i)" "mc_grid ! i \<in> set mc_grid"
      using settled_tabs by (auto simp: list_all2_conv_all_nth)
    then show ?thesis using rows by (simp add: placements_ok_alt settled_boxes list_all_iff del: map_map)
  qed
  then show ?thesis by (simp add: edited_tabs_def list_all_iff)
qed

lemma mc_ids_ok: "list_all (\<lambda>i. 0 \<le> i) mc_ids" "distinct mc_ids" "length mc_ids = 83"
  by (simp_all add: mc_ids_def mc_rows_def mc_grid_def)

lemma mc_keys:
  "keys (all_placements plain_tabs) = map panel_key mc_ids"
  "keys (all_placements edited_tabs) = map panel_key mc_ids"
  using placed_keys [OF settled_placements] by (simp_all add: placed mc_ids_def)

lemma mc_titles: "map fst edited_tabs = TAB_TITLES" "distinct TAB_TITLES" "list_all (clean MC_NAMES) TAB_TITLES"
  by (simp_all add: edited_tabs_def mc_tabs_def TAB_TITLES_def panel_text)

lemma mc_tables: "tables_ok MC_NAMES [''text''] TAB_TITLES mc_ids edited_tabs"
proof -
  have "good_panel MC_NAMES [''text''] (fst (edited p))" if "p \<in> set mc_placements" for p
    using placed_settled [OF that] settledD(8) by blast
  then show ?thesis unfolding tables_ok_def mc_keys(2) using mc_geometry mc_ids_ok mc_titles
    by (simp add: placed list_all_iff)
qed

section \<open>The generator up to its validator\<close>

lemma item_of_eq: "fst (fst p) = fst (fst q) \<Longrightarrow> snd p = snd q \<Longrightarrow> item_of p = item_of q"
  by (cases p rule: item_of.cases; cases q rule: item_of.cases) simp

lemma mc_tab_objects: "map tab_of plain_tabs = map tab_of edited_tabs"
proof -
  have "item_of (plain p) = item_of (edited p)" if "t \<in> set mc_tabs" "p \<in> set (snd t)" for t p
  proof -
    have "p \<in> set mc_placements" using that by (auto simp: mc_placements_def)
    then obtain t where t: "settled p t" using placed_settled by blast
    show ?thesis by (rule item_of_eq) (simp_all add: settledD(3-6) [OF t])
  qed
  then show ?thesis by (simp add: plain_tabs_def edited_tabs_def tab_of_def cong: map_cong)
qed

lemma mc_built_tabs: "foldR mc_build_tab ([], []) mc_tabs = Inr (elements_of plain_tabs, map tab_of edited_tabs)"
  using mc_builds_plain [OF mc_made, of "([], [])"] mc_ids_ok mc_tab_objects
  by (simp add: plain_tabs_def [symmetric] build_tab_iff elements_of_def mc_keys distinct_panel_keys del: list.map)

lemma mc_edit: "keep_name (JDict (elements_of plain_tabs)) = Inr (JDict (elements_of edited_tabs))"
proof (rule keep_name_items)
  have k: "map fst (elements_of plain_tabs) = map panel_key mc_ids"
    by (simp add: keys_elements mc_keys)
  then show "distinct (map fst (elements_of plain_tabs))" using mc_ids_ok by (simp add: distinct_panel_keys)
  have "908 \<in> set mc_ids" by (simp add: mc_ids_def mc_rows_def mc_grid_def)
  moreover have "''panel-908'' = panel_key 908" by code_simp
  moreover have "fst ` set (elements_of plain_tabs) = panel_key ` set mc_ids" using k by (metis list.set_map)
  ultimately show "''panel-908'' \<in> fst ` set (elements_of plain_tabs)" by simp
  show "mapR patch_item (elements_of plain_tabs) = Inr (elements_of edited_tabs)"
    using patch_plain [OF settled_placements] by (simp add: elements_of_def placed)
qed

section \<open>The assertions\<close>

lemma mc_panels_fold:
  "list_all2 settled ps rows \<Longrightarrow> foldR mc_check_panel ids (map (fst \<circ> edited) ps) = Inr (ids @ map fst rows)"
  by (induction arbitrary: ids rule: list_all2_induct) (simp_all add: settledD)

lemma mc_panels: "foldR mc_check_panel [] (elements_of edited_tabs) = Inr mc_ids"
  using mc_panels_fold [OF settled_placements, of "[]"] by (simp add: elements_of_def placed mc_ids_def)

definition expr_fine :: "json \<times> string \<Rightarrow> bool" where
  "expr_fine ge = (bindR (check_ranges (fst ge) (snd ge)) (\<lambda>_. check_multi (snd ge)) = Inr ())"

lemma expr_fine_alt: "expr_fine = (\<lambda>(grp, e). bindR (check_ranges grp e) (\<lambda>_. check_multi e) = Inr ())"
  by (auto simp: fun_eq_iff expr_fine_def)

lemma query_groups:
  "list_all query_fine qs \<Longrightarrow> \<exists>gs. mapR query_group qs = Inr gs \<and> list_all (list_all expr_fine) gs"
  by (induction qs) (auto simp: query_fine_def expr_fine_alt [symmetric])

lemma panel_groups:
  "list_all2 settled ps rows \<Longrightarrow>
   \<exists>gs. mapR (\<lambda>it. bindR (panel_queries (snd it)) (mapR query_group)) (map (fst \<circ> edited) ps) = Inr gs \<and>
     list_all (list_all (list_all expr_fine)) gs"
proof (induction rule: list_all2_induct)
  case (Cons p ps t rows)
  obtain qs where qs: "panel_queries (snd (fst (edited p))) = Inr qs" "list_all query_fine qs"
    using settledD(10) [OF Cons.hyps(1)] by blast
  then obtain gs where "mapR query_group qs = Inr gs" "list_all (list_all expr_fine) gs"
    using query_groups by blast
  then show ?case using Cons.IH qs(1) by auto
qed simp

lemma mc_exprs:
  obtains exprs where "iter_exprs (JDict (elements_of edited_tabs)) = Inr exprs"
    "allR (\<lambda>(grp, expr). bindR (check_ranges grp expr) (\<lambda>_. check_multi expr)) exprs = Inr ()"
proof -
  obtain gs where gs: "mapR (\<lambda>it. bindR (panel_queries (snd it)) (mapR query_group)) (elements_of edited_tabs) = Inr gs"
    "list_all (list_all (list_all expr_fine)) gs"
    using panel_groups [OF settled_placements] by (auto simp: elements_of_def placed)
  then have "iter_exprs (JDict (elements_of edited_tabs)) = Inr (concat (concat gs))"
    by (simp add: iter_exprs_def)
  moreover have "list_all expr_fine (concat (concat gs))" using gs(2) by (auto simp: list_all_iff)
  then have "allR (\<lambda>(grp, expr). bindR (check_ranges grp expr) (\<lambda>_. check_multi expr)) (concat (concat gs)) = Inr ()"
    unfolding allR_Inr_iff by (fastforce simp: list_all_iff expr_fine_def)
  ultimately show ?thesis by (rule that)
qed

text \<open>The third way to check one item.\<close>

lemma mc_check_item_Inr:
  "mc_check_item t rs it = Inr rs' \<longleftrightarrow>
     (\<exists>b. read_item it = Inr b \<and> on_grid b \<and> find (overlaps (rect_of b)) rs = None \<and>
        rs' = rs @ [rect_of b])"
proof (cases "read_item it")
  case (Inr b)
  obtain x y w h n where "b = (x, y, w, h, n)" by (metis prod.exhaust)
  then show ?thesis using Inr
    by (cases "find (overlaps (rect_of b)) rs")
      (auto simp: mc_check_item_def bindR_Inr_iff ensure_Inr_iff Let_def)
qed (simp add: mc_check_item_def)

interpretation mission: item_check mc_check_item
  by unfold_locales (rule mc_check_item_Inr)

lemma mc_check_grid_iff: "mc_check_grid layout = Inr () \<longleftrightarrow> check_grid layout = Inr ()"
  by (simp add: mc_check_grid_def check_grid_iff tabs_ok_def list_all_iff bindR_Inr_iff [of "grid_items_by_tab layout"]
      allR_Inr_iff split_beta mission.tab_ok del: split_paired_Ex)

section \<open>The document\<close>

abbreviation mc_elements :: "item list" where "mc_elements \<equiv> elements_of edited_tabs"

abbreviation mc_built :: json where "mc_built \<equiv> mc_spec mc_elements (map tab_of edited_tabs)"

lemma mc_document: "mc_dashboard spec = document MC_DASHBOARD_NAME spec"
  by (simp add: mc_dashboard_def document_def DASHBOARD_API_def)

lemma mc_spec_parts:
  "jget mc_built ''elements'' = Inr (JDict mc_elements)"
  "jget mc_built ''layout'' = Inr (layout_of edited_tabs)"
  "check_field mc_built [''title''] MC_DASHBOARD_TITLE = Inr ()"
  "check_field mc_built [''layout'', ''kind''] ''TabsLayout'' = Inr ()"
  "tab_titles mc_built = Inr TAB_TITLES"
  "variable_names mc_built = Inr [''DS_PROMETHEUS'', ''DS_LOKI'', ''router'', ''wan_netdev'', ''device'', ''netdev'']"
proof -
  have "tab_titles mc_built = Inr (map fst edited_tabs)"
    by (rule tab_titles_of) (simp add: mc_spec_def)
  then show "tab_titles mc_built = Inr TAB_TITLES" by (simp add: mc_titles)
qed (simp_all add: mc_spec_def layout_of_def layout_json_def check_field_def variable_names_def
      mc_variables_def datasource_var_def query_var_def)

lemma mc_text_clean: "text_clean MC_NAMES mc_built"
  using tables_text [OF mc_tables]
  by (simp add: mc_spec_def mc_variables_def MC_DASHBOARD_TITLE_def panel_text layout_of_def layout_json_def
      del: append.simps append_assoc)

lemma iter_mc: "s \<in> set (iter_strings (JDict mc_elements)) \<Longrightarrow> s \<in> set (iter_strings mc_built)"
  by (simp add: mc_spec_def)

text \<open>A query of a panel that the edit leaves alone.\<close>

definition asked :: "mc_placement \<Rightarrow> json \<Rightarrow> bool" where
  "asked p q = (\<exists>pid t viz qs u d a. fst p = mc_panel pid t viz qs u d a \<and> q \<in> set qs \<and> 0 \<le> pid \<and> pid \<noteq> 908)"

lemma asked_text:
  assumes "p \<in> set mc_placements" "asked p q" "s \<in> set (iter_strings q)"
  shows "s \<in> set (iter_strings mc_built)"
proof -
  obtain pid t viz qs u d a where f: "fst p = mc_panel pid t viz qs u d a" "q \<in> set qs" "0 \<le> pid" "pid \<noteq> 908"
    using assms(2) by (auto simp: asked_def)
  obtain row where row: "settled p row" using placed_settled [OF assms(1)] by blast
  have "fst p = Inr (panel_key pid, mc_element pid t viz qs u d a)"
    using settledD(1) [OF row] by (auto simp: f(1) mc_panel_Inr bindR_Inr_iff)
  then have e: "snd (fst (edited p)) = mc_element pid t viz qs u d a"
    using f(3,4) by (simp add: edited_def patch_item_def key_908)
  have "s \<in> set (iter_strings (mc_element pid t viz qs u d a))"
    using assms(3) f(2) by (auto simp: mc_element_def mc_data_group_def)
  then have "s \<in> set (iter_strings (JDict mc_elements))"
    using iter_elements [of s "edited p" edited_tabs] assms(1) by (simp add: e placed)
  then show ?thesis by (rule iter_mc)
qed

lemma asked_makers:
  "0 \<le> pid \<Longrightarrow> pid \<noteq> 908 \<Longrightarrow> asked (mc_stat pid t e u d a, r) (prom_query e (arg [] (m_legend a)) ''A'' ''time_series'' False)"
  "0 \<le> pid \<Longrightarrow> pid \<noteq> 908 \<Longrightarrow> asked (mc_loki_stat pid t e d a, r) (loki_query e ''A'' ''instant'')"
  "0 \<le> pid \<Longrightarrow> pid \<noteq> 908 \<Longrightarrow> asked (mc_piechart pid t (q # qs) u d a, r) q"
  "0 \<le> pid \<Longrightarrow> pid \<noteq> 908 \<Longrightarrow> asked (mc_timeseries pid t (q # qs) u d mkw, r) q"
  unfolding asked_def fst_conv
  by (auto simp: mc_stat_def mc_loki_stat_def mc_piechart_def mc_timeseries_def opt_res_def Let_def
      intro!: exI)

lemma query_texts:
  "e \<in> set (iter_strings (prom_query e l r f i))" "PROM_DS \<in> set (iter_strings (prom_query e l r f i))"
  "LOKI_DS \<in> set (iter_strings (loki_query e r f))"
  by (simp_all add: prom_query_def loki_query_def Let_def)

definition wan_download :: string where
  \<open>wan_download = (''sum(rate(node_network_receive_bytes_total{'' @ PROM_FILTER @
       '', device=~"$wan_netdev"}[$__rate_interval]))'')\<close>

definition rx_drops :: string where
  \<open>rx_drops = (''sum by (device) (rate(node_network_receive_drop_total{'' @ PROM_FILTER @
       '', device=~"$netdev"}[$__rate_interval]))'')\<close>

lemma mc_placed:
  "n < length mc_overview_2 \<Longrightarrow> mc_overview_2 ! n \<in> set mc_placements"
  "n < length mc_lan_1 \<Longrightarrow> mc_lan_1 ! n \<in> set mc_placements"
  "n < length mc_lan_2 \<Longrightarrow> mc_lan_2 ! n \<in> set mc_placements"
  "n < length mc_logs \<Longrightarrow> mc_logs ! n \<in> set mc_placements"
  by (simp_all add: mc_placements_def mc_tabs_def TAB_TITLES_def mc_tab_defs)

lemma mc_asked:
  "\<exists>q. asked (mc_overview_2 ! 2) q \<and> wan_download \<in> set (iter_strings q) \<and> PROM_DS \<in> set (iter_strings q)"
  "\<exists>q. asked (mc_lan_1 ! 2) q \<and> DEV_TOTAL \<in> set (iter_strings q)"
  "\<exists>q. asked (mc_lan_2 ! 1) q \<and> rx_drops \<in> set (iter_strings q)"
  "\<exists>q. asked (mc_logs ! 0) q \<and> LOKI_DS \<in> set (iter_strings q)"
proof -
  have "\<exists>l r f i. asked (mc_overview_2 ! 2) (prom_query wan_download l r f i)"
    unfolding mc_overview_2_def wan_download_def by (simp del: append.simps append_assoc) (intro exI, rule asked_makers; simp)
  then show "\<exists>q. asked (mc_overview_2 ! 2) q \<and> wan_download \<in> set (iter_strings q) \<and> PROM_DS \<in> set (iter_strings q)"
    using query_texts by blast
  have "\<exists>l r f i. asked (mc_lan_1 ! 2) (prom_query DEV_TOTAL l r f i)"
    unfolding mc_lan_1_def by (simp del: append.simps append_assoc) (intro exI, rule asked_makers; simp)
  then show "\<exists>q. asked (mc_lan_1 ! 2) q \<and> DEV_TOTAL \<in> set (iter_strings q)" using query_texts by blast
  have "\<exists>l r f i. asked (mc_lan_2 ! 1) (prom_query rx_drops l r f i)"
    unfolding mc_lan_2_def rx_drops_def by (simp del: append.simps append_assoc) (intro exI, rule asked_makers; simp)
  then show "\<exists>q. asked (mc_lan_2 ! 1) q \<and> rx_drops \<in> set (iter_strings q)" using query_texts by blast
  have "\<exists>e r t. asked (mc_logs ! 0) (loki_query e r t)"
    unfolding mc_logs_def by (simp del: append.simps append_assoc) (intro exI, rule asked_makers; simp)
  then show "\<exists>q. asked (mc_logs ! 0) q \<and> LOKI_DS \<in> set (iter_strings q)" using query_texts by blast
qed

lemma mc_strings:
  "wan_download \<in> set (iter_strings mc_built)" "rx_drops \<in> set (iter_strings mc_built)"
  "DEV_TOTAL \<in> set (iter_strings mc_built)"
  "PROM_DS \<in> set (iter_strings mc_built)" "LOKI_DS \<in> set (iter_strings mc_built)"
proof -
  have "2 < length mc_overview_2" "2 < length mc_lan_1" "1 < length mc_lan_2" "0 < length mc_logs"
    by (simp_all add: mc_overview_2_def mc_lan_1_def mc_lan_2_def mc_logs_def)
  note placed = mc_placed(1) [OF this(1)] mc_placed(2) [OF this(2)] mc_placed(3) [OF this(3)] mc_placed(4) [OF this(4)]
  show "wan_download \<in> set (iter_strings mc_built)" "PROM_DS \<in> set (iter_strings mc_built)"
    using asked_text [OF placed(1)] mc_asked(1) by blast+
  show "DEV_TOTAL \<in> set (iter_strings mc_built)" using asked_text [OF placed(2)] mc_asked(2) by blast
  show "rx_drops \<in> set (iter_strings mc_built)" using asked_text [OF placed(3)] mc_asked(3) by blast
  show "LOKI_DS \<in> set (iter_strings mc_built)" using asked_text [OF placed(4)] mc_asked(4) by blast
qed

lemma mc_vars_occur:
  "var_occurs ''router'' DEV_TOTAL" "var_occurs ''device'' DEV_TOTAL" "var_occurs ''wan_netdev'' wan_download"
  "var_occurs ''netdev'' rx_drops"
proof -
  have e: \<open>DEV_TOTAL = ''sum by (device) (rate(openwrt_device_traffic_bytes_total{'' @ PROM_FILTER @
      '', device=~"$device"}[$__rate_interval]))''\<close>
    \<open>DEV_TOTAL = (''sum by (device) (rate(openwrt_device_traffic_bytes_total{'' @ PROM_FILTER @ '', device=~"'') @ ''$'' @
      ''device'' @ DQ # ''}[$__rate_interval]))''\<close>
    \<open>wan_download = (''sum(rate(node_network_receive_bytes_total{'' @ PROM_FILTER @ '', device=~"'') @ ''$'' @
      ''wan_netdev'' @ DQ # ''}[$__rate_interval]))''\<close>
    \<open>rx_drops = (''sum by (device) (rate(node_network_receive_drop_total{'' @ PROM_FILTER @ '', device=~"'') @ ''$'' @
      ''netdev'' @ DQ # ''}[$__rate_interval]))''\<close>
    by (simp_all add: DEV_TOTAL_def wan_download_def rx_drops_def)
  have w: "whole_name ''device'' (DQ # b)" "whole_name ''wan_netdev'' (DQ # b)" "whole_name ''netdev'' (DQ # b)" for b
    by (simp_all add: name_defs)
  show "var_occurs ''router'' DEV_TOTAL" unfolding e(1) by (rule PROM_FILTER_parts)
  show "var_occurs ''device'' DEV_TOTAL" unfolding e(2) by (rule var_occurs_at [OF w(1)])
  show "var_occurs ''wan_netdev'' wan_download" unfolding e(3) by (rule var_occurs_at [OF w(2)])
  show "var_occurs ''netdev'' rx_drops" unfolding e(4) by (rule var_occurs_at [OF w(3)])
qed

lemma mc_vars: "check_vars MC_GLOBALS [''DS_PROMETHEUS'', ''DS_LOKI''] mc_built = Inr ()"
proof (rule check_vars_clean [OF mc_spec_parts(6)])
  show "text_clean ([''DS_PROMETHEUS'', ''DS_LOKI'', ''router'', ''wan_netdev'', ''device'', ''netdev''] @
      MC_GLOBALS) mc_built"
    using mc_text_clean by (simp add: MC_NAMES_def)
  show "set [''DS_PROMETHEUS'', ''DS_LOKI'', ''router'', ''wan_netdev'', ''device'', ''netdev''] \<subseteq>
      set (referenced_vars mc_built) \<union> set [''DS_PROMETHEUS'', ''DS_LOKI'']"
    using referenced [OF mc_strings(3) mc_vars_occur(1)] referenced [OF mc_strings(3) mc_vars_occur(2)]
      referenced [OF mc_strings(1) mc_vars_occur(3)] referenced [OF mc_strings(2) mc_vars_occur(4)] by simp
qed

section \<open>The dashboard\<close>

lemma mc_budget: "length (jkeys (JDict mc_elements)) = 83"
proof -
  have "length (map fst mc_elements) = length (map panel_key mc_ids)" by (simp only: keys_elements mc_keys)
  then show ?thesis using mc_ids_ok by simp
qed

lemma mc_valid: "mc_validate_dashboard (mc_dashboard mc_built) = Inr ()"
proof -
  let ?d = "document MC_DASHBOARD_NAME mc_built"
  have slug: "clean MC_NAMES MC_DASHBOARD_NAME" by (simp add: MC_DASHBOARD_NAME_def panel_text)
  obtain exprs where exprs: "iter_exprs (JDict mc_elements) = Inr exprs"
    "allR (\<lambda>(grp, expr). bindR (check_ranges grp expr) (\<lambda>_. check_multi expr)) exprs = Inr ()"
    by (rule mc_exprs)
  have grid: "mc_check_grid (layout_of edited_tabs) = Inr ()"
    using tables_grid [OF mc_tables] by (simp add: mc_check_grid_iff)
  have budget: "60 \<le> length (jkeys (JDict mc_elements))" "length (jkeys (JDict mc_elements)) \<le> 90"
    using mc_budget by simp_all
  show ?thesis
    unfolding mc_validate_dashboard_def Let_def mc_document PANEL_BUDGET_def
    by (simp only: bindR.simps document_header document_no_uid document_spec mc_spec_parts ensure_True refl
        tables_refs [OF mc_tables] prod.case budget simp_thms jitems.simps mc_panels mc_ids_ok exprs grid mc_vars
        document_lacks [OF mc_text_clean slug] document_has [OF mc_strings(4) escape_DS(1)]
        document_has [OF mc_strings(5) escape_DS(2)])
qed

lemma mc_build: "mc_build_dashboard = Inr (mc_dashboard mc_built)"
  unfolding mc_build_dashboard_def
  by (simp only: mc_built_tabs mc_edit mc_valid bindR.simps prod.case jitems.simps Let_def)

end
