(* ===== verification/Soundness.thy ===== *)
theory Soundness
  imports Sql_Check
begin

text \<open>
  What a validator promises of any dashboard it accepts, whoever made it: nothing in the layout
  dangles, every panel is sound and drawn apart from the others, every template variable is defined.
  The NetFlow validator promises more about the queries.
\<close>

definition dashboard_sound :: "string list \<Rightarrow> string list \<Rightarrow> json \<Rightarrow> bool" where
  "dashboard_sound u globals dash = (\<exists>spec elements layout ids by_tab names.
     jget dash ''spec'' = Inr spec \<and> jget spec ''elements'' = Inr (JDict elements) \<and>
     jget spec ''layout'' = Inr layout \<and>
     distinct (layout_refs layout) \<and> set (layout_refs layout) = fst ` set elements \<and>
     list_all2 (panel_sound u) elements ids \<and> distinct ids \<and>
     grid_items_by_tab layout = Inr by_tab \<and> tabs_ok by_tab \<and>
     variable_names spec = Inr names \<and>
     list_all (\<lambda>s. \<forall>v. var_occurs v s \<longrightarrow> v \<in> set names \<union> set globals) (iter_strings spec))"

lemma check_panel_fold:
  "foldR (check_panel u) ids its = Inr ids' \<longleftrightarrow> (\<exists>pids. ids' = ids @ pids \<and> list_all2 (panel_sound u) its pids)"
proof (induction its arbitrary: ids)
  case (Cons it its)
  have "foldR (check_panel u) ids (it # its) = Inr ids' \<longleftrightarrow>
      (\<exists>pid. panel_sound u it pid \<and> foldR (check_panel u) (ids @ [pid]) its = Inr ids')"
    by (auto simp: bindR_Inr_iff check_panel_iff)
  also have "\<dots> \<longleftrightarrow> (\<exists>pid pids. ids' = ids @ pid # pids \<and> panel_sound u it pid \<and> list_all2 (panel_sound u) its pids)"
    by (auto simp: Cons.IH)
  also have "\<dots> \<longleftrightarrow> (\<exists>pids. ids' = ids @ pids \<and> list_all2 (panel_sound u) (it # its) pids)"
    by (auto simp: list_all2_Cons1)
  finally show ?case .
qed auto

lemma check_panels_iff:
  "check_panels u elements = Inr () \<longleftrightarrow>
     (\<exists>its ids. elements = JDict its \<and> list_all2 (panel_sound u) its ids \<and> distinct ids)"
  by (auto simp: check_panels_def bindR_Inr_iff jitems_Inr ensure_Inr_iff check_panel_fold)

lemma referenced_iff: "v \<in> set (referenced_vars spec) \<longleftrightarrow> (\<exists>s \<in> set (iter_strings spec). var_occurs v s)"
  by (auto simp: referenced_vars_def var_names_iff)

text \<open>The four checks every shared validator makes give it.\<close>

lemma soundI:
  assumes "jget dash ''spec'' = Inr spec" "jget spec ''elements'' = Inr elements"
    and "jget spec ''layout'' = Inr layout" "check_refs layout elements = Inr r1"
    and "check_panels u elements = Inr r2" "check_grid layout = Inr r3" "check_vars globals exempt spec = Inr r4"
  shows "dashboard_sound u globals dash"
proof -
  obtain its ids where its: "elements = JDict its" "list_all2 (panel_sound u) its ids" "distinct ids"
    using assms(5) by (auto simp: check_panels_iff)
  obtain by_tab where tabs: "grid_items_by_tab layout = Inr by_tab" "tabs_ok by_tab"
    using assms(6) by (auto simp: check_grid_iff)
  obtain names where names: "variable_names spec = Inr names"
    "set (referenced_vars spec) \<subseteq> set names \<union> set globals"
    using assms(7) by (auto simp: check_vars_iff)
  have "distinct (layout_refs layout)" "set (layout_refs layout) = fst ` set its"
    using assms(4) its(1) by (simp_all add: check_refs_iff)
  moreover have "list_all (\<lambda>s. \<forall>v. var_occurs v s \<longrightarrow> v \<in> set names \<union> set globals) (iter_strings spec)"
    using names(2) referenced_iff by (fastforce simp: list_all_iff)
  ultimately show ?thesis unfolding dashboard_sound_def using assms(1-3) its tabs names(1) by blast
qed

lemma ops_sound: "ops_validate_dashboard d = Inr () \<Longrightarrow> dashboard_sound [''text'', ''logs''] GLOBALS_ALLOWED d"
  unfolding ops_validate_dashboard_def Let_def
  by (clarsimp simp only: bindR_Inr_iff) (erule (6) soundI)

lemma cli_sound: "cli_validate_dashboard d = Inr () \<Longrightarrow> dashboard_sound [''text''] GLOBALS_ALLOWED d"
  unfolding cli_validate_dashboard_def
  by (clarsimp simp only: bindR_Inr_iff) (erule (6) soundI)

lemma topo_fold_Inr:
  "foldR topo_check_panel (ids, b) its = Inr (ids', b') \<Longrightarrow> foldR (check_panel [''text'']) ids its = Inr ids'"
  by (induction its arbitrary: ids b) (auto simp: topo_check_panel_def bindR_Inr_iff split: if_splits)

lemma topo_panels_Inr: "topo_check_panels elements = Inr r \<Longrightarrow> check_panels [''text''] elements = Inr r"
  by (auto simp: topo_check_panels_def check_panels_def bindR_Inr_iff ensure_Inr_iff dest: topo_fold_Inr)

lemma topo_sound: "topo_validate_dashboard d = Inr () \<Longrightarrow> dashboard_sound [''text''] TOPO_GLOBALS d"
  unfolding topo_validate_dashboard_def
  by (clarsimp simp only: bindR_Inr_iff) (drule topo_panels_Inr, erule (6) soundI)

section \<open>NetFlow\<close>

text \<open>What the two loops of the NetFlow validator promise of one query.\<close>

definition query_sound :: "json \<Rightarrow> bool" where
  "query_sound q =
     ((\<forall>sql. query_text ''rawSql'' q = Inr (Some sql) \<longrightarrow> \<not> py_in ''IfBoundary'' sql \<and>
        (\<forall>inner. sum_occurs inner sql \<longrightarrow> py_in ''SamplingRate'' inner)) \<and>
      (\<forall>e. query_text ''expr'' q = Inr (Some e) \<longrightarrow> py_in ''histogram_quantile'' e \<longrightarrow>
        metric_words e \<noteq> [] \<and> list_all (ends_with ''_bucket'') (metric_words e)))"

lemma panel_error_Inr: "panel_error el msg \<noteq> Inr x"
  by (auto simp: panel_error_def bindR_Inr_iff)

lemma check_sql_Inr:
  "check_sql el q = Inr () \<Longrightarrow> query_text ''rawSql'' q = Inr (Some sql) \<Longrightarrow> \<not> py_in ''IfBoundary'' sql \<and>
     (\<forall>inner. sum_occurs inner sql \<longrightarrow> py_in ''SamplingRate'' inner)"
  by (auto simp: check_sql_def bindR_Inr_iff panel_error_Inr allR_Inr_iff sum_args_iff split: if_splits)

lemma check_histogram_Inr:
  "check_histogram el q = Inr () \<Longrightarrow> query_text ''expr'' q = Inr (Some e) \<Longrightarrow> py_in ''histogram_quantile'' e \<Longrightarrow>
     metric_words e \<noteq> [] \<and> list_all (ends_with ''_bucket'') (metric_words e)"
  by (auto simp: check_histogram_def bindR_Inr_iff panel_error_Inr allR_Inr_iff list_all_iff Let_def
      split: if_splits)

definition netflow_sound :: "json \<Rightarrow> bool" where
  "netflow_sound dash = (\<exists>spec elements. jget dash ''spec'' = Inr spec \<and>
     jget spec ''elements'' = Inr (JDict elements) \<and>
     list_all (\<lambda>it. \<exists>qs. panel_queries (snd it) = Inr qs \<and> list_all query_sound qs) elements)"

lemma check_queries_Inr:
  "check_queries check (JDict its) = Inr () \<longleftrightarrow>
     (\<forall>it \<in> set its. \<exists>qs. panel_queries (snd it) = Inr qs \<and> (\<forall>q \<in> set qs. check (snd it) q = Inr ()))"
  by (auto simp: check_queries_def bindR_Inr_iff allR_Inr_iff)

lemma nf_sound:
  assumes "nf_validate_dashboard d = Inr ()"
  shows "netflow_sound d"
proof -
  obtain spec elements items r1 r2 where s: "jget d ''spec'' = Inr spec" "jget spec ''elements'' = Inr elements"
    "jitems elements = Inr items" "check_queries check_sql elements = Inr r1"
    "check_queries check_histogram elements = Inr r2"
    using assms unfolding nf_validate_dashboard_def Let_def by (clarsimp simp only: bindR_Inr_iff)
  have e: "elements = JDict items" using s(3) by (simp add: jitems_Inr)
  have "\<exists>qs. panel_queries (snd it) = Inr qs \<and> list_all query_sound qs" if it: "it \<in> set items" for it
  proof -
    obtain qs where qs: "panel_queries (snd it) = Inr qs" "\<forall>q \<in> set qs. check_sql (snd it) q = Inr ()"
      using s(4) it by (auto simp: e check_queries_Inr)
    moreover have "\<forall>q \<in> set qs. check_histogram (snd it) q = Inr ()"
      using s(5) it qs(1) by (auto simp: e check_queries_Inr)
    ultimately have "list_all query_sound qs"
      using check_sql_Inr check_histogram_Inr by (simp add: list_all_iff query_sound_def) blast
    then show ?thesis using qs(1) by blast
  qed
  then show ?thesis using s(1,2) by (auto simp: netflow_sound_def e list_all_iff)
qed

end
