(* ===== verification/Mission_Sound.thy ===== *)
theory Mission_Sound
  imports Mission_Built Soundness Topology_Dashboard
begin

text \<open>
  What the mission control validator promises of any dashboard it accepts, and what its check of the
  range windows decides. Its node graph asks the same two queries as the topology dashboard.
\<close>

section \<open>Windows\<close>

text \<open>The leftmost bracket that holds something: every bracket opened before it closes at once.\<close>

definition bracketed :: "string \<Rightarrow> string \<Rightarrow> bool" where
  "bracketed w s = (\<exists>u v. s = u @ ''['' @ w @ '']'' @ v \<and> w \<noteq> [] \<and> CHR '']'' \<notin> set w \<and>
     (\<forall>p q. u = p @ ''['' @ q \<longrightarrow> q \<noteq> [] \<and> hd q = CHR '']''))"

lemma take_no_close: "CHR '']'' \<notin> set w \<Longrightarrow> takeWhile no_close (w @ '']'' @ v) = w \<and> dropWhile no_close (w @ '']'' @ v) \<noteq> []"
  by (induction w) (auto simp: no_close_def)

lemma bracketed_here:
  "w \<noteq> [] \<Longrightarrow> CHR '']'' \<notin> set w \<Longrightarrow> bracketed w (CHR ''['' # w @ '']'' @ v)"
  unfolding bracketed_def by (intro exI [of _ "[]"] exI [of _ v]) simp

lemma range_window_bracketed: "range_window s = Some w \<Longrightarrow> bracketed w s"
proof (induction s)
  case (Cons c s)
  show ?case
  proof (cases "c = CHR ''['' \<and> takeWhile no_close s \<noteq> [] \<and> dropWhile no_close s \<noteq> []")
    case True
    then have w: "w = takeWhile no_close s" using Cons.prems by simp
    have "hd (dropWhile no_close s) = CHR '']''" using hd_dropWhile [of no_close s] True by (simp add: no_close_def)
    then have "s = w @ '']'' @ tl (dropWhile no_close s)"
      using True w by (metis append_Cons append_Nil list.collapse takeWhile_dropWhile_id)
    moreover have "CHR '']'' \<notin> set w" using w set_takeWhileD [of _ no_close s] by (auto simp: no_close_def)
    ultimately show ?thesis using True w bracketed_here by metis
  next
    case False
    then have "range_window s = Some w" using Cons.prems by (auto split: if_splits)
    then obtain u v where s: "s = u @ ''['' @ w @ '']'' @ v" "w \<noteq> []" "CHR '']'' \<notin> set w"
      and u: "\<forall>p q. u = p @ ''['' @ q \<longrightarrow> q \<noteq> [] \<and> hd q = CHR '']''"
      using Cons.IH by (auto simp: bracketed_def)
    have "q \<noteq> [] \<and> hd q = CHR '']''" if pq: "c # u = p @ ''['' @ q" for p q
    proof (cases p)
      case Nil
      then have "c = CHR ''['' \<and> q = u" using pq by simp
      moreover have "\<not> list_all no_close s" using s(1) by (simp add: no_close_def)
      then have "dropWhile no_close s \<noteq> []" by (auto simp: list_all_iff dropWhile_eq_Nil_conv)
      ultimately have "takeWhile no_close s = []" "q = u" using False by auto
      then show ?thesis using s(1) by (cases u) (auto simp: no_close_def split: if_splits)
    next
      case (Cons p' ps)
      then have "u = ps @ ''['' @ q" using pq by simp
      then show ?thesis using u by blast
    qed
    then show ?thesis using s unfolding bracketed_def
      by (intro exI [of _ "c # u"] exI [of _ v]) simp
  qed
qed simp

lemma bracketed_range_window:
  assumes "s = u @ ''['' @ w @ '']'' @ v" "w \<noteq> []" "CHR '']'' \<notin> set w"
    and "\<forall>p q. u = p @ ''['' @ q \<longrightarrow> q \<noteq> [] \<and> hd q = CHR '']''"
  shows "range_window s = Some w"
  using assms
proof (induction u arbitrary: s)
  case Nil
  then show ?case using take_no_close [of w v] by simp
next
  case (Cons c u)
  have rest: "\<forall>p q. u = p @ ''['' @ q \<longrightarrow> q \<noteq> [] \<and> hd q = CHR '']''"
    using Cons.prems(4) by (metis append_Cons)
  have IH: "range_window (u @ ''['' @ w @ '']'' @ v) = Some w" by (rule Cons.IH [OF refl Cons.prems(2,3) rest])
  have "takeWhile no_close (u @ x) = []" if "c = CHR ''[''" for x
  proof -
    have "u \<noteq> [] \<and> hd u = CHR '']''" using Cons.prems(4) that by (metis append_Cons append_Nil)
    then show ?thesis by (cases u) (auto simp: no_close_def)
  qed
  then show ?case using IH Cons.prems(1) by auto
qed

lemma range_window_iff: "range_window s = Some w \<longleftrightarrow> bracketed w s"
  using range_window_bracketed bracketed_range_window by (auto simp: bracketed_def)

text \<open>Every call of a range function has a known window as the first within 400 characters.\<close>

definition windowed :: "string \<Rightarrow> bool" where
  "windowed e = (\<forall>f \<in> set RANGE_FUNCTIONS. \<forall>a r. e = a @ f @ r \<longrightarrow>
     (\<exists>w \<in> set RANGE_WINDOWS. bracketed w (take_chars 400 r)))"

lemma check_window_Inr:
  "check_window e r = Inr () \<longleftrightarrow> (\<exists>w \<in> set RANGE_WINDOWS. bracketed w (take_chars 400 r))"
  by (auto simp: check_window_def ensure_Inr_iff range_window_iff [symmetric] split: option.splits)

lemma check_ranges_iff: "check_ranges (JStr ''prometheus'') e = Inr () \<longleftrightarrow> windowed e"
  using after_all_iff range_functions_unbordered
  by (fastforce simp: check_ranges_def allR_Inr_iff check_window_Inr windowed_def)

text \<open>A call without a window of its own passes when a later bracket is near enough.\<close>

lemma borrowed_window: "check_ranges (JStr ''prometheus'') ''rate(a_total) + rate(b_total[1h])'' = Inr ()"
  by code_simp

section \<open>Multi-value variables\<close>

lemma check_multi_iff:
  "check_multi e = Inr () \<longleftrightarrow> list_all (\<lambda>v. py_in (''$'' @ v) e \<longrightarrow> multi_matched v e) MULTI_VARS"
  by (auto simp: check_multi_def allR_Inr_iff ensure_Inr_iff list_all_iff)

section \<open>Panels\<close>

definition known_unit :: "json \<Rightarrow> bool" where
  "known_unit v = (\<exists>u \<in> set KNOWN_UNITS. v = JStr u)"

text \<open>The first step has no value or the value null.\<close>

definition open_base :: "item list \<Rightarrow> bool" where
  "open_base holder = (\<forall>step rest. map_of holder ''steps'' = Some (JList (step # rest)) \<longrightarrow>
     (\<exists>kvs. step = JDict kvs \<and> map_of kvs ''value'' \<in> {None, Some JNull}))"

definition units_known :: "json \<Rightarrow> bool" where
  "units_known override = (\<exists>ps. bindR (jget override ''properties'') jlist = Inr ps \<and>
     list_all (\<lambda>p. jget p ''id'' = Inr (JStr ''unit'') \<longrightarrow> (\<exists>v. jget p ''value'' = Inr v \<and> known_unit v)) ps)"

definition mission_panel :: "item \<Rightarrow> int \<Rightarrow> bool" where
  "mission_panel it pid = (\<exists>spec viz defaults. fst it = panel_key pid \<and> jget (snd it) ''spec'' = Inr spec \<and>
     jget spec ''id'' = Inr (JInt pid) \<and> jpath spec [''vizConfig'', ''group''] = Inr (JStr viz) \<and>
     jpath spec [''vizConfig'', ''spec'', ''fieldConfig'', ''defaults''] = Inr defaults \<and>
     (viz \<noteq> ''text'' \<longrightarrow> (\<exists>d. jget spec ''description'' = Inr (JStr d) \<and> visible d)) \<and>
     (viz \<notin> {''text'', ''logs'', ''nodeGraph''} \<longrightarrow> (\<exists>u. jget defaults ''unit'' = Inr u \<and> known_unit u)) \<and>
     (\<exists>ovs. overrides_of spec = Inr ovs \<and> list_all units_known ovs) \<and>
     list_all open_base (iter_threshold_sets spec) \<and>
     (viz = ''state-timeline'' \<longrightarrow> (\<exists>m. jget defaults ''mappings'' = Inr m \<and> py_truthy m)) \<and>
     (viz \<noteq> ''text'' \<longrightarrow> (\<exists>opts n. jpath spec [''data'', ''spec'', ''queryOptions''] = Inr opts \<and>
        jget opts ''maxDataPoints'' = Inr n \<and> py_truthy n \<and> jget opts ''interval'' = Inr (JStr MIN_INTERVAL))))"

lemma mc_check_unit_Inr:
  "mc_check_unit key viz spec defaults = Inr r \<Longrightarrow> viz \<notin> {''text'', ''logs'', ''nodeGraph''} \<Longrightarrow>
   \<exists>u. jget defaults ''unit'' = Inr u \<and> known_unit u"
  by (auto simp: mc_check_unit_def jlookup_def known_unit_def is_str_in_def bindR_Inr_iff res_iff Let_def
      split: if_splits)

lemma mc_check_base_Inr: "mc_check_base key holder = Inr r \<Longrightarrow> open_base holder"
  by (auto simp: mc_check_base_def open_base_def jlookup_def bindR_Inr_iff ensure_Inr_iff res_iff)

lemma mc_check_options_Inr:
  "mc_check_options key viz spec = Inr r \<Longrightarrow> viz \<noteq> ''text'' \<Longrightarrow>
   \<exists>opts n. jpath spec [''data'', ''spec'', ''queryOptions''] = Inr opts \<and> jget opts ''maxDataPoints'' = Inr n \<and>
     py_truthy n \<and> jget opts ''interval'' = Inr (JStr MIN_INTERVAL)"
  by (auto simp: mc_check_options_def jlookup_def some_truthy_def bindR_Inr_iff ensure_Inr_iff res_iff
      simp del: jpath.simps split: option.splits)

lemma units_known_Inr: "each_prop (mc_check_prop key) override = Inr r \<Longrightarrow> units_known override"
  by (fastforce simp: each_prop_def units_known_def mc_check_prop_def is_str_in_def known_unit_def bindR_Inr_iff
      allR_Inr_iff ensure_Inr_iff list_all_iff)

lemma mc_check_timeline_Inr:
  "mc_check_timeline key viz spec defaults = Inr r \<Longrightarrow> viz = ''state-timeline'' \<Longrightarrow>
   \<exists>m. jget defaults ''mappings'' = Inr m \<and> py_truthy m"
  by (auto simp: mc_check_timeline_def jlookup_def some_truthy_def bindR_Inr_iff ensure_Inr_iff res_iff
      split: option.splits)

lemma mc_check_panel_sound:
  assumes "mc_check_panel ids it = Inr ids'"
  shows "\<exists>pid. mission_panel it pid \<and> ids' = ids @ [pid]"
proof -
  obtain key element where it: "it = (key, element)" by (cases it)
  obtain spec i pid g viz defaults u r1 r2 r3 r4 ovs r5 where p: "jget element ''spec'' = Inr spec"
    "jget spec ''id'' = Inr i" "jint i = Inr pid" "key = ''panel-'' @ show_int pid"
    "jpath spec [''vizConfig'', ''group''] = Inr g" "jstr g = Inr viz"
    "jpath spec [''vizConfig'', ''spec'', ''fieldConfig'', ''defaults''] = Inr defaults"
    "(if viz \<noteq> ''text'' then
       bindR (bindR (jget spec ''description'') jstr) (\<lambda>desc.
         if py_strip desc = [] then bindR (bindR (jget spec ''title'') jstr) (\<lambda>t.
           Inl (AssertionError (''missing description: '' @ key @ '' '' @ t)))
         else Inr ())
      else Inr ()) = Inr u"
    "mc_check_unit key viz spec defaults = Inr r1" "allR (mc_check_base key) (iter_threshold_sets spec) = Inr r2"
    "mc_check_options key viz spec = Inr r3" "ids' = ids @ [pid]" "mc_check_timeline key viz spec defaults = Inr r4"
    "overrides_of spec = Inr ovs" "allR (each_prop (mc_check_prop key)) ovs = Inr r5"
    using assms unfolding it mc_check_panel_def Let_def
    by (clarsimp simp only: bindR_Inr_iff prod.case ensure_Inr_iff sum.inject)
  have "\<exists>d. jget spec ''description'' = Inr (JStr d) \<and> visible d" if "viz \<noteq> ''text''"
    using p(8) that by (auto simp: bindR_Inr_iff res_iff strip_visible [symmetric] split: if_splits)
  moreover have "list_all open_base (iter_threshold_sets spec)"
    using p(10) mc_check_base_Inr by (auto simp: allR_Inr_iff list_all_iff)
  moreover have "list_all units_known ovs"
    using p(15) units_known_Inr by (auto simp: allR_Inr_iff list_all_iff)
  moreover have "jget spec ''id'' = Inr (JInt pid)" "jpath spec [''vizConfig'', ''group''] = Inr (JStr viz)"
    using p(2,3,5,6) by (auto simp: res_iff simp del: jpath.simps)
  ultimately have "mission_panel it pid"
    using p(1,4,7,14) mc_check_unit_Inr [OF p(9)] mc_check_options_Inr [OF p(11)] mc_check_timeline_Inr [OF p(13)]
    unfolding mission_panel_def it fst_conv snd_conv panel_key_def by blast
  then show ?thesis using p(12) by blast
qed

lemma mc_panel_fold_sound:
  "foldR mc_check_panel ids its = Inr ids' \<Longrightarrow> \<exists>pids. ids' = ids @ pids \<and> list_all2 mission_panel its pids"
proof (induction its arbitrary: ids)
  case (Cons it its)
  then obtain pid where "mission_panel it pid" "foldR mc_check_panel (ids @ [pid]) its = Inr ids'"
    using mc_check_panel_sound by (fastforce simp: bindR_Inr_iff)
  then show ?case using Cons.IH by fastforce
qed simp

section \<open>The dashboard\<close>

definition mission_sound :: "json \<Rightarrow> bool" where
  "mission_sound dash = (\<exists>spec elements layout ids by_tab names exprs.
     jget dash ''spec'' = Inr spec \<and> jget spec ''elements'' = Inr (JDict elements) \<and>
     jget spec ''layout'' = Inr layout \<and>
     distinct (layout_refs layout) \<and> set (layout_refs layout) = fst ` set elements \<and>
     60 \<le> length elements \<and> length elements \<le> 90 \<and>
     list_all2 mission_panel elements ids \<and> distinct ids \<and>
     iter_exprs (JDict elements) = Inr exprs \<and>
     list_all (\<lambda>(grp, e). (grp = JStr ''prometheus'' \<longrightarrow> windowed e) \<and>
       list_all (\<lambda>v. py_in (''$'' @ v) e \<longrightarrow> multi_matched v e) MULTI_VARS) exprs \<and>
     grid_items_by_tab layout = Inr by_tab \<and> tabs_ok by_tab \<and>
     variable_names spec = Inr names \<and>
     list_all (\<lambda>s. \<forall>v. var_occurs v s \<longrightarrow> v \<in> set names \<union> set MC_GLOBALS) (iter_strings spec))"

lemma mc_sound:
  assumes "mc_validate_dashboard d = Inr ()"
  shows "mission_sound d"
proof -
  obtain spec elements layout items ids exprs r1 r2 r3 r4 where s: "jget d ''spec'' = Inr spec"
    "jget spec ''elements'' = Inr elements" "jget spec ''layout'' = Inr layout" "check_refs layout elements = Inr r1"
    "60 \<le> length (jkeys elements)" "length (jkeys elements) \<le> 90"
    "jitems elements = Inr items" "foldR mc_check_panel [] items = Inr ids" "distinct ids"
    "iter_exprs elements = Inr exprs"
    "allR (\<lambda>(grp, expr). bindR (check_ranges grp expr) (\<lambda>_. check_multi expr)) exprs = Inr r2"
    "mc_check_grid layout = Inr r4" "check_vars MC_GLOBALS [''DS_PROMETHEUS'', ''DS_LOKI''] spec = Inr r3"
    using assms unfolding mc_validate_dashboard_def Let_def PANEL_BUDGET_def
    by (clarsimp simp only: bindR_Inr_iff prod.case ensure_Inr_iff)
  have e: "elements = JDict items" using s(7) by (simp add: jitems_Inr)
  have refs: "distinct (layout_refs layout)" "set (layout_refs layout) = fst ` set items"
    using s(4) by (simp_all add: e check_refs_iff)
  have ids: "list_all2 mission_panel items ids" using mc_panel_fold_sound [OF s(8)] by simp
  have "(grp = JStr ''prometheus'' \<longrightarrow> windowed x) \<and>
      list_all (\<lambda>v. py_in (''$'' @ v) x \<longrightarrow> multi_matched v x) MULTI_VARS" if "(grp, x) \<in> set exprs" for grp x
    using s(11) that by (fastforce simp: allR_Inr_iff bindR_Inr_iff check_ranges_iff check_multi_iff)
  then have exprs: "list_all (\<lambda>(grp, e). (grp = JStr ''prometheus'' \<longrightarrow> windowed e) \<and>
      list_all (\<lambda>v. py_in (''$'' @ v) e \<longrightarrow> multi_matched v e) MULTI_VARS) exprs"
    by (auto simp: list_all_iff)
  obtain by_tab where tabs: "grid_items_by_tab layout = Inr by_tab" "tabs_ok by_tab"
    using s(12) by (auto simp: mc_check_grid_iff check_grid_iff)
  obtain names where names: "variable_names spec = Inr names"
    "set (referenced_vars spec) \<subseteq> set names \<union> set MC_GLOBALS"
    using s(13) by (auto simp: check_vars_iff)
  have "list_all (\<lambda>t. \<forall>v. var_occurs v t \<longrightarrow> v \<in> set names \<union> set MC_GLOBALS) (iter_strings spec)"
    using names(2) referenced_iff by (fastforce simp: list_all_iff)
  moreover have "60 \<le> length items" "length items \<le> 90" using s(5,6) by (simp_all add: e)
  ultimately show ?thesis unfolding mission_sound_def using s(1-3,9,10) refs ids exprs tabs names(1) by (auto simp: e)
qed

section \<open>The node graph\<close>

lemma graph_agrees: "mc_NODES_EXPR = NODES_EXPR \<and> mc_EDGES_EXPR = EDGES_EXPR"
  by (simp add: graph_defs NODES_EXPR_def EDGES_EXPR_def nodes_expr_def edges_expr_def prefer_authority_def
      infra_as_def overlay_traffic_def traffic_as_def TRAFFIC_BY_MAC_def selector_def NODE_METRIC_def
      EDGE_METRIC_def INFRA_METRIC_def mc_TRAFFIC_BY_MAC_def)

end
