(* ===== verification/Classic_Dashboards.thy ===== *)
theory Classic_Dashboards
  imports Builder
begin

text \<open>
  \<open>scripts/build_dashboards.py\<close>: the panel constructors, the wrapper and the four classic dashboards.
  A builder appends panels at a row that it moves down; it is a list of steps here, a panel as a
  function of the row or a move. The only assertion is on the right edge.
\<close>

section \<open>Steps\<close>

datatype cl_step = Put "int \<Rightarrow> json" | Down int

fun draw :: "json list \<times> int \<Rightarrow> cl_step \<Rightarrow> json list \<times> int" where
  "draw (panels, y) (Put p) = (panels @ [p y], y)"
| "draw (panels, y) (Down n) = (panels, y + n)"

definition drawn :: "cl_step list \<Rightarrow> json list" where
  "drawn steps = fst (foldl draw ([], 0) steps)"

section \<open>Constants\<close>

definition cl_DS :: json where
  \<open>cl_DS =
     JDict [(''type'', JStr ''prometheus''), (''uid'', JStr ''${DS_PROMETHEUS}'')]\<close>

section \<open>Panels\<close>

text \<open>The optional arguments, and Python's \<open>x or y\<close> for a list.\<close>

record ckwargs =
  c_unit :: "string option"
  c_legend :: "string option"
  c_desc :: "string option"
  c_thresholds :: "json list option"
  c_graph :: "bool option"
  c_calcs :: "string list option"
  c_stacked :: "bool option"
  c_fill :: "int option"
  c_overrides :: "json list option"
  c_transforms :: "json list option"
  c_sort_col :: "string option"
  c_sort_desc :: "bool option"
  c_min :: "json option"
  c_max :: "json option"
  c_orientation :: "string option"

definition ckw :: ckwargs where
  "ckw = \<lparr>c_unit = None, c_legend = None, c_desc = None, c_thresholds = None, c_graph = None,
     c_calcs = None, c_stacked = None, c_fill = None, c_overrides = None, c_transforms = None,
     c_sort_col = None, c_sort_desc = None, c_min = None, c_max = None, c_orientation = None\<rparr>"

definition or_default :: "'a list \<Rightarrow> 'a list option \<Rightarrow> 'a list" where
  "or_default d v = (case v of None \<Rightarrow> d | Some xs \<Rightarrow> if xs = [] then d else xs)"

definition cl_tgt ::
  "string \<Rightarrow> string \<Rightarrow> string \<Rightarrow> string \<Rightarrow> bool \<Rightarrow> json" where
  \<open>cl_tgt expr legend ref fmt instant =
    (let t = [(''datasource'', cl_DS), (''expr'', JStr expr), (''legendFormat'', JStr legend),
       (''refId'', JStr ref)] in
     let t = t @ (if fmt \<noteq> ''time_series'' then [(''format'', JStr fmt)] else []) in
     let t = t @ (if instant then [(''instant'', JBool True)] else []) in
     JDict t)\<close>

definition cl_stat ::
  "int \<Rightarrow> string \<Rightarrow> string \<Rightarrow> int \<Rightarrow> int \<Rightarrow> int \<Rightarrow> int \<Rightarrow> ckwargs \<Rightarrow> json" where
  \<open>cl_stat pid title expr x y w h a =
    (let steps = or_default [JDict [(''color'', JStr ''blue''),
       (''value'', JInt 0)]] (c_thresholds a) in
     JDict [(''type'', JStr ''stat''), (''id'', JInt pid), (''title'', JStr title),
       (''description'', JStr (arg [] (c_desc a))), (''datasource'', cl_DS), (''targets'',
       JList [cl_tgt expr (arg [] (c_legend a)) ''A'' ''time_series'' False]), (''fieldConfig'',
       JDict [(''defaults'', JDict [(''color'', JDict [(''mode'', JStr ''thresholds'')]),
       (''mappings'', JList []), (''thresholds'', JDict [(''mode'', JStr ''absolute''),
       (''steps'', JList steps)]), (''unit'', JStr (arg ''short'' (c_unit a)))]),
       (''overrides'', JList [])]), (''gridPos'', JDict [(''x'', JInt x), (''y'', JInt y),
       (''w'', JInt w), (''h'', JInt h)]), (''options'',
       JDict [(''colorMode'', JStr ''background''), (''graphMode'',
       (if arg False (c_graph a) then JStr ''area'' else JStr ''none'')),
       (''justifyMode'', JStr ''auto''), (''orientation'', JStr ''auto''), (''reduceOptions'',
       JDict [(''calcs'', JList [JStr ''lastNotNull'']), (''fields'', JStr []),
       (''values'', JBool False)]), (''textMode'', JStr ''auto''), (''wideLayout'', JBool True)]),
       (''pluginVersion'', JStr ''12.4.0'')])\<close>

definition cl_ts ::
  "int \<Rightarrow> string \<Rightarrow> json list \<Rightarrow> int \<Rightarrow> int \<Rightarrow> int \<Rightarrow> int \<Rightarrow> ckwargs \<Rightarrow> json" where
  \<open>cl_ts pid title targets x y w h a =
    (let custom = [(''drawStyle'', JStr ''line''), (''lineInterpolation'', JStr ''smooth''),
       (''lineWidth'', JInt 2), (''fillOpacity'', JInt (arg 15 (c_fill a))),
       (''gradientMode'', JStr ''opacity''), (''showPoints'', JStr ''auto''),
       (''spanNulls'', JBool False), (''stacking'', JDict [(''group'', JStr ''A''), (''mode'',
       (if arg False (c_stacked a) then JStr ''normal'' else JStr ''none''))]),
       (''thresholdsStyle'', JDict [(''mode'', JStr ''off'')]),
       (''scaleDistribution'', JDict [(''type'', JStr ''linear'')]), (''hideFrom'',
       JDict [(''legend'', JBool False), (''tooltip'', JBool False), (''viz'', JBool False)])] in
     JDict [(''type'', JStr ''timeseries''), (''id'', JInt pid), (''title'', JStr title),
       (''description'', JStr (arg [] (c_desc a))), (''datasource'', cl_DS),
       (''targets'', JList targets), (''fieldConfig'', JDict [(''defaults'',
       JDict [(''color'', JDict [(''mode'', JStr ''palette-classic'')]),
       (''custom'', JDict custom), (''mappings'', JList []),
       (''unit'', JStr (arg ''short'' (c_unit a))), (''thresholds'',
       JDict [(''mode'', JStr ''absolute''), (''steps'',
       JList [JDict [(''color'', JStr ''green''), (''value'', JInt 0)]])])]),
       (''overrides'', JList (or_default [] (c_overrides a)))]), (''gridPos'',
       JDict [(''x'', JInt x), (''y'', JInt y), (''w'', JInt w), (''h'', JInt h)]), (''options'',
       JDict [(''legend'',
       JDict [(''calcs'', JList (map JStr (or_default [''lastNotNull''] (c_calcs a)))),
       (''displayMode'', JStr ''table''), (''placement'', JStr ''bottom''),
       (''showLegend'', JBool True)]), (''tooltip'', JDict [(''hideZeros'', JBool False),
       (''mode'', JStr ''multi''), (''sort'', JStr ''desc'')])]), (''transformations'', JList []),
       (''pluginVersion'', JStr ''12.4.0'')])\<close>

definition cl_table ::
  "int \<Rightarrow> string \<Rightarrow> json list \<Rightarrow> int \<Rightarrow> int \<Rightarrow> int \<Rightarrow> int \<Rightarrow> ckwargs \<Rightarrow> json" where
  \<open>cl_table pid title targets x y w h a =
     JDict [(''type'', JStr ''table''), (''id'', JInt pid), (''title'', JStr title),
     (''description'', JStr (arg [] (c_desc a))), (''datasource'', cl_DS),
     (''targets'', JList targets), (''fieldConfig'', JDict [(''defaults'', JDict [(''custom'',
     JDict [(''align'', JStr ''auto''), (''cellOptions'', JDict [(''type'', JStr ''auto'')]),
     (''filterable'', JBool True), (''inspect'', JBool False)]), (''mappings'', JList []),
     (''thresholds'', JDict [(''mode'', JStr ''absolute''), (''steps'',
     JList [JDict [(''color'', JStr ''green''), (''value'', JInt 0)]])])]),
     (''overrides'', JList (or_default [] (c_overrides a)))]), (''gridPos'',
     JDict [(''x'', JInt x), (''y'', JInt y), (''w'', JInt w), (''h'', JInt h)]), (''options'',
     JDict [(''cellHeight'', JStr ''sm''), (''showHeader'', JBool True), (''footer'',
     JDict [(''show'', JBool False), (''reducer'', JList [JStr ''sum'']),
     (''fields'', JStr [])]), (''sortBy'',
     JList (if arg [] (c_sort_col a) \<noteq> [] then [JDict [(''desc'', JBool (arg True (c_sort_desc a))),
     (''displayName'', JStr (arg [] (c_sort_col a)))]] else []))]),
     (''transformations'', JList (or_default [] (c_transforms a))),
     (''pluginVersion'', JStr ''12.4.0'')]\<close>

definition cl_row ::
  "int \<Rightarrow> string \<Rightarrow> int \<Rightarrow> bool \<Rightarrow> json" where
  \<open>cl_row pid title y collapsed =
     JDict [(''type'', JStr ''row''), (''id'', JInt pid), (''title'', JStr title),
     (''collapsed'', JBool collapsed), (''panels'', JList []), (''gridPos'',
     JDict [(''x'', JInt 0), (''y'', JInt y), (''w'', JInt 24), (''h'', JInt 1)])]\<close>

definition cl_bargauge ::
  "int \<Rightarrow> string \<Rightarrow> json list \<Rightarrow> int \<Rightarrow> int \<Rightarrow> int \<Rightarrow> int \<Rightarrow> ckwargs \<Rightarrow> json" where
  \<open>cl_bargauge pid title targets x y w h a =
    (let steps = or_default [JDict [(''color'', JStr ''green''), (''value'', JInt 0)],
       JDict [(''color'', JStr ''yellow''), (''value'', JFloat ''0.6'')],
       JDict [(''color'', JStr ''red''), (''value'', JFloat ''0.85'')]] (c_thresholds a) in
     let fd = [(''color'', JDict [(''mode'', JStr ''thresholds'')]), (''mappings'', JList []),
       (''min'', arg (JInt 0) (c_min a)), (''thresholds'', JDict [(''mode'', JStr ''absolute''),
       (''steps'', JList steps)]), (''unit'', JStr (arg ''short'' (c_unit a)))] in
     let fd = fd @ (case c_max a of None \<Rightarrow> [] | Some v \<Rightarrow> [(''max'', v)]) in
     JDict [(''type'', JStr ''bargauge''), (''id'', JInt pid), (''title'', JStr title),
       (''description'', JStr (arg [] (c_desc a))), (''datasource'', cl_DS),
       (''targets'', JList targets), (''fieldConfig'', JDict [(''defaults'', JDict fd),
       (''overrides'', JList [])]), (''gridPos'', JDict [(''x'', JInt x), (''y'', JInt y),
       (''w'', JInt w), (''h'', JInt h)]), (''options'',
       JDict [(''displayMode'', JStr ''gradient''),
       (''orientation'', JStr (arg ''horizontal'' (c_orientation a))),
       (''namePlacement'', JStr ''auto''), (''valueMode'', JStr ''color''),
       (''showUnfilled'', JBool True), (''sizing'', JStr ''auto''), (''minVizHeight'', JInt 16),
       (''maxVizHeight'', JInt 300), (''minVizWidth'', JInt 8), (''reduceOptions'',
       JDict [(''calcs'', JList [JStr ''lastNotNull'']), (''fields'', JStr []),
       (''values'', JBool False)]), (''legend'', JDict [(''calcs'', JList []),
       (''displayMode'', JStr ''list''), (''placement'', JStr ''bottom''),
       (''showLegend'', JBool False)])]), (''transformations'', JList []),
       (''pluginVersion'', JStr ''12.4.0'')])\<close>

definition cl_LOKI_DS :: json where
  \<open>cl_LOKI_DS =
     JDict [(''type'', JStr ''loki''), (''uid'', JStr ''${DS_LOKI}'')]\<close>

definition cl_loki_tgt ::
  "string \<Rightarrow> string \<Rightarrow> string \<Rightarrow> json" where
  \<open>cl_loki_tgt expr ref legend =
    (let t = [(''datasource'', cl_LOKI_DS), (''expr'', JStr expr), (''refId'', JStr ref),
       (''queryType'', JStr ''range'')] in
     let t = t @ (if legend \<noteq> [] then [(''legendFormat'', JStr legend)] else []) in
     JDict t)\<close>

definition cl_loki_stat ::
  "int \<Rightarrow> string \<Rightarrow> string \<Rightarrow> int \<Rightarrow> int \<Rightarrow> int \<Rightarrow> int \<Rightarrow> ckwargs \<Rightarrow> json" where
  \<open>cl_loki_stat pid title expr x y w h a =
    (let steps = or_default [JDict [(''color'', JStr ''blue''),
       (''value'', JInt 0)]] (c_thresholds a) in
     JDict [(''type'', JStr ''stat''), (''id'', JInt pid), (''title'', JStr title),
       (''description'', JStr (arg [] (c_desc a))), (''datasource'', cl_LOKI_DS), (''targets'',
       JList [cl_loki_tgt expr ''A'' []]), (''fieldConfig'', JDict [(''defaults'',
       JDict [(''color'', JDict [(''mode'', JStr ''thresholds'')]), (''mappings'', JList []),
       (''thresholds'', JDict [(''mode'', JStr ''absolute''), (''steps'', JList steps)]),
       (''unit'', JStr ''short'')]), (''overrides'', JList [])]), (''gridPos'',
       JDict [(''x'', JInt x), (''y'', JInt y), (''w'', JInt w), (''h'', JInt h)]), (''options'',
       JDict [(''colorMode'', JStr ''background''), (''graphMode'', JStr ''none''),
       (''justifyMode'', JStr ''auto''), (''orientation'', JStr ''auto''), (''reduceOptions'',
       JDict [(''calcs'', JList [JStr ''sum'']), (''fields'', JStr []),
       (''values'', JBool False)]), (''textMode'', JStr ''auto'')]),
       (''pluginVersion'', JStr ''12.4.0'')])\<close>

definition cl_loki_ts ::
  "int \<Rightarrow> string \<Rightarrow> string \<Rightarrow> int \<Rightarrow> int \<Rightarrow> int \<Rightarrow> int \<Rightarrow> ckwargs \<Rightarrow> json" where
  \<open>cl_loki_ts pid title expr x y w h a =
     JDict [(''type'', JStr ''timeseries''), (''id'', JInt pid), (''title'', JStr title),
     (''description'', JStr (arg [] (c_desc a))), (''datasource'', cl_LOKI_DS), (''targets'',
     JList [cl_loki_tgt expr ''A'' (arg [] (c_legend a))]), (''fieldConfig'',
     JDict [(''defaults'', JDict [(''color'', JDict [(''mode'', JStr ''palette-classic'')]),
     (''custom'', JDict [(''drawStyle'', JStr ''bars''), (''lineWidth'', JInt 1),
     (''fillOpacity'', JInt 80), (''gradientMode'', JStr ''none''),
     (''showPoints'', JStr ''never''), (''spanNulls'', JBool False), (''stacking'',
     JDict [(''group'', JStr ''A''), (''mode'', JStr ''none'')])]), (''unit'', JStr ''short'')]),
     (''overrides'', JList [])]), (''gridPos'', JDict [(''x'', JInt x), (''y'', JInt y),
     (''w'', JInt w), (''h'', JInt h)]), (''options'', JDict [(''legend'',
     JDict [(''displayMode'', JStr ''list''), (''placement'', JStr ''bottom''),
     (''showLegend'', JBool True)]), (''tooltip'', JDict [(''mode'', JStr ''multi''),
     (''sort'', JStr ''none'')])]), (''pluginVersion'', JStr ''12.4.0'')]\<close>

definition cl_loki_logs ::
  "int \<Rightarrow> string \<Rightarrow> string \<Rightarrow> int \<Rightarrow> int \<Rightarrow> int \<Rightarrow> int \<Rightarrow> ckwargs \<Rightarrow> json" where
  \<open>cl_loki_logs pid title expr x y w h a =
     JDict [(''type'', JStr ''logs''), (''id'', JInt pid), (''title'', JStr title),
     (''description'', JStr (arg [] (c_desc a))), (''datasource'', cl_LOKI_DS), (''targets'',
     JList [cl_loki_tgt expr ''A'' []]), (''gridPos'', JDict [(''x'', JInt x), (''y'', JInt y),
     (''w'', JInt w), (''h'', JInt h)]), (''options'', JDict [(''dedupStrategy'', JStr ''none''),
     (''enableLogDetails'', JBool True), (''prettifyLogMessage'', JBool False),
     (''showCommonLabels'', JBool False), (''showLabels'', JBool False),
     (''showTime'', JBool True), (''sortOrder'', JStr ''Descending''),
     (''wrapLogMessage'', JBool True)]), (''pluginVersion'', JStr ''12.4.0'')]\<close>

section \<open>The wrapper\<close>

definition cl_TEMPLATING :: json where
  \<open>cl_TEMPLATING =
     JDict [(''list'', JList [JDict [(''name'', JStr ''DS_PROMETHEUS''),
     (''type'', JStr ''datasource''), (''query'', JStr ''prometheus''), (''refresh'', JInt 1),
     (''includeAll'', JBool False), (''options'', JList []), (''regex'', JStr []), (''current'',
     JDict [(''text'', JStr ''Prometheus''), (''value'', JStr ''prometheus'')]),
     (''hide'', JInt 0), (''label'', JStr ''Datasource'')], JDict [(''name'', JStr ''router''),
     (''type'', JStr ''query''), (''label'', JStr ''Router''), (''datasource'',
     JDict [(''type'', JStr ''prometheus''), (''uid'', JStr ''${DS_PROMETHEUS}'')]),
     (''definition'', JStr ''label_values(node_load1{job="openwrt"}, router)''), (''query'',
     JDict [(''query'', JStr ''label_values(node_load1{job="openwrt"}, router)''),
     (''refId'', JStr ''PrometheusVariableQueryEditor-VariableQuery'')]), (''current'',
     JDict [(''text'', JStr ''openwrt''), (''value'', JStr ''openwrt'')]), (''hide'', JInt 0),
     (''includeAll'', JBool False), (''multi'', JBool False), (''options'', JList []),
     (''refresh'', JInt 1), (''regex'', JStr []), (''skipUrlSync'', JBool False),
     (''sort'', JInt 1)], JDict [(''name'', JStr ''wan_interface''), (''type'', JStr ''custom''),
     (''query'', JStr ''wan''), (''current'', JDict [(''text'', JStr ''wan''),
     (''value'', JStr ''wan'')]), (''hide'', JInt 0), (''label'', JStr ''WAN interface'')],
     JDict [(''name'', JStr ''wifi24_interface''), (''type'', JStr ''custom''),
     (''query'', JStr ''phy0-ap0''), (''current'', JDict [(''text'', JStr ''phy0-ap0''),
     (''value'', JStr ''phy0-ap0'')]), (''hide'', JInt 0),
     (''label'', JStr ''2.4 GHz interface'')], JDict [(''name'', JStr ''wifi5_interface''),
     (''type'', JStr ''custom''), (''query'', JStr ''phy1-ap0''), (''current'',
     JDict [(''text'', JStr ''phy1-ap0''), (''value'', JStr ''phy1-ap0'')]), (''hide'', JInt 0),
     (''label'', JStr ''5 GHz interface'')], JDict [(''name'', JStr ''vpn_interface''),
     (''type'', JStr ''custom''), (''query'', JStr ''tailscale0''), (''current'',
     JDict [(''text'', JStr ''tailscale0''), (''value'', JStr ''tailscale0'')]),
     (''hide'', JInt 0), (''label'', JStr ''VPN interface'')]])]\<close>

definition cl_ANNOTATIONS :: json where
  \<open>cl_ANNOTATIONS =
     JDict [(''list'', JList [JDict [(''builtIn'', JInt 1), (''datasource'',
     JDict [(''type'', JStr ''grafana''), (''uid'', JStr ''-- Grafana --'')]),
     (''enable'', JBool True), (''hide'', JBool True),
     (''iconColor'', JStr ''rgba(0, 211, 255, 1)''), (''name'', JStr ''Annotations & Alerts''),
     (''type'', JStr ''dashboard'')]])]\<close>

definition cl_document ::
  "string \<Rightarrow> string \<Rightarrow> string \<Rightarrow> json list \<Rightarrow> string list option \<Rightarrow> string \<Rightarrow> string \<Rightarrow> json" where
  \<open>cl_document uid title description panels tags refresh time_from =
     JDict [(''title'', JStr title), (''uid'', JStr uid), (''description'', JStr description),
     (''tags'', JList (map JStr (or_default [''openwrt''] (tags)))), (''schemaVersion'', JInt 42),
     (''version'', JInt 1), (''refresh'', JStr refresh), (''timezone'', JStr ''browser''),
     (''graphTooltip'', JInt 1), (''time'', JDict [(''from'', JStr time_from),
     (''to'', JStr ''now'')]), (''timepicker'', JDict []), (''weekStart'', JStr []),
     (''fiscalYearStartMonth'', JInt 0), (''preload'', JBool False), (''editable'', JBool True),
     (''annotations'', cl_ANNOTATIONS), (''links'', JList [JDict [(''title'', JStr ''Overview''),
     (''url'', JStr ''/d/openwrt-overview''), (''type'', JStr ''link''),
     (''icon'', JStr ''external link'')], JDict [(''title'', JStr ''Network''),
     (''url'', JStr ''/d/openwrt-network''), (''type'', JStr ''link''),
     (''icon'', JStr ''external link'')], JDict [(''title'', JStr ''Devices''),
     (''url'', JStr ''/d/openwrt-devices''), (''type'', JStr ''link''),
     (''icon'', JStr ''external link'')], JDict [(''title'', JStr ''Logs''),
     (''url'', JStr ''/d/openwrt-logs''), (''type'', JStr ''link''),
     (''icon'', JStr ''external link'')]]), (''panels'', JList panels),
     (''templating'', cl_TEMPLATING)]\<close>

text \<open>\<open>p.get("gridPos", {})\<close> and \<open>gp.get(key, 0)\<close>; the message prints the value or \<open>None\<close>.\<close>

definition grid_pos :: "json \<Rightarrow> json res" where
  "grid_pos p = bindR (jlookup p ''gridPos'') (\<lambda>v. Inr (case v of None \<Rightarrow> JDict [] | Some gp \<Rightarrow> gp))"

definition pos_field :: "json \<Rightarrow> string \<Rightarrow> int res" where
  "pos_field gp k = bindR (jlookup gp k) (\<lambda>v. case v of None \<Rightarrow> Inr 0 | Some n \<Rightarrow> jint n)"

definition show_field :: "json \<Rightarrow> string \<Rightarrow> string" where
  "show_field gp k = (case jlookup gp k of Inr (Some (JInt n)) \<Rightarrow> show_int n | _ \<Rightarrow> ''None'')"

definition cl_check_panel :: "(json \<Rightarrow> string) \<Rightarrow> json \<Rightarrow> unit res" where
  "cl_check_panel tail p =
     bindR (grid_pos p) (\<lambda>gp.
     bindR (pos_field gp ''x'') (\<lambda>x.
     bindR (pos_field gp ''w'') (\<lambda>w.
     if x + w \<le> 24 then Inr ()
     else bindR (bindR (jget p ''id'') jint) (\<lambda>pid.
          bindR (bindR (jget p ''title'') jstr) (\<lambda>title.
          Inl (AssertionError (''Panel '' @ show_int pid @ '' ['' @ title @ ''] overflows grid'' @ tail gp)))))))"

definition cl_make_dashboard ::
  "string \<Rightarrow> string \<Rightarrow> string \<Rightarrow> json list \<Rightarrow> string list option \<Rightarrow> string \<Rightarrow> string \<Rightarrow> json res" where
  "cl_make_dashboard uid title description panels tags refresh time_from =
     bindR (allR (cl_check_panel (\<lambda>gp. '': x='' @ show_field gp ''x'' @ '' w='' @ show_field gp ''w'')) panels)
       (\<lambda>_. Inr (cl_document uid title description panels tags refresh time_from))"

section \<open>The dashboards\<close>

definition cl_overview_1 :: "cl_step list" where
  \<open>cl_overview_1 =
    [Put (\<lambda>y. cl_stat 1 ''Uptime''
       (''node_time_seconds{job="openwrt", router="$router"} - node_boot_time_seconds{'' @
       ''job="openwrt", router="$router"}'') 0 y 4 4 (ckw\<lparr>c_unit := Some ''s'',
       c_desc := Some ''Time since last reboot'',
       c_thresholds := Some [JDict [(''color'', JStr ''red''), (''value'', JInt 0)],
       JDict [(''color'', JStr ''yellow''), (''value'', JInt 3600)],
       JDict [(''color'', JStr ''green''), (''value'', JInt 86400)]]\<rparr>)),
     Put (\<lambda>y. cl_stat 2 ''Memory Used''
       (''1 - (node_memory_MemAvailable_bytes{job="openwrt", router="$router"} / node_memory_MemTotal_bytes{'' @
       ''job="openwrt", router="$router"})'') 4 y 4 4 (ckw\<lparr>c_unit := Some ''percentunit'',
       c_desc := Some (''Percentage of RAM in use. Routers often run tight '' @
       [CHR 0xE2, CHR 0x80, CHR 0x94] @ '' >90% is a concern.''),
       c_thresholds := Some [JDict [(''color'', JStr ''green''), (''value'', JInt 0)],
       JDict [(''color'', JStr ''yellow''), (''value'', JFloat ''0.7'')],
       JDict [(''color'', JStr ''red''), (''value'', JFloat ''0.9'')]]\<rparr>)),
     Put (\<lambda>y. cl_stat 3 ''CPU Busy''
       ''1 - avg(rate(node_cpu_seconds_total{job="openwrt", router="$router", mode="idle"}[$__rate_interval]))''
       8 y 4 4 (ckw\<lparr>c_unit := Some ''percentunit'',
       c_desc := Some ''Average CPU utilisation across all cores'',
       c_thresholds := Some [JDict [(''color'', JStr ''green''), (''value'', JInt 0)],
       JDict [(''color'', JStr ''yellow''), (''value'', JFloat ''0.5'')],
       JDict [(''color'', JStr ''red''), (''value'', JFloat ''0.8'')]]\<rparr>)),
     Put (\<lambda>y. cl_stat 4 ''Online Devices''
       ''count(router_device_up{job="openwrt", router="$router"} == 1)'' 12 y 4 4
       (ckw\<lparr>c_unit := Some ''short'',
       c_desc := Some ''Number of devices currently seen as online by the router'',
       c_thresholds := Some [JDict [(''color'', JStr ''blue''), (''value'', JInt 0)]]\<rparr>)),
     Put (\<lambda>y. cl_stat 5 ''NAT Sessions''
       ''node_nf_conntrack_entries{job="openwrt", router="$router"}'' 16 y 4 4
       (ckw\<lparr>c_unit := Some ''short'',
       c_desc := Some (''Active NAT/conntrack sessions. High values may indicate port scanning or '' @
       ''excessive connections.''), c_thresholds := Some [JDict [(''color'', JStr ''green''),
       (''value'', JInt 0)], JDict [(''color'', JStr ''yellow''), (''value'', JInt 5000)],
       JDict [(''color'', JStr ''red''), (''value'', JInt 15000)]]\<rparr>)),
     Put (\<lambda>y. cl_stat 6 ''Packet Loss'' ''packet_loss{job="openwrt", router="$router"}'' 20 y 4
       4 (ckw\<lparr>c_unit := Some ''percent'',
       c_desc := Some ''Packet loss percentage on WAN connection. 0 = perfect, >5% = degraded.'',
       c_thresholds := Some [JDict [(''color'', JStr ''green''), (''value'', JInt 0)],
       JDict [(''color'', JStr ''yellow''), (''value'', JInt 1)],
       JDict [(''color'', JStr ''red''), (''value'', JInt 5)]]\<rparr>)),
     Down 4,
     Put (\<lambda>y. cl_stat 25 ''Services Down''
       ''count(openwrt_service_up{job="openwrt", router="$router"} == 0)'' 0 y 6 4
       (ckw\<lparr>c_unit := Some ''short'',
       c_desc := Some (''Count of monitored router services that are currently down. Backed by the '' @
       ''textfile service-health script.''),
       c_thresholds := Some [JDict [(''color'', JStr ''green''), (''value'', JInt 0)],
       JDict [(''color'', JStr ''yellow''), (''value'', JInt 1)],
       JDict [(''color'', JStr ''red''), (''value'', JInt 2)]]\<rparr>)),
     Put (\<lambda>y. cl_stat 26 ''Overlay Used''
       ''openwrt_filesystem_used_percent{job="openwrt", router="$router", mount="/overlay"}'' 6 y
       6 4 (ckw\<lparr>c_unit := Some ''percent'',
       c_desc := Some (''Persistent overlay storage usage. High usage is a common OpenWrt failure '' @
       ''mode during upgrades and package installs.''),
       c_thresholds := Some [JDict [(''color'', JStr ''green''), (''value'', JInt 0)],
       JDict [(''color'', JStr ''yellow''), (''value'', JInt 70)],
       JDict [(''color'', JStr ''red''), (''value'', JInt 85)]]\<rparr>)),
     Put (\<lambda>y. cl_stat 27 ''Router Temperature''
       (''max(node_hwmon_temp_celsius{job="openwrt", router="$router"}) or max(node_thermal_zone_temp{'' @
       ''job="openwrt", router="$router"})'') 12 y 6 4 (ckw\<lparr>c_unit := Some ''celsius'',
       c_desc := Some (''Preferred temperature signal from hwmon or thermal collectors. Install both '' @
       ''if available on your router.''),
       c_thresholds := Some [JDict [(''color'', JStr ''green''), (''value'', JInt 0)],
       JDict [(''color'', JStr ''yellow''), (''value'', JInt 70)],
       JDict [(''color'', JStr ''red''), (''value'', JInt 85)]]\<rparr>)),
     Put (\<lambda>y. cl_stat 28 ''WiFi Clients''
       ''sum(wifi_stations{job="openwrt", router="$router"})'' 18 y 6 4
       (ckw\<lparr>c_unit := Some ''short'',
       c_desc := Some (''Associated WiFi clients across all access-point interfaces. Requires the '' @
       ''wifi_stations collector.''), c_thresholds := Some [JDict [(''color'', JStr ''blue''),
       (''value'', JInt 0)]]\<rparr>)),
     Down 4,
     Put (\<lambda>y. cl_stat 29 ''DHCP Pool Used''
       (''openwrt_dhcp_pool_utilization_percent{job="openwrt", router="$router"} / '' @ ''100'') 0
       y 6 4 (ckw\<lparr>c_unit := Some ''percentunit'',
       c_desc := Some ''Active DHCP leases as a fraction of the configured pool across interfaces.'',
       c_thresholds := Some [JDict [(''color'', JStr ''green''), (''value'', JInt 0)],
       JDict [(''color'', JStr ''yellow''), (''value'', JFloat ''0.7'')],
       JDict [(''color'', JStr ''red''), (''value'', JFloat ''0.9'')]]\<rparr>)),
     Put (\<lambda>y. cl_stat 30 ''IPv6 WAN Up'' ''openwrt_wan6_up{job="openwrt", router="$router"}'' 6
       y 6 4 (ckw\<lparr>c_unit := Some ''short'',
       c_desc := Some ''Whether WAN IPv6 is currently up (1) or down (0).'',
       c_thresholds := Some [JDict [(''color'', JStr ''red''), (''value'', JInt 0)],
       JDict [(''color'', JStr ''green''), (''value'', JInt 1)]]\<rparr>)),
     Put (\<lambda>y. cl_stat 31 ''Links Down''
       ''count(openwrt_link_up{job="openwrt", router="$router"} == 0)'' 12 y 6 4
       (ckw\<lparr>c_unit := Some ''short'',
       c_desc := Some ''Number of interfaces currently reported with link down.'',
       c_thresholds := Some [JDict [(''color'', JStr ''green''), (''value'', JInt 0)],
       JDict [(''color'', JStr ''yellow''), (''value'', JInt 1)],
       JDict [(''color'', JStr ''red''), (''value'', JInt 2)]]\<rparr>)),
     Put (\<lambda>y. cl_stat 32 ''Softnet Drops/s''
       ''sum(rate(openwrt_softnet_dropped_total{job="openwrt", router="$router"}[$__rate_interval]))''
       18 y 6 4 (ckw\<lparr>c_unit := Some ''pps'',
       c_desc := Some (''Kernel packet drops in the softnet path. Sustained non-zero values indicate '' @
       ''packet-processing saturation.''),
       c_thresholds := Some [JDict [(''color'', JStr ''green''), (''value'', JInt 0)],
       JDict [(''color'', JStr ''yellow''), (''value'', JInt 1)],
       JDict [(''color'', JStr ''red''), (''value'', JInt 10)]]\<rparr>)),
     Down 4]\<close>

definition cl_overview_2 :: "cl_step list" where
  \<open>cl_overview_2 =
    [Put (\<lambda>y. cl_ts 7 ''WAN Throughput (wan)'' [cl_tgt
       ''rate(node_network_receive_bytes_total{job="openwrt", router="$router", device="$wan_interface"}[$__rate_interval])''
       ''Download (RX)'' ''A'' ''time_series'' False, cl_tgt
       (''rate(node_network_transmit_bytes_total{job="openwrt", router="$router", '' @
       ''device="$wan_interface"}[$__rate_interval])'') ''Upload (TX)'' ''B'' ''time_series''
       False] 0 y 12 9 (ckw\<lparr>c_unit := Some ''Bps'',
       c_desc := Some ''Real-time WAN download and upload throughput'',
       c_overrides := Some [JDict [(''matcher'', JDict [(''id'', JStr ''byName''),
       (''options'', JStr ''Download (RX)'')]), (''properties'',
       JList [JDict [(''id'', JStr ''color''), (''value'',
       JDict [(''fixedColor'', JStr ''#1a9e3a''), (''mode'', JStr ''fixed'')])]])],
       JDict [(''matcher'', JDict [(''id'', JStr ''byName''),
       (''options'', JStr ''Upload (TX)'')]), (''properties'',
       JList [JDict [(''id'', JStr ''color''), (''value'',
       JDict [(''fixedColor'', JStr ''#5794F2''), (''mode'', JStr ''fixed'')])]])]]\<rparr>)),
     Put (\<lambda>y. cl_ts 8 ''CPU Load Average'' [cl_tgt
       ''node_load1{job="openwrt", router="$router"}'' ''1 min'' ''A'' ''time_series'' False,
       cl_tgt ''node_load5{job="openwrt", router="$router"}'' ''5 min'' ''B'' ''time_series''
       False, cl_tgt ''node_load15{job="openwrt", router="$router"}'' ''15 min'' ''C''
       ''time_series'' False] 12 y 12 9 (ckw\<lparr>c_unit := Some ''short'',
       c_desc := Some (''System load average. On this 4-thread MT7621 router, values >4 indicate '' @
       ''sustained overload.''), c_calcs := Some [''lastNotNull'', ''max'']\<rparr>)),
     Down 9,
     Put (\<lambda>y. cl_ts 9 ''Memory Usage'' [cl_tgt
       (''node_memory_MemTotal_bytes{job="openwrt", router="$router"} - node_memory_MemAvailable_bytes{'' @
       ''job="openwrt", router="$router"}'') ''Used'' ''A'' ''time_series'' False, cl_tgt
       ''node_memory_MemAvailable_bytes{job="openwrt", router="$router"}'' ''Available'' ''B''
       ''time_series'' False, cl_tgt
       (''node_memory_Buffers_bytes{job="openwrt", router="$router"} + node_memory_Cached_bytes{'' @
       ''job="openwrt", router="$router"}'') ''Buffers+Cache'' ''C'' ''time_series'' False] 0 y 12
       8 (ckw\<lparr>c_unit := Some ''bytes'', c_stacked := Some True, c_fill := Some 40,
       c_desc := Some (''RAM breakdown. 'Used' is actively allocated. 'Buffers+Cache' can be reclaimed.'')\<rparr>)),
     Put (\<lambda>y. cl_ts 10 ''NAT Conntrack Sessions'' [cl_tgt
       ''node_nf_conntrack_entries{job="openwrt", router="$router"}'' ''Active sessions'' ''A''
       ''time_series'' False, cl_tgt
       ''node_nf_conntrack_entries_limit{job="openwrt", router="$router"}'' ''Maximum limit''
       ''B'' ''time_series'' False] 12 y 12 8 (ckw\<lparr>c_unit := Some ''short'',
       c_desc := Some (''Active NAT sessions vs the table limit. Approaching the limit causes connection '' @
       ''failures.''), c_overrides := Some [JDict [(''matcher'', JDict [(''id'', JStr ''byName''),
       (''options'', JStr ''Maximum limit'')]), (''properties'',
       JList [JDict [(''id'', JStr ''color''), (''value'',
       JDict [(''fixedColor'', JStr ''#F2495C''), (''mode'', JStr ''fixed'')])],
       JDict [(''id'', JStr ''custom.lineStyle''), (''value'', JDict [(''dash'', JList [JInt 10,
       JInt 10]), (''fill'', JStr ''dash'')])]])]]\<rparr>)),
     Down 8,
     Put (\<lambda>y. cl_ts 11 ''CPU Usage by Mode (all cores)'' [cl_tgt
       ''sum(rate(node_cpu_seconds_total{job="openwrt", router="$router", mode="user"}[$__rate_interval]))''
       ''user'' ''A'' ''time_series'' False, cl_tgt
       ''sum(rate(node_cpu_seconds_total{job="openwrt", router="$router", mode="system"}[$__rate_interval]))''
       ''system'' ''B'' ''time_series'' False, cl_tgt
       ''sum(rate(node_cpu_seconds_total{job="openwrt", router="$router", mode="softirq"}[$__rate_interval]))''
       ''softirq'' ''C'' ''time_series'' False, cl_tgt
       ''sum(rate(node_cpu_seconds_total{job="openwrt", router="$router", mode="iowait"}[$__rate_interval]))''
       ''iowait'' ''D'' ''time_series'' False] 0 y 24 8 (ckw\<lparr>c_unit := Some ''short'',
       c_stacked := Some True, c_fill := Some 60,
       c_desc := Some (''CPU time breakdown across all 4 threads. softirq = network packet processing '' @
       ''(normal on a router).'')\<rparr>)),
     Down 8,
     Put (\<lambda>y. cl_row 20 ''Router Info'' y False),
     Down 1,
     Put (\<lambda>y. cl_table 21 ''OpenWrt Firmware Info'' [cl_tgt
       ''node_openwrt_info{job="openwrt", router="$router"}'' [] ''A'' ''table'' True] 0 y 24 4
       (ckw\<lparr>c_desc := Some ''Router hardware and firmware details from node_openwrt_info'',
       c_transforms := Some [JDict [(''id'', JStr ''organize''), (''options'',
       JDict [(''excludeByName'', JDict [(''Time'', JBool True), (''__name__'', JBool True),
       (''Value'', JBool True), (''job'', JBool True)]), (''renameByName'',
       JDict [(''board_name'', JStr ''Board''), (''model'', JStr ''Model''),
       (''release'', JStr ''OpenWrt Release''), (''revision'', JStr ''Revision''),
       (''target'', JStr ''Target''), (''system'', JStr ''CPU''),
       (''id'', JStr ''ID'')])])]]\<rparr>)),
     Down 4,
     Put (\<lambda>y. cl_table 22 ''WAN IP Info'' [cl_tgt ''wan_info{job="openwrt", router="$router"}''
       [] ''A'' ''table'' True] 0 y 12 4
       (ckw\<lparr>c_desc := Some ''Current WAN and public IP addresses'',
       c_transforms := Some [JDict [(''id'', JStr ''organize''), (''options'',
       JDict [(''excludeByName'', JDict [(''Time'', JBool True), (''__name__'', JBool True),
       (''Value'', JBool True), (''job'', JBool True)]), (''renameByName'',
       JDict [(''wanip'', JStr ''WAN IP''), (''publicip'', JStr ''Public IP'')])])]]\<rparr>)),
     Put (\<lambda>y. cl_stat 23 ''Open File Descriptors''
       (''node_filefd_allocated{job="openwrt", router="$router"} / node_filefd_maximum{'' @
       ''job="openwrt", router="$router"}'') 12 y 6 4 (ckw\<lparr>c_unit := Some ''percentunit'',
       c_desc := Some (''File descriptor usage. High values indicate too many open connections or '' @
       ''stuck processes.''), c_thresholds := Some [JDict [(''color'', JStr ''green''),
       (''value'', JInt 0)], JDict [(''color'', JStr ''yellow''), (''value'', JFloat ''0.7'')],
       JDict [(''color'', JStr ''red''), (''value'', JFloat ''0.9'')]]\<rparr>)),
     Put (\<lambda>y. cl_stat 24 ''Static Reservations''
       ''max(time() - node_textfile_mtime_seconds{job="openwrt", router="$router"})'' 18 y 6 4
       (ckw\<lparr>c_unit := Some ''short'',
       c_desc := Some (''Age in seconds of the oldest helper-generated textfile metric. Rising values '' @
       ''mean one of the router-side scripts stopped updating.''),
       c_thresholds := Some [JDict [(''color'', JStr ''green''), (''value'', JInt 0)],
       JDict [(''color'', JStr ''yellow''), (''value'', JInt 900)],
       JDict [(''color'', JStr ''red''), (''value'', JInt 1800)]]\<rparr>))]\<close>

definition cl_overview_panels :: "cl_step list" where
  "cl_overview_panels = cl_overview_1 @ cl_overview_2"

definition cl_build_overview :: "json res" where
  \<open>cl_build_overview =
     cl_make_dashboard ''openwrt-overview'' (''OpenWrt '' @ [CHR 0xE2, CHR 0x80, CHR 0x94] @
       '' Overview'')
       (''OpenWrt system health: CPU, memory, WAN throughput, NAT sessions, router '' @
       ''services, overlay usage, WiFi clients, and temperature.'') (drawn cl_overview_panels)
       (Some [''openwrt'', ''overview'']) ''30s'' ''now-3h''\<close>

definition cl_network_1 :: "cl_step list" where
  \<open>cl_network_1 =
    [Put (\<lambda>y. cl_row 1 (''WAN '' @ [CHR 0xE2, CHR 0x80, CHR 0x94] @ '' Internet Connection'') y
       False),
     Down 1,
     Put (\<lambda>y. cl_ts 2 ''WAN Download (RX)'' [cl_tgt
       ''rate(node_network_receive_bytes_total{job="openwrt", router="$router", device="$wan_interface"}[$__rate_interval])''
       ''WAN Download'' ''A'' ''time_series'' False] 0 y 12 8 (ckw\<lparr>c_unit := Some ''Bps'',
       c_desc := Some ''Bytes per second received on the WAN interface (internet download)'',
       c_overrides := Some [JDict [(''matcher'', JDict [(''id'', JStr ''byName''),
       (''options'', JStr ''WAN Download'')]), (''properties'',
       JList [JDict [(''id'', JStr ''color''), (''value'',
       JDict [(''fixedColor'', JStr ''#1a9e3a''), (''mode'', JStr ''fixed'')])]])]]\<rparr>)),
     Put (\<lambda>y. cl_ts 3 ''WAN Upload (TX)'' [cl_tgt
       (''rate(node_network_transmit_bytes_total{job="openwrt", router="$router", '' @
       ''device="$wan_interface"}[$__rate_interval])'') ''WAN Upload'' ''A'' ''time_series''
       False] 12 y 12 8 (ckw\<lparr>c_unit := Some ''Bps'',
       c_desc := Some ''Bytes per second transmitted on the WAN interface (internet upload)'',
       c_overrides := Some [JDict [(''matcher'', JDict [(''id'', JStr ''byName''),
       (''options'', JStr ''WAN Upload'')]), (''properties'',
       JList [JDict [(''id'', JStr ''color''), (''value'',
       JDict [(''fixedColor'', JStr ''#5794F2''), (''mode'', JStr ''fixed'')])]])]]\<rparr>)),
     Down 8,
     Put (\<lambda>y. cl_ts 4 ''WAN Packets/sec'' [cl_tgt
       (''rate(node_network_receive_packets_total{job="openwrt", router="$router",'' @
       '' device="$wan_interface"}[$__rate_interval])'') ''RX packets'' ''A'' ''time_series''
       False, cl_tgt
       (''rate(node_network_transmit_packets_total{job="openwrt", router="$router",'' @
       '' device="$wan_interface"}[$__rate_interval])'') ''TX packets'' ''B'' ''time_series''
       False] 0 y 12 7 (ckw\<lparr>c_unit := Some ''pps'',
       c_desc := Some (''Packets per second on WAN. High PPS with low bytes = many small packets '' @
       ''(DNS, keepalives).'')\<rparr>)),
     Put (\<lambda>y. cl_ts 5 ''WAN Errors & Drops'' [cl_tgt
       ''rate(node_network_receive_errs_total{job="openwrt", router="$router", device="$wan_interface"}[$__rate_interval])''
       ''RX errors'' ''A'' ''time_series'' False, cl_tgt
       ''rate(node_network_receive_drop_total{job="openwrt", router="$router", device="$wan_interface"}[$__rate_interval])''
       ''RX drops'' ''B'' ''time_series'' False, cl_tgt
       ''rate(node_network_transmit_errs_total{job="openwrt", router="$router", device="$wan_interface"}[$__rate_interval])''
       ''TX errors'' ''C'' ''time_series'' False] 12 y 12 7 (ckw\<lparr>c_unit := Some ''pps'',
       c_desc := Some (''Non-zero errors indicate hardware problems, driver issues, or line quality '' @
       ''issues.''), c_overrides := Some [JDict [(''matcher'', JDict [(''id'', JStr ''byName''),
       (''options'', JStr ''RX errors'')]), (''properties'',
       JList [JDict [(''id'', JStr ''color''), (''value'',
       JDict [(''fixedColor'', JStr ''#F2495C''), (''mode'', JStr ''fixed'')])]])],
       JDict [(''matcher'', JDict [(''id'', JStr ''byName''), (''options'', JStr ''TX errors'')]),
       (''properties'', JList [JDict [(''id'', JStr ''color''), (''value'',
       JDict [(''fixedColor'', JStr ''#FF9830''), (''mode'', JStr ''fixed'')])]])]]\<rparr>)),
     Down 7,
     Put (\<lambda>y. cl_ts 6 ''WAN Probe Latency & Jitter'' [cl_tgt
       ''openwrt_wan_probe_latency_milliseconds{job="openwrt", router="$router"}''
       ''latency {{target}} ({{address}})'' ''A'' ''time_series'' False, cl_tgt
       ''openwrt_wan_probe_jitter_milliseconds{job="openwrt", router="$router"}''
       ''jitter {{target}} ({{address}})'' ''B'' ''time_series'' False] 0 y 12 7
       (ckw\<lparr>c_unit := Some ''ms'',
       c_desc := Some (''Latency and jitter from router-side probes to the gateway, upstream resolver,'' @
       '' and public internet. Backed by the textfile WAN-quality script.'')\<rparr>)),
     Put (\<lambda>y. cl_ts 7 ''WAN Probe Packet Loss'' [cl_tgt
       ''openwrt_wan_probe_packet_loss_percent{job="openwrt", router="$router"}''
       ''{{target}} ({{address}})'' ''A'' ''time_series'' False] 12 y 12 7
       (ckw\<lparr>c_unit := Some ''percent'',
       c_desc := Some (''Packet loss from the same router-side probes. Useful to separate local gateway '' @
       ''issues from upstream internet loss.'')\<rparr>)),
     Down 7,
     Put (\<lambda>y. cl_row 10 (''WiFi '' @ [CHR 0xE2, CHR 0x80, CHR 0x94] @
       '' phy0-ap0 (2.4 GHz) + phy1-ap0 (5 GHz)'') y False),
     Down 1,
     Put (\<lambda>y. cl_ts 11 (''WiFi AP Throughput '' @ [CHR 0xE2, CHR 0x80, CHR 0x94] @
       '' Both Bands'') [cl_tgt
       ''rate(node_network_receive_bytes_total{job="openwrt", router="$router", device="$wifi24_interface"}[$__rate_interval])''
       ''2.4 GHz RX'' ''A'' ''time_series'' False, cl_tgt
       (''rate(node_network_transmit_bytes_total{job="openwrt", router="$router", '' @
       ''device="$wifi24_interface"}[$__rate_interval])'') ''2.4 GHz TX'' ''B'' ''time_series''
       False, cl_tgt
       ''rate(node_network_receive_bytes_total{job="openwrt", router="$router", device="$wifi5_interface"}[$__rate_interval])''
       ''5 GHz RX'' ''C'' ''time_series'' False, cl_tgt
       (''rate(node_network_transmit_bytes_total{job="openwrt", router="$router", '' @
       ''device="$wifi5_interface"}[$__rate_interval])'') ''5 GHz TX'' ''D'' ''time_series''
       False] 0 y 24 8 (ckw\<lparr>c_unit := Some ''Bps'',
       c_desc := Some (''Traffic on the 2.4 GHz (phy0-ap0) and 5 GHz (phy1-ap0) WiFi access point '' @
       ''interfaces'')\<rparr>)),
     Down 8,
     Put (\<lambda>y. cl_stat 94 ''WiFi Stations Collector''
       ''count(wifi_stations{job="openwrt", router="$router"}) or vector(0)'' 0 y 6 7
       (ckw\<lparr>c_unit := Some ''short'',
       c_desc := Some (''Number of WiFi AP interfaces reporting per-client station data. 0 = the '' @
       ''prometheus-node-exporter-lua-wifi_stations package is not installed or not '' @
       ''running.''), c_thresholds := Some [JDict [(''color'', JStr ''red''),
       (''value'', JInt 0)], JDict [(''color'', JStr ''green''), (''value'', JInt 1)]]\<rparr>)),
     Put (\<lambda>y. cl_ts 12 ''WiFi Clients by AP'' [cl_tgt
       ''wifi_stations{job="openwrt", router="$router"}'' ''{{ifname}}'' ''A'' ''time_series''
       False] 6 y 9 7 (ckw\<lparr>c_unit := Some ''short'',
       c_desc := Some (''Associated WiFi client count per AP interface. Requires the wifi_stations '' @
       ''collector.'')\<rparr>)),
     Put (\<lambda>y. cl_ts 13 ''WiFi Signal by AP'' [cl_tgt
       ''wifi_network_signal_dbm{job="openwrt", router="$router"}'' ''{{ifname}} {{ssid}}'' ''A''
       ''time_series'' False] 15 y 9 7 (ckw\<lparr>c_unit := Some ''dBm'',
       c_desc := Some ''Reported signal level per WiFi AP interface. Requires the wifi collector.''\<rparr>)),
     Down 7,
     Put (\<lambda>y. cl_ts 14 ''WiFi AP Quality'' [cl_tgt
       ''wifi_network_quality{job="openwrt", router="$router"}'' ''{{ifname}} {{ssid}}'' ''A''
       ''time_series'' False] 0 y 12 7 (ckw\<lparr>c_unit := Some ''percent'',
       c_desc := Some ''WiFi quality score reported by iwinfo for each access point interface.''\<rparr>)),
     Put (\<lambda>y. cl_ts 15 ''WiFi AP Link Bitrate'' [cl_tgt
       ''1000 * wifi_network_bitrate{job="openwrt", router="$router"}'' ''{{ifname}} {{ssid}}''
       ''A'' ''time_series'' False] 12 y 12 7 (ckw\<lparr>c_unit := Some ''bps'',
       c_desc := Some (''Configured WiFi AP bitrate per radio. Useful for spotting unexpected band '' @
       ''or mode changes.'')\<rparr>)),
     Down 7,
     Put (\<lambda>y. cl_row 20 ''LAN & Internal Interfaces'' y False),
     Down 1]\<close>

definition cl_network_2 :: "cl_step list" where
  \<open>cl_network_2 =
    [Put (\<lambda>y. cl_ts 21 ''All Interface Throughput (RX)'' [cl_tgt
       ''rate(node_network_receive_bytes_total{job="openwrt", router="$router", device!~"lo|lan2|lan3"}[$__rate_interval])''
       ''{{device}}'' ''A'' ''time_series'' False] 0 y 12 8 (ckw\<lparr>c_unit := Some ''Bps'',
       c_desc := Some (''RX throughput per interface. Excludes loopback and unused LAN ports (lan2,'' @
       '' lan3).'')\<rparr>)),
     Put (\<lambda>y. cl_ts 22 ''All Interface Throughput (TX)'' [cl_tgt
       (''rate(node_network_transmit_bytes_total{job="openwrt", router="$router", '' @
       ''device!~"lo|lan2|lan3"}[$__rate_interval])'') ''{{device}}'' ''A'' ''time_series'' False]
       12 y 12 8 (ckw\<lparr>c_unit := Some ''Bps'',
       c_desc := Some ''TX throughput per interface. Excludes loopback and unused LAN ports.''\<rparr>)),
     Down 8,
     Put (\<lambda>y. cl_row 30 ''Tailscale VPN (tailscale0)'' y False),
     Down 1,
     Put (\<lambda>y. cl_ts 31 ''Tailscale VPN Throughput'' [cl_tgt
       ''rate(node_network_receive_bytes_total{job="openwrt", router="$router", device="$vpn_interface"}[$__rate_interval])''
       ''VPN RX'' ''A'' ''time_series'' False, cl_tgt
       (''rate(node_network_transmit_bytes_total{job="openwrt", router="$router", '' @
       ''device="$vpn_interface"}[$__rate_interval])'') ''VPN TX'' ''B'' ''time_series'' False] 0
       y 12 7 (ckw\<lparr>c_unit := Some ''Bps'',
       c_desc := Some ''Traffic flowing through the Tailscale VPN tunnel''\<rparr>)),
     Put (\<lambda>y. cl_ts 32 ''NAT Conntrack Sessions'' [cl_tgt
       ''node_nf_conntrack_entries{job="openwrt", router="$router"}'' ''Active sessions'' ''A''
       ''time_series'' False, cl_tgt
       ''node_nf_conntrack_entries_limit{job="openwrt", router="$router"}'' ''Limit'' ''B''
       ''time_series'' False] 12 y 12 7 (ckw\<lparr>c_unit := Some ''short'',
       c_desc := Some (''NAT connection tracking table usage vs limit. Approaching the limit causes '' @
       ''new connections to fail.'')\<rparr>)),
     Down 7,
     Put (\<lambda>y. cl_row 40 ''DNS & DHCP (dnsmasq)'' y False),
     Down 1,
     Put (\<lambda>y. cl_ts 41 ''DNS Queries'' [cl_tgt
       ''rate(dnsmasq_dns_queries_forwarded{job="openwrt", router="$router"}[$__rate_interval])''
       ''Forwarded'' ''A'' ''time_series'' False, cl_tgt
       ''rate(dnsmasq_dns_local_answered{job="openwrt", router="$router"}[$__rate_interval])''
       ''Local (cached)'' ''B'' ''time_series'' False, cl_tgt
       ''rate(dnsmasq_dns_unanswered{job="openwrt", router="$router"}[$__rate_interval])''
       ''Unanswered'' ''C'' ''time_series'' False] 0 y 12 8 (ckw\<lparr>c_unit := Some ''reqps'',
       c_desc := Some (''DNS query rates. 'Local' = served from cache. 'Forwarded' = sent upstream. '' @
       '''Unanswered' = failures.'')\<rparr>)),
     Put (\<lambda>y. cl_ts 42 ''DHCP Events'' [cl_tgt
       ''rate(dnsmasq_dhcp_ack{job="openwrt", router="$router"}[$__rate_interval])''
       ''ACK (granted)'' ''A'' ''time_series'' False, cl_tgt
       ''rate(dnsmasq_dhcp_request{job="openwrt", router="$router"}[$__rate_interval])''
       ''Request'' ''B'' ''time_series'' False, cl_tgt
       ''rate(dnsmasq_dhcp_discover{job="openwrt", router="$router"}[$__rate_interval])''
       ''Discover (new)'' ''C'' ''time_series'' False] 12 y 12 8
       (ckw\<lparr>c_unit := Some ''reqps'',
       c_desc := Some (''DHCP handshake events. Many 'Discover' events indicate devices frequently '' @
       ''reconnecting.'')\<rparr>)),
     Down 8,
     Put (\<lambda>y. cl_row 45 ''Router Health (Textfile Metrics)'' y False),
     Down 1,
     Put (\<lambda>y. cl_ts 46 ''Filesystem Used %'' [cl_tgt
       ''openwrt_filesystem_used_percent{job="openwrt", router="$router"}'' ''{{mount}}'' ''A''
       ''time_series'' False] 0 y 12 7 (ckw\<lparr>c_unit := Some ''percent'',
       c_desc := Some (''Router storage pressure on persistent overlay storage and tmpfs. High overlay '' @
       ''usage often breaks upgrades and package installs.'')\<rparr>)),
     Put (\<lambda>y. cl_bargauge 47 ''Service Status'' [cl_tgt
       ''openwrt_service_up{job="openwrt", router="$router"}'' ''{{service}}'' ''A''
       ''time_series'' False] 12 y 12 7 (ckw\<lparr>c_unit := Some ''short'',
       c_min := Some (JInt 0), c_max := Some (JInt 1),
       c_desc := Some (''Current status of key router daemons collected by the textfile service-health '' @
       ''script.''), c_thresholds := Some [JDict [(''color'', JStr ''red''), (''value'', JInt 0)],
       JDict [(''color'', JStr ''green''), (''value'', JInt 1)]]\<rparr>)),
     Down 7,
     Put (\<lambda>y. cl_ts 52 ''Filesystem Inode Used %'' [cl_tgt
       ''openwrt_filesystem_inode_used_percent{job="openwrt", router="$router"}'' ''{{mount}}''
       ''A'' ''time_series'' False] 0 y 12 7 (ckw\<lparr>c_unit := Some ''percent'',
       c_desc := Some (''Inode pressure on persistent and tmp filesystems. Inode exhaustion can break '' @
       ''package operations even with free bytes left.'')\<rparr>)),
     Put (\<lambda>y. cl_ts 53 ''DHCP Pool Utilization'' [cl_tgt
       ''openwrt_dhcp_pool_utilization_percent{job="openwrt", router="$router"}'' ''Pool used %''
       ''A'' ''time_series'' False, cl_tgt
       ''openwrt_dhcp_leases_used{job="openwrt", router="$router"}'' ''Active leases'' ''B''
       ''time_series'' False, cl_tgt
       ''openwrt_dhcp_pool_size_total{job="openwrt", router="$router"}'' ''Pool size'' ''C''
       ''time_series'' False] 12 y 12 7 (ckw\<lparr>c_unit := Some ''short'',
       c_desc := Some ''DHCP lease pressure trend from helper script metrics.'',
       c_overrides := Some [JDict [(''matcher'', JDict [(''id'', JStr ''byName''),
       (''options'', JStr ''Pool used %'')]), (''properties'',
       JList [JDict [(''id'', JStr ''unit''), (''value'', JStr ''percent'')]])]]\<rparr>)),
     Down 7,
     Put (\<lambda>y. cl_bargauge 99 ''DHCP Pool Size by Interface'' [cl_tgt
       ''openwrt_dhcp_pool_size{job="openwrt", router="$router"}'' ''{{interface}}'' ''A''
       ''time_series'' False] 0 y 12 7 (ckw\<lparr>c_unit := Some ''short'',
       c_min := Some (JInt 0),
       c_desc := Some (''Configured DHCP pool size per interface from UCI. Each bar shows how many '' @
       ''IP addresses are in that interface's DHCP range.''),
       c_thresholds := Some [JDict [(''color'', JStr ''blue''), (''value'', JInt 0)]]\<rparr>)),
     Put (\<lambda>y. cl_ts 100 ''DHCP Lease Lifetime Remaining'' [cl_tgt
       ''openwrt_dhcp_lease_remaining_seconds_min{job="openwrt", router="$router"}''
       ''Min remaining'' ''A'' ''time_series'' False, cl_tgt
       ''openwrt_dhcp_lease_remaining_seconds_max{job="openwrt", router="$router"}''
       ''Max remaining'' ''B'' ''time_series'' False] 12 y 12 7 (ckw\<lparr>c_unit := Some ''s'',
       c_desc := Some (''Minimum and maximum remaining lease lifetime across all active DHCP leases. '' @
       ''Min approaching zero means a client is about to renew or lose its address.'')\<rparr>)),
     Down 7,
     Put (\<lambda>y. cl_row 48 ''Automation Health'' y False),
     Down 1]\<close>

definition cl_network_3 :: "cl_step list" where
  \<open>cl_network_3 =
    [Put (\<lambda>y. cl_table 49 ''Helper Metric Freshness'' [cl_tgt
       ''time() - node_textfile_mtime_seconds{job="openwrt", router="$router"}'' [] ''A''
       ''table'' True] 0 y 12 8
       (ckw\<lparr>c_desc := Some (''Age in seconds of each textfile metric. Larger values mean the matching '' @
       ''helper script has stopped updating.''),
       c_transforms := Some [JDict [(''id'', JStr ''organize''), (''options'',
       JDict [(''excludeByName'', JDict [(''Time'', JBool True), (''__name__'', JBool True),
       (''job'', JBool True), (''instance'', JBool True), (''router'', JBool True)]),
       (''renameByName'', JDict [(''file'', JStr ''Metric File''),
       (''Value'', JStr ''Age Seconds'')])])]], c_sort_col := Some ''Age Seconds'',
       c_sort_desc := Some True\<rparr>)),
     Put (\<lambda>y. cl_table 50 ''Service Enablement'' [cl_tgt
       ''openwrt_service_enabled{job="openwrt", router="$router"}'' [] ''A'' ''table'' True] 12
       y 12 8
       (ckw\<lparr>c_desc := Some (''Whether each monitored init service is enabled at boot. A running service '' @
       ''with Enabled=0 is typically started indirectly or manually.''),
       c_transforms := Some [JDict [(''id'', JStr ''organize''), (''options'',
       JDict [(''excludeByName'', JDict [(''Time'', JBool True), (''__name__'', JBool True),
       (''job'', JBool True), (''instance'', JBool True), (''router'', JBool True)]),
       (''renameByName'', JDict [(''service'', JStr ''Service''),
       (''Value'', JStr ''Enabled'')])])]], c_overrides := Some [JDict [(''matcher'',
       JDict [(''id'', JStr ''byName''), (''options'', JStr ''Enabled'')]), (''properties'',
       JList [JDict [(''id'', JStr ''custom.cellOptions''),
       (''value'', JDict [(''type'', JStr ''color-background'')])],
       JDict [(''id'', JStr ''mappings''), (''value'', JList [JDict [(''type'', JStr ''value''),
       (''options'', JDict [(''1'', JDict [(''color'', JStr ''#1a9e3a''),
       (''text'', JStr ''enabled''), (''index'', JInt 0)])])], JDict [(''type'', JStr ''value''),
       (''options'', JDict [(''0'', JDict [(''color'', JStr ''#808080''),
       (''text'', JStr ''disabled''), (''index'', JInt 1)])])]])]])]],
       c_sort_col := Some ''Service'', c_sort_desc := Some False\<rparr>)),
     Down 8,
     Put (\<lambda>y. cl_row 60 ''Interface Summary'' y False),
     Down 1,
     Put (\<lambda>y. cl_table 61 ''Network Interface Status'' [cl_tgt
       ''node_network_info{job="openwrt", router="$router"}'' [] ''A'' ''table'' True] 0 y 24 8
       (ckw\<lparr>c_desc := Some ''Current state of all network interfaces'',
       c_transforms := Some [JDict [(''id'', JStr ''organize''), (''options'',
       JDict [(''excludeByName'', JDict [(''Time'', JBool True), (''__name__'', JBool True),
       (''Value'', JBool True), (''job'', JBool True), (''ifalias'', JBool True),
       (''broadcast'', JBool True)]), (''renameByName'', JDict [(''device'', JStr ''Interface''),
       (''operstate'', JStr ''State''), (''address'', JStr ''MAC''),
       (''duplex'', JStr ''Duplex'')])])]], c_overrides := Some [JDict [(''matcher'',
       JDict [(''id'', JStr ''byName''), (''options'', JStr ''State'')]), (''properties'',
       JList [JDict [(''id'', JStr ''custom.cellOptions''),
       (''value'', JDict [(''type'', JStr ''color-background'')])],
       JDict [(''id'', JStr ''mappings''), (''value'', JList [JDict [(''type'', JStr ''value''),
       (''options'', JDict [(''up'', JDict [(''color'', JStr ''#1a9e3a''),
       (''text'', JStr ''up''), (''index'', JInt 0)])])], JDict [(''type'', JStr ''value''),
       (''options'', JDict [(''down'', JDict [(''color'', JStr ''#F2495C''),
       (''text'', JStr ''down''), (''index'', JInt 1)])])], JDict [(''type'', JStr ''value''),
       (''options'', JDict [(''lowerlayerdown'', JDict [(''color'', JStr ''#808080''),
       (''text'', JStr ''no cable''), (''index'', JInt 2)])])]])]])]]\<rparr>)),
     Down 8,
     Put (\<lambda>y. cl_row 70 ''IPv6, Link, and Kernel Path Health'' y False),
     Down 1,
     Put (\<lambda>y. cl_ts 71 ''IPv6 WAN Health'' [cl_tgt
       ''openwrt_wan6_up{job="openwrt", router="$router"}'' ''WAN6 up'' ''A'' ''time_series''
       False, cl_tgt ''openwrt_ipv6_default_route_up{job="openwrt", router="$router"}''
       ''Default route up'' ''B'' ''time_series'' False, cl_tgt
       ''openwrt_ipv6_global_addresses{job="openwrt", router="$router"}'' ''Global addresses''
       ''C'' ''time_series'' False] 0 y 12 8 (ckw\<lparr>c_unit := Some ''short'',
       c_desc := Some (''IPv6 control-plane health from helper scripts: WAN6 state, default route,'' @
       '' and global address count.'')\<rparr>)),
     Put (\<lambda>y. cl_ts 72 ''IPv6 Prefix Lifetime'' [cl_tgt
       ''openwrt_ipv6_prefix_valid_seconds{job="openwrt", router="$router"}'' ''Valid lifetime''
       ''A'' ''time_series'' False, cl_tgt
       ''openwrt_ipv6_prefix_preferred_seconds{job="openwrt", router="$router"}''
       ''Preferred lifetime'' ''B'' ''time_series'' False] 12 y 12 8
       (ckw\<lparr>c_unit := Some ''s'',
       c_desc := Some (''Remaining delegated prefix validity from WAN6 status. Flat-zero values usually '' @
       ''indicate no active delegation.'')\<rparr>)),
     Down 8,
     Put (\<lambda>y. cl_ts 73 ''Interface Link Up/Down'' [cl_tgt
       ''openwrt_link_up{job="openwrt", router="$router", device!="lo"}'' ''{{device}}'' ''A''
       ''time_series'' False] 0 y 12 8 (ckw\<lparr>c_unit := Some ''short'',
       c_desc := Some ''Kernel carrier/operstate-derived interface link status.''\<rparr>)),
     Put (\<lambda>y. cl_ts 74 ''Interface Link Speed'' [cl_tgt
       ''openwrt_link_speed_bits_per_second{job="openwrt", router="$router", device!="lo"}''
       ''{{device}}'' ''A'' ''time_series'' False] 12 y 12 8 (ckw\<lparr>c_unit := Some ''bps'',
       c_desc := Some ''Current link speed per interface where exposed by the kernel.''\<rparr>)),
     Down 8,
     Put (\<lambda>y. cl_ts 75 ''Softnet Drops by CPU'' [cl_tgt
       ''rate(openwrt_softnet_dropped_total{job="openwrt", router="$router"}[$__rate_interval])''
       ''cpu {{cpu}}'' ''A'' ''time_series'' False] 0 y 12 8 (ckw\<lparr>c_unit := Some ''pps'',
       c_desc := Some (''Dropped packets in the kernel softnet path by CPU. Sustained growth indicates '' @
       ''packet-processing saturation.'')\<rparr>)),
     Put (\<lambda>y. cl_ts 76 ''Softnet Budget Exhaustion'' [cl_tgt
       ''rate(openwrt_softnet_times_squeezed_total{job="openwrt", router="$router"}[$__rate_interval])''
       ''cpu {{cpu}}'' ''A'' ''time_series'' False] 12 y 12 8
       (ckw\<lparr>c_unit := Some ''short'',
       c_desc := Some ''How often softnet processing hit budget limits per CPU.''\<rparr>)),
     Down 8]\<close>

definition cl_network_4 :: "cl_step list" where
  \<open>cl_network_4 =
    [Put (\<lambda>y. cl_ts 95 ''Softnet Packets Processed by CPU'' [cl_tgt
       ''rate(openwrt_softnet_processed_total{job="openwrt", router="$router"}[$__rate_interval])''
       ''cpu {{cpu}}'' ''A'' ''time_series'' False] 0 y 12 8 (ckw\<lparr>c_unit := Some ''pps'',
       c_desc := Some (''Total packets processed by the kernel softnet path per CPU. Compare with '' @
       ''the drops panel above to understand what fraction of processed packets are '' @
       ''being dropped.'')\<rparr>)),
     Put (\<lambda>y. cl_ts 96 ''TCP Listen Queue Drops'' [cl_tgt
       ''rate(openwrt_tcp_listen_drops_total{job="openwrt", router="$router"}[$__rate_interval])''
       ''Listen drops'' ''A'' ''time_series'' False, cl_tgt
       ''rate(openwrt_tcp_listen_overflows_total{job="openwrt", router="$router"}[$__rate_interval])''
       ''Listen overflows'' ''B'' ''time_series'' False] 12 y 12 8
       (ckw\<lparr>c_unit := Some ''pps'',
       c_desc := Some (''TCP connection queue drops and overflows from /proc/net/netstat. Non-zero '' @
       ''values indicate the router is under heavy connection load or a SYN flood.''),
       c_overrides := Some [JDict [(''matcher'', JDict [(''id'', JStr ''byName''),
       (''options'', JStr ''Listen drops'')]), (''properties'',
       JList [JDict [(''id'', JStr ''color''), (''value'',
       JDict [(''fixedColor'', JStr ''#F2495C''), (''mode'', JStr ''fixed'')])]])],
       JDict [(''matcher'', JDict [(''id'', JStr ''byName''),
       (''options'', JStr ''Listen overflows'')]), (''properties'',
       JList [JDict [(''id'', JStr ''color''), (''value'',
       JDict [(''fixedColor'', JStr ''#FF9830''), (''mode'', JStr ''fixed'')])]])]]\<rparr>)),
     Down 8,
     Put (\<lambda>y. cl_row 80 ''Firewall and SQM / Qdisc'' y False),
     Down 1,
     Put (\<lambda>y. cl_ts 81 ''Firewall Drops by Chain'' [cl_tgt
       (''sum by(chain, target, family) (rate(openwrt_firewall_drop_packets_total{'' @
       ''job="openwrt", router="$router"}[$__rate_interval]))'')
       ''{{family}} {{chain}} {{target}}'' ''A'' ''time_series'' False] 0 y 12 8
       (ckw\<lparr>c_unit := Some ''pps'',
       c_desc := Some ''DROP/REJECT packet rates by chain and IP family from firewall counters.''\<rparr>)),
     Put (\<lambda>y. cl_ts 82 ''Firewall Traffic by Chain'' [cl_tgt
       (''sum by(chain, family) (rate(openwrt_firewall_chain_bytes_total{job="openwrt",'' @
       '' router="$router"}[$__rate_interval]))'') ''{{family}} {{chain}}'' ''A'' ''time_series''
       False] 12 y 12 8 (ckw\<lparr>c_unit := Some ''Bps'',
       c_desc := Some ''Byte throughput by firewall chain and IP family.''\<rparr>)),
     Down 8,
     Put (\<lambda>y. cl_stat 83 ''SQM Collector Available''
       ''max(openwrt_tc_available{job="openwrt", router="$router"})'' 0 y 6 7
       (ckw\<lparr>c_unit := Some ''short'',
       c_desc := Some ''1 when tc/qdisc stats are available, 0 when tc is missing on this router.'',
       c_thresholds := Some [JDict [(''color'', JStr ''red''), (''value'', JInt 0)],
       JDict [(''color'', JStr ''green''), (''value'', JInt 1)]]\<rparr>)),
     Put (\<lambda>y. cl_ts 84 ''Qdisc Drops and Overlimits'' [cl_tgt
       (''sum by(device, qdisc) (rate(openwrt_tc_qdisc_drops_total{job="openwrt", '' @
       ''router="$router"}[$__rate_interval]))'') ''drops {{device}} {{qdisc}}'' ''A''
       ''time_series'' False, cl_tgt
       (''sum by(device, qdisc) (rate(openwrt_tc_qdisc_overlimits_total{job="openwrt",'' @
       '' router="$router"}[$__rate_interval]))'') ''overlimits {{device}} {{qdisc}}'' ''B''
       ''time_series'' False] 6 y 9 7 (ckw\<lparr>c_unit := Some ''pps'',
       c_desc := Some ''Traffic shaping stress indicators from qdisc counters.''\<rparr>)),
     Put (\<lambda>y. cl_ts 85 ''Qdisc Backlog'' [cl_tgt
       ''sum by(device, qdisc) (openwrt_tc_qdisc_backlog_bytes{job="openwrt", router="$router"})''
       ''bytes {{device}} {{qdisc}}'' ''A'' ''time_series'' False, cl_tgt
       ''sum by(device, qdisc) (openwrt_tc_qdisc_backlog_packets{job="openwrt", router="$router"})''
       ''packets {{device}} {{qdisc}}'' ''B'' ''time_series'' False] 15 y 9 7
       (ckw\<lparr>c_unit := Some ''short'',
       c_desc := Some ''Current qdisc queue depth in bytes and packets.''\<rparr>)),
     Down 7,
     Put (\<lambda>y. cl_ts 97 ''Qdisc Throughput (Shaped Traffic)'' [cl_tgt
       (''sum by(device, qdisc) (rate(openwrt_tc_qdisc_sent_bytes_total{job="openwrt",'' @
       '' router="$router"}[$__rate_interval]))'') ''{{device}} {{qdisc}}'' ''A'' ''time_series''
       False] 0 y 12 7 (ckw\<lparr>c_unit := Some ''Bps'',
       c_desc := Some (''Bytes per second actually leaving each qdisc after shaping. Compare with '' @
       ''the WAN interface rate to confirm SQM is actively capping traffic.'')\<rparr>)),
     Put (\<lambda>y. cl_ts 98 ''Qdisc Requeue Rate'' [cl_tgt
       (''sum by(device, qdisc) (rate(openwrt_tc_qdisc_requeues_total{job="openwrt",'' @
       '' router="$router"}[$__rate_interval]))'') ''{{device}} {{qdisc}}'' ''A'' ''time_series''
       False] 12 y 12 7 (ckw\<lparr>c_unit := Some ''pps'',
       c_desc := Some (''Packets requeued by the traffic shaper per second. Elevated requeue rate '' @
       ''alongside high overlimits is expected SQM behaviour; very high rates can '' @
       ''indicate scheduler misconfiguration.'')\<rparr>)),
     Down 7,
     Put (\<lambda>y. cl_row 90 ''WiFi Radio Conditions'' y False),
     Down 1,
     Put (\<lambda>y. cl_stat 91 ''WiFi Radio Collector''
       ''max(openwrt_wifi_radio_collector_available{job="openwrt", router="$router"})'' 0 y 6 7
       (ckw\<lparr>c_unit := Some ''short'',
       c_desc := Some ''1 when iwinfo-based radio collection is available, 0 when unavailable.'',
       c_thresholds := Some [JDict [(''color'', JStr ''red''), (''value'', JInt 0)],
       JDict [(''color'', JStr ''green''), (''value'', JInt 1)]]\<rparr>)),
     Put (\<lambda>y. cl_ts 92 ''WiFi Channel and Frequency'' [cl_tgt
       ''openwrt_wifi_channel{job="openwrt", router="$router"}'' ''channel {{ifname}}'' ''A''
       ''time_series'' False, cl_tgt
       ''openwrt_wifi_frequency_hz{job="openwrt", router="$router"}'' ''freq {{ifname}}'' ''B''
       ''time_series'' False] 6 y 9 7 (ckw\<lparr>c_unit := Some ''short'',
       c_desc := Some ''WiFi radio channel and center frequency per AP interface.'',
       c_overrides := Some [JDict [(''matcher'', JDict [(''id'', JStr ''byRegexp''),
       (''options'', JStr ''^freq .*'')]), (''properties'', JList [JDict [(''id'', JStr ''unit''),
       (''value'', JStr ''hertz'')]])]]\<rparr>)),
     Put (\<lambda>y. cl_ts 93 ''WiFi Noise, TX Power, and Quality'' [cl_tgt
       ''openwrt_wifi_noise_dbm{job="openwrt", router="$router"}'' ''noise {{ifname}}'' ''A''
       ''time_series'' False, cl_tgt
       ''openwrt_wifi_tx_power_dbm{job="openwrt", router="$router"}'' ''tx power {{ifname}}''
       ''B'' ''time_series'' False, cl_tgt
       ''openwrt_wifi_quality_percent{job="openwrt", router="$router"}'' ''quality {{ifname}}''
       ''C'' ''time_series'' False] 15 y 9 7 (ckw\<lparr>c_unit := Some ''dBm'',
       c_desc := Some ''Radio conditions and quality from iwinfo.'',
       c_overrides := Some [JDict [(''matcher'', JDict [(''id'', JStr ''byRegexp''),
       (''options'', JStr ''^quality .*'')]), (''properties'',
       JList [JDict [(''id'', JStr ''unit''), (''value'', JStr ''percent'')]])]]\<rparr>)),
     Down 7]\<close>

definition cl_network_panels :: "cl_step list" where
  "cl_network_panels = cl_network_1 @ cl_network_2 @ cl_network_3 @ cl_network_4"

definition cl_build_network :: "json res" where
  \<open>cl_build_network =
     cl_make_dashboard ''openwrt-network'' (''OpenWrt '' @ [CHR 0xE2, CHR 0x80, CHR 0x94] @
       '' Network'')
       (''WAN throughput and quality, WiFi AP traffic and client counts, Tailscale '' @
       ''VPN, router storage/service health, LAN interfaces, DNS/DHCP stats.'')
       (drawn cl_network_panels) (Some [''openwrt'', ''network'']) ''30s'' ''now-3h''\<close>

definition cl_devices_1 :: "cl_step list" where
  \<open>cl_devices_1 =
    [Put (\<lambda>y. cl_stat 1 ''Online Devices''
       ''count(router_device_up{job="openwrt", router="$router"} == 1)'' 0 y 6 4
       (ckw\<lparr>c_unit := Some ''short'',
       c_desc := Some ''Devices currently seen as online by the router'',
       c_thresholds := Some [JDict [(''color'', JStr ''blue''), (''value'', JInt 0)]]\<rparr>)),
     Put (\<lambda>y. cl_stat 2 ''Offline Devices''
       ''count(router_device_up{job="openwrt", router="$router"} == 0)'' 6 y 6 4
       (ckw\<lparr>c_unit := Some ''short'',
       c_desc := Some ''Devices with known leases that are currently offline'',
       c_thresholds := Some [JDict [(''color'', JStr ''green''), (''value'', JInt 0)],
       JDict [(''color'', JStr ''yellow''), (''value'', JInt 5)]]\<rparr>)),
     Put (\<lambda>y. cl_stat 3 ''DHCP Leases'' ''count(dhcp_lease{job="openwrt", router="$router"})''
       12 y 6 4 (ckw\<lparr>c_unit := Some ''short'',
       c_desc := Some ''Total DHCP leases (active + recently expired)'',
       c_thresholds := Some [JDict [(''color'', JStr ''blue''), (''value'', JInt 0)]]\<rparr>)),
     Put (\<lambda>y. cl_stat 4 ''Packet Loss %'' ''packet_loss{job="openwrt", router="$router"}'' 18 y
       6 4 (ckw\<lparr>c_unit := Some ''percent'',
       c_desc := Some ''Current WAN packet loss percentage'',
       c_thresholds := Some [JDict [(''color'', JStr ''green''), (''value'', JInt 0)],
       JDict [(''color'', JStr ''yellow''), (''value'', JInt 1)],
       JDict [(''color'', JStr ''red''), (''value'', JInt 5)]]\<rparr>)),
     Down 4,
     Put (\<lambda>y. cl_ts 5 ''Online Device Count Over Time'' [cl_tgt
       ''count(router_device_up{job="openwrt", router="$router"} == 1)'' ''Online'' ''A''
       ''time_series'' False, cl_tgt
       ''count(router_device_up{job="openwrt", router="$router"} == 0)'' ''Offline'' ''B''
       ''time_series'' False] 0 y 12 8 (ckw\<lparr>c_unit := Some ''short'',
       c_desc := Some ''How many devices are online vs offline over time'',
       c_overrides := Some [JDict [(''matcher'', JDict [(''id'', JStr ''byName''),
       (''options'', JStr ''Online'')]), (''properties'', JList [JDict [(''id'', JStr ''color''),
       (''value'', JDict [(''fixedColor'', JStr ''#1a9e3a''), (''mode'', JStr ''fixed'')])]])],
       JDict [(''matcher'', JDict [(''id'', JStr ''byName''), (''options'', JStr ''Offline'')]),
       (''properties'', JList [JDict [(''id'', JStr ''color''), (''value'',
       JDict [(''fixedColor'', JStr ''#808080''), (''mode'', JStr ''fixed'')])]])]]\<rparr>)),
     Put (\<lambda>y. cl_bargauge 6 ''Top Devices by Traffic Rate'' [cl_tgt
       (''topk(10, sum by(device)(rate(openwrt_device_traffic_bytes_total{job="openwrt",'' @
       '' router="$router"}[$__rate_interval])))'') ''{{device}}'' ''A'' ''time_series'' False] 12
       y 12 8 (ckw\<lparr>c_unit := Some ''Bps'',
       c_desc := Some (''Top 10 LAN clients by current combined upload+download rate, from the traffic '' @
       ''profile's nftables counters. Empty rather than wrong when the traffic profile '' @
       ''is not installed. Replaces the former node_nat_traffic ranking, which had '' @
       ''no cardinality bound.''), c_thresholds := Some [JDict [(''color'', JStr ''green''),
       (''value'', JInt 0)], JDict [(''color'', JStr ''blue''), (''value'', JInt 100000)],
       JDict [(''color'', JStr ''purple''), (''value'', JInt 1000000)]]\<rparr>)),
     Down 8,
     Put (\<lambda>y. cl_row 10 ''WiFi Access Points'' y False),
     Down 1,
     Put (\<lambda>y. cl_ts 11 ''WiFi AP Throughput'' [cl_tgt
       ''rate(node_network_receive_bytes_total{job="openwrt", router="$router", device="$wifi24_interface"}[$__rate_interval])''
       ''2.4 GHz RX (phy0-ap0)'' ''A'' ''time_series'' False, cl_tgt
       (''rate(node_network_transmit_bytes_total{job="openwrt", router="$router", '' @
       ''device="$wifi24_interface"}[$__rate_interval])'') ''2.4 GHz TX (phy0-ap0)'' ''B''
       ''time_series'' False, cl_tgt
       ''rate(node_network_receive_bytes_total{job="openwrt", router="$router", device="$wifi5_interface"}[$__rate_interval])''
       ''5 GHz RX (phy1-ap0)'' ''C'' ''time_series'' False, cl_tgt
       (''rate(node_network_transmit_bytes_total{job="openwrt", router="$router", '' @
       ''device="$wifi5_interface"}[$__rate_interval])'') ''5 GHz TX (phy1-ap0)'' ''D''
       ''time_series'' False] 0 y 24 8 (ckw\<lparr>c_unit := Some ''Bps'',
       c_desc := Some ''Traffic on the WiFi AP interfaces. 2.4 GHz (phy0-ap0) and 5 GHz (phy1-ap0).''\<rparr>)),
     Down 8,
     Put (\<lambda>y. cl_bargauge 12 ''WiFi Client Signal'' [cl_tgt
       ''sort_desc(wifi_station_signal_dbm{job="openwrt", router="$router"})''
       ''{{mac}} {{ifname}}'' ''A'' ''time_series'' False] 0 y 12 8
       (ckw\<lparr>c_unit := Some ''dBm'', c_min := Some (JInt (- 95)),
       c_max := Some (JInt (- 30)),
       c_desc := Some (''Current WiFi client signal strength per station. Stronger signals are closer '' @
       ''to -40 dBm; weaker clients trend toward -80 dBm or below.''),
       c_thresholds := Some [JDict [(''color'', JStr ''red''), (''value'', JInt (- 95))],
       JDict [(''color'', JStr ''yellow''), (''value'', JInt (- 75))],
       JDict [(''color'', JStr ''green''), (''value'', JInt (- 60))]]\<rparr>)),
     Put (\<lambda>y. cl_ts 13 ''WiFi Client Aggregate Bitrate'' [cl_tgt
       (''1000 * sum by(ifname) (wifi_station_receive_kilobits_per_second{job="openwrt",'' @
       '' router="$router"})'') ''{{ifname}} RX'' ''A'' ''time_series'' False, cl_tgt
       (''1000 * sum by(ifname) (wifi_station_transmit_kilobits_per_second{job="openwrt",'' @
       '' router="$router"})'') ''{{ifname}} TX'' ''B'' ''time_series'' False] 12 y 12 8
       (ckw\<lparr>c_unit := Some ''bps'',
       c_desc := Some (''Aggregate current WiFi client receive and transmit bitrate per AP interface. '' @
       ''Requires the wifi_stations collector.'')\<rparr>)),
     Down 8]\<close>

definition cl_devices_2 :: "cl_step list" where
  \<open>cl_devices_2 =
    [Put (\<lambda>y. cl_bargauge 14 ''Top WiFi Stations by Packet Rate'' [cl_tgt
       (''topk(10, rate(wifi_station_receive_packets_total{job="openwrt", router="$router"}[$__rate_interval]) '' @
       ''+ rate(wifi_station_transmit_packets_total{job="openwrt", router="$router"}[$__rate_interval]))'')
       ''{{mac}} {{ifname}}'' ''A'' ''time_series'' False] 0 y 12 8
       (ckw\<lparr>c_unit := Some ''pps'',
       c_desc := Some (''Most active WiFi stations by combined packet rate. Uses the station RX and '' @
       ''TX packet counters exposed by the wifi_stations collector.''),
       c_thresholds := Some [JDict [(''color'', JStr ''green''), (''value'', JInt 0)],
       JDict [(''color'', JStr ''yellow''), (''value'', JInt 100)],
       JDict [(''color'', JStr ''red''), (''value'', JInt 500)]]\<rparr>)),
     Put (\<lambda>y. cl_bargauge 15 ''Most Inactive WiFi Stations'' [cl_tgt
       ''sort_desc(wifi_station_inactive_milliseconds{job="openwrt", router="$router"})''
       ''{{mac}} {{ifname}}'' ''A'' ''time_series'' False] 12 y 12 8
       (ckw\<lparr>c_unit := Some ''ms'',
       c_desc := Some (''Current inactivity timer for each WiFi client. Larger values mean the station '' @
       ''has been quiet for longer.''), c_thresholds := Some [JDict [(''color'', JStr ''green''),
       (''value'', JInt 0)], JDict [(''color'', JStr ''yellow''), (''value'', JInt 5000)],
       JDict [(''color'', JStr ''red''), (''value'', JInt 30000)]]\<rparr>)),
     Down 8,
     Put (\<lambda>y. cl_row 20 ''Device Details'' y False),
     Down 1,
     Put (\<lambda>y. cl_table 21 (''All Devices '' @ [CHR 0xE2, CHR 0x80, CHR 0x94] @
       '' Online Status'') [cl_tgt ''router_device_up{job="openwrt", router="$router"}'' []
       ''A'' ''table'' True] 0 y 24 12
       (ckw\<lparr>c_desc := Some (''All known devices with their current online/offline status, MAC address,'' @
       '' and IP''), c_transforms := Some [JDict [(''id'', JStr ''organize''), (''options'',
       JDict [(''excludeByName'', JDict [(''Time'', JBool True), (''__name__'', JBool True),
       (''job'', JBool True)]), (''renameByName'', JDict [(''device'', JStr ''Hostname''),
       (''status'', JStr ''Status''), (''mac'', JStr ''MAC Address''),
       (''ip'', JStr ''IP Address''), (''Value'', JStr ''Online'')])])]],
       c_sort_col := Some ''Online'', c_sort_desc := Some True,
       c_overrides := Some [JDict [(''matcher'', JDict [(''id'', JStr ''byName''),
       (''options'', JStr ''Online'')]), (''properties'',
       JList [JDict [(''id'', JStr ''custom.cellOptions''),
       (''value'', JDict [(''type'', JStr ''color-background'')])],
       JDict [(''id'', JStr ''mappings''), (''value'', JList [JDict [(''type'', JStr ''value''),
       (''options'', JDict [(''1'', JDict [(''color'', JStr ''#1a9e3a''),
       (''text'', JStr ''Online''), (''index'', JInt 0)])])], JDict [(''type'', JStr ''value''),
       (''options'', JDict [(''0'', JDict [(''color'', JStr ''#808080''),
       (''text'', JStr ''Offline''), (''index'', JInt 1)])])]])]])], JDict [(''matcher'',
       JDict [(''id'', JStr ''byName''), (''options'', JStr ''Status'')]), (''properties'',
       JList [JDict [(''id'', JStr ''custom.cellOptions''),
       (''value'', JDict [(''type'', JStr ''color-background'')])],
       JDict [(''id'', JStr ''mappings''), (''value'', JList [JDict [(''type'', JStr ''value''),
       (''options'', JDict [(''online'', JDict [(''color'', JStr ''#1a9e3a''),
       (''text'', JStr ''online''), (''index'', JInt 0)])])], JDict [(''type'', JStr ''value''),
       (''options'', JDict [(''offline'', JDict [(''color'', JStr ''#808080''),
       (''text'', JStr ''offline''), (''index'', JInt 1)])])]])]])]]\<rparr>)),
     Down 12,
     Put (\<lambda>y. cl_table 22 ''DHCP Lease Expiry'' [cl_tgt
       ''dhcp_lease{job="openwrt", router="$router"}'' [] ''A'' ''table'' True] 0 y 12 10
       (ckw\<lparr>c_desc := Some (''Current DHCP leases. Value is Unix timestamp of lease expiry. Filter by '' @
       ''hostname to find a device.''), c_transforms := Some [JDict [(''id'', JStr ''organize''),
       (''options'', JDict [(''excludeByName'', JDict [(''Time'', JBool True),
       (''__name__'', JBool True), (''job'', JBool True), (''dnsmasq'', JBool True)]),
       (''renameByName'', JDict [(''hostname'', JStr ''Hostname''),
       (''mac'', JStr ''MAC Address''), (''ip'', JStr ''IP Address''),
       (''Value'', JStr ''Lease Expires (unix)'')])])]]\<rparr>)),
     Put (\<lambda>y. cl_table 23 ''Static DHCP Reservations'' [cl_tgt
       ''uci_dhcp_host{job="openwrt", router="$router"}'' [] ''A'' ''table'' True] 12 y 12 10
       (ckw\<lparr>c_desc := Some (''Static DHCP host reservations from UCI. Helpful for mapping device names '' @
       ''to fixed IPs.''), c_transforms := Some [JDict [(''id'', JStr ''organize''), (''options'',
       JDict [(''excludeByName'', JDict [(''Time'', JBool True), (''__name__'', JBool True),
       (''job'', JBool True), (''Value'', JBool True)]), (''renameByName'',
       JDict [(''name'', JStr ''Hostname''), (''mac'', JStr ''MAC Address''),
       (''ip'', JStr ''Reserved IP''), (''dns'', JStr ''Register DNS'')])])]]\<rparr>))]\<close>

definition cl_devices_panels :: "cl_step list" where
  "cl_devices_panels = cl_devices_1 @ cl_devices_2"

definition cl_build_devices :: "json res" where
  \<open>cl_build_devices =
     cl_make_dashboard ''openwrt-devices'' (''OpenWrt '' @ [CHR 0xE2, CHR 0x80, CHR 0x94] @
       '' Devices'')
       (''LAN device tracking via ping-based presence, NAT traffic per device, DHCP '' @
       ''leases, static reservations, and WiFi AP throughput.'') (drawn cl_devices_panels)
       (Some [''openwrt'', ''devices'']) ''30s'' ''now-3h''\<close>

definition cl_logs_panels :: "cl_step list" where
  \<open>cl_logs_panels =
    [Put (\<lambda>y. cl_loki_stat 1 ''Errors (1h)''
       (''count_over_time({job="openwrt-syslog", router="$router"} |~ "(?i)error|err" '' @
       ''[1h])'') 0 y 4 4
       (ckw\<lparr>c_desc := Some (''Log lines containing 'error' in the last hour''),
       c_thresholds := Some [JDict [(''color'', JStr ''green''), (''value'', JInt 0)],
       JDict [(''color'', JStr ''yellow''), (''value'', JInt 1)],
       JDict [(''color'', JStr ''red''), (''value'', JInt 10)]]\<rparr>)),
     Put (\<lambda>y. cl_loki_stat 2 ''Warnings (1h)''
       ''count_over_time({job="openwrt-syslog", router="$router"} |~ "(?i)warn" [1h])'' 4 y 4 4
       (ckw\<lparr>c_desc := Some (''Log lines containing 'warn' in the last hour''),
       c_thresholds := Some [JDict [(''color'', JStr ''green''), (''value'', JInt 0)],
       JDict [(''color'', JStr ''yellow''), (''value'', JInt 1)],
       JDict [(''color'', JStr ''orange''), (''value'', JInt 20)]]\<rparr>)),
     Put (\<lambda>y. cl_loki_stat 3 ''DHCP Events (1h)''
       ''count_over_time({job="openwrt-syslog", router="$router"} |= "DHCP" [1h])'' 8 y 4 4
       (ckw\<lparr>c_desc := Some ''DHCP-related log events in the last hour'',
       c_thresholds := Some [JDict [(''color'', JStr ''blue''), (''value'', JInt 0)]]\<rparr>)),
     Put (\<lambda>y. cl_loki_stat 4 ''Firewall Drops (1h)''
       (''count_over_time({job="openwrt-syslog", router="$router"} |~ "DROP|REJECT" '' @
       ''[1h])'') 12 y 4 4
       (ckw\<lparr>c_desc := Some ''Firewall drop/reject events in the last hour'',
       c_thresholds := Some [JDict [(''color'', JStr ''green''), (''value'', JInt 0)],
       JDict [(''color'', JStr ''yellow''), (''value'', JInt 10)],
       JDict [(''color'', JStr ''red''), (''value'', JInt 100)]]\<rparr>)),
     Put (\<lambda>y. cl_loki_stat 5 ''Total Log Lines (1h)''
       ''count_over_time({job="openwrt-syslog", router="$router"} [1h])'' 16 y 4 4
       (ckw\<lparr>c_desc := Some ''Total log lines received from the router in the last hour'',
       c_thresholds := Some [JDict [(''color'', JStr ''gray''), (''value'', JInt 0)]]\<rparr>)),
     Put (\<lambda>y. cl_loki_stat 6 ''Kernel Messages (1h)''
       ''count_over_time({job="openwrt-syslog", router="$router"} |= "kernel" [1h])'' 20 y 4 4
       (ckw\<lparr>c_desc := Some ''Kernel log messages (interface changes, OOM, driver events)'',
       c_thresholds := Some [JDict [(''color'', JStr ''blue''), (''value'', JInt 0)]]\<rparr>)),
     Down 4,
     Put (\<lambda>y. cl_loki_ts 7 ''Log Rate by Severity''
       ''sum by(message_severity) (rate({job="openwrt-syslog", router="$router"}[$__interval]))''
       0 y 12 7
       (ckw\<lparr>c_desc := Some ''Rate of log lines over time, grouped by syslog severity.'',
       c_legend := Some ''{{message_severity}}''\<rparr>)),
     Put (\<lambda>y. cl_loki_ts 13 ''Log Rate by App''
       ''sum by(message_app_name) (rate({job="openwrt-syslog", router="$router"}[$__interval]))''
       12 y 12 7
       (ckw\<lparr>c_desc := Some (''Which daemons are emitting the most logs over time. Requires the syslog '' @
       ''app-name label to be preserved.''), c_legend := Some ''{{message_app_name}}''\<rparr>)),
     Down 7,
     Put (\<lambda>y. cl_loki_logs 8 ''All System Logs'' ''{job="openwrt-syslog", router="$router"}'' 0
       y 24 14
       (ckw\<lparr>c_desc := Some (''Full log stream from OpenWrt's logd. Use the search bar to filter by keyword.'')\<rparr>)),
     Down 14,
     Put (\<lambda>y. cl_loki_logs 9 ''DHCP Events''
       ''{job="openwrt-syslog", router="$router"} |= "DHCP"'' 0 y 12 10
       (ckw\<lparr>c_desc := Some (''DHCP lease assignments, renewals, and releases. Shows which devices got '' @
       ''IPs and when.'')\<rparr>)),
     Put (\<lambda>y. cl_loki_logs 10 ''Firewall Events (DROP / REJECT)''
       ''{job="openwrt-syslog", router="$router"} |~ "DROP|REJECT"'' 12 y 12 10
       (ckw\<lparr>c_desc := Some (''Firewall blocked connections. Enable firewall logging with 'option log 1' '' @
       ''in /etc/config/firewall.'')\<rparr>)),
     Down 10,
     Put (\<lambda>y. cl_loki_logs 11 ''Kernel Messages''
       ''{job="openwrt-syslog", router="$router"} |= "kernel"'' 0 y 12 10
       (ckw\<lparr>c_desc := Some ''Kernel events: network interface state changes, driver errors, OOM events.''\<rparr>)),
     Put (\<lambda>y. cl_loki_logs 12 ''Error & Warning Events''
       ''{job="openwrt-syslog", router="$router"} |~ "(?i)error|warn|fail|critical"'' 12 y 12 10
       (ckw\<lparr>c_desc := Some ''All log lines containing error, warning, fail, or critical keywords.''\<rparr>))]\<close>

definition cl_LOKI_TEMPLATING :: json where
  \<open>cl_LOKI_TEMPLATING =
     JDict [(''list'', JList [JDict [(''name'', JStr ''DS_LOKI''),
     (''type'', JStr ''datasource''), (''query'', JStr ''loki''), (''refresh'', JInt 1),
     (''includeAll'', JBool False), (''options'', JList []), (''regex'', JStr []), (''current'',
     JDict [(''text'', JStr ''Loki''), (''value'', JStr ''loki'')]), (''hide'', JInt 0),
     (''label'', JStr ''Loki'')], JDict [(''name'', JStr ''router''), (''type'', JStr ''query''),
     (''label'', JStr ''Router''), (''datasource'', JDict [(''type'', JStr ''loki''),
     (''uid'', JStr ''${DS_LOKI}'')]),
     (''definition'', JStr ''label_values({job="openwrt-syslog"}, router)''), (''query'',
     JDict [(''query'', JStr ''label_values({job="openwrt-syslog"}, router)''),
     (''refId'', JStr ''LokiVariableQueryEditor-VariableQuery'')]), (''current'',
     JDict [(''text'', JStr ''openwrt''), (''value'', JStr ''openwrt'')]), (''hide'', JInt 0),
     (''includeAll'', JBool False), (''multi'', JBool False), (''options'', JList []),
     (''refresh'', JInt 1), (''regex'', JStr []), (''skipUrlSync'', JBool False),
     (''sort'', JInt 1)]])]\<close>

definition cl_logs_document :: "json list \<Rightarrow> json" where
  \<open>cl_logs_document panels =
     JDict [(''title'', JStr (''OpenWrt '' @ [CHR 0xE2, CHR 0x80, CHR 0x94] @ '' Logs'')),
     (''uid'', JStr ''openwrt-logs''), (''description'',
     JStr (''System logs from OpenWrt's logd via remote syslog '' @
     [CHR 0xE2, CHR 0x86, CHR 0x92] @ '' Loki: DHCP events, firewall drops, kernel messages.'')),
     (''tags'', JList [JStr ''openwrt'', JStr ''logs'']), (''schemaVersion'', JInt 42),
     (''version'', JInt 1), (''refresh'', JStr ''30s''), (''timezone'', JStr ''browser''),
     (''graphTooltip'', JInt 1), (''time'', JDict [(''from'', JStr ''now-3h''),
     (''to'', JStr ''now'')]), (''timepicker'', JDict []), (''weekStart'', JStr []),
     (''fiscalYearStartMonth'', JInt 0), (''preload'', JBool False), (''editable'', JBool True),
     (''annotations'', cl_ANNOTATIONS), (''links'', JList [JDict [(''title'', JStr ''Overview''),
     (''url'', JStr ''/d/openwrt-overview''), (''type'', JStr ''link''),
     (''icon'', JStr ''external link'')], JDict [(''title'', JStr ''Network''),
     (''url'', JStr ''/d/openwrt-network''), (''type'', JStr ''link''),
     (''icon'', JStr ''external link'')], JDict [(''title'', JStr ''Devices''),
     (''url'', JStr ''/d/openwrt-devices''), (''type'', JStr ''link''),
     (''icon'', JStr ''external link'')]]), (''panels'', JList panels),
     (''templating'', cl_LOKI_TEMPLATING)]\<close>

definition cl_build_logs :: "json res" where
  "cl_build_logs = bindR (allR (cl_check_panel (\<lambda>_. [])) (drawn cl_logs_panels)) (\<lambda>_.
     Inr (cl_logs_document (drawn cl_logs_panels)))"

definition classic_dashboards :: "(string \<times> json res) list" where
  "classic_dashboards =
    [(''openwrt-overview.json'', cl_build_overview),
     (''openwrt-network.json'', cl_build_network),
     (''openwrt-devices.json'', cl_build_devices),
     (''openwrt-logs.json'', cl_build_logs)]"

end
