(* ===== verification/Classic_Panels.thy ===== *)
theory Classic_Panels
  imports Classic_Dashboards Panel_Text Grid
begin

text \<open>
  What a panel constructor of the classic generator makes, as far as the properties look: the number,
  the box on the grid, and texts that use known template variables only. One rule for each.
\<close>

section \<open>Numbers, boxes and texts\<close>

definition cl_id :: "json \<Rightarrow> int res" where
  "cl_id p = bindR (jget p ''id'') jint"

definition cl_box :: "json \<Rightarrow> box res" where
  "cl_box p =
     bindR (bindR (jget p ''title'') jstr) (\<lambda>title.
     bindR (bindR (jpath p [''gridPos'', ''x'']) jint) (\<lambda>x.
     bindR (bindR (jpath p [''gridPos'', ''y'']) jint) (\<lambda>y.
     bindR (bindR (jpath p [''gridPos'', ''w'']) jint) (\<lambda>w.
     bindR (bindR (jpath p [''gridPos'', ''h'']) jint) (\<lambda>h. Inr (x, y, w, h, title))))))"

text \<open>The values among the texts; the keys hold words of the format.\<close>

definition vals :: "string list \<Rightarrow> json \<Rightarrow> bool" where
  "vals ok j = list_all (clean ok) (iter_strings j)"

lemma vals_rules:
  "vals ok JNull" "vals ok (JBool b)" "vals ok (JInt n)" "vals ok (JFloat f)" "vals ok (JStr s) = clean ok s"
  "vals ok (JList xs) = list_all (vals ok) xs"
  "vals ok (JDict kvs) = list_all (\<lambda>p. vals ok (snd p)) kvs"
  by (auto simp: vals_def list_all_iff)

lemma vals_text: "text_clean ok j \<Longrightarrow> vals ok j"
  using iter_strings_all [of j] by (auto simp: vals_def text_clean_def list_all_iff)

lemma vals_texts: "list_all (text_clean ok) xs \<Longrightarrow> list_all (vals ok) xs"
  by (auto simp: list_all_iff vals_text)

type_synonym cl_row = "int \<times> int \<times> int \<times> int \<times> int"

definition cl_good :: "string list \<Rightarrow> json \<Rightarrow> cl_row \<Rightarrow> bool" where
  "cl_good ok p t = (\<exists>name. cl_id p = Inr (fst t) \<and> vals ok p \<and>
     cl_box p = Inr (fst (snd t), fst (snd (snd t)), fst (snd (snd (snd t))), snd (snd (snd (snd t))), name))"

section \<open>Constructors\<close>

lemma ckw_select [simp]:
  "c_unit ckw = None" "c_legend ckw = None" "c_desc ckw = None" "c_thresholds ckw = None" "c_graph ckw = None"
  "c_calcs ckw = None" "c_stacked ckw = None" "c_fill ckw = None" "c_overrides ckw = None"
  "c_transforms ckw = None" "c_sort_col ckw = None" "c_sort_desc ckw = None" "c_min ckw = None"
  "c_max ckw = None" "c_orientation ckw = None"
  by (simp_all add: ckw_def)

lemma or_default_rules:
  "or_default d None = d" "or_default d (Some []) = d" "or_default d (Some (x # xs)) = x # xs"
  by (simp_all add: or_default_def)

lemma or_default_all: "list_all P (d # ds) \<Longrightarrow> list_all P (or_default [] v) \<Longrightarrow> list_all P (or_default (d # ds) v)"
  by (auto simp: or_default_def split: option.splits if_splits)

named_theorems classic "panels of the classic generator and their parts"

lemma text_cl_DS [classic]:
  "''DS_PROMETHEUS'' \<in> set ok \<Longrightarrow> text_clean ok cl_DS" "''DS_LOKI'' \<in> set ok \<Longrightarrow> text_clean ok cl_LOKI_DS"
  by (simp_all add: cl_DS_def cl_LOKI_DS_def panel_text)

lemma text_cl_tgt [classic]:
  "''DS_PROMETHEUS'' \<in> set ok \<Longrightarrow> clean ok e \<Longrightarrow> clean ok l \<Longrightarrow> clean ok r \<Longrightarrow> clean ok f \<Longrightarrow>
   text_clean ok (cl_tgt e l r f i)"
  by (simp add: cl_tgt_def Let_def panel_text text_cl_DS)

lemma text_cl_loki_tgt [classic]:
  "''DS_LOKI'' \<in> set ok \<Longrightarrow> clean ok e \<Longrightarrow> clean ok r \<Longrightarrow> clean ok l \<Longrightarrow> text_clean ok (cl_loki_tgt e r l)"
  by (simp add: cl_loki_tgt_def Let_def panel_text text_cl_DS)

lemmas cl_rules = cl_good_def cl_id_def cl_box_def vals_rules vals_text text_cl_DS text_cl_tgt text_cl_loki_tgt
  panel_text Let_def list.pred_map o_def

lemma good_cl_stat [classic]:
  assumes "''DS_PROMETHEUS'' \<in> set ok" "clean ok t" "clean ok e" "clean ok (arg ''short'' (c_unit a))"
    and "clean ok (arg [] (c_legend a))" "clean ok (arg [] (c_desc a))"
    and "list_all (text_clean ok) (or_default [] (c_thresholds a))"
  shows "cl_good ok (cl_stat pid t e x y w h a) (pid, x, y, w, h)"
  using assms
  by (auto simp: cl_stat_def cl_rules or_default_all vals_texts)

lemma good_cl_ts [classic]:
  assumes "''DS_PROMETHEUS'' \<in> set ok" "clean ok t" "list_all (text_clean ok) ts"
    and "clean ok (arg ''short'' (c_unit a))" "list_all (clean ok) (or_default [] (c_calcs a))"
    and "clean ok (arg [] (c_desc a))" "list_all (text_clean ok) (or_default [] (c_overrides a))"
  shows "cl_good ok (cl_ts pid t ts x y w h a) (pid, x, y, w, h)"
  using assms
  by (auto simp: cl_ts_def cl_rules or_default_all vals_texts)

lemma good_cl_table [classic]:
  assumes "''DS_PROMETHEUS'' \<in> set ok" "clean ok t" "list_all (text_clean ok) ts" "clean ok (arg [] (c_desc a))"
    and "list_all (text_clean ok) (or_default [] (c_overrides a))"
    and "list_all (text_clean ok) (or_default [] (c_transforms a))" "clean ok (arg [] (c_sort_col a))"
  shows "cl_good ok (cl_table pid t ts x y w h a) (pid, x, y, w, h)"
  using assms by (auto simp: cl_table_def cl_rules vals_texts)

lemma good_cl_row [classic]: "clean ok t \<Longrightarrow> cl_good ok (cl_row pid t y c) (pid, 0, y, 24, 1)"
  by (simp add: cl_row_def cl_rules)

lemma good_cl_bargauge [classic]:
  assumes "''DS_PROMETHEUS'' \<in> set ok" "clean ok t" "list_all (text_clean ok) ts"
    and "clean ok (arg ''short'' (c_unit a))" "text_clean ok (arg (JInt 0) (c_min a))"
    and "text_clean ok (arg JNull (c_max a))" "list_all (text_clean ok) (or_default [] (c_thresholds a))"
    and "clean ok (arg [] (c_desc a))" "clean ok (arg ''horizontal'' (c_orientation a))"
  shows "cl_good ok (cl_bargauge pid t ts x y w h a) (pid, x, y, w, h)"
  using assms
  by (cases "c_max a") (auto simp: cl_bargauge_def cl_rules or_default_all vals_texts)

lemma good_cl_loki_stat [classic]:
  assumes "''DS_LOKI'' \<in> set ok" "clean ok t" "clean ok e" "clean ok (arg [] (c_desc a))"
    and "list_all (text_clean ok) (or_default [] (c_thresholds a))"
  shows "cl_good ok (cl_loki_stat pid t e x y w h a) (pid, x, y, w, h)"
  using assms
  by (auto simp: cl_loki_stat_def cl_rules or_default_all vals_texts)

lemma good_cl_loki_ts [classic]:
  assumes "''DS_LOKI'' \<in> set ok" "clean ok t" "clean ok e" "clean ok (arg [] (c_desc a))" "clean ok (arg [] (c_legend a))"
  shows "cl_good ok (cl_loki_ts pid t e x y w h a) (pid, x, y, w, h)"
  using assms by (simp add: cl_loki_ts_def cl_rules)

lemma good_cl_loki_logs [classic]:
  assumes "''DS_LOKI'' \<in> set ok" "clean ok t" "clean ok e" "clean ok (arg [] (c_desc a))"
  shows "cl_good ok (cl_loki_logs pid t e x y w h a) (pid, x, y, w, h)"
  using assms by (simp add: cl_loki_logs_def cl_rules)

section \<open>Steps\<close>

text \<open>The steps draw panels with the numbers and boxes of the rows, from one row of the grid to another.\<close>

fun draws :: "string list \<Rightarrow> int \<Rightarrow> cl_step list \<Rightarrow> cl_row list \<Rightarrow> int \<Rightarrow> bool" where
  "draws ok y [] rows y' = (rows = [] \<and> y = y')"
| "draws ok y (Put p # s) rows y' = (case rows of [] \<Rightarrow> False | t # ts \<Rightarrow> cl_good ok (p y) t \<and> draws ok y s ts y')"
| "draws ok y (Down n # s) rows y' = draws ok (y + n) s rows y'"

lemma draws_append:
  "draws ok y s rows z \<Longrightarrow> draws ok z s' rows' y' \<Longrightarrow> draws ok y (s @ s') (rows @ rows') y'"
  by (induction ok y s rows z rule: draws.induct) (auto split: list.splits)

lemma draws_foldl:
  "draws ok y s rows y' \<Longrightarrow> \<exists>qs. foldl draw (ps, y) s = (ps @ qs, y') \<and> list_all2 (cl_good ok) qs rows"
proof (induction ok y s rows y' arbitrary: ps rule: draws.induct)
  case (2 ok y p s rows y')
  then obtain t ts where t: "rows = t # ts" "cl_good ok (p y) t" "draws ok y s ts y'"
    by (auto split: list.splits)
  then obtain qs where "foldl draw (ps @ [p y], y) s = ((ps @ [p y]) @ qs, y')" "list_all2 (cl_good ok) qs ts"
    using 2(1) by blast
  then show ?case using t by (intro exI [of _ "p y # qs"]) simp
qed auto

lemma draws_drawn: "draws ok 0 s rows y' \<Longrightarrow> list_all2 (cl_good ok) (drawn s) rows"
  using draws_foldl [of ok 0 s rows y' "[]"] by (auto simp: drawn_def)

end
