(* ===== verification/Classic_Built.thy ===== *)
theory Classic_Built
  imports Classic_Panels Assembly Document
begin

text \<open>
  The four classic dashboards: every panel with its number and box, then what each dashboard satisfies.
\<close>

section \<open>Names\<close>

definition CLASSIC_NAMES :: "string list" where
  "CLASSIC_NAMES = [''DS_PROMETHEUS'', ''router'', ''wan_interface'', ''wifi24_interface'', ''wifi5_interface'',
     ''vpn_interface'', ''__rate_interval'', ''__interval'']"

definition LOKI_NAMES :: "string list" where
  "LOKI_NAMES = [''DS_LOKI'', ''router'', ''__rate_interval'', ''__interval'']"

lemma classic_names [simp]:
  "''DS_PROMETHEUS'' \<in> set CLASSIC_NAMES" "''router'' \<in> set CLASSIC_NAMES" "''wan_interface'' \<in> set CLASSIC_NAMES"
  "''wifi24_interface'' \<in> set CLASSIC_NAMES" "''wifi5_interface'' \<in> set CLASSIC_NAMES"
  "''vpn_interface'' \<in> set CLASSIC_NAMES" "''__rate_interval'' \<in> set CLASSIC_NAMES"
  "''DS_LOKI'' \<in> set LOKI_NAMES" "''router'' \<in> set LOKI_NAMES" "''__interval'' \<in> set LOKI_NAMES"
  by (simp_all add: CLASSIC_NAMES_def LOKI_NAMES_def)

section \<open>Panels\<close>

lemmas classic_rules = classic panel_text or_default_rules

definition overview_1_rows :: "cl_row list" where
  "overview_1_rows =
    [(1, 0, 0, 4, 4), (2, 4, 0, 4, 4), (3, 8, 0, 4, 4), (4, 12, 0, 4, 4), (5, 16, 0, 4, 4),
     (6, 20, 0, 4, 4), (25, 0, 4, 6, 4), (26, 6, 4, 6, 4), (27, 12, 4, 6, 4), (28, 18, 4, 6, 4),
     (29, 0, 8, 6, 4), (30, 6, 8, 6, 4), (31, 12, 8, 6, 4), (32, 18, 8, 6, 4)]"

lemma draws_overview_1: "draws CLASSIC_NAMES 0 cl_overview_1 overview_1_rows 12"
  by (simp add: cl_overview_1_def overview_1_rows_def classic_rules del: append.simps append_assoc)

definition overview_2_rows :: "cl_row list" where
  "overview_2_rows =
    [(7, 0, 12, 12, 9), (8, 12, 12, 12, 9), (9, 0, 21, 12, 8), (10, 12, 21, 12, 8),
     (11, 0, 29, 24, 8), (20, 0, 37, 24, 1), (21, 0, 38, 24, 4), (22, 0, 42, 12, 4),
     (23, 12, 42, 6, 4), (24, 18, 42, 6, 4)]"

lemma draws_overview_2: "draws CLASSIC_NAMES 12 cl_overview_2 overview_2_rows 42"
  by (simp add: cl_overview_2_def overview_2_rows_def classic_rules del: append.simps append_assoc)

definition network_1_rows :: "cl_row list" where
  "network_1_rows =
    [(1, 0, 0, 24, 1), (2, 0, 1, 12, 8), (3, 12, 1, 12, 8), (4, 0, 9, 12, 7),
     (5, 12, 9, 12, 7), (6, 0, 16, 12, 7), (7, 12, 16, 12, 7), (10, 0, 23, 24, 1),
     (11, 0, 24, 24, 8), (94, 0, 32, 6, 7), (12, 6, 32, 9, 7), (13, 15, 32, 9, 7),
     (14, 0, 39, 12, 7), (15, 12, 39, 12, 7), (20, 0, 46, 24, 1)]"

lemma draws_network_1: "draws CLASSIC_NAMES 0 cl_network_1 network_1_rows 47"
  by (simp add: cl_network_1_def network_1_rows_def classic_rules del: append.simps append_assoc)

definition network_2_rows :: "cl_row list" where
  "network_2_rows =
    [(21, 0, 47, 12, 8), (22, 12, 47, 12, 8), (30, 0, 55, 24, 1), (31, 0, 56, 12, 7),
     (32, 12, 56, 12, 7), (40, 0, 63, 24, 1), (41, 0, 64, 12, 8), (42, 12, 64, 12, 8),
     (45, 0, 72, 24, 1), (46, 0, 73, 12, 7), (47, 12, 73, 12, 7), (52, 0, 80, 12, 7),
     (53, 12, 80, 12, 7), (99, 0, 87, 12, 7), (100, 12, 87, 12, 7), (48, 0, 94, 24, 1)]"

lemma draws_network_2: "draws CLASSIC_NAMES 47 cl_network_2 network_2_rows 95"
  by (simp add: cl_network_2_def network_2_rows_def classic_rules del: append.simps append_assoc)

definition network_3_rows :: "cl_row list" where
  "network_3_rows =
    [(49, 0, 95, 12, 8), (50, 12, 95, 12, 8), (60, 0, 103, 24, 1), (61, 0, 104, 24, 8),
     (70, 0, 112, 24, 1), (71, 0, 113, 12, 8), (72, 12, 113, 12, 8), (73, 0, 121, 12, 8),
     (74, 12, 121, 12, 8), (75, 0, 129, 12, 8), (76, 12, 129, 12, 8)]"

lemma draws_network_3: "draws CLASSIC_NAMES 95 cl_network_3 network_3_rows 137"
  by (simp add: cl_network_3_def network_3_rows_def classic_rules del: append.simps append_assoc)

definition network_4_rows :: "cl_row list" where
  "network_4_rows =
    [(95, 0, 137, 12, 8), (96, 12, 137, 12, 8), (80, 0, 145, 24, 1), (81, 0, 146, 12, 8),
     (82, 12, 146, 12, 8), (83, 0, 154, 6, 7), (84, 6, 154, 9, 7), (85, 15, 154, 9, 7),
     (97, 0, 161, 12, 7), (98, 12, 161, 12, 7), (90, 0, 168, 24, 1), (91, 0, 169, 6, 7),
     (92, 6, 169, 9, 7), (93, 15, 169, 9, 7)]"

lemma draws_network_4: "draws CLASSIC_NAMES 137 cl_network_4 network_4_rows 176"
  by (simp add: cl_network_4_def network_4_rows_def classic_rules del: append.simps append_assoc)

definition devices_1_rows :: "cl_row list" where
  "devices_1_rows =
    [(1, 0, 0, 6, 4), (2, 6, 0, 6, 4), (3, 12, 0, 6, 4), (4, 18, 0, 6, 4), (5, 0, 4, 12, 8),
     (6, 12, 4, 12, 8), (10, 0, 12, 24, 1), (11, 0, 13, 24, 8), (12, 0, 21, 12, 8),
     (13, 12, 21, 12, 8)]"

lemma draws_devices_1: "draws CLASSIC_NAMES 0 cl_devices_1 devices_1_rows 29"
  by (simp add: cl_devices_1_def devices_1_rows_def classic_rules del: append.simps append_assoc)

definition devices_2_rows :: "cl_row list" where
  "devices_2_rows =
    [(14, 0, 29, 12, 8), (15, 12, 29, 12, 8), (20, 0, 37, 24, 1), (21, 0, 38, 24, 12),
     (22, 0, 50, 12, 10), (23, 12, 50, 12, 10)]"

lemma draws_devices_2: "draws CLASSIC_NAMES 29 cl_devices_2 devices_2_rows 50"
  by (simp add: cl_devices_2_def devices_2_rows_def classic_rules del: append.simps append_assoc)

definition logs_panels_rows :: "cl_row list" where
  "logs_panels_rows =
    [(1, 0, 0, 4, 4), (2, 4, 0, 4, 4), (3, 8, 0, 4, 4), (4, 12, 0, 4, 4), (5, 16, 0, 4, 4),
     (6, 20, 0, 4, 4), (7, 0, 4, 12, 7), (13, 12, 4, 12, 7), (8, 0, 11, 24, 14),
     (9, 0, 25, 12, 10), (10, 12, 25, 12, 10), (11, 0, 35, 12, 10), (12, 12, 35, 12, 10)]"

lemma draws_logs_panels: "draws LOKI_NAMES 0 cl_logs_panels logs_panels_rows 35"
  by (simp add: cl_logs_panels_def logs_panels_rows_def classic_rules del: append.simps append_assoc)


section \<open>The grid\<close>

definition row0 :: "cl_row \<Rightarrow> box" where
  "row0 t = (fst (snd t), fst (snd (snd t)), fst (snd (snd (snd t))), snd (snd (snd (snd t))), [])"

definition unnamed :: "box \<Rightarrow> box" where
  "unnamed b = (case b of (x, y, w, h, _) \<Rightarrow> (x, y, w, h, []))"

lemma unnamed_grid: "on_grid (unnamed b) = on_grid b"
  "overlaps (rect_of (unnamed a)) (rect_of (unnamed b)) = overlaps (rect_of a) (rect_of b)"
  by (simp_all add: unnamed_def split: prod.splits)

lemma unnamed_grid_ok: "grid_ok bs \<longleftrightarrow> list_all on_grid (map unnamed bs) \<and> apart (map rect_of (map unnamed bs))"
  using apart_cells by (auto simp: grid_ok_def apart_def list.pred_map o_def sorted_wrt_map unnamed_grid)

lemma good_boxes:
  "list_all2 (cl_good ok) ps rows \<Longrightarrow> \<exists>bs. mapR cl_box ps = Inr bs \<and> map unnamed bs = map row0 rows"
  by (induction rule: list_all2_induct) (auto simp: cl_good_def unnamed_def row0_def)

lemma good_ids: "list_all2 (cl_good ok) ps rows \<Longrightarrow> mapR cl_id ps = Inr (map fst rows)"
  by (induction rule: list_all2_induct) (auto simp: cl_good_def)

lemma good_vals: "list_all2 (cl_good ok) ps rows \<Longrightarrow> list_all (vals ok) ps"
  by (induction rule: list_all2_induct) (auto simp: cl_good_def)

text \<open>A panel on the grid passes the only assertion.\<close>

lemma on_grid_fits: "cl_box p = Inr b \<Longrightarrow> on_grid b \<Longrightarrow> cl_check_panel tail p = Inr ()"
  by (auto simp: cl_box_def cl_check_panel_def grid_pos_def pos_field_def jlookup_def bindR_Inr_iff res_iff)

definition tables_fit :: "cl_row list \<Rightarrow> bool" where
  "tables_fit rows = (distinct (map fst rows) \<and> list_all on_grid (map row0 rows) \<and>
     apart (map rect_of (map row0 rows)))"

lemma good_fits:
  assumes "list_all2 (cl_good ok) ps rows" "tables_fit rows"
  obtains bs where "mapR cl_box ps = Inr bs" "grid_ok bs" "allR (cl_check_panel tail) ps = Inr ()"
proof -
  obtain bs where bs: "mapR cl_box ps = Inr bs" "map unnamed bs = map row0 rows"
    using good_boxes [OF assms(1)] by blast
  then have grid: "grid_ok bs" using assms(2) unfolding unnamed_grid_ok bs(2) by (simp add: tables_fit_def)
  have "allR (cl_check_panel tail) ps = Inr ()"
    using bs(1) grid_ok_def [of bs] grid
  proof (induction ps arbitrary: bs)
    case (Cons p ps)
    then obtain b bs' where b: "bs = b # bs'" "cl_box p = Inr b" "mapR cl_box ps = Inr bs'"
      by (auto simp: bindR_Inr_iff)
    moreover have "on_grid b" "grid_ok bs'" using Cons.prems b(1)
      by (auto simp: grid_ok_def covered_once_Cons)
    ultimately show ?case using Cons.IH [of bs'] by (simp add: on_grid_fits grid_ok_def)
  qed simp
  then show ?thesis using bs(1) grid by (rule that [rotated 2]) 
qed

lemma good_accepted:
  "list_all2 (cl_good ok) ps rows \<Longrightarrow> tables_fit rows \<Longrightarrow> allR (cl_check_panel tail) ps = Inr ()"
  by (rule good_fits [where tail = tail])

section \<open>The dashboards\<close>

definition classic_sound :: "json \<Rightarrow> bool" where
  "classic_sound dash = (\<exists>panels ids boxes vs names. bindR (jget dash ''panels'') jlist = Inr panels \<and>
     mapR cl_id panels = Inr ids \<and> distinct ids \<and> mapR cl_box panels = Inr boxes \<and> grid_ok boxes \<and>
     bindR (jpath dash [''templating'', ''list'']) jlist = Inr vs \<and>
     mapR (\<lambda>v. bindR (jget v ''name'') jstr) vs = Inr names \<and>
     list_all (\<lambda>s. \<forall>v. var_occurs v s \<longrightarrow> v \<in> set names \<union> {''__rate_interval'', ''__interval''})
       (iter_strings dash))"

lemma classic_soundI:
  assumes "list_all2 (cl_good ok) ps rows" "tables_fit rows" "bindR (jget dash ''panels'') jlist = Inr ps"
    and "bindR (jpath dash [''templating'', ''list'']) jlist = Inr vs"
    and "mapR (\<lambda>v. bindR (jget v ''name'') jstr) vs = Inr names"
    and "set ok \<subseteq> set names \<union> {''__rate_interval'', ''__interval''}" "vals ok dash"
  shows "classic_sound dash"
proof -
  obtain bs where bs: "mapR cl_box ps = Inr bs" "grid_ok bs" using good_fits [OF assms(1,2)] by metis
  have "\<forall>v. var_occurs v s \<longrightarrow> v \<in> set names \<union> {''__rate_interval'', ''__interval''}"
    if "s \<in> set (iter_strings dash)" for s
  proof -
    have "clean ok s" using assms(7) that by (simp add: vals_def list_all_iff)
    then have "set (var_names s) \<subseteq> set ok" by (rule clean_vars)
    then show ?thesis using assms(6) var_names_iff [of _ s] by blast
  qed
  then show ?thesis unfolding classic_sound_def using assms(2-5) bs good_ids [OF assms(1)]
    by (auto simp: tables_fit_def list_all_iff simp del: jpath.simps)
qed

definition overview_rows :: "cl_row list" where "overview_rows = overview_1_rows @ overview_2_rows"
definition network_rows :: "cl_row list" where
  "network_rows = network_1_rows @ network_2_rows @ network_3_rows @ network_4_rows"
definition devices_rows :: "cl_row list" where "devices_rows = devices_1_rows @ devices_2_rows"

lemma overview_drawn: "list_all2 (cl_good CLASSIC_NAMES) (drawn cl_overview_panels) overview_rows"
  unfolding cl_overview_panels_def overview_rows_def
  by (rule draws_drawn [OF draws_append [OF draws_overview_1 draws_overview_2]])

lemma network_drawn: "list_all2 (cl_good CLASSIC_NAMES) (drawn cl_network_panels) network_rows"
  unfolding cl_network_panels_def network_rows_def
  by (rule draws_drawn [OF draws_append [OF draws_network_1 draws_append [OF draws_network_2
        draws_append [OF draws_network_3 draws_network_4]]]])

lemma devices_drawn: "list_all2 (cl_good CLASSIC_NAMES) (drawn cl_devices_panels) devices_rows"
  unfolding cl_devices_panels_def devices_rows_def
  by (rule draws_drawn [OF draws_append [OF draws_devices_1 draws_devices_2]])

lemma logs_drawn: "list_all2 (cl_good LOKI_NAMES) (drawn cl_logs_panels) logs_panels_rows"
  by (rule draws_drawn [OF draws_logs_panels])

lemma classic_fit: "tables_fit overview_rows" "tables_fit network_rows" "tables_fit devices_rows" "tables_fit logs_panels_rows"
  by (simp_all add: tables_fit_def overview_rows_def network_rows_def devices_rows_def overview_1_rows_def
      overview_2_rows_def network_1_rows_def network_2_rows_def network_3_rows_def network_4_rows_def
      devices_1_rows_def devices_2_rows_def logs_panels_rows_def row0_def apart_def)

lemma classic_document:
  assumes "list_all2 (cl_good CLASSIC_NAMES) ps rows" "tables_fit rows" "clean CLASSIC_NAMES uid"
    and "clean CLASSIC_NAMES title" "clean CLASSIC_NAMES description" "list_all (clean CLASSIC_NAMES) tags" "tags \<noteq> []"
  shows "\<exists>d. cl_make_dashboard uid title description ps (Some tags) ''30s'' ''now-3h'' = Inr d \<and> classic_sound d"
proof -
  let ?d = "cl_document uid title description ps (Some tags) ''30s'' ''now-3h''"
  have built: "cl_make_dashboard uid title description ps (Some tags) ''30s'' ''now-3h'' = Inr ?d"
    by (simp add: cl_make_dashboard_def good_accepted [OF assms(1,2)])
  obtain vs where vs: "bindR (jpath ?d [''templating'', ''list'']) jlist = Inr vs"
    "mapR (\<lambda>v. bindR (jget v ''name'') jstr) vs = Inr [''DS_PROMETHEUS'', ''router'', ''wan_interface'',
       ''wifi24_interface'', ''wifi5_interface'', ''vpn_interface'']"
    by (simp add: cl_document_def cl_TEMPLATING_def)
  have "vals CLASSIC_NAMES ?d"
    using assms good_vals [OF assms(1)]
    by (simp add: cl_document_def cl_TEMPLATING_def cl_ANNOTATIONS_def vals_rules panel_text or_default_def
        list.pred_map o_def)
  then have "classic_sound ?d"
    by (rule classic_soundI [OF assms(1,2) _ vs, rotated 2]) (simp_all add: cl_document_def CLASSIC_NAMES_def)
  then show ?thesis using built by blast
qed

lemma classic_logs: "\<exists>d. cl_build_logs = Inr d \<and> classic_sound d"
proof -
  let ?d = "cl_logs_document (drawn cl_logs_panels)"
  have built: "cl_build_logs = Inr ?d"
    by (simp add: cl_build_logs_def good_accepted [OF logs_drawn classic_fit(4)])
  obtain vs where vs: "bindR (jpath ?d [''templating'', ''list'']) jlist = Inr vs"
    "mapR (\<lambda>v. bindR (jget v ''name'') jstr) vs = Inr [''DS_LOKI'', ''router'']"
    by (simp add: cl_logs_document_def cl_LOKI_TEMPLATING_def)
  have "vals LOKI_NAMES ?d"
    using good_vals [OF logs_drawn]
    by (simp add: cl_logs_document_def cl_LOKI_TEMPLATING_def cl_ANNOTATIONS_def vals_rules panel_text
        del: append.simps append_assoc)
  then have "classic_sound ?d"
    by (rule classic_soundI [OF logs_drawn classic_fit(4) _ vs, rotated 2])
      (simp_all add: cl_logs_document_def LOKI_NAMES_def)
  then show ?thesis using built by blast
qed

lemma classic_all: "list_all (\<lambda>(file, r). \<exists>d. r = Inr d \<and> classic_sound d) classic_dashboards"
proof -
  have "\<exists>d. cl_build_overview = Inr d \<and> classic_sound d"
    unfolding cl_build_overview_def
    by (rule classic_document [OF overview_drawn classic_fit(1)]) (simp_all add: panel_text del: append.simps append_assoc)
  moreover have "\<exists>d. cl_build_network = Inr d \<and> classic_sound d"
    unfolding cl_build_network_def
    by (rule classic_document [OF network_drawn classic_fit(2)]) (simp_all add: panel_text del: append.simps append_assoc)
  moreover have "\<exists>d. cl_build_devices = Inr d \<and> classic_sound d"
    unfolding cl_build_devices_def
    by (rule classic_document [OF devices_drawn classic_fit(3)]) (simp_all add: panel_text del: append.simps append_assoc)
  ultimately show ?thesis using classic_logs by (simp add: classic_dashboards_def)
qed

end
