(* ===== verification/Check_Versions.thy ===== *)
theory Check_Versions
  imports Grid Assembly
begin

text \<open>
  The advanced and the NetFlow generator write the checks of the layout, the panels, the grid and the
  variables in their own way. How these relate to the checks the other generators share, on values
  that no builder need have made.
\<close>

section \<open>The grid, tab by tab\<close>

text \<open>A tab with a title and exactly one row, the only kind whose rows the two versions read alike.\<close>

definition one_row :: "json \<Rightarrow> string \<Rightarrow> bool" where
  "one_row tab title \<longleftrightarrow> bindR (jpath tab [''spec'', ''title'']) jstr = Inr title \<and>
     (\<exists>row. bindR (jpath tab [''spec'', ''layout'', ''spec'', ''rows'']) jlist = Inr [row])"

lemma one_row_tab:
  assumes "one_row tab title"
  shows "adv_check_tab tab = Inr () \<longleftrightarrow> (\<exists>items. tab_items tab = Inr (title, items) \<and> items_ok items)"
    and "tab_items tab = Inr (t, items) \<Longrightarrow> t = title"
proof -
  from assms obtain row where
    t: "bindR (jpath tab [''spec'', ''title'']) jstr = Inr title"
      "bindR (jpath tab [''spec'', ''layout'', ''spec'', ''rows'']) jlist = Inr [row]"
    by (auto simp: one_row_def)
  let ?r = "bindR (jpath row [''spec'', ''layout'', ''spec'', ''items'']) jlist"
  have "tab_items tab = bindR ?r (\<lambda>items. Inr (title, items))"
    by (simp only: tab_items_def t bindR.simps rows_items.simps bindR_assoc append_Nil2)
  moreover have "adv_check_tab tab = bindR ?r (\<lambda>items. bindR (foldR (adv_check_item title) [] items) (\<lambda>_. Inr ()))"
    by (simp only: adv_check_tab_def t bindR.simps list.case)
  ultimately show "adv_check_tab tab = Inr () \<longleftrightarrow> (\<exists>items. tab_items tab = Inr (title, items) \<and> items_ok items)"
    and "tab_items tab = Inr (t, items) \<Longrightarrow> t = title"
    using advanced.tab_ok [of title] by (cases ?r; simp)+
qed

lemma by_tab_one_row:
  "list_all2 one_row tabs titles \<Longrightarrow> distinct titles \<Longrightarrow> fst ` set acc \<inter> set titles = {} \<Longrightarrow>
   foldR (\<lambda>acc tab. bindR (tab_items tab) (\<lambda>(title, items). Inr (AList.update title items acc))) acc tabs =
   bindR (mapR tab_items tabs) (\<lambda>its. Inr (acc @ its))"
proof (induction tabs titles arbitrary: acc rule: list_all2_induct)
  case (Cons tab tabs title titles)
  show ?case
  proof (cases "tab_items tab")
    case (Inr r)
    obtain t items where r: "r = (t, items)" by (cases r)
    with one_row_tab(2) [OF Cons.hyps(1)] Inr have "t = title" by simp
    then have "AList.update t items acc = acc @ [(t, items)]" using Cons.prems(2) by (intro update_new) auto
    moreover have "fst ` set (acc @ [(t, items)]) \<inter> set titles = {}"
      using Cons.prems \<open>t = title\<close> by auto
    ultimately show ?thesis using Cons.IH [of "acc @ [(t, items)]"] Cons.prems(1) Inr r
      by (cases "mapR tab_items tabs") simp_all
  qed simp
qed simp

lemma mapR_all:
  "(\<exists>ys. mapR f xs = Inr ys \<and> list_all P ys) \<longleftrightarrow> (\<forall>x \<in> set xs. \<exists>y. f x = Inr y \<and> P y)"
  by (induction xs) (auto simp: bindR_Inr_iff)

lemma grids_agree:
  assumes "bindR (jpath layout [''spec'', ''tabs'']) jlist = Inr tabs"
    and "list_all2 one_row tabs titles" "distinct titles"
  shows "allR adv_check_tab tabs = Inr () \<longleftrightarrow> check_grid layout = Inr ()"
proof -
  have "grid_items_by_tab layout = mapR tab_items tabs"
    unfolding grid_items_by_tab_def assms(1) using by_tab_one_row [OF assms(2,3), of "[]"]
    by (cases "mapR tab_items tabs") simp_all
  then have "check_grid layout = Inr () \<longleftrightarrow> (\<forall>tab \<in> set tabs. \<exists>r. tab_items tab = Inr r \<and> items_ok (snd r))"
    unfolding check_grid_iff tabs_ok_def using mapR_all [of tab_items tabs "\<lambda>t. items_ok (snd t)"] by simp
  moreover have "(\<exists>r. tab_items tab = Inr r \<and> items_ok (snd r)) \<longleftrightarrow> adv_check_tab tab = Inr ()"
    if "tab \<in> set tabs" for tab
  proof -
    from that assms(2) obtain title where "one_row tab title" by (auto simp: list_all2_conv_all_nth in_set_conv_nth)
    from one_row_tab [OF this] show ?thesis by fastforce
  qed
  ultimately show ?thesis by (auto simp: allR_Inr_iff)
qed

lemma one_row_built: "list_all2 one_row (map tab_of tabs) (map fst tabs)"
  by (simp add: list_all2_map1 list_all2_map2 list_all2_same one_row_def tab_of_def tab_json_def)

section \<open>The panels\<close>

text \<open>
  What the shared check asks of a panel besides: that it names a unit, unless it is of a kind that
  needs none, and that \<open>pluginVersion\<close> does not occur in it.
\<close>

definition unit_given :: "json \<Rightarrow> bool" where
  "unit_given e =
     (case bindR (jpath e [''spec'', ''vizConfig'', ''group'']) jstr of
        Inl _ \<Rightarrow> False
      | Inr viz \<Rightarrow> viz \<in> {''text'', ''logs''} \<or>
          (case bindR (jpath e [''spec'', ''vizConfig'', ''spec'', ''fieldConfig'', ''defaults'']) jitems of
             Inl _ \<Rightarrow> False
           | Inr defaults \<Rightarrow> map_of defaults ''unit'' \<noteq> None))"

text \<open>The panel with number \<open>pid\<close> as the assertions of the advanced check want it.\<close>

definition adv_panel_sound :: "item \<Rightarrow> int \<Rightarrow> bool" where
  "adv_panel_sound it pid = (\<exists>spec viz os. fst it = panel_key pid \<and> jget (snd it) ''spec'' = Inr spec \<and>
     jget spec ''id'' = Inr (JInt pid) \<and> bindR (jpath spec [''vizConfig'', ''group'']) jstr = Inr viz \<and>
     (viz \<notin> {''text'', ''logs''} \<longrightarrow>
        (\<exists>d. bindR (jpath spec [''vizConfig'', ''spec'', ''fieldConfig'', ''defaults'']) jitems = Inr d \<and>
          map_of d ''unit'' \<noteq> Some (JStr ''short''))) \<and>
     jpath spec [''vizConfig'', ''spec'', ''options''] = Inr os \<and> ''noValue'' \<notin> set (jkeys os))"

lemma adv_check_panel_iff:
  "adv_check_panel ids it = Inr ids' \<longleftrightarrow> (\<exists>pid. adv_panel_sound it pid \<and> ids' = ids @ [pid])"
proof (cases "jget (snd it) ''spec''")
  case (Inl e)
  then show ?thesis by (cases it) (simp add: adv_check_panel_def adv_panel_sound_def bindR_Inr_iff)
next
  case spec: (Inr spec)
  show ?thesis
  proof (cases "bindR (jget spec ''id'') jint")
    case (Inl e)
    then have "jget spec ''id'' \<noteq> Inr (JInt pid)" for pid by auto
    then show ?thesis using spec Inl
      by (cases it) (simp add: adv_check_panel_def adv_panel_sound_def bindR_Inr_iff [of "ensure _ _"])
  next
    case id: (Inr pid)
    then have id': "jget spec ''id'' = Inr (JInt pid)" by (simp add: id_check)
    show ?thesis
    proof (cases "bindR (jpath spec [''vizConfig'', ''group'']) jstr")
      case (Inl e)
      then show ?thesis using spec id
        by (cases it) (simp add: adv_check_panel_def adv_panel_sound_def bindR_Inr_iff [of "ensure _ _"]
            del: jpath.simps)
    next
      case viz: (Inr viz)
      show ?thesis
        using spec id id' viz starts_panel [of "fst it" pid]
        by (cases it; cases "jpath spec [''vizConfig'', ''spec'', ''options'']";
            cases "bindR (jpath spec [''vizConfig'', ''spec'', ''fieldConfig'', ''defaults'']) jitems")
          (auto simp: adv_check_panel_def adv_panel_sound_def panel_key_def Let_def ensure_Inr_iff
            bindR_Inr_iff [of "ensure _ _"] bindR_Inr_iff [of "if _ then _ else _"] if_Inr_unit
            simp del: jpath.simps)
    qed
  qed
qed

lemma panel_sound_adv:
  "panel_sound [''text'', ''logs''] it pid \<longleftrightarrow> adv_panel_sound it pid \<and> unit_given (snd it) \<and>
     \<not> py_in ''pluginVersion'' (json_text False (snd it))"
proof (cases "jget (snd it) ''spec''")
  case (Inl e)
  then show ?thesis by (simp add: panel_sound_def adv_panel_sound_def)
next
  case spec: (Inr spec)
  have p: "jpath (snd it) (''spec'' # ks) = jpath spec ks" for ks by (simp add: spec)
  show ?thesis
    by (cases "bindR (jpath spec [''vizConfig'', ''group'']) jstr";
        cases "bindR (jpath spec [''vizConfig'', ''spec'', ''fieldConfig'', ''defaults'']) jitems")
      (auto simp: panel_sound_def adv_panel_sound_def unit_given_def has_unit_def p spec
        simp del: jpath.simps json_text.simps)
qed

lemma panels_differ:
  "check_panel [''text'', ''logs''] ids it = Inr ids' \<longleftrightarrow>
     adv_check_panel ids it = Inr ids' \<and> unit_given (snd it) \<and>
     \<not> py_in ''pluginVersion'' (json_text False (snd it))"
  unfolding check_panel_iff adv_check_panel_iff panel_sound_adv by blast

end
