(* ===== verification/Dashboard_Properties.thy ===== *)
theory Dashboard_Properties
  imports Topology_Built Advanced_Built Ops_Built Clients_Built Netflow_Built Builder_Spec Grid_Area
    Flow_Labels Mission_Sound Classic_Built Check_Versions
begin

text \<open>
  The properties of the dashboard generators: that they return, what their validators decide and
  what an accepted dashboard satisfies, and the specification the builder refines.
\<close>

section \<open>The generators return\<close>

text \<open>
  C15: The operations generator returns: no key of its 116 panels is added twice and none of its
  validator's assertions fails. The dashboard is the specification over all panels, in order.
\<close>

theorem ops_returns:
  "ops_build_dashboard = Inr (ops_dashboard (ops_spec (elements_of ops_tabs) (map tab_of ops_tabs)))"
  by (rule ops_build)

lemma netflow_returns:
  "nf_build_dashboard = Inr (nf_dashboard (nf_spec (elements_of nf_tabs) (map tab_of nf_tabs)))"
  by (rule nf_build)

lemma clients_returns:
  "cli_build_dashboard = Inr (cli_dashboard (cli_spec (elements_of cli_tabs) (map tab_of cli_tabs)))"
  by (rule cli_build)

lemma topology_returns:
  "topo_build_dashboard = Inr (topo_dashboard (topo_spec (elements_of topo_tabs) (map tab_of topo_tabs)))"
  by (rule topo_build)

lemma advanced_returns:
  "adv_build_dashboard = Inr (adv_dashboard (adv_spec (elements_of adv_tabs) (map tab_of adv_tabs)))"
  by (rule adv_build)

text \<open>
  C39: The NetFlow, the client, the topology and the advanced generator return. Every SQL text passes the
  sampling check and no quantile is taken over anything but buckets; the expressions the client
  validator asks for are there and none uses the two metrics it forbids, also behind the 72 label
  rewrites of the signal queries; the node graph passes every structural assertion and keeps the
  suppression of infrastructure addresses and the authority preference.
\<close>

theorem generators_return:
  "nf_build_dashboard = Inr (nf_dashboard (nf_spec (elements_of nf_tabs) (map tab_of nf_tabs))) \<and>
   cli_build_dashboard = Inr (cli_dashboard (cli_spec (elements_of cli_tabs) (map tab_of cli_tabs))) \<and>
   topo_build_dashboard = Inr (topo_dashboard (topo_spec (elements_of topo_tabs) (map tab_of topo_tabs))) \<and>
   adv_build_dashboard = Inr (adv_dashboard (adv_spec (elements_of adv_tabs) (map tab_of adv_tabs)))"
  using netflow_returns clients_returns topology_returns advanced_returns by blast

text \<open>
  C14: The four classic dashboards are built, and although their generator only asserts the right edge of
  each panel, more holds: no panel number is used twice, on the running row the panels lie on the grid
  and no cell is covered twice, and every template variable in a text is defined or one of the two
  globals of Grafana used.
\<close>

theorem classic_dashboards_sound:
  "list_all (\<lambda>(file, r). \<exists>d. r = Inr d \<and> classic_sound d) classic_dashboards"
  by (rule classic_all)

text \<open>
  C13: The mission control generator returns a dashboard of 83 panels: none of them is made without a
  description, the edit of panel 908 finds the dictionary it removes a name from, and every assertion
  of its validator holds, those on units, threshold bases, range windows and multi-value variables
  included.
\<close>

theorem mission_returns:
  "mc_build_dashboard = Inr (mc_dashboard (mc_spec (elements_of edited_tabs) (map tab_of edited_tabs))) \<and>
   length (elements_of edited_tabs) = 83"
  using mc_build mc_budget by simp

section \<open>What the checks decide\<close>

text \<open>
  C9: The grid check accepts a layout exactly when the items of every tab can be read and, as boxes
  of cells, lie on the 24-column grid with no cell covered twice. This holds for every JSON value,
  not only for layouts the builder makes.
\<close>

theorem check_grid_exact:
  "check_grid layout = Inr () \<longleftrightarrow>
     (\<exists>by_tab. grid_items_by_tab layout = Inr by_tab \<and> tabs_ok by_tab)"
  by (rule check_grid_iff)

text \<open>
  C35: The scanner of template variables reports a name exactly when it stands in the text behind
  \<open>$\<close> or \<open>${\<close> and ends there: the left-to-right scan that never looks back misses no occurrence and
  adds none.
\<close>

theorem var_names_exact: "v \<in> set (var_names s) \<longleftrightarrow> var_occurs v s"
  by (rule var_names_iff)

text \<open>
  C34: The scan for aggregates, which continues behind each match, reports exactly the parenthesis-free
  arguments over bytes or packets of all calls of \<open>sum\<close> and \<open>sumIf\<close> in the SQL text.
\<close>

theorem sum_args_exact: "inner \<in> set (sum_args sql) \<longleftrightarrow> sum_occurs inner sql"
  by (rule sum_args_iff)

text \<open>
  C40: The check of range functions accepts a PromQL text exactly when behind every call of \<open>rate\<close>,
  \<open>increase\<close> or \<open>irate\<close> the leftmost bracket that holds something, within 400 characters, holds one
  of the five known windows.
\<close>

theorem range_windows_exact: "check_ranges (JStr ''prometheus'') e = Inr () \<longleftrightarrow> windowed e"
  by (rule check_ranges_iff)

text \<open>
  C36: How the checks the advanced generator writes in its own way relate to the shared ones, on every
  JSON value. Those of the references and of the variables accept the same values. The one of a panel
  accepts more: exactly what the shared check accepts and, besides, panels that name no unit at all
  and panels in which \<open>pluginVersion\<close> occurs (which the advanced validator looks for in the text of the
  whole dashboard). Those of the grid accept the same layouts among the ones whose tabs have one row
  each and different titles, the only ones the builder makes.
\<close>

theorem advanced_checks_related:
  "(adv_check_refs layout elements = Inr () \<longleftrightarrow> check_refs layout elements = Inr ()) \<and>
   (adv_check_vars spec = Inr () \<longleftrightarrow> check_vars GLOBALS_ALLOWED [''DS_PROMETHEUS''] spec = Inr ()) \<and>
   (check_panel [''text'', ''logs''] ids it = Inr ids' \<longleftrightarrow>
      adv_check_panel ids it = Inr ids' \<and> unit_given (snd it) \<and>
      \<not> py_in ''pluginVersion'' (json_text False (snd it))) \<and>
   (bindR (jpath layout [''spec'', ''tabs'']) jlist = Inr tabs \<and> list_all2 one_row tabs titles \<and>
      distinct titles \<longrightarrow> (allR adv_check_tab tabs = Inr () \<longleftrightarrow> check_grid layout = Inr ()))"
  using adv_check_refs_iff adv_check_vars_iff panels_differ grids_agree by blast

lemma advanced_checks_related_witness:
  "allR adv_check_tab (map tab_of adv_tabs) = Inr () \<longleftrightarrow>
     check_grid (layout_json (map tab_of adv_tabs)) = Inr ()"
proof -
  have "bindR (jpath (layout_json (map tab_of adv_tabs)) [''spec'', ''tabs'']) jlist =
      Inr (map tab_of adv_tabs)" by (simp add: layout_json_def)
  moreover have "distinct (map fst adv_tabs)" by (simp add: adv_tabs_def)
  ultimately show ?thesis
    using advanced_checks_related [of "layout_json (map tab_of adv_tabs)"] one_row_built [of adv_tabs]
    by blast
qed

section \<open>The builder\<close>

text \<open>
  C10: The builder refines its contract: for every list of tabs, building with the code's lists and
  then reading the result is building with the finite map and the boxes, errors included.
\<close>

theorem builder_refines:
  "map_sum id abs_board (build_tabs tabs) = foldR spec_tab (Map.empty, []) tabs"
  by (rule build_tabs_refines)

section \<open>What an accepted dashboard satisfies\<close>

text \<open>
  C5: Any dashboard the operations, the client or the topology validator accepts is sound: the layout
  references every element once and nothing else, every panel's key, number, unit and options fit,
  no two panels of a tab meet on the 24-column grid, and every template variable that occurs in a
  text is defined or a global of Grafana.
\<close>

theorem validators_sound:
  "(ops_validate_dashboard d = Inr () \<longrightarrow> dashboard_sound [''text'', ''logs''] GLOBALS_ALLOWED d) \<and>
   (cli_validate_dashboard d = Inr () \<longrightarrow> dashboard_sound [''text''] GLOBALS_ALLOWED d) \<and>
   (topo_validate_dashboard d = Inr () \<longrightarrow> dashboard_sound [''text''] TOPO_GLOBALS d)"
  using ops_sound cli_sound topo_sound by blast

lemma validators_sound_witness:
  "dashboard_sound [''text'', ''logs''] GLOBALS_ALLOWED
     (ops_dashboard (ops_spec (elements_of ops_tabs) (map tab_of ops_tabs)))"
  using validators_sound ops_valid by blast

text \<open>
  C7: In any dashboard the NetFlow validator accepts, no SQL text filters on the interface boundary,
  every parenthesis-free argument of a sum over bytes or packets names the sampling rate, and a
  histogram quantile reads bucket series only.
\<close>

theorem netflow_validator_sound:
  assumes "nf_validate_dashboard d = Inr ()"
  shows "netflow_sound d"
  using assms by (rule nf_sound)

lemma netflow_validator_sound_witness:
  "netflow_sound (nf_dashboard (nf_spec (elements_of nf_tabs) (map tab_of nf_tabs)))"
  by (rule netflow_validator_sound) (rule nf_valid)



text \<open>
  C37: In a layout the grid check accepts, the panels of a tab stay within 24 columns, start at no
  negative row and are not empty, and together they take no more cells than the 24 columns have down
  to the lowest edge.
\<close>

theorem accepted_tab_bounds:
  assumes "check_grid layout = Inr ()" "grid_items_by_tab layout = Inr by_tab"
    and "(title, items) \<in> set by_tab" "mapR read_item items = Inr bs"
  shows "list_all on_grid bs \<and> sum_list (map box_area bs) \<le> 24 * bottom bs"
proof -
  have "items_ok items" using assms(1-3) by (auto simp: check_grid_iff tabs_ok_def list_all_iff)
  then have "grid_ok bs" using assms(4) by (simp add: items_ok_def)
  then show ?thesis using grid_area by (simp add: grid_ok_def)
qed

lemma accepted_tab_bounds_witness:
  "list_all on_grid (map box_of topo_overview) \<and>
     sum_list (map box_area (map box_of topo_overview)) \<le> 24 * bottom (map box_of topo_overview)"
proof (rule accepted_tab_bounds)
  have "distinct (map fst topo_tabs)" by (simp add: topo_tabs_def)
  then show "grid_items_by_tab (layout_of topo_tabs) = Inr (map (\<lambda>t. (fst t, map item_of (snd t))) topo_tabs)"
    unfolding layout_of_def by (rule grid_items_built)
  show "check_grid (layout_of topo_tabs) = Inr ()" by (rule tables_grid [OF topo_tables])
  show "(''Overview'', map item_of topo_overview) \<in> set (map (\<lambda>t. (fst t, map item_of (snd t))) topo_tabs)"
    by (simp add: topo_tabs_def)
  show "mapR read_item (map item_of topo_overview) = Inr (map box_of topo_overview)"
    by (rule read_items_of)
qed

section \<open>Labels and buckets of the NetFlow queries\<close>

text \<open>
  C38: The columns of the packet-size heatmap partition the sizes: the SQL the loop over the edges
  builds is one sum per bucket with that bucket's bounds as its condition, and every packet size lies
  in exactly one bucket.
\<close>

theorem packet_buckets:
  "packet_size_columns = py_join '', '' (map bucket_column (buckets 0 PACKET_SIZE_EDGES)) \<and>
   length (filter (in_bucket (int n)) (buckets 0 PACKET_SIZE_EDGES)) = 1"
  using packet_columns buckets_partition [OF edges_rise, of "int n"] by simp

text \<open>
  The label lists agree with the SQL that yields the labels: every outcome of the TCP decoder and
  of the service classifier is a pivot column exactly once, the direction columns are the outcomes
  of the direction expression (which also quotes the role it tests for), and the colour overrides
  name the same labels in the same order.
\<close>

lemma labels_agree:
  "distinct TCP_SHAPES \<and> set (quoted TCP_SHAPE) = set TCP_SHAPES \<and>
   distinct SERVICE_CLASSES \<and> set (quoted SERVICE_CLASS) = set SERVICE_CLASSES \<and>
   distinct DIRECTIONS \<and> set (quoted DIRECTION_EXPR) = insert ''internal'' (set DIRECTIONS) \<and>
   mapR override_name DIRECTION_COLORS = Inr DIRECTIONS \<and>
   mapR override_name TCP_SHAPE_COLORS = Inr TCP_SHAPES"
  using label_lists by blast

text \<open>
  The sampling check has a gap: where an argument of a sum holds a parenthesis it is not looked
  at, so the pivots over the direction expression pass whatever they sum, also bytes that are not
  multiplied by the sampling rate.
\<close>

lemma uncorrected_pivot_passes:
  "check_sql element (ch_query (''SELECT '' @ pivot_columns DIRECTION_EXPR DIRECTIONS ''Bytes'' @
     '' FROM flows'') ref fmt) = Inr ()"
proof -
  have "sum_args (''SELECT '' @ pivot_columns DIRECTION_EXPR DIRECTIONS ''Bytes'' @ '' FROM flows'') = []"
    "\<not> py_in ''IfBoundary'' (''SELECT '' @ pivot_columns DIRECTION_EXPR DIRECTIONS ''Bytes'' @ '' FROM flows'')"
    by code_simp+
  then show ?thesis by (simp add: check_sql_def query_text_def ch_query_def del: append.simps)
qed

end
