(* ===== verification/Spec2Isabelle.thy ===== *)
theory Spec2Isabelle
  imports Mcp_Checks Oui_Lookup Oui_File Dashboard_Properties
begin

text \<open>
  A verification development for openwrt-grafana-monitor: the Python of the repository that decides
  something, as definitions that compute, with the properties that make it correct.

  \<^bold>\<open>The program.\<close> Three parts that share no state. The MCP server (\<open>mcp_server/\<close>) lets an assistant
  run a fixed set of operations on routers over SSH. The vendor table (\<open>scripts/build_oui_table.py\<close>)
  is generated from the IEEE registry and read on the router by \<open>openwrt/lua/oui.lua\<close>. The dashboard
  generators (\<open>scripts/build_openwrt_*_dashboard.py\<close>) build Grafana dashboards as JSON values and
  refuse to return one their own assertions reject.

  \<^bold>\<open>Foundations.\<close> \<open>Prelude\<close> holds the exceptions (\<open>py_exc\<close>), the result type \<open>'a res\<close> (\<open>Inl\<close> the
  exception, \<open>Inr\<close> the value), its loops \<open>mapR\<close>, \<open>allR\<close>, \<open>foldR\<close> and the collections of rules for them.
  \<open>Pystr\<close> models the string operations the code uses, \<open>Py_Net\<close> the parts of \<open>ipaddress\<close> and \<open>shlex\<close>
  and the word rules of the shell, \<open>Quoting\<close> the locale of a quoting function and its reader.

  \<^bold>\<open>MCP server.\<close>
  \<^item> \<open>Mcp_Core\<close>: \<open>core.py\<close>, definition by definition: validators, the inventory parser, the command
    builders, confirmation, truncation, redaction. \<open>Mcp_Server\<close>: \<open>server.py\<close>, the settings, the request
    filter, the SSH runner, staging and the ten tools, as functions that append to a list of events.
    The SSH library, the file system, \<open>tarfile\<close>, the clock and the decoder of outputs are parameters
    (the record \<open>outside\<close>). A client is an event from the moment it is made, before its connect, so a
    client that a failed connect leaves behind is seen. The staging loop, which may poll for ever, is
    a partial function whose value \<open>None\<close> is not returning; \<open>collect_iff\<close> says for which runs it returns.
  \<^item> \<open>Mcp_Commands\<close>: the command lines read back as the intended words. \<open>Mcp_Inventory\<close>: the parser
    against a printer, and which errors leave it. \<open>Redaction\<close>, \<open>Mcp_Policy\<close>, \<open>Mcp_Safety\<close>: invariants of
    one call, among them the life of its client as an automaton over the events; \<open>Mcp_Properties\<close>: the
    properties of any sequence of calls, and that what a call does besides its captured texts does not
    depend on the secrets; \<open>Mcp_Checks\<close>: request filter, reports, limits, validators.

  \<^bold>\<open>Vendor table.\<close> \<open>Oui_Table\<close>: rules, base 36, row filter, dictionary build, rendering and the Lua
  reader, whose digits are given by character codes and not by the generator's alphabet; \<open>Oui_Search\<close>:
  binary search over fixed-width records against \<open>map_of\<close>, as a locale; \<open>Oui_Correct\<close>: what the
  generator guarantees; \<open>Oui_Lookup\<close>: generator and lookup together; \<open>Oui_File\<close>: a lexer and reader for
  the part of Lua the generated file is written in, by which the whole file reads as its table.

  \<^bold>\<open>Dashboards.\<close>
  \<^item> \<open>Json\<close>: dictionaries as item lists, reading, walking, \<open>json.dumps\<close>. \<open>Widgets\<close>: the constructors
    and constants of \<open>build_openwrt_operations_dashboard.py\<close> all generators share; keyword arguments
    are the record \<open>kwargs\<close>. \<open>Builder\<close>: \<open>DashboardBuilder\<close> and the loops of \<open>validate_dashboard\<close>.
  \<^item> \<open>Ops_Dashboard\<close>, \<open>Topology_Dashboard\<close>, \<open>Advanced_Dashboard\<close>, \<open>Clients_Dashboard\<close>,
    \<open>Netflow_Dashboard\<close>: every tab of five generators, as lists of panels with their rectangles.
    \<open>Validate\<close>, \<open>Netflow_Validate\<close>: their validators and \<open>build_dashboard\<close>.
  \<^item> \<open>Layout\<close>, \<open>Grid\<close>, \<open>Grid_Area\<close>, \<open>Builder_Spec\<close>: the builder and the layout checks against
    specifications by keys, cells and finite maps. \<open>Check_Versions\<close>: the checks two generators write in
    their own way against the shared ones. \<open>Variables\<close>: the scanner of template variables
    against occurrences. \<open>Sql_Check\<close>: the scanner of aggregates against occurrences. \<open>Flow_Labels\<close>:
    the hand-kept lists of the NetFlow generator. \<open>Soundness\<close>: what a validator promises.
  \<^item> \<open>Json_Text\<close>, \<open>Scan\<close>, \<open>Panel_Text\<close>, \<open>Panels\<close>, \<open>Panel_Checks\<close>, \<open>Assembly\<close>, \<open>Queries\<close>, \<open>Document\<close>:
    how an assertion on a whole dashboard follows from facts on its constructors and texts; automata
    read each text once, piece by piece. \<open>Ops_Built\<close>, \<open>Topology_Built\<close>, \<open>Advanced_Built\<close>,
    \<open>Clients_Built\<close>, \<open>Netflow_Built\<close>: these five generators return. \<open>Dashboard_Properties\<close>: the
    properties.

  \<^bold>\<open>Mission control.\<close> \<open>build_openwrt_mission_control.py\<close>, the largest generator, shares the builder
  and the query constructors and has its own panels and validator.
  \<^item> \<open>Mission_Widgets\<close>: its constants, constructors (they return an \<open>'a res\<close>: a panel without
    description is refused), expressions and variables. \<open>Mission_Dashboard\<close>: the nine tabs.
    \<open>Mission_Validate\<close>: \<open>validate_dashboard\<close>, the edit of one panel after the tabs, \<open>build_dashboard\<close>.
  \<^item> \<open>Mission_Scan\<close>: the scans for range functions and multi-value variables against occurrences, and an
    automaton for each that reads a text once. \<open>Mission_Panels\<close>, \<open>Mission_Makers\<close>: what each constructor
    guarantees. \<open>Mission_Tabs\<close>, \<open>Mission_Patch\<close>: every panel with its number and rectangle, before and
    after the edit. \<open>Mission_Built\<close>: the generator returns. \<open>Mission_Sound\<close>: what its validator promises.

  \<^bold>\<open>Classic dashboards.\<close> \<open>build_dashboards.py\<close> has constructors of its own and one assertion.
  \<open>Classic_Dashboards\<close>: constructors, wrapper and the four dashboards; a builder is a list of steps,
  \<open>Put\<close> for a panel as a function of the running row and \<open>Down\<close> for \<open>y += n\<close>. \<open>Classic_Panels\<close>: number, box
  and texts of each constructor; \<open>Classic_Built\<close>: the dashboards are built and sound.

  \<^bold>\<open>Conventions.\<close> Text beyond ASCII is its UTF-8 bytes, also where \<open>json.dumps\<close> would write an escape
  sequence. A float is the text Python prints for it. A message that prints a set, whose order
  Python leaves open, stops before it. Dictionaries made by comprehension from a list of names keep
  that list; the names the code passes differ. Template variables and SQL are matched as bytes: the
  patterns' character classes are taken in ASCII.

  \<^bold>\<open>Not modelled.\<close> The \<open>main\<close> functions of the generators and \<open>stable_json\<close>, which write files; the CSV
  parser and the download of the registry; the ASGI wiring of the server. The shell
  scripts and Lua collectors run on the router against its services and are not Python.
\<close>

end
